(* ===== verification/Prelude.thy ===== *)
theory Prelude
  imports Main "HOL-Library.Char_ord" "HOL-Library.List_Lexorder"
begin

text \<open>
  Shared base of the development: the state-and-error computations in which the service's
  transaction bodies are written, a success-only weakest precondition \<open>wp\<close> for them, a calculus
  for relations that every successful computation keeps, and generic facts on keyed rows (a
  database table is a list of rows, looked up by a key). Nothing here mentions the program.

  A computation takes a state and returns either an error (\<open>Inl\<close>) or a value (\<open>Inr\<close>) together
  with the state it leaves. An error stops the computation, as an early \<open>return err\<close> does in the
  code; the state it leaves is what a caller without a transaction would see.
\<close>

named_theorems wp_simps "equations that compute the weakest precondition of a computation"

section \<open>Computations\<close>

type_synonym ('e, 's, 'a) comp = "'s \<Rightarrow> ('e + 'a) \<times> 's"

definition ret :: "'a \<Rightarrow> ('e, 's, 'a) comp" where
  "ret x = (\<lambda>s. (Inr x, s))"

definition throw :: "'e \<Rightarrow> ('e, 's, 'a) comp" where
  "throw e = (\<lambda>s. (Inl e, s))"

definition andthen :: "('e, 's, 'a) comp \<Rightarrow> ('a \<Rightarrow> ('e, 's, 'b) comp) \<Rightarrow> ('e, 's, 'b) comp" where
  "andthen m f = (\<lambda>s. case m s of (Inl e, s') \<Rightarrow> (Inl e, s') | (Inr x, s') \<Rightarrow> f x s')"

definition lift :: "'e + 'a \<Rightarrow> ('e, 's, 'a) comp" where
  "lift r = (\<lambda>s. (r, s))"

definition asks :: "('s \<Rightarrow> 'a) \<Rightarrow> ('e, 's, 'a) comp" where
  "asks f = (\<lambda>s. (Inr (f s), s))"

definition update :: "('s \<Rightarrow> 's) \<Rightarrow> ('e, 's, unit) comp" where
  "update f = (\<lambda>s. (Inr (), f s))"

text \<open>\<open>reject b e\<close> is the guard \<open>if b { return e }\<close>.\<close>

definition reject :: "bool \<Rightarrow> 'e \<Rightarrow> ('e, 's, unit) comp" where
  "reject b e = (if b then throw e else ret ())"

definition whenever :: "bool \<Rightarrow> ('e, 's, unit) comp \<Rightarrow> ('e, 's, unit) comp" where
  "whenever b m = (if b then m else ret ())"

text \<open>A \<open>for\<close> loop over a slice whose body may return an error, and the loop that collects.\<close>

fun each :: "'x list \<Rightarrow> ('x \<Rightarrow> ('e, 's, unit) comp) \<Rightarrow> ('e, 's, unit) comp" where
  "each [] f = ret ()"
| "each (x # xs) f = andthen (f x) (\<lambda>_. each xs f)"

fun collect :: "'x list \<Rightarrow> ('x \<Rightarrow> ('e, 's, 'a) comp) \<Rightarrow> ('e, 's, 'a list) comp" where
  "collect [] f = ret []"
| "collect (x # xs) f = andthen (f x) (\<lambda>y. andthen (collect xs f) (\<lambda>ys. ret (y # ys)))"

text \<open>A transaction runs its body on one component of the state and restores that component
  when the body fails; what the rest of the state records (identifiers drawn, clock readings)
  is not undone.\<close>

definition atomically ::
  "('s \<Rightarrow> 'd) \<Rightarrow> ('d \<Rightarrow> 's \<Rightarrow> 's) \<Rightarrow> ('e, 's, 'a) comp \<Rightarrow> ('e, 's, 'a) comp" where
  "atomically get put m =
     (\<lambda>s. case m s of (Inl e, s') \<Rightarrow> (Inl e, put (get s) s') | (Inr x, s') \<Rightarrow> (Inr x, s'))"

lemmas comp_defs = ret_def throw_def andthen_def lift_def asks_def update_def reject_def whenever_def
  atomically_def

lemma andthen_assoc: "andthen (andthen m f) g = andthen m (\<lambda>x. andthen (f x) g)"
  by (auto simp: andthen_def fun_eq_iff split: sum.splits prod.splits)

lemma andthen_ret [simp]: "andthen (ret x) f = f x" "andthen m ret = m"
  by (auto simp: andthen_def ret_def fun_eq_iff split: sum.splits prod.splits)

lemma andthen_throw [simp]: "andthen (throw e) f = throw e"
  by (simp add: andthen_def throw_def)

lemma andthen_success:
  "andthen m f s = (Inr y, s') \<longleftrightarrow> (\<exists>x t. m s = (Inr x, t) \<and> f x t = (Inr y, s'))"
  by (auto simp: andthen_def split: sum.splits prod.splits)

lemma each_append: "each (xs @ ys) f = andthen (each xs f) (\<lambda>_. each ys f)"
  by (induction xs) (simp_all add: andthen_assoc)

lemma atomically_failure:
  "atomically get put m s = (Inl e, s') \<Longrightarrow> (\<And>d t. get (put d t) = d) \<Longrightarrow> get s' = get s"
  by (auto simp: atomically_def split: sum.splits prod.splits)

lemma atomically_success:
  "atomically get put m s = (Inr x, s') \<longleftrightarrow> m s = (Inr x, s')"
  by (auto simp: atomically_def split: sum.splits prod.splits)

section \<open>Weakest preconditions of success\<close>

text \<open>\<open>wp m Q s\<close>: if \<open>m\<close> succeeds from \<open>s\<close>, its value and final state satisfy \<open>Q\<close>. Nothing is
  said of a run that fails: in a transaction its effect is rolled back.\<close>

definition wp :: "('e, 's, 'a) comp \<Rightarrow> ('a \<Rightarrow> 's \<Rightarrow> bool) \<Rightarrow> 's \<Rightarrow> bool" where
  "wp m Q s = (\<forall>x s'. m s = (Inr x, s') \<longrightarrow> Q x s')"

lemma wpD: "wp m Q s \<Longrightarrow> m s = (Inr x, s') \<Longrightarrow> Q x s'"
  by (simp add: wp_def)

lemma wpI: "(\<And>x s'. m s = (Inr x, s') \<Longrightarrow> Q x s') \<Longrightarrow> wp m Q s"
  by (simp add: wp_def)

lemma wp_mono: "wp m Q s \<Longrightarrow> (\<And>x s'. Q x s' \<Longrightarrow> R x s') \<Longrightarrow> wp m R s"
  by (simp add: wp_def)

text \<open>The equations compute the precondition as a function of the state, so that they also rewrite a
  \<open>wp\<close> that is not applied to a state yet.\<close>

lemma wp_ret [wp_simps]: "wp (ret x) Q = Q x"
  by (simp add: wp_def ret_def fun_eq_iff)

lemma wp_throw [wp_simps]: "wp (throw e) Q = (\<lambda>_. True)"
  by (simp add: wp_def throw_def fun_eq_iff)

lemma wp_andthen [wp_simps]: "wp (andthen m f) Q = wp m (\<lambda>x. wp (f x) Q)"
  by (auto simp: wp_def andthen_success fun_eq_iff)

lemma wp_lift [wp_simps]: "wp (lift r) Q = (\<lambda>s. \<forall>x. r = Inr x \<longrightarrow> Q x s)"
  by (auto simp: wp_def lift_def fun_eq_iff)

lemma wp_asks [wp_simps]: "wp (asks f) Q = (\<lambda>s. Q (f s) s)"
  by (simp add: wp_def asks_def fun_eq_iff)

lemma wp_update [wp_simps]: "wp (update f) Q = (\<lambda>s. Q () (f s))"
  by (simp add: wp_def update_def fun_eq_iff)

lemma wp_reject [wp_simps]: "wp (reject b e) Q = (\<lambda>s. \<not> b \<longrightarrow> Q () s)"
  by (simp add: wp_def reject_def ret_def throw_def fun_eq_iff)

lemma wp_whenever [wp_simps]: "wp (whenever b m) Q = (if b then wp m Q else Q ())"
  by (simp add: wp_def whenever_def ret_def fun_eq_iff)

lemma wp_if [wp_simps]: "wp (if b then m else n) Q = (if b then wp m Q else wp n Q)"
  by simp

lemma wp_atomically [wp_simps]: "wp (atomically get put m) Q = wp m Q"
  by (simp add: wp_def atomically_success fun_eq_iff)

lemma wp_conj: "wp m Q s \<Longrightarrow> wp m R s \<Longrightarrow> wp m (\<lambda>x s'. Q x s' \<and> R x s') s"
  by (simp add: wp_def)

text \<open>An invariant of the loop body is an invariant of the loop.\<close>

lemma wp_each:
  assumes "\<And>x t. x \<in> set xs \<Longrightarrow> I t \<Longrightarrow> wp (f x) (\<lambda>_. I) t" and "I s"
  shows "wp (each xs f) (\<lambda>_. I) s"
  using assms
proof (induction xs arbitrary: s)
  case Nil
  then show ?case by (simp add: wp_ret)
next
  case (Cons x xs)
  have "wp (each xs f) (\<lambda>_. I) t" if "I t" for t
    by (rule Cons.IH [OF _ that]) (simp add: Cons.prems)
  then have "wp (f x) (\<lambda>_. wp (each xs f) (\<lambda>_. I)) s"
    using Cons.prems(1) [OF _ Cons.prems(2)] by (auto intro: wp_mono)
  then show ?case by (simp add: wp_andthen)
qed

lemma wp_collect:
  assumes "\<And>x t. x \<in> set xs \<Longrightarrow> I t \<Longrightarrow> wp (f x) (\<lambda>_. I) t" and "I s"
  shows "wp (collect xs f) (\<lambda>_. I) s"
  using assms
proof (induction xs arbitrary: s)
  case Nil
  then show ?case by (simp add: wp_ret)
next
  case (Cons x xs)
  have "wp (collect xs f) (\<lambda>_. I) t" if "I t" for t
    by (rule Cons.IH [OF _ that]) (simp add: Cons.prems)
  then have "wp (f x) (\<lambda>y. wp (collect xs f) (\<lambda>_. I)) s"
    using Cons.prems(1) [OF _ Cons.prems(2)] by (auto intro: wp_mono)
  then show ?case by (simp add: wp_andthen wp_ret)
qed

section \<open>Relations that every successful computation keeps\<close>

text \<open>A relation \<open>le\<close> between states that is a preorder composes along a computation, so it is enough
  to check the primitive updates. An update under optimistic concurrency is justified by what was
  read before it: \<open>known k s\<close> is such a piece of knowledge ("this row was read earlier"), and it must
  survive every \<open>le\<close>-step. \<open>keeps K m\<close>: from every state in which all of \<open>K\<close> is known, a success of
  \<open>m\<close> ends in an \<open>le\<close>-later state. \<open>learns K m g\<close>: the result of \<open>m\<close> adds the knowledge \<open>g x\<close>.\<close>

locale state_order =
  fixes le :: "'s \<Rightarrow> 's \<Rightarrow> bool"
    and known :: "'k \<Rightarrow> 's \<Rightarrow> bool"
  assumes refl: "le s s"
    and trans: "le s t \<Longrightarrow> le t u \<Longrightarrow> le s u"
    and known_later: "known k s \<Longrightarrow> le s t \<Longrightarrow> known k t"
begin

definition keeps :: "'k set \<Rightarrow> ('e, 's, 'a) comp \<Rightarrow> bool" where
  "keeps K m = (\<forall>s x s'. (\<forall>k\<in>K. known k s) \<longrightarrow> m s = (Inr x, s') \<longrightarrow> le s s')"

definition learns :: "'k set \<Rightarrow> ('e, 's, 'a) comp \<Rightarrow> ('a \<Rightarrow> 'k set) \<Rightarrow> bool" where
  "learns K m g =
     (\<forall>s x s'. (\<forall>k\<in>K. known k s) \<longrightarrow> m s = (Inr x, s') \<longrightarrow> le s s' \<and> (\<forall>k\<in>g x. known k s'))"

lemma keeps_nothingD: "keeps {} m \<Longrightarrow> m s = (Inr x, s') \<Longrightarrow> le s s'"
  by (simp add: keeps_def)

lemma keeps_wp: "keeps {} m \<Longrightarrow> wp m (\<lambda>_ s'. le s s') s"
  by (simp add: keeps_def wp_def)

lemma learns_keeps: "learns K m g \<Longrightarrow> keeps K m"
  by (simp add: keeps_def learns_def)

lemma keeps_mono: "keeps K m \<Longrightarrow> K \<subseteq> L \<Longrightarrow> keeps L m"
  unfolding keeps_def by blast

lemma learns_mono: "learns K m g \<Longrightarrow> K \<subseteq> L \<Longrightarrow> learns L m g"
  unfolding learns_def by blast

lemma keeps_weaken: "keeps {} m \<Longrightarrow> keeps K m"
  by (rule keeps_mono) auto

lemma learns_weaken: "learns {} m g \<Longrightarrow> learns K m g"
  by (rule learns_mono) auto

lemma keeps_ret: "keeps K (ret x)"
  by (simp add: keeps_def ret_def refl)

lemma keeps_throw: "keeps K (throw e)"
  by (simp add: keeps_def throw_def)

lemma keeps_lift: "keeps K (lift r)"
  by (simp add: keeps_def lift_def refl)

lemma keeps_asks: "keeps K (asks f)"
  by (simp add: keeps_def asks_def refl)

lemma keeps_reject: "keeps K (reject b e)"
  by (simp add: reject_def keeps_ret keeps_throw)

lemma keeps_learn:
  assumes "learns K m g" and "\<And>x. keeps (g x \<union> K) (f x)"
  shows "keeps K (andthen m f)"
  unfolding keeps_def
proof (intro allI impI)
  fix s y s'
  assume K: "\<forall>k\<in>K. known k s" and run: "andthen m f s = (Inr y, s')"
  then obtain x t where m: "m s = (Inr x, t)" and f: "f x t = (Inr y, s')"
    by (auto simp: andthen_success)
  with assms(1) K have "le s t" "\<forall>k\<in>g x. known k t"
    unfolding learns_def by blast+
  moreover have "\<forall>k\<in>K. known k t"
    using K \<open>le s t\<close> known_later by blast
  ultimately have "le t s'"
    using assms(2) f unfolding keeps_def by blast
  with \<open>le s t\<close> show "le s s'" by (rule trans)
qed

lemma keeps_learns: "keeps K m \<Longrightarrow> learns K m (\<lambda>_. {})"
  by (simp add: keeps_def learns_def)

lemma keeps_andthen: "keeps K m \<Longrightarrow> (\<And>x. keeps K (f x)) \<Longrightarrow> keeps K (andthen m f)"
  by (rule keeps_learn [OF keeps_learns]) simp_all

lemma learns_learn:
  assumes "learns K m g" and "\<And>x. learns (g x \<union> K) (f x) h"
  shows "learns K (andthen m f) h"
  unfolding learns_def
proof (intro allI impI)
  fix s y s'
  assume K: "\<forall>k\<in>K. known k s" and run: "andthen m f s = (Inr y, s')"
  then obtain x t where m: "m s = (Inr x, t)" and f: "f x t = (Inr y, s')"
    by (auto simp: andthen_success)
  with assms(1) K have "le s t" "\<forall>k\<in>g x. known k t"
    unfolding learns_def by blast+
  moreover have "\<forall>k\<in>K. known k t"
    using K \<open>le s t\<close> known_later by blast
  ultimately have "le t s' \<and> (\<forall>k\<in>h y. known k s')"
    using assms(2) f unfolding learns_def by blast
  with \<open>le s t\<close> show "le s s' \<and> (\<forall>k\<in>h y. known k s')"
    using trans by blast
qed

lemma learns_andthen: "keeps K m \<Longrightarrow> (\<And>x. learns K (f x) h) \<Longrightarrow> learns K (andthen m f) h"
  by (rule learns_learn [OF keeps_learns]) simp_all

lemma learns_ret: "h x \<subseteq> K \<Longrightarrow> learns K (ret x) h"
  by (auto simp: learns_def ret_def refl)

lemma learns_throw: "learns K (throw e) h"
  by (simp add: learns_def throw_def)

lemma keeps_if: "(b \<Longrightarrow> keeps K m) \<Longrightarrow> (\<not> b \<Longrightarrow> keeps K n) \<Longrightarrow> keeps K (if b then m else n)"
  by simp

lemma learns_if: "(b \<Longrightarrow> learns K m g) \<Longrightarrow> (\<not> b \<Longrightarrow> learns K n g) \<Longrightarrow> learns K (if b then m else n) g"
  by simp

lemma keeps_whenever: "(b \<Longrightarrow> keeps K m) \<Longrightarrow> keeps K (whenever b m)"
  by (simp add: whenever_def keeps_ret)

lemma keeps_each: "(\<And>x. x \<in> set xs \<Longrightarrow> keeps K (f x)) \<Longrightarrow> keeps K (each xs f)"
  by (induction xs) (auto intro: keeps_ret keeps_andthen)

lemma keeps_collect: "(\<And>x. x \<in> set xs \<Longrightarrow> keeps K (f x)) \<Longrightarrow> keeps K (collect xs f)"
  by (induction xs) (auto intro: keeps_ret keeps_andthen)

lemma keeps_atomically: "keeps K m \<Longrightarrow> keeps K (atomically get put m)"
  by (auto simp: keeps_def atomically_success)

lemma keeps_option:
  "(v = None \<Longrightarrow> keeps K m) \<Longrightarrow> (\<And>x. v = Some x \<Longrightarrow> keeps K (f x)) \<Longrightarrow>
   keeps K (case v of None \<Rightarrow> m | Some x \<Rightarrow> f x)"
  by (cases v) auto

lemma keeps_sum:
  "(\<And>e. v = Inl e \<Longrightarrow> keeps K (g e)) \<Longrightarrow> (\<And>x. v = Inr x \<Longrightarrow> keeps K (f x)) \<Longrightarrow>
   keeps K (case v of Inl e \<Rightarrow> g e | Inr x \<Rightarrow> f x)"
  by (cases v) auto

lemma keeps_prod:
  "(\<And>x y. v = (x, y) \<Longrightarrow> keeps K (f x y)) \<Longrightarrow> keeps K (case v of (x, y) \<Rightarrow> f x y)"
  by (cases v) auto

lemma keeps_let: "(\<And>x. x = v \<Longrightarrow> keeps K (f x)) \<Longrightarrow> keeps K (let x = v in f x)"
  by (simp add: Let_def)

lemma learns_let: "(\<And>x. x = v \<Longrightarrow> learns K (f x) g) \<Longrightarrow> learns K (let x = v in f x) g"
  by (simp add: Let_def)

lemma learns_prod:
  "(\<And>x y. v = (x, y) \<Longrightarrow> learns K (f x y) g) \<Longrightarrow> learns K (case v of (x, y) \<Rightarrow> f x y) g"
  by (cases v) auto

lemma learns_option:
  "(v = None \<Longrightarrow> learns K m g) \<Longrightarrow> (\<And>x. v = Some x \<Longrightarrow> learns K (f x) g) \<Longrightarrow>
   learns K (case v of None \<Rightarrow> m | Some x \<Rightarrow> f x) g"
  by (cases v) auto

lemmas keeps_basic = keeps_ret keeps_throw keeps_lift keeps_asks keeps_reject
lemmas keeps_control = keeps_andthen keeps_if keeps_whenever keeps_each keeps_collect
  keeps_atomically keeps_option keeps_sum keeps_prod keeps_let
lemmas learns_control = learns_ret learns_throw learns_if learns_option learns_prod learns_let
  learns_andthen

end

section \<open>Tables as lists of rows\<close>

text \<open>A table is the list of its rows in insertion order. \<open>row key k\<close> is \<open>SELECT ... WHERE id = k\<close>,
  \<open>put_row\<close> is \<open>UPDATE ... WHERE id = key r\<close> (every row with that key).\<close>

definition row :: "('r \<Rightarrow> 'k) \<Rightarrow> 'k \<Rightarrow> 'r list \<Rightarrow> 'r option" where
  "row key k rows = find (\<lambda>r. key r = k) rows"

definition put_row :: "('r \<Rightarrow> 'k) \<Rightarrow> 'r \<Rightarrow> 'r list \<Rightarrow> 'r list" where
  "put_row key r rows = map (\<lambda>x. if key x = key r then r else x) rows"

lemma row_Nil [simp]: "row key k [] = None"
  by (simp add: row_def)

lemma row_Cons [simp]: "row key k (r # rows) = (if key r = k then Some r else row key k rows)"
  by (simp add: row_def)

lemma row_SomeD: "row key k rows = Some r \<Longrightarrow> key r = k \<and> r \<in> set rows"
  by (induction rows) (auto split: if_splits)

lemma row_NoneD: "row key k rows = None \<Longrightarrow> r \<in> set rows \<Longrightarrow> key r \<noteq> k"
  by (induction rows) (auto split: if_splits)

lemma row_None_iff: "row key k rows = None \<longleftrightarrow> k \<notin> key ` set rows"
  by (induction rows) auto

lemma row_append: "row key k (xs @ ys) = (case row key k xs of None \<Rightarrow> row key k ys | Some r \<Rightarrow> Some r)"
  by (induction xs) auto

lemma row_put_row:
  "row key k (put_row key r rows) =
     (if k = key r then map_option (\<lambda>_. r) (row key k rows) else row key k rows)"
  by (induction rows) (auto simp: put_row_def)

lemma row_in_set: "distinct (map key rows) \<Longrightarrow> r \<in> set rows \<Longrightarrow> row key (key r) rows = Some r"
  by (induction rows) auto

lemma set_put_row: "set (put_row key r rows) \<subseteq> insert r (set rows)"
  by (auto simp: put_row_def)

lemma map_key_put_row [simp]: "map key (put_row key r rows) = map key rows"
  by (induction rows) (auto simp: put_row_def)

lemma length_put_row [simp]: "length (put_row key r rows) = length rows"
  by (simp add: put_row_def)

lemma row_filter:
  "row key k (filter P rows) = Some r \<Longrightarrow> distinct (map key rows) \<Longrightarrow> row key k rows = Some r \<and> P r"
proof -
  assume found: "row key k (filter P rows) = Some r" and unique: "distinct (map key rows)"
  from found have "key r = k" "r \<in> set rows" "P r"
    by (auto dest: row_SomeD)
  with unique show ?thesis
    by (auto dest: row_in_set)
qed

lemma put_row_member:
  "x \<in> set (put_row key r rows) \<Longrightarrow> x = r \<or> (x \<in> set rows \<and> key x \<noteq> key r)"
  by (auto simp: put_row_def split: if_splits)

end
