(* ===== verification/Text.thy ===== *)
theory Text
  imports Prelude
begin

text \<open>
  Text as the service handles it. A Go string is a sequence of bytes, so a \<open>string\<close> here is a list
  of bytes (Isabelle's \<open>char\<close> is 8 bit wide) and a length is a byte count. The theory models the
  library functions the service relies on (\<open>strings.TrimSpace\<close>, \<open>utf8.ValidString\<close>,
  \<open>json.Marshal\<close> of strings, numbers and maps, \<open>hex\<close>, \<open>filepath.Clean\<close> on absolute paths) and the
  service's own text rules: \<open>requireText\<close>, \<open>optionalTextWithin\<close>, \<open>boundedStatusText\<close> and
  \<open>boundedDurableText\<close> of internal/core/service.go, with their bounds.
\<close>

section \<open>Unicode\<close>

abbreviation byte :: "char \<Rightarrow> nat" where
  "byte c \<equiv> of_char c"

definition in_range :: "nat \<Rightarrow> nat \<Rightarrow> char \<Rightarrow> bool" where
  "in_range lo hi c = (lo \<le> byte c \<and> byte c \<le> hi)"

abbreviation continuation :: "char \<Rightarrow> bool" where
  "continuation \<equiv> in_range 128 191"

text \<open>The number of bytes of the first rune, 0 where the text does not start with a well-formed one.\<close>

fun utf8_size :: "string \<Rightarrow> nat" where
  "utf8_size [] = 0"
| "utf8_size (a # rest) =
    (if byte a < 128 then 1
     else if in_range 194 223 a then
       (case rest of b # _ \<Rightarrow> if continuation b then 2 else 0 | [] \<Rightarrow> 0)
     else if in_range 224 239 a then
       (case rest of b # c # _ \<Rightarrow>
          if (if byte a = 224 then in_range 160 191 b
              else if byte a = 237 then in_range 128 159 b else continuation b)
             \<and> continuation c
          then 3 else 0
        | _ \<Rightarrow> 0)
     else if in_range 240 244 a then
       (case rest of b # c # d # _ \<Rightarrow>
          if (if byte a = 240 then in_range 144 191 b
              else if byte a = 244 then in_range 128 143 b else continuation b)
             \<and> continuation c \<and> continuation d
          then 4 else 0
        | _ \<Rightarrow> 0)
     else 0)"

lemma utf8_size_le: "utf8_size s \<le> length s"
  by (cases s) (auto split: list.splits)

lemma utf8_size_4: "utf8_size s \<le> 4"
  by (cases s) (auto split: list.splits)

function utf8_valid :: "string \<Rightarrow> bool" where
  "utf8_valid s = (if s = [] then True else if utf8_size s = 0 then False
     else utf8_valid (drop (utf8_size s) s))"
  by auto
termination
  by (relation "measure length") auto

declare utf8_valid.simps [simp del]

lemma utf8_valid_Nil [simp]: "utf8_valid []"
  by (subst utf8_valid.simps) simp

section \<open>Trimming\<close>

text \<open>The encodings of the runes with Unicode's White_Space property.\<close>

definition space_runes :: "string list" where
  "space_runes =
     [[CHR 0x09], [CHR 0x0A], [CHR 0x0B], [CHR 0x0C], [CHR 0x0D], [CHR 0x20],
      [CHR 0xC2, CHR 0x85], [CHR 0xC2, CHR 0xA0], [CHR 0xE1, CHR 0x9A, CHR 0x80],
      [CHR 0xE2, CHR 0x80, CHR 0x80], [CHR 0xE2, CHR 0x80, CHR 0x81], [CHR 0xE2, CHR 0x80, CHR 0x82],
      [CHR 0xE2, CHR 0x80, CHR 0x83], [CHR 0xE2, CHR 0x80, CHR 0x84], [CHR 0xE2, CHR 0x80, CHR 0x85],
      [CHR 0xE2, CHR 0x80, CHR 0x86], [CHR 0xE2, CHR 0x80, CHR 0x87], [CHR 0xE2, CHR 0x80, CHR 0x88],
      [CHR 0xE2, CHR 0x80, CHR 0x89], [CHR 0xE2, CHR 0x80, CHR 0x8A], [CHR 0xE2, CHR 0x80, CHR 0xA8],
      [CHR 0xE2, CHR 0x80, CHR 0xA9], [CHR 0xE2, CHR 0x80, CHR 0xAF], [CHR 0xE2, CHR 0x81, CHR 0x9F],
      [CHR 0xE3, CHR 0x80, CHR 0x80]]"

text \<open>\<open>strip ps s\<close> removes patterns of \<open>ps\<close> from the front for as long as one matches.\<close>

function strip :: "string list \<Rightarrow> string \<Rightarrow> string" where
  "strip ps s =
     (case find (\<lambda>p. p \<noteq> [] \<and> take (length p) s = p) ps of
        None \<Rightarrow> s
      | Some p \<Rightarrow> strip ps (drop (length p) s))"
  by auto
termination
proof (relation "measure (\<lambda>(ps, s). length s)")
  fix ps :: "string list" and s p :: string
  assume "find (\<lambda>p. p \<noteq> [] \<and> take (length p) s = p) ps = Some p"
  then have "p \<noteq> [] \<and> take (length p) s = p"
    by (metis (mono_tags, lifting) find_Some_iff)
  then have "p \<noteq> []" "take (length p) s = p" by simp_all
  from this(2) have "length p \<le> length s"
    by (metis length_take min.cobounded1)
  moreover have "0 < length p" using \<open>p \<noteq> []\<close> by simp
  ultimately have "length s - length p < length s" by linarith
  then show "((ps, drop (length p) s), ps, s) \<in> measure (\<lambda>(ps, s). length s)"
    by simp
qed simp

declare strip.simps [simp del]

lemma strip_None:
  "find (\<lambda>p. p \<noteq> [] \<and> take (length p) s = p) ps = None \<Longrightarrow> strip ps s = s"
  by (subst strip.simps) simp

lemma strip_Some:
  "find (\<lambda>p. p \<noteq> [] \<and> take (length p) s = p) ps = Some p \<Longrightarrow> strip ps s = strip ps (drop (length p) s)"
  by (subst strip.simps) simp

definition trim_left :: "string \<Rightarrow> string" where
  "trim_left s = strip space_runes s"

definition trim_right :: "string \<Rightarrow> string" where
  "trim_right s = rev (strip (map rev space_runes) (rev s))"

definition trim_space :: "string \<Rightarrow> string" where
  "trim_space s = trim_right (trim_left s)"

lemma strip_suffix: "\<exists>p. s = p @ strip ps s"
proof (induction ps s rule: strip.induct)
  case (1 ps s)
  show ?case
  proof (cases "find (\<lambda>p. p \<noteq> [] \<and> take (length p) s = p) ps")
    case None
    then show ?thesis by (simp add: strip_None)
  next
    case (Some p)
    then obtain q where q: "drop (length p) s = q @ strip ps (drop (length p) s)"
      using 1 by blast
    have "s = (take (length p) s @ q) @ strip ps s"
      using q unfolding strip_Some [OF Some] by (metis append_take_drop_id append.assoc)
    then show ?thesis by blast
  qed
qed

lemma length_strip: "length (strip ps s) \<le> length s"
  using strip_suffix [of s ps] by (metis length_append trans_le_add2 order_refl)

lemma strip_clean: "p \<in> set ps \<Longrightarrow> p \<noteq> [] \<Longrightarrow> take (length p) (strip ps s) \<noteq> p"
proof (induction ps s rule: strip.induct)
  case (1 ps s)
  show ?case
  proof (cases "find (\<lambda>p. p \<noteq> [] \<and> take (length p) s = p) ps")
    case None
    with 1 show ?thesis by (auto simp: strip_None find_None_iff)
  next
    case (Some q)
    with 1 show ?thesis by (simp add: strip_Some)
  qed
qed

lemma strip_idem: "strip ps (strip ps s) = strip ps s"
proof -
  have "find (\<lambda>p. p \<noteq> [] \<and> take (length p) (strip ps s) = p) ps = None"
    unfolding find_None_iff using strip_clean by blast
  then show ?thesis by (rule strip_None)
qed

lemma length_trim_space: "length (trim_space s) \<le> length s"
  unfolding trim_space_def trim_right_def trim_left_def
  by (metis length_rev length_strip le_trans)

lemma trim_right_idem: "trim_right (trim_right s) = trim_right s"
  by (simp add: trim_right_def strip_idem)

text \<open>Text without spaces is left alone.\<close>

definition graphic :: "char \<Rightarrow> bool" where
  "graphic c = (33 \<le> byte c \<and> byte c < 128)"

lemma strip_graphic:
  assumes "\<forall>c \<in> set s. graphic c" and "\<forall>p \<in> set ps. \<not> graphic (hd p)"
  shows "strip ps s = s"
proof (rule strip_None)
  have "\<not> (p \<noteq> [] \<and> take (length p) s = p)" if "p \<in> set ps" for p
  proof
    assume p: "p \<noteq> [] \<and> take (length p) s = p"
    then have "hd p \<in> set s" by (metis hd_in_set set_take_subset subsetD)
    then show False using assms that by auto
  qed
  then show "find (\<lambda>p. p \<noteq> [] \<and> take (length p) s = p) ps = None" by (simp add: find_None_iff)
qed

lemma trim_graphic: "\<forall>c \<in> set s. graphic c \<Longrightarrow> trim_space s = s"
  unfolding trim_space_def trim_left_def trim_right_def
  by (simp add: strip_graphic space_runes_def graphic_def)

section \<open>Decimal numbers\<close>

definition digit_char :: "nat \<Rightarrow> char" where
  "digit_char n = char_of (48 + n)"

fun nat_text :: "nat \<Rightarrow> string" where
  "nat_text n = (if n < 10 then [digit_char n] else nat_text (n div 10) @ [digit_char (n mod 10)])"

declare nat_text.simps [simp del]

definition int_text :: "int \<Rightarrow> string" where
  "int_text i = (if i < 0 then CHR ''-'' # nat_text (nat (- i)) else nat_text (nat i))"

lemma length_nat_text: "n < 10 ^ k \<Longrightarrow> 0 < k \<Longrightarrow> length (nat_text n) \<le> k"
proof (induction k arbitrary: n)
  case 0
  then show ?case by simp
next
  case (Suc k)
  show ?case
  proof (cases "n < 10")
    case True
    then show ?thesis by (subst nat_text.simps) simp
  next
    case False
    then have "0 < k" using Suc.prems by (cases k) auto
    moreover have "n div 10 < 10 ^ k" using Suc.prems by auto
    ultimately have "length (nat_text (n div 10)) \<le> k" using Suc.IH by blast
    with False show ?thesis by (subst nat_text.simps) simp
  qed
qed

section \<open>JSON\<close>

text \<open>What \<open>json.Marshal\<close> writes for the strings, numbers, booleans and string-keyed maps the service
  hands to it, with Go's HTML escaping and with ill-formed bytes replaced by U+FFFD.\<close>

datatype json = JNull | JBool bool | JInt int | JString string | JObject "(string \<times> json) list"
  | JList "json list"

definition hex_digit :: "nat \<Rightarrow> char" where
  "hex_digit n = (if n < 10 then char_of (48 + n) else char_of (87 + n))"

definition json_ascii :: "char \<Rightarrow> string" where
  "json_ascii c =
     (if byte c = 34 then [CHR 0x5C, CHR 0x22]
      else if byte c = 92 then [CHR 0x5C, CHR 0x5C]
      else if byte c = 8 then [CHR 0x5C, CHR ''b'']
      else if byte c = 12 then [CHR 0x5C, CHR ''f'']
      else if byte c = 10 then [CHR 0x5C, CHR ''n'']
      else if byte c = 13 then [CHR 0x5C, CHR ''r'']
      else if byte c = 9 then [CHR 0x5C, CHR ''t'']
      else if byte c < 32 \<or> byte c = 60 \<or> byte c = 62 \<or> byte c = 38 then
        [CHR 0x5C, CHR ''u'', CHR ''0'', CHR ''0'', hex_digit (byte c div 16), hex_digit (byte c mod 16)]
      else [c])"

definition replacement :: string where
  "replacement = [CHR 0x5C, CHR ''u'', CHR ''f'', CHR ''f'', CHR ''f'', CHR ''d'']"

function json_text :: "string \<Rightarrow> string" where
  "json_text [] = []"
| "json_text (c # cs) =
     (if byte c < 128 then json_ascii c @ json_text cs
      else if utf8_size (c # cs) = 0 then replacement @ json_text cs
      else if take 3 (c # cs) = [CHR 0xE2, CHR 0x80, CHR 0xA8] then
        [CHR 0x5C, CHR ''u'', CHR ''2'', CHR ''0'', CHR ''2'', CHR ''8''] @ json_text (drop 2 cs)
      else if take 3 (c # cs) = [CHR 0xE2, CHR 0x80, CHR 0xA9] then
        [CHR 0x5C, CHR ''u'', CHR ''2'', CHR ''0'', CHR ''2'', CHR ''9''] @ json_text (drop 2 cs)
      else take (utf8_size (c # cs)) (c # cs) @ json_text (drop (utf8_size (c # cs) - 1) cs))"
  by pat_completeness auto
termination
  by (relation "measure length") auto

definition json_string :: "string \<Rightarrow> string" where
  "json_string s = [CHR 0x22] @ json_text s @ [CHR 0x22]"

fun join :: "string \<Rightarrow> string list \<Rightarrow> string" where
  "join sep [] = []"
| "join sep [x] = x"
| "join sep (x # y # ys) = x @ sep @ join sep (y # ys)"

fun encode_json :: "json \<Rightarrow> string" where
  "encode_json JNull = ''null''"
| "encode_json (JBool b) = (if b then ''true'' else ''false'')"
| "encode_json (JInt i) = int_text i"
| "encode_json (JString s) = json_string s"
| "encode_json (JList vs) = ''['' @ join '','' (map encode_json vs) @ '']''"
| "encode_json (JObject fields) =
     ''{'' @ join '','' (map (\<lambda>(k, v). json_string k @ '':'' @ encode_json v) fields) @ ''}''"

text \<open>\<open>eventPayload\<close>: a Go map is written with its keys in order.\<close>

definition eventPayload :: "(string \<times> json) list \<Rightarrow> string" where
  "eventPayload fields = encode_json (JObject (sort_key fst fields))"

lemma length_json_ascii: "length (json_ascii c) \<le> 6"
  by (simp add: json_ascii_def)

lemma length_json_text: "length (json_text s) \<le> 6 * length s"
proof (induction s rule: json_text.induct)
  case 1
  then show ?case by simp
next
  case (2 c cs)
  let ?k = "utf8_size (c # cs)"
  have size: "?k \<le> Suc (length cs)" using utf8_size_le [of "c # cs"] by simp
  show ?case
  proof (cases "byte c < 128")
    case True
    then show ?thesis using 2 length_json_ascii [of c] by simp
  next
    case False
    then show ?thesis
      using 2 size by (auto simp: replacement_def simp del: utf8_size.simps split: if_splits)
  qed
qed

lemma length_json_string: "length (json_string s) \<le> 6 * length s + 2"
  using length_json_text [of s] by (simp add: json_string_def)

section \<open>Hexadecimal digests\<close>

definition hex_value :: "char \<Rightarrow> nat option" where
  "hex_value c =
     (if in_range 48 57 c then Some (byte c - 48)
      else if in_range 97 102 c then Some (byte c - 87)
      else if in_range 65 70 c then Some (byte c - 55)
      else None)"

fun hex_decode :: "string \<Rightarrow> nat list option" where
  "hex_decode [] = Some []"
| "hex_decode [_] = None"
| "hex_decode (a # b # rest) =
     (case (hex_value a, hex_value b, hex_decode rest) of
        (Some x, Some y, Some ns) \<Rightarrow> Some ((16 * x + y) # ns)
      | _ \<Rightarrow> None)"

fun hex_encode :: "nat list \<Rightarrow> string" where
  "hex_encode [] = []"
| "hex_encode (n # ns) = hex_digit (n div 16) # hex_digit (n mod 16) # hex_encode ns"

lemma hex_value_digit: "n < 16 \<Longrightarrow> hex_value (hex_digit n) = Some n"
  by (auto simp: hex_value_def hex_digit_def in_range_def)

lemma hex_decode_encode: "\<forall>n\<in>set ns. n < 256 \<Longrightarrow> hex_decode (hex_encode ns) = Some ns"
  by (induction ns) (auto simp: hex_value_digit)

lemma hex_value_less: "hex_value c = Some n \<Longrightarrow> n < 16"
  by (auto simp: hex_value_def in_range_def split: if_splits)

lemma hex_decode_bytes: "hex_decode s = Some ns \<Longrightarrow> \<forall>n\<in>set ns. n < 256"
proof (induction s arbitrary: ns rule: hex_decode.induct)
  case (3 a b rest)
  then obtain x y ms where "hex_value a = Some x" "hex_value b = Some y"
    "hex_decode rest = Some ms" "ns = (16 * x + y) # ms"
    by (auto split: option.splits prod.splits)
  then show ?case using 3 hex_value_less [of a x] hex_value_less [of b y] by fastforce
qed auto

section \<open>Paths and tokens\<close>

fun split_on :: "char \<Rightarrow> string \<Rightarrow> string list" where
  "split_on sep [] = [[]]"
| "split_on sep (c # cs) =
     (if c = sep then [] # split_on sep cs
      else (case split_on sep cs of p # ps \<Rightarrow> (c # p) # ps | [] \<Rightarrow> [[c]]))"

text \<open>\<open>filepath.IsAbs p && filepath.Clean p == p\<close>: an absolute path is already clean exactly when it is
  the root or none of its elements is empty, \<open>.\<close> or \<open>..\<close>.\<close>

definition canonical_path :: "string \<Rightarrow> bool" where
  "canonical_path p =
     (p = ''/'' \<or>
      (case p of
         c # rest \<Rightarrow> c = CHR ''/'' \<and> (\<forall>e \<in> set (split_on (CHR ''/'') rest). e \<noteq> [] \<and> e \<noteq> ''.'' \<and> e \<noteq> ''..'')
       | [] \<Rightarrow> False))"

definition token_char :: "char \<Rightarrow> bool" where
  "token_char c = (in_range 65 90 c \<or> in_range 97 122 c \<or> in_range 48 57 c \<or>
     c \<in> {CHR ''.'', CHR ''_'', CHR '':'', CHR ''/'', CHR ''-''})"

definition lower_char :: "char \<Rightarrow> char" where
  "lower_char c = (if in_range 65 90 c then char_of (byte c + 32) else c)"

definition to_lower :: "string \<Rightarrow> string" where
  "to_lower s = map lower_char s"

section \<open>Bounded texts\<close>

function chop_valid :: "string \<Rightarrow> string" where
  "chop_valid s = (if utf8_valid s then s else chop_valid (butlast s))"
  by auto
termination
proof (relation "measure length")
  fix s assume "\<not> utf8_valid s"
  then have "s \<noteq> []" by auto
  then show "(butlast s, s) \<in> measure length" by simp
qed simp

declare chop_valid.simps [simp del]

definition boundedStatusText :: "string \<Rightarrow> nat \<Rightarrow> string \<times> bool" where
  "boundedStatusText value limit =
     (if length value \<le> limit then (value, False) else (chop_valid (take limit value), True))"

definition truncation_suffix :: string where
  "truncation_suffix = ''...[truncated]''"

definition boundedDurableText :: "string \<Rightarrow> nat \<Rightarrow> string" where
  "boundedDurableText value limit =
     (let value = trim_space value in
      if length value \<le> limit then value
      else chop_valid (take (limit - length truncation_suffix) value) @ truncation_suffix)"

lemma chop_valid_valid: "utf8_valid (chop_valid s)"
proof (induction s rule: chop_valid.induct)
  case (1 s)
  then show ?case by (cases "utf8_valid s") (subst chop_valid.simps, simp)+
qed

lemma chop_valid_prefix: "\<exists>t. s = chop_valid s @ t"
proof (induction s rule: chop_valid.induct)
  case (1 s)
  show ?case
  proof (cases "utf8_valid s")
    case True
    then show ?thesis by (subst chop_valid.simps) simp
  next
    case False
    then obtain t where "butlast s = chop_valid (butlast s) @ t" using 1 by blast
    moreover have "s = butlast s @ [last s]" using False by (metis append_butlast_last_id utf8_valid_Nil)
    ultimately have "s = chop_valid (butlast s) @ t @ [last s]" by (metis append.assoc)
    with False show ?thesis by (subst chop_valid.simps) auto
  qed
qed

lemma length_chop_valid: "length (chop_valid s) \<le> length s"
  using chop_valid_prefix [of s] by (metis length_append le_add1)

end
