(* ===== verification/Model.thy ===== *)
theory Model
  imports Text
begin

text \<open>
  The durable objects of internal/core/model.go, participant.go, role.go and credentials.go, one
  record per Go struct with one field per Go field, and the errors of internal/core/errors.go.

  A Go string type with a fixed vocabulary (a status, a kind, a pending action) is a datatype with one
  constructor per value the database's CHECK constraints admit; its text is given where the service
  writes it into a conflict or an event. A timestamp is a \<open>stamp\<close>: absent (the empty text), an
  instant the service formatted, in nanoseconds (the fixed-width UTC layout makes the text order the
  order of instants, and the empty text is below every instant), or a text given by a caller and
  stored as it is. Roles, participants, bindings and their events carry their instants with the trailing zeros trimmed
  (time.RFC3339Nano in participant_roles.go); nothing compares these, and the model writes both
  layouts as the instant. Go's \<open>int\<close> and \<open>int64\<close> counters are integers: they count versions,
  generations, retries and deliveries and start at 0 or 1.
\<close>

section \<open>Timestamps\<close>

datatype stamp = NoStamp | At int | Given string

fun stamp_le :: "stamp \<Rightarrow> stamp \<Rightarrow> bool" where
  "stamp_le NoStamp _ = True"
| "stamp_le (At _) NoStamp = False"
| "stamp_le (At i) (At j) = (i \<le> j)"
| "stamp_le (At _) (Given _) = True"
| "stamp_le (Given _) NoStamp = False"
| "stamp_le (Given _) (At _) = False"
| "stamp_le (Given s) (Given t) = (s \<le> t)"

instantiation stamp :: linorder
begin

definition less_eq_stamp :: "stamp \<Rightarrow> stamp \<Rightarrow> bool" where
  "less_eq_stamp a b = stamp_le a b"

definition less_stamp :: "stamp \<Rightarrow> stamp \<Rightarrow> bool" where
  "less_stamp a b = (stamp_le a b \<and> \<not> stamp_le b a)"

instance
proof
  fix x y z :: stamp
  show "(x < y) = (x \<le> y \<and> \<not> y \<le> x)"
    by (simp add: less_stamp_def less_eq_stamp_def)
  show "x \<le> x"
    by (cases x) (simp_all add: less_eq_stamp_def)
  show "x \<le> y \<Longrightarrow> y \<le> z \<Longrightarrow> x \<le> z"
    by (cases x; cases y; cases z) (auto simp: less_eq_stamp_def)
  show "x \<le> y \<Longrightarrow> y \<le> x \<Longrightarrow> x = y"
    by (cases x; cases y) (auto simp: less_eq_stamp_def)
  show "x \<le> y \<or> y \<le> x"
    by (cases x; cases y) (auto simp: less_eq_stamp_def)
qed

end

lemma stamp_le_simps [simp]:
  "NoStamp \<le> s" "(At i \<le> At j) = (i \<le> j)" "\<not> At i \<le> NoStamp" "At i \<le> Given t"
  by (simp_all add: less_eq_stamp_def)

lemma stamp_less_simps [simp]:
  "NoStamp < At i" "(At i < At j) = (i < j)" "\<not> s < NoStamp"
  by (auto simp: less_stamp_def; cases s; simp)+

section \<open>Vocabularies\<close>

datatype project_status = ProjectCreating | ProjectActive | ProjectError | ProjectArchived
datatype agent_status = AgentActive | AgentPaused | AgentArchived
datatype task_kind = TaskConversation | TaskWork | TaskIntegration
datatype task_status = TaskQueued | TaskRunning | TaskFinishing | TaskWaiting | TaskSubmitted
  | TaskCompleted | TaskFailed | TaskCancelled
datatype run_state = RunStarting | RunActive | RunExited | RunFailed | RunInterrupted | RunCancelled
  | RunTimedOut
datatype message_state = MessagePending | MessageDelivered | MessageAcknowledged | MessageCancelled
datatype project_action = NoProjectAction | InitializeProject | VerifyProject
datatype task_action = NoAction | Capture | Advance
datatype actor_kind = NoActor | Boss | AgentActor | System | Daemon
datatype entity_type = ProjectEntity | AgentEntity | TaskEntity | RunEntity | MessageEntity
  | DaemonEntity | ParticipantEntity | RoleEntity
datatype evidence = NoEvidence | EvidenceCaptured | EvidenceHumanConfirm
datatype outcome = NoOutcome | OutcomeWait | OutcomeSubmit | OutcomeFail | OutcomeText string
datatype launch_phase = LaunchIntent | LaunchCreated | LaunchStartIssued | LaunchProcessObserved
datatype launch_mode = StartMode | ResumeMode | OtherMode string
datatype cleanup_state = CleanupNotNeeded | CleanupPending | CleanupRemoved | CleanupBlocked
datatype participant_kind = Human | CliAgent
datatype credential_kind = OperatorToken | SshKey
datatype credential_status = CredentialActive | CredentialRevoked

type_synonym capability = string

fun project_status_text :: "project_status \<Rightarrow> string" where
  "project_status_text ProjectCreating = ''creating''"
| "project_status_text ProjectActive = ''active''"
| "project_status_text ProjectError = ''error''"
| "project_status_text ProjectArchived = ''archived''"

fun agent_status_text :: "agent_status \<Rightarrow> string" where
  "agent_status_text AgentActive = ''active''"
| "agent_status_text AgentPaused = ''paused''"
| "agent_status_text AgentArchived = ''archived''"

fun task_kind_text :: "task_kind \<Rightarrow> string" where
  "task_kind_text TaskConversation = ''conversation''"
| "task_kind_text TaskWork = ''work''"
| "task_kind_text TaskIntegration = ''integration''"

fun task_status_text :: "task_status \<Rightarrow> string" where
  "task_status_text TaskQueued = ''queued''"
| "task_status_text TaskRunning = ''running''"
| "task_status_text TaskFinishing = ''finishing''"
| "task_status_text TaskWaiting = ''waiting''"
| "task_status_text TaskSubmitted = ''submitted''"
| "task_status_text TaskCompleted = ''completed''"
| "task_status_text TaskFailed = ''failed''"
| "task_status_text TaskCancelled = ''cancelled''"

fun run_state_text :: "run_state \<Rightarrow> string" where
  "run_state_text RunStarting = ''starting''"
| "run_state_text RunActive = ''active''"
| "run_state_text RunExited = ''exited''"
| "run_state_text RunFailed = ''failed''"
| "run_state_text RunInterrupted = ''interrupted''"
| "run_state_text RunCancelled = ''cancelled''"
| "run_state_text RunTimedOut = ''timed_out''"

fun message_state_text :: "message_state \<Rightarrow> string" where
  "message_state_text MessagePending = ''pending''"
| "message_state_text MessageDelivered = ''delivered''"
| "message_state_text MessageAcknowledged = ''acknowledged''"
| "message_state_text MessageCancelled = ''cancelled''"

fun launch_phase_text :: "launch_phase \<Rightarrow> string" where
  "launch_phase_text LaunchIntent = ''intent''"
| "launch_phase_text LaunchCreated = ''created''"
| "launch_phase_text LaunchStartIssued = ''start_issued''"
| "launch_phase_text LaunchProcessObserved = ''process_observed''"

fun cleanup_state_text :: "cleanup_state \<Rightarrow> string" where
  "cleanup_state_text CleanupNotNeeded = ''not_needed''"
| "cleanup_state_text CleanupPending = ''pending''"
| "cleanup_state_text CleanupRemoved = ''removed''"
| "cleanup_state_text CleanupBlocked = ''blocked''"

fun credential_kind_text :: "credential_kind \<Rightarrow> string" where
  "credential_kind_text OperatorToken = ''operator_token''"
| "credential_kind_text SshKey = ''ssh_key''"

fun credential_status_text :: "credential_status \<Rightarrow> string" where
  "credential_status_text CredentialActive = ''active''"
| "credential_status_text CredentialRevoked = ''revoked''"

fun outcome_text :: "outcome \<Rightarrow> string" where
  "outcome_text NoOutcome = []"
| "outcome_text OutcomeWait = ''wait''"
| "outcome_text OutcomeSubmit = ''submit''"
| "outcome_text OutcomeFail = ''fail''"
| "outcome_text (OutcomeText s) = s"

fun launch_mode_text :: "launch_mode \<Rightarrow> string" where
  "launch_mode_text StartMode = ''start''"
| "launch_mode_text ResumeMode = ''resume''"
| "launch_mode_text (OtherMode s) = s"

section \<open>Durable objects\<close>

record project =
  p_id :: string
  p_name :: string
  p_source :: string
  p_source_ref :: string
  p_initial_sha :: string
  p_control_repo_path :: string
  p_canonical_ref :: string
  p_canonical_sha :: string
  p_integration_agent_id :: string
  p_status :: project_status
  p_pending_action :: project_action
  p_pending_action_id :: string
  p_pending_started_at :: stamp
  p_last_error :: string
  p_version :: int
  p_created_at :: stamp
  p_updated_at :: stamp

record agent =
  a_id :: string
  a_display_name :: string
  a_adapter_id :: string
  a_image :: string
  a_instructions_file :: string
  a_instructions_text :: string
  a_model :: string
  a_subagent_model :: string
  a_base_url :: string
  a_effort :: string
  a_status :: agent_status
  a_version :: int
  a_created_at :: stamp
  a_updated_at :: stamp

record task =
  t_id :: string
  t_project_id :: string
  t_kind :: task_kind
  t_parent_task_id :: string
  t_retry_of_task_id :: string
  t_created_by_kind :: actor_kind
  t_created_by_id :: string
  t_assignee_agent_id :: string
  t_assignee_participant_id :: string
  t_title :: string
  t_description :: string
  t_priority :: int
  t_status :: task_status
  t_current_run_id :: string
  t_generation :: int
  t_next_run_at :: stamp
  t_retry_count :: int
  t_max_retries :: int
  t_budget_seconds :: int
  t_wait_reason :: string
  t_result_summary :: string
  t_failure_reason :: string
  t_base_sha :: string
  t_head_sha :: string
  t_head_run_id :: string
  t_evidence_type :: evidence
  t_task_ref :: string
  t_accepted_by_kind :: actor_kind
  t_accepted_by_id :: string
  t_accepted_at :: stamp
  t_accepted_integration_agent_id :: string
  t_final_canonical_sha :: string
  t_integration_task_id :: string
  t_source_task_id :: string
  t_source_run_id :: string
  t_source_task_ref :: string
  t_source_head_sha :: string
  t_source_ref_released_at :: stamp
  t_source_accept_version :: int
  t_observed_canonical_sha :: string
  t_pending_action :: task_action
  t_pending_action_id :: string
  t_pending_action_version :: int
  t_pending_action_run_id :: string
  t_pending_expected_sha :: string
  t_pending_target_sha :: string
  t_pending_started_at :: stamp
  t_version :: int
  t_created_at :: stamp
  t_updated_at :: stamp
  t_submitted_at :: stamp
  t_completed_at :: stamp
  t_closed_at :: stamp

record run =
  r_id :: string
  r_project_id :: string
  r_task_id :: string
  r_agent_id :: string
  r_generation :: int
  r_resumed_from_run_id :: string
  r_adapter_id :: string
  r_image :: string
  r_instructions_hash :: string
  r_config_fingerprint :: string
  r_state :: run_state
  r_workspace_path :: string
  r_container_id :: string
  r_native_session_id :: string
  r_log_path :: string
  r_token_hash :: string
  r_token_revoked_at :: stamp
  r_requested_outcome :: outcome
  r_requested_summary :: string
  r_expected_head :: string
  r_requested_at :: stamp
  r_stop_requested_at :: stamp
  r_stop_reason :: string
  r_stop_operation_id :: string
  r_heartbeat_at :: stamp
  r_exit_code :: "int option"
  r_terminal_reason :: string
  r_last_error :: string
  r_cleanup_state :: cleanup_state
  r_launch_nonce :: string
  r_launch_operation_id :: string
  r_launch_phase :: launch_phase
  r_home_path :: string
  r_container_name :: string
  r_deadline_at :: stamp
  r_last_observed_at :: stamp
  r_launch_mode :: launch_mode
  r_resume_native_session_id :: string
  r_runtime_error_code :: string
  r_cleanup_operation_id :: string
  r_isolation_spec_version :: int
  r_version :: int
  r_created_at :: stamp
  r_started_at :: stamp
  r_ended_at :: stamp

record message =
  m_id :: string
  m_project_id :: string
  m_task_id :: string
  m_related_task_id :: string
  m_sender_kind :: actor_kind
  m_sender_id :: string
  m_recipient_kind :: actor_kind
  m_recipient_id :: string
  m_recipient_participant_id :: string
  m_reply_to_message_id :: string
  m_system_code :: string
  m_body :: string
  m_wake :: bool
  m_state :: message_state
  m_delivered_run_id :: string
  m_delivery_count :: int
  m_max_deliveries :: int
  m_next_delivery_at :: stamp
  m_last_delivery_error :: string
  m_idempotency_key :: string
  m_version :: int
  m_created_at :: stamp
  m_delivered_at :: stamp
  m_acknowledged_at :: stamp

record event =
  e_id :: int
  e_project_id :: string
  e_entity_type :: entity_type
  e_entity_id :: string
  e_kind :: string
  e_actor_kind :: actor_kind
  e_actor_id :: string
  e_run_id :: string
  e_request_id :: string
  e_operation_id :: string
  e_payload_json :: string
  e_created_at :: stamp

record role =
  ro_id :: string
  ro_name :: string
  ro_description :: string
  ro_capabilities :: "capability list"
  ro_version :: int
  ro_created_at :: stamp
  ro_updated_at :: stamp

record participant =
  pa_id :: string
  pa_kind :: participant_kind
  pa_display_name :: string
  pa_status :: agent_status
  pa_credential_id :: string
  pa_adapter_id :: string
  pa_image :: string
  pa_instructions_file :: string
  pa_instructions_text :: string
  pa_model :: string
  pa_subagent_model :: string
  pa_base_url :: string
  pa_effort :: string
  pa_version :: int
  pa_created_at :: stamp
  pa_updated_at :: stamp

record binding =
  b_participant_id :: string
  b_project_id :: string
  b_role_id :: string
  b_role_name :: string
  b_capabilities :: "capability list"
  b_version :: int
  b_created_at :: stamp
  b_updated_at :: stamp

record credential =
  c_id :: string
  c_participant_id :: string
  c_kind :: credential_kind
  c_secret_hash :: string
  c_status :: credential_status
  c_created_at :: stamp
  c_revoked_at :: stamp


definition RunIsolationSpecV1 :: int where "RunIsolationSpecV1 = 1"
definition RunIsolationSpecCurrent :: int where "RunIsolationSpecCurrent = 2"

definition IsTaskClosed :: "task_status \<Rightarrow> bool" where
  "IsTaskClosed status = (status = TaskCompleted \<or> status = TaskCancelled)"

definition IsTaskOpen :: "task_status \<Rightarrow> bool" where
  "IsTaskOpen status = (\<not> IsTaskClosed status)"

definition IsRunLive :: "run_state \<Rightarrow> bool" where
  "IsRunLive state = (state = RunStarting \<or> state = RunActive)"

definition IsRunTerminal :: "run_state \<Rightarrow> bool" where
  "IsRunTerminal state = (\<not> IsRunLive state)"

section \<open>Errors\<close>

datatype error_code = NOT_FOUND | INVALID_ARGUMENT | INVALID_STATE | IN_USE | ACTION_IN_PROGRESS
  | VERSION_CONFLICT | SCOPE_DENIED | STALE_RUN | RUN_STARTING | AGENT_BUSY | RUNTIME_UNAVAILABLE
  | RUNTIME_INVARIANT_VIOLATION | RESUME_UNAVAILABLE | GIT_DIRTY | GIT_STALE
  | INTEGRATION_AGENT_REQUIRED | GIT_INVARIANT_VIOLATION | LEGACY_SCHEMA_REBUILD_REQUIRED | INTERNAL

text \<open>An error is a core \<open>*Error\<close> (its code, whether it is retryable, and the state and version a
  conflict reports), an error of SQLite (a violated constraint), or an error of an interface the
  service calls: its text, whether it is marked as a violated Git invariant, and whether it is the
  caller's cancellation. The message of a core error is not modelled.\<close>

datatype failure =
    CoreError error_code bool string int
  | StoreError
  | ExternalError string bool bool

definition NewError :: "error_code \<Rightarrow> bool \<Rightarrow> failure" where
  "NewError code retryable = CoreError code retryable [] 0"

definition WrapError :: "error_code \<Rightarrow> bool \<Rightarrow> failure" where
  "WrapError code retryable = CoreError code retryable [] 0"

definition Conflict :: "error_code \<Rightarrow> string \<Rightarrow> int \<Rightarrow> failure" where
  "Conflict code state version = CoreError code True state version"

fun IsCode :: "failure \<Rightarrow> error_code \<Rightarrow> bool" where
  "IsCode (CoreError c _ _ _) code = (c = code)"
| "IsCode _ _ = False"

fun isGitInvariant :: "failure \<Rightarrow> bool" where
  "isGitInvariant (ExternalError _ invariant _) = invariant"
| "isGitInvariant _ = False"

fun AsError :: "failure \<Rightarrow> failure" where
  "AsError (CoreError c r s v) = CoreError c r s v"
| "AsError _ = WrapError INTERNAL False"

lemma IsCode_simps [simp]:
  "IsCode (NewError c r) d = (c = d)" "IsCode (Conflict c s v) d = (c = d)"
  "IsCode (WrapError c r) d = (c = d)"
  by (simp_all add: NewError_def Conflict_def WrapError_def)

text \<open>The code of the outermost core error, if there is one.\<close>

fun code_of :: "failure \<Rightarrow> error_code option" where
  "code_of (CoreError c _ _ _) = Some c"
| "code_of _ = None"

end
