(* ===== verification/Fsm.thy ===== *)
theory Fsm
  imports Model
begin

text \<open>
  The state machines of internal/core/fsm.go: the transition tables of projects, agents, runs,
  messages and tasks, the validators built on them, the operation table of the three task kinds and
  the retry decision, with the facts on them that the other theories use.
\<close>

section \<open>Transition tables\<close>

fun projectTransitions :: "project_status \<Rightarrow> project_status \<Rightarrow> bool" where
  "projectTransitions ProjectCreating to = (to \<in> {ProjectActive, ProjectError})"
| "projectTransitions ProjectError to = (to \<in> {ProjectCreating, ProjectArchived})"
| "projectTransitions ProjectActive to = (to \<in> {ProjectError, ProjectArchived})"
| "projectTransitions ProjectArchived to = False"

fun agentTransitions :: "agent_status \<Rightarrow> agent_status \<Rightarrow> bool" where
  "agentTransitions AgentActive to = (to \<in> {AgentPaused, AgentArchived})"
| "agentTransitions AgentPaused to = (to \<in> {AgentActive, AgentArchived})"
| "agentTransitions AgentArchived to = False"

fun runTransitions :: "run_state \<Rightarrow> run_state \<Rightarrow> bool" where
  "runTransitions RunStarting to =
     (to \<in> {RunActive, RunExited, RunFailed, RunInterrupted, RunCancelled, RunTimedOut})"
| "runTransitions RunActive to = (to \<in> {RunExited, RunInterrupted, RunCancelled, RunTimedOut})"
| "runTransitions _ to = False"

fun messageTransitions :: "message_state \<Rightarrow> message_state \<Rightarrow> bool" where
  "messageTransitions MessagePending to =
     (to \<in> {MessageDelivered, MessageAcknowledged, MessageCancelled})"
| "messageTransitions MessageDelivered to =
     (to \<in> {MessagePending, MessageAcknowledged, MessageCancelled})"
| "messageTransitions _ to = False"

fun taskTransitions :: "task_status \<Rightarrow> task_status \<Rightarrow> bool" where
  "taskTransitions TaskQueued to = (to \<in> {TaskRunning, TaskFailed, TaskCancelled})"
| "taskTransitions TaskRunning to = (to \<in> {TaskFinishing, TaskQueued, TaskFailed, TaskCancelled})"
| "taskTransitions TaskFinishing to = (to \<in> {TaskWaiting, TaskQueued, TaskSubmitted, TaskFailed})"
| "taskTransitions TaskWaiting to = (to \<in> {TaskQueued, TaskFailed, TaskCancelled})"
| "taskTransitions TaskSubmitted to = (to \<in> {TaskQueued, TaskCompleted, TaskCancelled})"
| "taskTransitions TaskFailed to = (to \<in> {TaskQueued, TaskCancelled})"
| "taskTransitions _ to = False"

definition validateTransition :: "bool \<Rightarrow> failure option" where
  "validateTransition allowed = (if allowed then None else Some (NewError INVALID_STATE False))"

definition ValidateProjectTransition :: "project_status \<Rightarrow> project_status \<Rightarrow> failure option" where
  "ValidateProjectTransition src to = validateTransition (projectTransitions src to)"

definition ValidateAgentTransition :: "agent_status \<Rightarrow> agent_status \<Rightarrow> failure option" where
  "ValidateAgentTransition src to = validateTransition (agentTransitions src to)"

definition ValidateRunTransition :: "run_state \<Rightarrow> run_state \<Rightarrow> failure option" where
  "ValidateRunTransition src to = validateTransition (runTransitions src to)"

definition ValidateMessageTransition :: "message_state \<Rightarrow> message_state \<Rightarrow> failure option" where
  "ValidateMessageTransition src to = validateTransition (messageTransitions src to)"

definition ValidateTaskTransition :: "task_kind \<Rightarrow> task_status \<Rightarrow> task_status \<Rightarrow> failure option" where
  "ValidateTaskTransition kind src to =
     (let valid = taskTransitions src to;
          valid =
            (if kind = TaskConversation then
               (let valid = (if to = TaskSubmitted \<or> src = TaskSubmitted then False else valid)
                in if src = TaskWaiting \<and> to = TaskCompleted then True else valid)
             else if src = TaskWaiting \<and> to = TaskCompleted then False
             else valid)
      in validateTransition valid)"

section \<open>Retries and task operations\<close>

record taskRetryDecision =
  rd_status :: task_status
  rd_retry_count :: int

definition runtimeRetryDecision :: "int \<Rightarrow> int \<Rightarrow> taskRetryDecision" where
  "runtimeRetryDecision retryCount maxRetries =
     (if retryCount < maxRetries
      then \<lparr>rd_status = TaskQueued, rd_retry_count = retryCount + 1\<rparr>
      else \<lparr>rd_status = TaskFailed, rd_retry_count = retryCount\<rparr>)"

fun task_operations :: "task_kind \<Rightarrow> string list" where
  "task_operations TaskConversation =
     [''message'', ''progress'', ''wait'', ''fail'', ''close'', ''retry'', ''cancel'', ''wake'']"
| "task_operations TaskWork =
     [''message'', ''progress'', ''wait'', ''submit'', ''fail'', ''accept'', ''rework'', ''retry'',
      ''cancel'', ''wake'']"
| "task_operations TaskIntegration =
     [''message'', ''progress'', ''wait'', ''submit'', ''fail'', ''accept'', ''rework'', ''retry'',
      ''cancel'', ''wake'']"

definition ValidateTaskOperation :: "task_kind \<Rightarrow> string \<Rightarrow> failure option" where
  "ValidateTaskOperation kind operation =
     (if operation \<in> set (task_operations kind) then None else Some (NewError INVALID_STATE False))"

section \<open>Facts\<close>

lemma validateTransition_None [simp]: "(validateTransition b = None) = b"
  by (simp add: validateTransition_def)

lemma ValidateRunTransition_None: "(ValidateRunTransition src to = None) = runTransitions src to"
  by (simp add: ValidateRunTransition_def)

lemma ValidateMessageTransition_None:
  "(ValidateMessageTransition src to = None) = messageTransitions src to"
  by (simp add: ValidateMessageTransition_def)

lemma ValidateProjectTransition_None:
  "(ValidateProjectTransition src to = None) = projectTransitions src to"
  by (simp add: ValidateProjectTransition_def)

lemma ValidateAgentTransition_None: "(ValidateAgentTransition src to = None) = agentTransitions src to"
  by (simp add: ValidateAgentTransition_def)

lemma ValidateTaskTransition_None:
  "(ValidateTaskTransition kind src to = None) =
   (if kind = TaskConversation
    then (src = TaskWaiting \<and> to = TaskCompleted) \<or>
         (taskTransitions src to \<and> to \<noteq> TaskSubmitted \<and> src \<noteq> TaskSubmitted)
    else taskTransitions src to)"
  by (cases src) (auto simp: ValidateTaskTransition_def Let_def)

lemma ValidateTaskOperation_None:
  "(ValidateTaskOperation kind operation = None) = (operation \<in> set (task_operations kind))"
  by (simp add: ValidateTaskOperation_def)

lemmas validate_None = ValidateTaskTransition_None ValidateTaskOperation_None ValidateRunTransition_None ValidateMessageTransition_None
  ValidateProjectTransition_None ValidateAgentTransition_None

lemma IsRunTerminal_simps [simp]:
  "\<not> IsRunTerminal RunStarting" "\<not> IsRunTerminal RunActive" "IsRunTerminal RunExited"
  "IsRunTerminal RunFailed" "IsRunTerminal RunInterrupted" "IsRunTerminal RunCancelled"
  "IsRunTerminal RunTimedOut"
  by (simp_all add: IsRunTerminal_def IsRunLive_def)

lemma IsRunLive_simps [simp]:
  "IsRunLive RunStarting" "IsRunLive RunActive" "\<not> IsRunLive RunExited" "\<not> IsRunLive RunFailed"
  "\<not> IsRunLive RunInterrupted" "\<not> IsRunLive RunCancelled" "\<not> IsRunLive RunTimedOut"
  by (simp_all add: IsRunLive_def)

lemma IsTaskClosed_simps [simp]:
  "IsTaskClosed TaskCompleted" "IsTaskClosed TaskCancelled" "\<not> IsTaskClosed TaskQueued"
  "\<not> IsTaskClosed TaskRunning" "\<not> IsTaskClosed TaskFinishing" "\<not> IsTaskClosed TaskWaiting"
  "\<not> IsTaskClosed TaskSubmitted" "\<not> IsTaskClosed TaskFailed"
  by (simp_all add: IsTaskClosed_def)

text \<open>No table lets a terminal run, a settled message, a closed task or an archived object move.\<close>

lemma runTransitions_live: "runTransitions src to \<Longrightarrow> IsRunLive src"
  by (cases src) auto

lemma runTransitions_terminal: "runTransitions src to \<Longrightarrow> to = RunActive \<or> IsRunTerminal to"
  by (cases src) auto

lemma messageTransitions_open:
  "messageTransitions src to \<Longrightarrow> src = MessagePending \<or> src = MessageDelivered"
  by (cases src) auto

lemma taskTransitions_open: "taskTransitions src to \<Longrightarrow> \<not> IsTaskClosed src"
  by (cases src) auto

lemma runTransitions_irrefl [simp]: "\<not> runTransitions s s"
  by (cases s) auto

lemma messageTransitions_irrefl [simp]: "\<not> messageTransitions s s"
  by (cases s) auto

lemma taskTransitions_irrefl [simp]: "\<not> taskTransitions s s"
  by (cases s) auto

text \<open>Each retry that is scheduled is counted, and the number of retries never passes the bound.\<close>

lemma runtimeRetryDecision_bound:
  "0 \<le> n \<Longrightarrow> n \<le> m \<Longrightarrow>
   rd_retry_count (runtimeRetryDecision n m) \<le> m \<and> n \<le> rd_retry_count (runtimeRetryDecision n m)"
  by (simp add: runtimeRetryDecision_def)

end
