(* ===== verification/Store.thy ===== *)
theory Store
  imports Fsm "HOL-Library.Product_Lexorder"
begin

text \<open>
  The durable store: the tables of internal/store/schema.go and the operations of one transaction
  (internal/store/tx.go). A table is the list of its rows. A read of one row that is absent is
  \<open>NOT_FOUND\<close>; an insert checks the primary key, the foreign keys, the CHECK constraints and the
  (partial) unique indexes; an update is a compare-and-swap on version and status, writes only the
  columns its SET clause lists, and reports the current state and version when it does not apply.
  A transaction restores the database when its body fails (\<open>Store.Transact\<close>).
\<close>

section \<open>The database\<close>

datatype dedupe_value = RequestResult string string string | GcResult string string string bool

record dedupe_row =
  d_scope :: string
  d_operation :: string
  d_key :: string
  d_value :: dedupe_value
  d_created_at :: stamp

record db =
  d_projects :: "project list"
  d_agents :: "agent list"
  d_tasks :: "task list"
  d_runs :: "run list"
  d_messages :: "message list"
  d_events :: "event list"
  d_event_seq :: int
  d_dedupes :: "dedupe_row list"
  d_roles :: "role list"
  d_participants :: "participant list"
  d_bindings :: "binding list"
  d_credentials :: "credential list"

definition empty_db :: db where
  "empty_db = \<lparr>d_projects = [], d_agents = [], d_tasks = [], d_runs = [], d_messages = [],
     d_events = [], d_event_seq = 0, d_dedupes = [], d_roles = [], d_participants = [],
     d_bindings = [], d_credentials = []\<rparr>"

text \<open>The world of a computation: the database, and how often the identifier generator, the clock and
  the Git interface have been used so far.\<close>

record world =
  w_db :: db
  w_ids :: nat
  w_clock :: nat
  w_calls :: nat

type_synonym 'a op = "(failure, world, 'a) comp"

definition transact :: "'a op \<Rightarrow> 'a op" where
  "transact = atomically w_db (\<lambda>d w. w\<lparr>w_db := d\<rparr>)"

definition read_db :: "(db \<Rightarrow> failure + 'a) \<Rightarrow> 'a op" where
  "read_db f = (\<lambda>w. (f (w_db w), w))"

definition write_db :: "(db \<Rightarrow> failure + db) \<Rightarrow> unit op" where
  "write_db f = (\<lambda>w. case f (w_db w) of Inl e \<Rightarrow> (Inl e, w) | Inr d \<Rightarrow> (Inr (), w\<lparr>w_db := d\<rparr>))"

definition found :: "'a option \<Rightarrow> failure + 'a" where
  "found r = (case r of None \<Rightarrow> Inl (NewError NOT_FOUND False) | Some x \<Rightarrow> Inr x)"

abbreviation project_of :: "db \<Rightarrow> string \<Rightarrow> project option" where
  "project_of d ident \<equiv> row p_id ident (d_projects d)"

abbreviation agent_of :: "db \<Rightarrow> string \<Rightarrow> agent option" where
  "agent_of d ident \<equiv> row a_id ident (d_agents d)"

abbreviation task_of :: "db \<Rightarrow> string \<Rightarrow> task option" where
  "task_of d ident \<equiv> row t_id ident (d_tasks d)"

abbreviation run_of :: "db \<Rightarrow> string \<Rightarrow> run option" where
  "run_of d ident \<equiv> row r_id ident (d_runs d)"

abbreviation message_of :: "db \<Rightarrow> string \<Rightarrow> message option" where
  "message_of d ident \<equiv> row m_id ident (d_messages d)"

abbreviation role_of :: "db \<Rightarrow> string \<Rightarrow> role option" where
  "role_of d ident \<equiv> row ro_id ident (d_roles d)"

abbreviation participant_of :: "db \<Rightarrow> string \<Rightarrow> participant option" where
  "participant_of d ident \<equiv> row pa_id ident (d_participants d)"

abbreviation credential_of :: "db \<Rightarrow> string \<Rightarrow> credential option" where
  "credential_of d ident \<equiv> row c_id ident (d_credentials d)"

text \<open>\<open>UPDATE ... WHERE id=? AND version=? AND status=?\<close> and \<open>casResult\<close>: \<open>merge old r\<close> is the row the
  SET clause produces, \<open>ok r others\<close> the constraints an update can violate.\<close>

definition cas_row ::
  "('r \<Rightarrow> string) \<Rightarrow> ('r \<Rightarrow> int) \<Rightarrow> ('r \<Rightarrow> 's) \<Rightarrow> ('s \<Rightarrow> string) \<Rightarrow> ('r \<Rightarrow> 'r \<Rightarrow> 'r) \<Rightarrow>
   ('r \<Rightarrow> 'r list \<Rightarrow> bool) \<Rightarrow> 'r \<Rightarrow> int \<Rightarrow> 's \<Rightarrow> 'r list \<Rightarrow> failure + 'r list" where
  "cas_row key ver st text merge ok r expectedVersion expectedStatus rows =
     (case row key (key r) rows of
        None \<Rightarrow> Inl (NewError NOT_FOUND False)
      | Some old \<Rightarrow>
          if ver old = expectedVersion \<and> st old = expectedStatus then
            (if ok (merge old r) (filter (\<lambda>u. key u \<noteq> key r) rows)
             then Inr (put_row key (merge old r) rows) else Inl StoreError)
          else Inl (Conflict VERSION_CONFLICT (text (st old)) (ver old)))"

definition insert_row :: "('r \<Rightarrow> string) \<Rightarrow> ('r \<Rightarrow> 'r list \<Rightarrow> bool) \<Rightarrow> 'r \<Rightarrow> 'r list \<Rightarrow> failure + 'r list" where
  "insert_row key ok r rows =
     (if row key (key r) rows = None \<and> ok r rows then Inr (rows @ [r]) else Inl StoreError)"

definition on_success :: "('a \<Rightarrow> 'b) \<Rightarrow> failure + 'a \<Rightarrow> failure + 'b" where
  "on_success f r = (case r of Inl e \<Rightarrow> Inl e | Inr x \<Rightarrow> Inr (f x))"

section \<open>Request dedupe\<close>

definition dedupe_of :: "db \<Rightarrow> string \<Rightarrow> string \<Rightarrow> string \<Rightarrow> dedupe_row option" where
  "dedupe_of d actor operation key =
     find (\<lambda>r. d_scope r = actor \<and> d_operation r = operation \<and> d_key r = key) (d_dedupes d)"

definition tx_Dedupe :: "string \<Rightarrow> string \<Rightarrow> string \<Rightarrow> dedupe_value option op" where
  "tx_Dedupe actor operation key =
     read_db (\<lambda>d. Inr (map_option d_value (dedupe_of d actor operation key)))"

definition tx_PutDedupe :: "string \<Rightarrow> string \<Rightarrow> string \<Rightarrow> dedupe_value \<Rightarrow> stamp \<Rightarrow> unit op" where
  "tx_PutDedupe actor operation key result createdAt =
     write_db (\<lambda>d. if dedupe_of d actor operation key = None
       then Inr (d\<lparr>d_dedupes := d_dedupes d @
         [\<lparr>d_scope = actor, d_operation = operation, d_key = key, d_value = result,
           d_created_at = createdAt\<rparr>]\<rparr>)
       else Inl StoreError)"

section \<open>Projects\<close>

definition project_checks :: "project \<Rightarrow> project list \<Rightarrow> bool" where
  "project_checks p others =
     (1 \<le> p_version p \<and>
      (\<forall>q \<in> set others. p_name q \<noteq> p_name p \<and> p_control_repo_path q \<noteq> p_control_repo_path p))"

definition project_columns :: "project \<Rightarrow> project \<Rightarrow> project" where
  "project_columns old p = p\<lparr>p_created_at := p_created_at old\<rparr>"

definition tx_Project :: "string \<Rightarrow> project op" where
  "tx_Project ident = read_db (\<lambda>d. found (project_of d ident))"

definition tx_ProjectByName :: "string \<Rightarrow> project op" where
  "tx_ProjectByName name = read_db (\<lambda>d. found (find (\<lambda>p. p_name p = name) (d_projects d)))"

definition tx_InsertProject :: "project \<Rightarrow> unit op" where
  "tx_InsertProject p =
     write_db (\<lambda>d. on_success (\<lambda>rows. d\<lparr>d_projects := rows\<rparr>)
       (insert_row p_id project_checks p (d_projects d)))"

definition cas_project :: "project \<Rightarrow> int \<Rightarrow> project_status \<Rightarrow> db \<Rightarrow> failure + db" where
  "cas_project p expectedVersion expectedStatus d =
     on_success (\<lambda>rows. d\<lparr>d_projects := rows\<rparr>)
       (cas_row p_id p_version p_status project_status_text project_columns project_checks p
         expectedVersion expectedStatus (d_projects d))"

definition tx_UpdateProject :: "project \<Rightarrow> int \<Rightarrow> project_status \<Rightarrow> unit op" where
  "tx_UpdateProject p expectedVersion expectedStatus =
     write_db (cas_project p expectedVersion expectedStatus)"

definition tx_ProjectsByIntegrationAgent :: "string \<Rightarrow> project list op" where
  "tx_ProjectsByIntegrationAgent agentID =
     read_db (\<lambda>d. Inr (sort_key p_id
       (filter (\<lambda>p. p_integration_agent_id p = agentID) (d_projects d))))"

record LifecycleBlockers =
  lb_LiveRuns :: nat
  lb_OpenTasks :: nat
  lb_PendingActions :: nat
  lb_AcceptedIntegrationSource :: nat
  lb_UnresolvedAgentMessages :: nat

definition count :: "('r \<Rightarrow> bool) \<Rightarrow> 'r list \<Rightarrow> nat" where
  "count P rows = length (filter P rows)"

definition unresolved_agent_message :: "message \<Rightarrow> bool" where
  "unresolved_agent_message m =
     (m_recipient_kind m = AgentActor \<and> m_state m \<in> {MessagePending, MessageDelivered})"

definition tx_ProjectBlockers :: "string \<Rightarrow> LifecycleBlockers op" where
  "tx_ProjectBlockers projectID = read_db (\<lambda>d. Inr
     \<lparr>lb_LiveRuns = count (\<lambda>r. r_project_id r = projectID \<and> IsRunLive (r_state r)) (d_runs d),
      lb_OpenTasks = count (\<lambda>t. t_project_id t = projectID \<and> IsTaskOpen (t_status t)) (d_tasks d),
      lb_PendingActions =
        count (\<lambda>t. t_project_id t = projectID \<and> t_pending_action t \<noteq> NoAction) (d_tasks d),
      lb_AcceptedIntegrationSource = 0,
      lb_UnresolvedAgentMessages =
        count (\<lambda>m. m_project_id m = projectID \<and> unresolved_agent_message m) (d_messages d)\<rparr>)"

section \<open>Agents\<close>

definition agent_checks :: "agent \<Rightarrow> agent list \<Rightarrow> bool" where
  "agent_checks a others = (1 \<le> a_version a)"

definition agent_columns :: "agent \<Rightarrow> agent \<Rightarrow> agent" where
  "agent_columns old a = a\<lparr>a_created_at := a_created_at old\<rparr>"

definition tx_Agent :: "string \<Rightarrow> agent op" where
  "tx_Agent ident = read_db (\<lambda>d. found (agent_of d ident))"

definition tx_InsertAgent :: "agent \<Rightarrow> unit op" where
  "tx_InsertAgent a =
     write_db (\<lambda>d. on_success (\<lambda>rows. d\<lparr>d_agents := rows\<rparr>)
       (insert_row a_id agent_checks a (d_agents d)))"

definition cas_agent :: "agent \<Rightarrow> int \<Rightarrow> agent_status \<Rightarrow> db \<Rightarrow> failure + db" where
  "cas_agent a expectedVersion expectedStatus d =
     on_success (\<lambda>rows. d\<lparr>d_agents := rows\<rparr>)
       (cas_row a_id a_version a_status agent_status_text agent_columns agent_checks a
         expectedVersion expectedStatus (d_agents d))"

definition tx_UpdateAgent :: "agent \<Rightarrow> int \<Rightarrow> agent_status \<Rightarrow> unit op" where
  "tx_UpdateAgent a expectedVersion expectedStatus =
     write_db (cas_agent a expectedVersion expectedStatus)"

definition tx_AgentBlockers :: "string \<Rightarrow> LifecycleBlockers op" where
  "tx_AgentBlockers agentID = read_db (\<lambda>d. Inr
     \<lparr>lb_LiveRuns = count (\<lambda>r. r_agent_id r = agentID \<and> IsRunLive (r_state r)) (d_runs d),
      lb_OpenTasks =
        count (\<lambda>t. t_assignee_agent_id t = agentID \<and> IsTaskOpen (t_status t)) (d_tasks d),
      lb_PendingActions = 0,
      lb_AcceptedIntegrationSource =
        count (\<lambda>t. t_accepted_integration_agent_id t = agentID \<and> IsTaskOpen (t_status t)) (d_tasks d),
      lb_UnresolvedAgentMessages =
        count (\<lambda>m. m_recipient_id m = agentID \<and> unresolved_agent_message m) (d_messages d)\<rparr>)"

section \<open>Tasks\<close>

definition open_conversation :: "task \<Rightarrow> bool" where
  "open_conversation t = (t_kind t = TaskConversation \<and> IsTaskOpen (t_status t))"

definition open_integration :: "task \<Rightarrow> bool" where
  "open_integration t =
     (t_kind t = TaskIntegration \<and> t_source_task_ref t \<noteq> [] \<and> IsTaskOpen (t_status t))"

definition task_checks :: "task \<Rightarrow> task list \<Rightarrow> bool" where
  "task_checks t others =
     (0 \<le> t_generation t \<and> 0 \<le> t_retry_count t \<and> 0 \<le> t_max_retries t \<and> 0 \<le> t_budget_seconds t \<and>
      1 \<le> t_version t \<and> t_created_by_kind t \<in> {Boss, AgentActor, System} \<and>
      (\<forall>u \<in> set others.
         \<not> (open_conversation t \<and> open_conversation u \<and> t_project_id u = t_project_id t \<and>
            t_assignee_participant_id u = t_assignee_participant_id t) \<and>
         \<not> (t_current_run_id t \<noteq> [] \<and> t_current_run_id u = t_current_run_id t) \<and>
         \<not> (open_integration t \<and> open_integration u \<and> t_project_id u = t_project_id t \<and>
            t_source_task_ref u = t_source_task_ref t)))"

text \<open>The columns \<open>UpdateTask\<close> does not set keep their stored value.\<close>

definition task_columns :: "task \<Rightarrow> task \<Rightarrow> task" where
  "task_columns old t = t\<lparr>
     t_project_id := t_project_id old, t_kind := t_kind old, t_parent_task_id := t_parent_task_id old,
     t_retry_of_task_id := t_retry_of_task_id old, t_created_by_kind := t_created_by_kind old,
     t_created_by_id := t_created_by_id old, t_assignee_agent_id := t_assignee_agent_id old,
     t_title := t_title old, t_description := t_description old, t_priority := t_priority old,
     t_created_at := t_created_at old\<rparr>"

text \<open>\<open>scanTask\<close> grades the evidence of a row from before that column existed. In the tables of this model no row needs
  that (\<open>scanned_evidence\<close>), so the reads below return the stored row.\<close>

definition effectiveEvidenceType :: "task \<Rightarrow> evidence" where
  "effectiveEvidenceType t =
     (if t_evidence_type t \<noteq> NoEvidence then t_evidence_type t
      else if (t_kind t = TaskWork \<or> t_kind t = TaskIntegration) \<and> t_assignee_agent_id t \<noteq> [] \<and> t_head_sha t \<noteq> [] \<and>
          t_head_run_id t \<noteq> [] \<and> t_task_ref t \<noteq> [] then EvidenceCaptured
      else NoEvidence)"

definition tx_Task :: "string \<Rightarrow> task op" where
  "tx_Task ident = read_db (\<lambda>d. found (task_of d ident))"

definition tx_RunnableTasks :: "string \<Rightarrow> task list op" where
  "tx_RunnableTasks projectID = read_db (\<lambda>d. Inr
     (filter (\<lambda>t. t_status t = TaskQueued \<and> t_current_run_id t = [] \<and>
        (projectID = [] \<or> t_project_id t = projectID)) (d_tasks d)))"

definition tx_Conversation :: "string \<Rightarrow> string \<Rightarrow> task op" where
  "tx_Conversation projectID agentID = read_db (\<lambda>d. found
     (find (\<lambda>t. t_project_id t = projectID \<and> t_assignee_agent_id t = agentID \<and> open_conversation t)
       (d_tasks d)))"

definition tx_InsertTask :: "task \<Rightarrow> unit op" where
  "tx_InsertTask t =
     write_db (\<lambda>d. if project_of d (t_project_id t) = None then Inl StoreError
       else on_success (\<lambda>rows. d\<lparr>d_tasks := rows\<rparr>) (insert_row t_id task_checks t (d_tasks d)))"

definition cas_task :: "task \<Rightarrow> int \<Rightarrow> task_status \<Rightarrow> db \<Rightarrow> failure + db" where
  "cas_task t expectedVersion expectedStatus d =
     on_success (\<lambda>rows. d\<lparr>d_tasks := rows\<rparr>)
       (cas_row t_id t_version t_status task_status_text task_columns task_checks t
         expectedVersion expectedStatus (d_tasks d))"

definition tx_UpdateTask :: "task \<Rightarrow> int \<Rightarrow> task_status \<Rightarrow> unit op" where
  "tx_UpdateTask t expectedVersion expectedStatus = write_db (cas_task t expectedVersion expectedStatus)"

section \<open>Runs\<close>

definition run_checks :: "run \<Rightarrow> run list \<Rightarrow> bool" where
  "run_checks r others =
     (1 \<le> r_generation r \<and> 1 \<le> r_version r \<and>
      r_requested_outcome r \<in> {NoOutcome, OutcomeWait, OutcomeSubmit, OutcomeFail} \<and>
      r_launch_mode r \<in> {StartMode, ResumeMode} \<and>
      r_isolation_spec_version r \<in> {RunIsolationSpecV1, RunIsolationSpecCurrent} \<and>
      (\<forall>u \<in> set others.
         r_token_hash u \<noteq> r_token_hash r \<and>
         \<not> (IsRunLive (r_state r) \<and> IsRunLive (r_state u) \<and> r_agent_id u = r_agent_id r) \<and>
         \<not> (IsRunLive (r_state r) \<and> IsRunLive (r_state u) \<and> r_task_id u = r_task_id r)))"

definition normalizedIsolationSpecVersion :: "run \<Rightarrow> int" where
  "normalizedIsolationSpecVersion r =
     (if r_isolation_spec_version r = 0 then RunIsolationSpecCurrent else r_isolation_spec_version r)"

definition run_columns :: "run \<Rightarrow> run \<Rightarrow> run" where
  "run_columns old r = r\<lparr>
     r_project_id := r_project_id old, r_task_id := r_task_id old, r_agent_id := r_agent_id old,
     r_generation := r_generation old, r_adapter_id := r_adapter_id old, r_image := r_image old,
     r_token_hash := r_token_hash old, r_created_at := r_created_at old,
     r_isolation_spec_version := normalizedIsolationSpecVersion r\<rparr>"

definition tx_Run :: "string \<Rightarrow> run op" where
  "tx_Run ident = read_db (\<lambda>d. found (run_of d ident))"

definition tx_RunByTokenHash :: "string \<Rightarrow> run op" where
  "tx_RunByTokenHash tokenHash =
     read_db (\<lambda>d. found (find (\<lambda>r. r_token_hash r = tokenHash) (d_runs d)))"

definition tx_InsertRun :: "run \<Rightarrow> unit op" where
  "tx_InsertRun r =
     write_db (\<lambda>d.
       if project_of d (r_project_id r) = None \<or> task_of d (r_task_id r) = None \<or>
          agent_of d (r_agent_id r) = None then Inl StoreError
       else on_success (\<lambda>rows. d\<lparr>d_runs := rows\<rparr>)
         (insert_row r_id run_checks
           (r\<lparr>r_isolation_spec_version := normalizedIsolationSpecVersion r\<rparr>) (d_runs d)))"

definition cas_run :: "run \<Rightarrow> int \<Rightarrow> run_state \<Rightarrow> db \<Rightarrow> failure + db" where
  "cas_run r expectedVersion expectedState d =
     on_success (\<lambda>rows. d\<lparr>d_runs := rows\<rparr>)
       (cas_row r_id r_version r_state run_state_text run_columns run_checks r
         expectedVersion expectedState (d_runs d))"

definition tx_UpdateRun :: "run \<Rightarrow> int \<Rightarrow> run_state \<Rightarrow> unit op" where
  "tx_UpdateRun r expectedVersion expectedState = write_db (cas_run r expectedVersion expectedState)"

definition tx_LiveRunCount :: "string \<Rightarrow> string \<Rightarrow> int op" where
  "tx_LiveRunCount projectID agentID = read_db (\<lambda>d. Inr (int
     (count (\<lambda>r. IsRunLive (r_state r) \<and> (projectID = [] \<or> r_project_id r = projectID) \<and>
        (agentID = [] \<or> r_agent_id r = agentID)) (d_runs d))))"

definition tx_AgentRuntimeOccupancy :: "string \<Rightarrow> int op" where
  "tx_AgentRuntimeOccupancy agentID = read_db (\<lambda>d. Inr (int
     (count (\<lambda>r. r_agent_id r = trim_space agentID \<and>
        (IsRunLive (r_state r) \<or> r_cleanup_state r \<in> {CleanupPending, CleanupBlocked})) (d_runs d))))"

section \<open>Messages\<close>

definition message_checks :: "message \<Rightarrow> message list \<Rightarrow> bool" where
  "message_checks m others =
     (m_sender_kind m \<in> {Boss, AgentActor, System} \<and> m_recipient_kind m \<in> {Boss, AgentActor} \<and>
      0 \<le> m_delivery_count m \<and> 0 \<le> m_max_deliveries m \<and> 1 \<le> m_version m)"

definition message_columns :: "message \<Rightarrow> message \<Rightarrow> message" where
  "message_columns old m = m\<lparr>
     m_project_id := m_project_id old, m_sender_kind := m_sender_kind old,
     m_sender_id := m_sender_id old, m_reply_to_message_id := m_reply_to_message_id old,
     m_idempotency_key := m_idempotency_key old, m_created_at := m_created_at old\<rparr>"

definition by_creation :: "message list \<Rightarrow> message list" where
  "by_creation ms = sort_key (\<lambda>m. (m_created_at m, m_id m)) ms"

definition tx_Message :: "string \<Rightarrow> message op" where
  "tx_Message ident = read_db (\<lambda>d. found (message_of d ident))"

definition tx_MessagesForTask :: "string \<Rightarrow> message list op" where
  "tx_MessagesForTask taskID =
     read_db (\<lambda>d. Inr (by_creation (filter (\<lambda>m. m_task_id m = taskID) (d_messages d))))"

definition tx_MessagesForRun :: "string \<Rightarrow> message list op" where
  "tx_MessagesForRun runID =
     read_db (\<lambda>d. Inr (by_creation (filter (\<lambda>m. m_delivered_run_id m = runID) (d_messages d))))"

definition tx_MessagesForRecipient :: "actor_kind \<Rightarrow> string \<Rightarrow> message list op" where
  "tx_MessagesForRecipient kind ident = read_db (\<lambda>d. Inr (by_creation
     (filter (\<lambda>m. m_recipient_kind m = kind \<and> m_recipient_id m = ident) (d_messages d))))"

definition pending_wake :: "string \<Rightarrow> message \<Rightarrow> bool" where
  "pending_wake taskID m =
     (m_task_id m = taskID \<and> m_recipient_kind m = AgentActor \<and> m_wake m \<and> m_state m = MessagePending \<and>
      m_next_delivery_at m \<noteq> NoStamp \<and>
      (m_max_deliveries m = 0 \<or> m_delivery_count m < m_max_deliveries m))"

definition tx_PendingWakeAt :: "string \<Rightarrow> stamp option op" where
  "tx_PendingWakeAt taskID = read_db (\<lambda>d. Inr
     (case sort_key (\<lambda>m. (m_next_delivery_at m, m_id m)) (filter (pending_wake taskID) (d_messages d)) of
        [] \<Rightarrow> None | m # _ \<Rightarrow> Some (m_next_delivery_at m)))"

definition tx_InsertMessage :: "message \<Rightarrow> unit op" where
  "tx_InsertMessage m =
     write_db (\<lambda>d.
       if project_of d (m_project_id m) = None \<or> task_of d (m_task_id m) = None then Inl StoreError
       else on_success (\<lambda>rows. d\<lparr>d_messages := rows\<rparr>)
         (insert_row m_id message_checks m (d_messages d)))"

definition cas_message :: "message \<Rightarrow> int \<Rightarrow> message_state \<Rightarrow> db \<Rightarrow> failure + db" where
  "cas_message m expectedVersion expectedState d =
     on_success (\<lambda>rows. d\<lparr>d_messages := rows\<rparr>)
       (cas_row m_id m_version m_state message_state_text message_columns
         (\<lambda>new others. message_checks new others \<and> task_of d (m_task_id new) \<noteq> None) m
         expectedVersion expectedState (d_messages d))"

definition tx_UpdateMessage :: "message \<Rightarrow> int \<Rightarrow> message_state \<Rightarrow> unit op" where
  "tx_UpdateMessage m expectedVersion expectedState =
     write_db (cas_message m expectedVersion expectedState)"

section \<open>Events\<close>

definition MaximumEventPayloadBytes :: nat where
  "MaximumEventPayloadBytes = 32768"

definition tx_AppendEvent :: "event \<Rightarrow> event op" where
  "tx_AppendEvent e = (\<lambda>w.
     if MaximumEventPayloadBytes < length (e_payload_json e) then (Inl (NewError INTERNAL False), w)
     else if e_actor_kind e = NoActor then (Inl StoreError, w)
     else let d = w_db w; e' = e\<lparr>e_id := d_event_seq d + 1\<rparr> in
       (Inr e', w\<lparr>w_db := d\<lparr>d_events := d_events d @ [e'], d_event_seq := d_event_seq d + 1\<rparr>\<rparr>))"

section \<open>Roles, participants, bindings and credentials\<close>

definition role_checks :: "role \<Rightarrow> role list \<Rightarrow> bool" where
  "role_checks r others = (1 \<le> ro_version r \<and> (\<forall>u \<in> set others. ro_name u \<noteq> ro_name r))"

definition tx_Role :: "string \<Rightarrow> role op" where
  "tx_Role ident = read_db (\<lambda>d. found (role_of d ident))"

definition tx_Roles :: "role list op" where
  "tx_Roles = read_db (\<lambda>d. Inr (sort_key ro_name (d_roles d)))"

definition tx_InsertRole :: "role \<Rightarrow> unit op" where
  "tx_InsertRole r =
     write_db (\<lambda>d. on_success (\<lambda>rows. d\<lparr>d_roles := rows\<rparr>)
       (insert_row ro_id role_checks r (d_roles d)))"

text \<open>\<open>casResult\<close> after an update that met no row: what the query of the entity finds. It knows no entity \<open>role\<close>.\<close>

definition cas_query :: "db \<Rightarrow> string \<Rightarrow> string \<Rightarrow> (string \<times> int) option option" where
  "cas_query d entity ident =
     (if entity = ''project'' then Some (map_option (\<lambda>p. (project_status_text (p_status p), p_version p)) (project_of d ident))
      else if entity = ''agent'' then Some (map_option (\<lambda>a. (agent_status_text (a_status a), a_version a)) (agent_of d ident))
      else if entity = ''participant'' then
        Some (map_option (\<lambda>p. (agent_status_text (pa_status p), pa_version p)) (participant_of d ident))
      else if entity = ''task'' then Some (map_option (\<lambda>t. (task_status_text (t_status t), t_version t)) (task_of d ident))
      else if entity = ''run'' then Some (map_option (\<lambda>r. (run_state_text (r_state r), r_version r)) (run_of d ident))
      else if entity = ''message'' then
        Some (map_option (\<lambda>m. (message_state_text (m_state m), m_version m)) (message_of d ident))
      else None)"

definition casResult :: "db \<Rightarrow> string \<Rightarrow> string \<Rightarrow> failure" where
  "casResult d entity ident =
     (case cas_query d entity ident of
        None \<Rightarrow> NewError INTERNAL False
      | Some None \<Rightarrow> NewError NOT_FOUND False
      | Some (Some (state, version)) \<Rightarrow> Conflict VERSION_CONFLICT state version)"

definition cas_role :: "role \<Rightarrow> int \<Rightarrow> db \<Rightarrow> failure + db" where
  "cas_role r expectedVersion d =
     (case role_of d (ro_id r) of
        None \<Rightarrow> Inl (casResult d ''role'' (ro_id r))
      | Some old \<Rightarrow>
          if ro_version old = expectedVersion then
            (let new = r\<lparr>ro_created_at := ro_created_at old\<rparr> in
             if role_checks new (filter (\<lambda>u. ro_id u \<noteq> ro_id r) (d_roles d))
             then Inr (d\<lparr>d_roles := put_row ro_id new (d_roles d)\<rparr>) else Inl StoreError)
          else Inl (casResult d ''role'' (ro_id r)))"

definition tx_UpdateRole :: "role \<Rightarrow> int \<Rightarrow> unit op" where
  "tx_UpdateRole r expectedVersion = write_db (cas_role r expectedVersion)"

definition tx_DeleteRole :: "string \<Rightarrow> unit op" where
  "tx_DeleteRole ident = write_db (\<lambda>d.
     if (\<exists>b \<in> set (d_bindings d). b_role_id b = ident) \<and> role_of d ident \<noteq> None then Inl StoreError
     else if role_of d ident = None then Inl (NewError NOT_FOUND False)
     else Inr (d\<lparr>d_roles := filter (\<lambda>r. ro_id r \<noteq> ident) (d_roles d)\<rparr>))"

definition tx_RoleBindingCount :: "string \<Rightarrow> nat op" where
  "tx_RoleBindingCount roleID =
     read_db (\<lambda>d. Inr (count (\<lambda>b. b_role_id b = roleID) (d_bindings d)))"

definition participant_checks :: "participant \<Rightarrow> participant list \<Rightarrow> bool" where
  "participant_checks p others = (1 \<le> pa_version p)"

definition tx_Participant :: "string \<Rightarrow> participant op" where
  "tx_Participant ident = read_db (\<lambda>d. found (participant_of d ident))"

definition tx_Participants :: "participant list op" where
  "tx_Participants = read_db (\<lambda>d. Inr (sort_key pa_display_name (d_participants d)))"

definition tx_InsertParticipant :: "participant \<Rightarrow> unit op" where
  "tx_InsertParticipant p =
     write_db (\<lambda>d. on_success (\<lambda>rows. d\<lparr>d_participants := rows\<rparr>)
       (insert_row pa_id participant_checks p (d_participants d)))"

definition tx_UpdateParticipant :: "participant \<Rightarrow> int \<Rightarrow> unit op" where
  "tx_UpdateParticipant p expectedVersion =
     write_db (\<lambda>d.
       case participant_of d (pa_id p) of
         None \<Rightarrow> Inl (casResult d ''participant'' (pa_id p))
       | Some old \<Rightarrow>
           if pa_version old = expectedVersion then
             (if 1 \<le> pa_version p
              then Inr (d\<lparr>d_participants := put_row pa_id
                (p\<lparr>pa_kind := pa_kind old, pa_created_at := pa_created_at old\<rparr>) (d_participants d)\<rparr>)
              else Inl StoreError)
           else Inl (casResult d ''participant'' (pa_id p)))"

definition joined_binding :: "db \<Rightarrow> binding \<Rightarrow> binding" where
  "joined_binding d b =
     (case role_of d (b_role_id b) of
        None \<Rightarrow> b
      | Some r \<Rightarrow> b\<lparr>b_role_name := ro_name r, b_capabilities := ro_capabilities r\<rparr>)"

definition roles_of_participant :: "db \<Rightarrow> string \<Rightarrow> binding list" where
  "roles_of_participant d participantID =
     sort_key (\<lambda>b. (b_project_id b, b_role_id b)) (map (joined_binding d)
       (filter (\<lambda>b. b_participant_id b = participantID \<and> role_of d (b_role_id b) \<noteq> None)
         (d_bindings d)))"

definition tx_ParticipantRoles :: "string \<Rightarrow> binding list op" where
  "tx_ParticipantRoles participantID = read_db (\<lambda>d. Inr (roles_of_participant d participantID))"

definition same_binding :: "binding \<Rightarrow> binding \<Rightarrow> bool" where
  "same_binding a b =
     (b_participant_id a = b_participant_id b \<and> b_project_id a = b_project_id b \<and>
      b_role_id a = b_role_id b)"

definition tx_InsertParticipantRole :: "binding \<Rightarrow> unit op" where
  "tx_InsertParticipantRole b = write_db (\<lambda>d.
     if participant_of d (b_participant_id b) = None \<or> role_of d (b_role_id b) = None \<or>
        (\<exists>x \<in> set (d_bindings d). same_binding x b) \<or> b_version b < 1 then Inl StoreError
     else Inr (d\<lparr>d_bindings := d_bindings d @ [b]\<rparr>))"

definition tx_DeleteParticipantRole :: "string \<Rightarrow> string \<Rightarrow> string \<Rightarrow> unit op" where
  "tx_DeleteParticipantRole participantID projectID roleID = write_db (\<lambda>d.
     let matches = (\<lambda>b. b_participant_id b = participantID \<and> b_project_id b = projectID \<and>
           b_role_id b = roleID) in
     if count matches (d_bindings d) \<noteq> 1 then Inl (NewError NOT_FOUND False)
     else Inr (d\<lparr>d_bindings := filter (\<lambda>b. \<not> matches b) (d_bindings d)\<rparr>))"

definition tx_Credential :: "string \<Rightarrow> credential op" where
  "tx_Credential ident = read_db (\<lambda>d. found (credential_of d ident))"

definition tx_Credentials :: "string \<Rightarrow> credential list op" where
  "tx_Credentials participantID = read_db (\<lambda>d. Inr (sort_key (\<lambda>c. (c_created_at c, c_id c))
     (filter (\<lambda>c. c_participant_id c = participantID) (d_credentials d))))"

definition tx_InsertCredential :: "credential \<Rightarrow> unit op" where
  "tx_InsertCredential c = write_db (\<lambda>d.
     if participant_of d (c_participant_id c) = None then Inl StoreError
     else on_success (\<lambda>rows. d\<lparr>d_credentials := rows\<rparr>)
       (insert_row c_id (\<lambda>_ _. True) c (d_credentials d)))"

definition tx_UpdateCredential :: "credential \<Rightarrow> credential_status \<Rightarrow> unit op" where
  "tx_UpdateCredential c expectedStatus = write_db (\<lambda>d.
     case credential_of d (c_id c) of
       None \<Rightarrow> Inl (Conflict VERSION_CONFLICT (credential_status_text expectedStatus) 1)
     | Some old \<Rightarrow>
         if c_status old = expectedStatus then
           Inr (d\<lparr>d_credentials := put_row c_id
             (old\<lparr>c_status := c_status c, c_revoked_at := c_revoked_at c\<rparr>) (d_credentials d)\<rparr>)
         else Inl (Conflict VERSION_CONFLICT (credential_status_text expectedStatus) 1))"

definition tx_SetParticipantCredential :: "string \<Rightarrow> string \<Rightarrow> unit op" where
  "tx_SetParticipantCredential participantID credentialID = write_db (\<lambda>d.
     case participant_of d participantID of
       None \<Rightarrow> Inl (NewError NOT_FOUND False)
     | Some p \<Rightarrow> Inr (d\<lparr>d_participants :=
         put_row pa_id (p\<lparr>pa_credential_id := credentialID\<rparr>) (d_participants d)\<rparr>))"

section \<open>Deletion\<close>

definition delete_runs :: "(run \<Rightarrow> bool) \<Rightarrow> run list op" where
  "delete_runs gone = (\<lambda>w. (Inr (filter gone (d_runs (w_db w))),
     w\<lparr>w_db := (w_db w)\<lparr>d_runs := filter (\<lambda>r. \<not> gone r) (d_runs (w_db w))\<rparr>\<rparr>))"

definition tx_DeleteRunsByTask :: "string \<Rightarrow> run list op" where
  "tx_DeleteRunsByTask taskID = delete_runs (\<lambda>r. r_task_id r = taskID)"

definition tx_DeleteRunsByProject :: "string \<Rightarrow> run list op" where
  "tx_DeleteRunsByProject projectID = delete_runs (\<lambda>r. r_project_id r = projectID)"

definition tx_DeleteMessagesByTask :: "string \<Rightarrow> unit op" where
  "tx_DeleteMessagesByTask taskID =
     write_db (\<lambda>d. Inr (d\<lparr>d_messages := filter (\<lambda>m. m_task_id m \<noteq> taskID) (d_messages d)\<rparr>))"

definition tx_DeleteMessagesByProject :: "string \<Rightarrow> unit op" where
  "tx_DeleteMessagesByProject projectID =
     write_db (\<lambda>d. Inr (d\<lparr>d_messages := filter (\<lambda>m. m_project_id m \<noteq> projectID) (d_messages d)\<rparr>))"

definition tx_DeleteEventsByTask :: "string \<Rightarrow> unit op" where
  "tx_DeleteEventsByTask taskID = write_db (\<lambda>d. Inr (d\<lparr>d_events :=
     filter (\<lambda>e. \<not> (e_entity_type e = TaskEntity \<and> e_entity_id e = taskID)) (d_events d)\<rparr>))"

definition tx_DeleteEventsByProject :: "string \<Rightarrow> unit op" where
  "tx_DeleteEventsByProject projectID =
     write_db (\<lambda>d. Inr (d\<lparr>d_events := filter (\<lambda>e. e_project_id e \<noteq> projectID) (d_events d)\<rparr>))"

definition delete_tasks :: "(task \<Rightarrow> bool) \<Rightarrow> db \<Rightarrow> failure + db" where
  "delete_tasks gone d =
     (if (\<exists>r \<in> set (d_runs d). \<exists>t \<in> set (d_tasks d). gone t \<and> r_task_id r = t_id t) \<or>
         (\<exists>m \<in> set (d_messages d). \<exists>t \<in> set (d_tasks d). gone t \<and> m_task_id m = t_id t)
      then Inl StoreError
      else Inr (d\<lparr>d_tasks := filter (\<lambda>t. \<not> gone t) (d_tasks d)\<rparr>))"

definition tx_DeleteTask :: "string \<Rightarrow> unit op" where
  "tx_DeleteTask ident = write_db (\<lambda>d.
     case delete_tasks (\<lambda>t. t_id t = ident) d of
       Inl e \<Rightarrow> Inl e
     | Inr d' \<Rightarrow> if task_of d ident = None then Inl (NewError NOT_FOUND False) else Inr d')"

definition tx_DeleteTasksByProject :: "string \<Rightarrow> unit op" where
  "tx_DeleteTasksByProject projectID = write_db (delete_tasks (\<lambda>t. t_project_id t = projectID))"

definition tx_DeleteProjectBindings :: "string \<Rightarrow> unit op" where
  "tx_DeleteProjectBindings projectID =
     write_db (\<lambda>d. Inr (d\<lparr>d_bindings := filter (\<lambda>b. b_project_id b \<noteq> projectID) (d_bindings d)\<rparr>))"

definition tx_DeleteProject :: "string \<Rightarrow> unit op" where
  "tx_DeleteProject ident = write_db (\<lambda>d.
     if (\<exists>t \<in> set (d_tasks d). t_project_id t = ident) \<or> (\<exists>r \<in> set (d_runs d). r_project_id r = ident) \<or>
        (\<exists>m \<in> set (d_messages d). m_project_id m = ident) then Inl StoreError
     else if project_of d ident = None then Inl (NewError NOT_FOUND False)
     else Inr (d\<lparr>d_projects := filter (\<lambda>p. p_id p \<noteq> ident) (d_projects d)\<rparr>))"

section \<open>What a read and a write give\<close>

lemma found_Inr [simp]: "(found r = Inr x) = (r = Some x)"
  by (cases r) (auto simp: found_def)

lemma on_success_Inr: "(on_success f r = Inr y) = (\<exists>x. r = Inr x \<and> y = f x)"
  by (cases r) (auto simp: on_success_def)

lemma on_success_Inl: "(on_success f r = Inl e) = (r = Inl e)"
  by (cases r) (auto simp: on_success_def)

lemma wp_read_db [wp_simps]: "wp (read_db f) Q = (\<lambda>w. \<forall>x. f (w_db w) = Inr x \<longrightarrow> Q x w)"
  by (auto simp: wp_def read_db_def fun_eq_iff)

lemma wp_write_db [wp_simps]:
  "wp (write_db f) Q = (\<lambda>w. \<forall>d. f (w_db w) = Inr d \<longrightarrow> Q () (w\<lparr>w_db := d\<rparr>))"
  by (auto simp: wp_def write_db_def fun_eq_iff split: sum.splits)

lemma cas_row_Inr:
  "(cas_row key ver st text merge ok r v s rows = Inr rows') =
   (\<exists>old. row key (key r) rows = Some old \<and> ver old = v \<and> st old = s \<and>
      ok (merge old r) (filter (\<lambda>u. key u \<noteq> key r) rows) \<and> rows' = put_row key (merge old r) rows)"
  by (auto simp: cas_row_def split: option.splits if_splits)

lemma cas_row_stale:
  "row key (key r) rows = Some old \<Longrightarrow> ver old \<noteq> v \<or> st old \<noteq> s \<Longrightarrow>
   cas_row key ver st text merge ok r v s rows = Inl (Conflict VERSION_CONFLICT (text (st old)) (ver old))"
  by (auto simp: cas_row_def)

lemma insert_row_Inr:
  "(insert_row key ok r rows = Inr rows') =
   (row key (key r) rows = None \<and> ok r rows \<and> rows' = rows @ [r])"
  by (auto simp: insert_row_def)

lemmas columns_defs = task_columns_def run_columns_def message_columns_def project_columns_def
  agent_columns_def

lemma columns_key [simp]:
  "t_id (task_columns old t) = t_id t" "r_id (run_columns ro r) = r_id r"
  "m_id (message_columns mo m) = m_id m" "p_id (project_columns po p) = p_id p"
  "a_id (agent_columns ao a) = a_id a"
  by (simp_all add: columns_defs)

lemma columns_version [simp]:
  "t_version (task_columns old t) = t_version t" "r_version (run_columns ro r) = r_version r"
  "m_version (message_columns mo m) = m_version m" "p_version (project_columns po p) = p_version p"
  "a_version (agent_columns ao a) = a_version a"
  by (simp_all add: columns_defs)

lemma columns_status [simp]:
  "t_status (task_columns old t) = t_status t" "r_state (run_columns ro r) = r_state r"
  "m_state (message_columns mo m) = m_state m" "p_status (project_columns po p) = p_status p"
  "a_status (agent_columns ao a) = a_status a"
  by (simp_all add: columns_defs)

lemma cas_task_Inr:
  "(cas_task t v s d = Inr d') =
   (\<exists>old. task_of d (t_id t) = Some old \<and> t_version old = v \<and> t_status old = s \<and>
      task_checks (task_columns old t) (filter (\<lambda>u. t_id u \<noteq> t_id t) (d_tasks d)) \<and>
      d' = d\<lparr>d_tasks := put_row t_id (task_columns old t) (d_tasks d)\<rparr>)"
  by (auto simp: cas_task_def on_success_Inr cas_row_Inr)

lemma cas_run_Inr:
  "(cas_run r v s d = Inr d') =
   (\<exists>old. run_of d (r_id r) = Some old \<and> r_version old = v \<and> r_state old = s \<and>
      run_checks (run_columns old r) (filter (\<lambda>u. r_id u \<noteq> r_id r) (d_runs d)) \<and>
      d' = d\<lparr>d_runs := put_row r_id (run_columns old r) (d_runs d)\<rparr>)"
  by (auto simp: cas_run_def on_success_Inr cas_row_Inr)

lemma cas_message_Inr:
  "(cas_message m v s d = Inr d') =
   (\<exists>old. message_of d (m_id m) = Some old \<and> m_version old = v \<and> m_state old = s \<and>
      message_checks (message_columns old m) (filter (\<lambda>u. m_id u \<noteq> m_id m) (d_messages d)) \<and>
      task_of d (m_task_id (message_columns old m)) \<noteq> None \<and>
      d' = d\<lparr>d_messages := put_row m_id (message_columns old m) (d_messages d)\<rparr>)"
  unfolding cas_message_def on_success_Inr cas_row_Inr by auto

lemma cas_project_Inr:
  "(cas_project p v s d = Inr d') =
   (\<exists>old. project_of d (p_id p) = Some old \<and> p_version old = v \<and> p_status old = s \<and>
      project_checks (project_columns old p) (filter (\<lambda>u. p_id u \<noteq> p_id p) (d_projects d)) \<and>
      d' = d\<lparr>d_projects := put_row p_id (project_columns old p) (d_projects d)\<rparr>)"
  by (auto simp: cas_project_def on_success_Inr cas_row_Inr)

lemma cas_agent_Inr:
  "(cas_agent a v s d = Inr d') =
   (\<exists>old. agent_of d (a_id a) = Some old \<and> a_version old = v \<and> a_status old = s \<and>
      agent_checks (agent_columns old a) (filter (\<lambda>u. a_id u \<noteq> a_id a) (d_agents d)) \<and>
      d' = d\<lparr>d_agents := put_row a_id (agent_columns old a) (d_agents d)\<rparr>)"
  by (auto simp: cas_agent_def on_success_Inr cas_row_Inr)

lemmas cas_Inr = cas_task_Inr cas_run_Inr cas_message_Inr cas_project_Inr cas_agent_Inr

section \<open>Compare-and-swap as an interface\<close>

text \<open>The contract every versioned table gives the service: a successful update found the row at the
  expected version and status, leaves it at the new ones and touches no other row; an update whose
  expectation does not hold is a \<open>VERSION_CONFLICT\<close>.\<close>

locale cas_table =
  fixes find_row :: "'d \<Rightarrow> string \<Rightarrow> 'r option"
    and cas :: "'r \<Rightarrow> int \<Rightarrow> 's \<Rightarrow> 'd \<Rightarrow> failure + 'd"
    and ident :: "'r \<Rightarrow> string" and version :: "'r \<Rightarrow> int" and status :: "'r \<Rightarrow> 's"
  assumes cas_success: "cas r v s d = Inr d' \<Longrightarrow>
      \<exists>old new. find_row d (ident r) = Some old \<and> version old = v \<and> status old = s \<and>
        find_row d' (ident r) = Some new \<and> version new = version r \<and> status new = status r"
    and cas_other: "cas r v s d = Inr d' \<Longrightarrow> k \<noteq> ident r \<Longrightarrow> find_row d' k = find_row d k"
    and cas_stale: "find_row d (ident r) = Some old \<Longrightarrow> version old \<noteq> v \<or> status old \<noteq> s \<Longrightarrow>
      \<exists>e. cas r v s d = Inl e \<and> IsCode e VERSION_CONFLICT"
begin

text \<open>Of two writers that read the same version, the second one cannot apply its update.\<close>

lemma no_lost_update:
  assumes first: "cas r v s d = Inr d'" and new: "version r \<noteq> v" and same: "ident r' = ident r"
  shows "\<exists>e. cas r' v s' d' = Inl e \<and> IsCode e VERSION_CONFLICT"
proof -
  obtain row where "find_row d' (ident r) = Some row" "version row = version r"
    using cas_success [OF first] by blast
  then show ?thesis
    using cas_stale [of d' r' row v s'] new same by auto
qed

lemma cas_keeps_rows: "cas r v s d = Inr d' \<Longrightarrow> find_row d k = None \<longleftrightarrow> find_row d' k = None"
  using cas_success [of r v s d d'] cas_other [of r v s d d' k] by (cases "k = ident r") auto

end

interpretation task_table: cas_table task_of cas_task t_id t_version t_status
proof (unfold_locales, goal_cases)
  case (1 r v s d d')
  then show ?case by (auto simp: cas_task_Inr row_put_row)
next
  case (2 r v s d d' k)
  then show ?case by (auto simp: cas_task_Inr row_put_row)
next
  case (3 d r old v s)
  then show ?case by (auto simp: cas_task_def on_success_Inl cas_row_stale)
qed

interpretation run_table: cas_table run_of cas_run r_id r_version r_state
proof (unfold_locales, goal_cases)
  case (1 r v s d d')
  then show ?case by (auto simp: cas_run_Inr row_put_row)
next
  case (2 r v s d d' k)
  then show ?case by (auto simp: cas_run_Inr row_put_row)
next
  case (3 d r old v s)
  then show ?case by (auto simp: cas_run_def on_success_Inl cas_row_stale)
qed

interpretation message_table: cas_table message_of cas_message m_id m_version m_state
proof (unfold_locales, goal_cases)
  case (1 r v s d d')
  then show ?case by (auto simp: cas_message_Inr row_put_row)
next
  case (2 r v s d d' k)
  then show ?case by (auto simp: cas_message_Inr row_put_row)
next
  case (3 d r old v s)
  then show ?case by (auto simp: cas_message_def on_success_Inl cas_row_stale)
qed

interpretation project_table: cas_table project_of cas_project p_id p_version p_status
proof (unfold_locales, goal_cases)
  case (1 r v s d d')
  then show ?case by (auto simp: cas_project_Inr row_put_row)
next
  case (2 r v s d d' k)
  then show ?case by (auto simp: cas_project_Inr row_put_row)
next
  case (3 d r old v s)
  then show ?case by (auto simp: cas_project_def on_success_Inl cas_row_stale)
qed

interpretation agent_table: cas_table agent_of cas_agent a_id a_version a_status
proof (unfold_locales, goal_cases)
  case (1 r v s d d')
  then show ?case by (auto simp: cas_agent_Inr row_put_row)
next
  case (2 r v s d d' k)
  then show ?case by (auto simp: cas_agent_Inr row_put_row)
next
  case (3 d r old v s)
  then show ?case by (auto simp: cas_agent_def on_success_Inl cas_row_stale)
qed

section \<open>Transactions\<close>

lemma transact_failure: "transact m w = (Inl e, w') \<Longrightarrow> w_db w' = w_db w"
  by (auto simp: transact_def intro: atomically_failure)

lemma transact_success: "transact m w = (Inr x, w') \<longleftrightarrow> m w = (Inr x, w')"
  by (simp add: transact_def atomically_success)

lemma wp_transact [wp_simps]: "wp (transact m) Q = wp m Q"
  by (simp add: transact_def wp_atomically)

end
