(* ===== verification/Service.thy ===== *)
theory Service
  imports Store
begin

text \<open>
  What every operation of the service shares: its dependencies (internal/core/ports.go and
  \<open>NewService\<close>), the clock and identifiers, the request dedupe of internal/core/mutation.go, events,
  the text rules of internal/core/service.go, and the coordination helpers of coordination.go,
  run_auth.go and run.go (\<open>authenticateRun\<close>) that fence what a run may do.

  The clock, the identifier generator, SHA-256, \<open>url.Parse\<close>, the instructions file and the Git and
  home-directory interfaces are code the package only calls through values it is given; they are the
  fields of the record \<open>service\<close>, each a function of how often it has been used.
\<close>

section \<open>Interfaces\<close>

record ProjectGitIntent =
  gi_project_id :: string
  gi_source :: string
  gi_source_ref :: string
  gi_initial_sha :: string
  gi_control_repo :: string
  gi_canonical_ref :: string
  gi_operation_id :: string
  gi_expected_status :: project_status

record ProjectGitFact =
  gf_source :: string
  gf_source_ref :: string
  gf_initial_sha :: string
  gf_canonical_ref :: string
  gf_canonical_sha :: string

record GitSource =
  gs_task_id :: string
  gs_run_id :: string
  gs_task_ref :: string
  gs_head_sha :: string

record GitCaptureIntent =
  gc_project_id :: string
  gc_task_id :: string
  gc_run_id :: string
  gc_workspace_path :: string
  gc_control_repo :: string
  gc_base_sha :: string
  gc_expected_head :: string
  gc_source :: "GitSource option"
  gc_operation_id :: string

record GitExpandHeadIntent =
  gx_project_id :: string
  gx_task_id :: string
  gx_run_id :: string
  gx_workspace_path :: string
  gx_base_sha :: string
  gx_expected_head :: string
  gx_source :: "GitSource option"

record GitCaptureFact =
  cf_head_sha :: string
  cf_task_ref :: string

record GitAdvanceIntent =
  ga_project_id :: string
  ga_task_id :: string
  ga_run_id :: string
  ga_operation_id :: string
  ga_control_repo :: string
  ga_canonical_ref :: string
  ga_task_ref :: string
  ga_expected_old_sha :: string
  ga_target_sha :: string

datatype GitAdvanceOutcome = GitAdvanceUpdated | GitAdvanceIncluded | GitAdvanceStale
  | GitAdvanceOther string

record GitAdvanceFact =
  af_outcome :: GitAdvanceOutcome
  af_actual_sha :: string

record GitTaskRefIntent =
  gt_project_id :: string
  gt_control_repo :: string
  gt_task_ref :: string
  gt_expected_sha :: string

record GitDeleteRefIntent =
  dr_project_id :: string
  dr_control_repo :: string
  dr_canonical_ref :: string
  dr_task_ref :: string
  dr_expected_sha :: string
  dr_allow_discard :: bool

record GitDeleteWorkspaceIntent =
  dw_project_id :: string
  dw_task_id :: string
  dw_base_sha :: string
  dw_expected_head :: string
  dw_source :: "GitSource option"

record GitCheckoutIntent =
  gk_task_ref :: GitTaskRefIntent
  gk_destination :: string

record GitCheckoutFact =
  ck_destination :: string
  ck_head_sha :: string

record GitWorkspaceStateIntent =
  gw_workspace :: GitDeleteWorkspaceIntent
  gw_task_version :: int

record GitDiscardWorkspaceIntent =
  gd_state :: GitWorkspaceStateIntent
  gd_expected_fingerprint :: string

record GitWorkspaceStateFact =
  ws_exists :: bool
  ws_fingerprint :: string
  ws_head_sha :: string
  ws_clean :: bool

record GitTaskRefStateFact =
  rs_exists :: bool
  rs_actual_sha :: string
  rs_included :: bool

text \<open>A deletion is given a callback for the final authorization. It either settles before it asks, or it
  asks, and the value is its outcome once the authorization was given; a refused or failed
  authorization ends it without deleting anything.\<close>

datatype deletion = Settled "failure + bool" | Asks "failure + bool"

record git =
  g_preflight :: "nat \<Rightarrow> string \<Rightarrow> string \<Rightarrow> failure + ProjectGitFact"
  g_control_path :: "string \<Rightarrow> string"
  g_initialize :: "nat \<Rightarrow> ProjectGitIntent \<Rightarrow> failure + ProjectGitFact"
  g_verify :: "nat \<Rightarrow> ProjectGitIntent \<Rightarrow> failure + ProjectGitFact"
  g_exists :: "nat \<Rightarrow> string \<Rightarrow> bool"
  g_resolve :: "nat \<Rightarrow> string \<Rightarrow> string \<Rightarrow> failure + string"
  g_capture :: "nat \<Rightarrow> GitCaptureIntent \<Rightarrow> failure + GitCaptureFact"
  g_expand_head :: "nat \<Rightarrow> GitExpandHeadIntent \<Rightarrow> failure + string"
  g_cleanup_capture :: "nat \<Rightarrow> GitCaptureIntent \<Rightarrow> failure + unit"
  g_advance :: "nat \<Rightarrow> GitAdvanceIntent \<Rightarrow> failure + GitAdvanceFact"
  g_resolve_task_ref :: "nat \<Rightarrow> GitTaskRefIntent \<Rightarrow> failure + string"
  g_use_task_ref :: "nat \<Rightarrow> GitTaskRefIntent \<Rightarrow> failure + string"
  g_checkout :: "nat \<Rightarrow> GitCheckoutIntent \<Rightarrow> failure + GitCheckoutFact"
  g_workspace_state :: "nat \<Rightarrow> GitWorkspaceStateIntent \<Rightarrow> failure + GitWorkspaceStateFact"
  g_task_ref_state :: "nat \<Rightarrow> GitDeleteRefIntent \<Rightarrow> failure + GitTaskRefStateFact"
  g_delete_workspace :: "nat \<Rightarrow> GitDeleteWorkspaceIntent \<Rightarrow> deletion"
  g_discard_workspace :: "nat \<Rightarrow> GitDiscardWorkspaceIntent \<Rightarrow> deletion"
  g_delete_task_ref :: "nat \<Rightarrow> GitDeleteRefIntent \<Rightarrow> deletion"

record agent_homes =
  ah_state :: "nat \<Rightarrow> string \<Rightarrow> failure + bool"
  ah_delete :: "nat \<Rightarrow> string \<Rightarrow> deletion"

record AdapterDescriptor =
  ad_id :: string
  ad_name :: string
  ad_execution_model :: string
  ad_supports_resume :: bool
  ad_supports_inject :: bool
  ad_allowed_efforts :: "string list"

record service =
  sv_now :: "nat \<Rightarrow> int"
  sv_new_id :: "string \<Rightarrow> nat \<Rightarrow> string option"
  sv_sha256 :: "string \<Rightarrow> nat list"
  sv_base_url :: "string \<Rightarrow> string option"
  sv_instructions_file :: "nat \<Rightarrow> string \<Rightarrow> failure + string"
  sv_max_runs :: int
  sv_adapters :: "AdapterDescriptor list"
  sv_git :: git
  sv_task_git :: bool
  sv_workspace_retention :: int
  sv_task_ref_retention :: int
  sv_agent_homes :: "agent_homes option"

section \<open>Clock, identifiers, requests\<close>

definition nowText :: "service \<Rightarrow> stamp op" where
  "nowText sv = (\<lambda>w. (Inr (At (sv_now sv (w_clock w))), w\<lparr>w_clock := Suc (w_clock w)\<rparr>))"

definition newID :: "service \<Rightarrow> string \<Rightarrow> string option op" where
  "newID sv prefix = (\<lambda>w. (Inr (sv_new_id sv prefix (w_ids w)), w\<lparr>w_ids := Suc (w_ids w)\<rparr>))"

definition requiredID :: "service \<Rightarrow> string \<Rightarrow> string op" where
  "requiredID sv prefix =
    andthen (newID sv prefix) (\<lambda>r.
    (case r of
        None \<Rightarrow> throw (WrapError INTERNAL False)
      | Some ident \<Rightarrow>
          if trim_space ident = [] then throw (NewError INTERNAL False) else ret ident))"

definition request_id :: "service \<Rightarrow> string \<Rightarrow> string op" where
  "request_id sv value =
     (let value = trim_space value in
      if value \<noteq> [] then
        (if 256 < length value then throw (NewError INVALID_ARGUMENT False) else ret value)
      else requiredID sv ''req'')"

text \<open>One use of an external interface.\<close>

definition external :: "(nat \<Rightarrow> failure + 'a) \<Rightarrow> 'a op" where
  "external f = (\<lambda>w. (f (w_calls w), w\<lparr>w_calls := Suc (w_calls w)\<rparr>))"

text \<open>The outcome of an external call as a value, for code that looks at the error itself.\<close>

definition attempt :: "(nat \<Rightarrow> failure + 'a) \<Rightarrow> (failure + 'a) op" where
  "attempt f = (\<lambda>w. (Inr (f (w_calls w)), w\<lparr>w_calls := Suc (w_calls w)\<rparr>))"

definition authorized :: "(nat \<Rightarrow> deletion) \<Rightarrow> bool op \<Rightarrow> bool op" where
  "authorized delete authorize = (\<lambda>w.
     case delete (w_calls w) of
       Settled r \<Rightarrow> (r, w\<lparr>w_calls := Suc (w_calls w)\<rparr>)
     | Asks r \<Rightarrow> (
       andthen authorize (\<lambda>allowed.
       (if allowed then lift r else ret False))) (w\<lparr>w_calls := Suc (w_calls w)\<rparr>))"

definition wrap :: "failure \<Rightarrow> 'a op \<Rightarrow> 'a op" where
  "wrap e m = (\<lambda>w. case m w of (Inl _, w') \<Rightarrow> (Inl e, w') | (Inr x, w') \<Rightarrow> (Inr x, w'))"

definition check :: "failure option \<Rightarrow> unit op" where
  "check r = (case r of None \<Rightarrow> ret () | Some e \<Rightarrow> throw e)"

definition hashToken :: "service \<Rightarrow> string \<Rightarrow> string" where
  "hashToken sv token = hex_encode (sv_sha256 sv token)"

definition inputFingerprint :: "service \<Rightarrow> (string \<times> json) list \<Rightarrow> string" where
  "inputFingerprint sv parts = hex_encode (sv_sha256 sv (encode_json (JObject parts)))"

definition joined_ids :: "string list \<Rightarrow> json" where
  "joined_ids ids = JString (join [CHR 0x00] ids)"

record dedupeResult =
  dd_id :: string
  dd_related_id :: string

fun decodeDedupe :: "dedupe_value \<Rightarrow> string \<Rightarrow> failure + dedupeResult" where
  "decodeDedupe (RequestResult ident related hash) inputHash =
     (if ident = [] \<or> hash = [] then Inl (NewError INTERNAL False)
      else if hash \<noteq> inputHash then Inl (NewError VERSION_CONFLICT False)
      else Inr \<lparr>dd_id = ident, dd_related_id = related\<rparr>)"
| "decodeDedupe (GcResult _ _ _ _) inputHash = Inl (NewError INTERNAL False)"

record requestDedupe =
  rq_scope :: string
  rq_operation :: string
  rq_request_id :: string
  rq_input_hash :: string

definition replay :: "requestDedupe \<Rightarrow> dedupeResult option op" where
  "replay d =
    andthen (tx_Dedupe (rq_scope d) (rq_operation d) (rq_request_id d)) (\<lambda>raw.
    (case raw of
        None \<Rightarrow> ret None
      | Some value \<Rightarrow>
      andthen (lift (decodeDedupe value (rq_input_hash d))) (\<lambda>result.
      ret (Some result))))"

definition record_dedupe :: "requestDedupe \<Rightarrow> string \<Rightarrow> string \<Rightarrow> stamp \<Rightarrow> unit op" where
  "record_dedupe d ident related now =
     tx_PutDedupe (rq_scope d) (rq_operation d) (rq_request_id d)
       (RequestResult ident related (rq_input_hash d)) now"

section \<open>Events\<close>

definition mk_event ::
  "string \<Rightarrow> entity_type \<Rightarrow> string \<Rightarrow> string \<Rightarrow> actor_kind \<Rightarrow> string \<Rightarrow> string \<Rightarrow> string \<Rightarrow> string \<Rightarrow> string \<Rightarrow>
   stamp \<Rightarrow> event" where
  "mk_event projectID entityType entityID kind actorKind actorID runID requestID operationID payload now =
     \<lparr>e_id = 0, e_project_id = projectID, e_entity_type = entityType, e_entity_id = entityID,
      e_kind = kind, e_actor_kind = actorKind, e_actor_id = actorID, e_run_id = runID,
      e_request_id = requestID, e_operation_id = operationID,
      e_payload_json = (if trim_space payload = [] then ''{}'' else payload), e_created_at = now\<rparr>"

definition emit ::
  "string \<Rightarrow> entity_type \<Rightarrow> string \<Rightarrow> string \<Rightarrow> actor_kind \<Rightarrow> string \<Rightarrow> string \<Rightarrow> string \<Rightarrow> string \<Rightarrow> string \<Rightarrow>
   stamp \<Rightarrow> event op" where
  "emit projectID entityType entityID kind actorKind actorID runID requestID operationID payload now =
     tx_AppendEvent
       (mk_event projectID entityType entityID kind actorKind actorID runID requestID operationID payload now)"

section \<open>Text rules\<close>

definition MaximumMessageBodyBytes :: nat where "MaximumMessageBodyBytes = 65536"
definition MaximumTaskDescriptionBytes :: nat where "MaximumTaskDescriptionBytes = 262144"
definition MaximumProgressSummaryBytes :: nat where "MaximumProgressSummaryBytes = 4096"
definition MaximumOutcomeTextBytes :: nat where "MaximumOutcomeTextBytes = 4096"
definition MaximumTerminalTextBytes :: nat where "MaximumTerminalTextBytes = 2048"

definition text_maximum :: "string \<Rightarrow> nat" where
  "text_maximum name =
     (if name = ''body'' then MaximumMessageBodyBytes
      else if name = ''summary'' then MaximumProgressSummaryBytes
      else if name = ''name'' \<or> name = ''display_name'' then 256
      else if name = ''title'' then 512
      else if name = ''adapter_id'' then 256
      else if name = ''image'' \<or> name = ''source_ref'' then 1024
      else if name = ''source'' \<or> name = ''instructions_file'' then 2048
      else 0)"

definition requireText :: "string \<Rightarrow> string \<Rightarrow> string op" where
  "requireText name value =
     (let value = trim_space value; maximum = text_maximum name in
      if value = [] then throw (NewError INVALID_ARGUMENT False)
      else if 0 < maximum \<and> maximum < length value then throw (NewError INVALID_ARGUMENT False)
      else ret value)"

definition optionalTextWithin :: "string \<Rightarrow> nat \<Rightarrow> string op" where
  "optionalTextWithin value maximum =
     (let value = trim_space value in
      if maximum < length value then throw (NewError INVALID_ARGUMENT False) else ret value)"

definition sortRunnable :: "task list \<Rightarrow> task list" where
  "sortRunnable tasks = sort_key (\<lambda>t. (- t_priority t, t_created_at t, t_id t)) tasks"

section \<open>Coordination\<close>

definition maximumBundledMessageIDs :: nat where "maximumBundledMessageIDs = 256"

definition canonicalMessageIDs :: "string list \<Rightarrow> string list op" where
  "canonicalMessageIDs values =
     (if maximumBundledMessageIDs < length values then throw (NewError INVALID_ARGUMENT False)
      else if \<exists>v \<in> set values. trim_space v = [] then throw (NewError INVALID_ARGUMENT False)
      else ret (sort (remdups (map trim_space values))))"

definition scopedRun :: "service \<Rightarrow> string \<Rightarrow> run op" where
  "scopedRun sv token =
    andthen (reject (trim_space token = []) (NewError SCOPE_DENIED False)) (\<lambda>_.
    wrap (NewError SCOPE_DENIED False) (tx_RunByTokenHash (hashToken sv token)))"

definition loadMessages :: "string list \<Rightarrow> message list op" where
  "loadMessages ids = collect ids tx_Message"

definition settled_by_ack :: "message \<Rightarrow> stamp \<Rightarrow> message" where
  "settled_by_ack m now =
     m\<lparr>m_state := MessageAcknowledged, m_acknowledged_at := now, m_version := m_version m + 1\<rparr>"

definition acknowledgeAgentMessage ::
  "string \<Rightarrow> string \<Rightarrow> string \<Rightarrow> string \<Rightarrow> stamp \<Rightarrow> string \<Rightarrow> message op" where
  "acknowledgeAgentMessage projectID agentID runID requestID now ident =
    andthen (tx_Message ident) (\<lambda>message.
    andthen (reject (m_project_id message \<noteq> projectID \<or> m_recipient_kind message \<noteq> AgentActor \<or>
             m_recipient_id message \<noteq> agentID) (NewError SCOPE_DENIED False)) (\<lambda>_.
    (if m_state message = MessageAcknowledged then ret message
      else
      andthen (reject (m_state message \<noteq> MessagePending \<and> m_state message \<noteq> MessageDelivered)
          (Conflict INVALID_STATE (message_state_text (m_state message)) (m_version message))) (\<lambda>_.
      let message' = settled_by_ack message now in
      andthen (tx_UpdateMessage message' (m_version message) (m_state message)) (\<lambda>_.
      andthen (emit (m_project_id message) MessageEntity (m_id message) ''message.acknowledged''
          AgentActor agentID runID requestID [] ''{}'' now) (\<lambda>_.
      ret message'))))))"

definition acknowledgeAgentMessages ::
  "string list \<Rightarrow> string \<Rightarrow> string \<Rightarrow> string \<Rightarrow> string \<Rightarrow> stamp \<Rightarrow> message list op" where
  "acknowledgeAgentMessages ids projectID agentID runID requestID now =
     collect ids (acknowledgeAgentMessage projectID agentID runID requestID now)"

definition taskAcceptsDelivery :: "task \<Rightarrow> bool" where
  "taskAcceptsDelivery task =
     (t_status task \<in> {TaskQueued, TaskRunning, TaskFinishing, TaskWaiting})"

definition taskActionAvailable :: "task \<Rightarrow> unit op" where
  "taskActionAvailable task =
     reject (t_status task = TaskFinishing \<or> t_pending_action task \<noteq> NoAction \<or>
             t_integration_task_id task \<noteq> [])
       (Conflict ACTION_IN_PROGRESS (task_status_text (t_status task)) (t_version task))"

definition clearTaskAction :: "task \<Rightarrow> task" where
  "clearTaskAction task = task\<lparr>t_pending_action := NoAction, t_pending_action_id := [],
     t_pending_action_version := 0, t_pending_action_run_id := [], t_pending_expected_sha := [],
     t_pending_target_sha := [], t_pending_started_at := NoStamp\<rparr>"

text \<open>The guard of \<open>authenticateRun\<close>: the run still owns its task.\<close>

definition stale_scope :: "run \<Rightarrow> task \<Rightarrow> bool" where
  "stale_scope run task =
     (r_token_revoked_at run \<noteq> NoStamp \<or> IsRunTerminal (r_state run) \<or>
      t_current_run_id task \<noteq> r_id run \<or> t_generation task \<noteq> r_generation run \<or>
      t_assignee_agent_id task \<noteq> r_agent_id run)"

definition authenticateRun :: "service \<Rightarrow> string \<Rightarrow> (run \<times> task) op" where
  "authenticateRun sv token =
    andthen (scopedRun sv token) (\<lambda>run.
    andthen (tx_Task (r_task_id run)) (\<lambda>task.
    andthen (reject (stale_scope run task)
       (Conflict STALE_RUN (run_state_text (r_state run)) (r_version run))) (\<lambda>_.
    andthen (reject (r_state run = RunStarting)
       (Conflict RUN_STARTING (run_state_text (r_state run)) (r_version run))) (\<lambda>_.
    andthen (reject (r_state run \<noteq> RunActive \<or> t_status task \<noteq> TaskRunning)
       (Conflict STALE_RUN (run_state_text (r_state run)) (r_version run))) (\<lambda>_.
    ret (run, task))))))"

record RunScope =
  rc_project_id :: string
  rc_agent_id :: string
  rc_task_id :: string
  rc_run_id :: string
  rc_generation :: int

definition AuthorizeRunScope :: "service \<Rightarrow> string \<Rightarrow> RunScope \<Rightarrow> unit op" where
  "AuthorizeRunScope sv token expected =
    andthen (reject (rc_project_id expected = [] \<or> rc_agent_id expected = [] \<or> rc_task_id expected = [] \<or>
             rc_run_id expected = [] \<or> rc_generation expected \<le> 0) (NewError INVALID_ARGUMENT False)) (\<lambda>_.
    transact (
      andthen (scopedRun sv token) (\<lambda>run.
      let actual = \<lparr>rc_project_id = r_project_id run, rc_agent_id = r_agent_id run,
         rc_task_id = r_task_id run, rc_run_id = r_id run, rc_generation = r_generation run\<rparr> in
      andthen (reject (actual \<noteq> expected) (NewError SCOPE_DENIED False)) (\<lambda>_.
      andthen (tx_Task (r_task_id run)) (\<lambda>task.
      reject (r_token_revoked_at run \<noteq> NoStamp \<or> IsRunTerminal (r_state run) \<or>
               t_project_id task \<noteq> r_project_id run \<or> t_current_run_id task \<noteq> r_id run \<or>
               t_generation task \<noteq> r_generation run \<or> t_assignee_agent_id task \<noteq> r_agent_id run)
         (Conflict STALE_RUN (run_state_text (r_state run)) (r_version run)))))))"

section \<open>Who acts\<close>

record taskMutationActor =
  ac_kind :: actor_kind
  ac_id :: string
  ac_run_id :: string
  ac_dedupe_scope :: string
  ac_run :: "run option"
  ac_current :: "task option"

definition boss_actor :: taskMutationActor where
  "boss_actor = \<lparr>ac_kind = Boss, ac_id = [], ac_run_id = [], ac_dedupe_scope = ''boss'',
     ac_run = None, ac_current = None\<rparr>"

definition taskActorForDedupe :: "service \<Rightarrow> string \<Rightarrow> taskMutationActor op" where
  "taskActorForDedupe sv token =
     (if trim_space token = [] then ret boss_actor
      else
        andthen (scopedRun sv token) (\<lambda>run.
        ret \<lparr>ac_kind = AgentActor, ac_id = r_agent_id run, ac_run_id = r_id run,
          ac_dedupe_scope = ''run:'' @ r_id run, ac_run = Some run, ac_current = None\<rparr>))"

definition runCanReadTask :: "run \<Rightarrow> task \<Rightarrow> task \<Rightarrow> bool" where
  "runCanReadTask run current target =
     (t_project_id target = t_project_id current \<and>
      (t_id target = t_id current \<or> t_id target = t_parent_task_id current \<or>
       t_parent_task_id target = t_id current \<or> t_assignee_agent_id target = r_agent_id run \<or>
       (t_created_by_kind target = AgentActor \<and> t_created_by_id target = r_agent_id run)))"

definition authorizeTaskActor ::
  "service \<Rightarrow> string \<Rightarrow> task \<Rightarrow> taskMutationActor \<Rightarrow> taskMutationActor op" where
  "authorizeTaskActor sv token target actor =
     (if ac_kind actor = Boss then ret actor
      else
        andthen (authenticateRun sv token) (\<lambda>(run, current).
        andthen (reject (\<not> runCanReadTask run current target) (NewError SCOPE_DENIED False)) (\<lambda>_.
        ret (actor\<lparr>ac_run := Some run, ac_current := Some current, ac_id := r_agent_id run,
          ac_run_id := r_id run\<rparr>))))"

definition acknowledgeBossAction :: "string \<Rightarrow> string \<Rightarrow> stamp \<Rightarrow> string \<Rightarrow> unit op" where
  "acknowledgeBossAction projectID requestID now ident =
    andthen (tx_Message ident) (\<lambda>message.
    andthen (reject (m_project_id message \<noteq> projectID \<or> m_recipient_kind message \<noteq> Boss)
       (NewError SCOPE_DENIED False)) (\<lambda>_.
    whenever (m_state message \<noteq> MessageAcknowledged) (
      andthen (reject (m_state message \<noteq> MessagePending \<and> m_state message \<noteq> MessageDelivered)
         (Conflict INVALID_STATE (message_state_text (m_state message)) (m_version message))) (\<lambda>_.
      andthen (tx_UpdateMessage (settled_by_ack message now) (m_version message) (m_state message)) (\<lambda>_.
      andthen (emit projectID MessageEntity (m_id message) ''message.acknowledged'' Boss [] [] requestID [] ''{}'' now) (\<lambda>_.
      ret ()))))))"

definition acknowledgeForActor ::
  "string list \<Rightarrow> string \<Rightarrow> taskMutationActor \<Rightarrow> string \<Rightarrow> stamp \<Rightarrow> unit op" where
  "acknowledgeForActor ids projectID actor requestID now =
     (if ac_kind actor = AgentActor then
       andthen (acknowledgeAgentMessages ids projectID (ac_id actor) (ac_run_id actor) requestID now) (\<lambda>_.
       ret ())
      else each ids (acknowledgeBossAction projectID requestID now))"

section \<open>Inserting a message\<close>

record messageInsert =
  mi_project_id :: string
  mi_task_id :: string
  mi_related_task_id :: string
  mi_sender_kind :: actor_kind
  mi_sender_id :: string
  mi_recipient_kind :: actor_kind
  mi_recipient_id :: string
  mi_recipient_participant_id :: string
  mi_reply_to :: string
  mi_body :: string
  mi_system_code :: string
  mi_wake :: bool
  mi_max_deliveries :: int
  mi_idempotency_key :: string
  mi_actor_kind :: actor_kind
  mi_actor_id :: string
  mi_actor_run_id :: string
  mi_request_id :: string
  mi_operation_id :: string
  mi_now :: stamp
  mi_payload :: string

definition message_from :: "string \<Rightarrow> messageInsert \<Rightarrow> message" where
  "message_from ident i =
     \<lparr>m_id = ident, m_project_id = mi_project_id i, m_task_id = mi_task_id i,
      m_related_task_id = mi_related_task_id i, m_sender_kind = mi_sender_kind i,
      m_sender_id = mi_sender_id i, m_recipient_kind = mi_recipient_kind i,
      m_recipient_id = mi_recipient_id i, m_recipient_participant_id = mi_recipient_participant_id i,
      m_reply_to_message_id = mi_reply_to i, m_system_code = mi_system_code i, m_body = mi_body i,
      m_wake = mi_wake i, m_state = MessagePending, m_delivered_run_id = [], m_delivery_count = 0,
      m_max_deliveries = mi_max_deliveries i, m_next_delivery_at = mi_now i,
      m_last_delivery_error = [], m_idempotency_key = mi_idempotency_key i, m_version = 1,
      m_created_at = mi_now i, m_delivered_at = NoStamp, m_acknowledged_at = NoStamp\<rparr>"

definition insertMessage :: "service \<Rightarrow> messageInsert \<Rightarrow> message op" where
  "insertMessage sv i =
    andthen (requiredID sv ''msg'') (\<lambda>ident.
    let message = message_from ident i in
    andthen (tx_InsertMessage message) (\<lambda>_.
    andthen (emit (mi_project_id i) MessageEntity ident ''message.created'' (mi_actor_kind i) (mi_actor_id i)
       (mi_actor_run_id i) (mi_request_id i) (mi_operation_id i) (mi_payload i) (mi_now i)) (\<lambda>_.
    ret message)))"

end
