(* ===== verification/Messages.thy ===== *)
theory Messages
  imports Service
begin

text \<open>
  Messages: what happens to the unresolved messages of a task that stops accepting runs and how a
  parent learns of its child's result (task_messages.go), the Boss's and the agents' messages
  (message.go, boss_message.go, agent_message.go, message_actions.go), the delivery of messages to a
  run (message_delivery.go) and what a run may read (run_scope.go). The body of each transaction is a
  definition of its own, named after the operation with the suffix \<open>_tx\<close>.
\<close>

definition if_found :: "'a op \<Rightarrow> 'a option op" where
  "if_found m = (\<lambda>w. case m w of
     (Inl e, w') \<Rightarrow> if IsCode e NOT_FOUND then (Inr None, w') else (Inl e, w')
   | (Inr x, w') \<Rightarrow> (Inr (Some x), w'))"

section \<open>Messages of a task that cannot receive a run any more\<close>

definition delivery_eligible :: "message \<Rightarrow> bool" where
  "delivery_eligible message =
     (m_max_deliveries message = 0 \<or> m_delivery_count message < m_max_deliveries message)"

definition rerouted_delivery_at :: "message \<Rightarrow> stamp \<Rightarrow> stamp" where
  "rerouted_delivery_at message now =
     (if m_state message = MessageDelivered \<or> m_next_delivery_at message = NoStamp \<or>
         m_next_delivery_at message < now
      then now else m_next_delivery_at message)"

text \<open>A task put back into the queue, as every wake of a waiting or queued task writes it.\<close>

definition requeued :: "task \<Rightarrow> stamp \<Rightarrow> stamp \<Rightarrow> task" where
  "requeued task nextRunAt now = task\<lparr>t_status := TaskQueued, t_next_run_at := nextRunAt,
     t_version := t_version task + 1, t_updated_at := now\<rparr>"

definition rerouteMessage ::
  "task \<Rightarrow> task \<Rightarrow> message \<Rightarrow> actor_kind \<Rightarrow> string \<Rightarrow> string \<Rightarrow> string \<Rightarrow> stamp \<Rightarrow> unit op" where
  "rerouteMessage task conversation message actorKind actorID runID requestID now =
    (let deliveryEligible = delivery_eligible message in
    let deliveryAt = rerouted_delivery_at message now in
    andthen (whenever (m_wake message \<and> deliveryEligible \<and>
         (t_status conversation = TaskWaiting \<or>
          (t_status conversation = TaskQueued \<and>
           (t_next_run_at conversation = NoStamp \<or> deliveryAt < t_next_run_at conversation)))) (
      andthen (tx_UpdateTask (requeued conversation deliveryAt now) (t_version conversation)
         (t_status conversation)) (\<lambda>_.
      andthen (emit (t_project_id task) TaskEntity (t_id conversation) ''task.requeued'' actorKind actorID runID
         requestID []
         (eventPayload [(''reason'', JString ''message_rerouted''), (''message_id'', JString (m_id message))])
         now) (\<lambda>_.
      ret ())))) (\<lambda>_.
    andthen (tx_UpdateMessage
       (message\<lparr>m_task_id := t_id conversation, m_related_task_id := t_id task,
          m_state := MessagePending, m_delivered_run_id := [],
          m_last_delivery_error := ''rerouted from non-delivery task'',
          m_next_delivery_at := (if deliveryEligible then deliveryAt else NoStamp),
          m_version := m_version message + 1\<rparr>)
       (m_version message) (m_state message)) (\<lambda>_.
    andthen (emit (t_project_id task) MessageEntity (m_id message) ''message.rerouted'' actorKind actorID runID
       requestID []
       (eventPayload [(''from_task_id'', JString (t_id task)), (''to_task_id'', JString (t_id conversation))])
       now) (\<lambda>_.
    ret ()))))"

definition cancelUndeliverable ::
  "task \<Rightarrow> message \<Rightarrow> actor_kind \<Rightarrow> string \<Rightarrow> string \<Rightarrow> string \<Rightarrow> stamp \<Rightarrow> unit op" where
  "cancelUndeliverable task message actorKind actorID runID requestID now =
    andthen (tx_UpdateMessage
       (message\<lparr>m_state := MessageCancelled, m_delivered_run_id := [],
          m_last_delivery_error := ''delivery task can no longer receive a run'',
          m_next_delivery_at := NoStamp, m_version := m_version message + 1\<rparr>)
       (m_version message) (m_state message)) (\<lambda>_.
    andthen (emit (t_project_id task) MessageEntity (m_id message) ''message.cancelled'' actorKind actorID runID
       requestID []
       (eventPayload [(''task_id'', JString (t_id task)), (''reason'', JString ''no_delivery_conversation'')])
       now) (\<lambda>_.
    ret ()))"

definition disposeMessage ::
  "task \<Rightarrow> project \<Rightarrow> actor_kind \<Rightarrow> string \<Rightarrow> string \<Rightarrow> string \<Rightarrow> stamp \<Rightarrow> message \<Rightarrow> unit op" where
  "disposeMessage task project actorKind actorID runID requestID now message =
     whenever (unresolved_agent_message message) (
       andthen (if_found (tx_Conversation (t_project_id task) (m_recipient_id message))) (\<lambda>conversation.
       andthen (tx_Agent (m_recipient_id message)) (\<lambda>agent.
       (case conversation of
          None \<Rightarrow> cancelUndeliverable task message actorKind actorID runID requestID now
        | Some conversation \<Rightarrow>
            if p_status project = ProjectActive \<and> a_status agent \<noteq> AgentArchived \<and>
               t_id conversation \<noteq> t_id task \<and> taskAcceptsDelivery conversation
            then rerouteMessage task conversation message actorKind actorID runID requestID now
            else cancelUndeliverable task message actorKind actorID runID requestID now))))"

definition disposeUnresolvedMessages ::
  "task \<Rightarrow> actor_kind \<Rightarrow> string \<Rightarrow> string \<Rightarrow> string \<Rightarrow> stamp \<Rightarrow> unit op" where
  "disposeUnresolvedMessages task actorKind actorID runID requestID now =
    andthen (tx_MessagesForTask (t_id task)) (\<lambda>messages.
    andthen (tx_Project (t_project_id task)) (\<lambda>project.
    each messages (disposeMessage task project actorKind actorID runID requestID now)))"

section \<open>A child's result for its parent\<close>

definition child_result_body :: "task \<Rightarrow> string" where
  "child_result_body child = boundedDurableText
     (''Child task '' @ t_id child @ '' is '' @ task_status_text (t_status child) @ ''. Result: '' @
      t_result_summary child @ ''. Head: '' @ t_head_sha child @ ''. Task ref: '' @ t_task_ref child @ ''.'')
     MaximumMessageBodyBytes"

definition child_result_message ::
  "task \<Rightarrow> task option \<Rightarrow> bool \<Rightarrow> actor_kind \<Rightarrow> string \<Rightarrow> string \<Rightarrow> string \<Rightarrow> stamp \<Rightarrow> messageInsert" where
  "child_result_message child parent toAgent actorKind actorID runID requestID now =
     \<lparr>mi_project_id = t_project_id child,
      mi_task_id = (case parent of Some p \<Rightarrow> t_id p | None \<Rightarrow> t_id child),
      mi_related_task_id = t_id child, mi_sender_kind = System, mi_sender_id = [],
      mi_recipient_kind = (if toAgent then AgentActor else Boss),
      mi_recipient_id = (case parent of Some p \<Rightarrow> if toAgent then t_assignee_agent_id p else [] | None \<Rightarrow> []),
      mi_recipient_participant_id =
        (case parent of Some p \<Rightarrow> t_assignee_participant_id p | None \<Rightarrow> []),
      mi_reply_to = [], mi_body = child_result_body child, mi_system_code = ''child_result'',
      mi_wake = toAgent, mi_max_deliveries = (if toAgent then 3 else 1),
      mi_idempotency_key = ''child-result:'' @ t_id child @ '':'' @ task_status_text (t_status child),
      mi_actor_kind = actorKind, mi_actor_id = actorID, mi_actor_run_id = runID,
      mi_request_id = requestID, mi_operation_id = [], mi_now = now,
      mi_payload = eventPayload [(''child_task_id'', JString (t_id child)),
        (''child_status'', JString (task_status_text (t_status child)))]\<rparr>"

text \<open>Whether the parent's agent is told; a waiting parent is put back into the queue.\<close>

definition wakeParent ::
  "task \<Rightarrow> task option \<Rightarrow> project \<Rightarrow> actor_kind \<Rightarrow> string \<Rightarrow> string \<Rightarrow> string \<Rightarrow> stamp \<Rightarrow> bool op" where
  "wakeParent child parent project actorKind actorID runID requestID now =
     (case parent of
        None \<Rightarrow> ret False
      | Some parent \<Rightarrow>
          if p_status project = ProjectActive \<and> taskAcceptsDelivery parent \<and> t_assignee_agent_id parent \<noteq> []
          then
            andthen (tx_Agent (t_assignee_agent_id parent)) (\<lambda>agent.
            (if a_status agent = AgentArchived then ret False
             else
              andthen (whenever (t_status parent = TaskWaiting) (
                andthen (tx_UpdateTask (requeued parent now now) (t_version parent) TaskWaiting) (\<lambda>_.
                andthen (emit (t_project_id parent) TaskEntity (t_id parent) ''task.requeued'' actorKind actorID
                   runID requestID []
                   (eventPayload [(''reason'', JString ''child_result''), (''child_task_id'', JString (t_id child))])
                   now) (\<lambda>_.
                ret ())))) (\<lambda>_.
              ret True)))
          else ret False)"

definition notifyParentOfChild ::
  "service \<Rightarrow> task \<Rightarrow> actor_kind \<Rightarrow> string \<Rightarrow> string \<Rightarrow> string \<Rightarrow> stamp \<Rightarrow> unit op" where
  "notifyParentOfChild sv child actorKind actorID runID requestID now =
     whenever (t_parent_task_id child \<noteq> []) (
       andthen (if_found (tx_Task (t_parent_task_id child))) (\<lambda>parent.
       andthen (tx_Project (t_project_id child)) (\<lambda>project.
       andthen (wakeParent child parent project actorKind actorID runID requestID now) (\<lambda>toAgent.
       andthen (insertMessage sv (child_result_message child parent toAgent actorKind actorID runID requestID now)) (\<lambda>_.
       ret ())))))"

section \<open>Delivery tasks\<close>

definition conversationWakeMergeWindow :: int where
  "conversationWakeMergeWindow = 10"

definition second :: int where
  "second = 1000000000"

text \<open>\<open>addSeconds\<close>: a text that is not RFC 3339 is returned unchanged.\<close>

fun addSeconds :: "stamp \<Rightarrow> int \<Rightarrow> stamp" where
  "addSeconds (At i) seconds = At (i + seconds * second)"
| "addSeconds s seconds = s"

definition wakeDeliveryTask ::
  "task \<Rightarrow> bool \<Rightarrow> string \<Rightarrow> actor_kind \<Rightarrow> string \<Rightarrow> string \<Rightarrow> string \<Rightarrow> stamp \<Rightarrow> task op" where
  "wakeDeliveryTask task wake reason actorKind actorID runID requestID now =
     (if \<not> wake \<or> t_status task \<noteq> TaskWaiting then ret task
      else
        (let task' = requeued task (addSeconds now conversationWakeMergeWindow) now in
        andthen (tx_UpdateTask task' (t_version task) TaskWaiting) (\<lambda>_.
        andthen (emit (t_project_id task) TaskEntity (t_id task) ''task.requeued'' actorKind actorID runID requestID []
          (eventPayload [(''reason'', JString reason)]) now) (\<lambda>_.
        ret task'))))"

text \<open>A Go task literal leaves the fields it does not name at their zero value.\<close>

definition new_task :: "string \<Rightarrow> string \<Rightarrow> task_kind \<Rightarrow> task_status \<Rightarrow> actor_kind \<Rightarrow> string \<Rightarrow> stamp \<Rightarrow> task" where
  "new_task ident projectID kind status createdByKind createdByID now =
     \<lparr>t_id = ident, t_project_id = projectID, t_kind = kind, t_parent_task_id = [],
      t_retry_of_task_id = [], t_created_by_kind = createdByKind, t_created_by_id = createdByID,
      t_assignee_agent_id = [], t_assignee_participant_id = [], t_title = [], t_description = [],
      t_priority = 0, t_status = status, t_current_run_id = [], t_generation = 0, t_next_run_at = now,
      t_retry_count = 0, t_max_retries = 0, t_budget_seconds = 0, t_wait_reason = [],
      t_result_summary = [], t_failure_reason = [], t_base_sha = [], t_head_sha = [],
      t_head_run_id = [], t_evidence_type = NoEvidence, t_task_ref = [], t_accepted_by_kind = NoActor,
      t_accepted_by_id = [], t_accepted_at = NoStamp, t_accepted_integration_agent_id = [],
      t_final_canonical_sha = [], t_integration_task_id = [], t_source_task_id = [],
      t_source_run_id = [], t_source_task_ref = [], t_source_head_sha = [],
      t_source_ref_released_at = NoStamp, t_source_accept_version = 0, t_observed_canonical_sha = [],
      t_pending_action = NoAction, t_pending_action_id = [], t_pending_action_version = 0,
      t_pending_action_run_id = [], t_pending_expected_sha = [], t_pending_target_sha = [],
      t_pending_started_at = NoStamp, t_version = 1, t_created_at = now, t_updated_at = now,
      t_submitted_at = NoStamp, t_completed_at = NoStamp, t_closed_at = NoStamp\<rparr>"

definition conversation_literal ::
  "string \<Rightarrow> string \<Rightarrow> agent \<Rightarrow> bool \<Rightarrow> actor_kind \<Rightarrow> string \<Rightarrow> stamp \<Rightarrow> task" where
  "conversation_literal ident projectID recipient wake actorKind actorID now =
     (new_task ident projectID TaskConversation (if wake then TaskQueued else TaskWaiting)
        actorKind actorID now)
     \<lparr>t_assignee_agent_id := a_id recipient, t_assignee_participant_id := a_id recipient,
      t_title := ''Conversation with '' @ a_display_name recipient,
      t_description := ''Persistent Agent conversation'', t_max_retries := 3\<rparr>"

definition explicitDeliveryTask ::
  "string \<Rightarrow> agent \<Rightarrow> string \<Rightarrow> task op" where
  "explicitDeliveryTask projectID recipient explicitTaskID =
    andthen (tx_Task explicitTaskID) (\<lambda>target.
    andthen (reject (t_project_id target \<noteq> projectID \<or> t_assignee_agent_id target \<noteq> a_id recipient)
       (NewError SCOPE_DENIED False)) (\<lambda>_.
    ret target))"

definition conversationDeliveryTask ::
  "service \<Rightarrow> string \<Rightarrow> string \<Rightarrow> agent \<Rightarrow> string \<Rightarrow> bool \<Rightarrow> actor_kind \<Rightarrow> string \<Rightarrow> string \<Rightarrow> string \<Rightarrow>
   string \<Rightarrow> stamp \<Rightarrow> (task \<times> string) op" where
  "conversationDeliveryTask sv projectID defaultRelatedTaskID recipient relatedTaskID wake actorKind
     actorID runID reason requestID now =
       andthen (if_found (tx_Conversation projectID (a_id recipient))) (\<lambda>existing.
       andthen (case existing of
        None \<Rightarrow>
         andthen (requiredID sv ''tsk'') (\<lambda>ident.
         let conversation = conversation_literal ident projectID recipient wake actorKind actorID now in
         andthen (tx_InsertTask conversation) (\<lambda>_.
         andthen (emit projectID TaskEntity ident ''task.created'' actorKind actorID runID requestID []
            (eventPayload [(''kind'', JString (task_kind_text TaskConversation))]) now) (\<lambda>_.
         ret conversation)))
      | Some conversation \<Rightarrow>
         andthen (reject (\<not> taskAcceptsDelivery conversation \<or> t_status conversation = TaskFailed)
            (Conflict INVALID_STATE (task_status_text (t_status conversation)) (t_version conversation))) (\<lambda>_.
         wakeDeliveryTask conversation wake reason actorKind actorID runID requestID now)) (\<lambda>conversation.
       ret (conversation, if defaultRelatedTaskID \<noteq> [] then defaultRelatedTaskID else relatedTaskID)))"

definition agentDeliveryTask ::
  "service \<Rightarrow> string \<Rightarrow> string \<Rightarrow> agent \<Rightarrow> string \<Rightarrow> string \<Rightarrow> bool \<Rightarrow> actor_kind \<Rightarrow> string \<Rightarrow> string \<Rightarrow>
   string \<Rightarrow> string \<Rightarrow> stamp \<Rightarrow> (task \<times> string) op" where
  "agentDeliveryTask sv projectID defaultRelatedTaskID recipient explicitTaskID relatedTaskID wake
     actorKind actorID runID reason requestID now =
     (if explicitTaskID = [] then
        conversationDeliveryTask sv projectID defaultRelatedTaskID recipient relatedTaskID wake actorKind
          actorID runID reason requestID now
      else
        andthen (explicitDeliveryTask projectID recipient explicitTaskID) (\<lambda>target.
        (if taskAcceptsDelivery target then
          andthen (wakeDeliveryTask target wake reason actorKind actorID runID requestID now) (\<lambda>target.
          ret (target, relatedTaskID))
         else conversationDeliveryTask sv projectID defaultRelatedTaskID recipient (t_id target) wake
           actorKind actorID runID reason requestID now)))"

section \<open>Messages of the Boss\<close>

record bossAgentMessage =
  bm_project_id :: string
  bm_agent_id :: string
  bm_task_id :: string
  bm_related_task_id :: string
  bm_body :: string
  bm_reply_to :: string
  bm_wake :: bool
  bm_ack_ids :: "string list"
  bm_request_id :: string
  bm_operation :: string

definition boss_message_request ::
  "service \<Rightarrow> string \<Rightarrow> string \<Rightarrow> string \<Rightarrow> string \<Rightarrow> string \<Rightarrow> string \<Rightarrow> bool \<Rightarrow> string list \<Rightarrow> string \<Rightarrow> string \<Rightarrow>
   bossAgentMessage op" where
  "boss_message_request sv projectID agentID taskID relatedTaskID body replyTo wake ackIDs requestID
     operation =
       andthen (requireText ''project_id'' projectID) (\<lambda>projectID.
       andthen (requireText ''agent_id'' agentID) (\<lambda>agentID.
       andthen (requireText ''body'' body) (\<lambda>body.
       andthen (canonicalMessageIDs ackIDs) (\<lambda>ackIDs.
       andthen (request_id sv requestID) (\<lambda>requestID.
       ret \<lparr>bm_project_id = projectID, bm_agent_id = agentID, bm_task_id = trim_space taskID,
       bm_related_task_id = trim_space relatedTaskID, bm_body = body, bm_reply_to = trim_space replyTo,
       bm_wake = wake, bm_ack_ids = ackIDs, bm_request_id = requestID, bm_operation = operation\<rparr>)))))"

definition bossMessageFingerprint :: "service \<Rightarrow> bossAgentMessage \<Rightarrow> string op" where
  "bossMessageFingerprint sv i =
     (if bm_operation i = ''chat.send'' then
        ret (inputFingerprint sv
          [(''ProjectID'', JString (bm_project_id i)), (''AgentID'', JString (bm_agent_id i)),
           (''Body'', JString (bm_body i)), (''RelatedTaskID'', JString (bm_related_task_id i)),
           (''ReplyToID'', JString (bm_reply_to i)), (''AckIDs'', joined_ids (bm_ack_ids i)),
           (''Wake'', JBool (bm_wake i))])
      else if bm_operation i = ''message.send'' then
        ret (inputFingerprint sv
          [(''ProjectID'', JString (bm_project_id i)), (''AgentID'', JString (bm_agent_id i)),
           (''TaskID'', JString (bm_task_id i)), (''RelatedTaskID'', JString (bm_related_task_id i)),
           (''Body'', JString (bm_body i)), (''ReplyToID'', JString (bm_reply_to i)),
           (''AckIDs'', joined_ids (bm_ack_ids i)), (''Wake'', JBool (bm_wake i))])
      else throw (NewError INTERNAL False))"

definition replayBossAgentMessage :: "string \<Rightarrow> dedupeResult \<Rightarrow> (task \<times> message) op" where
  "replayBossAgentMessage operation replayed =
     (if operation = ''chat.send'' then
       andthen (tx_Task (dd_id replayed)) (\<lambda>task.
       andthen (tx_Message (dd_related_id replayed)) (\<lambda>message.
       ret (task, message)))
      else if operation = ''message.send'' then
        andthen (tx_Message (dd_id replayed)) (\<lambda>message.
        andthen (tx_Task (m_task_id message)) (\<lambda>task.
        ret (task, message)))
      else throw (NewError INTERNAL False))"

definition recordBossAgentMessage ::
  "requestDedupe \<Rightarrow> string \<Rightarrow> task \<Rightarrow> message \<Rightarrow> stamp \<Rightarrow> unit op" where
  "recordBossAgentMessage dedupe operation task message now =
     (if operation = ''chat.send'' then record_dedupe dedupe (t_id task) (m_id message) now
      else if operation = ''message.send'' then record_dedupe dedupe (m_id message) [] now
      else throw (NewError INTERNAL False))"

definition bossMessageScope :: "string \<Rightarrow> string \<Rightarrow> string \<Rightarrow> unit op" where
  "bossMessageScope projectID relatedTaskID replyTo =
    andthen (whenever (relatedTaskID \<noteq> []) (
      andthen (tx_Task relatedTaskID) (\<lambda>task.
      reject (t_project_id task \<noteq> projectID) (NewError SCOPE_DENIED False)))) (\<lambda>_.
    whenever (replyTo \<noteq> []) (
      andthen (tx_Message replyTo) (\<lambda>message.
      reject (m_project_id message \<noteq> projectID) (NewError SCOPE_DENIED False))))"

definition project_is_active :: "string \<Rightarrow> project op" where
  "project_is_active projectID =
    andthen (tx_Project projectID) (\<lambda>project.
    andthen (reject (p_status project \<noteq> ProjectActive)
       (Conflict INVALID_STATE (project_status_text (p_status project)) (p_version project))) (\<lambda>_.
    ret project))"

definition agent_not_archived :: "string \<Rightarrow> agent op" where
  "agent_not_archived agentID =
    andthen (tx_Agent agentID) (\<lambda>agent.
    andthen (reject (a_status agent = AgentArchived)
       (Conflict INVALID_STATE (agent_status_text (a_status agent)) (a_version agent))) (\<lambda>_.
    ret agent))"

definition sendBossAgentMessage_tx ::
  "service \<Rightarrow> bossAgentMessage \<Rightarrow> requestDedupe \<Rightarrow> (task \<times> message) op" where
  "sendBossAgentMessage_tx sv input dedupe =
    andthen (replay dedupe) (\<lambda>replayed.
    (case replayed of
        Some result \<Rightarrow> replayBossAgentMessage (bm_operation input) result
      | None \<Rightarrow>
      andthen (project_is_active (bm_project_id input)) (\<lambda>_.
      andthen (agent_not_archived (bm_agent_id input)) (\<lambda>agent.
      andthen (bossMessageScope (bm_project_id input) (bm_related_task_id input) (bm_reply_to input)) (\<lambda>_.
      andthen (nowText sv) (\<lambda>now.
      andthen (acknowledgeForActor (bm_ack_ids input) (bm_project_id input) boss_actor (bm_request_id input) now) (\<lambda>_.
      andthen (agentDeliveryTask sv (bm_project_id input) [] agent (bm_task_id input)
            (bm_related_task_id input) (bm_wake input) Boss [] [] ''boss_message'' (bm_request_id input) now) (\<lambda>(task, relatedTaskID).
      andthen (insertMessage sv
            \<lparr>mi_project_id = bm_project_id input, mi_task_id = t_id task,
             mi_related_task_id = relatedTaskID, mi_sender_kind = Boss, mi_sender_id = [],
             mi_recipient_kind = AgentActor, mi_recipient_id = bm_agent_id input,
             mi_recipient_participant_id = [], mi_reply_to = bm_reply_to input,
             mi_body = bm_body input, mi_system_code = [], mi_wake = bm_wake input,
             mi_max_deliveries = 3, mi_idempotency_key = bm_request_id input, mi_actor_kind = Boss,
             mi_actor_id = [], mi_actor_run_id = [], mi_request_id = bm_request_id input,
             mi_operation_id = [], mi_now = now, mi_payload = []\<rparr>) (\<lambda>message.
      andthen (recordBossAgentMessage dedupe (bm_operation input) task message now) (\<lambda>_.
      ret (task, message)))))))))))"

definition sendBossAgentMessage :: "service \<Rightarrow> bossAgentMessage \<Rightarrow> (task \<times> message) op" where
  "sendBossAgentMessage sv input =
    andthen (bossMessageFingerprint sv input) (\<lambda>inputHash.
    transact (sendBossAgentMessage_tx sv input
       \<lparr>rq_scope = ''boss'', rq_operation = bm_operation input, rq_request_id = bm_request_id input,
        rq_input_hash = inputHash\<rparr>))"

record ChatInput =
  ch_project_id :: string
  ch_agent_id :: string
  ch_body :: string
  ch_related_task :: string
  ch_wake :: bool
  ch_ack_message_ids :: "string list"
  ch_request_id :: string
  ch_reply_to :: string

definition Chat :: "service \<Rightarrow> ChatInput \<Rightarrow> (task \<times> message) op" where
  "Chat sv i =
    andthen (boss_message_request sv (ch_project_id i) (ch_agent_id i) [] (ch_related_task i)
       (ch_body i) (ch_reply_to i) (ch_wake i) (ch_ack_message_ids i) (ch_request_id i) ''chat.send'') (\<lambda>request.
    sendBossAgentMessage sv request)"

record BossMessageInput =
  bi_project_id :: string
  bi_agent_id :: string
  bi_task_id :: string
  bi_related_task_id :: string
  bi_body :: string
  bi_wake :: bool
  bi_reply_to :: string
  bi_ack_message_ids :: "string list"
  bi_request_id :: string

definition SendBossMessage :: "service \<Rightarrow> BossMessageInput \<Rightarrow> message op" where
  "SendBossMessage sv i =
    andthen (boss_message_request sv (bi_project_id i) (bi_agent_id i) (bi_task_id i)
       (bi_related_task_id i) (bi_body i) (bi_reply_to i) (bi_wake i) (bi_ack_message_ids i)
       (bi_request_id i) ''message.send'') (\<lambda>request.
    andthen (sendBossAgentMessage sv request) (\<lambda>(task, message).
    ret message))"

definition AcknowledgeBossMessage_tx :: "service \<Rightarrow> string \<Rightarrow> string \<Rightarrow> message op" where
  "AcknowledgeBossMessage_tx sv messageID requestID =
    andthen (tx_Message (trim_space messageID)) (\<lambda>message.
    andthen (reject (m_recipient_kind message \<noteq> Boss) (NewError SCOPE_DENIED False)) (\<lambda>_.
    (if m_state message = MessageAcknowledged then ret message
      else
      andthen (reject (ValidateMessageTransition (m_state message) MessageAcknowledged \<noteq> None)
          (Conflict INVALID_STATE (message_state_text (m_state message)) (m_version message))) (\<lambda>_.
      andthen (nowText sv) (\<lambda>now.
      let message' = settled_by_ack message now in
      andthen (tx_UpdateMessage message' (m_version message) (m_state message)) (\<lambda>_.
      andthen (emit (m_project_id message) MessageEntity (m_id message) ''message.acknowledged'' Boss [] []
          requestID [] ''{}'' now) (\<lambda>_.
      ret message')))))))"

definition AcknowledgeBossMessage :: "service \<Rightarrow> string \<Rightarrow> string \<Rightarrow> message op" where
  "AcknowledgeBossMessage sv messageID requestID =
    andthen (request_id sv requestID) (\<lambda>requestID.
    transact (AcknowledgeBossMessage_tx sv messageID requestID))"

definition boss_dedupe :: "service \<Rightarrow> string \<Rightarrow> string \<Rightarrow> (string \<times> json) list \<Rightarrow> requestDedupe" where
  "boss_dedupe sv operation requestID parts =
     \<lparr>rq_scope = ''boss'', rq_operation = operation, rq_request_id = requestID,
      rq_input_hash = inputFingerprint sv parts\<rparr>"

definition ReadBossMessage_tx :: "service \<Rightarrow> string \<Rightarrow> requestDedupe \<Rightarrow> message op" where
  "ReadBossMessage_tx sv messageID dedupe =
    andthen (replay dedupe) (\<lambda>replayed.
    (case replayed of
        Some result \<Rightarrow> tx_Message (dd_id result)
      | None \<Rightarrow>
      andthen (tx_Message messageID) (\<lambda>message.
      andthen (reject (m_recipient_kind message \<noteq> Boss) (NewError SCOPE_DENIED False)) (\<lambda>_.
      andthen (nowText sv) (\<lambda>now.
      andthen (if m_state message = MessagePending then
        (let message' = message\<lparr>m_state := MessageDelivered, m_delivered_run_id := [],
                m_delivered_at := now, m_version := m_version message + 1\<rparr> in
        andthen (tx_UpdateMessage message' (m_version message) MessagePending) (\<lambda>_.
        andthen (emit (m_project_id message) MessageEntity (m_id message) ''message.delivered'' Boss [] []
                (rq_request_id dedupe) [] ''{}'' now) (\<lambda>_.
        ret message'))) else ret message) (\<lambda>message'.
      andthen (record_dedupe dedupe (m_id message) [] now) (\<lambda>_.
      ret message')))))))"

definition ReadBossMessage :: "service \<Rightarrow> string \<Rightarrow> string \<Rightarrow> message op" where
  "ReadBossMessage sv messageID requestID =
    andthen (requireText ''message_id'' messageID) (\<lambda>messageID.
    andthen (request_id sv requestID) (\<lambda>requestID.
    transact (ReadBossMessage_tx sv messageID
       (boss_dedupe sv ''message.read'' requestID [(''MessageID'', JString messageID)]))))"

definition RetryMessage_tx :: "service \<Rightarrow> string \<Rightarrow> requestDedupe \<Rightarrow> message op" where
  "RetryMessage_tx sv messageID dedupe =
    andthen (replay dedupe) (\<lambda>replayed.
    (case replayed of
        Some result \<Rightarrow> tx_Message (dd_id result)
      | None \<Rightarrow>
      andthen (tx_Message messageID) (\<lambda>message.
      andthen (reject (m_recipient_kind message \<noteq> AgentActor) (NewError SCOPE_DENIED False)) (\<lambda>_.
      andthen (reject (m_state message \<noteq> MessagePending)
            (Conflict INVALID_STATE (message_state_text (m_state message)) (m_version message))) (\<lambda>_.
      andthen (tx_Task (m_task_id message)) (\<lambda>task.
      andthen (reject (\<not> taskAcceptsDelivery task)
            (Conflict INVALID_STATE (task_status_text (t_status task)) (t_version task))) (\<lambda>_.
      andthen (nowText sv) (\<lambda>now.
      let message' = message\<lparr>m_delivery_count := 0, m_next_delivery_at := now,
            m_last_delivery_error := [], m_version := m_version message + 1\<rparr> in
      andthen (tx_UpdateMessage message' (m_version message) MessagePending) (\<lambda>_.
      andthen (whenever (m_wake message \<and> t_status task = TaskWaiting) (
        andthen (tx_UpdateTask (requeued task now now) (t_version task) TaskWaiting) (\<lambda>_.
        andthen (emit (t_project_id task) TaskEntity (t_id task) ''task.requeued'' Boss [] []
              (rq_request_id dedupe) [] (eventPayload [(''reason'', JString ''message_retry'')]) now) (\<lambda>_.
        ret ())))) (\<lambda>_.
      andthen (emit (m_project_id message) MessageEntity (m_id message) ''message.retry_enabled'' Boss [] []
            (rq_request_id dedupe) [] ''{}'' now) (\<lambda>_.
      andthen (record_dedupe dedupe (m_id message) [] now) (\<lambda>_.
      ret message'))))))))))))"

definition RetryMessage :: "service \<Rightarrow> string \<Rightarrow> string \<Rightarrow> message op" where
  "RetryMessage sv messageID requestID =
    andthen (requireText ''message_id'' messageID) (\<lambda>messageID.
    andthen (request_id sv requestID) (\<lambda>requestID.
    transact (RetryMessage_tx sv messageID
       (boss_dedupe sv ''message.retry'' requestID [(''MessageID'', JString messageID)]))))"

section \<open>Messages of an agent\<close>

definition runCanReadMessage :: "run \<Rightarrow> task \<Rightarrow> message \<Rightarrow> bool op" where
  "runCanReadMessage run current message =
     (if m_project_id message \<noteq> t_project_id current then ret False
      else if (m_sender_kind message = AgentActor \<and> m_sender_id message = r_agent_id run) \<or>
              (m_recipient_kind message = AgentActor \<and> m_recipient_id message = r_agent_id run)
      then ret True
      else
        andthen (tx_Task (m_task_id message)) (\<lambda>task.
        (if runCanReadTask run current task then ret True
         else if m_related_task_id message = [] then ret False
         else
          andthen (tx_Task (m_related_task_id message)) (\<lambda>related.
          ret (runCanReadTask run current related)))))"

record SendMessageInput =
  sm_token :: string
  sm_recipient_kind :: string
  sm_recipient_id :: string
  sm_task_id :: string
  sm_related_task_id :: string
  sm_body :: string
  sm_wake :: bool
  sm_reply_to :: string
  sm_ack_message_ids :: "string list"
  sm_request_id :: string

text \<open>The checks of a related task and of a message replied to.\<close>

definition agentMessageScope :: "run \<Rightarrow> task \<Rightarrow> bool \<Rightarrow> SendMessageInput \<Rightarrow> unit op" where
  "agentMessageScope run current toAgent i =
    andthen (whenever (sm_related_task_id i \<noteq> []) (
      andthen (tx_Task (sm_related_task_id i)) (\<lambda>related.
      reject (\<not> runCanReadTask run current related) (NewError SCOPE_DENIED False)))) (\<lambda>_.
    andthen (reject (toAgent \<and> sm_task_id i = [] \<and> sm_related_task_id i \<noteq> [] \<and>
             sm_related_task_id i \<noteq> t_id current) (NewError SCOPE_DENIED False)) (\<lambda>_.
    whenever (sm_reply_to i \<noteq> []) (
      andthen (tx_Message (sm_reply_to i)) (\<lambda>repliedTo.
      andthen (runCanReadMessage run current repliedTo) (\<lambda>allowed.
      reject (\<not> allowed) (NewError SCOPE_DENIED False))))))"

definition agentMessageTarget ::
  "service \<Rightarrow> run \<Rightarrow> task \<Rightarrow> bool \<Rightarrow> SendMessageInput \<Rightarrow> stamp \<Rightarrow> (task \<times> string) op" where
  "agentMessageTarget sv run current toAgent i now =
     (if \<not> toAgent then
        (if sm_task_id i = [] then ret (current, sm_related_task_id i)
         else
           andthen (tx_Task (sm_task_id i)) (\<lambda>deliveryTask.
           andthen (reject (\<not> runCanReadTask run current deliveryTask) (NewError SCOPE_DENIED False)) (\<lambda>_.
           ret (deliveryTask, sm_related_task_id i))))
      else
        andthen (agent_not_archived (sm_recipient_id i)) (\<lambda>recipient.
        andthen (project_is_active (t_project_id current)) (\<lambda>_.
        agentDeliveryTask sv (t_project_id current) (t_id current) recipient (sm_task_id i)
          (sm_related_task_id i) (sm_wake i) AgentActor (r_agent_id run) (r_id run) ''agent_message''
          (sm_request_id i) now)))"

definition SendAgentMessage_tx :: "service \<Rightarrow> SendMessageInput \<Rightarrow> bool \<Rightarrow> string \<Rightarrow> message op" where
  "SendAgentMessage_tx sv i toAgent inputHash =
    andthen (scopedRun sv (sm_token i)) (\<lambda>scope.
    let dedupe = \<lparr>rq_scope = ''run:'' @ r_id scope, rq_operation = ''message.send'',
       rq_request_id = sm_request_id i, rq_input_hash = inputHash\<rparr> in
    andthen (replay dedupe) (\<lambda>replayed.
    (case replayed of
        Some result \<Rightarrow> tx_Message (dd_id result)
      | None \<Rightarrow>
      andthen (authenticateRun sv (sm_token i)) (\<lambda>(run, current).
      andthen (check (ValidateTaskOperation (t_kind current) ''message'')) (\<lambda>_.
      andthen (agentMessageScope run current toAgent i) (\<lambda>_.
      andthen (nowText sv) (\<lambda>now.
      andthen (acknowledgeAgentMessages (sm_ack_message_ids i) (t_project_id current) (r_agent_id run) (r_id run)
            (sm_request_id i) now) (\<lambda>_.
      andthen (agentMessageTarget sv run current toAgent i now) (\<lambda>(deliveryTask, relatedTaskID).
      andthen (insertMessage sv
            \<lparr>mi_project_id = t_project_id current, mi_task_id = t_id deliveryTask,
             mi_related_task_id = relatedTaskID, mi_sender_kind = AgentActor,
             mi_sender_id = r_agent_id run, mi_recipient_kind = (if toAgent then AgentActor else Boss),
             mi_recipient_id = sm_recipient_id i, mi_recipient_participant_id = [],
             mi_reply_to = sm_reply_to i, mi_body = sm_body i, mi_system_code = [],
             mi_wake = sm_wake i, mi_max_deliveries = (if toAgent then 3 else 1),
             mi_idempotency_key = sm_request_id i, mi_actor_kind = AgentActor,
             mi_actor_id = r_agent_id run, mi_actor_run_id = r_id run,
             mi_request_id = sm_request_id i, mi_operation_id = [], mi_now = now, mi_payload = []\<rparr>) (\<lambda>message.
      andthen (record_dedupe dedupe (m_id message) [] now) (\<lambda>_.
      ret message)))))))))))"

definition SendAgentMessage :: "service \<Rightarrow> SendMessageInput \<Rightarrow> message op" where
  "SendAgentMessage sv i =
    andthen (requireText ''body'' (sm_body i)) (\<lambda>body.
    let recipientKind = to_lower (trim_space (sm_recipient_kind i)) in
    let recipientID = trim_space (sm_recipient_id i) in
    andthen (reject (recipientKind \<noteq> ''boss'' \<and> recipientKind \<noteq> ''agent'') (NewError INVALID_ARGUMENT False)) (\<lambda>_.
    andthen (reject (recipientKind = ''agent'' \<and> recipientID = []) (NewError INVALID_ARGUMENT False)) (\<lambda>_.
    andthen (reject (recipientKind = ''boss'' \<and> recipientID \<noteq> []) (NewError INVALID_ARGUMENT False)) (\<lambda>_.
    andthen (canonicalMessageIDs (sm_ack_message_ids i)) (\<lambda>ackIDs.
    andthen (request_id sv (sm_request_id i)) (\<lambda>requestID.
    let input = i\<lparr>sm_recipient_id := recipientID, sm_task_id := trim_space (sm_task_id i),
       sm_related_task_id := trim_space (sm_related_task_id i), sm_body := body,
       sm_reply_to := trim_space (sm_reply_to i), sm_ack_message_ids := ackIDs,
       sm_request_id := requestID\<rparr> in
    let inputHash = inputFingerprint sv
       [(''RecipientKind'', JString recipientKind), (''RecipientID'', JString recipientID),
        (''TaskID'', JString (sm_task_id input)), (''RelatedTaskID'', JString (sm_related_task_id input)),
        (''Body'', JString body), (''ReplyToID'', JString (sm_reply_to input)),
        (''AckIDs'', joined_ids ackIDs), (''Wake'', JBool (sm_wake input))] in
    transact (SendAgentMessage_tx sv input (recipientKind = ''agent'') inputHash)))))))"

section \<open>Delivery of messages to a run\<close>

text \<open>The run's own task, or the conversation of the same agent in the same project.\<close>

definition validTarget :: "run \<Rightarrow> task \<Rightarrow> bool" where
  "validTarget run deliveryTask =
     (t_id deliveryTask = r_task_id run \<or>
      (t_kind deliveryTask = TaskConversation \<and> t_project_id deliveryTask = r_project_id run \<and>
       t_assignee_agent_id deliveryTask = r_agent_id run))"

definition deliverMessage :: "run \<Rightarrow> string \<Rightarrow> string \<Rightarrow> stamp \<Rightarrow> string \<Rightarrow> message op" where
  "deliverMessage run requestID operationID now messageID =
    andthen (tx_Message messageID) (\<lambda>message.
    andthen (reject (m_project_id message \<noteq> r_project_id run \<or> m_recipient_kind message \<noteq> AgentActor \<or>
             m_recipient_id message \<noteq> r_agent_id run) (NewError SCOPE_DENIED False)) (\<lambda>_.
    andthen (tx_Task (m_task_id message)) (\<lambda>deliveryTask.
    andthen (reject (\<not> validTarget run deliveryTask \<or> \<not> taskAcceptsDelivery deliveryTask)
       (Conflict INVALID_STATE (task_status_text (t_status deliveryTask)) (t_version deliveryTask))) (\<lambda>_.
    (if m_state message = MessageAcknowledged \<or>
         (m_state message = MessageDelivered \<and> m_delivered_run_id message = r_id run)
      then ret message
      else
      andthen (reject (m_state message \<noteq> MessagePending)
          (Conflict INVALID_STATE (message_state_text (m_state message)) (m_version message))) (\<lambda>_.
      andthen (reject (m_next_delivery_at message = NoStamp \<or> now < m_next_delivery_at message \<or>
                (0 < m_max_deliveries message \<and> m_max_deliveries message \<le> m_delivery_count message))
          (Conflict INVALID_STATE (message_state_text (m_state message)) (m_version message))) (\<lambda>_.
      let message' = message\<lparr>m_state := MessageDelivered, m_delivered_run_id := r_id run,
          m_delivery_count := m_delivery_count message + 1, m_delivered_at := now,
          m_last_delivery_error := [], m_version := m_version message + 1\<rparr> in
      andthen (tx_UpdateMessage message' (m_version message) MessagePending) (\<lambda>_.
      andthen (emit (m_project_id message) MessageEntity (m_id message) ''message.delivered'' Daemon [] (r_id run)
          requestID operationID
          (eventPayload [(''run_id'', JString (r_id run)), (''delivery_count'', JInt (m_delivery_count message'))])
          now) (\<lambda>_.
      ret message')))))))))"

definition RecordMessagesDelivered_tx ::
  "service \<Rightarrow> string \<Rightarrow> string list \<Rightarrow> string \<Rightarrow> requestDedupe \<Rightarrow> message list op" where
  "RecordMessagesDelivered_tx sv runID messageIDs operationID dedupe =
    andthen (tx_Run runID) (\<lambda>run.
    andthen (replay dedupe) (\<lambda>replayed.
    (case replayed of
        Some _ \<Rightarrow> loadMessages messageIDs
      | None \<Rightarrow>
      andthen (reject (IsRunTerminal (r_state run))
            (Conflict INVALID_STATE (run_state_text (r_state run)) (r_version run))) (\<lambda>_.
      andthen (tx_Task (r_task_id run)) (\<lambda>task.
      andthen (reject (t_current_run_id task \<noteq> r_id run \<or> t_generation task \<noteq> r_generation run \<or>
                  t_assignee_agent_id task \<noteq> r_agent_id run)
            (Conflict VERSION_CONFLICT (task_status_text (t_status task)) (t_version task))) (\<lambda>_.
      andthen (nowText sv) (\<lambda>now.
      andthen (collect messageIDs (deliverMessage run (rq_request_id dedupe) operationID now)) (\<lambda>delivered.
      andthen (record_dedupe dedupe (r_id run) [] now) (\<lambda>_.
      ret delivered)))))))))"

definition RecordMessagesDelivered ::
  "service \<Rightarrow> string \<Rightarrow> string list \<Rightarrow> string \<Rightarrow> string \<Rightarrow> message list op" where
  "RecordMessagesDelivered sv runID messageIDs requestID operationID =
    andthen (requireText ''run_id'' runID) (\<lambda>runID.
    andthen (canonicalMessageIDs messageIDs) (\<lambda>messageIDs.
    andthen (reject (messageIDs = []) (NewError INVALID_ARGUMENT False)) (\<lambda>_.
    andthen (request_id sv requestID) (\<lambda>requestID.
    let operationID = trim_space operationID in
    let dedupe = \<lparr>rq_scope = ''daemon:run:'' @ runID, rq_operation = ''message.deliver'',
       rq_request_id = requestID, rq_input_hash = inputFingerprint sv
         [(''RunID'', JString runID), (''MessageIDs'', joined_ids messageIDs),
          (''OperationID'', JString operationID)]\<rparr> in
    transact (RecordMessagesDelivered_tx sv runID messageIDs operationID dedupe)))))"

section \<open>What a run reads and acknowledges\<close>

definition TaskForRun :: "service \<Rightarrow> string \<Rightarrow> string \<Rightarrow> task op" where
  "TaskForRun sv token taskID =
    andthen (requireText ''task_id'' taskID) (\<lambda>taskID.
    transact (
      andthen (authenticateRun sv token) (\<lambda>(run, current).
      andthen (tx_Task taskID) (\<lambda>target.
      andthen (reject (t_project_id target \<noteq> t_project_id current) (NewError SCOPE_DENIED False)) (\<lambda>_.
      andthen (reject (\<not> runCanReadTask run current target) (NewError SCOPE_DENIED False)) (\<lambda>_.
      ret target))))))"

definition inbox_of :: "run \<Rightarrow> task \<Rightarrow> message list op" where
  "inbox_of run task =
    andthen (tx_MessagesForRecipient AgentActor (r_agent_id run)) (\<lambda>messages.
    ret (filter (\<lambda>m. m_project_id m = t_project_id task \<and>
       (m_state m = MessagePending \<or> m_state m = MessageDelivered)) messages))"

definition Inbox :: "service \<Rightarrow> string \<Rightarrow> message list op" where
  "Inbox sv token = transact (
    andthen (authenticateRun sv token) (\<lambda>(run, task).
    inbox_of run task))"

definition InboxMessage :: "service \<Rightarrow> string \<Rightarrow> string \<Rightarrow> message op" where
  "InboxMessage sv token messageID =
    andthen (requireText ''message_id'' messageID) (\<lambda>messageID.
    transact (
      andthen (authenticateRun sv token) (\<lambda>(run, task).
      andthen (tx_Message messageID) (\<lambda>message.
      andthen (reject (m_project_id message \<noteq> t_project_id task \<or> m_recipient_kind message \<noteq> AgentActor \<or>
               m_recipient_id message \<noteq> r_agent_id run) (NewError SCOPE_DENIED False)) (\<lambda>_.
      ret message)))))"

definition AcknowledgeAgentMessages_tx ::
  "service \<Rightarrow> string \<Rightarrow> string list \<Rightarrow> string \<Rightarrow> string \<Rightarrow> message list op" where
  "AcknowledgeAgentMessages_tx sv token messageIDs requestID inputHash =
    andthen (scopedRun sv token) (\<lambda>scope.
    let dedupe = \<lparr>rq_scope = ''run:'' @ r_id scope, rq_operation = ''message.ack'',
       rq_request_id = requestID, rq_input_hash = inputHash\<rparr> in
    andthen (replay dedupe) (\<lambda>replayed.
    (case replayed of
        Some _ \<Rightarrow> loadMessages messageIDs
      | None \<Rightarrow>
      andthen (authenticateRun sv token) (\<lambda>(run, task).
      andthen (nowText sv) (\<lambda>now.
      andthen (acknowledgeAgentMessages messageIDs (t_project_id task) (r_agent_id run)
            (r_id run) requestID now) (\<lambda>acknowledged.
      andthen (record_dedupe dedupe (r_id scope) [] now) (\<lambda>_.
      ret acknowledged)))))))"

definition AcknowledgeAgentMessages ::
  "service \<Rightarrow> string \<Rightarrow> string list \<Rightarrow> string \<Rightarrow> message list op" where
  "AcknowledgeAgentMessages sv token messageIDs requestID =
    andthen (canonicalMessageIDs messageIDs) (\<lambda>messageIDs.
    andthen (reject (messageIDs = []) (NewError INVALID_ARGUMENT False)) (\<lambda>_.
    andthen (request_id sv requestID) (\<lambda>requestID.
    transact (AcknowledgeAgentMessages_tx sv token messageIDs requestID
       (inputFingerprint sv [(''MessageIDs'', joined_ids messageIDs)])))))"

end
