(* ===== verification/Roles.thy ===== *)
theory Roles
  imports Service
begin

text \<open>
  Who may operate the service: the static capability vocabulary (capability.go), the effective
  capabilities of a participant (participant.go), the operator gate, roles and role bindings
  (role.go, participant_roles.go), and the operator credentials (credentials.go).
\<close>

section \<open>Capabilities\<close>

definition capabilityRegistry :: "capability list" where
  "capabilityRegistry =
     [''agent.manage'', ''gc.discard'', ''gc.preview'', ''gc.run'', ''message.read'', ''message.send'',
      ''participant.manage'', ''project.archive'', ''project.delete'', ''project.repair'',
      ''project.view'', ''role.bind'', ''role.manage'', ''run.stop'', ''run.view'', ''task.accept'',
      ''task.assign'', ''task.cancel'', ''task.complete'', ''task.create'', ''task.retry'',
      ''task.rework'', ''task.wake'']"

definition agentDefaultCapabilities :: "capability list" where
  "agentDefaultCapabilities =
     [''message.read'', ''message.send'', ''task.accept'', ''task.create'', ''task.rework'', ''task.wake'']"

definition knownCapability :: "capability \<Rightarrow> bool" where
  "knownCapability capability = (capability \<in> set capabilityRegistry)"

fun parse_capabilities :: "string list \<Rightarrow> capability list \<Rightarrow> failure + capability list" where
  "parse_capabilities [] parsed = Inr parsed"
| "parse_capabilities (name # names) parsed =
     (let capability = trim_space name in
      if capability = [] then parse_capabilities names parsed
      else if \<not> knownCapability capability then Inl (NewError INVALID_ARGUMENT False)
      else if capability \<in> set parsed then parse_capabilities names parsed
      else parse_capabilities names (parsed @ [capability]))"

definition ParseCapabilities :: "string list \<Rightarrow> failure + capability list" where
  "ParseCapabilities names = on_success sort (parse_capabilities names [])"

definition HasCapability :: "capability list \<Rightarrow> capability \<Rightarrow> bool" where
  "HasCapability capabilities want = (want \<in> set capabilities)"

definition CapabilityNames :: "capability list \<Rightarrow> string list" where
  "CapabilityNames capabilities = sort capabilities"

definition GlobalProjectID :: string where "GlobalProjectID = ''global''"
definition DefaultHumanParticipantID :: string where "DefaultHumanParticipantID = ''participant-owner''"
definition DefaultOwnerRoleID :: string where "DefaultOwnerRoleID = ''role-owner''"
definition DefaultAgentRoleID :: string where "DefaultAgentRoleID = ''role-agent''"
definition operatorParticipant :: string where "operatorParticipant = DefaultHumanParticipantID"

text \<open>The union of the capabilities of the bindings in scope, in order of first appearance.\<close>

fun collect_new :: "capability list \<Rightarrow> capability list \<Rightarrow> capability list" where
  "collect_new seen [] = seen"
| "collect_new seen (c # cs) = collect_new (if c \<in> set seen then seen else seen @ [c]) cs"

fun participant_capabilities :: "capability list \<Rightarrow> binding list \<Rightarrow> string \<Rightarrow> capability list" where
  "participant_capabilities seen [] projectID = seen"
| "participant_capabilities seen (b # bs) projectID =
     (if b_project_id b \<noteq> projectID \<and> b_project_id b \<noteq> GlobalProjectID
      then participant_capabilities seen bs projectID
      else participant_capabilities (collect_new seen (b_capabilities b)) bs projectID)"

definition ParticipantCapabilities :: "binding list \<Rightarrow> string \<Rightarrow> capability list" where
  "ParticipantCapabilities bindings projectID = participant_capabilities [] bindings projectID"

definition requireOperatorCapability_tx :: "capability \<Rightarrow> string \<Rightarrow> unit op" where
  "requireOperatorCapability_tx capability projectID =
    andthen (wrap (NewError SCOPE_DENIED False) (tx_Participant operatorParticipant)) (\<lambda>_.
    andthen (tx_ParticipantRoles operatorParticipant) (\<lambda>bindings.
    reject (\<not> HasCapability (ParticipantCapabilities bindings projectID) capability)
       (NewError SCOPE_DENIED False)))"

definition requireOperatorCapability :: "capability \<Rightarrow> string \<Rightarrow> unit op" where
  "requireOperatorCapability capability projectID =
     transact (requireOperatorCapability_tx capability projectID)"

section \<open>Roles\<close>

definition validateRoleName :: "string \<Rightarrow> unit op" where
  "validateRoleName name =
     (let name = trim_space name in
      if name = [] then throw (NewError INVALID_ARGUMENT False)
      else reject (64 < length name) (NewError INVALID_ARGUMENT False))"

record RoleInput =
  ri_role_id :: string
  ri_name :: string
  ri_description :: string
  ri_capabilities :: "string list"
  ri_request_id :: string

text \<open>A management event is built without \<open>event\<close>: its actor is the daemon on the operator's behalf.\<close>

definition management_event ::
  "string \<Rightarrow> entity_type \<Rightarrow> string \<Rightarrow> string \<Rightarrow> string \<Rightarrow> stamp \<Rightarrow> event" where
  "management_event projectID entityType entityID kind requestID now =
     \<lparr>e_id = 0, e_project_id = projectID, e_entity_type = entityType, e_entity_id = entityID,
      e_kind = kind, e_actor_kind = Daemon, e_actor_id = operatorParticipant, e_run_id = [],
      e_request_id = requestID, e_operation_id = [], e_payload_json = ''{}'', e_created_at = now\<rparr>"

definition CreateRole_tx ::
  "service \<Rightarrow> string \<Rightarrow> string \<Rightarrow> capability list \<Rightarrow> string \<Rightarrow> requestDedupe \<Rightarrow> role op" where
  "CreateRole_tx sv name description capabilities requestID dedupe =
    andthen (replay dedupe) (\<lambda>replayed.
    (case replayed of
        Some result \<Rightarrow> tx_Role (dd_id result)
      | None \<Rightarrow>
      andthen tx_Roles (\<lambda>existing.
      andthen (reject (\<exists>r \<in> set existing. ro_name r = name) (NewError INVALID_STATE False)) (\<lambda>_.
      andthen (requiredID sv ''role'') (\<lambda>ident.
      andthen (nowText sv) (\<lambda>now.
      let role = \<lparr>ro_id = ident, ro_name = name, ro_description = description,
            ro_capabilities = capabilities, ro_version = 1, ro_created_at = now, ro_updated_at = now\<rparr> in
      andthen (tx_InsertRole role) (\<lambda>_.
      andthen (tx_AppendEvent (management_event GlobalProjectID RoleEntity ident ''role.created'' requestID now)) (\<lambda>_.
      andthen (record_dedupe dedupe ident [] now) (\<lambda>_.
      ret role)))))))))"

definition CreateRole :: "service \<Rightarrow> RoleInput \<Rightarrow> role op" where
  "CreateRole sv i =
    andthen (requireOperatorCapability ''role.manage'' GlobalProjectID) (\<lambda>_.
    let name = trim_space (ri_name i) in
    andthen (validateRoleName name) (\<lambda>_.
    andthen (lift (ParseCapabilities (ri_capabilities i))) (\<lambda>capabilities.
    let description = trim_space (ri_description i) in
    let dedupe = \<lparr>rq_scope = operatorParticipant, rq_operation = ''role.create'',
       rq_request_id = ri_request_id i, rq_input_hash = inputFingerprint sv
         [(''Name'', JString name), (''Description'', JString description),
          (''Capabilities'', JList (map JString (ri_capabilities i)))]\<rparr> in
    transact (CreateRole_tx sv name description capabilities (ri_request_id i) dedupe))))"

definition UpdateRole_tx :: "service \<Rightarrow> RoleInput \<Rightarrow> capability list \<Rightarrow> role op" where
  "UpdateRole_tx sv i capabilities =
    andthen (tx_Role (ri_role_id i)) (\<lambda>current.
    andthen (nowText sv) (\<lambda>now.
    let updated = current\<lparr>ro_name := trim_space (ri_name i),
       ro_description := trim_space (ri_description i), ro_capabilities := capabilities,
       ro_version := ro_version current + 1, ro_updated_at := now\<rparr> in
    andthen (tx_UpdateRole updated (ro_version current)) (\<lambda>_.
    andthen (tx_AppendEvent (management_event GlobalProjectID RoleEntity (ro_id updated) ''role.updated''
       (ri_request_id i) now)) (\<lambda>_.
    ret updated))))"

definition UpdateRole :: "service \<Rightarrow> RoleInput \<Rightarrow> role op" where
  "UpdateRole sv i =
    andthen (requireOperatorCapability ''role.manage'' GlobalProjectID) (\<lambda>_.
    andthen (validateRoleName (ri_name i)) (\<lambda>_.
    andthen (lift (ParseCapabilities (ri_capabilities i))) (\<lambda>capabilities.
    transact (UpdateRole_tx sv i capabilities))))"

definition DeleteRole_tx :: "service \<Rightarrow> string \<Rightarrow> string \<Rightarrow> unit op" where
  "DeleteRole_tx sv roleID requestID =
    andthen (tx_Role roleID) (\<lambda>_.
    andthen (tx_RoleBindingCount roleID) (\<lambda>bindings.
    andthen (reject (0 < bindings) (NewError IN_USE False)) (\<lambda>_.
    andthen (tx_DeleteRole roleID) (\<lambda>_.
    andthen (nowText sv) (\<lambda>now.
    andthen (tx_AppendEvent (management_event GlobalProjectID RoleEntity roleID ''role.deleted'' requestID now)) (\<lambda>_.
    ret ()))))))"

definition DeleteRole :: "service \<Rightarrow> string \<Rightarrow> string \<Rightarrow> unit op" where
  "DeleteRole sv roleID requestID =
    andthen (requireOperatorCapability ''role.manage'' GlobalProjectID) (\<lambda>_.
    transact (DeleteRole_tx sv roleID requestID))"

section \<open>Role bindings\<close>

record BindRoleInput =
  br_participant_id :: string
  br_project_id :: string
  br_role_id :: string
  br_request_id :: string

definition BindParticipantRole_tx :: "service \<Rightarrow> BindRoleInput \<Rightarrow> binding op" where
  "BindParticipantRole_tx sv i =
    andthen (tx_Participant (br_participant_id i)) (\<lambda>participant.
    andthen (tx_Role (br_role_id i)) (\<lambda>role.
    let projectID = trim_space (br_project_id i) in
    andthen (reject (projectID = []) (NewError INVALID_ARGUMENT False)) (\<lambda>_.
    andthen (whenever (projectID \<noteq> GlobalProjectID) (
      andthen (wrap (NewError NOT_FOUND False) (tx_Project projectID)) (\<lambda>_.
      ret ()))) (\<lambda>_.
    andthen (nowText sv) (\<lambda>now.
    let binding = \<lparr>b_participant_id = pa_id participant, b_project_id = projectID,
       b_role_id = ro_id role, b_role_name = ro_name role, b_capabilities = ro_capabilities role,
       b_version = 1, b_created_at = now, b_updated_at = now\<rparr> in
    andthen (tx_InsertParticipantRole binding) (\<lambda>_.
    andthen (tx_AppendEvent (management_event projectID ParticipantEntity (pa_id participant)
       ''participant.role_bound'' (br_request_id i) now)) (\<lambda>_.
    ret binding)))))))"

definition BindParticipantRole :: "service \<Rightarrow> BindRoleInput \<Rightarrow> binding op" where
  "BindParticipantRole sv i =
    andthen (requireOperatorCapability ''role.bind'' GlobalProjectID) (\<lambda>_.
    transact (BindParticipantRole_tx sv i))"

definition participantManageHolders :: "string list op" where
  "participantManageHolders =
    andthen tx_Participants (\<lambda>participants.
    andthen (collect participants (\<lambda>p.
      andthen (tx_ParticipantRoles (pa_id p)) (\<lambda>bindings.
      ret (pa_id p, HasCapability (ParticipantCapabilities bindings GlobalProjectID)
           ''participant.manage'')))) (\<lambda>holders.
    ret (map fst (filter snd holders))))"

definition participantRetainsGlobalCapability :: "string \<Rightarrow> string \<Rightarrow> capability \<Rightarrow> bool op" where
  "participantRetainsGlobalCapability participantID roleID capability =
    andthen (tx_ParticipantRoles participantID) (\<lambda>bindings.
    ret (HasCapability (concat (map b_capabilities (filter
       (\<lambda>b. \<not> (b_project_id b \<noteq> GlobalProjectID \<or> b_role_id b = roleID)) bindings))) capability))"

definition UnbindParticipantRole_tx :: "service \<Rightarrow> BindRoleInput \<Rightarrow> unit op" where
  "UnbindParticipantRole_tx sv i =
    andthen (tx_Participant (br_participant_id i)) (\<lambda>_.
    andthen (tx_Role (br_role_id i)) (\<lambda>role.
    let projectID = trim_space (br_project_id i) in
    andthen (reject (projectID = []) (NewError INVALID_ARGUMENT False)) (\<lambda>_.
    andthen (whenever (projectID = GlobalProjectID \<and> HasCapability (ro_capabilities role) ''participant.manage'') (
      andthen participantManageHolders (\<lambda>holders.
      whenever (length holders = 1 \<and> hd holders = br_participant_id i) (
        andthen (participantRetainsGlobalCapability (br_participant_id i) (br_role_id i)
           ''participant.manage'') (\<lambda>retains.
        reject (\<not> retains) (NewError IN_USE False)))))) (\<lambda>_.
    andthen (tx_DeleteParticipantRole (br_participant_id i) projectID (br_role_id i)) (\<lambda>_.
    andthen (nowText sv) (\<lambda>now.
    andthen (tx_AppendEvent (management_event projectID ParticipantEntity (br_participant_id i)
       ''participant.role_unbound'' (br_request_id i) now)) (\<lambda>_.
    ret ())))))))"

definition UnbindParticipantRole :: "service \<Rightarrow> BindRoleInput \<Rightarrow> unit op" where
  "UnbindParticipantRole sv i =
    andthen (requireOperatorCapability ''role.bind'' GlobalProjectID) (\<lambda>_.
    transact (UnbindParticipantRole_tx sv i))"

section \<open>Operator credentials\<close>

record AddCredentialInput =
  cr_participant_id :: string
  cr_kind :: credential_kind
  cr_secret :: string
  cr_request_id :: string

text \<open>\<open>credentialInput\<close>: the validated participant, secret, request and dedupe.\<close>

definition credentialInput ::
  "service \<Rightarrow> AddCredentialInput \<Rightarrow> string \<Rightarrow> (string \<times> string \<times> string \<times> requestDedupe) op" where
  "credentialInput sv i operation =
    andthen (requireText ''participant_id'' (cr_participant_id i)) (\<lambda>participantID.
    andthen (reject (cr_kind i \<noteq> OperatorToken) (NewError INVALID_ARGUMENT False)) (\<lambda>_.
    let secret = trim_space (cr_secret i) in
    andthen (reject (length secret < 16) (NewError INVALID_ARGUMENT False)) (\<lambda>_.
    andthen (request_id sv (cr_request_id i)) (\<lambda>requestID.
    ret (participantID, secret, requestID,
       \<lparr>rq_scope = operatorParticipant, rq_operation = operation, rq_request_id = requestID,
        rq_input_hash = inputFingerprint sv
          [(''ParticipantID'', JString participantID),
           (''Kind'', JString (credential_kind_text (cr_kind i))), (''Secret'', JString secret),
           (''RequestID'', JString requestID)]\<rparr>)))))"

definition issueCredential ::
  "service \<Rightarrow> string \<Rightarrow> credential_kind \<Rightarrow> string \<Rightarrow> string \<Rightarrow> string \<Rightarrow> credential op" where
  "issueCredential sv participantID kind secret requestID eventKind =
    andthen (nowText sv) (\<lambda>now.
    andthen (requiredID sv ''crd'') (\<lambda>ident.
    let credential = \<lparr>c_id = ident, c_participant_id = participantID, c_kind = kind,
       c_secret_hash = hashToken sv secret, c_status = CredentialActive, c_created_at = now,
       c_revoked_at = NoStamp\<rparr> in
    andthen (tx_InsertCredential credential) (\<lambda>_.
    andthen (tx_SetParticipantCredential participantID ident) (\<lambda>_.
    andthen (emit GlobalProjectID ParticipantEntity participantID eventKind Daemon operatorParticipant [] requestID
       [] (eventPayload [(''kind'', JString (credential_kind_text kind))]) now) (\<lambda>_.
    ret credential)))))"

definition AddCredential_tx ::
  "service \<Rightarrow> string \<Rightarrow> credential_kind \<Rightarrow> string \<Rightarrow> string \<Rightarrow> requestDedupe \<Rightarrow> credential op" where
  "AddCredential_tx sv participantID kind secret requestID dedupe =
    andthen (replay dedupe) (\<lambda>replayed.
    (case replayed of
        Some result \<Rightarrow> tx_Credential (dd_id result)
      | None \<Rightarrow>
      andthen (tx_Participant participantID) (\<lambda>_.
      andthen (tx_Credentials participantID) (\<lambda>existing.
      andthen (reject (\<exists>c \<in> set existing. c_status c = CredentialActive)
            (Conflict INVALID_STATE (credential_status_text CredentialActive) 1)) (\<lambda>_.
      issueCredential sv participantID kind secret requestID ''credential.added'')))))"

definition AddCredential :: "service \<Rightarrow> AddCredentialInput \<Rightarrow> credential op" where
  "AddCredential sv i =
    andthen (requireOperatorCapability ''participant.manage'' GlobalProjectID) (\<lambda>_.
    andthen (credentialInput sv i ''credential.add'') (\<lambda>(participantID, secret, requestID, dedupe).
    transact (AddCredential_tx sv participantID (cr_kind i) secret requestID dedupe)))"

text \<open>The loop keeps the last active credential.\<close>

definition last_active :: "credential list \<Rightarrow> credential option" where
  "last_active existing =
     (case rev (filter (\<lambda>c. c_status c = CredentialActive) existing) of [] \<Rightarrow> None | c # _ \<Rightarrow> Some c)"

definition RotateCredential_tx ::
  "service \<Rightarrow> string \<Rightarrow> credential_kind \<Rightarrow> string \<Rightarrow> string \<Rightarrow> credential op" where
  "RotateCredential_tx sv participantID kind secret requestID =
    andthen (nowText sv) (\<lambda>now.
    andthen (tx_Credentials participantID) (\<lambda>existing.
    (case last_active existing of
        None \<Rightarrow> throw (Conflict INVALID_STATE ''none'' 1)
      | Some active \<Rightarrow>
      andthen (reject (c_id active = []) (Conflict INVALID_STATE ''none'' 1)) (\<lambda>_.
      andthen (tx_UpdateCredential (active\<lparr>c_status := CredentialRevoked, c_revoked_at := now\<rparr>) CredentialActive) (\<lambda>_.
      issueCredential sv participantID kind secret requestID ''credential.rotated'')))))"

definition RotateCredential :: "service \<Rightarrow> AddCredentialInput \<Rightarrow> credential op" where
  "RotateCredential sv i =
    andthen (requireOperatorCapability ''participant.manage'' GlobalProjectID) (\<lambda>_.
    andthen (credentialInput sv i []) (\<lambda>(participantID, secret, requestID, _).
    transact (RotateCredential_tx sv participantID (cr_kind i) secret requestID)))"

definition RevokeCredential_tx :: "service \<Rightarrow> string \<Rightarrow> string \<Rightarrow> requestDedupe \<Rightarrow> credential op" where
  "RevokeCredential_tx sv participantID requestID dedupe =
    andthen (replay dedupe) (\<lambda>replayed.
    (case replayed of
        Some result \<Rightarrow> tx_Credential (dd_id result)
      | None \<Rightarrow>
      andthen (nowText sv) (\<lambda>now.
      andthen (tx_Credentials participantID) (\<lambda>existing.
      (case find (\<lambda>c. c_status c = CredentialActive) existing of
             None \<Rightarrow> throw (Conflict INVALID_STATE ''none'' 1)
           | Some candidate \<Rightarrow>
        (let revoked = candidate\<lparr>c_status := CredentialRevoked, c_revoked_at := now\<rparr> in
        andthen (tx_UpdateCredential revoked CredentialActive) (\<lambda>_.
        andthen (emit GlobalProjectID ParticipantEntity participantID ''credential.revoked'' Daemon
                 operatorParticipant [] requestID [] ''{}'' now) (\<lambda>_.
        andthen (record_dedupe dedupe (c_id candidate) [] now) (\<lambda>_.
        ret revoked)))))))))"

definition RevokeCredential :: "service \<Rightarrow> string \<Rightarrow> string \<Rightarrow> credential op" where
  "RevokeCredential sv participantID requestID =
    andthen (requireOperatorCapability ''participant.manage'' GlobalProjectID) (\<lambda>_.
    andthen (requireText ''participant_id'' participantID) (\<lambda>participantID.
    andthen (request_id sv requestID) (\<lambda>requestID.
    transact (RevokeCredential_tx sv participantID requestID
       \<lparr>rq_scope = operatorParticipant, rq_operation = ''credential.revoke'', rq_request_id = requestID,
        rq_input_hash = inputFingerprint sv
          [(''ParticipantID'', JString participantID), (''RequestID'', JString requestID)]\<rparr>))))"

definition AuthenticateOperator :: "service \<Rightarrow> string \<Rightarrow> unit op" where
  "AuthenticateOperator sv secret = transact (
    andthen (tx_Credentials operatorParticipant) (\<lambda>credentials.
    whenever (credentials \<noteq> []) (
      (let presented = hashToken sv (trim_space secret) in
      reject (\<not> (\<exists>c \<in> set credentials. c_status c = CredentialActive \<and> c_secret_hash c = presented))
         (NewError SCOPE_DENIED False)))))"

end
