(* ===== verification/Tasks.thy ===== *)
theory Tasks
  imports Messages Roles
begin

text \<open>
  The life of a task outside its runs: creation with its two transactions around the Git resolution
  (task_create.go, task.go, child_task.go), the actions wake, retry, cancel and rework
  (task_actions.go), the human completion (task_complete.go), closing a conversation (task.go) and
  deletion (task_delete.go). \<open>integrationSourceFence\<close> of git_reconcile.go is here because a cancelled
  or deleted integration task releases its source.
\<close>

section \<open>Creation\<close>

definition validateSourceTask :: "string \<Rightarrow> task \<Rightarrow> unit op" where
  "validateSourceTask projectID source =
    andthen (reject (t_project_id source \<noteq> projectID) (NewError SCOPE_DENIED False)) (\<lambda>_.
    andthen (reject (t_status source \<noteq> TaskSubmitted \<and> t_status source \<noteq> TaskCompleted)
       (Conflict INVALID_STATE (task_status_text (t_status source)) (t_version source))) (\<lambda>_.
    reject (t_head_sha source = [] \<or> t_head_run_id source = [] \<or> t_task_ref source = [])
       (NewError GIT_INVARIANT_VIOLATION False)))"

definition validateRetryTarget :: "string \<Rightarrow> task \<Rightarrow> unit op" where
  "validateRetryTarget projectID target =
    andthen (reject (t_project_id target \<noteq> projectID) (NewError SCOPE_DENIED False)) (\<lambda>_.
    reject (t_status target \<noteq> TaskCompleted \<and> t_status target \<noteq> TaskCancelled)
       (Conflict INVALID_STATE (task_status_text (t_status target)) (t_version target)))"

record workTaskRequest =
  wt_token :: string
  wt_project_id :: string
  wt_agent_id :: string
  wt_assignee_participant_id :: string
  wt_title :: string
  wt_description :: string
  wt_source_task_id :: string
  wt_retry_of_task_id :: string
  wt_priority :: int
  wt_max_retries :: int
  wt_budget_seconds :: int
  wt_ack_ids :: "string list"
  wt_request_id :: string
  wt_dedupe :: requestDedupe

definition no_dedupe :: requestDedupe where
  "no_dedupe = \<lparr>rq_scope = [], rq_operation = [], rq_request_id = [], rq_input_hash = []\<rparr>"

definition normalizeWorkTask ::
  "service \<Rightarrow> string \<Rightarrow> string \<Rightarrow> string \<Rightarrow> string \<Rightarrow> string \<Rightarrow> int \<Rightarrow> int \<Rightarrow> int \<Rightarrow> string list \<Rightarrow> string \<Rightarrow>
   workTaskRequest op" where
  "normalizeWorkTask sv agentID assigneeParticipantID title description sourceTaskID priority maxRetries
     budgetSeconds ackMessageIDs requestID =
       (let agentID = trim_space agentID in
       let assigneeParticipantID = trim_space assigneeParticipantID in
       andthen (reject (agentID = [] \<and> assigneeParticipantID = []) (NewError INVALID_ARGUMENT False)) (\<lambda>_.
       andthen (reject (agentID \<noteq> [] \<and> assigneeParticipantID \<noteq> []) (NewError INVALID_ARGUMENT False)) (\<lambda>_.
       andthen (whenever (agentID = []) (
         andthen (requireText ''assignee_participant_id'' assigneeParticipantID) (\<lambda>_.
         ret ()))) (\<lambda>_.
       andthen (requireText ''title'' title) (\<lambda>title.
       andthen (optionalTextWithin description MaximumTaskDescriptionBytes) (\<lambda>description.
       andthen (reject (maxRetries < 0) (NewError INVALID_ARGUMENT False)) (\<lambda>_.
       andthen (reject (budgetSeconds < 0) (NewError INVALID_ARGUMENT False)) (\<lambda>_.
       andthen (canonicalMessageIDs ackMessageIDs) (\<lambda>ackIDs.
       andthen (request_id sv requestID) (\<lambda>requestID.
       ret \<lparr>wt_token = [], wt_project_id = [], wt_agent_id = agentID,
       wt_assignee_participant_id = assigneeParticipantID, wt_title = title,
       wt_description = description, wt_source_task_id = trim_space sourceTaskID,
       wt_retry_of_task_id = [], wt_priority = priority, wt_max_retries = maxRetries,
       wt_budget_seconds = budgetSeconds, wt_ack_ids = ackIDs, wt_request_id = requestID,
       wt_dedupe = no_dedupe\<rparr>))))))))))"

text \<open>The actor of a creation: the Boss, or the agent whose run the token authenticates; its task is the
  parent and decides the project.\<close>

definition creationActor ::
  "service \<Rightarrow> workTaskRequest \<Rightarrow> taskMutationActor \<Rightarrow> (taskMutationActor \<times> workTaskRequest) op" where
  "creationActor sv input actor =
     (if ac_kind actor = AgentActor then
       andthen (authenticateRun sv (wt_token input)) (\<lambda>(run, parent).
       ret (actor\<lparr>ac_run := Some run, ac_id := r_agent_id run, ac_run_id := r_id run,
               ac_current := Some parent\<rparr>,
             input\<lparr>wt_project_id := t_project_id parent\<rparr>))
      else ret (actor, input))"

definition actorCanReadTask :: "taskMutationActor \<Rightarrow> task \<Rightarrow> bool" where
  "actorCanReadTask actor target =
     (case (ac_run actor, ac_current actor) of
        (Some run, Some current) \<Rightarrow> runCanReadTask run current target
      | _ \<Rightarrow> False)"

definition creationSource :: "workTaskRequest \<Rightarrow> taskMutationActor \<Rightarrow> task option op" where
  "creationSource input actor =
     (if wt_source_task_id input = [] then ret None
      else
        andthen (tx_Task (wt_source_task_id input)) (\<lambda>source.
        andthen (reject (ac_kind actor = AgentActor \<and> \<not> actorCanReadTask actor source)
          (NewError SCOPE_DENIED False)) (\<lambda>_.
        ret (Some source))))"

record taskCreationSnapshot =
  tc_project :: project
  tc_source :: "task option"
  tc_retry :: "task option"

definition createWorkTask_snapshot_tx ::
  "service \<Rightarrow> workTaskRequest \<Rightarrow> (task + workTaskRequest \<times> taskCreationSnapshot) op" where
  "createWorkTask_snapshot_tx sv input =
    andthen (taskActorForDedupe sv (wt_token input)) (\<lambda>actor.
    let input = input\<lparr>wt_dedupe := (wt_dedupe input)\<lparr>rq_scope := ac_dedupe_scope actor\<rparr>\<rparr> in
    andthen (replay (wt_dedupe input)) (\<lambda>replayed.
    (case replayed of
        Some result \<Rightarrow>
      andthen (tx_Task (dd_id result)) (\<lambda>task.
      ret (Inl task))
      | None \<Rightarrow>
      andthen (creationActor sv input actor) (\<lambda>(actor, input).
      andthen (project_is_active (wt_project_id input)) (\<lambda>project.
      andthen (creationSource input actor) (\<lambda>source.
      andthen (case source of None \<Rightarrow> ret () | Some s \<Rightarrow> validateSourceTask (wt_project_id input) s) (\<lambda>_.
      andthen (if wt_retry_of_task_id input = [] then ret None
            else
        andthen (tx_Task (wt_retry_of_task_id input)) (\<lambda>target.
        andthen (validateRetryTarget (wt_project_id input) target) (\<lambda>_.
        ret (Some target)))) (\<lambda>retry.
      ret (Inr (input, \<lparr>tc_project = project, tc_source = source, tc_retry = retry\<rparr>))))))))))"

definition work_task_literal ::
  "string \<Rightarrow> workTaskRequest \<Rightarrow> taskMutationActor \<Rightarrow> string \<Rightarrow> string \<Rightarrow> task option \<Rightarrow> task option \<Rightarrow> string \<Rightarrow>
   stamp \<Rightarrow> task" where
  "work_task_literal ident input actor parentID assigneeParticipantID source retry baseSHA now =
     (let human = (wt_agent_id input = []);
          task = (new_task ident (wt_project_id input) TaskWork
                   (if human then TaskWaiting else TaskQueued) (ac_kind actor) (ac_id actor) now)
            \<lparr>t_parent_task_id := parentID, t_assignee_agent_id := wt_agent_id input,
             t_assignee_participant_id := assigneeParticipantID, t_title := wt_title input,
             t_description := wt_description input, t_priority := wt_priority input,
             t_wait_reason := (if human then ''human_assigned'' else []),
             t_max_retries := wt_max_retries input, t_base_sha := baseSHA,
             t_budget_seconds := wt_budget_seconds input,
             t_retry_of_task_id := (case retry of Some r \<Rightarrow> t_id r | None \<Rightarrow> [])\<rparr>
      in (case source of
            None \<Rightarrow> task
          | Some s \<Rightarrow> task\<lparr>t_source_task_id := t_id s, t_source_run_id := t_head_run_id s,
              t_source_task_ref := t_task_ref s, t_source_head_sha := t_head_sha s\<rparr>))"

definition creationAssignee :: "workTaskRequest \<Rightarrow> string op" where
  "creationAssignee input =
     (if wt_agent_id input \<noteq> [] then
       andthen (agent_not_archived (wt_agent_id input)) (\<lambda>_.
       ret (if wt_assignee_participant_id input = [] then wt_agent_id input
             else wt_assignee_participant_id input))
      else
        andthen (tx_Participant (wt_assignee_participant_id input)) (\<lambda>participant.
        andthen (reject (pa_status participant \<noteq> AgentActive)
          (Conflict INVALID_STATE (agent_status_text (pa_status participant)) (pa_version participant))) (\<lambda>_.
        ret (wt_assignee_participant_id input))))"

definition insertWorkTask ::
  "service \<Rightarrow> workTaskRequest \<Rightarrow> taskMutationActor \<Rightarrow> task option \<Rightarrow> task option \<Rightarrow> task option \<Rightarrow> string \<Rightarrow>
   task op" where
  "insertWorkTask sv input actor parent source retry baseSHA =
    andthen (creationAssignee input) (\<lambda>assigneeParticipantID.
    andthen (nowText sv) (\<lambda>now.
    andthen (acknowledgeForActor (wt_ack_ids input) (wt_project_id input) actor (wt_request_id input) now) (\<lambda>_.
    andthen (requiredID sv ''tsk'') (\<lambda>ident.
    let parentID = (case parent of Some p \<Rightarrow> t_id p | None \<Rightarrow> []) in
    let task = work_task_literal ident input actor parentID assigneeParticipantID source retry baseSHA now in
    andthen (tx_InsertTask task) (\<lambda>_.
    andthen (emit (t_project_id task) TaskEntity ident ''task.created'' (ac_kind actor) (ac_id actor)
       (ac_run_id actor) (wt_request_id input) []
       (eventPayload [(''kind'', JString (task_kind_text TaskWork)), (''parent_task_id'', JString parentID),
          (''base_sha'', JString baseSHA),
          (''source_task_id'', JString (case source of Some s \<Rightarrow> t_id s | None \<Rightarrow> [])),
          (''retry_of_task_id'', JString (case retry of Some r \<Rightarrow> t_id r | None \<Rightarrow> []))]) now) (\<lambda>_.
    andthen (record_dedupe (wt_dedupe input) ident [] now) (\<lambda>_.
    ret task)))))))"

definition createWorkTask_mutate_tx ::
  "service \<Rightarrow> workTaskRequest \<Rightarrow> taskCreationSnapshot \<Rightarrow> string \<Rightarrow> task op" where
  "createWorkTask_mutate_tx sv input snapshot baseSHA =
    andthen (taskActorForDedupe sv (wt_token input)) (\<lambda>actor.
    let input = input\<lparr>wt_dedupe := (wt_dedupe input)\<lparr>rq_scope := ac_dedupe_scope actor\<rparr>\<rparr> in
    andthen (replay (wt_dedupe input)) (\<lambda>replayed.
    (case replayed of
        Some result \<Rightarrow> tx_Task (dd_id result)
      | None \<Rightarrow>
      andthen (creationActor sv input actor) (\<lambda>(actor, input).
      andthen (project_is_active (wt_project_id input)) (\<lambda>project.
      andthen (reject (ac_kind actor = AgentActor \<and>
                  (p_version project \<noteq> p_version (tc_project snapshot) \<or>
                   p_canonical_ref project \<noteq> p_canonical_ref (tc_project snapshot)))
            (Conflict VERSION_CONFLICT (project_status_text (p_status project)) (p_version project))) (\<lambda>_.
      andthen (creationSource input actor) (\<lambda>source.
      andthen (case (source, tc_source snapshot) of
             (Some s, Some seen) \<Rightarrow>
        andthen (reject (t_version s \<noteq> t_version seen \<or> t_task_ref s \<noteq> t_task_ref seen \<or>
                       t_head_sha s \<noteq> t_head_sha seen)
                 (Conflict VERSION_CONFLICT (task_status_text (t_status s)) (t_version s))) (\<lambda>_.
        validateSourceTask (wt_project_id input) s)
           | _ \<Rightarrow> ret ()) (\<lambda>_.
      andthen (if wt_retry_of_task_id input = [] then ret None
            else
        andthen (tx_Task (wt_retry_of_task_id input)) (\<lambda>target.
        andthen (case tc_retry snapshot of
                 None \<Rightarrow> ret ()
               | Some seen \<Rightarrow> reject (t_version target \<noteq> t_version seen \<or> t_status target \<noteq> t_status seen)
                   (Conflict VERSION_CONFLICT (task_status_text (t_status target)) (t_version target))) (\<lambda>_.
        andthen (validateRetryTarget (wt_project_id input) target) (\<lambda>_.
        ret (Some target))))) (\<lambda>retry.
      insertWorkTask sv input actor (ac_current actor) source retry baseSHA)))))))))"

text \<open>\<open>useSourceTaskRef\<close>: with a source, the mutation runs while the Git interface holds its task ref.\<close>

definition useSourceTaskRef ::
  "service \<Rightarrow> workTaskRequest \<Rightarrow> taskCreationSnapshot \<Rightarrow> task op \<Rightarrow> task op" where
  "useSourceTaskRef sv input snapshot mutate =
     (case tc_source snapshot of
        None \<Rightarrow> mutate
      | Some source \<Rightarrow>
        andthen (reject (\<not> sv_task_git sv) (NewError GIT_INVARIANT_VIOLATION False)) (\<lambda>_.
        andthen (attempt (\<lambda>n. g_use_task_ref (sv_git sv) n
            \<lparr>gt_project_id = wt_project_id input,
             gt_control_repo = p_control_repo_path (tc_project snapshot),
             gt_task_ref = t_task_ref source, gt_expected_sha = t_head_sha source\<rparr>)) (\<lambda>r.
        (case r of
             Inl e \<Rightarrow> throw (if isGitInvariant e then WrapError GIT_INVARIANT_VIOLATION False else e)
           | Inr actual \<Rightarrow>
          andthen (reject (actual \<noteq> t_head_sha source) (NewError GIT_INVARIANT_VIOLATION False)) (\<lambda>_.
          mutate)))))"

definition createWorkTask :: "service \<Rightarrow> workTaskRequest \<Rightarrow> task op" where
  "createWorkTask sv input =
    andthen (transact (createWorkTask_snapshot_tx sv input)) (\<lambda>first.
    (case first of
        Inl task \<Rightarrow> ret task
      | Inr (input, snapshot) \<Rightarrow>
      andthen (wrap (WrapError GIT_INVARIANT_VIOLATION False)
            (external (\<lambda>n. g_resolve (sv_git sv) n (p_control_repo_path (tc_project snapshot))
              (p_canonical_ref (tc_project snapshot))))) (\<lambda>baseSHA.
      useSourceTaskRef sv input snapshot
            (transact (createWorkTask_mutate_tx sv input snapshot baseSHA)))))"

record CreateTaskInput =
  ct_token :: string
  ct_project_id :: string
  ct_kind :: string
  ct_assignee_agent_id :: string
  ct_assignee_participant_id :: string
  ct_title :: string
  ct_description :: string
  ct_priority :: int
  ct_max_retries :: int
  ct_budget_seconds :: int
  ct_source_task_id :: string
  ct_retry_of_task_id :: string
  ct_ack_message_ids :: "string list"
  ct_request_id :: string

definition CreateTask :: "service \<Rightarrow> CreateTaskInput \<Rightarrow> task op" where
  "CreateTask sv i =
    andthen (reject (ct_kind i \<noteq> [] \<and> ct_kind i \<noteq> task_kind_text TaskWork) (NewError INVALID_ARGUMENT False)) (\<lambda>_.
    andthen (requireText ''project_id'' (ct_project_id i)) (\<lambda>projectID.
    andthen (normalizeWorkTask sv (ct_assignee_agent_id i) (ct_assignee_participant_id i) (ct_title i)
       (ct_description i) (ct_source_task_id i) (ct_priority i) (ct_max_retries i) (ct_budget_seconds i)
       (ct_ack_message_ids i) (ct_request_id i)) (\<lambda>request.
    let request = request\<lparr>wt_project_id := projectID, wt_retry_of_task_id := trim_space (ct_retry_of_task_id i)\<rparr> in
    createWorkTask sv (request\<lparr>wt_dedupe := boss_dedupe sv ''task.create'' (wt_request_id request)
       [(''ProjectID'', JString projectID), (''AgentID'', JString (wt_agent_id request)),
        (''Kind'', JString (task_kind_text TaskWork)), (''Title'', JString (wt_title request)),
        (''Description'', JString (wt_description request)),
        (''SourceTaskID'', JString (wt_source_task_id request)),
        (''RetryOfTaskID'', JString (wt_retry_of_task_id request)),
        (''AckIDs'', joined_ids (wt_ack_ids request)), (''Priority'', JInt (wt_priority request)),
        (''MaxRetries'', JInt (wt_max_retries request)),
        (''BudgetSeconds'', JInt (wt_budget_seconds request))]\<rparr>))))"

definition CreateChildTask :: "service \<Rightarrow> CreateTaskInput \<Rightarrow> task op" where
  "CreateChildTask sv i =
    andthen (normalizeWorkTask sv (ct_assignee_agent_id i) (ct_assignee_participant_id i) (ct_title i)
       (ct_description i) (ct_source_task_id i) (ct_priority i) (ct_max_retries i) (ct_budget_seconds i)
       (ct_ack_message_ids i) (ct_request_id i)) (\<lambda>request.
    createWorkTask sv (request\<lparr>wt_token := ct_token i,
       wt_dedupe := \<lparr>rq_scope = [], rq_operation = ''task.create_child'',
         rq_request_id = wt_request_id request, rq_input_hash = inputFingerprint sv
           [(''AgentID'', JString (wt_agent_id request)), (''Title'', JString (wt_title request)),
            (''Description'', JString (wt_description request)),
            (''SourceTaskID'', JString (wt_source_task_id request)),
            (''AckIDs'', joined_ids (wt_ack_ids request)), (''Priority'', JInt (wt_priority request)),
            (''MaxRetries'', JInt (wt_max_retries request)),
            (''BudgetSeconds'', JInt (wt_budget_seconds request))]\<rparr>\<rparr>))"

section \<open>Actions on a task\<close>

record TaskActionInput =
  ta_token :: string
  ta_task_id :: string
  ta_reason :: string
  ta_ack_message_ids :: "string list"
  ta_request_id :: string

type_synonym taskMutation = "task \<Rightarrow> taskMutationActor \<Rightarrow> string \<Rightarrow> stamp \<Rightarrow> task op"

definition applyTaskMutation_tx ::
  "service \<Rightarrow> string \<Rightarrow> string \<Rightarrow> string list \<Rightarrow> requestDedupe \<Rightarrow> taskMutation \<Rightarrow> task op" where
  "applyTaskMutation_tx sv token taskID ackIDs dedupe mutate =
    andthen (taskActorForDedupe sv token) (\<lambda>actor.
    let dedupe = dedupe\<lparr>rq_scope := ac_dedupe_scope actor\<rparr> in
    andthen (replay dedupe) (\<lambda>replayed.
    (case replayed of
        Some result \<Rightarrow> tx_Task (dd_id result)
      | None \<Rightarrow>
      andthen (tx_Task taskID) (\<lambda>task.
      andthen (authorizeTaskActor sv token task actor) (\<lambda>actor.
      andthen (nowText sv) (\<lambda>now.
      andthen (acknowledgeForActor ackIDs (t_project_id task) actor (rq_request_id dedupe) now) (\<lambda>_.
      andthen (mutate task actor (rq_request_id dedupe) now) (\<lambda>task'.
      andthen (record_dedupe dedupe (t_id task') [] now) (\<lambda>_.
      ret task')))))))))"

definition applyTaskMutation ::
  "service \<Rightarrow> TaskActionInput \<Rightarrow> string \<Rightarrow> (string \<Rightarrow> taskMutation) \<Rightarrow> task op" where
  "applyTaskMutation sv i operation mutate =
    andthen (requireText ''task_id'' (ta_task_id i)) (\<lambda>taskID.
    andthen (optionalTextWithin (ta_reason i) MaximumOutcomeTextBytes) (\<lambda>reason.
    andthen (canonicalMessageIDs (ta_ack_message_ids i)) (\<lambda>ackIDs.
    andthen (request_id sv (ta_request_id i)) (\<lambda>requestID.
    let dedupe = \<lparr>rq_scope = [], rq_operation = operation, rq_request_id = requestID,
       rq_input_hash = inputFingerprint sv
         [(''TaskID'', JString taskID), (''Reason'', JString reason), (''AckIDs'', joined_ids ackIDs)]\<rparr> in
    transact (applyTaskMutation_tx sv (ta_token i) taskID ackIDs dedupe (mutate (ta_reason i)))))))"

definition task_conflict :: "error_code \<Rightarrow> task \<Rightarrow> failure" where
  "task_conflict code task = Conflict code (task_status_text (t_status task)) (t_version task)"

definition run_conflict :: "error_code \<Rightarrow> run \<Rightarrow> failure" where
  "run_conflict code run = Conflict code (run_state_text (r_state run)) (r_version run)"

text \<open>Waking a task gives its exhausted messages new deliveries.\<close>

definition reenableExhausted :: "taskMutationActor \<Rightarrow> string \<Rightarrow> stamp \<Rightarrow> message \<Rightarrow> unit op" where
  "reenableExhausted actor requestID now message =
     whenever (\<not> (m_recipient_kind message \<noteq> AgentActor \<or> m_state message \<noteq> MessagePending \<or>
                  m_max_deliveries message = 0 \<or> m_delivery_count message < m_max_deliveries message)) (
                    andthen (tx_UpdateMessage
         (message\<lparr>m_delivery_count := 0, m_next_delivery_at := now, m_last_delivery_error := [],
            m_version := m_version message + 1\<rparr>)
         (m_version message) MessagePending) (\<lambda>_.
                    andthen (emit (m_project_id message) MessageEntity (m_id message) ''message.retry_enabled'' (ac_kind actor)
         (ac_id actor) (ac_run_id actor) requestID [] (eventPayload [(''reason'', JString ''task_wake'')]) now) (\<lambda>_.
                    ret ())))"

definition wakeMutation :: taskMutation where
  "wakeMutation task actor requestID now =
    andthen (taskActionAvailable task) (\<lambda>_.
    andthen (check (ValidateTaskOperation (t_kind task) ''wake'')) (\<lambda>_.
    andthen (reject (t_assignee_agent_id task = []) (task_conflict INVALID_STATE task)) (\<lambda>_.
    andthen (reject (t_status task \<noteq> TaskWaiting) (task_conflict INVALID_STATE task)) (\<lambda>_.
    andthen (tx_MessagesForTask (t_id task)) (\<lambda>messages.
    andthen (each messages (reenableExhausted actor requestID now)) (\<lambda>_.
    let task' = (requeued task now now)\<lparr>t_wait_reason := []\<rparr> in
    andthen (tx_UpdateTask task' (t_version task) TaskWaiting) (\<lambda>_.
    andthen (emit (t_project_id task) TaskEntity (t_id task) ''task.requeued'' (ac_kind actor) (ac_id actor)
       (ac_run_id actor) requestID [] (eventPayload [(''reason'', JString ''explicit_wake'')]) now) (\<lambda>_.
    ret task'))))))))"

definition WakeTask :: "service \<Rightarrow> TaskActionInput \<Rightarrow> task op" where
  "WakeTask sv i = applyTaskMutation sv i ''task.wake'' (\<lambda>_. wakeMutation)"

definition retryMutation :: taskMutation where
  "retryMutation task actor requestID now =
    andthen (taskActionAvailable task) (\<lambda>_.
    andthen (check (ValidateTaskOperation (t_kind task) ''retry'')) (\<lambda>_.
    andthen (reject (t_status task \<noteq> TaskFailed) (task_conflict INVALID_STATE task)) (\<lambda>_.
    let task' = (clearTaskAction (task\<lparr>t_status := TaskQueued, t_current_run_id := [],
       t_generation := t_generation task + 1, t_next_run_at := now, t_failure_reason := []\<rparr>))
       \<lparr>t_version := t_version task + 1, t_updated_at := now\<rparr> in
    andthen (tx_UpdateTask task' (t_version task) TaskFailed) (\<lambda>_.
    andthen (emit (t_project_id task) TaskEntity (t_id task) ''task.requeued'' (ac_kind actor) (ac_id actor)
       (ac_run_id actor) requestID [] (eventPayload [(''reason'', JString ''explicit_retry'')]) now) (\<lambda>_.
    ret task')))))"

definition RetryTask :: "service \<Rightarrow> TaskActionInput \<Rightarrow> task op" where
  "RetryTask sv i = applyTaskMutation sv i ''task.retry'' (\<lambda>_. retryMutation)"

definition integrationSourceFence :: "task \<Rightarrow> task \<Rightarrow> failure option" where
  "integrationSourceFence source integration =
     (if t_kind integration \<noteq> TaskIntegration \<or> t_status source \<noteq> TaskSubmitted \<or>
         t_version source \<noteq> t_source_accept_version integration \<or>
         t_integration_task_id source \<noteq> t_id integration \<or>
         t_task_ref source \<noteq> t_source_task_ref integration \<or>
         t_head_sha source \<noteq> t_source_head_sha integration \<or>
         t_head_run_id source \<noteq> t_source_run_id integration \<or>
         t_accepted_integration_agent_id source = [] \<or>
         t_accepted_integration_agent_id source \<noteq> t_assignee_agent_id integration
      then Some (task_conflict VERSION_CONFLICT source) else None)"

definition released_source :: "task \<Rightarrow> stamp \<Rightarrow> task" where
  "released_source source now = source\<lparr>t_integration_task_id := [], t_accepted_by_kind := NoActor,
     t_accepted_by_id := [], t_accepted_at := NoStamp, t_accepted_integration_agent_id := [],
     t_version := t_version source + 1, t_updated_at := now\<rparr>"

definition releaseSource :: "task \<Rightarrow> task \<Rightarrow> taskMutationActor \<Rightarrow> string \<Rightarrow> stamp \<Rightarrow> unit op" where
  "releaseSource source task actor requestID now =
    andthen (reject (t_pending_action source \<noteq> NoAction) (task_conflict ACTION_IN_PROGRESS source)) (\<lambda>_.
    andthen (check (integrationSourceFence source task)) (\<lambda>_.
    andthen (tx_UpdateTask (released_source source now) (t_version source) TaskSubmitted) (\<lambda>_.
    andthen (emit (t_project_id source) TaskEntity (t_id source) ''git.integration_released'' (ac_kind actor)
       (ac_id actor) (ac_run_id actor) requestID []
       (eventPayload [(''integration_task_id'', JString (t_id task))]) now) (\<lambda>_.
    ret ()))))"

text \<open>A live run of a cancelled task is told to stop and loses its token; it keeps its place on the task
  until it is terminal. The result says whether there was one.\<close>

definition stopCancelledRun ::
  "service \<Rightarrow> string \<Rightarrow> task \<Rightarrow> taskMutationActor \<Rightarrow> string \<Rightarrow> stamp \<Rightarrow> bool op" where
  "stopCancelledRun sv reason task actor requestID now =
     (if t_current_run_id task = [] then ret False
      else
        andthen (tx_Run (t_current_run_id task)) (\<lambda>run.
        (if \<not> IsRunLive (r_state run) then ret False
         else
          andthen (if r_stop_requested_at run = NoStamp then
            andthen (requiredID sv ''op'') (\<lambda>operationID.
            ret (run\<lparr>r_stop_requested_at := now,
                 r_stop_reason := boundedDurableText reason MaximumTerminalTextBytes,
                 r_stop_operation_id := operationID\<rparr>)) else ret run) (\<lambda>run1.
          andthen (if r_stop_operation_id run1 = [] then
            andthen (requiredID sv ''op'') (\<lambda>operationID.
            ret (run1\<lparr>r_stop_operation_id := operationID\<rparr>)) else ret run1) (\<lambda>run2.
          let run3 = (if r_token_revoked_at run2 = NoStamp then run2\<lparr>r_token_revoked_at := now\<rparr> else run2) in
          let changed = (r_stop_requested_at run = NoStamp \<or> r_stop_operation_id run1 = [] \<or>
             r_token_revoked_at run2 = NoStamp) in
          let run4 = (if changed then run3\<lparr>r_version := r_version run + 1\<rparr> else run3) in
          andthen (whenever changed (tx_UpdateRun run4 (r_version run) (r_state run))) (\<lambda>_.
          andthen (emit (r_project_id run) RunEntity (r_id run) ''run.stop_requested'' (ac_kind actor) (ac_id actor)
             (r_id run) requestID (r_stop_operation_id run4)
             (eventPayload [(''reason'', JString (r_stop_reason run4)),
                (''cancel_reason'', JString (boundedDurableText reason MaximumTerminalTextBytes)),
                (''task_cancelled'', JBool True)]) now) (\<lambda>_.
          ret True)))))))"

definition cancelMutation :: "service \<Rightarrow> string \<Rightarrow> taskMutation" where
  "cancelMutation sv reason task actor requestID now =
    andthen (taskActionAvailable task) (\<lambda>_.
    andthen (check (ValidateTaskOperation (t_kind task) ''cancel'')) (\<lambda>_.
    andthen (reject (ValidateTaskTransition (t_kind task) (t_status task) TaskCancelled \<noteq> None)
       (task_conflict INVALID_STATE task)) (\<lambda>_.
    andthen (whenever (t_kind task = TaskIntegration \<and> t_source_task_id task \<noteq> []) (
      andthen (tx_Task (t_source_task_id task)) (\<lambda>source.
      releaseSource source task actor requestID now))) (\<lambda>_.
    andthen (stopCancelledRun sv reason task actor requestID now) (\<lambda>preserveCurrentRun.
    let task' = task\<lparr>t_status := TaskCancelled,
       t_current_run_id := (if preserveCurrentRun then t_current_run_id task else []),
       t_generation := t_generation task + 1, t_closed_at := now, t_version := t_version task + 1,
       t_updated_at := now\<rparr> in
    andthen (tx_UpdateTask task' (t_version task) (t_status task)) (\<lambda>_.
    andthen (emit (t_project_id task) TaskEntity (t_id task) ''task.cancelled'' (ac_kind actor) (ac_id actor)
       (ac_run_id actor) requestID []
       (eventPayload [(''reason'', JString (boundedDurableText reason MaximumOutcomeTextBytes))]) now) (\<lambda>_.
    andthen (disposeUnresolvedMessages task' (ac_kind actor) (ac_id actor) (ac_run_id actor) requestID now) (\<lambda>_.
    andthen (notifyParentOfChild sv task' (ac_kind actor) (ac_id actor) (ac_run_id actor) requestID now) (\<lambda>_.
    ret task')))))))))"

definition CancelTask :: "service \<Rightarrow> TaskActionInput \<Rightarrow> task op" where
  "CancelTask sv i = applyTaskMutation sv i ''task.cancel'' (cancelMutation sv)"

text \<open>Only the parent task's agent, or the agent that created the task, may rework or accept it.\<close>

definition mayJudge :: "taskMutationActor \<Rightarrow> task \<Rightarrow> bool" where
  "mayJudge actor task =
     (\<not> (ac_kind actor = AgentActor \<and>
        (case ac_current actor of Some current \<Rightarrow> t_parent_task_id task \<noteq> t_id current
         | None \<Rightarrow> t_parent_task_id task \<noteq> []) \<and>
        \<not> (t_created_by_kind task = AgentActor \<and> t_created_by_id task = ac_id actor)))"

definition reworkMutation :: "string \<Rightarrow> taskMutation" where
  "reworkMutation reason task actor requestID now =
    andthen (check (ValidateTaskOperation (t_kind task) ''rework'')) (\<lambda>_.
    andthen (taskActionAvailable task) (\<lambda>_.
    andthen (reject (\<not> mayJudge actor task) (NewError SCOPE_DENIED False)) (\<lambda>_.
    andthen (reject (t_status task \<noteq> TaskSubmitted) (task_conflict INVALID_STATE task)) (\<lambda>_.
    let task' = (clearTaskAction (task\<lparr>t_status := TaskQueued, t_next_run_at := now,
       t_accepted_by_kind := NoActor, t_accepted_by_id := [], t_accepted_at := NoStamp,
       t_accepted_integration_agent_id := []\<rparr>))
       \<lparr>t_version := t_version task + 1, t_updated_at := now\<rparr> in
    andthen (tx_UpdateTask task' (t_version task) TaskSubmitted) (\<lambda>_.
    andthen (emit (t_project_id task) TaskEntity (t_id task) ''task.requeued'' (ac_kind actor) (ac_id actor)
       (ac_run_id actor) requestID []
       (eventPayload [(''reason'', JString (boundedDurableText reason MaximumOutcomeTextBytes))]) now) (\<lambda>_.
    ret task'))))))"

definition ReworkTask :: "service \<Rightarrow> TaskActionInput \<Rightarrow> task op" where
  "ReworkTask sv i = applyTaskMutation sv i ''task.rework'' reworkMutation"

section \<open>Human completion\<close>

definition CompleteTask_tx ::
  "service \<Rightarrow> string \<Rightarrow> string \<Rightarrow> string \<Rightarrow> requestDedupe \<Rightarrow> task op" where
  "CompleteTask_tx sv taskID projectID summary dedupe =
    andthen (replay dedupe) (\<lambda>replayed.
    (case replayed of
        Some result \<Rightarrow> tx_Task (dd_id result)
      | None \<Rightarrow>
      andthen (tx_Task taskID) (\<lambda>task.
      andthen (reject (t_project_id task \<noteq> projectID) (NewError SCOPE_DENIED False)) (\<lambda>_.
      andthen (reject (t_current_run_id task \<noteq> []) (task_conflict INVALID_STATE task)) (\<lambda>_.
      andthen (reject (t_assignee_agent_id task \<noteq> []) (task_conflict INVALID_STATE task)) (\<lambda>_.
      andthen (reject (t_assignee_participant_id task = []) (task_conflict INVALID_STATE task)) (\<lambda>_.
      andthen (reject (t_status task \<noteq> TaskWaiting) (task_conflict INVALID_STATE task)) (\<lambda>_.
      andthen (reject (t_pending_action task \<noteq> NoAction) (task_conflict ACTION_IN_PROGRESS task)) (\<lambda>_.
      andthen (nowText sv) (\<lambda>now.
      let task' = task\<lparr>t_status := TaskCompleted, t_result_summary := summary,
            t_evidence_type := EvidenceHumanConfirm, t_head_sha := [], t_head_run_id := [],
            t_task_ref := [], t_wait_reason := [], t_completed_at := now, t_closed_at := now,
            t_version := t_version task + 1, t_updated_at := now\<rparr> in
      andthen (tx_UpdateTask task' (t_version task) (t_status task)) (\<lambda>_.
      andthen (emit (t_project_id task) TaskEntity (t_id task) ''task.completed'' Boss operatorParticipant []
            (rq_request_id dedupe) []
            (eventPayload [(''evidence'', JString ''human_confirm''), (''summary'', JString summary)]) now) (\<lambda>_.
      andthen (whenever (t_parent_task_id task' \<noteq> [])
            (notifyParentOfChild sv task' Boss operatorParticipant [] (rq_request_id dedupe) now)) (\<lambda>_.
      andthen (record_dedupe dedupe (t_id task') [] now) (\<lambda>_.
      ret task'))))))))))))))"

definition CompleteTask :: "service \<Rightarrow> string \<Rightarrow> string \<Rightarrow> string \<Rightarrow> task op" where
  "CompleteTask sv taskID summary requestID =
    andthen (requireText ''task_id'' (trim_space taskID)) (\<lambda>taskID.
    andthen (optionalTextWithin summary MaximumOutcomeTextBytes) (\<lambda>summary.
    andthen (request_id sv requestID) (\<lambda>requestID.
    andthen (transact (tx_Task taskID)) (\<lambda>seen.
    andthen (requireOperatorCapability ''task.complete'' (t_project_id seen)) (\<lambda>_.
    transact (CompleteTask_tx sv taskID (t_project_id seen) summary
       \<lparr>rq_scope = operatorParticipant, rq_operation = ''task.complete'', rq_request_id = requestID,
        rq_input_hash = inputFingerprint sv
          [(''TaskID'', JString taskID), (''Summary'', JString summary), (''RequestID'', JString requestID)]\<rparr>))))))"

section \<open>Closing a conversation\<close>

definition cancelOnClose :: "task \<Rightarrow> string \<Rightarrow> stamp \<Rightarrow> message \<Rightarrow> unit op" where
  "cancelOnClose task requestID now message =
     whenever (unresolved_agent_message message) (
       andthen (tx_UpdateMessage
         (message\<lparr>m_state := MessageCancelled, m_last_delivery_error := ''conversation closed by Boss'',
            m_version := m_version message + 1\<rparr>)
         (m_version message) (m_state message)) (\<lambda>_.
       andthen (emit (t_project_id task) MessageEntity (m_id message) ''message.cancelled'' Boss [] [] requestID []
         (eventPayload [(''reason'', JString ''conversation_closed'')]) now) (\<lambda>_.
       ret ())))"

definition CloseConversation_tx :: "service \<Rightarrow> string \<Rightarrow> string \<Rightarrow> task op" where
  "CloseConversation_tx sv taskID requestID =
    andthen (tx_Task (trim_space taskID)) (\<lambda>task.
    andthen (reject (ValidateTaskOperation (t_kind task) ''close'' \<noteq> None) (task_conflict INVALID_STATE task)) (\<lambda>_.
    andthen (taskActionAvailable task) (\<lambda>_.
    andthen (reject (ValidateTaskTransition (t_kind task) (t_status task) TaskCompleted \<noteq> None)
       (task_conflict INVALID_STATE task)) (\<lambda>_.
    andthen (nowText sv) (\<lambda>now.
    andthen (tx_MessagesForTask (t_id task)) (\<lambda>messages.
    andthen (each messages (cancelOnClose task requestID now)) (\<lambda>_.
    let task' = task\<lparr>t_status := TaskCompleted, t_completed_at := now, t_closed_at := now,
       t_version := t_version task + 1, t_updated_at := now\<rparr> in
    andthen (tx_UpdateTask task' (t_version task) (t_status task)) (\<lambda>_.
    andthen (emit (t_project_id task) TaskEntity (t_id task) ''task.completed'' Boss [] [] requestID [] ''{}'' now) (\<lambda>_.
    ret task')))))))))"

definition CloseConversation :: "service \<Rightarrow> string \<Rightarrow> string \<Rightarrow> task op" where
  "CloseConversation sv taskID requestID =
    andthen (request_id sv requestID) (\<lambda>requestID.
    transact (CloseConversation_tx sv taskID requestID))"

section \<open>Deletion\<close>

record deletedTaskPlan =
  dp_task_id :: string
  dp_project_id :: string
  dp_base_sha :: string
  dp_head_sha :: string
  dp_task_ref :: string
  dp_head_run_id :: string

definition releaseIntegrationSource :: "task \<Rightarrow> taskMutationActor \<Rightarrow> string \<Rightarrow> stamp \<Rightarrow> unit op" where
  "releaseIntegrationSource task actor requestID now =
    andthen (if_found (tx_Task (t_source_task_id task))) (\<lambda>source.
    (case source of
        None \<Rightarrow> ret ()
      | Some source \<Rightarrow> releaseSource source task actor requestID now))"

text \<open>The rows a deleted task takes with it.\<close>

definition deleteTaskRows ::
  "task \<Rightarrow> taskMutationActor \<Rightarrow> string \<Rightarrow> requestDedupe \<Rightarrow> stamp \<Rightarrow> deletedTaskPlan option op" where
  "deleteTaskRows task actor reason dedupe now =
    andthen (tx_DeleteRunsByTask (t_id task)) (\<lambda>runs.
    andthen (each runs (\<lambda>run. reject (IsRunLive (r_state run)) (run_conflict ACTION_IN_PROGRESS run))) (\<lambda>_.
    andthen (tx_DeleteMessagesByTask (t_id task)) (\<lambda>_.
    andthen (tx_DeleteEventsByTask (t_id task)) (\<lambda>_.
    andthen (emit (t_project_id task) TaskEntity (t_id task) ''task.deleted'' (ac_kind actor) (ac_id actor)
       (ac_run_id actor) (rq_request_id dedupe) []
       (eventPayload [(''reason'', JString (boundedDurableText reason MaximumOutcomeTextBytes)),
          (''run_count'', JInt (int (length runs)))]) now) (\<lambda>_.
    andthen (tx_DeleteTask (t_id task)) (\<lambda>_.
    andthen (record_dedupe dedupe (t_id task) [] now) (\<lambda>_.
    ret (Some \<lparr>dp_task_id = t_id task, dp_project_id = t_project_id task,
       dp_base_sha = t_base_sha task, dp_head_sha = t_head_sha task, dp_task_ref = t_task_ref task,
       dp_head_run_id = t_head_run_id task\<rparr>))))))))"

definition DeleteTask_tx ::
  "service \<Rightarrow> string \<Rightarrow> string \<Rightarrow> string \<Rightarrow> string list \<Rightarrow> requestDedupe \<Rightarrow> deletedTaskPlan option op" where
  "DeleteTask_tx sv token taskID reason ackIDs dedupe =
    andthen (taskActorForDedupe sv token) (\<lambda>actor.
    let dedupe = dedupe\<lparr>rq_scope := ac_dedupe_scope actor\<rparr> in
    andthen (replay dedupe) (\<lambda>replayed.
    (case replayed of
        Some _ \<Rightarrow> ret None
      | None \<Rightarrow>
      andthen (tx_Task taskID) (\<lambda>task.
      andthen (authorizeTaskActor sv token task actor) (\<lambda>actor.
      andthen (nowText sv) (\<lambda>now.
      andthen (acknowledgeForActor ackIDs (t_project_id task) actor (rq_request_id dedupe) now) (\<lambda>_.
      andthen (taskActionAvailable task) (\<lambda>_.
      andthen (reject (\<not> IsTaskClosed (t_status task)) (task_conflict INVALID_STATE task)) (\<lambda>_.
      andthen (reject (t_current_run_id task \<noteq> []) (task_conflict ACTION_IN_PROGRESS task)) (\<lambda>_.
      andthen (whenever (t_kind task = TaskIntegration \<and> t_source_task_id task \<noteq> [])
            (releaseIntegrationSource task actor (rq_request_id dedupe) now)) (\<lambda>_.
      deleteTaskRows task actor reason dedupe now)))))))))))"

text \<open>What follows the deletion on disk is best effort: its outcome is ignored and no row depends on it.\<close>

definition DeleteTask :: "service \<Rightarrow> TaskActionInput \<Rightarrow> deletedTaskPlan option op" where
  "DeleteTask sv i =
    andthen (requireText ''task_id'' (ta_task_id i)) (\<lambda>taskID.
    andthen (optionalTextWithin (ta_reason i) MaximumOutcomeTextBytes) (\<lambda>reason.
    andthen (canonicalMessageIDs (ta_ack_message_ids i)) (\<lambda>ackIDs.
    andthen (request_id sv (ta_request_id i)) (\<lambda>requestID.
    transact (DeleteTask_tx sv (ta_token i) taskID reason ackIDs
       \<lparr>rq_scope = [], rq_operation = ''task.delete'', rq_request_id = requestID,
        rq_input_hash = inputFingerprint sv
          [(''TaskID'', JString taskID), (''Reason'', JString reason), (''AckIDs'', joined_ids ackIDs)]\<rparr>)))))"

end
