(* ===== verification/Runs.thy ===== *)
theory Runs
  imports Tasks
begin

text \<open>
  The life of a run up to its end: the claim of the next task (run.go), the configuration fingerprint
  and the instructions it covers (runtime_config_fingerprint.go, agent_instructions.go), the launch
  decision (launch_mode.go), the launch phases, heartbeats and cleanup (runtime_lifecycle.go), progress
  and the request to stop (run.go, run_actions.go).
\<close>

section \<open>Claiming the next task\<close>

record Claim =
  cl_task :: task
  cl_run :: run
  cl_token :: string

definition run_literal :: "service \<Rightarrow> string \<Rightarrow> string \<Rightarrow> string \<Rightarrow> task \<Rightarrow> agent \<Rightarrow> stamp \<Rightarrow> run" where
  "run_literal sv runID token operationID task agent now =
     \<lparr>r_id = runID, r_project_id = t_project_id task, r_task_id = t_id task, r_agent_id = a_id agent,
      r_generation = t_generation task, r_resumed_from_run_id = [], r_adapter_id = a_adapter_id agent,
      r_image = a_image agent, r_instructions_hash = [], r_config_fingerprint = [],
      r_state = RunStarting, r_workspace_path = [], r_container_id = [], r_native_session_id = [],
      r_log_path = [], r_token_hash = hashToken sv token, r_token_revoked_at = NoStamp,
      r_requested_outcome = NoOutcome, r_requested_summary = [], r_expected_head = [],
      r_requested_at = NoStamp, r_stop_requested_at = NoStamp, r_stop_reason = [],
      r_stop_operation_id = [], r_heartbeat_at = NoStamp, r_exit_code = None, r_terminal_reason = [],
      r_last_error = [], r_cleanup_state = CleanupNotNeeded, r_launch_nonce = [],
      r_launch_operation_id = operationID, r_launch_phase = LaunchIntent, r_home_path = [],
      r_container_name = ''coordplane-run-'' @ runID, r_deadline_at = NoStamp,
      r_last_observed_at = NoStamp, r_launch_mode = StartMode, r_resume_native_session_id = [],
      r_runtime_error_code = [], r_cleanup_operation_id = [],
      r_isolation_spec_version = RunIsolationSpecCurrent, r_version = 1, r_created_at = now,
      r_started_at = NoStamp, r_ended_at = NoStamp\<rparr>"

definition claimTask :: "service \<Rightarrow> task \<Rightarrow> agent \<Rightarrow> Claim op" where
  "claimTask sv task agent =
    andthen (requiredID sv ''run'') (\<lambda>runID.
    andthen (requiredID sv ''token'') (\<lambda>token.
    andthen (requiredID sv ''op'') (\<lambda>operationID.
    andthen (nowText sv) (\<lambda>now.
    let task' = task\<lparr>t_generation := t_generation task + 1, t_current_run_id := runID,
       t_version := t_version task + 1, t_updated_at := now\<rparr> in
    let run = run_literal sv runID token operationID task' agent now in
    andthen (tx_InsertRun run) (\<lambda>_.
    andthen (tx_UpdateTask task' (t_version task) TaskQueued) (\<lambda>_.
    andthen (emit (t_project_id task) TaskEntity (t_id task) ''task.claimed'' Daemon [] runID [] operationID
       (eventPayload [(''generation'', JInt (t_generation task'))]) now) (\<lambda>_.
    andthen (emit (t_project_id task) RunEntity runID ''run.created'' Daemon [] runID [] operationID ''{}'' now) (\<lambda>_.
    ret \<lparr>cl_task = task', cl_run = run, cl_token = token\<rparr>))))))))"

definition registered :: "service \<Rightarrow> string \<Rightarrow> bool" where
  "registered sv adapterID = (\<exists>a \<in> set (sv_adapters sv). ad_id a = adapterID)"

text \<open>The first candidate that can be claimed is; the others are passed over.\<close>

fun claimFirst :: "service \<Rightarrow> stamp \<Rightarrow> task list \<Rightarrow> Claim option op" where
  "claimFirst sv nowLimit [] = ret None"
| "claimFirst sv nowLimit (candidate # rest) =
     (if nowLimit < t_next_run_at candidate then claimFirst sv nowLimit rest
      else
        andthen (tx_Project (t_project_id candidate)) (\<lambda>project.
        (if p_status project \<noteq> ProjectActive then claimFirst sv nowLimit rest
         else
          andthen (tx_Task (t_id candidate)) (\<lambda>task.
          (if t_status task \<noteq> TaskQueued \<or> t_current_run_id task \<noteq> [] \<or> t_assignee_agent_id task = []
            then claimFirst sv nowLimit rest
            else
            andthen (tx_Agent (t_assignee_agent_id task)) (\<lambda>agent.
            (if a_status agent \<noteq> AgentActive then claimFirst sv nowLimit rest
               else
              andthen (reject (\<not> registered sv (a_adapter_id agent)) (NewError RUNTIME_INVARIANT_VIOLATION False)) (\<lambda>_.
              andthen (tx_AgentRuntimeOccupancy (a_id agent)) (\<lambda>agentRuns.
              andthen (tx_LiveRunCount [] []) (\<lambda>globalRuns.
              (if agentRuns \<noteq> 0 \<or> sv_max_runs sv \<le> globalRuns then claimFirst sv nowLimit rest
                  else
                andthen (claimTask sv task agent) (\<lambda>claim.
                ret (Some claim)))))))))))))"

definition ClaimNext_tx :: "service \<Rightarrow> string \<Rightarrow> stamp \<Rightarrow> Claim option op" where
  "ClaimNext_tx sv projectID nowLimit =
    andthen (tx_RunnableTasks (trim_space projectID)) (\<lambda>tasks.
    claimFirst sv nowLimit (sortRunnable tasks))"

definition ClaimNext :: "service \<Rightarrow> string \<Rightarrow> Claim option op" where
  "ClaimNext sv projectID =
    andthen (nowText sv) (\<lambda>nowLimit.
    transact (ClaimNext_tx sv projectID nowLimit))"

section \<open>Configuration of a run\<close>

record RuntimeConfigFingerprintInput =
  fp_adapter_id :: string
  fp_image :: string
  fp_model :: string
  fp_subagent_model :: string
  fp_base_url :: string
  fp_effort :: string
  fp_instructions_hash :: string

definition RuntimeConfigFingerprint :: "service \<Rightarrow> RuntimeConfigFingerprintInput \<Rightarrow> string op" where
  "RuntimeConfigFingerprint sv i =
    andthen (reject (trim_space (fp_adapter_id i) = [] \<or> trim_space (fp_image i) = [] \<or>
             trim_space (fp_instructions_hash i) = []) (NewError INVALID_ARGUMENT False)) (\<lambda>_.
    ret (inputFingerprint sv
       [(''adapter_id'', JString (trim_space (fp_adapter_id i))),
        (''image'', JString (trim_space (fp_image i))), (''model'', JString (trim_space (fp_model i))),
        (''subagent_model'', JString (trim_space (fp_subagent_model i))),
        (''base_url'', JString (trim_space (fp_base_url i))),
        (''effort'', JString (trim_space (fp_effort i))),
        (''instructions_hash'', JString (trim_space (fp_instructions_hash i)))]))"

definition agent_fingerprint_input :: "agent \<Rightarrow> string \<Rightarrow> RuntimeConfigFingerprintInput" where
  "agent_fingerprint_input agent instructionsHash =
     \<lparr>fp_adapter_id = a_adapter_id agent, fp_image = a_image agent, fp_model = a_model agent,
      fp_subagent_model = a_subagent_model agent, fp_base_url = a_base_url agent,
      fp_effort = a_effort agent, fp_instructions_hash = instructionsHash\<rparr>"

definition MaximumInstructionsBytes :: nat where
  "MaximumInstructionsBytes = 1048576"

definition instructions_error :: failure where
  "instructions_error = ExternalError ''Agent instructions'' False False"

definition ReadAgentInstructions :: "service \<Rightarrow> agent \<Rightarrow> (string \<times> string) op" where
  "ReadAgentInstructions sv agent =
     (let file = trim_space (a_instructions_file agent); content = a_instructions_text agent in
      if file \<noteq> [] \<and> content \<noteq> [] then throw instructions_error
      else if file \<noteq> [] then
        andthen (reject (\<not> canonical_path file) instructions_error) (\<lambda>_.
        andthen (external (\<lambda>n. sv_instructions_file sv n file)) (\<lambda>raw.
        andthen (reject (MaximumInstructionsBytes < length raw) instructions_error) (\<lambda>_.
        ret (raw, hex_encode (sv_sha256 sv raw)))))
      else if content \<noteq> [] then
        andthen (reject (\<not> utf8_valid content) instructions_error) (\<lambda>_.
        andthen (reject (MaximumInstructionsBytes < length content) instructions_error) (\<lambda>_.
        ret (content, hex_encode (sv_sha256 sv content))))
      else throw instructions_error)"

record LaunchSessionContext =
  ls_adapter_id :: string
  ls_agent_id :: string
  ls_task_id :: string
  ls_workspace_id :: string

record LaunchModeSelection =
  lm_mode :: launch_mode
  lm_resumed_from_run_id :: string
  lm_resume_native_session_id :: string

definition start_selection :: LaunchModeSelection where
  "start_selection = \<lparr>lm_mode = StartMode, lm_resumed_from_run_id = [], lm_resume_native_session_id = []\<rparr>"

text \<open>The resume policy is a flag and an optional compatibility test.\<close>

definition SelectLaunchMode ::
  "bool \<Rightarrow> (LaunchSessionContext \<Rightarrow> LaunchSessionContext \<Rightarrow> bool) option \<Rightarrow> run \<Rightarrow> LaunchSessionContext \<Rightarrow>
   LaunchSessionContext \<Rightarrow> string \<Rightarrow> LaunchModeSelection" where
  "SelectLaunchMode supportsResume compatible previous previousContext currentContext currentFingerprint =
     (case compatible of
        None \<Rightarrow> start_selection
      | Some compatible \<Rightarrow>
          if r_id previous = [] \<or> \<not> supportsResume then start_selection
          else if ls_adapter_id previousContext \<noteq> ls_adapter_id currentContext \<or>
                  ls_agent_id previousContext \<noteq> ls_agent_id currentContext \<or>
                  ls_task_id previousContext \<noteq> ls_task_id currentContext \<or>
                  ls_workspace_id previousContext \<noteq> ls_workspace_id currentContext then start_selection
          else if currentFingerprint = [] \<or> r_config_fingerprint previous = [] \<or>
                  r_config_fingerprint previous \<noteq> currentFingerprint then start_selection
          else if r_runtime_error_code previous = ''RESUME_UNAVAILABLE'' then
            start_selection\<lparr>lm_resumed_from_run_id := r_id previous\<rparr>
          else if r_native_session_id previous = [] \<or> \<not> compatible previousContext currentContext
          then start_selection
          else \<lparr>lm_mode = ResumeMode, lm_resumed_from_run_id = r_id previous,
            lm_resume_native_session_id = r_native_session_id previous\<rparr>)"

section \<open>Launch\<close>

record RunLaunchContext =
  lc_project :: project
  lc_agent :: agent
  lc_task :: task
  lc_run :: run
  lc_messages :: "message list"
  lc_instructions :: string
  lc_instructions_hash :: string
  lc_config_fingerprint :: string

definition launchable_message :: "run \<Rightarrow> stamp \<Rightarrow> message \<Rightarrow> bool" where
  "launchable_message run now message =
     (\<not> (m_project_id message \<noteq> r_project_id run \<or> m_state message \<noteq> MessagePending \<or>
         m_next_delivery_at message = NoStamp \<or> now < m_next_delivery_at message \<or>
         (0 < m_max_deliveries message \<and> m_max_deliveries message \<le> m_delivery_count message)))"

definition launchMessages :: "run \<Rightarrow> stamp \<Rightarrow> message list \<Rightarrow> message list op" where
  "launchMessages run now messages =
    andthen (collect (filter (launchable_message run now) messages) (\<lambda>message.
      andthen (tx_Task (m_task_id message)) (\<lambda>deliveryTask.
      ret (message, validTarget run deliveryTask \<and> taskAcceptsDelivery deliveryTask)))) (\<lambda>picked.
    ret (map fst (filter snd picked)))"

definition RuntimeLaunchContext :: "service \<Rightarrow> string \<Rightarrow> RunLaunchContext op" where
  "RuntimeLaunchContext sv runID = transact (
    andthen (tx_Run (trim_space runID)) (\<lambda>run.
    andthen (tx_Task (r_task_id run)) (\<lambda>task.
    andthen (tx_Project (r_project_id run)) (\<lambda>project.
    andthen (tx_Agent (r_agent_id run)) (\<lambda>agent.
    andthen (reject (r_state run \<noteq> RunStarting \<or> t_status task \<noteq> TaskQueued \<or> t_current_run_id task \<noteq> r_id run \<or>
             t_generation task \<noteq> r_generation run \<or> t_assignee_agent_id task \<noteq> r_agent_id run)
       (run_conflict STALE_RUN run)) (\<lambda>_.
    andthen (reject (a_adapter_id agent \<noteq> r_adapter_id run \<or> a_image agent \<noteq> r_image run)
       (run_conflict STALE_RUN run)) (\<lambda>_.
    andthen (ReadAgentInstructions sv agent) (\<lambda>(instructions, instructionsHash).
    andthen (RuntimeConfigFingerprint sv (agent_fingerprint_input agent instructionsHash)) (\<lambda>fingerprint.
    andthen (tx_MessagesForRecipient AgentActor (r_agent_id run)) (\<lambda>messages.
    andthen (nowText sv) (\<lambda>now.
    andthen (launchMessages run now messages) (\<lambda>launched.
    ret \<lparr>lc_project = project, lc_agent = agent, lc_task = task, lc_run = run, lc_messages = launched,
       lc_instructions = instructions, lc_instructions_hash = instructionsHash,
       lc_config_fingerprint = fingerprint\<rparr>))))))))))))"

record RunLaunchInput =
  ln_run_id :: string
  ln_generation :: int
  ln_launch_nonce :: string
  ln_workspace_path :: string
  ln_home_path :: string
  ln_log_path :: string
  ln_instructions_hash :: string
  ln_config_fingerprint :: string
  ln_launch_mode :: launch_mode
  ln_resumed_from_run_id :: string
  ln_resume_native_session_id :: string
  ln_cleanup_operation_id :: string
  ln_isolation_spec_version :: int
  ln_deadline_at :: stamp
  ln_deadline_parses :: bool
  ln_request_id :: string

definition sha256_size :: nat where "sha256_size = 32"

definition canonicalFingerprint :: "string \<Rightarrow> string" where
  "canonicalFingerprint value =
     (let value = trim_space value in
      case hex_decode value of
        None \<Rightarrow> value
      | Some raw \<Rightarrow> if length raw \<noteq> sha256_size then value else hex_encode raw)"

definition validateConfigFingerprint :: "string \<Rightarrow> unit op" where
  "validateConfigFingerprint value =
     (case hex_decode value of
        None \<Rightarrow> throw (NewError INVALID_ARGUMENT False)
      | Some raw \<Rightarrow> reject (length raw \<noteq> sha256_size) (NewError INVALID_ARGUMENT False))"

definition normalized_launch :: "RunLaunchInput \<Rightarrow> RunLaunchInput" where
  "normalized_launch i = i\<lparr>ln_run_id := trim_space (ln_run_id i),
     ln_launch_nonce := trim_space (ln_launch_nonce i),
     ln_cleanup_operation_id := trim_space (ln_cleanup_operation_id i),
     ln_instructions_hash := trim_space (ln_instructions_hash i),
     ln_config_fingerprint := canonicalFingerprint (ln_config_fingerprint i),
     ln_resumed_from_run_id := trim_space (ln_resumed_from_run_id i),
     ln_resume_native_session_id := trim_space (ln_resume_native_session_id i),
     ln_isolation_spec_version :=
       (if ln_isolation_spec_version i = 0 then RunIsolationSpecCurrent else ln_isolation_spec_version i)\<rparr>"

definition sameLaunchIntent :: "run \<Rightarrow> RunLaunchInput \<Rightarrow> bool" where
  "sameLaunchIntent run i =
     (r_generation run = ln_generation i \<and> r_launch_nonce run = ln_launch_nonce i \<and>
      r_workspace_path run = ln_workspace_path i \<and> r_home_path run = ln_home_path i \<and>
      r_log_path run = ln_log_path i \<and> r_instructions_hash run = ln_instructions_hash i \<and>
      r_config_fingerprint run = ln_config_fingerprint i \<and> r_launch_mode run = ln_launch_mode i \<and>
      r_resumed_from_run_id run = ln_resumed_from_run_id i \<and>
      r_resume_native_session_id run = ln_resume_native_session_id i \<and>
      r_cleanup_operation_id run = ln_cleanup_operation_id i \<and> r_deadline_at run = ln_deadline_at i \<and>
      r_isolation_spec_version run = ln_isolation_spec_version i)"

definition validateLaunch :: "RunLaunchInput \<Rightarrow> unit op" where
  "validateLaunch i =
    andthen (reject (ln_run_id i = [] \<or> ln_generation i < 1 \<or> ln_launch_nonce i = [] \<or>
             ln_cleanup_operation_id i = []) (NewError INVALID_ARGUMENT False)) (\<lambda>_.
    andthen (reject (ln_isolation_spec_version i \<noteq> RunIsolationSpecV1 \<and>
             ln_isolation_spec_version i \<noteq> RunIsolationSpecCurrent) (NewError INVALID_ARGUMENT False)) (\<lambda>_.
    andthen (reject (ln_launch_mode i \<noteq> StartMode \<and> ln_launch_mode i \<noteq> ResumeMode)
       (NewError INVALID_ARGUMENT False)) (\<lambda>_.
    andthen (reject (ln_launch_mode i = StartMode \<and> ln_resume_native_session_id i \<noteq> [])
       (NewError INVALID_ARGUMENT False)) (\<lambda>_.
    andthen (reject (ln_launch_mode i = ResumeMode \<and>
             (ln_resumed_from_run_id i = [] \<or> ln_resume_native_session_id i = []))
       (NewError INVALID_ARGUMENT False)) (\<lambda>_.
    andthen (validateConfigFingerprint (ln_config_fingerprint i)) (\<lambda>_.
    andthen (reject (\<not> canonical_path (ln_home_path i) \<or> \<not> canonical_path (ln_log_path i))
       (NewError INVALID_ARGUMENT False)) (\<lambda>_.
    andthen (reject (ln_workspace_path i \<noteq> [] \<and> \<not> canonical_path (ln_workspace_path i))
       (NewError INVALID_ARGUMENT False)) (\<lambda>_.
    reject (ln_deadline_at i \<noteq> NoStamp \<and> \<not> ln_deadline_parses i) (NewError INVALID_ARGUMENT False)))))))))"

text \<open>A fresh start that names a source run falls back from a resume that failed.\<close>

definition resumeFallbackSource :: "run \<Rightarrow> RunLaunchInput \<Rightarrow> bool op" where
  "resumeFallbackSource run i =
     (if ln_launch_mode i = StartMode \<and> ln_resumed_from_run_id i \<noteq> [] then
       andthen (tx_Run (ln_resumed_from_run_id i)) (\<lambda>previous.
       andthen (reject (r_task_id previous \<noteq> r_task_id run \<or> r_agent_id previous \<noteq> r_agent_id run \<or>
                \<not> IsRunTerminal (r_state previous) \<or>
                r_runtime_error_code previous \<noteq> ''RESUME_UNAVAILABLE'')
          (run_conflict RESUME_UNAVAILABLE previous)) (\<lambda>_.
       andthen (reject (r_config_fingerprint previous \<noteq> ln_config_fingerprint i)
          (run_conflict RESUME_UNAVAILABLE previous)) (\<lambda>_.
       ret True)))
      else ret False)"

definition launched_run :: "run \<Rightarrow> RunLaunchInput \<Rightarrow> run" where
  "launched_run run i = run\<lparr>r_launch_nonce := ln_launch_nonce i, r_workspace_path := ln_workspace_path i,
     r_home_path := ln_home_path i, r_log_path := ln_log_path i,
     r_instructions_hash := ln_instructions_hash i, r_config_fingerprint := ln_config_fingerprint i,
     r_launch_mode := ln_launch_mode i, r_resumed_from_run_id := ln_resumed_from_run_id i,
     r_resume_native_session_id := ln_resume_native_session_id i,
     r_cleanup_operation_id := ln_cleanup_operation_id i,
     r_isolation_spec_version := ln_isolation_spec_version i, r_cleanup_state := CleanupPending,
     r_deadline_at := ln_deadline_at i, r_version := r_version run + 1\<rparr>"

definition BeginRunLaunch_tx :: "service \<Rightarrow> RunLaunchInput \<Rightarrow> string \<Rightarrow> run op" where
  "BeginRunLaunch_tx sv i requestID =
    andthen (tx_Run (ln_run_id i)) (\<lambda>run.
    andthen (tx_Task (r_task_id run)) (\<lambda>task.
    andthen (reject (r_state run \<noteq> RunStarting \<or> r_launch_phase run \<noteq> LaunchIntent \<or> r_container_id run \<noteq> [] \<or>
             t_status task \<noteq> TaskQueued \<or> t_current_run_id task \<noteq> r_id run \<or>
             t_generation task \<noteq> r_generation run \<or> r_generation run \<noteq> ln_generation i)
       (run_conflict STALE_RUN run)) (\<lambda>_.
    andthen (tx_Agent (r_agent_id run)) (\<lambda>agent.
    andthen (ReadAgentInstructions sv agent) (\<lambda>(_, instructionsHash).
    andthen (RuntimeConfigFingerprint sv (agent_fingerprint_input agent instructionsHash)) (\<lambda>fingerprint.
    andthen (reject (fingerprint \<noteq> ln_config_fingerprint i) (run_conflict STALE_RUN run)) (\<lambda>_.
    andthen (reject (ln_instructions_hash i \<noteq> instructionsHash) (run_conflict STALE_RUN run)) (\<lambda>_.
    andthen (reject (t_kind task = TaskConversation \<and> ln_workspace_path i \<noteq> []) (NewError INVALID_ARGUMENT False)) (\<lambda>_.
    andthen (reject (t_kind task \<noteq> TaskConversation \<and> ln_workspace_path i = []) (NewError INVALID_ARGUMENT False)) (\<lambda>_.
    andthen (resumeFallbackSource run i) (\<lambda>resumeFallback.
    (if r_launch_nonce run \<noteq> [] then
        (if sameLaunchIntent run i then ret run else throw (run_conflict ACTION_IN_PROGRESS run))
      else
      (let run' = launched_run run i in
      andthen (tx_UpdateRun run' (r_version run) RunStarting) (\<lambda>_.
      andthen (whenever resumeFallback (
        andthen (nowText sv) (\<lambda>now.
        andthen (emit (r_project_id run) RunEntity (r_id run) ''run.resume_fallback'' Daemon [] (r_id run) requestID
            (r_launch_operation_id run)
            (eventPayload [(''resumed_from_run_id'', JString (r_resumed_from_run_id run'))]) now) (\<lambda>_.
        ret ())))) (\<lambda>_.
      andthen (nowText sv) (\<lambda>now.
      andthen (emit (r_project_id run) RunEntity (r_id run) ''run.launch_prepared'' Daemon [] (r_id run) requestID
          (r_launch_operation_id run)
          (eventPayload [(''launch_mode'', JString (launch_mode_text (r_launch_mode run'))),
             (''phase'', JString (launch_phase_text (r_launch_phase run')))]) now) (\<lambda>_.
      ret run')))))))))))))))))"

definition BeginRunLaunch :: "service \<Rightarrow> RunLaunchInput \<Rightarrow> run op" where
  "BeginRunLaunch sv i =
    (let i = normalized_launch i in
    andthen (request_id sv (ln_request_id i)) (\<lambda>requestID.
    andthen (validateLaunch i) (\<lambda>_.
    transact (BeginRunLaunch_tx sv i requestID))))"

section \<open>Runtime facts\<close>

record RunRuntimeFactInput =
  rf_run_id :: string
  rf_generation :: int
  rf_launch_nonce :: string
  rf_launch_operation_id :: string
  rf_container_id :: string
  rf_request_id :: string

definition runtimeFactFence :: "run \<Rightarrow> RunRuntimeFactInput \<Rightarrow> unit op" where
  "runtimeFactFence run i =
    andthen (reject (r_id run \<noteq> trim_space (rf_run_id i) \<or> r_generation run \<noteq> rf_generation i \<or>
             r_launch_nonce run = [] \<or> r_launch_nonce run \<noteq> trim_space (rf_launch_nonce i) \<or>
             r_launch_operation_id run = [] \<or>
             r_launch_operation_id run \<noteq> trim_space (rf_launch_operation_id i))
       (run_conflict STALE_RUN run)) (\<lambda>_.
    let containerID = trim_space (rf_container_id i) in
    reject ((r_container_id run \<noteq> [] \<and> r_container_id run \<noteq> containerID) \<or>
             (r_container_id run = [] \<and> containerID \<noteq> [] \<and>
              (r_state run \<noteq> RunStarting \<or> r_launch_phase run \<noteq> LaunchIntent)))
       (run_conflict STALE_RUN run))"

fun launchPhaseOrder :: "launch_phase \<Rightarrow> int" where
  "launchPhaseOrder LaunchIntent = 0"
| "launchPhaseOrder LaunchCreated = 1"
| "launchPhaseOrder LaunchStartIssued = 2"
| "launchPhaseOrder LaunchProcessObserved = 3"

definition validCleanupTransition :: "cleanup_state \<Rightarrow> cleanup_state \<Rightarrow> bool \<Rightarrow> bool" where
  "validCleanupTransition current new terminal =
     ((current = CleanupNotNeeded \<and> new = CleanupPending) \<or>
      (current = CleanupPending \<and> new = CleanupBlocked) \<or>
      (current = CleanupBlocked \<and> new = CleanupPending) \<or>
      (current = CleanupPending \<and> new = CleanupRemoved \<and> terminal))"

definition advanceRunPhase_tx ::
  "service \<Rightarrow> RunRuntimeFactInput \<Rightarrow> launch_phase \<Rightarrow> launch_phase \<Rightarrow> string \<Rightarrow> (run \<Rightarrow> run op) \<Rightarrow> string \<Rightarrow>
   run op" where
  "advanceRunPhase_tx sv i expected new eventKind mutate requestID =
    andthen (tx_Run (trim_space (rf_run_id i))) (\<lambda>run.
    andthen (runtimeFactFence run i) (\<lambda>_.
    (if launchPhaseOrder expected < launchPhaseOrder (r_launch_phase run) then mutate run
      else
      andthen (reject (r_state run \<noteq> RunStarting \<or> r_launch_phase run \<noteq> expected)
          (run_conflict INVALID_STATE run)) (\<lambda>_.
      andthen (mutate run) (\<lambda>mutated.
      let run' = mutated\<lparr>r_launch_phase := new, r_version := r_version run + 1\<rparr> in
      andthen (tx_UpdateRun run' (r_version run) RunStarting) (\<lambda>_.
      andthen (nowText sv) (\<lambda>now.
      andthen (emit (r_project_id run) RunEntity (r_id run) eventKind Daemon [] (r_id run) requestID
          (r_launch_operation_id run) (eventPayload [(''phase'', JString (launch_phase_text new))]) now) (\<lambda>_.
      ret run'))))))))"

definition advanceRunPhase ::
  "service \<Rightarrow> RunRuntimeFactInput \<Rightarrow> launch_phase \<Rightarrow> launch_phase \<Rightarrow> string \<Rightarrow> (run \<Rightarrow> run op) \<Rightarrow> run op" where
  "advanceRunPhase sv i expected new eventKind mutate =
    andthen (request_id sv (rf_request_id i)) (\<lambda>requestID.
    transact (advanceRunPhase_tx sv i expected new eventKind mutate requestID))"

definition setContainer :: "string \<Rightarrow> run \<Rightarrow> run op" where
  "setContainer containerID run =
    andthen (reject (r_container_id run \<noteq> [] \<and> r_container_id run \<noteq> containerID)
       (run_conflict RUNTIME_INVARIANT_VIOLATION run)) (\<lambda>_.
    ret (run\<lparr>r_container_id := containerID\<rparr>))"

definition RecordContainerCreated :: "service \<Rightarrow> RunRuntimeFactInput \<Rightarrow> run op" where
  "RecordContainerCreated sv i =
    (let containerID = trim_space (rf_container_id i) in
    andthen (reject (containerID = []) (NewError INVALID_ARGUMENT False)) (\<lambda>_.
    advanceRunPhase sv (i\<lparr>rf_container_id := containerID\<rparr>) LaunchIntent LaunchCreated
       ''run.container_created'' (setContainer containerID)))"

definition RecordRunStartIssued :: "service \<Rightarrow> RunRuntimeFactInput \<Rightarrow> run op" where
  "RecordRunStartIssued sv i =
     advanceRunPhase sv i LaunchCreated LaunchStartIssued ''run.start_issued'' ret"

definition ObserveProcess_tx :: "service \<Rightarrow> RunRuntimeFactInput \<Rightarrow> string \<Rightarrow> run op" where
  "ObserveProcess_tx sv i requestID =
    andthen (tx_Run (trim_space (rf_run_id i))) (\<lambda>run.
    (if r_state run = RunActive \<and> r_launch_phase run = LaunchProcessObserved then
      andthen (runtimeFactFence run i) (\<lambda>_.
      ret run)
      else
      andthen (reject (r_state run \<noteq> RunStarting \<or> r_launch_phase run \<noteq> LaunchStartIssued)
          (run_conflict INVALID_STATE run)) (\<lambda>_.
      andthen (runtimeFactFence run i) (\<lambda>_.
      andthen (tx_Task (r_task_id run)) (\<lambda>task.
      andthen (reject (t_status task \<noteq> TaskQueued \<or> t_current_run_id task \<noteq> r_id run \<or>
                t_generation task \<noteq> r_generation run) (task_conflict VERSION_CONFLICT task)) (\<lambda>_.
      andthen (nowText sv) (\<lambda>now.
      let run' = run\<lparr>r_state := RunActive, r_launch_phase := LaunchProcessObserved,
          r_started_at := now, r_last_observed_at := now, r_heartbeat_at := now,
          r_version := r_version run + 1\<rparr> in
      andthen (tx_UpdateRun run' (r_version run) RunStarting) (\<lambda>_.
      andthen (tx_UpdateTask (task\<lparr>t_status := TaskRunning, t_version := t_version task + 1, t_updated_at := now\<rparr>)
          (t_version task) TaskQueued) (\<lambda>_.
      andthen (emit (t_project_id task) RunEntity (r_id run) ''run.active'' Daemon [] (r_id run) requestID
          (r_launch_operation_id run) ''{}'' now) (\<lambda>_.
      andthen (emit (t_project_id task) TaskEntity (t_id task) ''task.running'' Daemon [] (r_id run) requestID []
          ''{}'' now) (\<lambda>_.
      ret run')))))))))))"

definition ObserveProcessAndActivateRun :: "service \<Rightarrow> RunRuntimeFactInput \<Rightarrow> run op" where
  "ObserveProcessAndActivateRun sv i =
    andthen (request_id sv (rf_request_id i)) (\<lambda>requestID.
    transact (ObserveProcess_tx sv i requestID))"

definition RecordRunSession_tx :: "service \<Rightarrow> RunRuntimeFactInput \<Rightarrow> string \<Rightarrow> string \<Rightarrow> run op" where
  "RecordRunSession_tx sv i nativeSessionID requestID =
    andthen (tx_Run (trim_space (rf_run_id i))) (\<lambda>run.
    andthen (runtimeFactFence run i) (\<lambda>_.
    andthen (reject (r_state run \<noteq> RunStarting \<and> r_state run \<noteq> RunActive) (run_conflict INVALID_STATE run)) (\<lambda>_.
    (if r_native_session_id run \<noteq> [] then
        (if r_native_session_id run = nativeSessionID then ret run
         else throw (run_conflict INVALID_STATE run))
      else
      (let run' = run\<lparr>r_native_session_id := nativeSessionID, r_version := r_version run + 1\<rparr> in
      andthen (tx_UpdateRun run' (r_version run) (r_state run)) (\<lambda>_.
      andthen (nowText sv) (\<lambda>now.
      andthen (emit (r_project_id run) RunEntity (r_id run) ''run.session_recorded'' Daemon [] (r_id run) requestID
          (r_launch_operation_id run) ''{}'' now) (\<lambda>_.
      ret run'))))))))"

definition RecordRunSession :: "service \<Rightarrow> RunRuntimeFactInput \<Rightarrow> string \<Rightarrow> run op" where
  "RecordRunSession sv i nativeSessionID =
    (let nativeSessionID = boundedDurableText nativeSessionID 1024 in
    andthen (reject (trim_space nativeSessionID = []) (NewError INVALID_ARGUMENT False)) (\<lambda>_.
    andthen (request_id sv (rf_request_id i)) (\<lambda>requestID.
    transact (RecordRunSession_tx sv i nativeSessionID requestID))))"

definition RecordRunHeartbeat_tx :: "RunRuntimeFactInput \<Rightarrow> stamp \<Rightarrow> run op" where
  "RecordRunHeartbeat_tx i observed =
    andthen (tx_Run (trim_space (rf_run_id i))) (\<lambda>run.
    andthen (runtimeFactFence run i) (\<lambda>_.
    andthen (reject (r_state run \<noteq> RunActive \<or> r_launch_phase run \<noteq> LaunchProcessObserved)
       (run_conflict INVALID_STATE run)) (\<lambda>_.
    let run' = run\<lparr>r_heartbeat_at := observed, r_last_observed_at := observed,
       r_version := r_version run + 1\<rparr> in
    andthen (tx_UpdateRun run' (r_version run) RunActive) (\<lambda>_.
    ret run'))))"

text \<open>The observation time is the caller's trimmed text, which must parse, or the clock.\<close>

definition RecordRunHeartbeat :: "service \<Rightarrow> RunRuntimeFactInput \<Rightarrow> string \<Rightarrow> bool \<Rightarrow> run op" where
  "RecordRunHeartbeat sv i observedAt parses =
    andthen (if trim_space observedAt = [] then nowText sv
       else if \<not> parses then throw (NewError INVALID_ARGUMENT False)
       else ret (Given (trim_space observedAt))) (\<lambda>observed.
    transact (RecordRunHeartbeat_tx i observed))"

definition RecordRunCleanup_tx ::
  "service \<Rightarrow> RunRuntimeFactInput \<Rightarrow> string \<Rightarrow> cleanup_state \<Rightarrow> string \<Rightarrow> string \<Rightarrow> run op" where
  "RecordRunCleanup_tx sv i cleanupOperationID state lastError requestID =
    andthen (tx_Run (trim_space (rf_run_id i))) (\<lambda>run.
    andthen (runtimeFactFence run i) (\<lambda>_.
    andthen (reject (r_cleanup_operation_id run = [] \<or> r_cleanup_operation_id run \<noteq> cleanupOperationID)
       (run_conflict STALE_RUN run)) (\<lambda>_.
    (if r_cleanup_state run = state \<and> (state \<noteq> CleanupBlocked \<or> r_last_error run = lastError) then ret run
      else
      andthen (reject (\<not> validCleanupTransition (r_cleanup_state run) state (IsRunTerminal (r_state run)))
          (run_conflict INVALID_STATE run)) (\<lambda>_.
      let run' = run\<lparr>r_cleanup_state := state,
          r_last_error := (if state = CleanupBlocked then lastError else r_last_error run),
          r_version := r_version run + 1\<rparr> in
      andthen (tx_UpdateRun run' (r_version run) (r_state run)) (\<lambda>_.
      andthen (nowText sv) (\<lambda>now.
      andthen (emit (r_project_id run) RunEntity (r_id run) (''run.cleanup_'' @ cleanup_state_text state) Daemon []
          (r_id run) requestID cleanupOperationID
          (eventPayload [(''cleanup_state'', JString (cleanup_state_text state))]) now) (\<lambda>_.
      ret run'))))))))"

definition RecordRunCleanup ::
  "service \<Rightarrow> RunRuntimeFactInput \<Rightarrow> string \<Rightarrow> cleanup_state \<Rightarrow> string \<Rightarrow> run op" where
  "RecordRunCleanup sv i cleanupOperationID state lastError =
    andthen (request_id sv (rf_request_id i)) (\<lambda>requestID.
    andthen (reject (state \<noteq> CleanupPending \<and> state \<noteq> CleanupBlocked \<and> state \<noteq> CleanupRemoved)
       (NewError INVALID_ARGUMENT False)) (\<lambda>_.
    transact (RecordRunCleanup_tx sv i (trim_space cleanupOperationID) state
       (boundedDurableText lastError MaximumTerminalTextBytes) requestID)))"

section \<open>What a run reports, and the request to stop it\<close>

record CurrentTaskResult =
  cu_task :: task
  cu_run :: run
  cu_unread_message_count :: nat

definition CurrentTask :: "service \<Rightarrow> string \<Rightarrow> CurrentTaskResult op" where
  "CurrentTask sv token = transact (
    andthen (authenticateRun sv token) (\<lambda>(run, current).
    andthen (inbox_of run current) (\<lambda>unread.
    ret \<lparr>cu_task = current, cu_run = run, cu_unread_message_count = length unread\<rparr>)))"

definition Progress_tx :: "service \<Rightarrow> string \<Rightarrow> string \<Rightarrow> string \<Rightarrow> event op" where
  "Progress_tx sv token summary requestID =
    andthen (authenticateRun sv token) (\<lambda>(run, task).
    andthen (nowText sv) (\<lambda>now.
    emit (t_project_id task) TaskEntity (t_id task) ''task.progress'' AgentActor (r_agent_id run) (r_id run)
       requestID [] (eventPayload [(''summary'', JString summary)]) now))"

definition Progress :: "service \<Rightarrow> string \<Rightarrow> string \<Rightarrow> string \<Rightarrow> event op" where
  "Progress sv token summary requestID =
    andthen (requireText ''summary'' summary) (\<lambda>summary.
    andthen (request_id sv requestID) (\<lambda>requestID.
    transact (Progress_tx sv token summary requestID)))"

definition actor_text :: "actor_kind \<Rightarrow> string" where
  "actor_text actor = (case actor of Boss \<Rightarrow> ''boss'' | Daemon \<Rightarrow> ''daemon'' | AgentActor \<Rightarrow> ''agent''
     | System \<Rightarrow> ''system'' | NoActor \<Rightarrow> [])"

definition requestRunStop_tx ::
  "service \<Rightarrow> string \<Rightarrow> string \<Rightarrow> string \<Rightarrow> actor_kind \<Rightarrow> requestDedupe \<Rightarrow> run op" where
  "requestRunStop_tx sv runID reason requestedOperationID actor dedupe =
    andthen (replay dedupe) (\<lambda>replayed.
    (case replayed of
        Some result \<Rightarrow> tx_Run (dd_id result)
      | None \<Rightarrow>
      andthen (tx_Run runID) (\<lambda>run.
      andthen (reject (\<not> IsRunLive (r_state run)) (run_conflict INVALID_STATE run)) (\<lambda>_.
      andthen (nowText sv) (\<lambda>now.
      andthen (if r_stop_requested_at run = NoStamp then
        andthen (if requestedOperationID = [] then requiredID sv ''op''
                else ret requestedOperationID) (\<lambda>operationID.
        let run' = run\<lparr>r_stop_requested_at := now, r_stop_reason := reason,
                r_stop_operation_id := operationID,
                r_token_revoked_at :=
                  (if r_token_revoked_at run = NoStamp then now else r_token_revoked_at run),
                r_version := r_version run + 1\<rparr> in
        andthen (tx_UpdateRun run' (r_version run) (r_state run)) (\<lambda>_.
        andthen (emit (r_project_id run) RunEntity (r_id run) ''run.stop_requested'' actor [] (r_id run)
                (rq_request_id dedupe) operationID (eventPayload [(''reason'', JString reason)]) now) (\<lambda>_.
        ret run')))
            else
        andthen (reject (r_stop_reason run \<noteq> reason \<or>
                      (requestedOperationID \<noteq> [] \<and> r_stop_operation_id run \<noteq> requestedOperationID))
                (run_conflict ACTION_IN_PROGRESS run)) (\<lambda>_.
        ret run)) (\<lambda>run'.
      andthen (record_dedupe dedupe (r_id run) [] now) (\<lambda>_.
      ret run')))))))"

definition requestRunStop ::
  "service \<Rightarrow> string \<Rightarrow> string \<Rightarrow> string \<Rightarrow> string \<Rightarrow> actor_kind \<Rightarrow> run op" where
  "requestRunStop sv runID reason requestID operationID actor =
    andthen (requireText ''run_id'' runID) (\<lambda>runID.
    let reason = boundedDurableText reason MaximumTerminalTextBytes in
    andthen (request_id sv requestID) (\<lambda>requestID.
    let requestedOperationID = trim_space operationID in
    transact (requestRunStop_tx sv runID reason requestedOperationID actor
       \<lparr>rq_scope = actor_text actor, rq_operation = ''run.stop'', rq_request_id = requestID,
        rq_input_hash = inputFingerprint sv
          [(''RunID'', JString runID), (''Reason'', JString reason),
           (''OperationID'', JString requestedOperationID)]\<rparr>)))"

definition RequestRunStop :: "service \<Rightarrow> string \<Rightarrow> string \<Rightarrow> string \<Rightarrow> string \<Rightarrow> run op" where
  "RequestRunStop sv runID reason requestID operationID =
     requestRunStop sv runID reason requestID operationID Boss"

definition RequestRuntimeStop :: "service \<Rightarrow> string \<Rightarrow> string \<Rightarrow> string \<Rightarrow> string \<Rightarrow> run op" where
  "RequestRuntimeStop sv runID reason requestID operationID =
     requestRunStop sv runID reason requestID operationID Daemon"

end
