(* ===== verification/Terminal.thy ===== *)
theory Terminal
  imports Runs
begin

text \<open>
  How a run ends: the outcome an agent requests (outcome.go), the terminal fact the runtime reports
  with its fences, the redelivery of what the run did not acknowledge and the projection on the task
  (terminal.go, and \<open>projectRuntimeFailure\<close>, \<open>runtimeFailureReason\<close>, \<open>runtimeRetryAt\<close> of run.go).
\<close>

section \<open>Retry\<close>

definition retry_shift :: "int \<Rightarrow> nat" where
  "retry_shift retryCount =
     (let shift = retryCount - 1;
          shift = (if shift < 0 then 0 else shift);
          shift = (if 5 < shift then 5 else shift)
      in nat shift)"

fun runtimeRetryAt :: "stamp \<Rightarrow> int \<Rightarrow> stamp" where
  "runtimeRetryAt (At i) retryCount = At (i + second * 2 ^ retry_shift retryCount)"
| "runtimeRetryAt s retryCount = s"

definition run_state_upper :: "run_state \<Rightarrow> string" where
  "run_state_upper state = (case state of
     RunStarting \<Rightarrow> ''STARTING'' | RunActive \<Rightarrow> ''ACTIVE'' | RunExited \<Rightarrow> ''EXITED''
   | RunFailed \<Rightarrow> ''FAILED'' | RunInterrupted \<Rightarrow> ''INTERRUPTED'' | RunCancelled \<Rightarrow> ''CANCELLED''
   | RunTimedOut \<Rightarrow> ''TIMED_OUT'')"

definition runtimeFailureReason :: "run \<Rightarrow> string" where
  "runtimeFailureReason run =
     (let code = (if r_state run = RunExited then ''NO_TASK_OUTCOME''
                  else if r_state run = RunFailed then ''RUN_START_FAILED''
                  else ''RUN_'' @ run_state_upper (r_state run));
          detail = trim_space (r_terminal_reason run);
          detail = (if detail = [] then trim_space (r_last_error run) else detail)
      in if detail = [] then code else code @ '': '' @ detail)"

definition failure_decision :: "task \<Rightarrow> run \<Rightarrow> taskRetryDecision" where
  "failure_decision task run =
     (if r_state run = RunTimedOut \<or> r_state run = RunInterrupted
      then \<lparr>rd_status = TaskQueued, rd_retry_count = t_retry_count task\<rparr>
      else runtimeRetryDecision (t_retry_count task) (t_max_retries task))"

definition projectRuntimeFailure :: "task \<Rightarrow> run \<Rightarrow> string \<Rightarrow> stamp \<Rightarrow> task op" where
  "projectRuntimeFailure task run requestID now =
    (let decision = failure_decision task run in
    andthen (whenever (rd_status decision \<noteq> t_status task)
       (check (ValidateTaskTransition (t_kind task) (t_status task) (rd_status decision)))) (\<lambda>_.
    let task' = task\<lparr>t_status := rd_status decision, t_current_run_id := [],
       t_retry_count := rd_retry_count decision, t_failure_reason := runtimeFailureReason run,
       t_next_run_at := (if rd_status decision = TaskQueued
         then runtimeRetryAt now (rd_retry_count decision) else t_next_run_at task),
       t_version := t_version task + 1, t_updated_at := now\<rparr> in
    andthen (tx_UpdateTask task' (t_version task) (t_status task)) (\<lambda>_.
    andthen (emit (t_project_id task) TaskEntity (t_id task)
       (if rd_status decision = TaskQueued then ''task.requeued'' else ''task.failed'') Daemon [] (r_id run)
       requestID []
       (eventPayload [(''reason'', JString (t_failure_reason task')),
          (''retry_count'', JInt (t_retry_count task')), (''max_retries'', JInt (t_max_retries task'))]) now) (\<lambda>_.
    ret task'))))"

section \<open>The outcome an agent requests\<close>

record OutcomeInput =
  oi_token :: string
  oi_outcome :: outcome
  oi_reason :: string
  oi_summary :: string
  oi_expected_head :: string
  oi_ack_message_ids :: "string list"
  oi_request_id :: string

record outcomeFields =
  of_reason :: string
  of_summary :: string
  of_expected_head :: string

record OutcomeResult =
  or_task :: task
  or_run :: run
  or_acknowledged :: "message list"

definition validateOutcomeFields :: "outcome \<Rightarrow> string \<Rightarrow> string \<Rightarrow> string \<Rightarrow> unit op" where
  "validateOutcomeFields outcome reason summary expectedHead =
     (if outcome = OutcomeWait \<or> outcome = OutcomeFail then
       andthen (reject (reason = []) (NewError INVALID_ARGUMENT False)) (\<lambda>_.
       reject (summary \<noteq> [] \<or> expectedHead \<noteq> []) (NewError INVALID_ARGUMENT False))
      else if outcome = OutcomeSubmit then
        andthen (reject (summary = [] \<or> expectedHead = []) (NewError INVALID_ARGUMENT False)) (\<lambda>_.
        reject (reason \<noteq> []) (NewError INVALID_ARGUMENT False))
      else throw (NewError INVALID_ARGUMENT False))"

definition validateOutcomeRequest :: "OutcomeInput \<Rightarrow> outcomeFields op" where
  "validateOutcomeRequest i =
    andthen (optionalTextWithin (oi_reason i) MaximumOutcomeTextBytes) (\<lambda>reason.
    andthen (optionalTextWithin (oi_summary i) MaximumOutcomeTextBytes) (\<lambda>summary.
    andthen (optionalTextWithin (oi_expected_head i) 256) (\<lambda>expectedHead.
    andthen (validateOutcomeFields (oi_outcome i) reason summary expectedHead) (\<lambda>_.
    ret \<lparr>of_reason = reason, of_summary = summary, of_expected_head = expectedHead\<rparr>))))"

definition replayOutcome :: "dedupeResult \<Rightarrow> string list \<Rightarrow> OutcomeResult op" where
  "replayOutcome result ackIDs =
    andthen (tx_Run (dd_id result)) (\<lambda>run.
    andthen (tx_Task (dd_related_id result)) (\<lambda>task.
    andthen (loadMessages ackIDs) (\<lambda>acknowledged.
    ret \<lparr>or_task = task, or_run = run, or_acknowledged = acknowledged\<rparr>)))"

definition outcome_dedupe :: "requestDedupe \<Rightarrow> run \<Rightarrow> requestDedupe" where
  "outcome_dedupe dedupe scope = dedupe\<lparr>rq_scope := ''run:'' @ r_id scope\<rparr>"

definition RequestOutcome_snapshot_tx ::
  "service \<Rightarrow> OutcomeInput \<Rightarrow> string list \<Rightarrow> requestDedupe \<Rightarrow> (OutcomeResult + run \<times> task) op" where
  "RequestOutcome_snapshot_tx sv i ackIDs dedupe =
    andthen (scopedRun sv (oi_token i)) (\<lambda>scope.
    andthen (replay (outcome_dedupe dedupe scope)) (\<lambda>replayed.
    (case replayed of
        Some result \<Rightarrow>
      andthen (replayOutcome result ackIDs) (\<lambda>result.
      ret (Inl result))
      | None \<Rightarrow>
      andthen (authenticateRun sv (oi_token i)) (\<lambda>(run, task).
      andthen (check (ValidateTaskOperation (t_kind task) (outcome_text (oi_outcome i)))) (\<lambda>_.
      andthen (reject (t_pending_action task \<noteq> NoAction) (task_conflict ACTION_IN_PROGRESS task)) (\<lambda>_.
      ret (Inr (run, task))))))))"

definition task_source :: "task \<Rightarrow> GitSource option" where
  "task_source task =
     (if t_source_task_id task = [] then None
      else Some \<lparr>gs_task_id = t_source_task_id task, gs_run_id = t_source_run_id task,
        gs_task_ref = t_source_task_ref task, gs_head_sha = t_source_head_sha task\<rparr>)"

definition resolveSubmitHead :: "service \<Rightarrow> run \<Rightarrow> task \<Rightarrow> string \<Rightarrow> string op" where
  "resolveSubmitHead sv run task expectedHead =
    andthen (reject (\<not> sv_task_git sv) (NewError GIT_INVARIANT_VIOLATION False)) (\<lambda>_.
    andthen (reject (t_source_task_id task \<noteq> [] \<and>
             (t_source_run_id task = [] \<or> t_source_task_ref task = [] \<or> t_source_head_sha task = []))
       (NewError GIT_INVARIANT_VIOLATION False)) (\<lambda>_.
    wrap (WrapError INVALID_ARGUMENT False) (external (\<lambda>n. g_expand_head (sv_git sv) n
       \<lparr>gx_project_id = t_project_id task, gx_task_id = t_id task, gx_run_id = r_id run,
        gx_workspace_path = r_workspace_path run, gx_base_sha = t_base_sha task,
        gx_expected_head = expectedHead, gx_source = task_source task\<rparr>))))"

definition outcome_run :: "run \<Rightarrow> outcome \<Rightarrow> outcomeFields \<Rightarrow> string \<Rightarrow> stamp \<Rightarrow> run" where
  "outcome_run run outcome f expandedHead now = run\<lparr>r_requested_outcome := outcome,
     r_requested_summary := (if outcome = OutcomeSubmit then of_summary f else of_reason f),
     r_expected_head := (if outcome = OutcomeSubmit then expandedHead else []),
     r_requested_at := now, r_token_revoked_at := now, r_version := r_version run + 1\<rparr>"

definition outcome_task :: "task \<Rightarrow> run \<Rightarrow> outcome \<Rightarrow> string \<Rightarrow> string \<Rightarrow> stamp \<Rightarrow> task" where
  "outcome_task task run outcome operationID expandedHead now =
     (let task = task\<lparr>t_status := TaskFinishing, t_version := t_version task + 1, t_updated_at := now\<rparr> in
      if outcome = OutcomeSubmit then
        task\<lparr>t_pending_action := Capture, t_pending_action_id := operationID,
          t_pending_action_version := t_version task, t_pending_action_run_id := r_id run,
          t_pending_expected_sha := expandedHead, t_pending_started_at := now\<rparr>
      else task)"

definition applyOutcome ::
  "service \<Rightarrow> OutcomeInput \<Rightarrow> string list \<Rightarrow> run \<times> task \<Rightarrow> outcomeFields \<Rightarrow> string \<Rightarrow> string \<Rightarrow> requestDedupe \<Rightarrow>
   OutcomeResult op" where
  "applyOutcome sv i ackIDs snapshot f expandedHead requestID dedupe =
    andthen (scopedRun sv (oi_token i)) (\<lambda>scope.
    let dedupe = outcome_dedupe dedupe scope in
    andthen (replay dedupe) (\<lambda>replayed.
    (case replayed of
        Some result \<Rightarrow> replayOutcome result ackIDs
      | None \<Rightarrow>
      andthen (authenticateRun sv (oi_token i)) (\<lambda>(run, task).
      andthen (reject (t_version task \<noteq> t_version (snd snapshot) \<or> t_status task \<noteq> t_status (snd snapshot) \<or>
                  r_version run \<noteq> r_version (fst snapshot) \<or> r_state run \<noteq> r_state (fst snapshot))
            (task_conflict VERSION_CONFLICT task)) (\<lambda>_.
      andthen (check (ValidateTaskOperation (t_kind task) (outcome_text (oi_outcome i)))) (\<lambda>_.
      andthen (reject (t_pending_action task \<noteq> NoAction) (task_conflict ACTION_IN_PROGRESS task)) (\<lambda>_.
      andthen (nowText sv) (\<lambda>now.
      andthen (acknowledgeAgentMessages ackIDs (t_project_id task) (r_agent_id run) (r_id run)
            requestID now) (\<lambda>acknowledged.
      let run' = outcome_run run (oi_outcome i) f expandedHead now in
      andthen (tx_UpdateRun run' (r_version run) (r_state run)) (\<lambda>_.
      andthen (if oi_outcome i = OutcomeSubmit then requiredID sv ''op'' else ret []) (\<lambda>operationID.
      let task' = outcome_task task run (oi_outcome i) operationID expandedHead now in
      andthen (tx_UpdateTask task' (t_version task) (t_status task)) (\<lambda>_.
      andthen (emit (t_project_id task) TaskEntity (t_id task) ''task.finishing'' AgentActor (r_agent_id run)
            (r_id run) requestID operationID
            (eventPayload [(''outcome'', JString (outcome_text (oi_outcome i)))]) now) (\<lambda>_.
      andthen (emit (t_project_id task) RunEntity (r_id run) ''run.outcome_requested'' AgentActor (r_agent_id run)
            (r_id run) requestID operationID
            (eventPayload [(''outcome'', JString (outcome_text (oi_outcome i)))]) now) (\<lambda>_.
      andthen (whenever (oi_outcome i = OutcomeSubmit) (
        andthen (emit (t_project_id task) TaskEntity (t_id task) ''task.submit_requested'' AgentActor
              (r_agent_id run) (r_id run) requestID operationID
              (eventPayload [(''expected_head'', JString expandedHead)]) now) (\<lambda>_.
        ret ()))) (\<lambda>_.
      andthen (record_dedupe dedupe (r_id run) (t_id task) now) (\<lambda>_.
      ret \<lparr>or_task = task', or_run = run', or_acknowledged = acknowledged\<rparr>))))))))))))))))"

definition RequestOutcome :: "service \<Rightarrow> OutcomeInput \<Rightarrow> OutcomeResult op" where
  "RequestOutcome sv i =
    andthen (canonicalMessageIDs (oi_ack_message_ids i)) (\<lambda>ackIDs.
    andthen (validateOutcomeRequest i) (\<lambda>f.
    andthen (request_id sv (oi_request_id i)) (\<lambda>requestID.
    let dedupe = \<lparr>rq_scope = [], rq_operation = ''task.outcome'', rq_request_id = requestID,
       rq_input_hash = inputFingerprint sv
         [(''Outcome'', JString (outcome_text (oi_outcome i))), (''Reason'', JString (of_reason f)),
          (''Summary'', JString (of_summary f)), (''Expected'', JString (of_expected_head f)),
          (''AckIDs'', joined_ids ackIDs)]\<rparr> in
    andthen (transact (RequestOutcome_snapshot_tx sv i ackIDs dedupe)) (\<lambda>first.
    (case first of
        Inl result \<Rightarrow> ret result
      | Inr snapshot \<Rightarrow>
      andthen (if oi_outcome i = OutcomeSubmit
            then resolveSubmitHead sv (fst snapshot) (snd snapshot) (of_expected_head f) else ret []) (\<lambda>expandedHead.
      transact (applyOutcome sv i ackIDs snapshot f expandedHead requestID dedupe)))))))"

section \<open>The terminal fact\<close>

record RunTerminalInput =
  rt_run_id :: string
  rt_generation :: int
  rt_launch_nonce :: string
  rt_launch_operation_id :: string
  rt_container_id :: string
  rt_state :: run_state
  rt_exit_code :: "int option"
  rt_terminal_reason :: string
  rt_last_error :: string
  rt_runtime_error_code :: string
  rt_native_session_id :: string
  rt_request_id :: string
  rt_operation_id :: string

record RunTerminalResult =
  tr_run :: run
  tr_task :: task
  tr_redelivered :: "message list"

definition runtimeTerminalFence :: "run \<Rightarrow> RunTerminalInput \<Rightarrow> unit op" where
  "runtimeTerminalFence run i =
    andthen (reject (r_generation run \<noteq> rt_generation i \<or> r_launch_operation_id run = [] \<or>
             r_launch_operation_id run \<noteq> rt_launch_operation_id i) (run_conflict STALE_RUN run)) (\<lambda>_.
    (if r_launch_nonce run = [] then
        reject ((r_state run \<noteq> RunStarting \<and> r_state run \<noteq> RunFailed) \<or>
                r_launch_phase run \<noteq> LaunchIntent \<or> r_container_id run \<noteq> [] \<or> rt_state i \<noteq> RunFailed \<or>
                rt_launch_nonce i \<noteq> [] \<or> rt_container_id i \<noteq> []) (run_conflict STALE_RUN run)
      else
        reject (r_launch_nonce run \<noteq> rt_launch_nonce i \<or> r_container_id run \<noteq> rt_container_id i)
          (run_conflict STALE_RUN run)))"

definition sameTerminalFact :: "run \<Rightarrow> RunTerminalInput \<Rightarrow> bool" where
  "sameTerminalFact run i =
     (r_state run = rt_state i \<and> r_exit_code run = rt_exit_code i \<and>
      r_terminal_reason run = rt_terminal_reason i \<and> r_last_error run = rt_last_error i \<and>
      r_runtime_error_code run = rt_runtime_error_code i \<and>
      (rt_native_session_id i = [] \<or> r_native_session_id run = rt_native_session_id i))"

definition exhausted :: "message \<Rightarrow> bool" where
  "exhausted message = (0 < m_max_deliveries message \<and> m_max_deliveries message \<le> m_delivery_count message)"

definition redelivered_message :: "message \<Rightarrow> stamp \<Rightarrow> message" where
  "redelivered_message message now = message\<lparr>m_state := MessagePending, m_delivered_run_id := [],
     m_last_delivery_error := ''run terminal before acknowledgement'',
     m_version := m_version message + 1,
     m_next_delivery_at :=
       (if exhausted message then NoStamp else runtimeRetryAt now (m_delivery_count message))\<rparr>"

definition redeliverMessage :: "run \<Rightarrow> string \<Rightarrow> string \<Rightarrow> stamp \<Rightarrow> message \<Rightarrow> message op" where
  "redeliverMessage run requestID operationID now message =
    (let message' = redelivered_message message now in
    let payload = eventPayload
       [(''run_id'', JString (r_id run)), (''delivery_count'', JInt (m_delivery_count message))] in
    andthen (tx_UpdateMessage message' (m_version message) MessageDelivered) (\<lambda>_.
    andthen (emit (m_project_id message) MessageEntity (m_id message) ''message.redelivered'' Daemon [] (r_id run)
       requestID operationID payload now) (\<lambda>_.
    andthen (whenever (exhausted message) (
      andthen (emit (m_project_id message) MessageEntity (m_id message) ''message.delivery_exhausted'' Daemon []
         (r_id run) requestID operationID payload now) (\<lambda>_.
      ret ()))) (\<lambda>_.
    ret message'))))"

definition redeliverRunMessages :: "run \<Rightarrow> string \<Rightarrow> string \<Rightarrow> stamp \<Rightarrow> message list op" where
  "redeliverRunMessages run requestID operationID now =
    andthen (tx_MessagesForRun (r_id run)) (\<lambda>messages.
    collect (filter (\<lambda>m. m_state m = MessageDelivered) messages)
       (redeliverMessage run requestID operationID now))"

definition waited_task :: "task \<Rightarrow> run \<Rightarrow> stamp option \<Rightarrow> stamp \<Rightarrow> task" where
  "waited_task task run wakeAt now = task\<lparr>t_current_run_id := [], t_wait_reason := r_requested_summary run,
     t_status := (if wakeAt = None then TaskWaiting else TaskQueued),
     t_next_run_at := (case wakeAt of None \<Rightarrow> t_next_run_at task | Some at \<Rightarrow> max at now),
     t_version := t_version task + 1, t_updated_at := now\<rparr>"

definition failed_by_outcome :: "task \<Rightarrow> run \<Rightarrow> stamp \<Rightarrow> task" where
  "failed_by_outcome task run now =
     (clearTaskAction (task\<lparr>t_status := TaskFailed, t_current_run_id := [],
        t_failure_reason := r_requested_summary run\<rparr>))
     \<lparr>t_version := t_version task + 1, t_updated_at := now\<rparr>"

definition afterFailure :: "service \<Rightarrow> task \<Rightarrow> run \<Rightarrow> string \<Rightarrow> stamp \<Rightarrow> unit op" where
  "afterFailure sv task run requestID now =
    andthen (disposeUnresolvedMessages task Daemon [] (r_id run) requestID now) (\<lambda>_.
    notifyParentOfChild sv task Daemon [] (r_id run) requestID now)"

definition projectTerminalTask ::
  "service \<Rightarrow> task \<Rightarrow> run \<Rightarrow> string \<Rightarrow> string \<Rightarrow> stamp \<Rightarrow> task op" where
  "projectTerminalTask sv task run requestID operationID now =
     (case r_requested_outcome run of
        OutcomeWait \<Rightarrow>
          andthen (reject (t_status task \<noteq> TaskFinishing) (task_conflict INVALID_STATE task)) (\<lambda>_.
          andthen (tx_PendingWakeAt (t_id task)) (\<lambda>wakeAt.
          let task' = waited_task task run wakeAt now in
          andthen (tx_UpdateTask task' (t_version task) (t_status task)) (\<lambda>_.
          andthen (emit (t_project_id task) TaskEntity (t_id task)
            (if wakeAt = None then ''task.waiting'' else ''task.requeued'') Daemon [] (r_id run) requestID
            operationID (eventPayload [(''reason'', JString (t_wait_reason task'))]) now) (\<lambda>_.
          ret task'))))
      | OutcomeFail \<Rightarrow>
        andthen (reject (t_status task \<noteq> TaskFinishing) (task_conflict INVALID_STATE task)) (\<lambda>_.
        let task' = failed_by_outcome task run now in
        andthen (tx_UpdateTask task' (t_version task) (t_status task)) (\<lambda>_.
        andthen (emit (t_project_id task) TaskEntity (t_id task) ''task.failed'' Daemon [] (r_id run) requestID
            operationID (eventPayload [(''reason'', JString (t_failure_reason task'))]) now) (\<lambda>_.
        andthen (afterFailure sv task' run requestID now) (\<lambda>_.
        ret task'))))
      | OutcomeSubmit \<Rightarrow>
        andthen (reject (t_status task \<noteq> TaskFinishing \<or> t_pending_action task \<noteq> Capture \<or>
                  t_pending_action_run_id task \<noteq> r_id run) (task_conflict ACTION_IN_PROGRESS task)) (\<lambda>_.
        ret task)
      | NoOutcome \<Rightarrow>
          if t_status task = TaskQueued \<or> t_status task = TaskRunning then
            andthen (projectRuntimeFailure task run requestID now) (\<lambda>task'.
            andthen (whenever (t_status task' = TaskFailed) (afterFailure sv task' run requestID now)) (\<lambda>_.
            ret task'))
          else throw (task_conflict INVALID_STATE task)
      | OutcomeText _ \<Rightarrow> throw (NewError INTERNAL False))"

definition terminal_run :: "run \<Rightarrow> RunTerminalInput \<Rightarrow> stamp \<Rightarrow> run" where
  "terminal_run run i now = run\<lparr>r_state := rt_state i, r_exit_code := rt_exit_code i,
     r_terminal_reason := rt_terminal_reason i, r_last_error := rt_last_error i,
     r_runtime_error_code := rt_runtime_error_code i,
     r_native_session_id :=
       (if rt_native_session_id i \<noteq> [] then rt_native_session_id i else r_native_session_id run),
     r_token_revoked_at := (if r_token_revoked_at run = NoStamp then now else r_token_revoked_at run),
     r_ended_at := now, r_version := r_version run + 1\<rparr>"

definition released_by_terminal :: "task \<Rightarrow> stamp \<Rightarrow> task" where
  "released_by_terminal task now =
     task\<lparr>t_current_run_id := [], t_version := t_version task + 1, t_updated_at := now\<rparr>"

definition projectTerminal ::
  "service \<Rightarrow> task \<Rightarrow> run \<Rightarrow> string \<Rightarrow> string \<Rightarrow> stamp \<Rightarrow> task op" where
  "projectTerminal sv task run requestID operationID now =
     (if t_current_run_id task = r_id run then
        (if t_status task = TaskCancelled then
          (let task' = released_by_terminal task now in
          andthen (tx_UpdateTask task' (t_version task) TaskCancelled) (\<lambda>_.
          ret task'))
         else if t_generation task = r_generation run then
           projectTerminalTask sv task run requestID operationID now
         else ret task)
      else ret task)"

definition RecordRunTerminal_tx :: "service \<Rightarrow> RunTerminalInput \<Rightarrow> string \<Rightarrow> RunTerminalResult op" where
  "RecordRunTerminal_tx sv i requestID =
    andthen (tx_Run (rt_run_id i)) (\<lambda>run.
    andthen (runtimeTerminalFence run i) (\<lambda>_.
    andthen (tx_Task (r_task_id run)) (\<lambda>task.
    (if IsRunTerminal (r_state run) then
      andthen (reject (\<not> sameTerminalFact run i) (run_conflict INVALID_STATE run)) (\<lambda>_.
      ret \<lparr>tr_run = run, tr_task = task, tr_redelivered = []\<rparr>)
      else
      andthen (reject (ValidateRunTransition (r_state run) (rt_state i) \<noteq> None) (run_conflict INVALID_STATE run)) (\<lambda>_.
      andthen (nowText sv) (\<lambda>now.
      let run' = terminal_run run i now in
      andthen (tx_UpdateRun run' (r_version run) (r_state run)) (\<lambda>_.
      andthen (redeliverRunMessages run' requestID (rt_operation_id i) now) (\<lambda>redelivered.
      andthen (projectTerminal sv task run' requestID (rt_operation_id i) now) (\<lambda>task'.
      andthen (emit (r_project_id run) RunEntity (r_id run) (''run.'' @ run_state_text (r_state run')) Daemon []
          (r_id run) requestID (rt_operation_id i)
          (eventPayload [(''reason'', JString (r_terminal_reason run')),
             (''exit_code'', (case r_exit_code run' of None \<Rightarrow> JNull | Some c \<Rightarrow> JInt c)),
             (''runtime_error_code'', JString (r_runtime_error_code run'))]) now) (\<lambda>_.
      ret \<lparr>tr_run = run', tr_task = task', tr_redelivered = redelivered\<rparr>))))))))))"

definition bounded_terminal :: "RunTerminalInput \<Rightarrow> string \<Rightarrow> RunTerminalInput" where
  "bounded_terminal i runID = i\<lparr>rt_run_id := runID,
     rt_terminal_reason := boundedDurableText (rt_terminal_reason i) MaximumTerminalTextBytes,
     rt_last_error := boundedDurableText (rt_last_error i) MaximumTerminalTextBytes,
     rt_runtime_error_code := boundedDurableText (rt_runtime_error_code i) 256,
     rt_native_session_id := boundedDurableText (rt_native_session_id i) 1024,
     rt_operation_id := trim_space (rt_operation_id i), rt_launch_nonce := trim_space (rt_launch_nonce i),
     rt_launch_operation_id := trim_space (rt_launch_operation_id i),
     rt_container_id := trim_space (rt_container_id i)\<rparr>"

definition RecordRuntimeRunTerminal :: "service \<Rightarrow> RunTerminalInput \<Rightarrow> RunTerminalResult op" where
  "RecordRuntimeRunTerminal sv i =
    andthen (reject (rt_generation i < 1 \<or> trim_space (rt_launch_operation_id i) = [])
       (NewError INVALID_ARGUMENT False)) (\<lambda>_.
    andthen (requireText ''run_id'' (rt_run_id i)) (\<lambda>runID.
    andthen (reject (\<not> IsRunTerminal (rt_state i)) (NewError INVALID_ARGUMENT False)) (\<lambda>_.
    andthen (request_id sv (rt_request_id i)) (\<lambda>requestID.
    transact (RecordRunTerminal_tx sv (bounded_terminal i runID) requestID)))))"

end
