(* ===== verification/GitFlow.thy ===== *)
theory GitFlow
  imports Terminal
begin

text \<open>
  How a submitted result reaches the canonical branch: the reconciler that consumes the durable capture
  and advance intents (git_reconcile.go), a judge's acceptance (accept.go) and the checkout of a
  captured result (task_checkout.go). The Git interface is called outside the transactions; each
  projection repeats the whole fence of its intent. An error of the Git interface is an
  \<open>ExternalError\<close>, whose text the projections store.
\<close>

fun cause_text :: "failure \<Rightarrow> string" where
  "cause_text (ExternalError text _ _) = text"
| "cause_text _ = []"

fun is_cancelled :: "failure \<Rightarrow> bool" where
  "is_cancelled (ExternalError _ _ cancelled) = cancelled"
| "is_cancelled _ = False"

section \<open>Acceptance\<close>

record AcceptInput =
  ai_token :: string
  ai_task_id :: string
  ai_integration_agent_id :: string
  ai_ack_message_ids :: "string list"
  ai_request_id :: string

record acceptFacts =
  fa_task :: task
  fa_project :: project
  fa_integrator :: agent
  fa_actor :: taskMutationActor

definition acceptFacts_tx ::
  "service \<Rightarrow> string \<Rightarrow> string \<Rightarrow> string \<Rightarrow> taskMutationActor \<Rightarrow> acceptFacts op" where
  "acceptFacts_tx sv token taskID selectedIntegrator actor =
    andthen (tx_Task taskID) (\<lambda>task.
    andthen (authorizeTaskActor sv token task actor) (\<lambda>actor.
    andthen (reject (\<not> mayJudge actor task) (NewError SCOPE_DENIED False)) (\<lambda>_.
    andthen (check (ValidateTaskOperation (t_kind task) ''accept'')) (\<lambda>_.
    andthen (taskActionAvailable task) (\<lambda>_.
    andthen (reject (t_status task \<noteq> TaskSubmitted) (task_conflict INVALID_STATE task)) (\<lambda>_.
    andthen (reject (t_head_sha task = [] \<or> t_head_run_id task = [] \<or> t_task_ref task = [])
       (NewError GIT_INVARIANT_VIOLATION False)) (\<lambda>_.
    andthen (tx_Project (t_project_id task)) (\<lambda>project.
    andthen (reject (p_status project \<noteq> ProjectActive)
       (Conflict INVALID_STATE (project_status_text (p_status project)) (p_version project))) (\<lambda>_.
    let selected = (if selectedIntegrator = [] then p_integration_agent_id project else selectedIntegrator) in
    andthen (reject (selected = []) (NewError INTEGRATION_AGENT_REQUIRED False)) (\<lambda>_.
    andthen (tx_Agent selected) (\<lambda>integrator.
    andthen (reject (a_status integrator \<noteq> AgentActive)
       (Conflict INVALID_STATE (agent_status_text (a_status integrator)) (a_version integrator))) (\<lambda>_.
    ret \<lparr>fa_task = task, fa_project = project, fa_integrator = integrator, fa_actor = actor\<rparr>))))))))))))"

definition RequestAccept_snapshot_tx ::
  "service \<Rightarrow> string \<Rightarrow> string \<Rightarrow> string \<Rightarrow> requestDedupe \<Rightarrow> (task + acceptFacts) op" where
  "RequestAccept_snapshot_tx sv token taskID selectedIntegrator dedupe =
    andthen (taskActorForDedupe sv token) (\<lambda>actor.
    andthen (replay (dedupe\<lparr>rq_scope := ac_dedupe_scope actor\<rparr>)) (\<lambda>replayed.
    (case replayed of
        Some result \<Rightarrow>
      andthen (tx_Task (dd_id result)) (\<lambda>task.
      ret (Inl task))
      | None \<Rightarrow>
      andthen (acceptFacts_tx sv token taskID selectedIntegrator actor) (\<lambda>facts.
      ret (Inr facts)))))"

definition accepted_task ::
  "task \<Rightarrow> taskMutationActor \<Rightarrow> string \<Rightarrow> string \<Rightarrow> string \<Rightarrow> string \<Rightarrow> stamp \<Rightarrow> task" where
  "accepted_task task actor integrator operationID actualCanonical actualTaskHead now =
     task\<lparr>t_accepted_by_kind := ac_kind actor, t_accepted_by_id := ac_id actor, t_accepted_at := now,
       t_accepted_integration_agent_id := integrator, t_pending_action := Advance,
       t_pending_action_id := operationID, t_pending_action_run_id := t_head_run_id task,
       t_pending_expected_sha := actualCanonical, t_pending_target_sha := actualTaskHead,
       t_pending_started_at := now, t_version := t_version task + 1,
       t_pending_action_version := t_version task + 1, t_updated_at := now\<rparr>"

definition RequestAccept_apply_tx ::
  "service \<Rightarrow> string \<Rightarrow> string \<Rightarrow> string list \<Rightarrow> acceptFacts \<Rightarrow> string \<Rightarrow> string \<Rightarrow> requestDedupe \<Rightarrow> task op" where
  "RequestAccept_apply_tx sv token taskID ackIDs snapshot actualCanonical actualTaskHead dedupe =
    andthen (taskActorForDedupe sv token) (\<lambda>actor.
    let dedupe = dedupe\<lparr>rq_scope := ac_dedupe_scope actor\<rparr> in
    andthen (replay dedupe) (\<lambda>replayed.
    (case replayed of
        Some result \<Rightarrow> tx_Task (dd_id result)
      | None \<Rightarrow>
      andthen (acceptFacts_tx sv token taskID (a_id (fa_integrator snapshot)) actor) (\<lambda>facts.
      let task = fa_task facts in
      let actor = fa_actor facts in
      andthen (reject (t_version task \<noteq> t_version (fa_task snapshot) \<or>
                  t_task_ref task \<noteq> t_task_ref (fa_task snapshot) \<or>
                  t_head_sha task \<noteq> t_head_sha (fa_task snapshot)) (task_conflict VERSION_CONFLICT task)) (\<lambda>_.
      andthen (reject (p_version (fa_project facts) \<noteq> p_version (fa_project snapshot) \<or>
                  p_control_repo_path (fa_project facts) \<noteq> p_control_repo_path (fa_project snapshot) \<or>
                  p_canonical_ref (fa_project facts) \<noteq> p_canonical_ref (fa_project snapshot))
            (Conflict VERSION_CONFLICT (project_status_text (p_status (fa_project facts)))
               (p_version (fa_project facts)))) (\<lambda>_.
      andthen (nowText sv) (\<lambda>now.
      andthen (acknowledgeForActor ackIDs (t_project_id task) actor (rq_request_id dedupe) now) (\<lambda>_.
      andthen (requiredID sv ''op'') (\<lambda>operationID.
      let task' = accepted_task task actor (a_id (fa_integrator snapshot)) operationID actualCanonical
            actualTaskHead now in
      andthen (tx_UpdateTask task' (t_version task) TaskSubmitted) (\<lambda>_.
      andthen (each [''task.accept_requested'', ''git.canonical_advance_requested''] (\<lambda>kind.
        andthen (emit (t_project_id task) TaskEntity (t_id task) kind (ac_kind actor) (ac_id actor)
              (ac_run_id actor) (rq_request_id dedupe) operationID
              (eventPayload [(''integration_agent_id'', JString (a_id (fa_integrator snapshot))),
                 (''expected_sha'', JString actualCanonical), (''target_sha'', JString actualTaskHead)]) now) (\<lambda>_.
        ret ()))) (\<lambda>_.
      andthen (record_dedupe dedupe (t_id task) [] now) (\<lambda>_.
      ret task'))))))))))))"

definition RequestAccept :: "service \<Rightarrow> AcceptInput \<Rightarrow> task op" where
  "RequestAccept sv i =
    andthen (requireText ''task_id'' (ai_task_id i)) (\<lambda>taskID.
    let selected = trim_space (ai_integration_agent_id i) in
    andthen (canonicalMessageIDs (ai_ack_message_ids i)) (\<lambda>ackIDs.
    andthen (request_id sv (ai_request_id i)) (\<lambda>requestID.
    let dedupe = \<lparr>rq_scope = [], rq_operation = ''task.accept'', rq_request_id = requestID,
       rq_input_hash = inputFingerprint sv
         [(''TaskID'', JString taskID), (''IntegrationAgentID'', JString selected),
          (''AckIDs'', joined_ids ackIDs)]\<rparr> in
    andthen (transact (RequestAccept_snapshot_tx sv (ai_token i) taskID selected dedupe)) (\<lambda>first.
    (case first of
        Inl task \<Rightarrow> ret task
      | Inr snapshot \<Rightarrow>
      andthen (reject (\<not> sv_task_git sv) (NewError GIT_INVARIANT_VIOLATION False)) (\<lambda>_.
      andthen (wrap (WrapError GIT_INVARIANT_VIOLATION False) (external (\<lambda>n.
            g_resolve (sv_git sv) n (p_control_repo_path (fa_project snapshot))
              (p_canonical_ref (fa_project snapshot))))) (\<lambda>actualCanonical.
      andthen (wrap (WrapError GIT_INVARIANT_VIOLATION False) (external (\<lambda>n.
            g_resolve_task_ref (sv_git sv) n
              \<lparr>gt_project_id = t_project_id (fa_task snapshot),
               gt_control_repo = p_control_repo_path (fa_project snapshot),
               gt_task_ref = t_task_ref (fa_task snapshot),
               gt_expected_sha = t_head_sha (fa_task snapshot)\<rparr>))) (\<lambda>actualTaskHead.
      transact (RequestAccept_apply_tx sv (ai_token i) taskID ackIDs snapshot actualCanonical
            actualTaskHead dedupe)))))))))"

section \<open>Capture\<close>

definition capture_intent :: "task \<Rightarrow> run \<Rightarrow> project \<Rightarrow> GitCaptureIntent" where
  "capture_intent task run project =
     \<lparr>gc_project_id = t_project_id task, gc_task_id = t_id task, gc_run_id = r_id run,
      gc_workspace_path = r_workspace_path run, gc_control_repo = p_control_repo_path project,
      gc_base_sha = t_base_sha task, gc_expected_head = t_pending_expected_sha task,
      gc_source = task_source task, gc_operation_id = t_pending_action_id task\<rparr>"

definition sameCaptureFence :: "task \<Rightarrow> run \<Rightarrow> task \<Rightarrow> bool" where
  "sameCaptureFence task run intent =
     (t_status task = TaskFinishing \<and> t_pending_action task = Capture \<and>
      t_pending_action_id task = t_pending_action_id intent \<and>
      t_version task = t_pending_action_version intent \<and>
      t_pending_action_version task = t_pending_action_version intent \<and>
      t_pending_action_run_id task = r_id run \<and> t_current_run_id task = r_id run \<and>
      t_generation task = r_generation run \<and> IsRunTerminal (r_state run) \<and>
      r_requested_outcome run = OutcomeSubmit \<and> r_expected_head run = t_pending_expected_sha task)"

definition captured_task :: "task \<Rightarrow> run \<Rightarrow> GitCaptureFact \<Rightarrow> stamp \<Rightarrow> task" where
  "captured_task task run gitFact now =
     (clearTaskAction (task\<lparr>t_head_sha := cf_head_sha gitFact, t_head_run_id := r_id run,
        t_task_ref := cf_task_ref gitFact, t_evidence_type := EvidenceCaptured,
        t_result_summary := r_requested_summary run, t_current_run_id := [],
        t_status := TaskSubmitted, t_submitted_at := now\<rparr>))
     \<lparr>t_version := t_version task + 1, t_updated_at := now\<rparr>"

text \<open>The result of an integration task is accepted by the system at once.\<close>

definition self_accepted :: "task \<Rightarrow> run \<Rightarrow> GitCaptureFact \<Rightarrow> string \<Rightarrow> string \<Rightarrow> stamp \<Rightarrow> task" where
  "self_accepted task run gitFact actualCanonical operationID now =
     task\<lparr>t_accepted_by_kind := System, t_accepted_by_id := [], t_accepted_at := now,
       t_accepted_integration_agent_id := t_assignee_agent_id task, t_pending_action := Advance,
       t_pending_action_id := operationID, t_pending_action_run_id := r_id run,
       t_pending_expected_sha := actualCanonical, t_pending_target_sha := cf_head_sha gitFact,
       t_pending_started_at := now, t_pending_action_version := t_version task\<rparr>"

definition finalizeCapture_tx :: "service \<Rightarrow> task \<Rightarrow> run \<Rightarrow> GitCaptureFact \<Rightarrow> string \<Rightarrow> unit op" where
  "finalizeCapture_tx sv intent intentRun gitFact actualCanonical =
    andthen (tx_Task (t_id intent)) (\<lambda>task.
    andthen (tx_Run (r_id intentRun)) (\<lambda>run.
    andthen (reject (\<not> sameCaptureFence task run intent) (task_conflict STALE_RUN task)) (\<lambda>_.
    andthen (reject (cf_head_sha gitFact \<noteq> t_pending_expected_sha task \<or> cf_task_ref gitFact = [])
       (NewError GIT_INVARIANT_VIOLATION False)) (\<lambda>_.
    andthen (tx_Project (t_project_id task)) (\<lambda>project.
    andthen (reject (p_status project \<noteq> ProjectActive)
       (Conflict INVALID_STATE (project_status_text (p_status project)) (p_version project))) (\<lambda>_.
    andthen (nowText sv) (\<lambda>now.
    let task1 = captured_task task run gitFact now in
    andthen (if t_kind task = TaskIntegration then
      andthen (tx_Task (t_source_task_id task)) (\<lambda>source.
      andthen (check (integrationSourceFence source task1)) (\<lambda>_.
      andthen (reject (actualCanonical = []) (NewError GIT_INVARIANT_VIOLATION False)) (\<lambda>_.
      andthen (requiredID sv ''op'') (\<lambda>operationID.
      ret (self_accepted task1 run gitFact actualCanonical operationID now))))) else ret task1) (\<lambda>task'.
    andthen (tx_UpdateTask task' (t_version task) TaskFinishing) (\<lambda>_.
    let payload = eventPayload
       [(''head_sha'', JString (cf_head_sha gitFact)), (''task_ref'', JString (cf_task_ref gitFact))] in
    andthen (emit (t_project_id task) TaskEntity (t_id task) ''git.result_captured'' Daemon [] (r_id run) []
       (t_pending_action_id intent) payload now) (\<lambda>_.
    andthen (emit (t_project_id task) TaskEntity (t_id task) ''task.submitted'' Daemon [] (r_id run) []
       (t_pending_action_id intent) payload now) (\<lambda>_.
    andthen (disposeUnresolvedMessages task' Daemon [] (r_id run) [] now) (\<lambda>_.
    (if t_kind task = TaskIntegration then
      andthen (emit (t_project_id task) TaskEntity (t_id task) ''git.canonical_advance_requested'' System []
          (r_id run) [] (t_pending_action_id task')
          (eventPayload [(''expected_sha'', JString actualCanonical),
             (''target_sha'', JString (cf_head_sha gitFact))]) now) (\<lambda>_.
      ret ())
      else notifyParentOfChild sv task' Daemon [] (r_id run) [] now)))))))))))))"

definition capture_failure_reason :: "failure \<Rightarrow> string" where
  "capture_failure_reason cause =
     boundedDurableText (''GIT_CAPTURE_FAILED: '' @ cause_text cause) MaximumTerminalTextBytes"

definition capture_failed_task :: "task \<Rightarrow> failure \<Rightarrow> stamp \<Rightarrow> task" where
  "capture_failed_task task cause now =
     (let task1 = clearTaskAction (task\<lparr>t_current_run_id := [],
            t_failure_reason := capture_failure_reason cause\<rparr>);
          decision = runtimeRetryDecision (t_retry_count task) (t_max_retries task);
          task2 =
            (if isGitInvariant cause then task1\<lparr>t_status := TaskFailed\<rparr>
             else if rd_status decision = TaskQueued then
               task1\<lparr>t_status := TaskQueued, t_retry_count := rd_retry_count decision,
                 t_next_run_at := runtimeRetryAt now (rd_retry_count decision)\<rparr>
             else task1\<lparr>t_status := rd_status decision, t_retry_count := rd_retry_count decision\<rparr>)
      in task2\<lparr>t_version := t_version task + 1, t_updated_at := now\<rparr>)"

definition broken_project :: "project \<Rightarrow> string \<Rightarrow> stamp \<Rightarrow> project" where
  "broken_project project reason now = project\<lparr>p_status := ProjectError, p_last_error := reason,
     p_version := p_version project + 1, p_updated_at := now\<rparr>"

definition breakProject :: "project \<Rightarrow> string \<Rightarrow> stamp \<Rightarrow> unit op" where
  "breakProject project reason now =
     whenever (p_status project = ProjectActive)
       (tx_UpdateProject (broken_project project reason now) (p_version project) ProjectActive)"

definition projectCaptureFailure_tx :: "service \<Rightarrow> task \<Rightarrow> run \<Rightarrow> failure \<Rightarrow> unit op" where
  "projectCaptureFailure_tx sv intent intentRun cause =
    andthen (tx_Task (t_id intent)) (\<lambda>task.
    andthen (tx_Run (r_id intentRun)) (\<lambda>run.
    whenever (sameCaptureFence task run intent) (
      andthen (nowText sv) (\<lambda>now.
      let task' = capture_failed_task task cause now in
      andthen (tx_UpdateTask task' (t_version task) TaskFinishing) (\<lambda>_.
      andthen (whenever (isGitInvariant cause) (
        andthen (tx_Project (t_project_id task)) (\<lambda>project.
        breakProject project (t_failure_reason task') now))) (\<lambda>_.
      andthen (emit (t_project_id task) TaskEntity (t_id task)
         (if t_status task' = TaskFailed then ''task.failed'' else ''task.requeued'') Daemon [] (r_id run) []
         (t_pending_action_id intent) (eventPayload [(''reason'', JString (t_failure_reason task'))]) now) (\<lambda>_.
      whenever (t_status task' = TaskFailed) (
        andthen (disposeUnresolvedMessages task' Daemon [] (r_id run) [] now) (\<lambda>_.
        notifyParentOfChild sv task' Daemon [] (r_id run) [] now)))))))))"

definition reconcileCapture :: "service \<Rightarrow> task \<Rightarrow> unit op" where
  "reconcileCapture sv snapshot =
    andthen (tx_Task (t_id snapshot)) (\<lambda>task.
    whenever (t_pending_action task = Capture) (
      andthen (tx_Run (t_pending_action_run_id task)) (\<lambda>run.
      whenever (IsRunTerminal (r_state run)) (
        andthen (tx_Project (t_project_id task)) (\<lambda>project.
        let intent = capture_intent task run project in
        andthen (attempt (\<lambda>n. g_capture (sv_git sv) n intent)) (\<lambda>captured.
        (case captured of
            Inl cause \<Rightarrow>
              if is_cancelled cause then throw cause
              else transact (projectCaptureFailure_tx sv task run cause)
          | Inr gitFact \<Rightarrow>
          andthen (if t_kind task = TaskIntegration
                then wrap (WrapError GIT_INVARIANT_VIOLATION False) (external (\<lambda>n.
                  g_resolve (sv_git sv) n (p_control_repo_path project) (p_canonical_ref project)))
                else ret []) (\<lambda>actualCanonical.
          andthen (transact (finalizeCapture_tx sv task run gitFact actualCanonical)) (\<lambda>_.
          wrap (WrapError GIT_INVARIANT_VIOLATION False)
                (external (\<lambda>n. g_cleanup_capture (sv_git sv) n intent)))))))))))"

section \<open>Advance\<close>

definition sameAdvanceFence :: "task \<Rightarrow> task \<Rightarrow> failure option" where
  "sameAdvanceFence task intent =
     (if t_status task \<noteq> TaskSubmitted \<or> t_pending_action task \<noteq> Advance \<or>
         t_pending_action_id task \<noteq> t_pending_action_id intent \<or>
         t_version task \<noteq> t_pending_action_version intent \<or>
         t_pending_action_version task \<noteq> t_pending_action_version intent \<or>
         t_pending_expected_sha task \<noteq> t_pending_expected_sha intent \<or>
         t_pending_target_sha task \<noteq> t_pending_target_sha intent \<or>
         t_task_ref task \<noteq> t_task_ref intent \<or> t_head_sha task \<noteq> t_head_sha intent \<or>
         t_accepted_integration_agent_id task \<noteq> t_accepted_integration_agent_id intent
      then Some (task_conflict VERSION_CONFLICT task) else None)"

definition advanced_project :: "project \<Rightarrow> string \<Rightarrow> stamp \<Rightarrow> project" where
  "advanced_project project canonicalSHA now = project\<lparr>p_canonical_sha := canonicalSHA,
     p_version := p_version project + 1, p_updated_at := now\<rparr>"

definition updateCanonical :: "project \<Rightarrow> string \<Rightarrow> stamp \<Rightarrow> unit op" where
  "updateCanonical project canonicalSHA now =
     whenever (p_canonical_sha project \<noteq> canonicalSHA)
       (tx_UpdateProject (advanced_project project canonicalSHA now) (p_version project) ProjectActive)"

definition integrated_task :: "task \<Rightarrow> string \<Rightarrow> stamp \<Rightarrow> task" where
  "integrated_task task canonicalSHA now = task\<lparr>t_status := TaskCompleted,
     t_final_canonical_sha := canonicalSHA, t_completed_at := now, t_closed_at := now,
     t_version := t_version task + 1, t_updated_at := now\<rparr>"

fun advance_outcome_text :: "GitAdvanceOutcome \<Rightarrow> string" where
  "advance_outcome_text GitAdvanceUpdated = ''updated''"
| "advance_outcome_text GitAdvanceIncluded = ''included''"
| "advance_outcome_text GitAdvanceStale = ''stale''"
| "advance_outcome_text (GitAdvanceOther s) = s"

definition completeSource :: "service \<Rightarrow> task \<Rightarrow> task \<Rightarrow> string \<Rightarrow> string \<Rightarrow> stamp \<Rightarrow> unit op" where
  "completeSource sv task intent canonicalSHA runID now =
    andthen (tx_Task (t_source_task_id task)) (\<lambda>source.
    andthen (check (integrationSourceFence source task)) (\<lambda>_.
    let source' = integrated_task source canonicalSHA now in
    andthen (tx_UpdateTask source' (t_version source) TaskSubmitted) (\<lambda>_.
    let payload = eventPayload [(''canonical_sha'', JString canonicalSHA),
       (''integration_task_id'', JString (t_id task))] in
    andthen (emit (t_project_id source) TaskEntity (t_id source) ''git.canonical_advanced'' Daemon [] runID []
       (t_pending_action_id intent) payload now) (\<lambda>_.
    andthen (emit (t_project_id source) TaskEntity (t_id source) ''task.completed'' Daemon [] runID []
       (t_pending_action_id intent) payload now) (\<lambda>_.
    andthen (disposeUnresolvedMessages source' Daemon [] runID [] now) (\<lambda>_.
    notifyParentOfChild sv source' Daemon [] runID [] now))))))"

definition finalizeSuccessfulAdvance_tx :: "service \<Rightarrow> task \<Rightarrow> GitAdvanceFact \<Rightarrow> unit op" where
  "finalizeSuccessfulAdvance_tx sv intent gitFact =
    andthen (tx_Task (t_id intent)) (\<lambda>task.
    andthen (check (sameAdvanceFence task intent)) (\<lambda>_.
    andthen (tx_Project (t_project_id task)) (\<lambda>project.
    andthen (reject (p_status project \<noteq> ProjectActive \<or> af_actual_sha gitFact = [])
       (Conflict INVALID_STATE (project_status_text (p_status project)) (p_version project))) (\<lambda>_.
    andthen (nowText sv) (\<lambda>now.
    andthen (updateCanonical project (af_actual_sha gitFact) now) (\<lambda>_.
    andthen (whenever (t_kind task = TaskIntegration)
       (completeSource sv task intent (af_actual_sha gitFact) (t_head_run_id task) now)) (\<lambda>_.
    let task' = clearTaskAction (integrated_task task (af_actual_sha gitFact) now) in
    andthen (tx_UpdateTask task' (t_version task) TaskSubmitted) (\<lambda>_.
    let payload = eventPayload [(''canonical_sha'', JString (af_actual_sha gitFact)),
       (''outcome'', JString (advance_outcome_text (af_outcome gitFact)))] in
    andthen (emit (t_project_id task) TaskEntity (t_id task) ''git.canonical_advanced'' Daemon [] (t_head_run_id task)
       [] (t_pending_action_id intent) payload now) (\<lambda>_.
    andthen (emit (t_project_id task) TaskEntity (t_id task) ''task.completed'' Daemon [] (t_head_run_id task) []
       (t_pending_action_id intent) payload now) (\<lambda>_.
    andthen (disposeUnresolvedMessages task' Daemon [] (t_head_run_id task) [] now) (\<lambda>_.
    whenever (t_kind task \<noteq> TaskIntegration)
       (notifyParentOfChild sv task' Daemon [] (t_head_run_id task) [] now))))))))))))"

definition git_task_message :: "task \<Rightarrow> string \<Rightarrow> string \<Rightarrow> stamp \<Rightarrow> messageInsert" where
  "git_task_message task code body now =
     \<lparr>mi_project_id = t_project_id task, mi_task_id = t_id task, mi_related_task_id = [],
      mi_sender_kind = System, mi_sender_id = [], mi_recipient_kind = AgentActor,
      mi_recipient_id = t_assignee_agent_id task, mi_recipient_participant_id = [], mi_reply_to = [],
      mi_body = boundedDurableText body MaximumMessageBodyBytes, mi_system_code = code, mi_wake = True,
      mi_max_deliveries = 3,
      mi_idempotency_key = code @ '':'' @ t_id task @ '':'' @ int_text (t_version task),
      mi_actor_kind = System, mi_actor_id = [], mi_actor_run_id = [], mi_request_id = [],
      mi_operation_id = [], mi_now = now,
      mi_payload = eventPayload [(''task_id'', JString (t_id task)), (''system_code'', JString code)]\<rparr>"

definition insertGitTaskMessage :: "service \<Rightarrow> task \<Rightarrow> string \<Rightarrow> string \<Rightarrow> stamp \<Rightarrow> unit op" where
  "insertGitTaskMessage sv task code body now =
    andthen (insertMessage sv (git_task_message task code body now)) (\<lambda>_.
    ret ())"

text \<open>An integration task whose target moved is queued again, in its workspace.\<close>

definition requeued_integration :: "task \<Rightarrow> stamp \<Rightarrow> task" where
  "requeued_integration task now =
     (clearTaskAction (task\<lparr>t_status := TaskQueued, t_current_run_id := [], t_next_run_at := now\<rparr>))
     \<lparr>t_version := t_version task + 1, t_updated_at := now\<rparr>"

definition requeueIntegration :: "service \<Rightarrow> task \<Rightarrow> task \<Rightarrow> string \<Rightarrow> stamp \<Rightarrow> unit op" where
  "requeueIntegration sv task intent canonicalSHA now =
    andthen (tx_Task (t_source_task_id task)) (\<lambda>source.
    andthen (check (integrationSourceFence source task)) (\<lambda>_.
    let task' = requeued_integration task now in
    andthen (tx_UpdateTask task' (t_version task) TaskSubmitted) (\<lambda>_.
    andthen (insertGitTaskMessage sv task' ''integration_stale''
       (''Canonical advanced to '' @ canonicalSHA @
        ''. Integrate it into the existing workspace and submit again.'') now) (\<lambda>_.
    andthen (emit (t_project_id task) TaskEntity (t_id task) ''git.integration_requeued'' Daemon []
       (t_head_run_id task) [] (t_pending_action_id intent)
       (eventPayload [(''canonical_sha'', JString canonicalSHA)]) now) (\<lambda>_.
    ret ())))))"

definition integration_task :: "task \<Rightarrow> string \<Rightarrow> string \<Rightarrow> stamp \<Rightarrow> task" where
  "integration_task source integrationID canonicalSHA now =
     (new_task integrationID (t_project_id source) TaskIntegration TaskQueued System [] now)
     \<lparr>t_assignee_agent_id := t_accepted_integration_agent_id source,
      t_title := ''Integrate '' @ t_id source,
      t_description := ''Integrate the fixed source task ref into the current canonical branch.'',
      t_priority := t_priority source, t_max_retries := t_max_retries source, t_base_sha := canonicalSHA,
      t_source_task_id := t_id source, t_source_run_id := t_head_run_id source,
      t_source_task_ref := t_task_ref source, t_source_head_sha := t_head_sha source,
      t_source_accept_version := t_version source + 1, t_observed_canonical_sha := canonicalSHA\<rparr>"

definition linked_source :: "task \<Rightarrow> string \<Rightarrow> stamp \<Rightarrow> task" where
  "linked_source task integrationID now =
     (clearTaskAction (task\<lparr>t_integration_task_id := integrationID\<rparr>))
     \<lparr>t_version := t_version task + 1, t_updated_at := now\<rparr>"

definition createIntegration :: "service \<Rightarrow> task \<Rightarrow> task \<Rightarrow> string \<Rightarrow> stamp \<Rightarrow> unit op" where
  "createIntegration sv task intent canonicalSHA now =
    andthen (tx_Agent (t_accepted_integration_agent_id task)) (\<lambda>integrator.
    andthen (reject (a_status integrator = AgentArchived) (NewError GIT_INVARIANT_VIOLATION False)) (\<lambda>_.
    andthen (requiredID sv ''tsk'') (\<lambda>integrationID.
    andthen (tx_UpdateTask (linked_source task integrationID now) (t_version task) TaskSubmitted) (\<lambda>_.
    let integration = integration_task task integrationID canonicalSHA now in
    andthen (tx_InsertTask integration) (\<lambda>_.
    andthen (insertGitTaskMessage sv integration ''integration_required''
       (''Integrate source '' @ t_id task @ '' at '' @ t_head_sha task @ '' into canonical '' @
        canonicalSHA @ ''.'') now) (\<lambda>_.
    let payload = eventPayload [(''source_task_id'', JString (t_id task)),
       (''source_task_ref'', JString (t_task_ref task)), (''canonical_sha'', JString canonicalSHA)] in
    andthen (emit (t_project_id task) TaskEntity integrationID ''task.created'' System [] [] []
       (t_pending_action_id intent) payload now) (\<lambda>_.
    andthen (emit (t_project_id task) TaskEntity (t_id task) ''git.integration_required'' Daemon []
       (t_head_run_id task) [] (t_pending_action_id intent) payload now) (\<lambda>_.
    ret ()))))))))"

definition finalizeStaleAdvance_tx :: "service \<Rightarrow> task \<Rightarrow> GitAdvanceFact \<Rightarrow> unit op" where
  "finalizeStaleAdvance_tx sv intent gitFact =
    andthen (tx_Task (t_id intent)) (\<lambda>task.
    andthen (check (sameAdvanceFence task intent)) (\<lambda>_.
    andthen (tx_Project (t_project_id task)) (\<lambda>project.
    andthen (reject (p_status project \<noteq> ProjectActive)
       (Conflict INVALID_STATE (project_status_text (p_status project)) (p_version project))) (\<lambda>_.
    andthen (nowText sv) (\<lambda>now.
    andthen (updateCanonical project (af_actual_sha gitFact) now) (\<lambda>_.
    (if t_kind task = TaskIntegration then requeueIntegration sv task intent (af_actual_sha gitFact) now
      else createIntegration sv task intent (af_actual_sha gitFact) now)))))))"

definition advance_failed_task :: "task \<Rightarrow> string \<Rightarrow> stamp \<Rightarrow> task" where
  "advance_failed_task task reason now =
     (clearTaskAction (task\<lparr>t_status := TaskFailed, t_failure_reason := reason\<rparr>))
     \<lparr>t_version := t_version task + 1, t_updated_at := now\<rparr>"

definition projectAdvanceInvariantFailure_tx :: "service \<Rightarrow> task \<Rightarrow> failure \<Rightarrow> unit op" where
  "projectAdvanceInvariantFailure_tx sv intent cause =
    andthen (tx_Task (t_id intent)) (\<lambda>task.
    whenever (sameAdvanceFence task intent = None) (
      andthen (tx_Project (t_project_id task)) (\<lambda>project.
      andthen (nowText sv) (\<lambda>now.
      let reason = boundedDurableText (''GIT_ADVANCE_FAILED: '' @ cause_text cause) MaximumTerminalTextBytes in
      let task' = advance_failed_task task reason now in
      andthen (tx_UpdateTask task' (t_version task) TaskSubmitted) (\<lambda>_.
      andthen (breakProject project reason now) (\<lambda>_.
      andthen (emit (t_project_id task) TaskEntity (t_id task) ''task.failed'' Daemon [] (t_head_run_id task) []
         (t_pending_action_id intent) (eventPayload [(''reason'', JString reason)]) now) (\<lambda>_.
      andthen (disposeUnresolvedMessages task' Daemon [] (t_head_run_id task) [] now) (\<lambda>_.
      notifyParentOfChild sv task' Daemon [] (t_head_run_id task) [] now))))))))"

definition advance_intent :: "task \<Rightarrow> project \<Rightarrow> GitAdvanceIntent" where
  "advance_intent task project =
     \<lparr>ga_project_id = t_project_id task, ga_task_id = t_id task, ga_run_id = t_head_run_id task,
      ga_operation_id = t_pending_action_id task, ga_control_repo = p_control_repo_path project,
      ga_canonical_ref = p_canonical_ref project, ga_task_ref = t_task_ref task,
      ga_expected_old_sha = t_pending_expected_sha task, ga_target_sha = t_pending_target_sha task\<rparr>"

definition reconcileAdvance :: "service \<Rightarrow> task \<Rightarrow> unit op" where
  "reconcileAdvance sv snapshot =
    andthen (tx_Task (t_id snapshot)) (\<lambda>task.
    whenever (t_pending_action task = Advance) (
      andthen (tx_Project (t_project_id task)) (\<lambda>project.
      andthen (attempt (\<lambda>n. g_advance (sv_git sv) n (advance_intent task project))) (\<lambda>advanced.
      (case advanced of
          Inl cause \<Rightarrow>
            if is_cancelled cause then throw cause
            else if isGitInvariant cause then transact (projectAdvanceInvariantFailure_tx sv task cause)
            else throw cause
        | Inr gitFact \<Rightarrow>
            if af_outcome gitFact = GitAdvanceStale then transact (finalizeStaleAdvance_tx sv task gitFact)
            else if af_outcome gitFact \<noteq> GitAdvanceUpdated \<and> af_outcome gitFact \<noteq> GitAdvanceIncluded
            then throw (NewError GIT_INVARIANT_VIOLATION False)
            else transact (finalizeSuccessfulAdvance_tx sv task gitFact))))))"

section \<open>The reconciler\<close>

definition PendingGitTasks :: "task list op" where
  "PendingGitTasks = read_db (\<lambda>d. Inr (sort_key (\<lambda>t. (t_pending_started_at t, t_id t))
     (filter (\<lambda>t. t_pending_action t = Capture \<or> t_pending_action t = Advance) (d_tasks d))))"

text \<open>A step of a loop that joins the errors of its items: what it did is kept, its error is a value.\<close>

definition joined :: "unit op \<Rightarrow> failure list op" where
  "joined m = (\<lambda>w. case m w of (Inl e, w') \<Rightarrow> (Inr [e], w') | (Inr _, w') \<Rightarrow> (Inr [], w'))"

definition reconcileGitTask :: "service \<Rightarrow> task \<Rightarrow> unit op" where
  "reconcileGitTask sv snapshot =
     (case t_pending_action snapshot of
        Capture \<Rightarrow> reconcileCapture sv snapshot
      | Advance \<Rightarrow> reconcileAdvance sv snapshot
      | NoAction \<Rightarrow> ret ())"

text \<open>The value is the list of joined errors; \<open>nil\<close> is the empty list.\<close>

definition ReconcileGit :: "service \<Rightarrow> failure list op" where
  "ReconcileGit sv =
    andthen PendingGitTasks (\<lambda>tasks.
    (if tasks = [] then ret []
      else
      andthen (reject (\<not> sv_task_git sv) (NewError GIT_INVARIANT_VIOLATION False)) (\<lambda>_.
      andthen (collect tasks (\<lambda>snapshot. joined (reconcileGitTask sv snapshot))) (\<lambda>errors.
      ret (concat errors)))))"

section \<open>Checkout\<close>

definition CheckoutTask :: "service \<Rightarrow> string \<Rightarrow> string \<Rightarrow> GitCheckoutFact op" where
  "CheckoutTask sv taskID destination =
    andthen (requireText ''task_id'' taskID) (\<lambda>taskID.
    let destination = trim_space destination in
    andthen (reject (destination = [] \<or> \<not> canonical_path destination) (NewError INVALID_ARGUMENT False)) (\<lambda>_.
    andthen (tx_Task taskID) (\<lambda>task.
    andthen (reject (t_status task \<noteq> TaskSubmitted \<and> t_status task \<noteq> TaskCompleted)
       (task_conflict INVALID_STATE task)) (\<lambda>_.
    andthen (reject (t_task_ref task = [] \<or> t_head_sha task = []) (NewError GIT_INVARIANT_VIOLATION False)) (\<lambda>_.
    andthen (tx_Project (t_project_id task)) (\<lambda>project.
    andthen (reject (\<not> sv_task_git sv) (NewError GIT_INVARIANT_VIOLATION False)) (\<lambda>_.
    external (\<lambda>n. g_checkout (sv_git sv) n
       \<lparr>gk_task_ref = \<lparr>gt_project_id = t_project_id task, gt_control_repo = p_control_repo_path project,
          gt_task_ref = t_task_ref task, gt_expected_sha = t_head_sha task\<rparr>,
        gk_destination = destination\<rparr>))))))))"

end
