(* ===== verification/Projects.thy ===== *)
theory Projects
  imports GitFlow
begin

text \<open>
  Projects (project.go, project_delete.go): registration in two steps with the Git interface between
  them, repair of a broken project, verification at start-up, archival and deletion.
\<close>

section \<open>Git actions on a project\<close>

definition projectIntent :: "project \<Rightarrow> ProjectGitIntent" where
  "projectIntent project =
     \<lparr>gi_project_id = p_id project, gi_source = p_source project, gi_source_ref = p_source_ref project,
      gi_initial_sha = p_initial_sha project, gi_control_repo = p_control_repo_path project,
      gi_canonical_ref = p_canonical_ref project, gi_operation_id = p_pending_action_id project,
      gi_expected_status = p_status project\<rparr>"

text \<open>The text of \<open>newProjectGitFailure\<close>, with the code that \<open>Error\<close> puts in front of it.\<close>

definition projectGitFailureText :: "failure \<Rightarrow> string" where
  "projectGitFailureText cause =
     (let message = (if trim_space (cause_text cause) = [] then ''project Git action failed''
            else ''project Git action failed: '' @ trim_space (cause_text cause))
      in ''GIT_INVARIANT_VIOLATION: '' @ boundedDurableText message MaximumOutcomeTextBytes)"

definition project_conflict :: "error_code \<Rightarrow> project \<Rightarrow> failure" where
  "project_conflict code project =
     Conflict code (project_status_text (p_status project)) (p_version project)"

definition finished_project :: "project \<Rightarrow> ProjectGitFact \<Rightarrow> failure option \<Rightarrow> stamp \<Rightarrow> project" where
  "finished_project project gitFact actionErr now =
     (let project = project\<lparr>p_pending_action := NoProjectAction, p_pending_action_id := [],
            p_pending_started_at := NoStamp, p_updated_at := now, p_version := p_version project + 1\<rparr>
      in case actionErr of
           Some cause \<Rightarrow> project\<lparr>p_status := ProjectError, p_last_error := projectGitFailureText cause\<rparr>
         | None \<Rightarrow> project\<lparr>p_status := ProjectActive, p_canonical_sha := gf_canonical_sha gitFact,
             p_last_error := []\<rparr>)"

definition no_git_fact :: ProjectGitFact where
  "no_git_fact = \<lparr>gf_source = [], gf_source_ref = [], gf_initial_sha = [], gf_canonical_ref = [],
     gf_canonical_sha = []\<rparr>"

text \<open>The result of a Git action: its facts, or its error with empty facts.\<close>

definition git_fact :: "failure + ProjectGitFact \<Rightarrow> ProjectGitFact" where
  "git_fact r = (case r of Inl _ \<Rightarrow> no_git_fact | Inr gitFact \<Rightarrow> gitFact)"

definition git_error :: "failure + 'a \<Rightarrow> failure option" where
  "git_error r = (case r of Inl e \<Rightarrow> Some e | Inr _ \<Rightarrow> None)"

definition finishProjectAction_tx ::
  "service \<Rightarrow> string \<Rightarrow> string \<Rightarrow> string \<Rightarrow> ProjectGitFact \<Rightarrow> failure option \<Rightarrow> project op" where
  "finishProjectAction_tx sv projectID operationID requestID gitFact actionErr =
    andthen (tx_Project projectID) (\<lambda>project.
    andthen (reject (p_status project \<noteq> ProjectCreating \<or> p_pending_action_id project \<noteq> operationID)
       (project_conflict VERSION_CONFLICT project)) (\<lambda>_.
    andthen (nowText sv) (\<lambda>now.
    let project' = finished_project project gitFact actionErr now in
    andthen (tx_UpdateProject project' (p_version project) ProjectCreating) (\<lambda>_.
    andthen (emit (p_id project) ProjectEntity (p_id project)
       (if actionErr = None then ''project.active'' else ''project.error'') Daemon [] [] requestID operationID
       (if actionErr = None then eventPayload [(''canonical_sha'', JString (gf_canonical_sha gitFact))]
        else eventPayload [(''error'', JString (p_last_error project'))]) now) (\<lambda>_.
    ret project')))))"

definition finishProjectAction ::
  "service \<Rightarrow> string \<Rightarrow> string \<Rightarrow> string \<Rightarrow> ProjectGitFact \<Rightarrow> failure option \<Rightarrow> project op" where
  "finishProjectAction sv projectID operationID requestID gitFact actionErr =
    andthen (transact (finishProjectAction_tx sv projectID operationID requestID gitFact actionErr)) (\<lambda>project.
    andthen (reject (actionErr \<noteq> None) (NewError GIT_INVARIANT_VIOLATION False)) (\<lambda>_.
    ret project))"

definition finish_unless_cancelled ::
  "service \<Rightarrow> project \<Rightarrow> string \<Rightarrow> failure + ProjectGitFact \<Rightarrow> project op" where
  "finish_unless_cancelled sv project requestID r =
     (case r of
        Inl e \<Rightarrow> if is_cancelled e then throw e
          else finishProjectAction sv (p_id project) (p_pending_action_id project) requestID no_git_fact (Some e)
      | Inr gitFact \<Rightarrow>
          finishProjectAction sv (p_id project) (p_pending_action_id project) requestID gitFact None)"

definition run_project_action :: "service \<Rightarrow> project \<Rightarrow> (failure + ProjectGitFact) op" where
  "run_project_action sv project = attempt (\<lambda>n.
     if p_pending_action project = VerifyProject then g_verify (sv_git sv) n (projectIntent project)
     else g_initialize (sv_git sv) n (projectIntent project))"

section \<open>Registration\<close>

record AddProjectInput =
  ap_name :: string
  ap_source :: string
  ap_source_ref :: string
  ap_integration_agent_id :: string
  ap_request_id :: string

definition dedupedProject :: "requestDedupe \<Rightarrow> project option op" where
  "dedupedProject dedupe = transact (
    andthen (replay dedupe) (\<lambda>replayed.
    (case replayed of
        None \<Rightarrow> ret None
      | Some result \<Rightarrow>
      andthen (tx_Project (dd_id result)) (\<lambda>project.
      ret (Some project)))))"

definition replayed_project :: "project \<Rightarrow> project op" where
  "replayed_project project =
    andthen (reject (p_status project = ProjectError) (NewError GIT_INVARIANT_VIOLATION False)) (\<lambda>_.
    ret project)"

definition new_project ::
  "service \<Rightarrow> string \<Rightarrow> string \<Rightarrow> string \<Rightarrow> string \<Rightarrow> ProjectGitFact \<Rightarrow> stamp \<Rightarrow> project" where
  "new_project sv projectID name operationID integrationAgentID gitFact now =
     \<lparr>p_id = projectID, p_name = name, p_source = gf_source gitFact, p_source_ref = gf_source_ref gitFact,
      p_initial_sha = gf_initial_sha gitFact, p_control_repo_path = g_control_path (sv_git sv) projectID,
      p_canonical_ref = gf_canonical_ref gitFact, p_canonical_sha = [],
      p_integration_agent_id = integrationAgentID, p_status = ProjectCreating,
      p_pending_action = InitializeProject, p_pending_action_id = operationID,
      p_pending_started_at = now, p_last_error = [], p_version = 1, p_created_at = now, p_updated_at = now\<rparr>"

definition bindOperatorGlobalRoles :: "string \<Rightarrow> stamp \<Rightarrow> unit op" where
  "bindOperatorGlobalRoles projectID now =
    andthen (tx_ParticipantRoles operatorParticipant) (\<lambda>global.
    each (filter (\<lambda>b. b_project_id b = GlobalProjectID) global) (\<lambda>b. tx_InsertParticipantRole
       \<lparr>b_participant_id = operatorParticipant, b_project_id = projectID, b_role_id = b_role_id b,
        b_role_name = b_role_name b, b_capabilities = b_capabilities b, b_version = 1,
        b_created_at = now, b_updated_at = now\<rparr>))"

definition AddProject_tx :: "service \<Rightarrow> project \<Rightarrow> requestDedupe \<Rightarrow> stamp \<Rightarrow> (project \<times> bool) op" where
  "AddProject_tx sv project dedupe now =
    andthen (replay dedupe) (\<lambda>replayed.
    (case replayed of
        Some result \<Rightarrow>
      andthen (tx_Project (dd_id result)) (\<lambda>existing.
      ret (existing, False))
      | None \<Rightarrow>
      andthen (if_found (tx_ProjectByName (p_name project))) (\<lambda>named.
      andthen (reject (named \<noteq> None) (NewError INVALID_ARGUMENT False)) (\<lambda>_.
      andthen (whenever (p_integration_agent_id project \<noteq> []) (
        andthen (tx_Agent (p_integration_agent_id project)) (\<lambda>agent.
        reject (a_status agent \<noteq> AgentActive)
              (Conflict INVALID_STATE (agent_status_text (a_status agent)) (a_version agent))))) (\<lambda>_.
      andthen (tx_InsertProject project) (\<lambda>_.
      andthen (bindOperatorGlobalRoles (p_id project) now) (\<lambda>_.
      andthen (emit (p_id project) ProjectEntity (p_id project) ''project.creating'' Boss [] []
            (rq_request_id dedupe) (p_pending_action_id project)
            (eventPayload [(''initial_sha'', JString (p_initial_sha project))]) now) (\<lambda>_.
      andthen (record_dedupe dedupe (p_id project) [] now) (\<lambda>_.
      ret (project, True))))))))))"

definition AddProject :: "service \<Rightarrow> AddProjectInput \<Rightarrow> project op" where
  "AddProject sv i =
    andthen (requireText ''name'' (ap_name i)) (\<lambda>name.
    andthen (requireText ''source'' (ap_source i)) (\<lambda>source.
    andthen (requireText ''source_ref'' (ap_source_ref i)) (\<lambda>sourceRef.
    andthen (request_id sv (ap_request_id i)) (\<lambda>requestID.
    let dedupe = boss_dedupe sv ''project.add'' requestID
       [(''Name'', JString name), (''Source'', JString source), (''SourceRef'', JString sourceRef),
        (''IntegrationAgentID'', JString (trim_space (ap_integration_agent_id i)))] in
    andthen (dedupedProject dedupe) (\<lambda>existing.
    (case existing of
        Some project \<Rightarrow> replayed_project project
      | None \<Rightarrow>
      andthen (wrap (WrapError GIT_INVARIANT_VIOLATION False)
            (external (\<lambda>n. g_preflight (sv_git sv) n source sourceRef))) (\<lambda>gitFact.
      andthen (requiredID sv ''prj'') (\<lambda>projectID.
      andthen (requiredID sv ''op'') (\<lambda>operationID.
      andthen (nowText sv) (\<lambda>now.
      andthen (transact (AddProject_tx sv
            (new_project sv projectID name operationID (trim_space (ap_integration_agent_id i)) gitFact now)
            dedupe now)) (\<lambda>(project, created).
      (if \<not> created then ret project
           else
        andthen (attempt (\<lambda>n. g_initialize (sv_git sv) n (projectIntent project))) (\<lambda>r.
        finish_unless_cancelled sv project requestID r)))))))))))))"

section \<open>Repair and verification\<close>

definition repairing :: "project \<Rightarrow> project_action \<Rightarrow> string \<Rightarrow> stamp \<Rightarrow> project" where
  "repairing project action operationID now = project\<lparr>p_status := ProjectCreating,
     p_pending_action := action, p_pending_action_id := operationID, p_pending_started_at := now,
     p_last_error := [], p_version := p_version project + 1, p_updated_at := now\<rparr>"

fun project_action_text :: "project_action \<Rightarrow> string" where
  "project_action_text NoProjectAction = []"
| "project_action_text InitializeProject = ''initialize''"
| "project_action_text VerifyProject = ''verify''"

definition RepairProject_tx ::
  "project \<Rightarrow> int \<Rightarrow> requestDedupe \<Rightarrow> stamp \<Rightarrow> unit op" where
  "RepairProject_tx project expectedVersion dedupe now =
    andthen (tx_UpdateProject project expectedVersion ProjectError) (\<lambda>_.
    andthen (emit (p_id project) ProjectEntity (p_id project) ''project.creating'' Boss [] [] (rq_request_id dedupe)
       (p_pending_action_id project)
       (eventPayload [(''action'', JString (project_action_text (p_pending_action project)))]) now) (\<lambda>_.
    record_dedupe dedupe (p_id project) [] now))"

text \<open>The daemon never rebuilds a project that was active before from its registration SHA.\<close>

definition repair_action :: "service \<Rightarrow> project \<Rightarrow> project_action op" where
  "repair_action sv project =
     (if p_canonical_sha project \<noteq> [] then ret VerifyProject
      else
        andthen (attempt (\<lambda>n. Inr (g_exists (sv_git sv) n (p_control_repo_path project)))) (\<lambda>present.
        ret (if present = Inr False then InitializeProject else VerifyProject)))"

definition RepairProject :: "service \<Rightarrow> string \<Rightarrow> string \<Rightarrow> project op" where
  "RepairProject sv projectID requestID =
    (let projectID = trim_space projectID in
    andthen (requireOperatorCapability ''project.repair'' projectID) (\<lambda>_.
    andthen (request_id sv requestID) (\<lambda>requestID.
    let dedupe = boss_dedupe sv ''project.repair'' requestID [(''ProjectID'', JString projectID)] in
    andthen (dedupedProject dedupe) (\<lambda>existing.
    (case existing of
        Some project \<Rightarrow> replayed_project project
      | None \<Rightarrow>
      andthen (tx_Project projectID) (\<lambda>project.
      andthen (reject (p_status project \<noteq> ProjectError) (project_conflict INVALID_STATE project)) (\<lambda>_.
      andthen (requiredID sv ''op'') (\<lambda>operationID.
      andthen (repair_action sv project) (\<lambda>action.
      andthen (nowText sv) (\<lambda>now.
      let project' = repairing project action operationID now in
      andthen (transact (RepairProject_tx project' (p_version project) dedupe now)) (\<lambda>_.
      andthen (run_project_action sv project') (\<lambda>r.
      finish_unless_cancelled sv project' requestID r))))))))))))"

definition finishActiveVerification_tx ::
  "service \<Rightarrow> project \<Rightarrow> failure + ProjectGitFact \<Rightarrow> unit op" where
  "finishActiveVerification_tx sv project r =
    andthen (tx_Project (p_id project)) (\<lambda>current.
    andthen (reject (p_status current \<noteq> ProjectActive \<or> p_version current \<noteq> p_version project)
       (project_conflict VERSION_CONFLICT current)) (\<lambda>_.
    andthen (nowText sv) (\<lambda>now.
    let next = current\<lparr>p_version := p_version current + 1, p_updated_at := now\<rparr> in
    let project' = (case r of
       Inl cause \<Rightarrow> next\<lparr>p_status := ProjectError, p_last_error := projectGitFailureText cause\<rparr>
     | Inr gitFact \<Rightarrow> next\<lparr>p_canonical_sha := gf_canonical_sha gitFact\<rparr>) in
    andthen (tx_UpdateProject project' (p_version project) ProjectActive) (\<lambda>_.
    andthen (emit (p_id current) ProjectEntity (p_id current)
       (case r of Inl _ \<Rightarrow> ''project.error'' | Inr _ \<Rightarrow> ''project.active'') Daemon [] [] [] []
       (case r of
          Inl _ \<Rightarrow> eventPayload [(''error'', JString (p_last_error project'))]
        | Inr gitFact \<Rightarrow> eventPayload
            [(''canonical_sha'', JString (gf_canonical_sha gitFact)), (''drift'', JBool True)]) now) (\<lambda>_.
    ret ())))))"

definition finishActiveVerification :: "service \<Rightarrow> project \<Rightarrow> failure + ProjectGitFact \<Rightarrow> unit op" where
  "finishActiveVerification sv project r =
     (if (case r of Inl _ \<Rightarrow> False | Inr gitFact \<Rightarrow> p_canonical_sha project = gf_canonical_sha gitFact)
      then ret ()
      else transact (finishActiveVerification_tx sv project r))"

definition ProjectsByStatus :: "project_status \<Rightarrow> project list op" where
  "ProjectsByStatus status = read_db (\<lambda>d. Inr (sort_key (\<lambda>p. (p_created_at p, p_id p))
     (filter (\<lambda>p. p_status p = status) (d_projects d))))"

definition unless_code :: "error_code \<Rightarrow> 'a op \<Rightarrow> unit op" where
  "unless_code code m = (\<lambda>w. case m w of
     (Inl e, w') \<Rightarrow> (if IsCode e code then Inr () else Inl e, w') | (Inr _, w') \<Rightarrow> (Inr (), w'))"

definition reconcileCreating :: "service \<Rightarrow> project \<Rightarrow> unit op" where
  "reconcileCreating sv project =
    andthen (run_project_action sv project) (\<lambda>r.
    unless_code GIT_INVARIANT_VIOLATION (finish_unless_cancelled sv project [] r))"

definition reconcileActive :: "service \<Rightarrow> project \<Rightarrow> unit op" where
  "reconcileActive sv project =
    andthen (attempt (\<lambda>n. g_verify (sv_git sv) n (projectIntent project))) (\<lambda>r.
    finishActiveVerification sv project r)"

definition ReconcileProjects :: "service \<Rightarrow> unit op" where
  "ReconcileProjects sv =
    andthen (ProjectsByStatus ProjectCreating) (\<lambda>creating.
    andthen (each creating (reconcileCreating sv)) (\<lambda>_.
    andthen (ProjectsByStatus ProjectActive) (\<lambda>active.
    each active (reconcileActive sv))))"

section \<open>Archival and deletion\<close>

definition archived_project :: "project \<Rightarrow> stamp \<Rightarrow> project" where
  "archived_project project now = project\<lparr>p_status := ProjectArchived,
     p_version := p_version project + 1, p_updated_at := now\<rparr>"

definition ArchiveProject_tx :: "service \<Rightarrow> string \<Rightarrow> string \<Rightarrow> project op" where
  "ArchiveProject_tx sv projectID requestID =
    andthen (tx_Project (trim_space projectID)) (\<lambda>project.
    andthen (reject (p_pending_action project \<noteq> NoProjectAction) (project_conflict ACTION_IN_PROGRESS project)) (\<lambda>_.
    andthen (reject (ValidateProjectTransition (p_status project) ProjectArchived \<noteq> None)
       (project_conflict INVALID_STATE project)) (\<lambda>_.
    andthen (tx_ProjectBlockers (p_id project)) (\<lambda>blockers.
    andthen (reject (0 < lb_LiveRuns blockers + lb_OpenTasks blockers + lb_PendingActions blockers +
                 lb_UnresolvedAgentMessages blockers) (NewError INVALID_STATE False)) (\<lambda>_.
    andthen (nowText sv) (\<lambda>now.
    let project' = archived_project project now in
    andthen (tx_UpdateProject project' (p_version project) (p_status project)) (\<lambda>_.
    andthen (emit (p_id project) ProjectEntity (p_id project) ''project.archived'' Boss [] [] requestID [] ''{}'' now) (\<lambda>_.
    ret project'))))))))"

definition ArchiveProject :: "service \<Rightarrow> string \<Rightarrow> string \<Rightarrow> project op" where
  "ArchiveProject sv projectID requestID =
    andthen (request_id sv requestID) (\<lambda>requestID.
    transact (ArchiveProject_tx sv projectID requestID))"

text \<open>The rows a deleted project takes with it.\<close>

definition deleteProjectRows :: "project \<Rightarrow> string \<Rightarrow> requestDedupe \<Rightarrow> stamp \<Rightarrow> unit op" where
  "deleteProjectRows project reason dedupe now =
    andthen (tx_DeleteMessagesByProject (p_id project)) (\<lambda>_.
    andthen (tx_DeleteRunsByProject (p_id project)) (\<lambda>runs.
    andthen (each runs (\<lambda>run. reject (IsRunLive (r_state run)) (run_conflict ACTION_IN_PROGRESS run))) (\<lambda>_.
    andthen (tx_DeleteTasksByProject (p_id project)) (\<lambda>_.
    andthen (tx_DeleteEventsByProject (p_id project)) (\<lambda>_.
    andthen (tx_DeleteProjectBindings (p_id project)) (\<lambda>_.
    andthen (emit (p_id project) ProjectEntity (p_id project) ''project.deleted'' Boss [] []
       (rq_request_id dedupe) []
       (eventPayload [(''reason'', JString (boundedDurableText reason MaximumOutcomeTextBytes)),
          (''run_count'', JInt (int (length runs)))]) now) (\<lambda>_.
    andthen (tx_DeleteProject (p_id project)) (\<lambda>_.
    record_dedupe dedupe (p_id project) [] now))))))))"

definition DeleteProject_tx :: "service \<Rightarrow> string \<Rightarrow> string \<Rightarrow> requestDedupe \<Rightarrow> unit op" where
  "DeleteProject_tx sv projectID reason dedupe =
    andthen (replay dedupe) (\<lambda>replayed.
    (case replayed of
        Some _ \<Rightarrow> ret ()
      | None \<Rightarrow>
      andthen (tx_Project projectID) (\<lambda>project.
      andthen (reject (p_pending_action project \<noteq> NoProjectAction) (project_conflict ACTION_IN_PROGRESS project)) (\<lambda>_.
      andthen (reject (p_status project \<noteq> ProjectArchived) (project_conflict INVALID_STATE project)) (\<lambda>_.
      andthen (tx_ProjectBlockers (p_id project)) (\<lambda>blockers.
      andthen (reject (0 < lb_LiveRuns blockers + lb_OpenTasks blockers + lb_PendingActions blockers +
                      lb_AcceptedIntegrationSource blockers + lb_UnresolvedAgentMessages blockers)
            (NewError INVALID_STATE False)) (\<lambda>_.
      andthen (nowText sv) (\<lambda>now.
      deleteProjectRows project reason dedupe now))))))))"

text \<open>The disposal of the control repository that follows is best effort and touches no row.\<close>

definition DeleteProject :: "service \<Rightarrow> string \<Rightarrow> string \<Rightarrow> string \<Rightarrow> unit op" where
  "DeleteProject sv projectID reason requestID =
    andthen (requireText ''project_id'' projectID) (\<lambda>projectID.
    andthen (optionalTextWithin reason MaximumOutcomeTextBytes) (\<lambda>reason.
    andthen (request_id sv requestID) (\<lambda>requestID.
    let dedupe = boss_dedupe sv ''project.delete'' requestID
       [(''ProjectID'', JString projectID), (''Reason'', JString reason)] in
    andthen (requireOperatorCapability ''project.delete'' projectID) (\<lambda>_.
    transact (DeleteProject_tx sv projectID reason dedupe)))))"

end
