(* ===== verification/Agents.thy ===== *)
theory Agents
  imports Projects
begin

text \<open>
  Agents (agent.go), their validated configuration and the adapter registry (agent_config.go, and
  \<open>NewService\<close>, \<open>ListAdapters\<close> of service.go). Every agent row has a
  participant row with the same identifier that mirrors its configuration and status.
\<close>

section \<open>The adapter registry\<close>

definition canonical_id :: "string \<Rightarrow> bool" where
  "canonical_id s = (s \<noteq> [] \<and> trim_space s = s)"

fun normalize_efforts :: "string list \<Rightarrow> string list \<Rightarrow> failure + string list" where
  "normalize_efforts efforts [] = Inr efforts"
| "normalize_efforts efforts (e # es) =
     (if \<not> canonical_id e then Inl (NewError INVALID_ARGUMENT False)
      else if e \<in> set efforts then Inl (NewError INVALID_ARGUMENT False)
      else normalize_efforts (efforts @ [e]) es)"

definition normalizeAdapterDescriptor :: "AdapterDescriptor \<Rightarrow> failure + AdapterDescriptor" where
  "normalizeAdapterDescriptor descriptor =
     (let descriptor =
        (if ad_name descriptor = [] then descriptor\<lparr>ad_name := ad_id descriptor\<rparr> else descriptor)
      in if ad_name descriptor \<noteq> ad_id descriptor then Inl (NewError INVALID_ARGUMENT False)
         else on_success (\<lambda>efforts. descriptor\<lparr>ad_allowed_efforts := efforts\<rparr>)
           (normalize_efforts [] (ad_allowed_efforts descriptor)))"

definition adapter_named :: "AdapterDescriptor list \<Rightarrow> string \<Rightarrow> AdapterDescriptor option" where
  "adapter_named adapters ident = row ad_id ident adapters"

definition bare_adapter :: "string \<Rightarrow> AdapterDescriptor" where
  "bare_adapter ident = \<lparr>ad_id = ident, ad_name = ident, ad_execution_model = [],
     ad_supports_resume = False, ad_supports_inject = False, ad_allowed_efforts = []\<rparr>"

text \<open>The three loops of \<open>NewService\<close>: the identifiers, the descriptors when no identifier was given, and
  the descriptors that replace the bare entries.\<close>

fun register_ids :: "AdapterDescriptor list \<Rightarrow> string list \<Rightarrow> failure + AdapterDescriptor list" where
  "register_ids adapters [] = Inr adapters"
| "register_ids adapters (ident # rest) =
     (if \<not> canonical_id ident then Inl (NewError INVALID_ARGUMENT False)
      else if adapter_named adapters ident \<noteq> None then Inl (NewError INVALID_ARGUMENT False)
      else register_ids (adapters @ [bare_adapter ident]) rest)"

fun register_descriptors ::
  "AdapterDescriptor list \<Rightarrow> AdapterDescriptor list \<Rightarrow> failure + AdapterDescriptor list" where
  "register_descriptors adapters [] = Inr adapters"
| "register_descriptors adapters (descriptor # rest) =
     (if \<not> canonical_id (ad_id descriptor) then Inl (NewError INVALID_ARGUMENT False)
      else case normalizeAdapterDescriptor descriptor of
             Inl e \<Rightarrow> Inl e
           | Inr normalized \<Rightarrow>
               if adapter_named adapters (ad_id descriptor) \<noteq> None
               then Inl (NewError INVALID_ARGUMENT False)
               else register_descriptors (adapters @ [normalized]) rest)"

fun refine_descriptors ::
  "AdapterDescriptor list \<Rightarrow> AdapterDescriptor list \<Rightarrow> failure + AdapterDescriptor list" where
  "refine_descriptors adapters [] = Inr adapters"
| "refine_descriptors adapters (descriptor # rest) =
     (if \<not> canonical_id (ad_id descriptor) then Inl (NewError INVALID_ARGUMENT False)
      else if adapter_named adapters (ad_id descriptor) = None then Inl (NewError INVALID_ARGUMENT False)
      else case normalizeAdapterDescriptor descriptor of
             Inl e \<Rightarrow> Inl e
           | Inr normalized \<Rightarrow> refine_descriptors (put_row ad_id normalized adapters) rest)"

record ServiceOptions =
  so_max_parallel_runs :: int
  so_adapter_ids :: "string list"
  so_adapters :: "AdapterDescriptor list"
  so_workspace_retention :: int
  so_task_ref_retention :: int

definition build_registry :: "ServiceOptions \<Rightarrow> failure + AdapterDescriptor list" where
  "build_registry options =
     (case register_ids [] (so_adapter_ids options) of
        Inl e \<Rightarrow> Inl e
      | Inr adapters \<Rightarrow>
          (case (if adapters = [] then register_descriptors [] (so_adapters options) else Inr adapters) of
             Inl e \<Rightarrow> Inl e
           | Inr adapters \<Rightarrow>
               if adapters = [] then Inl (NewError INVALID_ARGUMENT False)
               else refine_descriptors adapters (so_adapters options)))"

text \<open>\<open>NewService\<close> on given interfaces (a missing repository or Git controller has no counterpart here).\<close>

definition NewService :: "service \<Rightarrow> ServiceOptions \<Rightarrow> failure + service" where
  "NewService interfaces options =
     (if so_workspace_retention options < 0 \<or> so_task_ref_retention options < 0
      then Inl (NewError INVALID_ARGUMENT False)
      else on_success (\<lambda>adapters. interfaces\<lparr>
          sv_max_runs := (if so_max_parallel_runs options \<le> 0 then 1 else so_max_parallel_runs options),
          sv_adapters := adapters, sv_workspace_retention := so_workspace_retention options,
          sv_task_ref_retention := so_task_ref_retention options\<rparr>)
        (build_registry options))"

definition ListAdapters :: "service \<Rightarrow> AdapterDescriptor list" where
  "ListAdapters sv = sort_key ad_id (sv_adapters sv)"

section \<open>Agent configuration\<close>

record agentConfig =
  cfg_display_name :: string
  cfg_adapter_id :: string
  cfg_image :: string
  cfg_instructions_file :: string
  cfg_instructions_text :: string
  cfg_model :: string
  cfg_subagent_model :: string
  cfg_base_url :: string
  cfg_effort :: string

definition validateInstructionsSource :: "string \<Rightarrow> string \<Rightarrow> (string \<times> string) op" where
  "validateInstructionsSource path text =
     (let path = trim_space path in
      if path \<noteq> [] \<and> text \<noteq> [] then throw (NewError INVALID_ARGUMENT False)
      else if path = [] \<and> text = [] then throw (NewError INVALID_ARGUMENT False)
      else if path \<noteq> [] then
        andthen (requireText ''instructions_file'' path) (\<lambda>_.
        andthen (reject (\<not> canonical_path path) (NewError INVALID_ARGUMENT False)) (\<lambda>_.
        ret (path, [])))
      else
        andthen (reject (\<not> utf8_valid text) (NewError INVALID_ARGUMENT False)) (\<lambda>_.
        andthen (reject (MaximumInstructionsBytes < length text) (NewError INVALID_ARGUMENT False)) (\<lambda>_.
        ret ([], text))))"

definition optionalConfigToken :: "string \<Rightarrow> string op" where
  "optionalConfigToken value =
     (let value = trim_space value in
      if value = [] then ret []
      else
        andthen (reject (256 < length value \<or> \<not> (\<forall>c \<in> set value. token_char c)) (NewError INVALID_ARGUMENT False)) (\<lambda>_.
        ret value))"

text \<open>\<open>sv_base_url\<close> is \<open>url.Parse\<close> with the test that the URL is https, has a host and no user, query,
  fragment or opaque part: the normalized text, when it passes.\<close>

definition optionalBaseURL :: "service \<Rightarrow> string \<Rightarrow> string op" where
  "optionalBaseURL sv value =
     (let value = trim_space value in
      if value = [] then ret []
      else
        andthen (reject (2048 < length value) (NewError INVALID_ARGUMENT False)) (\<lambda>_.
        (case sv_base_url sv value of
           None \<Rightarrow> throw (NewError INVALID_ARGUMENT False)
         | Some normalized \<Rightarrow>
          andthen (reject (normalized = []) (NewError INVALID_ARGUMENT False)) (\<lambda>_.
          ret normalized))))"

definition validatedEffort :: "service \<Rightarrow> string \<Rightarrow> string \<Rightarrow> string op" where
  "validatedEffort sv adapterID value =
     (let value = trim_space value in
      if value = [] then ret []
      else (case adapter_named (sv_adapters sv) adapterID of
         None \<Rightarrow> throw (NewError INVALID_ARGUMENT False)
       | Some descriptor \<Rightarrow>
           if ad_allowed_efforts descriptor = [] then throw (NewError INVALID_ARGUMENT False)
           else if value \<in> set (ad_allowed_efforts descriptor) then ret value
           else throw (NewError INVALID_ARGUMENT False)))"

definition validateAgentConfig :: "service \<Rightarrow> agentConfig \<Rightarrow> agentConfig op" where
  "validateAgentConfig sv i =
    andthen (requireText ''display_name'' (cfg_display_name i)) (\<lambda>displayName.
    andthen (requireText ''adapter_id'' (cfg_adapter_id i)) (\<lambda>adapterID.
    andthen (reject (\<not> registered sv adapterID) (NewError INVALID_ARGUMENT False)) (\<lambda>_.
    andthen (requireText ''image'' (cfg_image i)) (\<lambda>image.
    andthen (validateInstructionsSource (cfg_instructions_file i) (cfg_instructions_text i)) (\<lambda>(instructionsFile, instructionsText).
    andthen (optionalConfigToken (cfg_model i)) (\<lambda>model.
    andthen (optionalConfigToken (cfg_subagent_model i)) (\<lambda>subagentModel.
    andthen (optionalBaseURL sv (cfg_base_url i)) (\<lambda>baseURL.
    andthen (validatedEffort sv adapterID (cfg_effort i)) (\<lambda>effort.
    ret \<lparr>cfg_display_name = displayName, cfg_adapter_id = adapterID, cfg_image = image,
       cfg_instructions_file = instructionsFile, cfg_instructions_text = instructionsText,
       cfg_model = model, cfg_subagent_model = subagentModel, cfg_base_url = baseURL, cfg_effort = effort\<rparr>)))))))))"

definition config_json :: "agentConfig \<Rightarrow> json" where
  "config_json c = JObject
     [(''DisplayName'', JString (cfg_display_name c)), (''AdapterID'', JString (cfg_adapter_id c)),
      (''Image'', JString (cfg_image c)), (''InstructionsFile'', JString (cfg_instructions_file c)),
      (''InstructionsText'', JString (cfg_instructions_text c)), (''Model'', JString (cfg_model c)),
      (''SubagentModel'', JString (cfg_subagent_model c)), (''BaseURL'', JString (cfg_base_url c)),
      (''Effort'', JString (cfg_effort c))]"

text \<open>The names of the changed fields, in the order of the names.\<close>

definition agentChangedFieldNames :: "agent \<Rightarrow> agentConfig \<Rightarrow> string list" where
  "agentChangedFieldNames before next = map fst (filter snd
     [(''adapter_id'', a_adapter_id before \<noteq> cfg_adapter_id next),
      (''base_url'', a_base_url before \<noteq> cfg_base_url next),
      (''display_name'', a_display_name before \<noteq> cfg_display_name next),
      (''effort'', a_effort before \<noteq> cfg_effort next),
      (''image'', a_image before \<noteq> cfg_image next),
      (''instructions_file'', a_instructions_file before \<noteq> cfg_instructions_file next),
      (''instructions_text'', a_instructions_text before \<noteq> cfg_instructions_text next),
      (''model'', a_model before \<noteq> cfg_model next),
      (''subagent_model'', a_subagent_model before \<noteq> cfg_subagent_model next)])"

section \<open>Agents and their participants\<close>

definition agentFromConfig :: "string \<Rightarrow> agentConfig \<Rightarrow> stamp \<Rightarrow> agent" where
  "agentFromConfig ident c now =
     \<lparr>a_id = ident, a_display_name = cfg_display_name c, a_adapter_id = cfg_adapter_id c,
      a_image = cfg_image c, a_instructions_file = cfg_instructions_file c,
      a_instructions_text = cfg_instructions_text c, a_model = cfg_model c,
      a_subagent_model = cfg_subagent_model c, a_base_url = cfg_base_url c, a_effort = cfg_effort c,
      a_status = AgentActive, a_version = 1, a_created_at = now, a_updated_at = now\<rparr>"

definition participantFromAgent :: "agent \<Rightarrow> participant" where
  "participantFromAgent a =
     \<lparr>pa_id = a_id a, pa_kind = CliAgent, pa_display_name = a_display_name a, pa_status = a_status a,
      pa_credential_id = [], pa_adapter_id = a_adapter_id a, pa_image = a_image a,
      pa_instructions_file = a_instructions_file a, pa_instructions_text = a_instructions_text a,
      pa_model = a_model a, pa_subagent_model = a_subagent_model a, pa_base_url = a_base_url a,
      pa_effort = a_effort a, pa_version = a_version a, pa_created_at = a_created_at a,
      pa_updated_at = a_updated_at a\<rparr>"

definition applyAgentConfig :: "agent \<Rightarrow> agentConfig \<Rightarrow> stamp \<Rightarrow> agent" where
  "applyAgentConfig a c now = a\<lparr>a_display_name := cfg_display_name c, a_adapter_id := cfg_adapter_id c,
     a_image := cfg_image c, a_instructions_file := cfg_instructions_file c,
     a_instructions_text := cfg_instructions_text c, a_model := cfg_model c,
     a_subagent_model := cfg_subagent_model c, a_base_url := cfg_base_url c, a_effort := cfg_effort c,
     a_version := a_version a + 1, a_updated_at := now\<rparr>"

definition applyParticipantConfig :: "participant \<Rightarrow> agentConfig \<Rightarrow> agent_status \<Rightarrow> stamp \<Rightarrow> participant" where
  "applyParticipantConfig p c status now = p\<lparr>pa_display_name := cfg_display_name c, pa_status := status,
     pa_adapter_id := cfg_adapter_id c, pa_image := cfg_image c,
     pa_instructions_file := cfg_instructions_file c, pa_instructions_text := cfg_instructions_text c,
     pa_model := cfg_model c, pa_subagent_model := cfg_subagent_model c, pa_base_url := cfg_base_url c,
     pa_effort := cfg_effort c, pa_version := pa_version p + 1, pa_updated_at := now\<rparr>"

definition mirrorAgentParticipantStatus :: "string \<Rightarrow> agent_status \<Rightarrow> stamp \<Rightarrow> unit op" where
  "mirrorAgentParticipantStatus agentID status now =
    andthen (tx_Participant agentID) (\<lambda>participant.
    tx_UpdateParticipant (participant\<lparr>pa_status := status, pa_version := pa_version participant + 1,
       pa_updated_at := now\<rparr>) (pa_version participant))"

definition agent_event :: "string \<Rightarrow> string \<Rightarrow> string \<Rightarrow> string \<Rightarrow> stamp \<Rightarrow> event op" where
  "agent_event agentID kind requestID payload now =
     emit [] AgentEntity agentID kind Boss [] [] requestID [] payload now"

definition AddAgent_tx :: "service \<Rightarrow> string \<Rightarrow> agentConfig \<Rightarrow> requestDedupe \<Rightarrow> agent op" where
  "AddAgent_tx sv requestedID config dedupe =
    andthen (replay dedupe) (\<lambda>replayed.
    (case replayed of
        Some result \<Rightarrow> tx_Agent (dd_id result)
      | None \<Rightarrow>
      andthen (if requestedID = [] then requiredID sv ''agt'' else ret requestedID) (\<lambda>agentID.
      andthen (if_found (tx_Agent agentID)) (\<lambda>existing.
      andthen (reject (existing \<noteq> None) (NewError INVALID_ARGUMENT False)) (\<lambda>_.
      andthen (nowText sv) (\<lambda>now.
      let agent = agentFromConfig agentID config now in
      andthen (tx_InsertAgent agent) (\<lambda>_.
      andthen (tx_InsertParticipant (participantFromAgent agent)) (\<lambda>_.
      andthen (agent_event agentID ''agent.created'' (rq_request_id dedupe) ''{}'' now) (\<lambda>_.
      andthen (record_dedupe dedupe agentID [] now) (\<lambda>_.
      ret agent))))))))))"

definition AddAgent :: "service \<Rightarrow> string \<Rightarrow> agentConfig \<Rightarrow> string \<Rightarrow> agent op" where
  "AddAgent sv ident i requestID =
    andthen (requireOperatorCapability ''agent.manage'' GlobalProjectID) (\<lambda>_.
    andthen (optionalTextWithin ident 256) (\<lambda>requestedID.
    andthen (validateAgentConfig sv i) (\<lambda>config.
    andthen (request_id sv requestID) (\<lambda>requestID.
    transact (AddAgent_tx sv requestedID config (boss_dedupe sv ''agent.add'' requestID
       [(''ID'', JString requestedID), (''RequestID'', JString requestID), (''Config'', config_json config)]))))))"

definition agent_conflict :: "error_code \<Rightarrow> agent \<Rightarrow> failure" where
  "agent_conflict code agent = Conflict code (agent_status_text (a_status agent)) (a_version agent)"

definition UpdateAgent_tx :: "service \<Rightarrow> string \<Rightarrow> int \<Rightarrow> agentConfig \<Rightarrow> requestDedupe \<Rightarrow> agent op" where
  "UpdateAgent_tx sv agentID version config dedupe =
    andthen (replay dedupe) (\<lambda>replayed.
    (case replayed of
        Some result \<Rightarrow> tx_Agent (dd_id result)
      | None \<Rightarrow>
      andthen (tx_Agent agentID) (\<lambda>agent.
      andthen (reject (a_version agent \<noteq> version) (agent_conflict VERSION_CONFLICT agent)) (\<lambda>_.
      andthen (nowText sv) (\<lambda>now.
      let agent' = applyAgentConfig agent config now in
      andthen (tx_UpdateAgent agent' (a_version agent) (a_status agent)) (\<lambda>_.
      andthen (tx_Participant (a_id agent)) (\<lambda>participant.
      andthen (tx_UpdateParticipant (applyParticipantConfig participant config (a_status agent) now)
            (pa_version participant)) (\<lambda>_.
      andthen (agent_event (a_id agent) ''agent.updated'' (rq_request_id dedupe)
            (eventPayload [(''version'', JInt (a_version agent')),
               (''changed_fields'', JList (map JString (agentChangedFieldNames agent config)))]) now) (\<lambda>_.
      andthen (record_dedupe dedupe (a_id agent) [] now) (\<lambda>_.
      ret agent'))))))))))"

definition UpdateAgent :: "service \<Rightarrow> string \<Rightarrow> int \<Rightarrow> agentConfig \<Rightarrow> string \<Rightarrow> agent op" where
  "UpdateAgent sv ident version i requestID =
    andthen (requireOperatorCapability ''agent.manage'' GlobalProjectID) (\<lambda>_.
    andthen (optionalTextWithin ident 256) (\<lambda>agentID.
    andthen (reject (agentID = []) (NewError INVALID_ARGUMENT False)) (\<lambda>_.
    andthen (reject (version < 1) (NewError INVALID_ARGUMENT False)) (\<lambda>_.
    andthen (validateAgentConfig sv i) (\<lambda>config.
    andthen (request_id sv requestID) (\<lambda>requestID.
    transact (UpdateAgent_tx sv agentID version config (boss_dedupe sv ''agent.update'' requestID
       [(''ID'', JString agentID), (''RequestID'', JString requestID), (''Version'', JInt version),
        (''Config'', config_json config)]))))))))"

definition agent_with_status :: "agent \<Rightarrow> agent_status \<Rightarrow> stamp \<Rightarrow> agent" where
  "agent_with_status agent status now =
     agent\<lparr>a_status := status, a_version := a_version agent + 1, a_updated_at := now\<rparr>"

definition SetAgentStatus_tx :: "service \<Rightarrow> string \<Rightarrow> agent_status \<Rightarrow> string \<Rightarrow> agent op" where
  "SetAgentStatus_tx sv agentID status requestID =
    andthen (tx_Agent (trim_space agentID)) (\<lambda>agent.
    (if a_status agent = status then ret agent
      else
      andthen (reject (status = AgentArchived) (NewError INVALID_ARGUMENT False)) (\<lambda>_.
      andthen (reject (ValidateAgentTransition (a_status agent) status \<noteq> None) (agent_conflict INVALID_STATE agent)) (\<lambda>_.
      andthen (nowText sv) (\<lambda>now.
      let agent' = agent_with_status agent status now in
      andthen (tx_UpdateAgent agent' (a_version agent) (a_status agent)) (\<lambda>_.
      andthen (mirrorAgentParticipantStatus (a_id agent) status now) (\<lambda>_.
      andthen (agent_event (a_id agent) (if status = AgentActive then ''agent.resumed'' else ''agent.paused'')
          requestID ''{}'' now) (\<lambda>_.
      ret agent'))))))))"

definition SetAgentStatus :: "service \<Rightarrow> string \<Rightarrow> agent_status \<Rightarrow> string \<Rightarrow> agent op" where
  "SetAgentStatus sv agentID status requestID =
    andthen (request_id sv requestID) (\<lambda>requestID.
    transact (SetAgentStatus_tx sv agentID status requestID))"

definition dropIntegrationAgent :: "string \<Rightarrow> stamp \<Rightarrow> project \<Rightarrow> unit op" where
  "dropIntegrationAgent requestID now project =
    andthen (tx_UpdateProject (project\<lparr>p_integration_agent_id := [], p_version := p_version project + 1,
       p_updated_at := now\<rparr>) (p_version project) (p_status project)) (\<lambda>_.
    andthen (emit (p_id project) ProjectEntity (p_id project) ''project.updated'' Boss [] [] requestID []
       (eventPayload [(''integration_agent_id'', JString []), (''version'', JInt (p_version project + 1))]) now) (\<lambda>_.
    ret ()))"

definition ArchiveAgent_tx :: "service \<Rightarrow> string \<Rightarrow> string \<Rightarrow> agent op" where
  "ArchiveAgent_tx sv agentID requestID =
    andthen (tx_Agent (trim_space agentID)) (\<lambda>agent.
    andthen (reject (ValidateAgentTransition (a_status agent) AgentArchived \<noteq> None)
       (agent_conflict INVALID_STATE agent)) (\<lambda>_.
    andthen (tx_AgentBlockers (a_id agent)) (\<lambda>blockers.
    andthen (reject (0 < lb_LiveRuns blockers + lb_OpenTasks blockers + lb_AcceptedIntegrationSource blockers +
                 lb_UnresolvedAgentMessages blockers) (NewError INVALID_STATE False)) (\<lambda>_.
    andthen (nowText sv) (\<lambda>now.
    let agent' = agent_with_status agent AgentArchived now in
    andthen (tx_UpdateAgent agent' (a_version agent) (a_status agent)) (\<lambda>_.
    andthen (mirrorAgentParticipantStatus (a_id agent) AgentArchived now) (\<lambda>_.
    andthen (tx_ProjectsByIntegrationAgent (a_id agent)) (\<lambda>projects.
    andthen (each projects (dropIntegrationAgent requestID now)) (\<lambda>_.
    andthen (agent_event (a_id agent) ''agent.archived'' requestID ''{}'' now) (\<lambda>_.
    ret agent'))))))))))"

definition ArchiveAgent :: "service \<Rightarrow> string \<Rightarrow> string \<Rightarrow> agent op" where
  "ArchiveAgent sv agentID requestID =
    andthen (request_id sv requestID) (\<lambda>requestID.
    transact (ArchiveAgent_tx sv agentID requestID))"

end
