(* ===== verification/Gc.thy ===== *)
theory Gc
  imports Agents
begin

text \<open>
  Retention: the durable predicates that allow a workspace or a task ref to be deleted
  (internal/store/read.go) and the garbage collection built on them (gc.go and the two reconcilers of
  git_reconcile.go). A deletion asks for its authorization last, and the authorization evaluates the
  predicate again on the current rows.
\<close>

section \<open>Eligibility\<close>

definition started_writer :: "run \<Rightarrow> bool" where
  "started_writer r = (r_launch_phase r = LaunchStartIssued \<or> r_launch_phase r = LaunchProcessObserved)"

definition closed_before :: "task \<Rightarrow> stamp \<Rightarrow> bool" where
  "closed_before t closedBefore =
     ((t_status t = TaskCompleted \<or> t_status t = TaskCancelled) \<and> t_pending_action t = NoAction \<and>
      t_closed_at t \<noteq> NoStamp \<and> t_closed_at t \<le> closedBefore)"

definition ref_blocker :: "string \<Rightarrow> task \<Rightarrow> bool" where
  "ref_blocker taskRef t =
     ((t_pending_action t \<noteq> NoAction \<and> (t_task_ref t = taskRef \<or> t_source_task_ref t = taskRef)) \<or>
      (t_source_task_ref t = taskRef \<and> t_source_ref_released_at t = NoStamp))"

definition task_ref_eligible :: "string \<Rightarrow> string \<Rightarrow> stamp \<Rightarrow> db \<Rightarrow> failure + bool" where
  "task_ref_eligible taskID taskRef closedBefore d =
     (case task_of d taskID of
        None \<Rightarrow> Inl (NewError NOT_FOUND False)
      | Some task \<Rightarrow>
          if \<not> (t_task_ref task = taskRef \<and> closed_before task closedBefore) then Inr False
          else if t_integration_task_id task = [] then Inr (count (ref_blocker taskRef) (d_tasks d) = 0)
          else (case task_of d (t_integration_task_id task) of
                  None \<Rightarrow> Inl (NewError NOT_FOUND False)
                | Some integration \<Rightarrow>
                    Inr (closed_before integration closedBefore \<and>
                         count (ref_blocker taskRef) (d_tasks d) = 0)))"

definition TaskRefEligible :: "string \<Rightarrow> string \<Rightarrow> stamp \<Rightarrow> bool op" where
  "TaskRefEligible taskID taskRef closedBefore = read_db (task_ref_eligible taskID taskRef closedBefore)"

definition by_closing :: "task list \<Rightarrow> task list" where
  "by_closing tasks = sort_key (\<lambda>t. (t_closed_at t, t_id t)) tasks"

definition TaskRefCandidates :: "stamp \<Rightarrow> task list op" where
  "TaskRefCandidates closedBefore = read_db (\<lambda>d. Inr (by_closing (filter
     (\<lambda>t. t_task_ref t \<noteq> [] \<and> IsTaskClosed (t_status t) \<and> t_closed_at t \<noteq> NoStamp \<and>
       t_closed_at t \<le> closedBefore) (d_tasks d))))"

definition WorkspaceCandidates :: "stamp \<Rightarrow> task list op" where
  "WorkspaceCandidates closedBefore = read_db (\<lambda>d. Inr (by_closing (filter
     (\<lambda>t. (t_kind t = TaskWork \<or> t_kind t = TaskIntegration) \<and> IsTaskClosed (t_status t) \<and>
       t_closed_at t \<noteq> NoStamp \<and> t_closed_at t \<le> closedBefore) (d_tasks d))))"

definition workspace_eligible :: "string \<Rightarrow> stamp \<Rightarrow> db \<Rightarrow> failure + bool" where
  "workspace_eligible taskID closedBefore d =
     (case task_of d taskID of
        None \<Rightarrow> Inl (NewError NOT_FOUND False)
      | Some task \<Rightarrow>
          if \<not> ((t_kind task = TaskWork \<or> t_kind task = TaskIntegration) \<and> closed_before task closedBefore \<and>
                t_current_run_id task = []) then Inr False
          else if t_head_sha task \<noteq> [] \<and> (t_task_ref task = [] \<or> t_head_run_id task = []) then Inr False
          else if t_head_sha task = [] \<and>
                  0 < count (\<lambda>r. r_task_id r = t_id task \<and> started_writer r) (d_runs d) then Inr False
          else if 0 < count (\<lambda>r. r_task_id r = t_id task \<and> IsRunLive (r_state r)) (d_runs d) then Inr False
          else if t_integration_task_id task = [] then Inr True
          else (case task_of d (t_integration_task_id task) of
                  None \<Rightarrow> Inl (NewError NOT_FOUND False)
                | Some integration \<Rightarrow>
                    Inr (IsTaskClosed (t_status integration) \<and> t_pending_action integration = NoAction)))"

definition WorkspaceEligible :: "string \<Rightarrow> stamp \<Rightarrow> bool op" where
  "WorkspaceEligible taskID closedBefore = read_db (workspace_eligible taskID closedBefore)"

section \<open>Queries of the daemon\<close>

definition LiveRuns :: "run list op" where
  "LiveRuns = read_db (\<lambda>d. Inr (sort_key (\<lambda>r. (r_created_at r, r_id r))
     (filter (\<lambda>r. IsRunLive (r_state r)) (d_runs d))))"

definition RunsNeedingCleanup :: "run list op" where
  "RunsNeedingCleanup = read_db (\<lambda>d. Inr (sort_key (\<lambda>r. (r_ended_at r, r_id r))
     (filter (\<lambda>r. \<not> IsRunLive (r_state r) \<and>
        (r_cleanup_state r = CleanupPending \<or> r_cleanup_state r = CleanupBlocked)) (d_runs d))))"

definition LatestTerminalRun :: "string \<Rightarrow> string \<Rightarrow> run op" where
  "LatestTerminalRun taskID agentID = read_db (\<lambda>d. found
     (case rev (sort_key (\<lambda>r. (r_ended_at r, r_id r))
        (filter (\<lambda>r. r_task_id r = taskID \<and> \<not> IsRunLive (r_state r) \<and>
           (agentID = [] \<or> r_agent_id r = agentID)) (d_runs d))) of
        [] \<Rightarrow> None | r # _ \<Rightarrow> Some r))"

definition TaskHasStartedRun :: "string \<Rightarrow> bool op" where
  "TaskHasStartedRun taskID = read_db (\<lambda>d. Inr
     (\<exists>r \<in> set (d_runs d). r_task_id r = trim_space taskID \<and> started_writer r))"

section \<open>Cutoffs and intents\<close>

definition retentionCutoff :: "service \<Rightarrow> int \<Rightarrow> stamp op" where
  "retentionCutoff sv retention =
     (\<lambda>w. (Inr (At (sv_now sv (w_clock w) - retention)), w\<lparr>w_clock := Suc (w_clock w)\<rparr>))"

definition workspaceRetentionCutoff :: "service \<Rightarrow> stamp op" where
  "workspaceRetentionCutoff sv = retentionCutoff sv (sv_workspace_retention sv)"

definition taskRefRetentionCutoff :: "service \<Rightarrow> stamp op" where
  "taskRefRetentionCutoff sv = retentionCutoff sv (sv_task_ref_retention sv)"

definition expected_head :: "task \<Rightarrow> string" where
  "expected_head task = (if t_head_sha task = [] then t_base_sha task else t_head_sha task)"

definition delete_workspace_intent :: "task \<Rightarrow> GitDeleteWorkspaceIntent" where
  "delete_workspace_intent task =
     \<lparr>dw_project_id = t_project_id task, dw_task_id = t_id task, dw_base_sha = t_base_sha task,
      dw_expected_head = expected_head task, dw_source = task_source task\<rparr>"

definition gitWorkspaceIntent :: "task \<Rightarrow> GitWorkspaceStateIntent" where
  "gitWorkspaceIntent task =
     \<lparr>gw_workspace = delete_workspace_intent task, gw_task_version = t_version task\<rparr>"

definition delete_ref_intent :: "task \<Rightarrow> project \<Rightarrow> bool \<Rightarrow> GitDeleteRefIntent" where
  "delete_ref_intent task project allowDiscard =
     \<lparr>dr_project_id = t_project_id task, dr_control_repo = p_control_repo_path project,
      dr_canonical_ref = p_canonical_ref project, dr_task_ref = t_task_ref task,
      dr_expected_sha = t_head_sha task, dr_allow_discard = allowDiscard\<rparr>"

section \<open>The reconcilers\<close>

definition source_released :: "task \<Rightarrow> stamp \<Rightarrow> task" where
  "source_released task now =
     task\<lparr>t_source_ref_released_at := now, t_version := t_version task + 1, t_updated_at := now\<rparr>"

definition releaseSourceReference_tx :: "service \<Rightarrow> string \<Rightarrow> string \<Rightarrow> unit op" where
  "releaseSourceReference_tx sv taskID requestID =
    andthen (tx_Task taskID) (\<lambda>task.
    whenever (t_source_task_ref task \<noteq> [] \<and> t_source_ref_released_at task = NoStamp) (
      andthen (reject ((t_status task \<noteq> TaskCompleted \<and> t_status task \<noteq> TaskCancelled) \<or>
               t_current_run_id task \<noteq> [] \<or> t_pending_action task \<noteq> NoAction)
         (task_conflict INVALID_STATE task)) (\<lambda>_.
      andthen (nowText sv) (\<lambda>now.
      andthen (tx_UpdateTask (source_released task now) (t_version task) (t_status task)) (\<lambda>_.
      andthen (emit (t_project_id task) TaskEntity (t_id task) ''gc.source_ref_released'' Boss [] [] requestID []
         ''{}'' now) (\<lambda>_.
      ret ()))))))"

definition collectTaskRef :: "service \<Rightarrow> stamp \<Rightarrow> task \<Rightarrow> unit op" where
  "collectTaskRef sv closedBefore task =
    andthen (tx_Project (t_project_id task)) (\<lambda>project.
    andthen (authorized (\<lambda>n. g_delete_task_ref (sv_git sv) n (delete_ref_intent task project False))
       (TaskRefEligible (t_id task) (t_task_ref task) closedBefore)) (\<lambda>_.
    ret ()))"

definition ReconcileGitGC :: "service \<Rightarrow> stamp \<Rightarrow> failure list op" where
  "ReconcileGitGC sv closedBefore =
    andthen (TaskRefCandidates closedBefore) (\<lambda>candidates.
    (if candidates = [] then ret []
      else
      andthen (reject (\<not> sv_task_git sv) (NewError GIT_INVARIANT_VIOLATION False)) (\<lambda>_.
      andthen (collect candidates (\<lambda>task. joined (collectTaskRef sv closedBefore task))) (\<lambda>errors.
      ret (concat errors)))))"

definition collectWorkspace :: "service \<Rightarrow> stamp \<Rightarrow> string \<Rightarrow> task \<Rightarrow> unit op" where
  "collectWorkspace sv closedBefore requestID task =
    andthen (authorized (\<lambda>n. g_delete_workspace (sv_git sv) n (delete_workspace_intent task))
       (WorkspaceEligible (t_id task) closedBefore)) (\<lambda>deleted.
    whenever deleted (transact (releaseSourceReference_tx sv (t_id task) requestID)))"

definition reconcileWorkspaceGC :: "service \<Rightarrow> stamp \<Rightarrow> string \<Rightarrow> failure list op" where
  "reconcileWorkspaceGC sv closedBefore requestID =
    andthen (WorkspaceCandidates closedBefore) (\<lambda>candidates.
    (if candidates = [] then ret []
      else
      andthen (reject (\<not> sv_task_git sv) (NewError GIT_INVARIANT_VIOLATION False)) (\<lambda>_.
      andthen (collect candidates (\<lambda>task. joined (collectWorkspace sv closedBefore requestID task))) (\<lambda>errors.
      ret (concat errors)))))"

definition ReconcileWorkspaceGC :: "service \<Rightarrow> stamp \<Rightarrow> failure list op" where
  "ReconcileWorkspaceGC sv closedBefore = reconcileWorkspaceGC sv closedBefore []"

definition agentHomeReasons :: "db \<Rightarrow> agent \<Rightarrow> string list" where
  "agentHomeReasons d agent =
     (if a_status agent \<noteq> AgentArchived then [''agent_not_archived''] else []) @
     (if \<exists>r \<in> set (d_runs d). r_agent_id r = a_id agent \<and> IsRunLive (r_state r)
      then [''live_run''] else []) @
     (if \<exists>t \<in> set (d_tasks d). IsTaskOpen (t_status t) \<and>
           (t_assignee_agent_id t = a_id agent \<or> t_accepted_integration_agent_id t = a_id agent)
      then [''active_or_recoverable_task''] else []) @
     (if \<exists>m \<in> set (d_messages d). m_recipient_kind m = AgentActor \<and> m_recipient_id m = a_id agent \<and>
           (m_state m = MessagePending \<or> m_state m = MessageDelivered)
      then [''pending_message''] else [])"

definition agent_home_authorization :: "string \<Rightarrow> bool op" where
  "agent_home_authorization agentID = read_db (\<lambda>d. Inr
     (case agent_of d agentID of None \<Rightarrow> False | Some a \<Rightarrow> agentHomeReasons d a = []))"

definition collectAgentHome :: "service \<Rightarrow> agent_homes \<Rightarrow> agent \<Rightarrow> unit op" where
  "collectAgentHome sv homes agent =
    andthen (wrap (WrapError RUNTIME_INVARIANT_VIOLATION False)
       (external (\<lambda>n. ah_state homes n (a_id agent)))) (\<lambda>present.
    whenever present (
      andthen (wrap (WrapError RUNTIME_INVARIANT_VIOLATION False)
         (authorized (\<lambda>n. ah_delete homes n (a_id agent)) (agent_home_authorization (a_id agent)))) (\<lambda>_.
      ret ())))"

definition sorted_agents :: "db \<Rightarrow> agent list" where
  "sorted_agents d = sort_key (\<lambda>a. (a_created_at a, a_id a)) (d_agents d)"

definition reconcileAgentHomeGC :: "service \<Rightarrow> unit op" where
  "reconcileAgentHomeGC sv =
     (case sv_agent_homes sv of
        None \<Rightarrow> ret ()
      | Some homes \<Rightarrow>
        andthen (read_db Inr) (\<lambda>snapshot.
        each (filter (\<lambda>a. agentHomeReasons snapshot a = []) (sorted_agents snapshot))
            (collectAgentHome sv homes)))"

section \<open>Requests\<close>

record GCDiscardResult =
  gr_task_id :: string
  gr_run_id :: string
  gr_discarded :: bool

definition gcDedupe_tx :: "string \<Rightarrow> string \<Rightarrow> string \<Rightarrow> GCDiscardResult option op" where
  "gcDedupe_tx operation requestID inputHash =
    andthen (tx_Dedupe ''boss'' operation requestID) (\<lambda>raw.
    (case raw of
        None \<Rightarrow> ret None
      | Some (RequestResult _ _ _) \<Rightarrow> throw (NewError INTERNAL False)
      | Some (GcResult recorded taskID runID discarded) \<Rightarrow>
      andthen (reject (recorded \<noteq> inputHash) (NewError VERSION_CONFLICT False)) (\<lambda>_.
      ret (Some \<lparr>gr_task_id = taskID, gr_run_id = runID, gr_discarded = discarded\<rparr>))))"

definition putGCDedupe_tx ::
  "service \<Rightarrow> string \<Rightarrow> string \<Rightarrow> string \<Rightarrow> GCDiscardResult \<Rightarrow> string \<Rightarrow> string \<Rightarrow> unit op" where
  "putGCDedupe_tx sv operation requestID inputHash result projectID eventKind =
    andthen (tx_Dedupe ''boss'' operation requestID) (\<lambda>raw.
    (case raw of
        Some (GcResult recorded _ _ _) \<Rightarrow>
          reject (recorded \<noteq> inputHash) (NewError VERSION_CONFLICT False)
      | Some (RequestResult _ _ _) \<Rightarrow> throw (NewError VERSION_CONFLICT False)
      | None \<Rightarrow>
      andthen (nowText sv) (\<lambda>now.
      andthen (tx_PutDedupe ''boss'' operation requestID
            (GcResult inputHash (gr_task_id result) (gr_run_id result) (gr_discarded result)) now) (\<lambda>_.
      andthen (emit projectID DaemonEntity ''gc'' eventKind Boss [] [] requestID []
            (eventPayload [(''task_id'', JString (gr_task_id result)),
               (''run_id'', JString (gr_run_id result)), (''discarded'', JBool (gr_discarded result))]) now) (\<lambda>_.
      ret ())))))"

definition without_errors :: "failure list op \<Rightarrow> unit op" where
  "without_errors m =
    andthen m (\<lambda>errors.
    (case errors of [] \<Rightarrow> ret () | e # _ \<Rightarrow> throw e))"

text \<open>The value is \<open>Completed\<close>.\<close>

definition GCRun :: "service \<Rightarrow> bool \<Rightarrow> string \<Rightarrow> bool op" where
  "GCRun sv confirm requestID =
    andthen (reject (\<not> confirm) (NewError INVALID_ARGUMENT False)) (\<lambda>_.
    andthen (request_id sv requestID) (\<lambda>requestID.
    let inputHash = inputFingerprint sv [(''Confirm'', JBool confirm)] in
    andthen (transact (gcDedupe_tx ''gc.run'' requestID inputHash)) (\<lambda>replayed.
    (if replayed \<noteq> None then ret True
      else
      andthen (workspaceRetentionCutoff sv) (\<lambda>workspaceCutoff.
      andthen (taskRefRetentionCutoff sv) (\<lambda>refCutoff.
      andthen (without_errors (reconcileWorkspaceGC sv workspaceCutoff requestID)) (\<lambda>_.
      andthen (without_errors (ReconcileGitGC sv refCutoff)) (\<lambda>_.
      andthen (reconcileAgentHomeGC sv) (\<lambda>_.
      andthen (transact (putGCDedupe_tx sv ''gc.run'' requestID inputHash
          \<lparr>gr_task_id = ''gc'', gr_run_id = [], gr_discarded = True\<rparr> [] ''gc.run.completed'')) (\<lambda>_.
      ret True))))))))))"

definition gcTask :: "service \<Rightarrow> string \<Rightarrow> (task \<times> project) op" where
  "gcTask sv taskID =
    andthen (tx_Task taskID) (\<lambda>task.
    andthen (tx_Project (t_project_id task)) (\<lambda>project.
    andthen (reject (\<not> sv_task_git sv) (NewError GIT_INVARIANT_VIOLATION False)) (\<lambda>_.
    ret (task, project))))"

definition validateDiscardTask :: "project \<Rightarrow> task \<Rightarrow> failure option" where
  "validateDiscardTask project task =
     (if p_status project \<noteq> ProjectActive then Some (project_conflict INVALID_STATE project)
      else if t_status task \<noteq> TaskCompleted \<and> t_status task \<noteq> TaskCancelled
      then Some (task_conflict INVALID_STATE task)
      else if t_current_run_id task \<noteq> [] \<or> t_pending_action task \<noteq> NoAction
      then Some (task_conflict ACTION_IN_PROGRESS task)
      else None)"

fun contains :: "string \<Rightarrow> string \<Rightarrow> bool" where
  "contains part [] = (part = [])"
| "contains part (c # cs) = (take (length part) (c # cs) = part \<or> contains part cs)"

definition discard_workspace_authorization :: "service \<Rightarrow> string \<Rightarrow> bool op" where
  "discard_workspace_authorization sv taskID =
    andthen (gcTask sv taskID) (\<lambda>(current, project).
    (if validateDiscardTask project current \<noteq> None then ret False
      else
      andthen (workspaceRetentionCutoff sv) (\<lambda>cutoff.
      WorkspaceEligible (t_id current) cutoff)))"

definition outcome_of :: "'a op \<Rightarrow> (failure + 'a) op" where
  "outcome_of m = (\<lambda>w. case m w of (r, w') \<Rightarrow> (Inr r, w'))"

definition GCDiscardWorkspace :: "service \<Rightarrow> string \<Rightarrow> string \<Rightarrow> string \<Rightarrow> GCDiscardResult op" where
  "GCDiscardWorkspace sv taskID fingerprint requestID =
    andthen (requireText ''task_id'' taskID) (\<lambda>taskID.
    andthen (requireText ''expected_fingerprint'' fingerprint) (\<lambda>fingerprint.
    andthen (request_id sv requestID) (\<lambda>requestID.
    let inputHash = inputFingerprint sv
       [(''TaskID'', JString taskID), (''Fingerprint'', JString fingerprint)] in
    andthen (transact (gcDedupe_tx ''gc.discard_workspace'' requestID inputHash)) (\<lambda>replayed.
    (case replayed of
        Some result \<Rightarrow> ret result
      | None \<Rightarrow>
      andthen (gcTask sv taskID) (\<lambda>(task, project).
      andthen (check (validateDiscardTask project task)) (\<lambda>_.
      andthen (outcome_of (authorized (\<lambda>n. g_discard_workspace (sv_git sv) n
            \<lparr>gd_state = gitWorkspaceIntent task, gd_expected_fingerprint = fingerprint\<rparr>)
            (discard_workspace_authorization sv (t_id task)))) (\<lambda>r.
      (case r of
             Inl e \<Rightarrow> throw (if contains ''fingerprint changed'' (cause_text e)
               then task_conflict VERSION_CONFLICT task else WrapError GIT_INVARIANT_VIOLATION False)
           | Inr discarded \<Rightarrow>
        andthen (reject (\<not> discarded) (task_conflict INVALID_STATE task)) (\<lambda>_.
        andthen (transact (releaseSourceReference_tx sv (t_id task) requestID)) (\<lambda>_.
        let result = \<lparr>gr_task_id = t_id task, gr_run_id = [], gr_discarded = True\<rparr> in
        andthen (transact (putGCDedupe_tx sv ''gc.discard_workspace'' requestID inputHash result
                 (t_project_id task) ''gc.workspace_discarded'')) (\<lambda>_.
        ret result))))))))))))"

definition task_ref_name :: "string \<Rightarrow> string \<Rightarrow> string" where
  "task_ref_name taskID runID = ''refs/coordplane/tasks/'' @ taskID @ ''/runs/'' @ runID"

definition discard_ref_authorization :: "service \<Rightarrow> task \<Rightarrow> string \<Rightarrow> string \<Rightarrow> bool op" where
  "discard_ref_authorization sv task runID expectedSHA =
    andthen (gcTask sv (t_id task)) (\<lambda>(current, project).
    (if validateDiscardTask project current \<noteq> None then ret False
      else
      andthen (tx_Run runID) (\<lambda>currentRun.
      (if r_task_id currentRun \<noteq> t_id current \<or> t_head_run_id current \<noteq> r_id currentRun \<or>
            t_task_ref current \<noteq> t_task_ref task \<or> t_head_sha current \<noteq> expectedSHA then ret False
         else
        andthen (taskRefRetentionCutoff sv) (\<lambda>cutoff.
        TaskRefEligible (t_id current) (t_task_ref current) cutoff)))))"

definition GCDiscardTaskRef :: "service \<Rightarrow> string \<Rightarrow> string \<Rightarrow> string \<Rightarrow> string \<Rightarrow> GCDiscardResult op" where
  "GCDiscardTaskRef sv taskID runID expectedSHA requestID =
    andthen (requireText ''task_id'' taskID) (\<lambda>taskID.
    andthen (requireText ''run_id'' runID) (\<lambda>runID.
    andthen (requireText ''expected_sha'' expectedSHA) (\<lambda>expectedSHA.
    andthen (request_id sv requestID) (\<lambda>requestID.
    let inputHash = inputFingerprint sv
       [(''TaskID'', JString taskID), (''RunID'', JString runID), (''SHA'', JString expectedSHA)] in
    andthen (transact (gcDedupe_tx ''gc.discard_task_ref'' requestID inputHash)) (\<lambda>replayed.
    (case replayed of
        Some result \<Rightarrow> ret result
      | None \<Rightarrow>
      andthen (gcTask sv taskID) (\<lambda>(task, project).
      andthen (check (validateDiscardTask project task)) (\<lambda>_.
      andthen (tx_Run runID) (\<lambda>run.
      andthen (reject (r_task_id run \<noteq> t_id task \<or> t_head_run_id task \<noteq> r_id run \<or>
                  t_task_ref task \<noteq> task_ref_name (t_id task) (r_id run) \<or> t_head_sha task \<noteq> expectedSHA)
            (NewError INVALID_ARGUMENT False)) (\<lambda>_.
      let intent = delete_ref_intent task project True in
      andthen (wrap (WrapError GIT_INVARIANT_VIOLATION False)
            (external (\<lambda>n. g_task_ref_state (sv_git sv) n intent))) (\<lambda>state.
      andthen (reject (rs_exists state \<and> rs_actual_sha state \<noteq> expectedSHA) (task_conflict VERSION_CONFLICT task)) (\<lambda>_.
      andthen (wrap (WrapError GIT_INVARIANT_VIOLATION False)
            (authorized (\<lambda>n. g_delete_task_ref (sv_git sv) n intent)
              (discard_ref_authorization sv task (r_id run) expectedSHA))) (\<lambda>discarded.
      andthen (reject (\<not> discarded) (task_conflict INVALID_STATE task)) (\<lambda>_.
      let result = \<lparr>gr_task_id = t_id task, gr_run_id = r_id run, gr_discarded = True\<rparr> in
      andthen (transact (putGCDedupe_tx sv ''gc.discard_task_ref'' requestID inputHash result (t_project_id task)
            ''gc.task_ref_discarded'')) (\<lambda>_.
      ret result)))))))))))))))"

section \<open>Preview\<close>

definition reasons_for :: "(bool \<times> string) list \<Rightarrow> string list" where
  "reasons_for rs = map snd (filter fst rs)"

definition gcWorkspaceReasons ::
  "project \<Rightarrow> task \<Rightarrow> GitWorkspaceStateFact \<Rightarrow> bool \<Rightarrow> string \<Rightarrow> string list" where
  "gcWorkspaceReasons project task state eligible expectedHead = reasons_for
     [(p_status project \<noteq> ProjectActive, ''project_not_active''),
      (t_status task \<noteq> TaskCompleted \<and> t_status task \<noteq> TaskCancelled, ''task_not_terminal''),
      (t_current_run_id task \<noteq> [] \<or> t_pending_action task \<noteq> NoAction, ''active_or_pending''),
      (\<not> eligible, ''durable_fence_or_retention''),
      (\<not> ws_exists state, ''absent''),
      (ws_exists state \<and> ws_head_sha state \<noteq> expectedHead, ''head_changed''),
      (ws_exists state \<and> \<not> ws_clean state, ''dirty'')]"

definition gcTaskRefReasons :: "project \<Rightarrow> task \<Rightarrow> GitTaskRefStateFact \<Rightarrow> bool \<Rightarrow> string list" where
  "gcTaskRefReasons project task state eligible = reasons_for
     [(p_status project \<noteq> ProjectActive, ''project_not_active''),
      (\<not> eligible, ''durable_reference_or_retention''),
      (\<not> rs_exists state, ''absent''),
      (rs_exists state \<and> rs_actual_sha state \<noteq> t_head_sha task, ''sha_changed''),
      (rs_exists state \<and> \<not> rs_included state, ''not_in_canonical'')]"

record GCWorkspaceTarget =
  wk_task_id :: string
  wk_task_version :: int
  wk_exists :: bool
  wk_fingerprint :: string
  wk_actual_head :: string
  wk_eligible :: bool
  wk_reasons :: "string list"

record GCTaskRefTarget =
  tg_task_id :: string
  tg_run_id :: string
  tg_actual_sha :: string
  tg_exists :: bool
  tg_eligible :: bool
  tg_reasons :: "string list"

record GCAgentHomeTarget =
  hm_agent_id :: string
  hm_exists :: bool
  hm_eligible :: bool
  hm_reasons :: "string list"

record GCPreview =
  pv_generated_at :: stamp
  pv_workspaces :: "GCWorkspaceTarget list"
  pv_task_refs :: "GCTaskRefTarget list"
  pv_agent_homes :: "GCAgentHomeTarget list"

definition previewWorkspace :: "service \<Rightarrow> stamp \<Rightarrow> project \<Rightarrow> task \<Rightarrow> GCWorkspaceTarget op" where
  "previewWorkspace sv cutoff project task =
    andthen (wrap (WrapError GIT_INVARIANT_VIOLATION False)
       (external (\<lambda>n. g_workspace_state (sv_git sv) n (gitWorkspaceIntent task)))) (\<lambda>state.
    andthen (WorkspaceEligible (t_id task) cutoff) (\<lambda>eligible.
    let reasons = gcWorkspaceReasons project task state eligible (expected_head task) in
    ret \<lparr>wk_task_id = t_id task, wk_task_version = t_version task, wk_exists = ws_exists state,
       wk_fingerprint = ws_fingerprint state, wk_actual_head = ws_head_sha state,
       wk_eligible = (ws_exists state \<and> reasons = []), wk_reasons = reasons\<rparr>))"

definition previewTaskRef :: "service \<Rightarrow> stamp \<Rightarrow> project \<Rightarrow> task \<Rightarrow> GCTaskRefTarget op" where
  "previewTaskRef sv cutoff project task =
    andthen (wrap (WrapError GIT_INVARIANT_VIOLATION False)
       (external (\<lambda>n. g_task_ref_state (sv_git sv) n (delete_ref_intent task project False)))) (\<lambda>state.
    andthen (TaskRefEligible (t_id task) (t_task_ref task) cutoff) (\<lambda>eligible.
    let reasons = gcTaskRefReasons project task state eligible in
    ret \<lparr>tg_task_id = t_id task, tg_run_id = t_head_run_id task, tg_actual_sha = rs_actual_sha state,
       tg_exists = rs_exists state, tg_eligible = (rs_exists state \<and> reasons = []), tg_reasons = reasons\<rparr>))"

definition previewTask ::
  "service \<Rightarrow> db \<Rightarrow> stamp \<Rightarrow> stamp \<Rightarrow> task \<Rightarrow> (GCWorkspaceTarget \<times> GCTaskRefTarget option) op" where
  "previewTask sv snapshot workspaceCutoff refCutoff task =
     (case project_of snapshot (t_project_id task) of
        None \<Rightarrow> throw (NewError GIT_INVARIANT_VIOLATION False)
      | Some project \<Rightarrow>
        andthen (previewWorkspace sv workspaceCutoff project task) (\<lambda>workspace.
        (if t_task_ref task = [] \<or> t_head_run_id task = [] \<or> t_head_sha task = [] then ret (workspace, None)
           else
          andthen (previewTaskRef sv refCutoff project task) (\<lambda>target.
          ret (workspace, Some target)))))"

definition previewAgentHome :: "db \<Rightarrow> agent_homes \<Rightarrow> agent \<Rightarrow> GCAgentHomeTarget op" where
  "previewAgentHome snapshot homes agent =
    andthen (wrap (WrapError RUNTIME_INVARIANT_VIOLATION False)
       (external (\<lambda>n. ah_state homes n (a_id agent)))) (\<lambda>present.
    let reasons = agentHomeReasons snapshot agent @ (if present then [] else [''absent'']) in
    ret \<lparr>hm_agent_id = a_id agent, hm_exists = present, hm_eligible = (present \<and> reasons = []),
       hm_reasons = reasons\<rparr>)"

definition GCPreview_op :: "service \<Rightarrow> GCPreview op" where
  "GCPreview_op sv =
    andthen (read_db Inr) (\<lambda>snapshot.
    andthen (reject (\<not> sv_task_git sv) (NewError GIT_INVARIANT_VIOLATION False)) (\<lambda>_.
    andthen (workspaceRetentionCutoff sv) (\<lambda>workspaceCutoff.
    andthen (taskRefRetentionCutoff sv) (\<lambda>refCutoff.
    andthen (nowText sv) (\<lambda>generatedAt.
    andthen (collect (filter (\<lambda>t. t_kind t = TaskWork \<or> t_kind t = TaskIntegration)
         (sort_key (\<lambda>t. (t_created_at t, t_id t)) (d_tasks snapshot)))
       (previewTask sv snapshot workspaceCutoff refCutoff)) (\<lambda>targets.
    andthen (case sv_agent_homes sv of
        None \<Rightarrow> ret []
      | Some homes \<Rightarrow> collect (sorted_agents snapshot) (previewAgentHome snapshot homes)) (\<lambda>homes.
    ret \<lparr>pv_generated_at = generatedAt, pv_workspaces = map fst targets,
       pv_task_refs = concat (map (\<lambda>t. case snd t of None \<Rightarrow> [] | Some r \<Rightarrow> [r]) targets),
       pv_agent_homes = homes\<rparr>)))))))"

end
