(* ===== verification/Transitions.thy ===== *)
theory Transitions
  imports Gc
begin

text \<open>
  What one row may go through. For each versioned table a step relation says what a single update may
  change; the history of a row is a path of such steps from an initial row. \<open>evolves\<close> relates two
  databases when every row of the first has a path to a row of the second, every new row starts
  initial, and the event log and the request dedupe only grow. The theories that follow show that
  every operation other than a deletion evolves the database.
\<close>

named_theorems keeps_intro "rules that reduce keeps of an operation to its updates"

section \<open>Steps of a row\<close>

definition task_fixed :: "task \<Rightarrow> task \<Rightarrow> bool" where
  "task_fixed t t' =
     (t_id t' = t_id t \<and> t_project_id t' = t_project_id t \<and> t_kind t' = t_kind t \<and>
      t_parent_task_id t' = t_parent_task_id t \<and> t_retry_of_task_id t' = t_retry_of_task_id t \<and>
      t_created_by_kind t' = t_created_by_kind t \<and> t_created_by_id t' = t_created_by_id t \<and>
      t_assignee_agent_id t' = t_assignee_agent_id t \<and>
      t_assignee_participant_id t' = t_assignee_participant_id t \<and> t_title t' = t_title t \<and>
      t_description t' = t_description t \<and> t_priority t' = t_priority t \<and>
      t_max_retries t' = t_max_retries t \<and> t_budget_seconds t' = t_budget_seconds t \<and>
      t_base_sha t' = t_base_sha t \<and> t_source_task_id t' = t_source_task_id t \<and>
      t_source_run_id t' = t_source_run_id t \<and> t_source_task_ref t' = t_source_task_ref t \<and>
      t_source_head_sha t' = t_source_head_sha t \<and>
      t_source_accept_version t' = t_source_accept_version t \<and> t_created_at t' = t_created_at t)"

text \<open>A status change follows the table of \<open>fsm.go\<close>, except that a broken Git advance fails a submitted
  task and that a human completes a waiting task that has no agent.\<close>

definition task_move :: "task \<Rightarrow> task \<Rightarrow> bool" where
  "task_move t t' =
     (t_status t' = t_status t \<or> ValidateTaskTransition (t_kind t) (t_status t) (t_status t') = None \<or>
      (t_status t = TaskSubmitted \<and> t_status t' = TaskFailed \<and> t_pending_action t = Advance) \<or>
      (t_status t = TaskWaiting \<and> t_status t' = TaskCompleted \<and> t_assignee_agent_id t = []))"

definition task_ok :: "task \<Rightarrow> bool" where
  "task_ok t =
     ((t_kind t = TaskConversation \<longrightarrow> t_pending_action t = NoAction \<and> t_status t \<noteq> TaskSubmitted) \<and>
      t_retry_count t \<le> t_max_retries t \<and> (t_head_sha t \<noteq> [] \<longrightarrow> t_evidence_type t \<noteq> NoEvidence))"

text \<open>A closed task only loses its terminal run and its hold on its source ref.\<close>

definition task_frozen :: "task \<Rightarrow> task \<Rightarrow> bool" where
  "task_frozen t t' = (\<exists>current released version updated.
     t' = t\<lparr>t_current_run_id := current, t_source_ref_released_at := released,
        t_version := version, t_updated_at := updated\<rparr>)"

definition task_step :: "task \<Rightarrow> task \<Rightarrow> bool" where
  "task_step t t' =
     (t_version t' = t_version t + 1 \<and> task_fixed t t' \<and>
      (t_generation t' = t_generation t \<or> t_generation t' = t_generation t + 1) \<and>
      t_retry_count t \<le> t_retry_count t' \<and>
      (task_ok t \<longrightarrow> task_ok t' \<and> task_move t t') \<and>
      (IsTaskClosed (t_status t) \<longrightarrow> task_frozen t t'))"

definition task_initial :: "task \<Rightarrow> bool" where
  "task_initial t =
     (t_version t = 1 \<and> t_generation t = 0 \<and> t_current_run_id t = [] \<and> t_pending_action t = NoAction \<and>
      t_retry_count t = 0 \<and> 0 \<le> t_max_retries t \<and> t_head_sha t = [] \<and> (t_status t = TaskQueued \<or> t_status t = TaskWaiting))"

definition run_fixed :: "run \<Rightarrow> run \<Rightarrow> bool" where
  "run_fixed r r' =
     (r_id r' = r_id r \<and> r_project_id r' = r_project_id r \<and> r_task_id r' = r_task_id r \<and>
      r_agent_id r' = r_agent_id r \<and> r_generation r' = r_generation r \<and>
      r_adapter_id r' = r_adapter_id r \<and> r_image r' = r_image r \<and> r_token_hash r' = r_token_hash r \<and>
      r_launch_operation_id r' = r_launch_operation_id r \<and>
      r_container_name r' = r_container_name r \<and> r_created_at r' = r_created_at r)"

text \<open>What is written once: the launch intent under its nonce, the container, the end of the token, the
  first request to stop.\<close>

definition run_sticky :: "run \<Rightarrow> run \<Rightarrow> bool" where
  "run_sticky r r' =
     ((r_launch_nonce r \<noteq> [] \<longrightarrow>
         r_launch_nonce r' = r_launch_nonce r \<and> r_workspace_path r' = r_workspace_path r \<and>
         r_home_path r' = r_home_path r \<and> r_log_path r' = r_log_path r \<and>
         r_instructions_hash r' = r_instructions_hash r \<and>
         r_config_fingerprint r' = r_config_fingerprint r \<and> r_launch_mode r' = r_launch_mode r \<and>
         r_resumed_from_run_id r' = r_resumed_from_run_id r \<and>
         r_cleanup_operation_id r' = r_cleanup_operation_id r \<and> r_deadline_at r' = r_deadline_at r) \<and>
      (r_container_id r \<noteq> [] \<longrightarrow> r_container_id r' = r_container_id r) \<and>
      (r_token_revoked_at r \<noteq> NoStamp \<longrightarrow> r_token_revoked_at r' = r_token_revoked_at r) \<and>
      (r_stop_requested_at r \<noteq> NoStamp \<longrightarrow>
         r_stop_requested_at r' = r_stop_requested_at r \<and> r_stop_reason r' = r_stop_reason r))"

definition run_ok :: "run \<Rightarrow> bool" where
  "run_ok r = ((r_requested_outcome r \<noteq> NoOutcome \<or> IsRunTerminal (r_state r)) \<longrightarrow>
     r_token_revoked_at r \<noteq> NoStamp)"

text \<open>A terminal run only goes through its cleanup.\<close>

definition run_frozen :: "run \<Rightarrow> run \<Rightarrow> bool" where
  "run_frozen r r' = (\<exists>cleanup lastError isolation version.
     r' = r\<lparr>r_cleanup_state := cleanup, r_last_error := lastError,
        r_isolation_spec_version := isolation, r_version := version\<rparr>)"

definition cleanup_move :: "run \<Rightarrow> run \<Rightarrow> bool" where
  "cleanup_move r r' =
     (r_cleanup_state r' = r_cleanup_state r \<or>
      validCleanupTransition (r_cleanup_state r) (r_cleanup_state r') (IsRunTerminal (r_state r)) \<or>
      (r_launch_nonce r = [] \<and> r_state r = RunStarting \<and> r_cleanup_state r' = CleanupPending))"

definition run_step :: "run \<Rightarrow> run \<Rightarrow> bool" where
  "run_step r r' =
     (r_version r' = r_version r + 1 \<and> run_fixed r r' \<and> run_sticky r r' \<and> cleanup_move r r' \<and>
      (r_state r' = r_state r \<or> runTransitions (r_state r) (r_state r')) \<and>
      launchPhaseOrder (r_launch_phase r) \<le> launchPhaseOrder (r_launch_phase r') \<and>
      (run_ok r \<longrightarrow> run_ok r' \<and>
         (r_requested_outcome r \<noteq> NoOutcome \<longrightarrow> r_requested_outcome r' = r_requested_outcome r \<and>
            r_requested_summary r' = r_requested_summary r \<and> r_expected_head r' = r_expected_head r)) \<and>
      (IsRunTerminal (r_state r) \<longrightarrow> run_frozen r r'))"

definition run_initial :: "run \<Rightarrow> bool" where
  "run_initial r =
     (r_version r = 1 \<and> r_state r = RunStarting \<and> r_launch_phase r = LaunchIntent \<and>
      r_launch_nonce r = [] \<and> r_container_id r = [] \<and> r_token_revoked_at r = NoStamp \<and>
      r_requested_outcome r = NoOutcome \<and> r_stop_requested_at r = NoStamp \<and>
      r_cleanup_state r = CleanupNotNeeded)"

definition message_fixed :: "message \<Rightarrow> message \<Rightarrow> bool" where
  "message_fixed m m' =
     (m_id m' = m_id m \<and> m_project_id m' = m_project_id m \<and> m_sender_kind m' = m_sender_kind m \<and>
      m_sender_id m' = m_sender_id m \<and> m_recipient_kind m' = m_recipient_kind m \<and>
      m_recipient_id m' = m_recipient_id m \<and> m_body m' = m_body m \<and> m_wake m' = m_wake m \<and>
      m_system_code m' = m_system_code m \<and> m_max_deliveries m' = m_max_deliveries m \<and>
      m_reply_to_message_id m' = m_reply_to_message_id m \<and>
      m_idempotency_key m' = m_idempotency_key m \<and> m_created_at m' = m_created_at m)"

definition message_ok :: "message \<Rightarrow> bool" where
  "message_ok m = (m_max_deliveries m = 0 \<or> m_delivery_count m \<le> m_max_deliveries m)"

text \<open>Only an open message changes; a delivery is counted against the limit.\<close>

definition message_step :: "message \<Rightarrow> message \<Rightarrow> bool" where
  "message_step m m' =
     (m_version m' = m_version m + 1 \<and> message_fixed m m' \<and>
      (m_state m = MessagePending \<or> m_state m = MessageDelivered) \<and>
      (m_state m' = m_state m \<or> messageTransitions (m_state m) (m_state m')) \<and>
      (m_delivery_count m' = m_delivery_count m \<or> (m_delivery_count m' = 0 \<and> m_state m = MessagePending) \<or>
       (m_delivery_count m' = m_delivery_count m + 1 \<and> m_state m = MessagePending \<and>
        m_state m' = MessageDelivered \<and>
        (m_max_deliveries m \<le> 0 \<or> m_delivery_count m < m_max_deliveries m))) \<and>
      (0 \<le> m_max_deliveries m \<and> message_ok m \<longrightarrow> message_ok m'))"

definition message_initial :: "message \<Rightarrow> bool" where
  "message_initial m =
     (m_version m = 1 \<and> m_state m = MessagePending \<and> m_delivery_count m = 0 \<and> 0 \<le> m_max_deliveries m)"

definition project_fixed :: "project \<Rightarrow> project \<Rightarrow> bool" where
  "project_fixed p p' =
     (p_id p' = p_id p \<and> p_name p' = p_name p \<and> p_source p' = p_source p \<and>
      p_source_ref p' = p_source_ref p \<and> p_initial_sha p' = p_initial_sha p \<and>
      p_control_repo_path p' = p_control_repo_path p \<and> p_canonical_ref p' = p_canonical_ref p \<and>
      p_created_at p' = p_created_at p)"

definition project_ok :: "project \<Rightarrow> bool" where
  "project_ok p = (p_status p = ProjectCreating \<longleftrightarrow> p_pending_action p \<noteq> NoProjectAction)"

definition project_step :: "project \<Rightarrow> project \<Rightarrow> bool" where
  "project_step p p' =
     (p_version p' = p_version p + 1 \<and> project_fixed p p' \<and>
      (p_status p' = p_status p \<or> projectTransitions (p_status p) (p_status p')) \<and>
      (project_ok p \<longrightarrow> project_ok p'))"

definition project_initial :: "project \<Rightarrow> bool" where
  "project_initial p =
     (p_version p = 1 \<and> p_status p = ProjectCreating \<and> p_pending_action p = InitializeProject \<and>
      p_canonical_sha p = [])"

definition agent_step :: "agent \<Rightarrow> agent \<Rightarrow> bool" where
  "agent_step a a' =
     (a_version a' = a_version a + 1 \<and> a_id a' = a_id a \<and> a_created_at a' = a_created_at a \<and>
      (a_status a' = a_status a \<or> agentTransitions (a_status a) (a_status a')))"

definition agent_initial :: "agent \<Rightarrow> bool" where
  "agent_initial a = (a_version a = 1 \<and> a_status a = AgentActive)"

section \<open>Histories of a table\<close>

text \<open>The contract of a versioned table: a step keeps the key and counts the version up by one. Two
  consequences carry the optimistic concurrency of the service: a row that has the version that was
  read is the row that was read, and histories compose.\<close>

locale history =
  fixes key :: "'r \<Rightarrow> string" and ver :: "'r \<Rightarrow> int"
    and step :: "'r \<Rightarrow> 'r \<Rightarrow> bool" and initial :: "'r \<Rightarrow> bool"
  assumes step_key: "step x y \<Longrightarrow> key y = key x"
    and step_ver: "step x y \<Longrightarrow> ver y = ver x + 1"
begin

definition rows_evolve :: "'r list \<Rightarrow> 'r list \<Rightarrow> bool" where
  "rows_evolve xs ys =
     ((\<forall>k x. row key k xs = Some x \<longrightarrow> (\<exists>y. row key k ys = Some y \<and> step\<^sup>*\<^sup>* x y)) \<and>
      (\<forall>k y. row key k xs = None \<longrightarrow> row key k ys = Some y \<longrightarrow> (\<exists>x. initial x \<and> step\<^sup>*\<^sup>* x y)))"

definition seen :: "'r \<Rightarrow> 'r list \<Rightarrow> bool" where
  "seen x rows = (\<exists>y. row key (key x) rows = Some y \<and> step\<^sup>*\<^sup>* x y)"

lemma steps_key: "step\<^sup>*\<^sup>* x y \<Longrightarrow> key y = key x"
  by (induction rule: rtranclp_induct) (auto dest: step_key)

lemma steps_ver: "step\<^sup>*\<^sup>* x y \<Longrightarrow> x = y \<or> ver x < ver y"
proof (induction rule: rtranclp_induct)
  case (step y z)
  then show ?case using step_ver [of y z] by auto
qed simp

lemma steps_same_version: "step\<^sup>*\<^sup>* x y \<Longrightarrow> ver y = ver x \<Longrightarrow> y = x"
  using steps_ver by force

lemma rows_evolve_refl: "rows_evolve xs xs"
  by (auto simp: rows_evolve_def)

lemma rows_evolve_trans:
  assumes "rows_evolve xs ys" and "rows_evolve ys zs"
  shows "rows_evolve xs zs"
  unfolding rows_evolve_def
proof (intro conjI allI impI)
  fix k x assume "row key k xs = Some x"
  then obtain y where "row key k ys = Some y" "step\<^sup>*\<^sup>* x y"
    using assms(1) unfolding rows_evolve_def by blast
  moreover then obtain z where "row key k zs = Some z" "step\<^sup>*\<^sup>* y z"
    using assms(2) unfolding rows_evolve_def by blast
  ultimately show "\<exists>z. row key k zs = Some z \<and> step\<^sup>*\<^sup>* x z"
    by (meson rtranclp_trans)
next
  fix k z assume none: "row key k xs = None" and z: "row key k zs = Some z"
  show "\<exists>x. initial x \<and> step\<^sup>*\<^sup>* x z"
  proof (cases "row key k ys")
    case None
    with z assms(2) show ?thesis unfolding rows_evolve_def by blast
  next
    case (Some y)
    with none assms(1) obtain x where "initial x" "step\<^sup>*\<^sup>* x y"
      unfolding rows_evolve_def by blast
    moreover obtain z' where "row key k zs = Some z'" "step\<^sup>*\<^sup>* y z'"
      using Some assms(2) unfolding rows_evolve_def by blast
    ultimately show ?thesis using z by (metis option.inject rtranclp_trans)
  qed
qed

lemma seen_later: "seen x xs \<Longrightarrow> rows_evolve xs ys \<Longrightarrow> seen x ys"
  unfolding seen_def rows_evolve_def by (meson rtranclp_trans)

lemma seen_row: "row key k rows = Some x \<Longrightarrow> seen x rows"
  by (auto simp: seen_def dest: row_SomeD)

text \<open>The row found at the version of a row seen before is that row.\<close>

lemma seen_current: "seen x rows \<Longrightarrow> row key (key x) rows = Some y \<Longrightarrow> ver y = ver x \<Longrightarrow> y = x"
  unfolding seen_def using steps_same_version by fastforce

lemma rows_evolve_put:
  assumes "row key (key x) rows = Some x" and "step x x'"
  shows "rows_evolve rows (put_row key x' rows)"
  using assms step_key [OF assms(2)] by (auto simp: rows_evolve_def row_put_row)

lemma rows_evolve_insert: "row key (key x) rows = None \<Longrightarrow> initial x \<Longrightarrow> rows_evolve rows (rows @ [x])"
  by (auto simp: rows_evolve_def row_append split: option.splits if_splits)

text \<open>The reachability form: every row of an empty table that evolved has a history.\<close>

lemma rows_evolve_empty: "rows_evolve [] rows \<Longrightarrow> row key k rows = Some y \<Longrightarrow> \<exists>x. initial x \<and> step\<^sup>*\<^sup>* x y"
  by (auto simp: rows_evolve_def)

lemma history_invariant:
  assumes "step\<^sup>*\<^sup>* x y" and "P x" and "\<And>a b. step a b \<Longrightarrow> P a \<Longrightarrow> P b"
  shows "P y"
  using assms by (induction rule: rtranclp_induct) auto

end

interpretation task_history: history t_id t_version task_step task_initial
  by unfold_locales (auto simp: task_step_def task_fixed_def)

interpretation run_history: history r_id r_version run_step run_initial
  by unfold_locales (auto simp: run_step_def run_fixed_def)

interpretation message_history: history m_id m_version message_step message_initial
  by unfold_locales (auto simp: message_step_def message_fixed_def)

interpretation project_history: history p_id p_version project_step project_initial
  by unfold_locales (auto simp: project_step_def project_fixed_def)

interpretation agent_history: history a_id a_version agent_step agent_initial
  by unfold_locales (auto simp: agent_step_def)

end
