(* ===== verification/Calculus.thy ===== *)
theory Calculus
  imports Transitions
begin

text \<open>
  The calculus in which the operations are checked. It is generic in the relation between the states
  before and after (a locale on top of \<open>state_order\<close>) and fixes what an operation may know. Each
  control construct and each read of the store has one rule, so that \<open>intro keeps_intro\<close> executes an
  operation symbolically and leaves one goal for each of its writes.
\<close>

section \<open>Knowledge\<close>

definition keys_distinct :: "db \<Rightarrow> bool" where
  "keys_distinct d =
     (distinct (map t_id (d_tasks d)) \<and> distinct (map r_id (d_runs d)) \<and>
      distinct (map r_token_hash (d_runs d)) \<and>
      distinct (map m_id (d_messages d)) \<and> distinct (map p_id (d_projects d)) \<and>
      distinct (map a_id (d_agents d)))"

text \<open>What an operation may know: that the keys of the tables are distinct, the rows it has read, and
  that a run is terminal.\<close>

datatype knowledge = KD | KT task | KR run | KM message | KP project | KA agent | KE string

fun known :: "knowledge \<Rightarrow> world \<Rightarrow> bool" where
  "known KD w = keys_distinct (w_db w)"
| "known (KT t) w = task_history.seen t (d_tasks (w_db w))"
| "known (KR r) w = run_history.seen r (d_runs (w_db w))"
| "known (KM m) w = message_history.seen m (d_messages (w_db w))"
| "known (KP p) w = project_history.seen p (d_projects (w_db w))"
| "known (KA a) w = agent_history.seen a (d_agents (w_db w))"
| "known (KE i) w = (\<exists>r. run_of (w_db w) i = Some r \<and> IsRunTerminal (r_state r))"

section \<open>Computations that leave the database alone\<close>

text \<open>A computation that leaves the database alone.\<close>

definition pure_op :: "'a op \<Rightarrow> bool" where
  "pure_op m = (\<forall>w x w'. m w = (Inr x, w') \<longrightarrow> w_db w' = w_db w)"

lemma pure_basic:
  "pure_op (ret x)" "pure_op (throw e)" "pure_op (lift r)" "pure_op (reject b e)" "pure_op (check v)"
  "pure_op (nowText sv)" "pure_op (newID sv p)" "pure_op (external g)" "pure_op (attempt g)"
  "pure_op (read_db h)"
  by (auto simp: pure_op_def ret_def throw_def lift_def reject_def check_def nowText_def newID_def
      external_def attempt_def read_db_def split: option.splits if_splits)

lemma pure_andthen: "pure_op m \<Longrightarrow> (\<And>x. pure_op (f x)) \<Longrightarrow> pure_op (andthen m f)"
  unfolding pure_op_def by (metis andthen_success)

lemma pure_if: "pure_op m \<Longrightarrow> pure_op n \<Longrightarrow> pure_op (if b then m else n)"
  by simp

lemma pure_option: "pure_op m \<Longrightarrow> (\<And>x. pure_op (f x)) \<Longrightarrow> pure_op (case v of None \<Rightarrow> m | Some x \<Rightarrow> f x)"
  by (cases v) auto

lemma pure_prod: "(\<And>x y. pure_op (f x y)) \<Longrightarrow> pure_op (case v of (x, y) \<Rightarrow> f x y)"
  by (cases v) auto

lemma pure_let: "(\<And>x. pure_op (f x)) \<Longrightarrow> pure_op (let x = v in f x)"
  by simp

lemma pure_whenever: "pure_op m \<Longrightarrow> pure_op (whenever b m)"
  by (simp add: whenever_def pure_basic)

lemma pure_wrap: "pure_op m \<Longrightarrow> pure_op (wrap e m)"
  by (auto simp: pure_op_def wrap_def split: sum.splits prod.splits)

text \<open>\<open>if_found\<close> needs the stronger property that a failure leaves the database alone too.\<close>

definition reads_only :: "'a op \<Rightarrow> bool" where
  "reads_only m = (\<forall>w. w_db (snd (m w)) = w_db w)"

lemma reads_only_read_db [simp]: "reads_only (read_db f)"
  by (simp add: reads_only_def read_db_def)

lemma if_found_success:
  "if_found m w = (Inr x, w') \<longleftrightarrow>
   (\<exists>e. x = None \<and> m w = (Inl e, w') \<and> IsCode e NOT_FOUND) \<or> (\<exists>y. x = Some y \<and> m w = (Inr y, w'))"
  by (auto simp: if_found_def split: sum.splits prod.splits if_splits)

lemma pure_if_found: "reads_only m \<Longrightarrow> pure_op (if_found m)"
  by (auto simp: pure_op_def if_found_success reads_only_def dest: spec) (metis snd_conv)+

lemma reads_only_reads:
  "reads_only (tx_Task i)" "reads_only (tx_Conversation i j)" "reads_only (tx_Agent i)"
  "reads_only (tx_ProjectByName i)"
  by (simp_all add: tx_Task_def tx_Conversation_def tx_Agent_def tx_ProjectByName_def)

lemma pure_transact: "pure_op m \<Longrightarrow> pure_op (transact m)"
  by (auto simp: pure_op_def transact_success)

lemma pure_collect: "(\<And>x. pure_op (f x)) \<Longrightarrow> pure_op (collect xs f)"
  by (induction xs) (auto intro: pure_andthen pure_basic)

lemma pure_each: "(\<And>x. pure_op (f x)) \<Longrightarrow> pure_op (each xs f)"
  by (induction xs) (auto intro: pure_andthen pure_basic)

lemmas pure_control = pure_basic pure_andthen pure_if pure_option pure_prod pure_let pure_whenever
  pure_wrap pure_transact pure_collect pure_each

lemmas tx_reads = tx_Project_def tx_ProjectByName_def tx_ProjectsByIntegrationAgent_def
  tx_ProjectBlockers_def tx_Agent_def tx_AgentBlockers_def tx_Task_def tx_RunnableTasks_def
  tx_Conversation_def tx_Run_def tx_RunByTokenHash_def tx_LiveRunCount_def tx_AgentRuntimeOccupancy_def
  tx_Message_def tx_MessagesForTask_def tx_MessagesForRun_def tx_MessagesForRecipient_def
  tx_PendingWakeAt_def tx_Dedupe_def tx_Role_def tx_Roles_def tx_RoleBindingCount_def
  tx_Participant_def tx_Participants_def tx_ParticipantRoles_def tx_Credential_def tx_Credentials_def

lemma pure_reads:
  "pure_op (tx_Project i)" "pure_op (tx_ProjectByName i)" "pure_op (tx_ProjectsByIntegrationAgent i)"
  "pure_op (tx_ProjectBlockers i)" "pure_op (tx_Agent i)" "pure_op (tx_AgentBlockers i)"
  "pure_op (tx_Task i)" "pure_op (tx_RunnableTasks i)" "pure_op (tx_Conversation i j)"
  "pure_op (tx_Run i)" "pure_op (tx_RunByTokenHash i)" "pure_op (tx_LiveRunCount i j)"
  "pure_op (tx_AgentRuntimeOccupancy i)" "pure_op (tx_Message i)" "pure_op (tx_MessagesForTask i)"
  "pure_op (tx_MessagesForRun i)" "pure_op (tx_MessagesForRecipient a i)" "pure_op (tx_PendingWakeAt i)"
  "pure_op (tx_Dedupe i j k)" "pure_op (tx_Role i)" "pure_op tx_Roles" "pure_op (tx_RoleBindingCount i)"
  "pure_op (tx_Participant i)" "pure_op tx_Participants" "pure_op (tx_ParticipantRoles i)"
  "pure_op (tx_Credential i)" "pure_op (tx_Credentials i)"
  by (simp_all add: tx_reads pure_basic)

lemma pure_service:
  "pure_op (requiredID sv p)" "pure_op (request_id sv v)" "pure_op (replay d)" "pure_op (requireText n v)"
  "pure_op (optionalTextWithin v limit)" "pure_op (canonicalMessageIDs vs)" "pure_op (scopedRun sv t)"
  "pure_op (loadMessages ids)" "pure_op (taskActionAvailable task)" "pure_op (authenticateRun sv t)"
  "pure_op (AuthorizeRunScope sv t scope)" "pure_op (taskActorForDedupe sv t)"
  "pure_op (authorizeTaskActor sv t target actor)"
  unfolding requiredID_def request_id_def replay_def requireText_def optionalTextWithin_def
    canonicalMessageIDs_def scopedRun_def loadMessages_def taskActionAvailable_def authenticateRun_def
    AuthorizeRunScope_def taskActorForDedupe_def authorizeTaskActor_def Let_def
  by (intro pure_control pure_reads)+

lemmas pure_calls = pure_reads pure_service


lemma success_basic [simp]:
  "ret y w = (Inr x, w') \<longleftrightarrow> x = y \<and> w' = w"
  "throw e w \<noteq> (Inr x, w')"
  "lift r w = (Inr x, w') \<longleftrightarrow> r = Inr x \<and> w' = w"
  "reject b e w = (Inr u, w') \<longleftrightarrow> \<not> b \<and> w' = w"
  "check v w = (Inr u, w') \<longleftrightarrow> v = None \<and> w' = w"
  "wrap e m w = (Inr x, w') \<longleftrightarrow> m w = (Inr x, w')"
  by (auto simp: ret_def throw_def lift_def reject_def check_def wrap_def split: option.splits sum.splits
      prod.splits)

lemma read_db_success: "read_db h w = (Inr x, w') \<longleftrightarrow> h (w_db w) = Inr x \<and> w' = w"
  by (auto simp: read_db_def)

lemma find_SomeD: "find P xs = Some x \<Longrightarrow> x \<in> set xs \<and> P x"
  by (induction xs) (auto split: if_splits)

lemma known_member:
  "keys_distinct d \<Longrightarrow> t \<in> set (d_tasks d) \<Longrightarrow> task_history.seen t (d_tasks d)"
  "keys_distinct d \<Longrightarrow> r \<in> set (d_runs d) \<Longrightarrow> run_history.seen r (d_runs d)"
  "keys_distinct d \<Longrightarrow> m \<in> set (d_messages d) \<Longrightarrow> message_history.seen m (d_messages d)"
  "keys_distinct d \<Longrightarrow> p \<in> set (d_projects d) \<Longrightarrow> project_history.seen p (d_projects d)"
  unfolding keys_distinct_def
  by (auto intro: task_history.seen_row run_history.seen_row message_history.seen_row
      project_history.seen_row row_in_set)

text \<open>An authenticated run is active, owns its running task and has its token.\<close>

definition authentic :: "run \<Rightarrow> task \<Rightarrow> bool" where
  "authentic run task =
     (r_token_revoked_at run = NoStamp \<and> r_state run = RunActive \<and> t_status task = TaskRunning \<and>
      t_id task = r_task_id run \<and> t_current_run_id task = r_id run \<and>
      t_generation task = r_generation run \<and> t_assignee_agent_id task = r_agent_id run)"

lemma scopedRun_success:
  "scopedRun sv token w = (Inr r, w') \<Longrightarrow>
   w' = w \<and> r \<in> set (d_runs (w_db w)) \<and> r_token_hash r = hashToken sv token \<and> trim_space token \<noteq> []"
  by (auto simp: scopedRun_def andthen_success tx_RunByTokenHash_def read_db_success dest: find_SomeD)

lemma authenticateRun_success:
  "authenticateRun sv token w = (Inr v, w') \<Longrightarrow>
   w' = w \<and> authentic (fst v) (snd v) \<and> fst v \<in> set (d_runs (w_db w)) \<and>
   r_token_hash (fst v) = hashToken sv token \<and> task_of (w_db w) (r_task_id (fst v)) = Some (snd v)"
  by (auto simp: authenticateRun_def andthen_success tx_Task_def read_db_success authentic_def
      stale_scope_def dest!: scopedRun_success dest: row_SomeD)

section \<open>The rules\<close>

locale db_order = state_order le known
  for le :: "world \<Rightarrow> world \<Rightarrow> bool" +
  assumes le_same_db: "w_db w' = w_db w \<Longrightarrow> le w w'"
begin

lemma calc_call: "keeps K m \<Longrightarrow> (\<And>x. keeps K (f x)) \<Longrightarrow> keeps K (andthen m f)"
  by (rule keeps_andthen)

lemma calc_pure: "pure_op m \<Longrightarrow> keeps K m"
  by (auto simp: keeps_def pure_op_def le_same_db)

section \<open>Rules for the first statement of an operation\<close>

text \<open>One rule per shape of the first statement, and one for the last statement.\<close>

lemmas calc_last [keeps_intro] = pure_basic [THEN calc_pure] pure_calls [THEN calc_pure]

lemmas calc_plain [keeps_intro] =
  pure_basic(3) [THEN calc_pure, THEN calc_call] pure_basic(7-9) [THEN calc_pure, THEN calc_call]
  pure_service(1-6) [THEN calc_pure, THEN calc_call] pure_service(8) [THEN calc_pure, THEN calc_call]
  pure_service(11-13) [THEN calc_pure, THEN calc_call]
  pure_reads(4) [THEN calc_pure, THEN calc_call] pure_reads(6) [THEN calc_pure, THEN calc_call]
  pure_reads(8) [THEN calc_pure, THEN calc_call]
  pure_reads(12-13) [THEN calc_pure, THEN calc_call] pure_reads(18-27) [THEN calc_pure, THEN calc_call]

lemma calc_ret_then [keeps_intro]: "keeps K (f x) \<Longrightarrow> keeps K (andthen (ret x) f)"
  by simp

lemma calc_throw_then [keeps_intro]: "keeps K (andthen (throw e) f)"
  by (simp add: keeps_throw)

lemma calc_assoc [keeps_intro]:
  "keeps K (andthen m (\<lambda>x. andthen (g x) f)) \<Longrightarrow> keeps K (andthen (andthen m g) f)"
  by (simp add: andthen_assoc)

lemma calc_reject_then [keeps_intro]: "(\<not> b \<Longrightarrow> keeps K (f ())) \<Longrightarrow> keeps K (andthen (reject b e) f)"
  by (cases b) (simp_all add: reject_def keeps_throw)

lemma calc_check_then [keeps_intro]: "(v = None \<Longrightarrow> keeps K (f ())) \<Longrightarrow> keeps K (andthen (check v) f)"
  by (cases v) (simp_all add: check_def keeps_throw)

lemma calc_taskActionAvailable_then [keeps_intro]:
  "(t_status task \<noteq> TaskFinishing \<Longrightarrow> t_pending_action task = NoAction \<Longrightarrow>
    t_integration_task_id task = [] \<Longrightarrow> keeps K (f ())) \<Longrightarrow>
   keeps K (andthen (taskActionAvailable task) f)"
  unfolding taskActionAvailable_def by (rule calc_reject_then) auto

lemma calc_if [keeps_intro]:
  "(b \<Longrightarrow> keeps K m) \<Longrightarrow> (\<not> b \<Longrightarrow> keeps K n) \<Longrightarrow> keeps K (if b then m else n)"
  by simp

lemma calc_if_then [keeps_intro]:
  "(b \<Longrightarrow> keeps K (andthen m f)) \<Longrightarrow> (\<not> b \<Longrightarrow> keeps K (andthen n f)) \<Longrightarrow>
   keeps K (andthen (if b then m else n) f)"
  by simp

lemma calc_whenever [keeps_intro]: "(b \<Longrightarrow> keeps K m) \<Longrightarrow> keeps K (whenever b m)"
  by (rule keeps_whenever)

lemma calc_whenever_then [keeps_intro]:
  "(b \<Longrightarrow> keeps K m) \<Longrightarrow> keeps K (f ()) \<Longrightarrow> keeps K (andthen (whenever b m) f)"
  by (rule calc_call) (auto intro: calc_whenever)

lemma calc_option [keeps_intro]:
  "(v = None \<Longrightarrow> keeps K m) \<Longrightarrow> (\<And>x. v = Some x \<Longrightarrow> keeps K (g x)) \<Longrightarrow>
   keeps K (case v of None \<Rightarrow> m | Some x \<Rightarrow> g x)"
  by (rule keeps_option)

lemma calc_option_then [keeps_intro]:
  "(v = None \<Longrightarrow> keeps K (andthen m f)) \<Longrightarrow> (\<And>x. v = Some x \<Longrightarrow> keeps K (andthen (g x) f)) \<Longrightarrow>
   keeps K (andthen (case v of None \<Rightarrow> m | Some x \<Rightarrow> g x) f)"
  by (cases v) auto

lemma calc_sum [keeps_intro]:
  "(\<And>e. v = Inl e \<Longrightarrow> keeps K (g e)) \<Longrightarrow> (\<And>x. v = Inr x \<Longrightarrow> keeps K (f x)) \<Longrightarrow>
   keeps K (case v of Inl e \<Rightarrow> g e | Inr x \<Rightarrow> f x)"
  by (rule keeps_sum)

lemma calc_prod [keeps_intro]:
  "(\<And>x y. v = (x, y) \<Longrightarrow> keeps K (f x y)) \<Longrightarrow> keeps K (case v of (x, y) \<Rightarrow> f x y)"
  by (rule keeps_prod)

lemma calc_prod_then [keeps_intro]:
  "(\<And>x y. v = (x, y) \<Longrightarrow> keeps K (andthen (m x y) f)) \<Longrightarrow>
   keeps K (andthen (case v of (x, y) \<Rightarrow> m x y) f)"
  by (cases v) auto

lemma calc_let [keeps_intro]: "(\<And>x. x = v \<Longrightarrow> keeps K (f x)) \<Longrightarrow> keeps K (let x = v in f x)"
  by (rule keeps_let)

lemma calc_let_then [keeps_intro]:
  "(\<And>x. x = v \<Longrightarrow> keeps K (andthen (m x) f)) \<Longrightarrow> keeps K (andthen (let x = v in m x) f)"
  by simp

lemma calc_each [keeps_intro]: "(\<And>x. x \<in> set xs \<Longrightarrow> keeps K (g x)) \<Longrightarrow> keeps K (each xs g)"
  by (rule keeps_each)

lemma calc_each_then [keeps_intro]:
  "(\<And>x. x \<in> set xs \<Longrightarrow> keeps K (g x)) \<Longrightarrow> keeps K (f ()) \<Longrightarrow> keeps K (andthen (each xs g) f)"
  by (rule calc_call) (auto intro: calc_each)

lemma calc_collect [keeps_intro]: "(\<And>x. x \<in> set xs \<Longrightarrow> keeps K (g x)) \<Longrightarrow> keeps K (collect xs g)"
  by (rule keeps_collect)

lemma calc_collect_then [keeps_intro]:
  "(\<And>x. x \<in> set xs \<Longrightarrow> keeps K (g x)) \<Longrightarrow> (\<And>ys. keeps K (f ys)) \<Longrightarrow> keeps K (andthen (collect xs g) f)"
  by (rule calc_call) (auto intro: calc_collect)

lemma calc_transact [keeps_intro]: "keeps K m \<Longrightarrow> keeps K (transact m)"
  unfolding transact_def by (rule keeps_atomically)

lemma calc_transact_then [keeps_intro]:
  "keeps K m \<Longrightarrow> (\<And>x. keeps K (f x)) \<Longrightarrow> keeps K (andthen (transact m) f)"
  by (rule calc_call) (auto intro: calc_transact)

lemma calc_wrap [keeps_intro]: "keeps K m \<Longrightarrow> keeps K (wrap e m)"
  unfolding keeps_def wrap_def by (auto split: sum.splits prod.splits)

lemma calc_wrap_then [keeps_intro]:
  "keeps K m \<Longrightarrow> (\<And>x. keeps K (f x)) \<Longrightarrow> keeps K (andthen (wrap e m) f)"
  by (rule calc_call) (auto intro: calc_wrap)

section \<open>Reads give knowledge\<close>

lemma calc_learn:
  assumes "\<And>w x w'. (\<forall>k\<in>K. known k w) \<Longrightarrow> m w = (Inr x, w') \<Longrightarrow> w_db w' = w_db w \<and> G x \<and> (\<forall>k\<in>g x. known k w)"
    and "\<And>x. G x \<Longrightarrow> keeps (g x \<union> K) (f x)"
  shows "keeps K (andthen m f)"
  unfolding keeps_def
proof (intro allI impI)
  fix w y w' assume K: "\<forall>k\<in>K. known k w" and run: "andthen m f w = (Inr y, w')"
  then obtain x u where m: "m w = (Inr x, u)" and f: "f x u = (Inr y, w')"
    by (auto simp: andthen_success)
  have same: "known k u = known k w" if "w_db u = w_db w" for k
    using that by (cases k) auto
  from assms(1) [OF K m] have "w_db u = w_db w" "G x" "\<forall>k\<in>g x. known k w" by auto
  moreover then have "le u w'"
    using assms(2) [of x] K f same unfolding keeps_def by blast
  ultimately show "le w w'" using le_same_db trans by blast
qed

text \<open>The clock gives an instant.\<close>

lemma calc_nowText_then [keeps_intro]: "(\<And>i. keeps K (f (At i))) \<Longrightarrow> keeps K (andthen (nowText sv) f)"
  by (rule calc_learn [where G = "\<lambda>s. \<exists>i. s = At i" and g = "\<lambda>_. {}"]) (auto simp: nowText_def)

lemma calc_Task_then [keeps_intro]:
  "(\<And>t. t_id t = i \<Longrightarrow> keeps ({KT t} \<union> K) (f t)) \<Longrightarrow> keeps K (andthen (tx_Task i) f)"
  by (rule calc_learn [where G = "\<lambda>t. t_id t = i" and g = "\<lambda>t. {KT t}"])
     (auto simp: tx_Task_def read_db_success intro: task_history.seen_row dest: row_SomeD)

lemma calc_Run_then [keeps_intro]:
  "(\<And>r. r_id r = i \<Longrightarrow> keeps ({KR r} \<union> K) (f r)) \<Longrightarrow> keeps K (andthen (tx_Run i) f)"
  by (rule calc_learn [where G = "\<lambda>r. r_id r = i" and g = "\<lambda>r. {KR r}"])
     (auto simp: tx_Run_def read_db_success intro: run_history.seen_row dest: row_SomeD)

lemma calc_Message_then [keeps_intro]:
  "(\<And>m. m_id m = i \<Longrightarrow> keeps ({KM m} \<union> K) (f m)) \<Longrightarrow> keeps K (andthen (tx_Message i) f)"
  by (rule calc_learn [where G = "\<lambda>m. m_id m = i" and g = "\<lambda>m. {KM m}"])
     (auto simp: tx_Message_def read_db_success intro: message_history.seen_row dest: row_SomeD)

lemma calc_Project_then [keeps_intro]:
  "(\<And>p. p_id p = i \<Longrightarrow> keeps ({KP p} \<union> K) (f p)) \<Longrightarrow> keeps K (andthen (tx_Project i) f)"
  by (rule calc_learn [where G = "\<lambda>p. p_id p = i" and g = "\<lambda>p. {KP p}"])
     (auto simp: tx_Project_def read_db_success intro: project_history.seen_row dest: row_SomeD)

lemma calc_Agent_then [keeps_intro]:
  "(\<And>a. a_id a = i \<Longrightarrow> keeps ({KA a} \<union> K) (f a)) \<Longrightarrow> keeps K (andthen (tx_Agent i) f)"
  by (rule calc_learn [where G = "\<lambda>a. a_id a = i" and g = "\<lambda>a. {KA a}"])
     (auto simp: tx_Agent_def read_db_success intro: agent_history.seen_row dest: row_SomeD)

lemma calc_RunByTokenHash_then [keeps_intro]:
  "KD \<in> K \<Longrightarrow> (\<And>r. r_token_hash r = h \<Longrightarrow> keeps ({KR r} \<union> K) (f r)) \<Longrightarrow>
   keeps K (andthen (tx_RunByTokenHash h) f)"
  by (rule calc_learn [where G = "\<lambda>r. r_token_hash r = h" and g = "\<lambda>r. {KR r}"])
     (auto simp: tx_RunByTokenHash_def read_db_success intro!: known_member dest!: find_SomeD)

lemma calc_if_found_Task_then [keeps_intro]:
  "keeps K (f None) \<Longrightarrow> (\<And>t. t_id t = i \<Longrightarrow> keeps ({KT t} \<union> K) (f (Some t))) \<Longrightarrow>
   keeps K (andthen (if_found (tx_Task i)) f)"
  by (rule calc_learn [where G = "\<lambda>v. \<forall>t. v = Some t \<longrightarrow> t_id t = i" and
        g = "\<lambda>v. case v of None \<Rightarrow> {} | Some t \<Rightarrow> {KT t}"])
     (auto simp: tx_Task_def if_found_success read_db_success read_db_def
        intro: task_history.seen_row dest: row_SomeD split: option.splits)

lemma calc_if_found_Conversation_then [keeps_intro]:
  "KD \<in> K \<Longrightarrow> keeps K (f None) \<Longrightarrow>
   (\<And>t. t_project_id t = p \<Longrightarrow> t_assignee_agent_id t = a \<Longrightarrow> open_conversation t \<Longrightarrow>
      keeps ({KT t} \<union> K) (f (Some t))) \<Longrightarrow>
   keeps K (andthen (if_found (tx_Conversation p a)) f)"
  by (rule calc_learn [where G = "\<lambda>v. \<forall>t. v = Some t \<longrightarrow>
          t_project_id t = p \<and> t_assignee_agent_id t = a \<and> open_conversation t" and
        g = "\<lambda>v. case v of None \<Rightarrow> {} | Some t \<Rightarrow> {KT t}"])
     (auto simp: tx_Conversation_def if_found_success read_db_success read_db_def
        intro!: known_member dest!: find_SomeD split: option.splits)

lemma calc_if_found_Agent_then [keeps_intro]:
  "(\<And>v. keeps K (f v)) \<Longrightarrow> keeps K (andthen (if_found (tx_Agent i)) f)"
  by (rule calc_call [OF calc_pure [OF pure_if_found [OF reads_only_reads(3)]]])

lemma calc_if_found_ProjectByName_then [keeps_intro]:
  "(\<And>v. keeps K (f v)) \<Longrightarrow> keeps K (andthen (if_found (tx_ProjectByName i)) f)"
  by (rule calc_call [OF calc_pure [OF pure_if_found [OF reads_only_reads(4)]]])

lemma calc_MessagesForTask_then [keeps_intro]:
  "KD \<in> K \<Longrightarrow> (\<And>ms. \<forall>m \<in> set ms. m_task_id m = i \<Longrightarrow> keeps (KM ` set ms \<union> K) (f ms)) \<Longrightarrow>
   keeps K (andthen (tx_MessagesForTask i) f)"
  by (rule calc_learn [where G = "\<lambda>ms. \<forall>m \<in> set ms. m_task_id m = i" and g = "\<lambda>ms. KM ` set ms"])
     (auto simp: tx_MessagesForTask_def read_db_success by_creation_def intro!: known_member)

lemma calc_MessagesForRun_then [keeps_intro]:
  "KD \<in> K \<Longrightarrow> (\<And>ms. \<forall>m \<in> set ms. m_delivered_run_id m = i \<Longrightarrow> keeps (KM ` set ms \<union> K) (f ms)) \<Longrightarrow>
   keeps K (andthen (tx_MessagesForRun i) f)"
  by (rule calc_learn [where G = "\<lambda>ms. \<forall>m \<in> set ms. m_delivered_run_id m = i" and g = "\<lambda>ms. KM ` set ms"])
     (auto simp: tx_MessagesForRun_def read_db_success by_creation_def intro!: known_member)

lemma calc_ProjectsByIntegrationAgent_then [keeps_intro]:
  "KD \<in> K \<Longrightarrow> (\<And>ps. keeps (KP ` set ps \<union> K) (f ps)) \<Longrightarrow>
   keeps K (andthen (tx_ProjectsByIntegrationAgent i) f)"
  by (rule calc_learn [where G = "\<lambda>_. True" and g = "\<lambda>ps. KP ` set ps"])
     (auto simp: tx_ProjectsByIntegrationAgent_def read_db_success intro!: known_member)

lemma calc_scopedRun_then [keeps_intro]:
  "KD \<in> K \<Longrightarrow> (\<And>r. keeps ({KR r} \<union> K) (f r)) \<Longrightarrow> keeps K (andthen (scopedRun sv token) f)"
  by (rule calc_learn [where G = "\<lambda>_. True" and g = "\<lambda>r. {KR r}"])
     (auto dest!: scopedRun_success intro!: known_member)

lemma calc_authenticateRun_then [keeps_intro]:
  "KD \<in> K \<Longrightarrow> (\<And>r t. authentic r t \<Longrightarrow> keeps ({KR r, KT t} \<union> K) (f r t)) \<Longrightarrow>
   keeps K (andthen (authenticateRun sv token) (\<lambda>(r, t). f r t))"
  by (rule calc_learn [where G = "\<lambda>v. authentic (fst v) (snd v)" and
        g = "\<lambda>v. {KR (fst v), KT (snd v)}"])
     (auto dest!: authenticateRun_success intro!: known_member(2) intro: task_history.seen_row)

end

end
