(* ===== verification/Evolution.thy ===== *)
theory Evolution
  imports Calculus
begin

text \<open>
  A database evolves when every table does and the log and the dedupe records only grow. The calculus
  is interpreted with this relation: what is left of an operation is, for each update, that it is a
  step of the row that was read.
\<close>

section \<open>Evolution of the database\<close>

definition log_extends :: "db \<Rightarrow> db \<Rightarrow> bool" where
  "log_extends d d' =
     (\<exists>es. d_events d' = d_events d @ es \<and> d_event_seq d' = d_event_seq d + int (length es) \<and>
        (\<forall>i < length es. e_id (es ! i) = d_event_seq d + 1 + int i))"

definition evolves :: "db \<Rightarrow> db \<Rightarrow> bool" where
  "evolves d d' =
     (task_history.rows_evolve (d_tasks d) (d_tasks d') \<and>
      run_history.rows_evolve (d_runs d) (d_runs d') \<and>
      message_history.rows_evolve (d_messages d) (d_messages d') \<and>
      project_history.rows_evolve (d_projects d) (d_projects d') \<and>
      agent_history.rows_evolve (d_agents d) (d_agents d') \<and>
      log_extends d d' \<and> (\<exists>rs. d_dedupes d' = d_dedupes d @ rs) \<and>
      (keys_distinct d \<longrightarrow> keys_distinct d'))"

lemma log_extends_refl: "log_extends d d"
  by (auto simp: log_extends_def)

lemma log_extends_trans:
  assumes "log_extends d d'" and "log_extends d' d''"
  shows "log_extends d d''"
proof -
  obtain es where es: "d_events d' = d_events d @ es" "d_event_seq d' = d_event_seq d + int (length es)"
      "\<forall>i < length es. e_id (es ! i) = d_event_seq d + 1 + int i"
    using assms(1) unfolding log_extends_def by blast
  obtain fs where fs: "d_events d'' = d_events d' @ fs" "d_event_seq d'' = d_event_seq d' + int (length fs)"
      "\<forall>i < length fs. e_id (fs ! i) = d_event_seq d' + 1 + int i"
    using assms(2) unfolding log_extends_def by blast
  have "e_id ((es @ fs) ! i) = d_event_seq d + 1 + int i" if "i < length (es @ fs)" for i
  proof (cases "i < length es")
    case True
    then show ?thesis using es(3) by (simp add: nth_append)
  next
    case False
    then show ?thesis using that fs(3) es(2) by (simp add: nth_append of_nat_diff)
  qed
  with es fs show ?thesis
    unfolding log_extends_def by (intro exI [of _ "es @ fs"]) auto
qed

lemma evolves_refl: "evolves d d"
  by (simp add: evolves_def log_extends_refl task_history.rows_evolve_refl run_history.rows_evolve_refl
      message_history.rows_evolve_refl project_history.rows_evolve_refl agent_history.rows_evolve_refl)

lemma evolves_trans: "evolves d d' \<Longrightarrow> evolves d' d'' \<Longrightarrow> evolves d d''"
  unfolding evolves_def
  by (auto intro: log_extends_trans task_history.rows_evolve_trans run_history.rows_evolve_trans
      message_history.rows_evolve_trans project_history.rows_evolve_trans agent_history.rows_evolve_trans)

definition later :: "world \<Rightarrow> world \<Rightarrow> bool" where
  "later w w' = evolves (w_db w) (w_db w')"

text \<open>A terminal run stays terminal.\<close>

lemma terminal_steps: "run_step\<^sup>*\<^sup>* r r' \<Longrightarrow> IsRunTerminal (r_state r) \<Longrightarrow> IsRunTerminal (r_state r')"
  by (erule run_history.history_invariant) (auto simp: run_step_def run_frozen_def)

lemma terminal_later:
  "run_history.rows_evolve rs rs' \<Longrightarrow> row r_id i rs = Some r \<Longrightarrow> IsRunTerminal (r_state r) \<Longrightarrow>
   \<exists>r'. row r_id i rs' = Some r' \<and> IsRunTerminal (r_state r')"
  unfolding run_history.rows_evolve_def using terminal_steps by blast

interpretation evolution: db_order later
proof (unfold_locales, goal_cases)
  case (1 s)
  then show ?case by (simp add: later_def evolves_refl)
next
  case (2 s t u)
  then show ?case by (simp add: later_def) (rule evolves_trans)
next
  case (3 k s t)
  then show ?case
    by (cases k) (auto simp: later_def evolves_def intro: task_history.seen_later run_history.seen_later
        message_history.seen_later project_history.seen_later agent_history.seen_later terminal_later)
next
  case (4 w' w)
  then show ?case by (simp add: later_def evolves_refl)
qed

abbreviation keeps :: "knowledge set \<Rightarrow> 'a op \<Rightarrow> bool" where
  "keeps \<equiv> evolution.keeps"

lemmas keeps_call = evolution.calc_call
lemmas keeps_pure = evolution.calc_pure

lemma keepsI:
  "(\<And>w x w'. (\<forall>k\<in>K. known k w) \<Longrightarrow> m w = (Inr x, w') \<Longrightarrow> evolves (w_db w) (w_db w')) \<Longrightarrow> keeps K m"
  unfolding evolution.keeps_def later_def by blast

lemma keepsD: "keeps K m \<Longrightarrow> (\<forall>k\<in>K. known k w) \<Longrightarrow> m w = (Inr x, w') \<Longrightarrow> evolves (w_db w) (w_db w')"
  unfolding evolution.keeps_def later_def by blast

section \<open>Writes are steps\<close>

lemma write_db_success: "write_db h w = (Inr u, w') \<longleftrightarrow> (\<exists>d. h (w_db w) = Inr d \<and> w' = w\<lparr>w_db := d\<rparr>)"
  by (auto simp: write_db_def split: sum.splits)

lemma keeps_write_db:
  "(\<And>w d. (\<forall>k\<in>K. known k w) \<Longrightarrow> h (w_db w) = Inr d \<Longrightarrow> evolves (w_db w) d) \<Longrightarrow> keeps K (write_db h)"
  by (rule keepsI) (auto simp: write_db_success)

lemma map_put_row:
  assumes "distinct (map key rows)" and "row key (key r') rows = Some r" and "f r' = f r"
  shows "map f (put_row key r' rows) = map f rows"
  unfolding put_row_def map_map o_def
proof (rule map_cong [OF refl])
  fix u assume "u \<in> set rows"
  then show "f (if key u = key r' then r' else u) = f u"
    using assms row_in_set [of key rows u] by (cases "key u = key r'") auto
qed

lemma run_columns_token: "r_token_hash (run_columns old r) = r_token_hash old"
  by (simp add: run_columns_def)

lemma run_checks_token: "run_checks r rs \<Longrightarrow> r_token_hash r \<notin> r_token_hash ` set rs"
  by (auto simp: run_checks_def)

lemma keys_distinct_put:
  "keys_distinct d \<Longrightarrow> keys_distinct (d\<lparr>d_tasks := put_row t_id t (d_tasks d)\<rparr>)"
  "keys_distinct d \<Longrightarrow> run_of d (r_id r) = Some old \<Longrightarrow>
   keys_distinct (d\<lparr>d_runs := put_row r_id (run_columns old r) (d_runs d)\<rparr>)"
  "keys_distinct d \<Longrightarrow> keys_distinct (d\<lparr>d_messages := put_row m_id m (d_messages d)\<rparr>)"
  "keys_distinct d \<Longrightarrow> keys_distinct (d\<lparr>d_projects := put_row p_id p (d_projects d)\<rparr>)"
  "keys_distinct d \<Longrightarrow> keys_distinct (d\<lparr>d_agents := put_row a_id a (d_agents d)\<rparr>)"
  by (simp_all add: keys_distinct_def map_put_row [of r_id "d_runs d" "run_columns old r" old r_token_hash] run_columns_token)

lemma evolves_one_table:
  "task_history.rows_evolve (d_tasks d) ts \<Longrightarrow> keys_distinct d \<longrightarrow> keys_distinct (d\<lparr>d_tasks := ts\<rparr>) \<Longrightarrow>
   evolves d (d\<lparr>d_tasks := ts\<rparr>)"
  "run_history.rows_evolve (d_runs d) rs \<Longrightarrow> keys_distinct d \<longrightarrow> keys_distinct (d\<lparr>d_runs := rs\<rparr>) \<Longrightarrow>
   evolves d (d\<lparr>d_runs := rs\<rparr>)"
  "message_history.rows_evolve (d_messages d) ms \<Longrightarrow> keys_distinct d \<longrightarrow> keys_distinct (d\<lparr>d_messages := ms\<rparr>) \<Longrightarrow>
   evolves d (d\<lparr>d_messages := ms\<rparr>)"
  "project_history.rows_evolve (d_projects d) ps \<Longrightarrow> keys_distinct d \<longrightarrow> keys_distinct (d\<lparr>d_projects := ps\<rparr>) \<Longrightarrow>
   evolves d (d\<lparr>d_projects := ps\<rparr>)"
  "agent_history.rows_evolve (d_agents d) as \<Longrightarrow> keys_distinct d \<longrightarrow> keys_distinct (d\<lparr>d_agents := as\<rparr>) \<Longrightarrow>
   evolves d (d\<lparr>d_agents := as\<rparr>)"
  by (auto simp: evolves_def log_extends_def task_history.rows_evolve_refl run_history.rows_evolve_refl
      message_history.rows_evolve_refl project_history.rows_evolve_refl agent_history.rows_evolve_refl)

lemma keeps_UpdateTask [keeps_intro]:
  assumes "KT t \<in> K" and "t_id t' = t_id t" and "t_status t = s \<Longrightarrow> task_step t (task_columns t t')"
  shows "keeps K (tx_UpdateTask t' (t_version t) s)"
  unfolding tx_UpdateTask_def
proof (rule keeps_write_db)
  fix w d assume K: "\<forall>k\<in>K. known k w" and "cas_task t' (t_version t) s (w_db w) = Inr d"
  then obtain old where old: "task_of (w_db w) (t_id t) = Some old" "t_version old = t_version t"
      "t_status old = s" "d = w_db w\<lparr>d_tasks := put_row t_id (task_columns old t') (d_tasks (w_db w))\<rparr>"
    using assms(2) by (auto simp: cas_task_Inr)
  have "old = t" using K assms(1) old by (auto intro!: task_history.seen_current)
  with old assms(3) show "evolves (w_db w) d"
    by (auto intro!: evolves_one_table task_history.rows_evolve_put keys_distinct_put)
qed

lemma keeps_UpdateRun [keeps_intro]:
  assumes "KR r \<in> K" and "r_id r' = r_id r" and "r_state r = s \<Longrightarrow> run_step r (run_columns r r')"
  shows "keeps K (tx_UpdateRun r' (r_version r) s)"
  unfolding tx_UpdateRun_def
proof (rule keeps_write_db)
  fix w d assume K: "\<forall>k\<in>K. known k w" and "cas_run r' (r_version r) s (w_db w) = Inr d"
  then obtain old where old: "run_of (w_db w) (r_id r) = Some old" "r_version old = r_version r"
      "r_state old = s" "d = w_db w\<lparr>d_runs := put_row r_id (run_columns old r') (d_runs (w_db w))\<rparr>"
    using assms(2) by (auto simp: cas_run_Inr)
  have "old = r" using K assms(1) old by (auto intro!: run_history.seen_current)
  with old assms(2,3) show "evolves (w_db w) d"
    by (auto intro!: evolves_one_table run_history.rows_evolve_put keys_distinct_put)
qed

lemma keeps_UpdateMessage [keeps_intro]:
  assumes "KM m \<in> K" and "m_id m' = m_id m" and "m_state m = s \<Longrightarrow> message_step m (message_columns m m')"
  shows "keeps K (tx_UpdateMessage m' (m_version m) s)"
  unfolding tx_UpdateMessage_def
proof (rule keeps_write_db)
  fix w d assume K: "\<forall>k\<in>K. known k w" and "cas_message m' (m_version m) s (w_db w) = Inr d"
  then obtain old where old: "message_of (w_db w) (m_id m) = Some old" "m_version old = m_version m"
      "m_state old = s"
      "d = w_db w\<lparr>d_messages := put_row m_id (message_columns old m') (d_messages (w_db w))\<rparr>"
    using assms(2) by (auto simp: cas_message_Inr)
  have "old = m" using K assms(1) old by (auto intro!: message_history.seen_current)
  with old assms(3) show "evolves (w_db w) d"
    by (auto intro!: evolves_one_table message_history.rows_evolve_put keys_distinct_put)
qed

lemma keeps_UpdateProject [keeps_intro]:
  assumes "KP p \<in> K" and "p_id p' = p_id p" and "p_status p = s \<Longrightarrow> project_step p (project_columns p p')"
  shows "keeps K (tx_UpdateProject p' (p_version p) s)"
  unfolding tx_UpdateProject_def
proof (rule keeps_write_db)
  fix w d assume K: "\<forall>k\<in>K. known k w" and "cas_project p' (p_version p) s (w_db w) = Inr d"
  then obtain old where old: "project_of (w_db w) (p_id p) = Some old" "p_version old = p_version p"
      "p_status old = s"
      "d = w_db w\<lparr>d_projects := put_row p_id (project_columns old p') (d_projects (w_db w))\<rparr>"
    using assms(2) by (auto simp: cas_project_Inr)
  have "old = p" using K assms(1) old by (auto intro!: project_history.seen_current)
  with old assms(3) show "evolves (w_db w) d"
    by (auto intro!: evolves_one_table project_history.rows_evolve_put keys_distinct_put)
qed

lemma keeps_UpdateAgent [keeps_intro]:
  assumes "KA a \<in> K" and "a_id a' = a_id a" and "a_status a = s \<Longrightarrow> agent_step a (agent_columns a a')"
  shows "keeps K (tx_UpdateAgent a' (a_version a) s)"
  unfolding tx_UpdateAgent_def
proof (rule keeps_write_db)
  fix w d assume K: "\<forall>k\<in>K. known k w" and "cas_agent a' (a_version a) s (w_db w) = Inr d"
  then obtain old where old: "agent_of (w_db w) (a_id a) = Some old" "a_version old = a_version a"
      "a_status old = s"
      "d = w_db w\<lparr>d_agents := put_row a_id (agent_columns old a') (d_agents (w_db w))\<rparr>"
    using assms(2) by (auto simp: cas_agent_Inr)
  have "old = a" using K assms(1) old by (auto intro!: agent_history.seen_current)
  with old assms(3) show "evolves (w_db w) d"
    by (auto intro!: evolves_one_table agent_history.rows_evolve_put keys_distinct_put)
qed

lemma keeps_InsertTask [keeps_intro]:
  "(0 \<le> t_max_retries t \<Longrightarrow> task_initial t) \<Longrightarrow> keeps K (tx_InsertTask t)"
  unfolding tx_InsertTask_def
  by (rule keeps_write_db)
     (auto simp: on_success_Inr insert_row_Inr keys_distinct_def task_checks_def row_None_iff
       intro!: evolves_one_table task_history.rows_evolve_insert split: if_splits)

lemma keeps_InsertRun [keeps_intro]:
  "run_initial (r\<lparr>r_isolation_spec_version := normalizedIsolationSpecVersion r\<rparr>) \<Longrightarrow> keeps K (tx_InsertRun r)"
  unfolding tx_InsertRun_def
  by (rule keeps_write_db)
     (auto simp: on_success_Inr insert_row_Inr keys_distinct_def row_None_iff
       dest!: run_checks_token intro!: evolves_one_table run_history.rows_evolve_insert split: if_splits)

lemma keeps_InsertMessage [keeps_intro]:
  "(0 \<le> m_max_deliveries m \<Longrightarrow> message_initial m) \<Longrightarrow> keeps K (tx_InsertMessage m)"
  unfolding tx_InsertMessage_def
  by (rule keeps_write_db)
     (auto simp: on_success_Inr insert_row_Inr keys_distinct_def message_checks_def row_None_iff
       intro!: evolves_one_table message_history.rows_evolve_insert split: if_splits)

lemma keeps_InsertProject [keeps_intro]: "project_initial p \<Longrightarrow> keeps K (tx_InsertProject p)"
  unfolding tx_InsertProject_def
  by (rule keeps_write_db)
     (auto simp: on_success_Inr insert_row_Inr keys_distinct_def row_None_iff
       intro!: evolves_one_table project_history.rows_evolve_insert)

lemma keeps_InsertAgent [keeps_intro]: "agent_initial a \<Longrightarrow> keeps K (tx_InsertAgent a)"
  unfolding tx_InsertAgent_def
  by (rule keeps_write_db)
     (auto simp: on_success_Inr insert_row_Inr keys_distinct_def row_None_iff
       intro!: evolves_one_table agent_history.rows_evolve_insert)

lemma evolves_other_tables:
  "evolves d (d\<lparr>d_roles := rs\<rparr>)" "evolves d (d\<lparr>d_participants := ps\<rparr>)"
  "evolves d (d\<lparr>d_bindings := bs\<rparr>)" "evolves d (d\<lparr>d_credentials := cs\<rparr>)"
  "evolves d (d\<lparr>d_dedupes := d_dedupes d @ ds\<rparr>)"
  by (simp_all add: evolves_def keys_distinct_def log_extends_def task_history.rows_evolve_refl
      run_history.rows_evolve_refl message_history.rows_evolve_refl project_history.rows_evolve_refl
      agent_history.rows_evolve_refl)

lemma keeps_management [keeps_intro]:
  "keeps K (tx_InsertRole r)" "keeps K (tx_UpdateRole r v)" "keeps K (tx_DeleteRole i)"
  "keeps K (tx_InsertParticipant p)" "keeps K (tx_UpdateParticipant p v)"
  "keeps K (tx_InsertParticipantRole b)" "keeps K (tx_DeleteParticipantRole i j k)"
  "keeps K (tx_InsertCredential c)" "keeps K (tx_UpdateCredential c cs)"
  "keeps K (tx_SetParticipantCredential i j)" "keeps K (tx_PutDedupe x y z dv now)"
  unfolding tx_InsertRole_def tx_UpdateRole_def tx_DeleteRole_def tx_InsertParticipant_def
    tx_UpdateParticipant_def tx_InsertParticipantRole_def tx_DeleteParticipantRole_def
    tx_InsertCredential_def tx_UpdateCredential_def tx_SetParticipantCredential_def tx_PutDedupe_def
  by (rule keeps_write_db; auto simp: cas_role_def on_success_Inr Let_def evolves_other_tables
      split: option.splits if_splits)+

lemma keeps_AppendEvent [keeps_intro]: "keeps K (tx_AppendEvent e)"
  by (rule keepsI)
     (auto simp: tx_AppendEvent_def Let_def evolves_def log_extends_def keys_distinct_def
        task_history.rows_evolve_refl run_history.rows_evolve_refl message_history.rows_evolve_refl
        project_history.rows_evolve_refl agent_history.rows_evolve_refl split: if_splits)

lemma keeps_emit [keeps_intro]: "keeps K (emit p ty i kind ak ai ri rq op payload now)"
  unfolding emit_def by (rule keeps_AppendEvent)

lemma keeps_record_dedupe [keeps_intro]: "keeps K (record_dedupe d i j now)"
  unfolding record_dedupe_def by (rule keeps_management)

lemmas keeps_write_then [keeps_intro] =
  keeps_UpdateTask [THEN keeps_call] keeps_UpdateRun [THEN keeps_call]
  keeps_UpdateMessage [THEN keeps_call] keeps_UpdateProject [THEN keeps_call]
  keeps_UpdateAgent [THEN keeps_call] keeps_InsertTask [THEN keeps_call]
  keeps_InsertRun [THEN keeps_call] keeps_InsertMessage [THEN keeps_call]
  keeps_InsertProject [THEN keeps_call] keeps_InsertAgent [THEN keeps_call]
  keeps_management [THEN keeps_call] keeps_AppendEvent [THEN keeps_call] keeps_emit [THEN keeps_call]
  keeps_record_dedupe [THEN keeps_call]

section \<open>Introducing steps\<close>

text \<open>An open task, a live run: the frozen case of the step does not arise.\<close>

lemma task_stepI:
  "t_version t' = t_version t + 1 \<Longrightarrow> task_fixed t t' \<Longrightarrow> \<not> IsTaskClosed (t_status t) \<Longrightarrow>
   t_generation t' = t_generation t \<or> t_generation t' = t_generation t + 1 \<Longrightarrow>
   t_retry_count t \<le> t_retry_count t' \<Longrightarrow> (task_ok t \<Longrightarrow> task_ok t' \<and> task_move t t') \<Longrightarrow>
   task_step t t'"
  by (simp add: task_step_def)

lemma task_step_frozenI:
  assumes "t_version t' = t_version t + 1" and "task_frozen t t'"
  shows "task_step t t'"
proof -
  obtain current released version updated where t': "t' = t\<lparr>t_current_run_id := current,
      t_source_ref_released_at := released, t_version := version, t_updated_at := updated\<rparr>"
    using assms(2) unfolding task_frozen_def by (elim exE)
  have "task_fixed t t'" "task_ok t \<longrightarrow> task_ok t'" "task_move t t'"
    unfolding t' by (simp_all add: task_fixed_def task_ok_def task_move_def)
  moreover have "t_generation t' = t_generation t" "t_retry_count t' = t_retry_count t"
    unfolding t' by simp_all
  ultimately show ?thesis using assms by (simp add: task_step_def)
qed

lemma run_stepI:
  "r_version r' = r_version r + 1 \<Longrightarrow> run_fixed r r' \<Longrightarrow> IsRunLive (r_state r) \<Longrightarrow> run_sticky r r' \<Longrightarrow>
   cleanup_move r r' \<Longrightarrow> r_state r' = r_state r \<or> runTransitions (r_state r) (r_state r') \<Longrightarrow>
   launchPhaseOrder (r_launch_phase r) \<le> launchPhaseOrder (r_launch_phase r') \<Longrightarrow>
   (run_ok r \<Longrightarrow> run_ok r' \<and>
         (r_requested_outcome r \<noteq> NoOutcome \<longrightarrow> r_requested_outcome r' = r_requested_outcome r \<and>
            r_requested_summary r' = r_requested_summary r \<and> r_expected_head r' = r_expected_head r)) \<Longrightarrow>
   run_step r r'"
  by (simp add: run_step_def IsRunTerminal_def)

lemmas step_parts = task_fixed_def task_ok_def task_move_def run_fixed_def run_sticky_def run_ok_def
  cleanup_move_def message_step_def message_fixed_def message_ok_def project_step_def project_fixed_def
  project_ok_def agent_step_def columns_defs clearTaskAction_def validate_None
lemmas initial_defs = task_initial_def run_initial_def message_initial_def project_initial_def
  agent_initial_def

end
