(* ===== verification/Linkage.thy ===== *)
theory Linkage
  imports Evolution
begin

text \<open>
  The invariant that ties tasks and runs together. A task's current run is a row of the run table whose
  state agrees with the status of the task; a live run is the current run of its task; no agent has two
  live runs, and there are never more live runs than the configured limit. The calculus is interpreted
  a second time, with the relation that a success also preserves this invariant, and each primitive
  gets a rule that says what a single update must respect.
\<close>

section \<open>The invariant\<close>

text \<open>What the row of a task says by itself.\<close>

definition link_local :: "task \<Rightarrow> bool" where
  "link_local t =
     ((t_current_run_id t \<noteq> [] \<longrightarrow>
         t_status t \<in> {TaskQueued, TaskRunning, TaskFinishing, TaskCancelled}) \<and>
      (t_status t \<in> {TaskRunning, TaskFinishing} \<longrightarrow> t_current_run_id t \<noteq> []) \<and>
      (t_pending_action t = Capture \<longrightarrow> t_status t = TaskFinishing))"

text \<open>A task and its current run. A finishing task whose run has ended waits for the capture of its
  result; a cancelled task keeps its run only while that is still live.\<close>

fun status_link :: "task_status \<Rightarrow> task \<Rightarrow> run \<Rightarrow> bool" where
  "status_link TaskQueued t r =
     (r_state r = RunStarting \<and> r_generation r = t_generation t \<and> r_requested_outcome r = NoOutcome)"
| "status_link TaskRunning t r =
     (r_state r = RunActive \<and> r_generation r = t_generation t \<and> r_requested_outcome r = NoOutcome)"
| "status_link TaskFinishing t r =
     (r_generation r = t_generation t \<and> r_requested_outcome r \<noteq> NoOutcome \<and>
      (r_requested_outcome r = OutcomeSubmit \<longleftrightarrow> t_pending_action t = Capture) \<and>
      (IsRunLive (r_state r) \<or> t_pending_action t = Capture))"
| "status_link TaskCancelled t r = IsRunLive (r_state r)"
| "status_link _ t r = False"

definition current_link :: "task \<Rightarrow> run \<Rightarrow> bool" where
  "current_link t r =
     (r_id r = t_current_run_id t \<and> r_task_id r = t_id t \<and> r_project_id r = t_project_id t \<and>
      r_agent_id r = t_assignee_agent_id t \<and> status_link (t_status t) t r)"

text \<open>No agent has two live runs.\<close>

definition agents_exclusive :: "run list \<Rightarrow> bool" where
  "agents_exclusive rs =
     (\<forall>r \<in> set rs. \<forall>u \<in> set rs. IsRunLive (r_state r) \<longrightarrow> IsRunLive (r_state u) \<longrightarrow>
        r_agent_id u = r_agent_id r \<longrightarrow> r_id u = r_id r)"

definition linked :: "db \<Rightarrow> bool" where
  "linked d =
     ((\<forall>t \<in> set (d_tasks d). link_local t \<and>
         (t_current_run_id t \<noteq> [] \<longrightarrow> (\<exists>r \<in> set (d_runs d). current_link t r))) \<and>
      (\<forall>r \<in> set (d_runs d). r_id r \<noteq> [] \<and>
         (IsRunLive (r_state r) \<longrightarrow>
            (\<exists>t \<in> set (d_tasks d). t_id t = r_task_id r \<and> t_current_run_id t = r_id r))) \<and>
      agents_exclusive (d_runs d))"

definition live_runs :: "db \<Rightarrow> nat" where
  "live_runs d = count (\<lambda>r. IsRunLive (r_state r)) (d_runs d)"

definition sound :: "int \<Rightarrow> db \<Rightarrow> bool" where
  "sound limit d = (keys_distinct d \<and> linked d \<and> int (live_runs d) \<le> limit)"

section \<open>Tables and the invariant\<close>

lemma set_put_row_iff:
  assumes "row key (key r') rows = Some r"
  shows "x \<in> set (put_row key r' rows) \<longleftrightarrow> x = r' \<or> (x \<in> set rows \<and> key x \<noteq> key r')"
  using row_SomeD [OF assms] by (force simp: put_row_def)

lemma row_unique:
  "distinct (map key rows) \<Longrightarrow> row key k rows = Some r \<Longrightarrow> x \<in> set rows \<Longrightarrow> key x = k \<Longrightarrow> x = r"
  using row_in_set by fastforce

lemma count_put_row:
  assumes "distinct (map key rows)" and "row key (key r') rows = Some r" and "P r' \<Longrightarrow> P r"
  shows "count P (put_row key r' rows) \<le> count P rows"
  using assms
proof (induction rows)
  case (Cons x rows)
  show ?case
  proof (cases "key x = key r'")
    case True
    then have "put_row key r' rows = rows"
      using Cons.prems(1) unfolding put_row_def by (intro map_idI) (auto intro: rev_image_eqI)
    with True Cons.prems show ?thesis by (auto simp: put_row_def count_def)
  next
    case False
    with Cons show ?thesis by (auto simp: put_row_def count_def)
  qed
qed simp

lemma linkedD:
  assumes "linked d"
  shows "t \<in> set (d_tasks d) \<Longrightarrow> link_local t"
    and "t \<in> set (d_tasks d) \<Longrightarrow> t_current_run_id t \<noteq> [] \<Longrightarrow> \<exists>r \<in> set (d_runs d). current_link t r"
    and "r \<in> set (d_runs d) \<Longrightarrow> r_id r \<noteq> []"
    and "r \<in> set (d_runs d) \<Longrightarrow> IsRunLive (r_state r) \<Longrightarrow>
      \<exists>t \<in> set (d_tasks d). t_id t = r_task_id r \<and> t_current_run_id t = r_id r"
  using assms unfolding linked_def by blast+

lemma agents_exclusive_put:
  assumes "agents_exclusive rs" and r: "row r_id (r_id r') rs = Some r"
    and live: "IsRunLive (r_state r') \<Longrightarrow> IsRunLive (r_state r) \<and> r_agent_id r' = r_agent_id r"
  shows "agents_exclusive (put_row r_id r' rs)"
proof -
  note runs = set_put_row_iff [of r_id r', OF r]
  have rin: "r \<in> set rs" "r_id r = r_id r'" using row_SomeD [OF r] by auto
  have own: "r_id u = r_id r'" if "u \<in> set rs" "IsRunLive (r_state u)" "IsRunLive (r_state r')"
      "r_agent_id u = r_agent_id r'" for u
    using assms(1) [unfolded agents_exclusive_def, rule_format, OF rin(1) that(1)] live [OF that(3)] that rin(2)
    by simp
  show ?thesis
    unfolding agents_exclusive_def
  proof (intro ballI impI)
    fix x u assume "x \<in> set (put_row r_id r' rs)" "u \<in> set (put_row r_id r' rs)"
      and live': "IsRunLive (r_state x)" "IsRunLive (r_state u)" "r_agent_id u = r_agent_id x"
    then consider "x = r'" "u = r'" | "x = r'" "u \<in> set rs" | "u = r'" "x \<in> set rs" | "x \<in> set rs" "u \<in> set rs"
      unfolding runs by blast
    then show "r_id u = r_id x"
    proof cases
      case 2
      then show ?thesis using own [of u] live' by simp
    next
      case 3
      then show ?thesis using own [of x] live' by simp
    next
      case 4
      then show ?thesis using assms(1) live' unfolding agents_exclusive_def by blast
    qed simp
  qed
qed

text \<open>An update of one task and, possibly, of its run: both rows are replaced, the others stay.\<close>

lemma linked_put_both:
  assumes "linked d" and "keys_distinct d"
    and t: "task_of d (t_id t') = Some t" and r: "run_of d (r_id r') = Some r"
    and same: "r_id r' = t_current_run_id t" "r_task_id r' = t_id t'"
      "IsRunLive (r_state r') \<Longrightarrow> IsRunLive (r_state r) \<and> t_current_run_id t' = r_id r' \<and> r_agent_id r' = r_agent_id r"
    and link: "link_local t'" "t_current_run_id t' \<noteq> [] \<Longrightarrow> current_link t' r'"
  shows "linked (d\<lparr>d_tasks := put_row t_id t' (d_tasks d), d_runs := put_row r_id r' (d_runs d)\<rparr>)"
proof -
  note tasks = set_put_row_iff [of t_id t', OF t] and runs = set_put_row_iff [of r_id r', OF r]
  have dt: "distinct (map t_id (d_tasks d))" and dr: "distinct (map r_id (d_runs d))"
    using assms(2) by (simp_all add: keys_distinct_def)
  have rin: "r \<in> set (d_runs d)" "r_id r = r_id r'" using row_SomeD [OF r] by auto
  have tin: "t \<in> set (d_tasks d)" "t_id t = t_id t'" using row_SomeD [OF t] by auto
  have other: "r_id u \<noteq> r_id r'"
    if "x \<in> set (d_tasks d)" "t_id x \<noteq> t_id t'" "u \<in> set (d_runs d)" "current_link x u" for x u
  proof
    assume "r_id u = r_id r'"
    then have "u = r" using row_unique [OF dr r that(3)] by simp
    then have "r_task_id r = t_id x" using that(4) by (simp add: current_link_def)
    moreover have "r_task_id r = t_id t'"
      using linkedD(2) [OF assms(1) tin(1)] same(1) linkedD(3) [OF assms(1) rin(1)] rin(2) tin(2)
        row_unique [OF dr r] by (fastforce simp: current_link_def)
    ultimately show False using that(2) by simp
  qed
  have live: "\<exists>x \<in> set (d_tasks d). t_id x = r_task_id u \<and> t_current_run_id x = r_id u \<and> t_id x \<noteq> t_id t'"
    if u: "u \<in> set (d_runs d)" "r_id u \<noteq> r_id r'" "IsRunLive (r_state u)" for u
  proof -
    obtain x where x: "x \<in> set (d_tasks d)" "t_id x = r_task_id u" "t_current_run_id x = r_id u"
      using linkedD(4) [OF assms(1) u(1,3)] by blast
    have "t_id x \<noteq> t_id t'"
      using row_unique [OF dt t x(1)] x(3) u(2) same(1) by auto
    with x show ?thesis by blast
  qed
  have agents: "agents_exclusive (put_row r_id r' (d_runs d))"
    using assms(1) r same(3) by (intro agents_exclusive_put) (auto simp: linked_def)
  have one: "link_local x \<and> (t_current_run_id x \<noteq> [] \<longrightarrow>
      (\<exists>u \<in> set (put_row r_id r' (d_runs d)). current_link x u))"
    if "x \<in> set (put_row t_id t' (d_tasks d))" for x
  proof (cases "x = t'")
    case True
    then show ?thesis using link by (auto simp: runs)
  next
    case False
    then have x: "x \<in> set (d_tasks d)" "t_id x \<noteq> t_id t'" using that tasks by auto
    then show ?thesis
      using linkedD(1,2) [OF assms(1) x(1)] other [OF x] unfolding Bex_def runs by blast
  qed
  have two: "r_id u \<noteq> [] \<and> (IsRunLive (r_state u) \<longrightarrow>
      (\<exists>x \<in> set (put_row t_id t' (d_tasks d)). t_id x = r_task_id u \<and> t_current_run_id x = r_id u))"
    if "u \<in> set (put_row r_id r' (d_runs d))" for u
  proof (cases "u = r'")
    case True
    then show ?thesis
      using same linkedD(3) [OF assms(1) rin(1)] rin(2) by (auto simp: tasks)
  next
    case False
    then have u: "u \<in> set (d_runs d)" "r_id u \<noteq> r_id r'" using that runs by auto
    then show ?thesis
      using live [OF u] linkedD(3) [OF assms(1) u(1)] unfolding Bex_def tasks by blast
  qed
  show ?thesis
    unfolding linked_def using one two agents by simp
qed

text \<open>An update of a task alone.\<close>

lemma linked_put_task:
  assumes "linked d" and "keys_distinct d" and t: "task_of d (t_id t') = Some t"
    and link: "link_local t'"
    and current: "t_current_run_id t' = t_current_run_id t \<and>
        (\<forall>r. t_current_run_id t \<noteq> [] \<longrightarrow> current_link t r \<longrightarrow> current_link t' r) \<or>
      t_current_run_id t' = [] \<and>
        (\<exists>r. run_of d (t_current_run_id t) = Some r \<and> IsRunTerminal (r_state r))"
  shows "linked (d\<lparr>d_tasks := put_row t_id t' (d_tasks d)\<rparr>)"
proof -
  note tasks = set_put_row_iff [of t_id t', OF t]
  have dt: "distinct (map t_id (d_tasks d))" and dr: "distinct (map r_id (d_runs d))"
    using assms(2) by (simp_all add: keys_distinct_def)
  have tin: "t \<in> set (d_tasks d)" "t_id t = t_id t'" using row_SomeD [OF t] by auto
  have one: "link_local x \<and> (t_current_run_id x \<noteq> [] \<longrightarrow> (\<exists>u \<in> set (d_runs d). current_link x u))"
    if "x \<in> set (put_row t_id t' (d_tasks d))" for x
    using that link current linkedD(1,2) [OF assms(1)] linkedD(2) [OF assms(1) tin(1)]
    unfolding tasks by metis
  have two: "\<exists>x \<in> set (put_row t_id t' (d_tasks d)). t_id x = r_task_id u \<and> t_current_run_id x = r_id u"
    if u: "u \<in> set (d_runs d)" "IsRunLive (r_state u)" for u
  proof -
    obtain x where x: "x \<in> set (d_tasks d)" "t_id x = r_task_id u" "t_current_run_id x = r_id u"
      using linkedD(4) [OF assms(1) u] by blast
    show ?thesis
    proof (cases "t_id x = t_id t'")
      case True
      then have "x = t" using row_unique [OF dt t x(1)] by simp
      moreover have "\<not> (\<exists>r. run_of d (r_id u) = Some r \<and> IsRunTerminal (r_state r))"
        using row_in_set [OF dr u(1)] u(2) by (simp add: IsRunTerminal_def)
      ultimately show ?thesis using x current True by (auto simp: tasks)
    next
      case False
      with x show ?thesis by (auto simp: tasks)
    qed
  qed
  show ?thesis
    unfolding linked_def using one two linkedD(3) [OF assms(1)] assms(1) by (simp add: linked_def)
qed

text \<open>An update of a run alone.\<close>

lemma linked_put_run:
  assumes "linked d" and "keys_distinct d" and r: "run_of d (r_id r') = Some r"
    and same: "r_task_id r' = r_task_id r" "r_agent_id r' = r_agent_id r" "r_project_id r' = r_project_id r"
      "r_generation r' = r_generation r" "r_state r' = r_state r"
      "r_requested_outcome r' = r_requested_outcome r"
  shows "linked (d\<lparr>d_runs := put_row r_id r' (d_runs d)\<rparr>)"
proof -
  note runs = set_put_row_iff [of r_id r', OF r]
  have dr: "distinct (map r_id (d_runs d))" using assms(2) by (simp add: keys_distinct_def)
  have rin: "r \<in> set (d_runs d)" "r_id r = r_id r'" using row_SomeD [OF r] by auto
  have status: "status_link s x r' = status_link s x r" for s x
    by (cases s) (simp_all add: same)
  then have link: "current_link x r' = current_link x r" for x
    by (simp add: current_link_def same rin(2))
  have one: "\<exists>u \<in> set (put_row r_id r' (d_runs d)). current_link x u"
    if x: "x \<in> set (d_tasks d)" "t_current_run_id x \<noteq> []" for x
  proof -
    obtain u where u: "u \<in> set (d_runs d)" "current_link x u"
      using linkedD(2) [OF assms(1) x] by blast
    show ?thesis
    proof (cases "r_id u = r_id r'")
      case True
      then have "current_link x r'" using link row_unique [OF dr r u(1)] u(2) by simp
      then show ?thesis by (auto simp only: runs)
    next
      case False
      then show ?thesis using u by (auto simp only: runs)
    qed
  qed
  have agents: "agents_exclusive (put_row r_id r' (d_runs d))"
    using assms(1) r same by (intro agents_exclusive_put) (auto simp: linked_def)
  have two: "r_id u \<noteq> [] \<and> (IsRunLive (r_state u) \<longrightarrow>
      (\<exists>x \<in> set (d_tasks d). t_id x = r_task_id u \<and> t_current_run_id x = r_id u))"
    if "u \<in> set (put_row r_id r' (d_runs d))" for u
    using that linkedD(3,4) [OF assms(1)] rin same unfolding runs by metis
  show ?thesis
    unfolding linked_def using linkedD(1) [OF assms(1)] one two agents by simp
qed

section \<open>The calculus with the invariant\<close>

definition sound_later :: "int \<Rightarrow> world \<Rightarrow> world \<Rightarrow> bool" where
  "sound_later limit w w' = (later w w' \<and> (sound limit (w_db w) \<longrightarrow> sound limit (w_db w')))"

interpretation linkage: db_order "sound_later limit" for limit
proof (unfold_locales, goal_cases)
  case (1 s)
  then show ?case by (simp add: sound_later_def evolution.refl)
next
  case (2 s t u)
  then show ?case by (auto simp: sound_later_def intro: evolution.trans)
next
  case (3 k s t)
  then show ?case by (auto simp: sound_later_def intro: evolution.known_later)
next
  case (4 w' w)
  then show ?case by (simp add: sound_later_def evolution.le_same_db)
qed

abbreviation links :: "int \<Rightarrow> knowledge set \<Rightarrow> 'a op \<Rightarrow> bool" where
  "links limit \<equiv> state_order.keeps (sound_later limit) known"

lemmas links_call = linkage.calc_call
lemmas links_pure = linkage.calc_pure

lemma linksI:
  "keeps K m \<Longrightarrow> (\<And>w x w'. (\<forall>k\<in>K. known k w) \<Longrightarrow> m w = (Inr x, w') \<Longrightarrow> sound limit (w_db w) \<Longrightarrow>
     sound limit (w_db w')) \<Longrightarrow> links limit K m"
  unfolding linkage.keeps_def evolution.keeps_def sound_later_def by blast

lemma links_keeps: "links limit K m \<Longrightarrow> keeps K m"
  unfolding linkage.keeps_def evolution.keeps_def sound_later_def by blast

lemma linksD:
  "links limit K m \<Longrightarrow> (\<forall>k\<in>K. known k w) \<Longrightarrow> m w = (Inr x, w') \<Longrightarrow>
   evolves (w_db w) (w_db w') \<and> (sound limit (w_db w) \<longrightarrow> sound limit (w_db w'))"
  unfolding linkage.keeps_def sound_later_def later_def by blast

text \<open>What touches neither tasks nor runs preserves the invariant.\<close>

definition same_links :: "'a op \<Rightarrow> bool" where
  "same_links m = (\<forall>w x w'. m w = (Inr x, w') \<longrightarrow>
     d_tasks (w_db w') = d_tasks (w_db w) \<and> d_runs (w_db w') = d_runs (w_db w))"

lemma same_linksD:
  "same_links m \<Longrightarrow> m w = (Inr x, w') \<Longrightarrow>
   d_tasks (w_db w') = d_tasks (w_db w) \<and> d_runs (w_db w') = d_runs (w_db w)"
  unfolding same_links_def by blast

lemma sound_cong:
  "d_tasks d' = d_tasks d \<Longrightarrow> d_runs d' = d_runs d \<Longrightarrow> keys_distinct d' \<Longrightarrow> sound limit d \<Longrightarrow> sound limit d'"
  by (simp add: sound_def linked_def live_runs_def)

lemma links_other:
  assumes "keeps K m" and "same_links m"
  shows "links limit K m"
proof (rule linksI [OF assms(1)])
  fix w x w' assume K: "\<forall>k\<in>K. known k w" and m: "m w = (Inr x, w')" and s: "sound limit (w_db w)"
  have "keys_distinct (w_db w')"
    using keepsD [OF assms(1) K m] s unfolding evolves_def sound_def by blast
  then show "sound limit (w_db w')"
    using same_linksD [OF assms(2) m] s by (auto intro: sound_cong)
qed

lemma same_links_write_db:
  "(\<And>d d'. h d = Inr d' \<Longrightarrow> d_tasks d' = d_tasks d \<and> d_runs d' = d_runs d) \<Longrightarrow> same_links (write_db h)"
  by (auto simp: same_links_def write_db_success)

lemma same_links_writes:
  "same_links (tx_UpdateMessage m v s)" "same_links (tx_InsertMessage m)"
  "same_links (tx_UpdateProject p pv ps)" "same_links (tx_InsertProject p)"
  "same_links (tx_UpdateAgent a av as)" "same_links (tx_InsertAgent a)"
  "same_links (tx_InsertRole r)" "same_links (tx_UpdateRole r rv)" "same_links (tx_DeleteRole i)"
  "same_links (tx_InsertParticipant q)" "same_links (tx_UpdateParticipant q qv)"
  "same_links (tx_InsertParticipantRole b)" "same_links (tx_DeleteParticipantRole i j k)"
  "same_links (tx_InsertCredential c)" "same_links (tx_UpdateCredential c cs)"
  "same_links (tx_SetParticipantCredential i j)" "same_links (tx_PutDedupe x y z dv now)"
  unfolding tx_UpdateMessage_def tx_InsertMessage_def tx_UpdateProject_def tx_InsertProject_def
    tx_UpdateAgent_def tx_InsertAgent_def tx_InsertRole_def tx_UpdateRole_def tx_DeleteRole_def
    tx_InsertParticipant_def tx_UpdateParticipant_def tx_InsertParticipantRole_def
    tx_DeleteParticipantRole_def tx_InsertCredential_def tx_UpdateCredential_def
    tx_SetParticipantCredential_def tx_PutDedupe_def
  by (rule same_links_write_db; auto simp: cas_message_def cas_project_def cas_agent_def cas_role_def
      on_success_Inr Let_def split: if_splits option.splits)+

lemma same_links_AppendEvent: "same_links (tx_AppendEvent e)"
  by (auto simp: same_links_def tx_AppendEvent_def Let_def split: if_splits)

lemma links_UpdateMessage [keeps_intro]:
  "KM m \<in> K \<Longrightarrow> m_id m' = m_id m \<Longrightarrow> (m_state m = s \<Longrightarrow> message_step m (message_columns m m')) \<Longrightarrow>
   links limit K (tx_UpdateMessage m' (m_version m) s)"
  by (intro links_other keeps_UpdateMessage same_links_writes)

lemma links_UpdateProject [keeps_intro]:
  "KP p \<in> K \<Longrightarrow> p_id p' = p_id p \<Longrightarrow> (p_status p = s \<Longrightarrow> project_step p (project_columns p p')) \<Longrightarrow>
   links limit K (tx_UpdateProject p' (p_version p) s)"
  by (intro links_other keeps_UpdateProject same_links_writes)

lemma links_UpdateAgent [keeps_intro]:
  "KA a \<in> K \<Longrightarrow> a_id a' = a_id a \<Longrightarrow> (a_status a = s \<Longrightarrow> agent_step a (agent_columns a a')) \<Longrightarrow>
   links limit K (tx_UpdateAgent a' (a_version a) s)"
  by (intro links_other keeps_UpdateAgent same_links_writes)

lemma links_Insert [keeps_intro]:
  "(0 \<le> m_max_deliveries m \<Longrightarrow> message_initial m) \<Longrightarrow> links limit K (tx_InsertMessage m)"
  "project_initial p \<Longrightarrow> links limit K (tx_InsertProject p)"
  "agent_initial a \<Longrightarrow> links limit K (tx_InsertAgent a)"
  by (intro links_other keeps_InsertMessage keeps_InsertProject keeps_InsertAgent same_links_writes; assumption)+

lemma links_management [keeps_intro]:
  "links limit K (tx_InsertRole r)" "links limit K (tx_UpdateRole r v)" "links limit K (tx_DeleteRole i)"
  "links limit K (tx_InsertParticipant p)" "links limit K (tx_UpdateParticipant p v)"
  "links limit K (tx_InsertParticipantRole b)" "links limit K (tx_DeleteParticipantRole i j k)"
  "links limit K (tx_InsertCredential c)" "links limit K (tx_UpdateCredential c cs)"
  "links limit K (tx_SetParticipantCredential i j)" "links limit K (tx_PutDedupe x y z dv now)"
  by (intro links_other keeps_management same_links_writes)+

lemma links_AppendEvent [keeps_intro]: "links limit K (tx_AppendEvent e)"
  by (intro links_other keeps_AppendEvent same_links_AppendEvent)

lemma links_emit [keeps_intro]: "links limit K (emit p ty i kind ak ai ri rq op payload now)"
  unfolding emit_def by (rule links_AppendEvent)

lemma links_record_dedupe [keeps_intro]: "links limit K (record_dedupe d i j now)"
  unfolding record_dedupe_def by (rule links_management)

section \<open>Updates of tasks and runs\<close>

text \<open>What an update of a task alone must respect; \<open>gone\<close> says that its run is known to have ended.\<close>

definition link_step :: "bool \<Rightarrow> task \<Rightarrow> task \<Rightarrow> bool" where
  "link_step gone t t' =
     (link_local t \<longrightarrow> link_local t' \<and>
        ((t_current_run_id t' = t_current_run_id t \<and>
            (t_current_run_id t = [] \<or>
             (t_status t' = t_status t \<and> t_generation t' = t_generation t \<and>
              t_pending_action t' = t_pending_action t) \<or>
             (t_status t \<in> {TaskQueued, TaskRunning} \<and> t_status t' = TaskCancelled))) \<or>
         (gone \<and> t_current_run_id t' = [])))"

definition ended :: "knowledge set \<Rightarrow> string \<Rightarrow> bool" where
  "ended K i = (KE i \<in> K \<or> (\<exists>r. KR r \<in> K \<and> r_id r = i \<and> IsRunTerminal (r_state r)))"

lemma ended_insert [simp]:
  "ended (insert k K) i =
     (k = KE i \<or> (\<exists>r. k = KR r \<and> r_id r = i \<and> IsRunTerminal (r_state r)) \<or> ended K i)"
  by (auto simp: ended_def)

lemma ended_known: "ended K i \<Longrightarrow> (\<forall>k\<in>K. known k w) \<Longrightarrow> known (KE i) w"
  unfolding ended_def run_history.seen_def using terminal_steps
  by (fastforce simp: run_history.seen_def)

definition task_links :: "knowledge set \<Rightarrow> task \<Rightarrow> task \<Rightarrow> bool" where
  "task_links K t t' = (task_step t t' \<and> link_step (ended K (t_current_run_id t)) t t')"

lemma link_step_current:
  assumes "link_step g t t'" and "task_fixed t t'" and "t_current_run_id t \<noteq> []" and "link_local t"
    and "t_current_run_id t' = t_current_run_id t" and "current_link t r"
  shows "current_link t' r"
proof -
  consider "t_status t' = t_status t" "t_generation t' = t_generation t" "t_pending_action t' = t_pending_action t"
    | "t_status t \<in> {TaskQueued, TaskRunning}" "t_status t' = TaskCancelled"
    using assms unfolding link_step_def by fastforce
  then show ?thesis
  proof cases
    case 1
    then have "status_link s t' r = status_link s t r" for s
      by (cases s) simp_all
    with 1 assms show ?thesis by (simp add: current_link_def task_fixed_def)
  next
    case 2
    with assms show ?thesis by (auto simp: current_link_def task_fixed_def)
  qed
qed

lemma linked_task_links:
  assumes "linked d" and "keys_distinct d" and t: "task_of d (t_id t') = Some t"
    and links: "task_links K t t'" and K: "\<forall>k\<in>K. known k w" and w: "w_db w = d"
  shows "linked (d\<lparr>d_tasks := put_row t_id t' (d_tasks d)\<rparr>)"
proof -
  have local: "link_local t" using assms(1) row_SomeD [OF t] by (auto dest: linkedD(1))
  have fixed: "task_fixed t t'" and step: "link_step (ended K (t_current_run_id t)) t t'"
    using links by (simp_all add: task_links_def task_step_def)
  have "t_current_run_id t' = t_current_run_id t \<or>
      t_current_run_id t' = [] \<and> (\<exists>r. run_of d (t_current_run_id t) = Some r \<and> IsRunTerminal (r_state r))"
    using step local ended_known [OF _ K] w unfolding link_step_def by auto
  then show ?thesis
    using assms(1,2) t local step link_step_current [OF step fixed]
    by (intro linked_put_task [OF assms(1,2) t]) (auto simp: link_step_def)
qed

lemma links_UpdateTask [keeps_intro]:
  assumes "KT t \<in> K" and "t_id t' = t_id t" and "t_status t = s \<Longrightarrow> task_links K t (task_columns t t')"
  shows "links limit K (tx_UpdateTask t' (t_version t) s)"
proof (rule linksI)
  show "keeps K (tx_UpdateTask t' (t_version t) s)"
    using assms by (intro keeps_UpdateTask) (auto simp: task_links_def)
next
  fix w x w' assume K: "\<forall>k\<in>K. known k w" and "tx_UpdateTask t' (t_version t) s w = (Inr x, w')"
    and sound: "sound limit (w_db w)"
  then obtain old where old: "task_of (w_db w) (t_id t) = Some old" "t_version old = t_version t"
      "t_status old = s" "w_db w' = w_db w\<lparr>d_tasks := put_row t_id (task_columns old t') (d_tasks (w_db w))\<rparr>"
    using assms(2) by (auto simp: tx_UpdateTask_def write_db_success cas_task_Inr)
  have "old = t" using K assms(1) old by (auto intro!: task_history.seen_current)
  with old assms sound K show "sound limit (w_db w')"
    by (auto simp: sound_def live_runs_def intro!: linked_task_links keys_distinct_put)
qed

definition run_links :: "run \<Rightarrow> run \<Rightarrow> bool" where
  "run_links r r' =
     (run_step r r' \<and> r_state r' = r_state r \<and> r_requested_outcome r' = r_requested_outcome r)"

lemma links_UpdateRun [keeps_intro]:
  assumes "KR r \<in> K" and "r_id r' = r_id r" and "r_state r = s \<Longrightarrow> run_links r (run_columns r r')"
  shows "links limit K (tx_UpdateRun r' (r_version r) s)"
proof (rule linksI)
  show "keeps K (tx_UpdateRun r' (r_version r) s)"
    using assms by (intro keeps_UpdateRun) (auto simp: run_links_def)
next
  fix w x w' assume K: "\<forall>k\<in>K. known k w" and "tx_UpdateRun r' (r_version r) s w = (Inr x, w')"
    and sound: "sound limit (w_db w)"
  then obtain old where old: "run_of (w_db w) (r_id r) = Some old" "r_version old = r_version r"
      "r_state old = s" "w_db w' = w_db w\<lparr>d_runs := put_row r_id (run_columns old r') (d_runs (w_db w))\<rparr>"
    using assms(2) by (auto simp: tx_UpdateRun_def write_db_success cas_run_Inr)
  have "old = r" using K assms(1) old by (auto intro!: run_history.seen_current)
  then have r: "run_of (w_db w) (r_id (run_columns r r')) = Some r" and link: "run_links r (run_columns r r')"
    using old assms by simp_all
  have "count (\<lambda>r. IsRunLive (r_state r)) (put_row r_id (run_columns r r') (d_runs (w_db w)))
      \<le> count (\<lambda>r. IsRunLive (r_state r)) (d_runs (w_db w))"
    using sound link by (intro count_put_row [OF _ r]) (auto simp: sound_def keys_distinct_def run_links_def)
  moreover have "linked (w_db w\<lparr>d_runs := put_row r_id (run_columns r r') (d_runs (w_db w))\<rparr>)"
    using sound r link by (intro linked_put_run) (auto simp: sound_def run_links_def run_step_def run_fixed_def)
  ultimately show "sound limit (w_db w')"
    using old(1,4) \<open>old = r\<close> sound keys_distinct_put(2) [of "w_db w" r' r] assms(2)
    by (simp add: sound_def live_runs_def)
qed

lemma links_InsertTask [keeps_intro]:
  assumes "0 \<le> t_max_retries t \<Longrightarrow> task_initial t"
  shows "links limit K (tx_InsertTask t)"
proof (rule linksI)
  show "keeps K (tx_InsertTask t)" using assms by (rule keeps_InsertTask)
next
  fix w x w' assume m: "tx_InsertTask t w = (Inr x, w')" and sound: "sound limit (w_db w)"
  then have w': "w_db w' = w_db w\<lparr>d_tasks := d_tasks (w_db w) @ [t]\<rparr>" "task_initial t"
      "task_of (w_db w) (t_id t) = None"
    using assms by (auto simp: tx_InsertTask_def write_db_success on_success_Inr insert_row_Inr
        task_checks_def split: if_splits)
  then have "link_local t" "t_current_run_id t = []"
    by (auto simp: task_initial_def link_local_def)
  then show "sound limit (w_db w')"
    using sound w' by (auto simp: sound_def linked_def live_runs_def keys_distinct_def row_None_iff)
qed

lemmas links_write_then [keeps_intro] =
  links_UpdateTask [THEN links_call] links_UpdateRun [THEN links_call]
  links_UpdateMessage [THEN links_call] links_UpdateProject [THEN links_call]
  links_UpdateAgent [THEN links_call] links_InsertTask [THEN links_call]
  links_Insert [THEN links_call] links_management [THEN links_call]
  links_AppendEvent [THEN links_call] links_emit [THEN links_call]
  links_record_dedupe [THEN links_call]

section \<open>Introducing steps\<close>

lemma task_linksI:
  "t_version t' = t_version t + 1 \<Longrightarrow> task_fixed t t' \<Longrightarrow> \<not> IsTaskClosed (t_status t) \<Longrightarrow>
   t_generation t' = t_generation t \<or> t_generation t' = t_generation t + 1 \<Longrightarrow>
   t_retry_count t \<le> t_retry_count t' \<Longrightarrow> (task_ok t \<Longrightarrow> task_ok t' \<and> task_move t t') \<Longrightarrow>
   link_step (ended K (t_current_run_id t)) t t' \<Longrightarrow> task_links K t t'"
  by (simp add: task_links_def task_stepI)

lemma run_linksI:
  "r_version r' = r_version r + 1 \<Longrightarrow> run_fixed r r' \<Longrightarrow> IsRunLive (r_state r) \<Longrightarrow> run_sticky r r' \<Longrightarrow>
   cleanup_move r r' \<Longrightarrow> r_state r' = r_state r \<Longrightarrow>
   launchPhaseOrder (r_launch_phase r) \<le> launchPhaseOrder (r_launch_phase r') \<Longrightarrow>
   (run_ok r \<Longrightarrow> run_ok r' \<and>
         (r_requested_outcome r \<noteq> NoOutcome \<longrightarrow> r_requested_summary r' = r_requested_summary r \<and>
            r_expected_head r' = r_expected_head r)) \<Longrightarrow>
   r_requested_outcome r' = r_requested_outcome r \<Longrightarrow> run_links r r'"
  by (simp add: run_links_def run_stepI)

lemmas link_parts = step_parts link_step_def link_local_def

end
