(* ===== verification/Histories.thy ===== *)
theory Histories
  imports Linkage
begin

text \<open>
  Every operation other than a deletion evolves the database and preserves the invariant of
  \<open>Linkage\<close>: each update is a step of the row that was read, whatever the interleaving. One lemma per
  transaction, in the order of the components; this theory holds messages, tasks and runs up to their
  end. The claim and the activation of a run change a task and its run together, so their part of the
  invariant is shown on the final state.
\<close>

section \<open>Messages\<close>

lemma acknowledgeAgentMessage_links [keeps_intro]: "links limit K (acknowledgeAgentMessage p a r rq now ident)"
  unfolding acknowledgeAgentMessage_def settled_by_ack_def
  by (intro keeps_intro) (auto simp: link_parts)

lemma acknowledgeAgentMessages_links [keeps_intro]: "links limit K (acknowledgeAgentMessages ids p a r rq now)"
  unfolding acknowledgeAgentMessages_def by (intro keeps_intro)

lemma acknowledgeBossAction_links [keeps_intro]: "links limit K (acknowledgeBossAction p rq now ident)"
  unfolding acknowledgeBossAction_def settled_by_ack_def
  by (intro keeps_intro) (auto simp: link_parts)

lemmas acknowledge_then [keeps_intro] = acknowledgeAgentMessages_links [THEN links_call]

lemma acknowledgeForActor_links [keeps_intro]: "links limit K (acknowledgeForActor ids p actor rq now)"
  unfolding acknowledgeForActor_def by (intro keeps_intro)

lemma insertMessage_links [keeps_intro]: "links limit K (insertMessage sv i)"
  unfolding insertMessage_def message_from_def
  by (intro keeps_intro) (auto simp: initial_defs)

lemma requeued_step:
  "t_status t = TaskWaiting \<or> t_status t = TaskQueued \<Longrightarrow> task_links K t (task_columns t (requeued t at now))"
  by (rule task_linksI) (auto simp: requeued_def link_parts)

lemma requeued_id [simp]: "t_id (requeued t at now) = t_id t"
  by (simp add: requeued_def)

lemma rerouteMessage_links [keeps_intro]:
  "KT conversation \<in> K \<Longrightarrow> KM message \<in> K \<Longrightarrow> unresolved_agent_message message \<Longrightarrow>
   links limit K (rerouteMessage task conversation message ak ai ri rq now)"
  unfolding rerouteMessage_def
  by (intro keeps_intro; (auto simp: requeued_step unresolved_agent_message_def; fail)?)
     (auto simp: link_parts unresolved_agent_message_def)

lemma cancelUndeliverable_links [keeps_intro]:
  "KM message \<in> K \<Longrightarrow> unresolved_agent_message message \<Longrightarrow>
   links limit K (cancelUndeliverable task message ak ai ri rq now)"
  unfolding cancelUndeliverable_def
  by (intro keeps_intro) (auto simp: link_parts unresolved_agent_message_def)

lemma disposeMessage_links [keeps_intro]:
  "KD \<in> K \<Longrightarrow> KM message \<in> K \<Longrightarrow> links limit K (disposeMessage task project ak ai ri rq now message)"
  unfolding disposeMessage_def by (intro keeps_intro) auto

lemma disposeUnresolvedMessages_links [keeps_intro]:
  "KD \<in> K \<Longrightarrow> links limit K (disposeUnresolvedMessages task ak ai ri rq now)"
  unfolding disposeUnresolvedMessages_def by (intro keeps_intro) auto

lemma wakeParent_links [keeps_intro]:
  "(\<And>p. parent = Some p \<Longrightarrow> KT p \<in> K) \<Longrightarrow> links limit K (wakeParent child parent project ak ai ri rq now)"
  unfolding wakeParent_def by (intro keeps_intro) (auto simp: requeued_step)

lemmas helpers_then_1 [keeps_intro] = acknowledgeForActor_links [THEN links_call]
  insertMessage_links [THEN links_call] disposeUnresolvedMessages_links [THEN links_call]
  wakeParent_links [THEN links_call]

lemma notifyParentOfChild_links [keeps_intro]: "links limit K (notifyParentOfChild sv child ak ai ri rq now)"
  unfolding notifyParentOfChild_def by (intro keeps_intro) auto

lemma wakeDeliveryTask_links [keeps_intro]:
  "KT task \<in> K \<Longrightarrow> links limit K (wakeDeliveryTask task wake reason ak ai ri rq now)"
  unfolding wakeDeliveryTask_def by (intro keeps_intro) (auto simp: requeued_step)

lemmas helpers_then_2 [keeps_intro] = notifyParentOfChild_links [THEN links_call]
  wakeDeliveryTask_links [THEN links_call]

lemma conversationDeliveryTask_links [keeps_intro]:
  "KD \<in> K \<Longrightarrow> links limit K (conversationDeliveryTask sv p dr recipient rel wake ak ai ri reason rq now)"
  unfolding conversationDeliveryTask_def
  by (intro keeps_intro) (auto simp: initial_defs conversation_literal_def new_task_def)

lemma agentDeliveryTask_links [keeps_intro]:
  "KD \<in> K \<Longrightarrow> links limit K (agentDeliveryTask sv p dr recipient ex rel wake ak ai ri reason rq now)"
  unfolding agentDeliveryTask_def explicitDeliveryTask_def by (intro keeps_intro) auto

lemma message_reads_links [keeps_intro]:
  "links limit K (replayBossAgentMessage op r)" "links limit K (bossMessageScope p rel reply)"
  "links limit K (project_is_active p)" "links limit K (agent_not_archived a)"
  "links limit K (runCanReadMessage run current m)" "links limit K (agentMessageScope run current toAgent i)"
  unfolding replayBossAgentMessage_def bossMessageScope_def project_is_active_def agent_not_archived_def
    runCanReadMessage_def agentMessageScope_def
  by (rule links_pure, intro pure_control pure_reads)+

lemma recordBossAgentMessage_links [keeps_intro]: "links limit K (recordBossAgentMessage d op task m now)"
  unfolding recordBossAgentMessage_def by (intro keeps_intro)

lemmas helpers_then_3 [keeps_intro] = agentDeliveryTask_links [THEN links_call]
  message_reads_links [THEN links_call] recordBossAgentMessage_links [THEN links_call]

lemma agentMessageTarget_links [keeps_intro]:
  "KD \<in> K \<Longrightarrow> links limit K (agentMessageTarget sv run current toAgent i now)"
  unfolding agentMessageTarget_def by (intro keeps_intro) auto

lemma deliverMessage_links [keeps_intro]: "links limit K (deliverMessage run rq op now ident)"
  unfolding deliverMessage_def by (intro keeps_intro) (auto simp: link_parts)

lemmas helpers_then_4 [keeps_intro] = agentMessageTarget_links [THEN links_call]
  deliverMessage_links [THEN links_call]

lemma sendBossAgentMessage_tx_links: "KD \<in> K \<Longrightarrow> links limit K (sendBossAgentMessage_tx sv input dedupe)"
  unfolding sendBossAgentMessage_tx_def by (intro keeps_intro) auto

lemma AcknowledgeBossMessage_tx_links: "links limit K (AcknowledgeBossMessage_tx sv ident rq)"
  unfolding AcknowledgeBossMessage_tx_def settled_by_ack_def
  by (intro keeps_intro) (auto simp: link_parts dest: messageTransitions_open)

lemma ReadBossMessage_tx_links: "links limit K (ReadBossMessage_tx sv ident dedupe)"
  unfolding ReadBossMessage_tx_def by (intro keeps_intro) (auto simp: link_parts)

lemma RetryMessage_tx_links: "links limit K (RetryMessage_tx sv ident dedupe)"
  unfolding RetryMessage_tx_def
  by (intro keeps_intro; (auto simp: requeued_step; fail)?) (auto simp: link_parts)

lemma SendAgentMessage_tx_links: "KD \<in> K \<Longrightarrow> links limit K (SendAgentMessage_tx sv i toAgent h)"
  unfolding SendAgentMessage_tx_def by (intro keeps_intro) auto

lemma RecordMessagesDelivered_tx_links: "links limit K (RecordMessagesDelivered_tx sv runID ids op dedupe)"
  unfolding RecordMessagesDelivered_tx_def by (intro keeps_intro)

lemma AcknowledgeAgentMessages_tx_links: "KD \<in> K \<Longrightarrow> links limit K (AcknowledgeAgentMessages_tx sv token ids rq h)"
  unfolding AcknowledgeAgentMessages_tx_def by (intro keeps_intro) auto

section \<open>Tasks\<close>

lemma pure_creation:
  "pure_op (validateSourceTask p t)" "pure_op (validateRetryTarget p t)"
  "pure_op (creationActor sv input actor)" "pure_op (creationSource input actor)"
  "pure_op (creationAssignee input)"
  unfolding validateSourceTask_def validateRetryTarget_def creationActor_def creationSource_def
    creationAssignee_def agent_not_archived_def Let_def
  by (intro pure_control pure_calls)+

lemmas helpers_then_5 [keeps_intro] = pure_creation [THEN links_pure]
  pure_creation [THEN links_pure, THEN links_call]

lemma insertWorkTask_links [keeps_intro]:
  "links limit K (insertWorkTask sv input actor parent source retry baseSHA)"
  unfolding insertWorkTask_def
  by (intro keeps_intro)
     (auto simp: initial_defs work_task_literal_def new_task_def Let_def split: option.splits)

lemma createWorkTask_mutate_tx_links: "links limit K (createWorkTask_mutate_tx sv input snapshot baseSHA)"
  unfolding createWorkTask_mutate_tx_def by (intro keeps_intro)

lemma applyTaskMutation_tx_links:
  assumes "KD \<in> K"
    and "\<And>L task actor rq now. KD \<in> L \<Longrightarrow> KT task \<in> L \<Longrightarrow> links limit L (mutate task actor rq now)"
  shows "links limit K (applyTaskMutation_tx sv token taskID ackIDs dedupe mutate)"
  unfolding applyTaskMutation_tx_def
  by (intro keeps_intro assms(2) assms(2) [THEN links_call]) (simp_all add: assms(1))

lemma reenableExhausted_links [keeps_intro]:
  "KM message \<in> K \<Longrightarrow> links limit K (reenableExhausted actor rq now message)"
  unfolding reenableExhausted_def by (intro keeps_intro) (auto simp: link_parts)

lemma woken_step: "t_status t = TaskWaiting \<Longrightarrow> task_links K t (task_columns t ((requeued t at now)\<lparr>t_wait_reason := []\<rparr>))"
  by (rule task_linksI) (auto simp: requeued_def link_parts)

lemma wakeMutation_links: "KD \<in> K \<Longrightarrow> KT task \<in> K \<Longrightarrow> links limit K (wakeMutation task actor rq now)"
  unfolding wakeMutation_def by (intro keeps_intro) (auto simp: woken_step)

lemma retryMutation_links: "KT task \<in> K \<Longrightarrow> links limit K (retryMutation task actor rq now)"
  unfolding retryMutation_def by (intro keeps_intro task_linksI; (simp; fail)?) (auto simp: link_parts)

lemma released_source_step: "t_status t = TaskSubmitted \<Longrightarrow> task_links K t (task_columns t (released_source t now))"
  by (rule task_linksI) (auto simp: released_source_def link_parts)

lemma released_source_id [simp]: "t_id (released_source t now) = t_id t"
  by (simp add: released_source_def)

lemma releaseSource_links [keeps_intro]:
  "KT source \<in> K \<Longrightarrow> links limit K (releaseSource source task actor rq now)"
  unfolding releaseSource_def by (intro keeps_intro) (auto simp: released_source_step)

lemma stopCancelledRun_links [keeps_intro]: "links limit K (stopCancelledRun sv reason task actor rq now)"
  unfolding stopCancelledRun_def
  by (intro keeps_intro run_linksI; (simp; fail)?) (auto simp: link_parts IsRunLive_def)

lemma stopCancelledRun_ended:
  assumes "stopCancelledRun sv reason task actor rq now w = (Inr stopped, w')"
  shows "stopped \<or> t_current_run_id task = [] \<or> known (KE (t_current_run_id task)) w'"
  using assms
  by (auto simp: stopCancelledRun_def andthen_success tx_Run_def read_db_success IsRunTerminal_def Let_def
      split: if_splits)

lemma links_stopCancelledRun_then [keeps_intro]:
  assumes "\<And>stopped. links limit
    ((if stopped \<or> t_current_run_id task = [] then {} else {KE (t_current_run_id task)}) \<union> K) (f stopped)"
  shows "links limit K (andthen (stopCancelledRun sv reason task actor rq now) f)"
proof (rule linkage.keeps_learn [OF _ assms])
  show "state_order.learns (sound_later limit) known K (stopCancelledRun sv reason task actor rq now)
     (\<lambda>stopped. if stopped \<or> t_current_run_id task = [] then {} else {KE (t_current_run_id task)})"
    unfolding linkage.learns_def
  proof (intro allI impI conjI)
    fix w stopped w' assume K: "\<forall>k\<in>K. known k w"
      and m: "stopCancelledRun sv reason task actor rq now w = (Inr stopped, w')"
    show "sound_later limit w w'"
      using stopCancelledRun_links K m unfolding linkage.keeps_def by blast
    show "\<forall>k\<in>(if stopped \<or> t_current_run_id task = [] then {} else {KE (t_current_run_id task)}). known k w'"
      using stopCancelledRun_ended [OF m] by auto
  qed
qed

lemmas helpers_then_6 [keeps_intro] = releaseSource_links [THEN links_call]

lemma cancelMutation_links:
  "KD \<in> K \<Longrightarrow> KT task \<in> K \<Longrightarrow> links limit K (cancelMutation sv reason task actor rq now)"
  unfolding cancelMutation_def
  by (intro keeps_intro task_linksI; (simp; fail)?)
     (auto simp: link_parts split: if_splits dest: taskTransitions_open)

lemma reworkMutation_links: "KT task \<in> K \<Longrightarrow> links limit K (reworkMutation reason task actor rq now)"
  unfolding reworkMutation_def by (intro keeps_intro task_linksI; (simp; fail)?) (auto simp: link_parts)

lemma CompleteTask_tx_links: "links limit K (CompleteTask_tx sv taskID projectID summary dedupe)"
  unfolding CompleteTask_tx_def by (intro keeps_intro task_linksI; (simp; fail)?) (auto simp: link_parts)

lemma cancelOnClose_links [keeps_intro]: "KM message \<in> K \<Longrightarrow> links limit K (cancelOnClose task rq now message)"
  unfolding cancelOnClose_def by (intro keeps_intro) (auto simp: link_parts unresolved_agent_message_def)

lemma CloseConversation_tx_links: "KD \<in> K \<Longrightarrow> links limit K (CloseConversation_tx sv taskID rq)"
  unfolding CloseConversation_tx_def
  by (intro keeps_intro task_linksI; (simp; fail)?) (auto simp: link_parts split: if_splits dest: taskTransitions_open)

section \<open>Runs\<close>

lemma claimTask_keeps [keeps_intro]:
  "KT task \<in> K \<Longrightarrow> keeps K (claimTask sv task agent)"
  unfolding claimTask_def run_literal_def
  by (intro keeps_intro task_stepI; (simp; fail)?) (auto simp: step_parts initial_defs)

lemma agents_exclusive_append:
  assumes "agents_exclusive rs" and "\<And>u. u \<in> set rs \<Longrightarrow> IsRunLive (r_state u) \<Longrightarrow> r_agent_id u \<noteq> r_agent_id r"
  shows "agents_exclusive (rs @ [r])"
  unfolding agents_exclusive_def
proof (intro ballI impI)
  fix x u assume "x \<in> set (rs @ [r])" "u \<in> set (rs @ [r])" and live: "IsRunLive (r_state x)"
    "IsRunLive (r_state u)" "r_agent_id u = r_agent_id x"
  then consider "x = r" "u = r" | "x = r" "u \<in> set rs" | "u = r" "x \<in> set rs" | "x \<in> set rs" "u \<in> set rs"
    by auto
  then show "r_id u = r_id x"
  proof cases
    case 4
    then show ?thesis using assms(1) live unfolding agents_exclusive_def by blast
  qed (use assms(2) live in auto)
qed

text \<open>A claim inserts the run and makes it the current run of its queued task.\<close>

lemma linked_claim:
  assumes "linked d" and "keys_distinct d" and t: "task_of d (t_id t') = Some t"
    and new: "run_of d (r_id r) = None" "run_checks r (d_runs d)" "r_id r \<noteq> []" "IsRunLive (r_state r)"
    and free: "t_current_run_id t = []" and link: "link_local t'" "current_link t' r"
  shows "linked (d\<lparr>d_tasks := put_row t_id t' (d_tasks d), d_runs := d_runs d @ [r]\<rparr>)"
proof -
  note tasks = set_put_row_iff [of t_id t', OF t]
  have dt: "distinct (map t_id (d_tasks d))" using assms(2) by (simp add: keys_distinct_def)
  have one: "link_local x \<and> (t_current_run_id x \<noteq> [] \<longrightarrow> (\<exists>u \<in> set (d_runs d @ [r]). current_link x u))"
    if "x \<in> set (put_row t_id t' (d_tasks d))" for x
    using that link linkedD(1,2) [OF assms(1)] unfolding tasks by auto
  have two: "r_id u \<noteq> [] \<and> (IsRunLive (r_state u) \<longrightarrow>
      (\<exists>x \<in> set (put_row t_id t' (d_tasks d)). t_id x = r_task_id u \<and> t_current_run_id x = r_id u))"
    if "u \<in> set (d_runs d @ [r])" for u
  proof (cases "u = r")
    case True
    then show ?thesis using new link unfolding Bex_def tasks by (auto simp: current_link_def)
  next
    case False
    then have u: "u \<in> set (d_runs d)" using that by simp
    have "t_id x \<noteq> t_id t'" if "x \<in> set (d_tasks d)" "t_current_run_id x = r_id u" for x
      using row_unique [OF dt t that(1)] that(2) free linkedD(3) [OF assms(1) u] by auto
    then show ?thesis
      using linkedD(3,4) [OF assms(1) u] unfolding Bex_def tasks by blast
  qed
  have "agents_exclusive (d_runs d @ [r])"
    using assms(1) new(2,4) by (intro agents_exclusive_append) (auto simp: linked_def run_checks_def)
  then show ?thesis
    unfolding linked_def using one two by simp
qed

lemma trim_space_Nil [simp]: "trim_space [] = []"
  using length_trim_space [of "[]"] by simp

lemma requiredID_success: "requiredID sv p w = (Inr i, w') \<Longrightarrow> w_db w' = w_db w \<and> i \<noteq> []"
  by (auto simp: requiredID_def newID_def andthen_success split: option.splits if_splits)

lemma nowText_success: "nowText sv w = (Inr i, w') \<Longrightarrow> w_db w' = w_db w"
  by (auto simp: nowText_def)

lemma emit_success:
  "emit p ty i k ak ai ri rq op pl now w = (Inr e, w') \<Longrightarrow>
   d_tasks (w_db w') = d_tasks (w_db w) \<and> d_runs (w_db w') = d_runs (w_db w)"
  unfolding emit_def by (rule same_linksD [OF same_links_AppendEvent])

lemma tx_InsertRun_success:
  "tx_InsertRun r w = (Inr u, w') \<Longrightarrow> r_isolation_spec_version r \<noteq> 0 \<Longrightarrow>
   run_of (w_db w) (r_id r) = None \<and> run_checks r (d_runs (w_db w)) \<and>
   w_db w' = (w_db w)\<lparr>d_runs := d_runs (w_db w) @ [r]\<rparr>"
  by (auto simp: tx_InsertRun_def write_db_success on_success_Inr insert_row_Inr
      normalizedIsolationSpecVersion_def split: if_splits)

lemma tx_UpdateTask_success:
  "tx_UpdateTask t' v s w = (Inr u, w') \<Longrightarrow> task_of (w_db w) (t_id t') = Some t \<Longrightarrow>
   t_version t = v \<and> t_status t = s \<and>
   w_db w' = (w_db w)\<lparr>d_tasks := put_row t_id (task_columns t t') (d_tasks (w_db w))\<rparr>"
  by (auto simp: tx_UpdateTask_def write_db_success cas_task_Inr)

lemma tx_UpdateRun_success:
  "tx_UpdateRun r' v s w = (Inr u, w') \<Longrightarrow> run_of (w_db w) (r_id r') = Some r \<Longrightarrow>
   r_version r = v \<and> r_state r = s \<and>
   run_checks (run_columns r r') (filter (\<lambda>u. r_id u \<noteq> r_id r') (d_runs (w_db w))) \<and>
   w_db w' = (w_db w)\<lparr>d_runs := put_row r_id (run_columns r r') (d_runs (w_db w))\<rparr>"
  by (auto simp: tx_UpdateRun_def write_db_success cas_run_Inr)

lemma linked_cong: "d_tasks d' = d_tasks d \<Longrightarrow> d_runs d' = d_runs d \<Longrightarrow> linked d \<Longrightarrow> linked d'"
  by (simp add: linked_def)

lemma claimTask_linked:
  assumes "claimTask sv task agent w = (Inr c, w')" and seen: "task_history.seen task (d_tasks (w_db w))"
    and "t_status task = TaskQueued" "t_current_run_id task = []" "t_assignee_agent_id task = a_id agent"
    and "linked (w_db w)" "keys_distinct (w_db w)"
  shows "linked (w_db w') \<and> live_runs (w_db w') = Suc (live_runs (w_db w))"
proof -
  let ?d = "w_db w"
  obtain runID token operationID now w1 w2 w3 where
      "runID \<noteq> []" and w3: "w_db w1 = ?d" and ins: "tx_InsertRun (run_literal sv runID token operationID (task\<lparr>
         t_generation := t_generation task + 1, t_current_run_id := runID,
         t_version := t_version task + 1, t_updated_at := now\<rparr>) agent now) w1 = (Inr (), w2)"
      and upd: "tx_UpdateTask (task\<lparr>t_generation := t_generation task + 1, t_current_run_id := runID,
         t_version := t_version task + 1, t_updated_at := now\<rparr>) (t_version task) TaskQueued w2 = (Inr (), w3)"
      and rest: "d_tasks (w_db w') = d_tasks (w_db w3)" "d_runs (w_db w') = d_runs (w_db w3)"
    using assms(1)
    by (auto simp: claimTask_def andthen_success Let_def dest!: requiredID_success nowText_success emit_success)
  define t' where "t' = task\<lparr>t_generation := t_generation task + 1, t_current_run_id := runID,
         t_version := t_version task + 1, t_updated_at := now\<rparr>"
  define r where "r = run_literal sv runID token operationID t' agent now"
  have r: "run_of ?d (r_id r) = None" "run_checks r (d_runs ?d)" "w_db w2 = ?d\<lparr>d_runs := d_runs ?d @ [r]\<rparr>"
    using tx_InsertRun_success [OF ins] w3 by (auto simp: r_def t'_def run_literal_def RunIsolationSpecCurrent_def)
  obtain old where old: "task_of ?d (t_id task) = Some old" "t_version old = t_version task"
    using upd r(3) by (auto simp: tx_UpdateTask_def write_db_success cas_task_Inr)
  have task: "task_of ?d (t_id task) = Some task"
    using task_history.seen_current [OF seen old] old(1) by simp
  then have pending: "t_pending_action task \<noteq> Capture"
    using linkedD(1) [OF assms(6)] assms(3) by (auto simp: link_local_def dest!: row_SomeD)
  have "w_db w3 = (w_db w2)\<lparr>d_tasks := put_row t_id (task_columns task t') (d_tasks ?d)\<rparr>"
    using tx_UpdateTask_success [OF upd, of task] r(3) task by (simp add: t'_def)
  moreover have "task_columns task t' = t'" by (simp add: task_columns_def t'_def)
  ultimately have d': "d_tasks (w_db w') = put_row t_id t' (d_tasks ?d)" "d_runs (w_db w') = d_runs ?d @ [r]"
    using rest r(3) by simp_all
  have "linked (?d\<lparr>d_tasks := put_row t_id t' (d_tasks ?d), d_runs := d_runs ?d @ [r]\<rparr>)"
    using assms(3-) task pending r \<open>runID \<noteq> []\<close>
    by (intro linked_claim [of ?d t' task r])
       (auto simp: t'_def r_def run_literal_def link_local_def current_link_def)
  then have "linked (w_db w')" by (rule linked_cong [rotated 2]) (simp_all add: d')
  then show ?thesis
    using d' by (simp add: live_runs_def count_def r_def run_literal_def)
qed

lemmas claimTask_then [keeps_intro] = claimTask_keeps [THEN keeps_call]

lemma links_joint:
  "keeps K m \<Longrightarrow>
   (\<And>w x w'. (\<forall>k\<in>K. known k w) \<Longrightarrow> m w = (Inr x, w') \<Longrightarrow> keys_distinct (w_db w) \<Longrightarrow> linked (w_db w) \<Longrightarrow>
     linked (w_db w') \<and> (int (live_runs (w_db w)) \<le> limit \<longrightarrow> int (live_runs (w_db w')) \<le> limit)) \<Longrightarrow>
   links limit K m"
proof (rule linksI)
  fix w x w' assume keeps: "keeps K m" and K: "\<forall>k\<in>K. known k w" and m: "m w = (Inr x, w')"
    and joint: "\<And>w x w'. (\<forall>k\<in>K. known k w) \<Longrightarrow> m w = (Inr x, w') \<Longrightarrow> keys_distinct (w_db w) \<Longrightarrow> linked (w_db w) \<Longrightarrow>
     linked (w_db w') \<and> (int (live_runs (w_db w)) \<le> limit \<longrightarrow> int (live_runs (w_db w')) \<le> limit)"
    and sound: "sound limit (w_db w)"
  have "keys_distinct (w_db w')" using keepsD [OF keeps K m] sound by (simp add: evolves_def sound_def)
  then show "sound limit (w_db w')" using joint [OF K m] sound by (simp add: sound_def)
qed

text \<open>The claim happens only below the limit of live runs.\<close>

lemma claim_below_limit_links:
  assumes "KT task \<in> K" and "t_status task = TaskQueued" "t_current_run_id task = []"
    and "a_id agent = t_assignee_agent_id task" and rest: "links (sv_max_runs sv) K m"
  shows "links (sv_max_runs sv) K (andthen (tx_LiveRunCount [] []) (\<lambda>globalRuns.
     if n \<noteq> 0 \<or> sv_max_runs sv \<le> globalRuns then m
     else andthen (claimTask sv task agent) (\<lambda>claim. ret (Some claim))))" (is "links _ _ ?claim")
proof (rule linksI)
  show "keeps K ?claim"
    by (intro keeps_intro links_keeps [OF rest]) (simp add: assms(1))
next
  fix w x w' assume K: "\<forall>k\<in>K. known k w" and m: "?claim w = (Inr x, w')" and sound: "sound (sv_max_runs sv) (w_db w)"
  show "sound (sv_max_runs sv) (w_db w')"
  proof (cases "n \<noteq> 0 \<or> sv_max_runs sv \<le> int (live_runs (w_db w))")
    case True
    then have "m w = (Inr x, w')"
      using m by (simp add: andthen_success tx_LiveRunCount_def read_db_success live_runs_def)
    then show ?thesis using linksD [OF rest K] sound by blast
  next
    case False
    then obtain c where c: "claimTask sv task agent w = (Inr c, w')"
      using m by (auto simp: andthen_success tx_LiveRunCount_def read_db_success live_runs_def)
    have "evolves (w_db w) (w_db w')"
      by (rule keepsD [OF claimTask_keeps K c]) (use assms in simp_all)
    then have "keys_distinct (w_db w')" using sound by (simp add: evolves_def sound_def)
    moreover have "linked (w_db w') \<and> live_runs (w_db w') = Suc (live_runs (w_db w))"
      using sound K assms(1-4) by (intro claimTask_linked [OF c]) (auto simp: sound_def)
    ultimately show ?thesis using False by (simp add: sound_def)
  qed
qed

lemma claimFirst_links [keeps_intro]: "links (sv_max_runs sv) K (claimFirst sv now tasks)"
proof (induction tasks arbitrary: K)
  case Nil
  show ?case unfolding claimFirst.simps by (intro keeps_intro)
next
  case (Cons task tasks)
  show ?case unfolding claimFirst.simps
    by (intro claim_below_limit_links keeps_intro Cons.IH) simp_all
qed

lemma ClaimNext_tx_links: "links (sv_max_runs sv) K (ClaimNext_tx sv projectID now)"
  unfolding ClaimNext_tx_def by (intro keeps_intro)

lemma pure_launch:
  "pure_op (ReadAgentInstructions sv agent)" "pure_op (RuntimeConfigFingerprint sv c)"
  "pure_op (resumeFallbackSource run l)" "pure_op (runtimeFactFence run i)"
  unfolding ReadAgentInstructions_def RuntimeConfigFingerprint_def resumeFallbackSource_def
    runtimeFactFence_def Let_def
  by (intro pure_control pure_calls)+

lemmas helpers_then_8 [keeps_intro] = pure_launch [THEN links_pure]
  pure_launch [THEN links_pure, THEN links_call] pure_launch [THEN keeps_pure]
  pure_launch [THEN keeps_pure, THEN keeps_call]

lemma BeginRunLaunch_tx_links: "links limit K (BeginRunLaunch_tx sv i rq)"
  unfolding BeginRunLaunch_tx_def launched_run_def
  by (intro keeps_intro run_linksI; (simp; fail)?) (auto simp: link_parts)

lemma RecordContainerCreated_tx_links:
  "links limit K (advanceRunPhase_tx sv i LaunchIntent LaunchCreated kind (setContainer c) rq)"
  unfolding advanceRunPhase_tx_def setContainer_def
  by (intro keeps_intro run_linksI; (simp; fail)?) (auto simp: link_parts)

lemma RecordRunStartIssued_tx_links:
  "links limit K (advanceRunPhase_tx sv i LaunchCreated LaunchStartIssued kind ret rq)"
  unfolding advanceRunPhase_tx_def
  by (intro keeps_intro run_linksI; (simp; fail)?) (auto simp: link_parts)

lemma ObserveProcess_tx_keeps: "keeps K (ObserveProcess_tx sv i rq)"
  unfolding ObserveProcess_tx_def
  by (intro keeps_intro run_stepI task_stepI; (simp; fail)?) (auto simp: step_parts)

lemma runtimeFactFence_success: "runtimeFactFence r i w = (Inr u, w') \<Longrightarrow> w' = w"
  by (auto simp: runtimeFactFence_def andthen_success Let_def)

lemma live_runs_put:
  assumes "keys_distinct d" and "run_of d (r_id r') = Some r" and "IsRunLive (r_state r') \<Longrightarrow> IsRunLive (r_state r)"
  shows "count (\<lambda>r. IsRunLive (r_state r)) (put_row r_id r' (d_runs d)) \<le> live_runs d"
  unfolding live_runs_def using assms by (intro count_put_row) (auto simp: keys_distinct_def)

text \<open>Activation moves the starting run and its queued task together.\<close>

lemma ObserveProcess_linked:
  assumes "ObserveProcess_tx sv i rq w = (Inr x, w')" and linked: "linked (w_db w)" and keys: "keys_distinct (w_db w)"
  shows "linked (w_db w') \<and> live_runs (w_db w') \<le> live_runs (w_db w)"
proof (cases "w_db w' = w_db w")
  case True
  then show ?thesis using linked by simp
next
  case False
  let ?d = "w_db w"
  obtain run task now w1 w2 w3 where
      run0: "run_of ?d (trim_space (rf_run_id i)) = Some run" and state: "r_state run = RunStarting"
      and task: "task_of ?d (r_task_id run) = Some task" "t_status task = TaskQueued"
        "t_current_run_id task = r_id run" "t_generation task = r_generation run" and w1: "w_db w1 = ?d"
      and u: "tx_UpdateRun (run\<lparr>r_state := RunActive, r_launch_phase := LaunchProcessObserved,
          r_started_at := now, r_last_observed_at := now, r_heartbeat_at := now,
          r_version := r_version run + 1\<rparr>) (r_version run) RunStarting w1 = (Inr (), w2)"
      and v: "tx_UpdateTask (task\<lparr>t_status := TaskRunning, t_version := t_version task + 1, t_updated_at := now\<rparr>)
          (t_version task) TaskQueued w2 = (Inr (), w3)"
      and rest: "d_tasks (w_db w') = d_tasks (w_db w3)" "d_runs (w_db w') = d_runs (w_db w3)"
    using assms(1) False
    by (auto simp: ObserveProcess_tx_def andthen_success Let_def tx_Run_def tx_Task_def read_db_success
        split: if_splits dest!: nowText_success emit_success runtimeFactFence_success)
  have run: "run_of ?d (r_id run) = Some run" "r_state run = RunStarting"
    using row_SomeD [OF run0] run0 state by simp_all
  define r' where "r' = run\<lparr>r_state := RunActive, r_launch_phase := LaunchProcessObserved,
          r_started_at := now, r_last_observed_at := now, r_heartbeat_at := now,
          r_version := r_version run + 1, r_isolation_spec_version := normalizedIsolationSpecVersion run\<rparr>"
  define t' where "t' = task\<lparr>t_status := TaskRunning, t_version := t_version task + 1, t_updated_at := now\<rparr>"
  have tid: "t_id task = r_task_id run" using task(1) by (auto dest: row_SomeD)
  have d2: "w_db w2 = ?d\<lparr>d_runs := put_row r_id r' (d_runs ?d)\<rparr>"
    using tx_UpdateRun_success [OF u, of run] run w1
    by (simp add: r'_def run_columns_def normalizedIsolationSpecVersion_def)
  have d3: "w_db w3 = (w_db w2)\<lparr>d_tasks := put_row t_id t' (d_tasks ?d)\<rparr>"
    using tx_UpdateTask_success [OF v, of task] task d2 tid by (simp add: t'_def task_columns_def)
  have tin: "task \<in> set (d_tasks ?d)" and rin: "run \<in> set (d_runs ?d)"
    using task(1) run(1) by (auto dest: row_SomeD)
  obtain r where r: "r \<in> set (d_runs ?d)" "current_link task r"
    using linkedD(2) [OF linked tin] linkedD(3) [OF linked rin] task(3) by auto
  then have "r = run"
    using row_unique [of r_id "d_runs ?d" "r_id run" run r] run(1) keys task(3)
    by (auto simp: current_link_def keys_distinct_def)
  then have link: "current_link task run" using r by simp
  have "linked (?d\<lparr>d_tasks := put_row t_id t' (d_tasks ?d), d_runs := put_row r_id r' (d_runs ?d)\<rparr>)"
    using linked keys task run tid link linkedD(1) [OF linked tin] linkedD(3) [OF linked rin]
    by (intro linked_put_both [of ?d t' task r' run])
       (auto simp: t'_def r'_def current_link_def link_local_def)
  then have "linked (w_db w')"
    by (rule linked_cong [rotated 2]) (simp_all add: rest d2 d3)
  moreover have "live_runs (w_db w') \<le> live_runs ?d"
    using live_runs_put [OF keys, of r' run] run by (simp add: live_runs_def rest d2 d3 r'_def)
  ultimately show ?thesis ..
qed

lemma ObserveProcess_tx_links: "links limit K (ObserveProcess_tx sv i rq)"
  by (rule links_joint [OF ObserveProcess_tx_keeps]) (use ObserveProcess_linked in fastforce)

lemma RecordRunSession_tx_links: "links limit K (RecordRunSession_tx sv i s rq)"
  unfolding RecordRunSession_tx_def
  by (intro keeps_intro run_linksI; (simp; fail)?) (auto simp: link_parts IsRunLive_def)

lemma RecordRunHeartbeat_tx_links: "links limit K (RecordRunHeartbeat_tx i observed)"
  unfolding RecordRunHeartbeat_tx_def
  by (intro keeps_intro run_linksI; (simp; fail)?) (auto simp: link_parts)

lemma cleanup_step:
  assumes "validCleanupTransition (r_cleanup_state r) state (IsRunTerminal (r_state r))"
  shows "run_links r (run_columns r
    (r\<lparr>r_cleanup_state := state, r_last_error := err, r_version := r_version r + 1\<rparr>))" (is "run_links r ?r")
proof -
  have "run_frozen r ?r"
    unfolding run_frozen_def
    by (rule exI [of _ state], rule exI [of _ err], rule exI [of _ "normalizedIsolationSpecVersion r"],
        rule exI [of _ "r_version r + 1"]) (simp add: run_columns_def normalizedIsolationSpecVersion_def)
  moreover have "run_fixed r ?r" "run_sticky r ?r" "cleanup_move r ?r" "run_ok r \<longrightarrow> run_ok ?r"
    using assms by (simp_all add: run_fixed_def run_sticky_def cleanup_move_def run_ok_def run_columns_def)
  ultimately show ?thesis
    by (simp add: run_links_def run_step_def run_columns_def)
qed

lemma RecordRunCleanup_tx_links: "links limit K (RecordRunCleanup_tx sv i op state err rq)"
  unfolding RecordRunCleanup_tx_def by (intro keeps_intro; hypsubst?; (rule cleanup_step)?) simp_all

lemma Progress_tx_links: "KD \<in> K \<Longrightarrow> links limit K (Progress_tx sv token summary rq)"
  unfolding Progress_tx_def by (intro keeps_intro)

lemma requestRunStop_tx_links: "links limit K (requestRunStop_tx sv runID reason op actor dedupe)"
  unfolding requestRunStop_tx_def
  by (intro keeps_intro run_linksI; (simp; fail)?) (auto simp: link_parts)

end
