(* ===== verification/Endings.thy ===== *)
theory Endings
  imports Histories
begin

text \<open>
  The lemmas of \<open>Histories\<close> for the rest of the operations: outcomes and terminal facts, which end a
  run and move its task in one transaction, the results captured and advanced in Git, projects, agents,
  retention, roles and credentials.
\<close>

section \<open>The end of a run\<close>

lemma keeps_whenever_check:
  "(b \<longrightarrow> v = None \<Longrightarrow> keeps K (f ())) \<Longrightarrow> keeps K (andthen (whenever b (check v)) f)"
  by (cases b; cases v) (simp_all add: whenever_def check_def evolution.keeps_throw)

lemma failure_decision_facts:
  "rd_status (failure_decision task run) = TaskQueued \<or> rd_status (failure_decision task run) = TaskFailed"
  "t_retry_count task \<le> rd_retry_count (failure_decision task run)"
  "t_retry_count task \<le> t_max_retries task \<Longrightarrow> rd_retry_count (failure_decision task run) \<le> t_max_retries task"
  by (simp_all add: failure_decision_def runtimeRetryDecision_def)

lemma projectRuntimeFailure_keeps [keeps_intro]:
  assumes "KT task \<in> K" and "t_status task = TaskQueued \<or> t_status task = TaskRunning"
  shows "keeps K (projectRuntimeFailure task run rq now)"
  unfolding projectRuntimeFailure_def
  apply (rule evolution.calc_let, rule keeps_whenever_check)
  using assms failure_decision_facts [of task run]
  by (intro keeps_intro task_stepI; (simp; fail)?) (auto simp: step_parts split: if_splits)

lemma afterFailure_links [keeps_intro]: "KD \<in> K \<Longrightarrow> links limit K (afterFailure sv task run rq now)"
  unfolding afterFailure_def by (intro keeps_intro)

lemmas helpers_then_9 [keeps_intro] = projectRuntimeFailure_keeps [THEN keeps_call]
  afterFailure_links [THEN links_keeps, THEN keeps_call] afterFailure_links [THEN links_keeps]

lemma waited_step: "t_status t = TaskFinishing \<Longrightarrow> task_step t (task_columns t (waited_task t run at now))"
  by (rule task_stepI) (auto simp: waited_task_def step_parts split: option.splits)

lemma failed_by_outcome_step:
  "t_status t = TaskFinishing \<Longrightarrow> task_step t (task_columns t (failed_by_outcome t run now))"
  by (rule task_stepI) (auto simp: failed_by_outcome_def step_parts)

lemma terminal_ids [simp]:
  "t_id (waited_task t run at now) = t_id t" "t_id (failed_by_outcome t run now) = t_id t"
  "t_id (released_by_terminal t now) = t_id t" "r_id (terminal_run r i now) = r_id r"
  by (simp_all add: waited_task_def failed_by_outcome_def clearTaskAction_def released_by_terminal_def
      terminal_run_def)

lemma released_by_terminal_step: "task_step t (task_columns t (released_by_terminal t now))"
proof (rule task_step_frozenI)
  show "task_frozen t (task_columns t (released_by_terminal t now))"
    unfolding task_frozen_def
    by (rule exI [of _ "[]"], rule exI [of _ "t_source_ref_released_at t"],
        rule exI [of _ "t_version t + 1"], rule exI [of _ now])
       (simp add: released_by_terminal_def task_columns_def)
qed (simp add: released_by_terminal_def)

lemma projectTerminalTask_keeps:
  "KD \<in> K \<Longrightarrow> KT task \<in> K \<Longrightarrow> keeps K (projectTerminalTask sv task run rq op now)"
  unfolding projectTerminalTask_def
  by (cases "r_requested_outcome run"; simp only: outcome.case; intro keeps_intro)
     (auto simp: waited_step failed_by_outcome_step)

lemma projectTerminal_keeps:
  "KD \<in> K \<Longrightarrow> KT task \<in> K \<Longrightarrow> keeps K (projectTerminal sv task run rq op now)"
  unfolding projectTerminal_def
  by (intro keeps_intro projectTerminalTask_keeps) (auto simp: released_by_terminal_step)

lemma redeliverMessage_links [keeps_intro]:
  "KM message \<in> K \<Longrightarrow> m_state message = MessageDelivered \<Longrightarrow> links limit K (redeliverMessage run rq op now message)"
  unfolding redeliverMessage_def redelivered_message_def
  by (intro keeps_intro) (auto simp: link_parts)

lemma redeliverRunMessages_links: "KD \<in> K \<Longrightarrow> links limit K (redeliverRunMessages run rq op now)"
  unfolding redeliverRunMessages_def by (intro keeps_intro) auto

lemma runtimeTerminalFence_pure: "pure_op (runtimeTerminalFence run i)"
  unfolding runtimeTerminalFence_def by (intro pure_control)

lemmas helpers_then_10 [keeps_intro] = projectTerminal_keeps [THEN keeps_call]
  redeliverRunMessages_links [THEN links_keeps, THEN keeps_call] runtimeTerminalFence_pure [THEN keeps_pure, THEN keeps_call]

lemma terminal_run_step:
  assumes "runTransitions (r_state r) (rt_state i)"
  shows "run_step r (run_columns r (terminal_run r i (At now)))"
  using assms runTransitions_live [OF assms]
  by (intro run_stepI) (auto simp: terminal_run_def step_parts)

lemma RecordRunTerminal_tx_keeps: "KD \<in> K \<Longrightarrow> keeps K (RecordRunTerminal_tx sv i rq)"
  unfolding RecordRunTerminal_tx_def
  by (intro keeps_intro) (auto simp: terminal_run_step validate_None)

lemma replayOutcome_pure: "pure_op (replayOutcome r ids)"
  unfolding replayOutcome_def by (intro pure_control pure_calls)

lemmas helpers_then_11 [keeps_intro] = replayOutcome_pure [THEN links_pure]
  replayOutcome_pure [THEN keeps_pure] acknowledgeAgentMessages_links [THEN links_keeps, THEN keeps_call]

lemma outcome_run_step:
  "authentic r t \<Longrightarrow> run_step r (run_columns r (outcome_run r oc f h (At now)))"
  by (intro run_stepI) (auto simp: authentic_def outcome_run_def step_parts)

lemma outcome_task_step:
  "authentic r t \<Longrightarrow> ValidateTaskOperation (t_kind t) (outcome_text oc) = None \<Longrightarrow>
   task_step t (task_columns t (outcome_task t r oc op h now))"
  by (intro task_stepI) (auto simp: authentic_def outcome_task_def Let_def step_parts)

lemma outcome_ids [simp]:
  "r_id (outcome_run r oc f h now) = r_id r" "t_id (outcome_task t r oc op h now) = t_id t"
  by (simp_all add: outcome_run_def outcome_task_def Let_def)

lemma applyOutcome_keeps: "KD \<in> K \<Longrightarrow> keeps K (applyOutcome sv i ids snapshot f h rq dedupe)"
  unfolding applyOutcome_def
  by (intro keeps_intro) (auto simp: outcome_run_step outcome_task_step)

text \<open>The current run of a task, as a row.\<close>

lemma linked_current:
  assumes "linked d" "keys_distinct d" and t: "task_of d i = Some t" and r: "run_of d (t_current_run_id t) = Some r"
    and "t_current_run_id t \<noteq> []"
  shows "current_link t r"
proof -
  obtain u where u: "u \<in> set (d_runs d)" "current_link t u"
    using linkedD(2) [OF assms(1)] row_SomeD [OF t] assms(5) by blast
  then have "u = r"
    using row_unique [OF _ r u(1)] assms(2) by (simp add: current_link_def keys_distinct_def)
  with u show ?thesis by simp
qed

lemma linked_live_current:
  assumes "linked d" "keys_distinct d" and r: "run_of d i = Some r" and t: "task_of d (r_task_id r) = Some t"
    and "IsRunLive (r_state r)"
  shows "t_current_run_id t = r_id r"
proof -
  obtain x where x: "x \<in> set (d_tasks d)" "t_id x = r_task_id r" "t_current_run_id x = r_id r"
    using linkedD(4) [OF assms(1) _ assms(5)] row_SomeD [OF r] by blast
  then have "x = t" using row_unique [OF _ t x(1)] assms(2) by (simp add: keys_distinct_def)
  with x show ?thesis by simp
qed

lemma acknowledgeAgentMessage_same: "same_links (acknowledgeAgentMessage p a r rq now i)"
  unfolding same_links_def acknowledgeAgentMessage_def
  by (auto simp: andthen_success tx_Message_def read_db_success Let_def split: if_splits
      dest!: same_linksD [OF same_links_writes(1)] emit_success)

lemma same_links_collect: "(\<And>x. same_links (f x)) \<Longrightarrow> same_links (collect xs f)"
proof (induction xs)
  case (Cons x xs)
  then have "same_links (f x)" "same_links (collect xs f)" by blast+
  then show ?case by (fastforce simp: same_links_def andthen_success)
qed (simp add: same_links_def)

lemma acknowledgeAgentMessages_success:
  "acknowledgeAgentMessages ids p a r rq now w = (Inr ms, w') \<Longrightarrow>
   d_tasks (w_db w') = d_tasks (w_db w) \<and> d_runs (w_db w') = d_runs (w_db w)"
  unfolding acknowledgeAgentMessages_def
  by (rule same_linksD [OF same_links_collect [OF acknowledgeAgentMessage_same]])

lemma record_dedupe_success:
  "record_dedupe d i j now w = (Inr u, w') \<Longrightarrow>
   d_tasks (w_db w') = d_tasks (w_db w) \<and> d_runs (w_db w') = d_runs (w_db w)"
  unfolding record_dedupe_def by (rule same_linksD [OF same_links_writes(17)])

lemma whenever_success [simp]:
  "whenever b m w = (Inr u, w') \<longleftrightarrow> (if b then m w = (Inr u, w') else w' = w)"
  by (auto simp: whenever_def ret_def)

lemma task_operations_named: "[] \<notin> set (task_operations kind)"
  by (cases kind) simp_all

lemma pure_success: "pure_op m \<Longrightarrow> m w = (Inr x, w') \<Longrightarrow> w_db w' = w_db w"
  unfolding pure_op_def by blast

text \<open>A requested outcome moves the active run and its running task together.\<close>

lemma applyOutcome_linked:
  assumes run: "applyOutcome sv i ids snapshot f h rq dedupe w = (Inr x, w')"
    and linked: "linked (w_db w)" and keys: "keys_distinct (w_db w)"
  shows "linked (w_db w') \<and> live_runs (w_db w') \<le> live_runs (w_db w)"
proof (cases "w_db w' = w_db w")
  case True
  then show ?thesis using linked by simp
next
  case False
  let ?d = "w_db w"
  obtain r t now opID w1 w2 w3 w4 where
      r: "r \<in> set (d_runs ?d)" and t: "task_of ?d (r_task_id r) = Some t" and auth: "authentic r t"
      and kind: "ValidateTaskOperation (t_kind t) (outcome_text (oi_outcome i)) = None"
      and free: "t_pending_action t = NoAction"
      and w1: "d_tasks (w_db w1) = d_tasks ?d" "d_runs (w_db w1) = d_runs ?d"
      and u: "tx_UpdateRun (outcome_run r (oi_outcome i) f h now) (r_version r) (r_state r) w1 = (Inr (), w2)"
      and w3: "w_db w3 = w_db w2"
      and v: "tx_UpdateTask (outcome_task t r (oi_outcome i) opID h now) (t_version t) (t_status t) w3 = (Inr (), w4)"
      and rest: "d_tasks (w_db w') = d_tasks (w_db w4)" "d_runs (w_db w') = d_runs (w_db w4)"
    using run False
    by (auto simp: applyOutcome_def andthen_success Let_def split: if_splits option.splits
        dest!: pure_success [OF pure_service(1)] pure_success [OF pure_service(3)] scopedRun_success
          authenticateRun_success nowText_success acknowledgeAgentMessages_success emit_success
          pure_success [OF replayOutcome_pure] record_dedupe_success)
  have row: "run_of ?d (r_id r) = Some r"
    using keys r by (auto simp: keys_distinct_def row_in_set)
  have facts: "r_state r = RunActive" "t_status t = TaskRunning" "t_current_run_id t = r_id r"
      "t_id t = r_task_id r" "r_requested_outcome (outcome_run r (oi_outcome i) f h now) \<noteq> NoOutcome"
    using auth kind task_operations_named by (auto simp: authentic_def outcome_run_def validate_None)
  define r' where "r' = run_columns r (outcome_run r (oi_outcome i) f h now)"
  define t' where "t' = task_columns t (outcome_task t r (oi_outcome i) opID h now)"
  have d2: "d_runs (w_db w2) = put_row r_id r' (d_runs ?d)" "d_tasks (w_db w2) = d_tasks ?d"
      and checks: "run_checks r' (filter (\<lambda>u. r_id u \<noteq> r_id r) (d_runs ?d))"
    using tx_UpdateRun_success [OF u, of r] row w1 by (simp_all add: r'_def)
  have d4: "d_tasks (w_db w4) = put_row t_id t' (d_tasks ?d)" "d_runs (w_db w4) = put_row r_id r' (d_runs ?d)"
    using tx_UpdateTask_success [OF v, of t] t d2 w3 facts by (simp_all add: t'_def)
  have link: "current_link t r"
    using linked_current [OF linked keys t] row facts linkedD(3) [OF linked r] by simp
  have "linked (?d\<lparr>d_tasks := put_row t_id t' (d_tasks ?d), d_runs := put_row r_id r' (d_runs ?d)\<rparr>)"
  proof (rule linked_put_both [OF linked keys, of t' t r' r])
    show "task_of ?d (t_id t') = Some t" "run_of ?d (r_id r') = Some r"
      using t row facts by (simp_all add: t'_def r'_def)
    show "r_id r' = t_current_run_id t" "r_task_id r' = t_id t'"
      using facts by (simp_all add: t'_def r'_def run_columns_def)
    show "IsRunLive (r_state r) \<and> t_current_run_id t' = r_id r' \<and> r_agent_id r' = r_agent_id r"
      using facts by (simp add: t'_def r'_def outcome_task_def task_columns_def run_columns_def Let_def)
    show "link_local t'"
      using facts linkedD(1,3) [OF linked] r free
      by (auto simp: t'_def link_local_def outcome_task_def task_columns_def Let_def)
    show "current_link t' r'"
      using link facts free auth checks
      by (auto simp: t'_def r'_def current_link_def outcome_task_def outcome_run_def task_columns_def
          run_columns_def Let_def authentic_def)
  qed
  then have "linked (w_db w')"
    by (rule linked_cong [rotated 2]) (simp_all add: rest d4)
  moreover have "live_runs (w_db w') \<le> live_runs ?d"
    using live_runs_put [OF keys, of r' r] row facts by (simp add: live_runs_def rest d4 r'_def)
  ultimately show ?thesis ..
qed

lemma applyOutcome_links: "KD \<in> K \<Longrightarrow> links limit K (applyOutcome sv i ids snapshot f h rq dedupe)"
  by (rule links_joint [OF applyOutcome_keeps]) (use applyOutcome_linked in fastforce)+

text \<open>The end of a run closes its task's current run, except that a submitted result is captured first.\<close>

definition closable :: "db \<Rightarrow> task \<Rightarrow> bool" where
  "closable d task =
     (\<forall>t'. t_id t' = t_id task \<longrightarrow> t_current_run_id t' = [] \<longrightarrow> link_local t' \<longrightarrow>
        linked (d\<lparr>d_tasks := put_row t_id t' (d_tasks d)\<rparr>))"

lemma redeliverRunMessages_success:
  "redeliverRunMessages run rq op now w = (Inr ms, w') \<Longrightarrow>
   d_tasks (w_db w') = d_tasks (w_db w) \<and> d_runs (w_db w') = d_runs (w_db w)"
proof -
  have one: "same_links (redeliverMessage run rq op now m)" for m
    unfolding same_links_def redeliverMessage_def
    by (auto simp: andthen_success Let_def split: if_splits
        dest!: same_linksD [OF same_links_writes(1)] emit_success)
  assume "redeliverRunMessages run rq op now w = (Inr ms, w')"
  then show ?thesis
    by (auto simp: redeliverRunMessages_def andthen_success tx_MessagesForRun_def read_db_success
        dest!: same_linksD [OF same_links_collect [OF one]])
qed

lemma afterFailure_linked:
  assumes "afterFailure sv task run rq now w = (Inr u, w')" and "keys_distinct (w_db w)" and "linked (w_db w)"
  shows "linked (w_db w') \<and> live_runs (w_db w') \<le> live_runs (w_db w)"
proof -
  have "links (int (live_runs (w_db w))) {KD} (afterFailure sv task run rq now)"
    by (rule afterFailure_links) simp
  from linksD [OF this _ assms(1)] assms(2,3) show ?thesis by (auto simp: sound_def)
qed

lemma projectRuntimeFailure_success:
  assumes "projectRuntimeFailure task r rq now w = (Inr t', w1)"
  obtains w0 kind payload e where
    "tx_UpdateTask t' (t_version task) (t_status task) w = (Inr (), w0)"
    and "emit (t_project_id task) TaskEntity (t_id task) kind Daemon [] (r_id r) rq [] payload now w0 = (Inr e, w1)"
    and "t_id t' = t_id task" "t_current_run_id t' = []" "t_pending_action t' = t_pending_action task"
    and "t_status t' = TaskQueued \<or> t_status t' = TaskFailed"
  using assms failure_decision_facts(1) [of task r]
  by (auto simp: projectRuntimeFailure_def andthen_success Let_def split: if_splits)

lemma projectTerminal_linked:
  assumes run: "projectTerminal sv task r rq op now w = (Inr x, w')"
    and keys: "keys_distinct (w_db w)" and task: "task_of (w_db w) (t_id task) = Some task"
    and closable: "closable (w_db w) task" and local: "link_local task"
    and current: "t_current_run_id task = r_id r" "t_status task \<noteq> TaskCancelled \<Longrightarrow> t_generation task = r_generation r"
    and pending: "t_pending_action task = Capture \<Longrightarrow> linked (w_db w)"
    and finishing: "t_status task = TaskFinishing \<Longrightarrow> r_requested_outcome r \<noteq> OutcomeSubmit \<Longrightarrow> t_pending_action task \<noteq> Capture"
  shows "linked (w_db w') \<and> live_runs (w_db w') \<le> live_runs (w_db w)"
proof -
  have closed: "linked (w_db w1) \<and> live_runs (w_db w1) = live_runs (w_db w) \<and> keys_distinct (w_db w1)"
    if "tx_UpdateTask t' v s w = (Inr (), w1)" "t_id t' = t_id task" "t_current_run_id t' = []"
      "link_local (task_columns task t')" for t' v s w1
  proof -
    have w1: "w_db w1 = (w_db w)\<lparr>d_tasks := put_row t_id (task_columns task t') (d_tasks (w_db w))\<rparr>"
      using tx_UpdateTask_success [OF that(1)] task that(2) by simp
    show ?thesis
      unfolding w1 using closable that keys
      by (auto simp: closable_def live_runs_def task_columns_def intro: keys_distinct_put)
  qed
  have kept: "linked (w_db w2) \<and> live_runs (w_db w2) \<le> live_runs (w_db w)"
    if "linked (w_db w1) \<and> live_runs (w_db w1) = live_runs (w_db w) \<and> keys_distinct (w_db w1)"
      "d_tasks (w_db w2) = d_tasks (w_db w1)" "d_runs (w_db w2) = d_runs (w_db w1)" for w1 w2
    using that by (auto simp: live_runs_def intro: linked_cong)
  have after: "linked (w_db w3) \<and> live_runs (w_db w3) \<le> live_runs (w_db w)"
    if "linked (w_db w1) \<and> live_runs (w_db w1) = live_runs (w_db w) \<and> keys_distinct (w_db w1)"
      "emit p ty i k ak ai ri rq op pl now w1 = (Inr e, w2)" "afterFailure sv t' r rq now w2 = (Inr u, w3)"
    for w1 w2 w3 p ty i k ak ai ri rq op pl now e t' u
  proof -
    have "keys_distinct (w_db w2)"
      using keepsD [OF keeps_emit [of "{}"] _ that(2)] that(1) by (simp add: evolves_def)
    moreover have "linked (w_db w2) \<and> live_runs (w_db w2) \<le> live_runs (w_db w)"
      using kept [OF that(1)] emit_success [OF that(2)] by blast
    ultimately show ?thesis
      using afterFailure_linked [OF that(3)] by (meson le_trans)
  qed
  show ?thesis
  proof (cases "t_status task = TaskCancelled")
    case True
    then show ?thesis
      using run current(1) local
      by (auto simp: projectTerminal_def andthen_success Let_def released_by_terminal_def link_local_def
          task_columns_def dest!: closed)
  next
    case False
    then have run: "projectTerminalTask sv task r rq op now w = (Inr x, w')"
      using run current by (simp add: projectTerminal_def)
    show ?thesis
    proof (cases "r_requested_outcome r")
      case NoOutcome
      then obtain t' w1 where fail: "projectRuntimeFailure task r rq now w = (Inr t', w1)"
          and rest: "if t_status t' = TaskFailed then afterFailure sv t' r rq now w1 = (Inr (), w') else w' = w1"
          and status: "t_status task = TaskQueued \<or> t_status task = TaskRunning"
        using run by (auto simp: projectTerminalTask_def andthen_success split: if_splits)
      obtain w0 kind payload e where
          upd: "tx_UpdateTask t' (t_version task) (t_status task) w = (Inr (), w0)"
          and e: "emit (t_project_id task) TaskEntity (t_id task) kind Daemon [] (r_id r) rq [] payload now w0 = (Inr e, w1)"
          and t': "t_id t' = t_id task" "t_current_run_id t' = []" "t_pending_action t' = t_pending_action task"
            "t_status t' = TaskQueued \<or> t_status t' = TaskFailed"
        using projectRuntimeFailure_success [OF fail] .
      have "link_local (task_columns task t')"
        using t' local status by (auto simp: link_local_def task_columns_def)
      note upd = closed [OF upd t'(1,2) this]
      show ?thesis
        using rest after [OF upd e] kept [OF upd] emit_success [OF e] by (auto split: if_splits)
    next
      case OutcomeWait
      then show ?thesis
        using run finishing local
        by (auto simp: projectTerminalTask_def andthen_success tx_PendingWakeAt_def read_db_success Let_def
            waited_task_def link_local_def task_columns_def live_runs_def split: if_splits option.splits
            dest!: closed emit_success intro: linked_cong)
    next
      case OutcomeSubmit
      then show ?thesis
        using run pending by (auto simp: projectTerminalTask_def andthen_success)
    next
      case OutcomeFail
      then obtain w0 w1 e where
          upd: "tx_UpdateTask (failed_by_outcome task r now) (t_version task) (t_status task) w = (Inr (), w0)"
          and e: "emit (t_project_id task) TaskEntity (t_id task) ''task.failed'' Daemon [] (r_id r) rq op
            (eventPayload [(''reason'', JString (t_failure_reason (failed_by_outcome task r now)))]) now w0 = (Inr e, w1)"
          and rest: "afterFailure sv (failed_by_outcome task r now) r rq now w1 = (Inr (), w')"
        using run by (auto simp: projectTerminalTask_def andthen_success Let_def)
      have "link_local (task_columns task (failed_by_outcome task r now))"
        by (simp add: failed_by_outcome_def clearTaskAction_def link_local_def task_columns_def)
      note upd = closed [OF upd _ _ this]
      show ?thesis
        by (rule after [OF upd e rest]) (simp_all add: failed_by_outcome_def clearTaskAction_def)
    next
      case (OutcomeText t)
      then show ?thesis using run by (simp add: projectTerminalTask_def)
    qed
  qed
qed

lemma runtimeTerminalFence_success: "runtimeTerminalFence r i w = (Inr u, w') \<Longrightarrow> w' = w"
  by (auto simp: runtimeTerminalFence_def andthen_success split: if_splits)

lemma RecordRunTerminal_linked:
  assumes run: "RecordRunTerminal_tx sv i rq w = (Inr x, w')" and terminal: "IsRunTerminal (rt_state i)"
    and linked: "linked (w_db w)" and keys: "keys_distinct (w_db w)"
  shows "linked (w_db w') \<and> live_runs (w_db w') \<le> live_runs (w_db w)"
proof (cases "w_db w' = w_db w")
  case True
  then show ?thesis using linked by simp
next
  case False
  let ?d = "w_db w"
  obtain r t now ms t' w1 w2 w3 w4 where
      r: "run_of ?d (rt_run_id i) = Some r" and t: "task_of ?d (r_task_id r) = Some t"
      and trans: "runTransitions (r_state r) (rt_state i)" and live: "IsRunLive (r_state r)" and w1: "w_db w1 = ?d"
      and u: "tx_UpdateRun (terminal_run r i now) (r_version r) (r_state r) w1 = (Inr (), w2)"
      and m: "redeliverRunMessages (terminal_run r i now) rq (rt_operation_id i) now w2 = (Inr ms, w3)"
      and p: "projectTerminal sv t (terminal_run r i now) rq (rt_operation_id i) now w3 = (Inr t', w4)"
      and rest: "d_tasks (w_db w') = d_tasks (w_db w4)" "d_runs (w_db w') = d_runs (w_db w4)"
    using run False
    by (auto simp: RecordRunTerminal_tx_def andthen_success Let_def tx_Run_def tx_Task_def read_db_success
        validate_None IsRunTerminal_def split: if_splits
        dest!: runtimeTerminalFence_success nowText_success emit_success)
  define r' where "r' = run_columns r (terminal_run r i now)"
  have rid: "r_id r = rt_run_id i" "r \<in> set (d_runs ?d)" and tid: "t_id t = r_task_id r" "t \<in> set (d_tasks ?d)"
    using row_SomeD [OF r] row_SomeD [OF t] by auto
  have row: "run_of ?d (r_id r) = Some r" using r rid by simp
  have current: "t_current_run_id t = r_id r"
    by (rule linked_live_current [OF linked keys r t live])
  have link: "current_link t r"
    using linked_current [OF linked keys t] row current linkedD(3) [OF linked rid(2)] by simp
  have local: "link_local t" using linkedD(1) [OF linked tid(2)] .
  have d3: "d_runs (w_db w3) = put_row r_id r' (d_runs ?d)" "d_tasks (w_db w3) = d_tasks ?d"
    using tx_UpdateRun_success [OF u, of r] row w1 redeliverRunMessages_success [OF m]
    by (simp_all add: r'_def)
  have "keys_distinct (w_db w2)"
    using tx_UpdateRun_success [OF u, of r] row w1 keys by (auto intro: keys_distinct_put)
  then have keys3: "keys_distinct (w_db w3)"
    using keepsD [OF links_keeps [OF redeliverRunMessages_links [of "{KD}"]] _ m] by (simp add: evolves_def)
  have dead: "\<not> IsRunLive (r_state r')" "r_id r' = r_id r" "r_task_id r' = t_id t"
    using terminal tid by (simp_all add: r'_def terminal_run_def run_columns_def IsRunTerminal_def)
  have both: "linked ((w_db w3)\<lparr>d_tasks := put_row t_id y (d_tasks (w_db w3))\<rparr>)"
    if "t_id y = t_id t" "link_local y" "t_current_run_id y \<noteq> [] \<Longrightarrow> current_link y r'" for y
  proof -
    have "linked (?d\<lparr>d_tasks := put_row t_id y (d_tasks ?d), d_runs := put_row r_id r' (d_runs ?d)\<rparr>)"
      using that linked keys t row tid dead current by (intro linked_put_both [of ?d y t r' r]) simp_all
    then show ?thesis by (rule linked_cong [rotated 2]) (simp_all add: d3)
  qed
  have captured: "linked (w_db w3)" if pending: "t_pending_action t = Capture"
  proof -
    have "(if t_id x = t_id t then t else x) = x" if "x \<in> set (d_tasks ?d)" for x
      using row_unique [OF _ t that] keys tid(1) by (simp add: keys_distinct_def)
    then have "put_row t_id t (d_tasks ?d) = d_tasks ?d"
      unfolding put_row_def by (intro map_idI)
    moreover have "current_link t r'"
      using link pending local
      by (auto simp: current_link_def link_local_def r'_def terminal_run_def run_columns_def)
    ultimately have "linked ((w_db w3)\<lparr>d_tasks := d_tasks ?d\<rparr>)"
      using both [of t] local by (simp add: d3)
    then show ?thesis by (rule linked_cong [rotated 2]) (simp_all add: d3)
  qed
  have "linked (w_db w4) \<and> live_runs (w_db w4) \<le> live_runs (w_db w3)"
  proof (rule projectTerminal_linked [OF p keys3])
    show "task_of (w_db w3) (t_id t) = Some t" using t tid d3 by simp
    show "closable (w_db w3) t" unfolding closable_def using both by blast
    show "t_generation t = r_generation (terminal_run r i now)" if "t_status t \<noteq> TaskCancelled"
      using that link local current linkedD(3) [OF linked rid(2)]
      by (cases "t_status t") (auto simp: current_link_def terminal_run_def link_local_def)
    show "t_pending_action t \<noteq> Capture" if "t_status t = TaskFinishing"
      "r_requested_outcome (terminal_run r i now) \<noteq> OutcomeSubmit"
      using that link by (auto simp: current_link_def terminal_run_def)
  qed (use local current captured in \<open>simp_all add: terminal_run_def\<close>)
  moreover have "live_runs (w_db w3) \<le> live_runs ?d"
    using live_runs_put [OF keys, of r' r] row dead by (simp add: live_runs_def d3)
  ultimately show ?thesis
    using rest by (auto simp: live_runs_def intro: linked_cong)
qed

lemma RecordRunTerminal_tx_links:
  assumes "KD \<in> K" and "IsRunTerminal (rt_state i)"
  shows "links limit K (RecordRunTerminal_tx sv i rq)"
proof (rule links_joint [OF RecordRunTerminal_tx_keeps [OF assms(1)]])
  fix w x w' assume "RecordRunTerminal_tx sv i rq w = (Inr x, w')" "keys_distinct (w_db w)" "linked (w_db w)"
  from RecordRunTerminal_linked [OF this(1) assms(2) this(3,2)]
  show "linked (w_db w') \<and> (int (live_runs (w_db w)) \<le> limit \<longrightarrow> int (live_runs (w_db w')) \<le> limit)"
    by auto
qed

section \<open>Git results\<close>

lemma acceptFacts_pure: "pure_op (acceptFacts_tx sv token taskID selected actor)"
  unfolding acceptFacts_tx_def by (intro pure_control pure_calls)

lemma acceptFacts_success:
  "acceptFacts_tx sv token taskID selected actor w = (Inr facts, w') \<Longrightarrow>
   task_of (w_db w) taskID = Some (fa_task facts) \<and> t_status (fa_task facts) = TaskSubmitted \<and>
   t_pending_action (fa_task facts) = NoAction \<and> t_kind (fa_task facts) \<noteq> TaskConversation"
  by (auto simp: acceptFacts_tx_def andthen_success tx_Task_def read_db_success taskActionAvailable_def
      Let_def validate_None)

lemma links_acceptFacts_then [keeps_intro]:
  "(\<And>facts. t_status (fa_task facts) = TaskSubmitted \<Longrightarrow> t_kind (fa_task facts) \<noteq> TaskConversation \<Longrightarrow>
      links limit ({KT (fa_task facts)} \<union> K) (f facts)) \<Longrightarrow>
   links limit K (andthen (acceptFacts_tx sv token taskID selected actor) f)"
  by (rule linkage.calc_learn [where G = "\<lambda>facts. t_status (fa_task facts) = TaskSubmitted \<and>
          t_kind (fa_task facts) \<noteq> TaskConversation" and g = "\<lambda>facts. {KT (fa_task facts)}"])
     (use acceptFacts_pure in \<open>auto simp: pure_op_def dest!: acceptFacts_success
        intro: task_history.seen_row dest: row_SomeD\<close>)

lemma accepted_step:
  "t_status t = TaskSubmitted \<Longrightarrow> t_kind t \<noteq> TaskConversation \<Longrightarrow>
   task_links K t (task_columns t (accepted_task t actor i op c h now))"
  by (rule task_linksI) (auto simp: accepted_task_def link_parts)

lemma accepted_id [simp]: "t_id (accepted_task t actor i op c h now) = t_id t"
  by (simp add: accepted_task_def)

lemma RequestAccept_apply_tx_links:
  "links limit K (RequestAccept_apply_tx sv token taskID ackIDs snapshot c h dedupe)"
  unfolding RequestAccept_apply_tx_def by (intro keeps_intro) (auto simp: accepted_step)

lemma captured_step:
  "KR r \<in> K \<Longrightarrow> sameCaptureFence t r intent \<Longrightarrow> task_links K t (task_columns t (captured_task t r f now))"
  by (rule task_linksI) (auto simp: sameCaptureFence_def captured_task_def link_parts ended_def)

lemma self_accepted_step:
  "KR r \<in> K \<Longrightarrow> sameCaptureFence t r intent \<Longrightarrow> t_kind t = TaskIntegration \<Longrightarrow>
   task_links K t (task_columns t (self_accepted (captured_task t r f now) r f c op now))"
  by (rule task_linksI) (auto simp: sameCaptureFence_def self_accepted_def captured_task_def link_parts ended_def)

lemma captured_ids [simp]:
  "t_id (captured_task t r f now) = t_id t" "t_id (self_accepted t r f c op now) = t_id t"
  "t_id (capture_failed_task t cause now) = t_id t" "t_id (integrated_task t c now) = t_id t"
  "t_id (clearTaskAction t) = t_id t" "t_id (requeued_integration t now) = t_id t"
  "t_id (linked_source t i now) = t_id t" "t_id (advance_failed_task t reason now) = t_id t"
  by (simp_all add: captured_task_def self_accepted_def clearTaskAction_def capture_failed_task_def
      integrated_task_def requeued_integration_def linked_source_def advance_failed_task_def Let_def)

lemma finalizeCapture_tx_links: "KD \<in> K \<Longrightarrow> links limit K (finalizeCapture_tx sv intent run f c)"
  unfolding finalizeCapture_tx_def
  by (intro keeps_intro) (auto intro: captured_step self_accepted_step)

lemma capture_failed_step:
  "KR r \<in> K \<Longrightarrow> sameCaptureFence t r intent \<Longrightarrow> task_links K t (task_columns t (capture_failed_task t cause now))"
  by (rule task_linksI)
     (auto simp: sameCaptureFence_def capture_failed_task_def Let_def runtimeRetryDecision_def link_parts ended_def)

lemma broken_step:
  "p_status p = ProjectActive \<Longrightarrow> project_step p (project_columns p (broken_project p reason now))"
  by (auto simp: broken_project_def link_parts)

lemma breakProject_links [keeps_intro]: "KP project \<in> K \<Longrightarrow> links limit K (breakProject project reason now)"
  unfolding breakProject_def by (intro keeps_intro) (auto simp: broken_step, simp add: broken_project_def)

lemmas helpers_then_12 [keeps_intro] = breakProject_links [THEN links_call]

lemma projectCaptureFailure_tx_links: "KD \<in> K \<Longrightarrow> links limit K (projectCaptureFailure_tx sv intent run cause)"
  unfolding projectCaptureFailure_tx_def by (intro keeps_intro) (auto intro: capture_failed_step)

lemma updateCanonical_links [keeps_intro]: "KP project \<in> K \<Longrightarrow> links limit K (updateCanonical project c now)"
  unfolding updateCanonical_def advanced_project_def by (intro keeps_intro) (auto simp: link_parts)

lemma integrated_step:
  "t_status t = TaskSubmitted \<Longrightarrow> task_links K t (task_columns t (integrated_task t c now))"
  "t_status t = TaskSubmitted \<Longrightarrow> task_links K t (task_columns t (clearTaskAction (integrated_task t c now)))"
  by (rule task_linksI; auto simp: integrated_task_def link_parts)+

lemma completeSource_links [keeps_intro]:
  "KD \<in> K \<Longrightarrow> links limit K (completeSource sv task intent c runID now)"
  unfolding completeSource_def by (intro keeps_intro) (auto simp: integrated_step)

lemma insertGitTaskMessage_links [keeps_intro]: "links limit K (insertGitTaskMessage sv task code body now)"
  unfolding insertGitTaskMessage_def by (intro keeps_intro)

lemmas helpers_then_13 [keeps_intro] = updateCanonical_links [THEN links_call]
  completeSource_links [THEN links_call] insertGitTaskMessage_links [THEN links_call]

lemma finalizeSuccessfulAdvance_tx_links: "KD \<in> K \<Longrightarrow> links limit K (finalizeSuccessfulAdvance_tx sv intent f)"
  unfolding finalizeSuccessfulAdvance_tx_def by (intro keeps_intro) (auto simp: integrated_step)

lemma stale_steps:
  "t_status t = TaskSubmitted \<Longrightarrow> task_links K t (task_columns t (requeued_integration t now))"
  "t_status t = TaskSubmitted \<Longrightarrow> task_links K t (task_columns t (linked_source t i now))"
  by (rule task_linksI; auto simp: requeued_integration_def linked_source_def link_parts)+

lemma requeueIntegration_links [keeps_intro]:
  "KT task \<in> K \<Longrightarrow> links limit K (requeueIntegration sv task intent c now)"
  unfolding requeueIntegration_def by (intro keeps_intro) (auto simp: stale_steps)

lemma createIntegration_links [keeps_intro]:
  "KT task \<in> K \<Longrightarrow> links limit K (createIntegration sv task intent c now)"
  unfolding createIntegration_def
  by (intro keeps_intro) (auto simp: stale_steps initial_defs integration_task_def new_task_def)

lemma finalizeStaleAdvance_tx_links: "links limit K (finalizeStaleAdvance_tx sv intent f)"
  unfolding finalizeStaleAdvance_tx_def by (intro keeps_intro) auto

lemma advance_failed_step:
  "sameAdvanceFence t intent = None \<Longrightarrow> task_links K t (task_columns t (advance_failed_task t reason now))"
  by (rule task_linksI) (auto simp: sameAdvanceFence_def advance_failed_task_def link_parts split: if_splits)

lemma projectAdvanceInvariantFailure_tx_links:
  "KD \<in> K \<Longrightarrow> links limit K (projectAdvanceInvariantFailure_tx sv intent cause)"
  unfolding projectAdvanceInvariantFailure_tx_def by (intro keeps_intro) (auto intro: advance_failed_step)

section \<open>Projects and agents\<close>

lemma finished_step:
  "p_status p = ProjectCreating \<Longrightarrow> project_step p (project_columns p (finished_project p f e now))"
  by (cases e) (auto simp: finished_project_def Let_def link_parts)

lemma project_ids [simp]: "p_id (finished_project p f e now) = p_id p"
  by (cases e) (simp_all add: finished_project_def Let_def)

lemma finishProjectAction_tx_links: "links limit K (finishProjectAction_tx sv projectID op rq f e)"
  unfolding finishProjectAction_tx_def by (intro keeps_intro) (auto simp: finished_step)

lemma bindOperatorGlobalRoles_links [keeps_intro]: "links limit K (bindOperatorGlobalRoles projectID now)"
  unfolding bindOperatorGlobalRoles_def by (intro keeps_intro)

lemmas helpers_then_14 [keeps_intro] = bindOperatorGlobalRoles_links [THEN links_call]

lemma AddProject_tx_links: "project_initial project \<Longrightarrow> links limit K (AddProject_tx sv project dedupe now)"
  unfolding AddProject_tx_def by (intro keeps_intro)

lemma new_project_initial: "project_initial (new_project sv i name op agent f now)"
  by (simp add: new_project_def initial_defs)

lemma RepairProject_tx_links:
  "KP p \<in> K \<Longrightarrow> p_status p = ProjectError \<Longrightarrow> action \<noteq> NoProjectAction \<Longrightarrow>
   links limit K (RepairProject_tx (repairing p action op now) (p_version p) dedupe now)"
  unfolding RepairProject_tx_def by (intro keeps_intro) (auto simp: repairing_def link_parts)

lemma finishActiveVerification_tx_links: "links limit K (finishActiveVerification_tx sv project r)"
  unfolding finishActiveVerification_tx_def
  apply (rule linkage.calc_Project_then, rule linkage.calc_reject_then)
  subgoal premises prems for p
  proof -
    have v: "p_version project = p_version p" and active: "p_status p = ProjectActive" using prems by auto
    show ?thesis
      unfolding v by (intro keeps_intro) (auto simp: active link_parts split: sum.splits)
  qed
  done

lemma ArchiveProject_tx_links: "links limit K (ArchiveProject_tx sv projectID rq)"
  unfolding ArchiveProject_tx_def archived_project_def by (intro keeps_intro) (auto simp: link_parts)

lemma mirrorAgentParticipantStatus_links [keeps_intro]:
  "links limit K (mirrorAgentParticipantStatus agentID status now)"
  unfolding mirrorAgentParticipantStatus_def by (intro keeps_intro)

lemma agent_event_links [keeps_intro]: "links limit K (agent_event agentID kind rq payload now)"
  unfolding agent_event_def by (intro keeps_intro)

lemma dropIntegrationAgent_links [keeps_intro]:
  "KP project \<in> K \<Longrightarrow> links limit K (dropIntegrationAgent rq now project)"
  unfolding dropIntegrationAgent_def by (intro keeps_intro) (auto simp: link_parts)

lemmas helpers_then_15 [keeps_intro] = mirrorAgentParticipantStatus_links [THEN links_call]
  agent_event_links [THEN links_call]

lemma AddAgent_tx_links: "links limit K (AddAgent_tx sv requestedID config dedupe)"
  unfolding AddAgent_tx_def by (intro keeps_intro) (auto simp: agentFromConfig_def initial_defs)

lemma UpdateAgent_tx_links: "links limit K (UpdateAgent_tx sv agentID version config dedupe)"
  unfolding UpdateAgent_tx_def applyAgentConfig_def by (intro keeps_intro) (auto simp: link_parts)

lemma SetAgentStatus_tx_links: "links limit K (SetAgentStatus_tx sv agentID status rq)"
  unfolding SetAgentStatus_tx_def agent_with_status_def
  by (intro keeps_intro) (auto simp: link_parts)

lemma ArchiveAgent_tx_links: "KD \<in> K \<Longrightarrow> links limit K (ArchiveAgent_tx sv agentID rq)"
  unfolding ArchiveAgent_tx_def agent_with_status_def
  by (intro keeps_intro) (auto simp: link_parts)

section \<open>Retention\<close>

lemma source_released_step: "task_links K t (task_columns t (source_released t now))"
proof -
  have "task_frozen t (task_columns t (source_released t now))"
    unfolding task_frozen_def
    by (rule exI [of _ "t_current_run_id t"], rule exI [of _ now],
        rule exI [of _ "t_version t + 1"], rule exI [of _ now])
       (simp add: source_released_def task_columns_def)
  then have "task_step t (task_columns t (source_released t now))"
    by (rule task_step_frozenI [rotated]) (simp add: source_released_def)
  then show ?thesis
    by (simp add: task_links_def link_step_def link_local_def source_released_def task_columns_def)
qed

lemma source_released_id [simp]: "t_id (source_released t now) = t_id t"
  by (simp add: source_released_def)

lemma releaseSourceReference_tx_links: "links limit K (releaseSourceReference_tx sv taskID rq)"
  unfolding releaseSourceReference_tx_def by (intro keeps_intro) (auto simp: source_released_step)

lemma putGCDedupe_tx_links: "links limit K (putGCDedupe_tx sv op rq h result projectID kind)"
  unfolding putGCDedupe_tx_def
  by (intro keeps_intro; (rule linkage.keeps_reject)?)
     (auto split: dedupe_value.splits intro: linkage.keeps_basic keeps_intro)

section \<open>Roles and credentials\<close>

lemma pure_roles:
  "pure_op (requireOperatorCapability_tx c p)" "pure_op (validateRoleName n)"
  "pure_op participantManageHolders" "pure_op (participantRetainsGlobalCapability p r c)"
  unfolding requireOperatorCapability_tx_def validateRoleName_def participantManageHolders_def
    participantRetainsGlobalCapability_def Let_def
  by (intro pure_control pure_calls)+

lemmas helpers_then_16 [keeps_intro] = pure_roles [THEN links_pure]
  pure_roles [THEN links_pure, THEN links_call]

lemma issueCredential_links [keeps_intro]: "links limit K (issueCredential sv participant kind secret rq event)"
  unfolding issueCredential_def by (intro keeps_intro)

lemma role_operations_link:
  "links limit K (CreateRole_tx sv name description capabilities rq dedupe)"
  "links limit K (UpdateRole_tx sv i capabilities)"
  "links limit K (DeleteRole_tx sv roleID rq)"
  "links limit K (BindParticipantRole_tx sv j)"
  "links limit K (UnbindParticipantRole_tx sv j)"
  unfolding CreateRole_tx_def UpdateRole_tx_def DeleteRole_tx_def BindParticipantRole_tx_def
    UnbindParticipantRole_tx_def
  by (intro keeps_intro)+

lemma credential_operations_link:
  "links limit K (AddCredential_tx sv participant kind secret rq dedupe)"
  "links limit K (RotateCredential_tx sv participant kind secret rq)"
  "links limit K (RevokeCredential_tx sv participant rq dedupe)"
  unfolding AddCredential_tx_def RotateCredential_tx_def RevokeCredential_tx_def
  by (intro keeps_intro)+

end
