(* ===== verification/System.thy ===== *)
theory System
  imports Endings
begin

text \<open>
  The service as a transition system. A step is one transaction of any operation, with any arguments:
  this is every interleaving of concurrent requests, because a transaction is atomic and a request
  between two of its transactions only holds values. A transaction that fails leaves the database as
  it was. Deletions are steps too; they do not evolve the database, but they preserve the invariant.
\<close>

section \<open>Transactions\<close>

definition effect :: "'a op \<Rightarrow> unit op" where
  "effect m = andthen m (\<lambda>_. ret ())"

text \<open>The transactions that change rows but delete no task, run, message or project. The guard of a
  rule is what the operation checks before the transaction.\<close>

inductive mutation :: "service \<Rightarrow> world \<Rightarrow> unit op \<Rightarrow> bool" for sv :: service and w :: world where
  CreateRole: "mutation sv w (effect (CreateRole_tx sv name description capabilities rq dedupe))"
| UpdateRole: "mutation sv w (effect (UpdateRole_tx sv ri capabilities))"
| DeleteRole: "mutation sv w (effect (DeleteRole_tx sv roleID rq))"
| BindRole: "mutation sv w (effect (BindParticipantRole_tx sv br))"
| UnbindRole: "mutation sv w (effect (UnbindParticipantRole_tx sv br))"
| AddCredential: "mutation sv w (effect (AddCredential_tx sv participant kind secret rq dedupe))"
| RotateCredential: "mutation sv w (effect (RotateCredential_tx sv participant kind secret rq))"
| RevokeCredential: "mutation sv w (effect (RevokeCredential_tx sv participant rq dedupe))"
| SendBossMessage: "mutation sv w (effect (sendBossAgentMessage_tx sv bi dedupe))"
| AckBossMessage: "mutation sv w (effect (AcknowledgeBossMessage_tx sv i rq))"
| ReadBossMessage: "mutation sv w (effect (ReadBossMessage_tx sv i dedupe))"
| RetryMessage: "mutation sv w (effect (RetryMessage_tx sv i dedupe))"
| SendAgentMessage: "mutation sv w (effect (SendAgentMessage_tx sv si toAgent h))"
| Delivered: "mutation sv w (effect (RecordMessagesDelivered_tx sv runID ids op dedupe))"
| AckAgentMessages: "mutation sv w (effect (AcknowledgeAgentMessages_tx sv token ids rq h))"
| CreateWorkTask: "mutation sv w (effect (createWorkTask_mutate_tx sv input snapshot baseSHA))"
| Wake: "mutation sv w (effect (applyTaskMutation_tx sv token taskID ids dedupe wakeMutation))"
| Retry: "mutation sv w (effect (applyTaskMutation_tx sv token taskID ids dedupe retryMutation))"
| Cancel: "mutation sv w (effect (applyTaskMutation_tx sv token taskID ids dedupe (cancelMutation sv reason)))"
| Rework: "mutation sv w (effect (applyTaskMutation_tx sv token taskID ids dedupe (reworkMutation reason)))"
| Complete: "mutation sv w (effect (CompleteTask_tx sv taskID projectID summary dedupe))"
| Close: "mutation sv w (effect (CloseConversation_tx sv taskID rq))"
| Claim: "mutation sv w (effect (ClaimNext_tx sv projectID now))"
| BeginLaunch: "mutation sv w (effect (BeginRunLaunch_tx sv li rq))"
| Created: "mutation sv w (effect (advanceRunPhase_tx sv fi LaunchIntent LaunchCreated kind' (setContainer c) rq))"
| StartIssued: "mutation sv w (effect (advanceRunPhase_tx sv fi LaunchCreated LaunchStartIssued kind' ret rq))"
| Observed: "mutation sv w (effect (ObserveProcess_tx sv fi rq))"
| Session: "mutation sv w (effect (RecordRunSession_tx sv fi s rq))"
| Heartbeat: "mutation sv w (effect (RecordRunHeartbeat_tx fi observed))"
| Cleanup: "mutation sv w (effect (RecordRunCleanup_tx sv fi op state err rq))"
| Progressed: "mutation sv w (effect (Progress_tx sv token summary rq))"
| Stop: "mutation sv w (effect (requestRunStop_tx sv runID reason op actor dedupe))"
| Outcome: "mutation sv w (effect (applyOutcome sv oi ids oldRows f h rq dedupe))"
| Terminated: "IsRunTerminal (rt_state ti) \<Longrightarrow> mutation sv w (effect (RecordRunTerminal_tx sv ti rq))"
| Accept: "mutation sv w (effect (RequestAccept_apply_tx sv token taskID ids facts c h dedupe))"
| Captured: "mutation sv w (effect (finalizeCapture_tx sv intent run cf c))"
| CaptureFailed: "mutation sv w (effect (projectCaptureFailure_tx sv intent run cause))"
| Advanced: "mutation sv w (effect (finalizeSuccessfulAdvance_tx sv intent af))"
| Stale: "mutation sv w (effect (finalizeStaleAdvance_tx sv intent af))"
| AdvanceFailed: "mutation sv w (effect (projectAdvanceInvariantFailure_tx sv intent cause))"
| FinishProject: "mutation sv w (effect (finishProjectAction_tx sv projectID op rq gf e))"
| AddProject: "project_initial project \<Longrightarrow> mutation sv w (effect (AddProject_tx sv project dedupe now))"
| RepairProject: "project_history.seen p (d_projects (w_db w)) \<Longrightarrow> p_status p = ProjectError \<Longrightarrow>
    action \<noteq> NoProjectAction \<Longrightarrow>
    mutation sv w (effect (RepairProject_tx (repairing p action op now) (p_version p) dedupe now))"
| VerifyProject: "mutation sv w (effect (finishActiveVerification_tx sv project r))"
| ArchiveProject: "mutation sv w (effect (ArchiveProject_tx sv projectID rq))"
| AddAgent: "mutation sv w (effect (AddAgent_tx sv requestedID config dedupe))"
| UpdateAgent: "mutation sv w (effect (UpdateAgent_tx sv agentID version config dedupe))"
| SetAgentStatus: "mutation sv w (effect (SetAgentStatus_tx sv agentID status rq))"
| ArchiveAgent: "mutation sv w (effect (ArchiveAgent_tx sv agentID rq))"
| ReleaseSource: "mutation sv w (effect (releaseSourceReference_tx sv taskID rq))"
| GcDedupe: "mutation sv w (effect (putGCDedupe_tx sv gop rq h result projectID gkind))"

inductive deletion_step :: "service \<Rightarrow> unit op \<Rightarrow> bool" for sv :: service where
  TaskDeleted: "deletion_step sv (effect (DeleteTask_tx sv token taskID reason ids dedupe))"
| ProjectDeleted: "deletion_step sv (effect (DeleteProject_tx sv projectID reason dedupe))"

lemma effect_success: "effect m w = (Inr u, w') \<longleftrightarrow> (\<exists>x. m w = (Inr x, w'))"
  by (auto simp: effect_def andthen_success)

lemma effect_links: "links limit K m \<Longrightarrow> links limit K (effect m)"
  unfolding effect_def by (rule links_call) (auto intro: linkage.keeps_ret)

text \<open>The operations whose lemma needs that keys are distinct, and the mutations of a task.\<close>

lemmas transaction_links = role_operations_link credential_operations_link sendBossAgentMessage_tx_links
  AcknowledgeBossMessage_tx_links ReadBossMessage_tx_links RetryMessage_tx_links SendAgentMessage_tx_links
  RecordMessagesDelivered_tx_links AcknowledgeAgentMessages_tx_links createWorkTask_mutate_tx_links
  applyTaskMutation_tx_links wakeMutation_links retryMutation_links cancelMutation_links
  reworkMutation_links CompleteTask_tx_links CloseConversation_tx_links ClaimNext_tx_links
  BeginRunLaunch_tx_links RecordContainerCreated_tx_links RecordRunStartIssued_tx_links
  ObserveProcess_tx_links RecordRunSession_tx_links RecordRunHeartbeat_tx_links
  RecordRunCleanup_tx_links Progress_tx_links requestRunStop_tx_links applyOutcome_links
  RecordRunTerminal_tx_links RequestAccept_apply_tx_links finalizeCapture_tx_links
  projectCaptureFailure_tx_links finalizeSuccessfulAdvance_tx_links finalizeStaleAdvance_tx_links
  projectAdvanceInvariantFailure_tx_links finishProjectAction_tx_links AddProject_tx_links
  finishActiveVerification_tx_links ArchiveProject_tx_links AddAgent_tx_links UpdateAgent_tx_links
  SetAgentStatus_tx_links ArchiveAgent_tx_links releaseSourceReference_tx_links putGCDedupe_tx_links

definition preserves :: "service \<Rightarrow> world \<Rightarrow> unit op \<Rightarrow> bool" where
  "preserves sv w m = (\<exists>K. (\<forall>k\<in>K. known k w) \<and> links (sv_max_runs sv) K m)"

lemma preservesI: "links (sv_max_runs sv) {KD} m \<Longrightarrow> keys_distinct (w_db w) \<Longrightarrow> preserves sv w (effect m)"
  unfolding preserves_def by (rule exI [of _ "{KD}"]) (auto intro: effect_links)

lemma repair_preserves:
  "project_history.seen p (d_projects (w_db w)) \<Longrightarrow> p_status p = ProjectError \<Longrightarrow> action \<noteq> NoProjectAction \<Longrightarrow>
   preserves sv w (effect (RepairProject_tx (repairing p action op now) (p_version p) dedupe now))"
  unfolding preserves_def by (rule exI [of _ "{KP p}"]) (auto intro!: effect_links RepairProject_tx_links)

lemma mutation_preserves: "mutation sv w m \<Longrightarrow> keys_distinct (w_db w) \<Longrightarrow> preserves sv w m"
  by (induction rule: mutation.induct)
     ((erule preservesI [rotated], intro transaction_links; simp; fail) | (rule repair_preserves; assumption))+

lemma mutation_success:
  assumes "mutation sv w m" and "keys_distinct (w_db w)" and run: "m w = (Inr u, w')"
  shows "evolves (w_db w) (w_db w') \<and> (sound (sv_max_runs sv) (w_db w) \<longrightarrow> sound (sv_max_runs sv) (w_db w'))"
proof -
  obtain K where K: "\<forall>k\<in>K. known k w" and links: "links (sv_max_runs sv) K m"
    using mutation_preserves [OF assms(1,2)] unfolding preserves_def by (elim exE conjE)
  show ?thesis by (rule linksD [OF links K run])
qed

section \<open>Deletions\<close>

text \<open>What a deletion leaves: every table filtered, where a task that goes takes its current run with it,
  and no run goes that is the current run of a task that stays. The log loses the events of the deleted
  object and gains the event of the deletion.\<close>

definition drops :: "db \<Rightarrow> db \<Rightarrow> bool" where
  "drops d d' =
     (\<exists>gone lost f g P e r.
        d_tasks d' = filter (\<lambda>t. \<not> gone t) (d_tasks d) \<and> d_runs d' = filter (\<lambda>r. \<not> lost r) (d_runs d) \<and>
        d_messages d' = filter f (d_messages d) \<and> d_projects d' = filter g (d_projects d) \<and>
        d_agents d' = d_agents d \<and>
        (\<forall>t r. current_link t r \<longrightarrow> gone t = lost r) \<and>
        d_events d' = filter P (d_events d) @ [e] \<and> e_id e = d_event_seq d + 1 \<and>
        d_event_seq d' = d_event_seq d + 1 \<and> d_dedupes d' = d_dedupes d @ [r])"

lemma count_filter_le: "count P (filter Q xs) \<le> count P xs"
  by (induction xs) (auto simp: count_def)

lemma drops_sound:
  assumes sound: "sound limit d" and "drops d d'"
  shows "sound limit d'"
proof -
  obtain gone lost f g where rows: "d_tasks d' = filter (\<lambda>t. \<not> gone t) (d_tasks d)"
      "d_runs d' = filter (\<lambda>r. \<not> lost r) (d_runs d)"
    and other: "d_messages d' = filter f (d_messages d)" "d_projects d' = filter g (d_projects d)"
      "d_agents d' = d_agents d"
    and with_task: "\<And>t r. current_link t r \<Longrightarrow> gone t = lost r"
    using assms(2) unfolding drops_def by (elim exE conjE) blast
  have keys: "keys_distinct d" and linked: "linked d" using sound by (simp_all add: sound_def)
  have keys': "keys_distinct d'"
    using keys by (simp add: keys_distinct_def rows other distinct_map_filter)
  have current: "current_link t r"
    if t: "t \<in> set (d_tasks d)" "t_current_run_id t = r_id r" and r: "r \<in> set (d_runs d)" for t r
  proof -
    obtain u where u: "u \<in> set (d_runs d)" "current_link t u"
      using linkedD(2) [OF linked t(1)] linkedD(3) [OF linked r] t(2) by auto
    then have "u = r"
      using row_unique [of r_id "d_runs d" "r_id r" r u] row_in_set [of r_id "d_runs d" r] r keys t(2)
      by (simp add: current_link_def keys_distinct_def)
    with u show ?thesis by simp
  qed
  have one: "\<exists>r \<in> set (d_runs d'). current_link t r" if "t \<in> set (d_tasks d')" "t_current_run_id t \<noteq> []" for t
    using that linkedD(2) [OF linked, of t] with_task [of t] by (auto simp: rows)
  have two: "\<exists>t \<in> set (d_tasks d'). t_id t = r_task_id r \<and> t_current_run_id t = r_id r"
    if "r \<in> set (d_runs d')" "IsRunLive (r_state r)" for r
    using that linkedD(4) [OF linked, of r] current [of _ r] with_task [of _ r] by (fastforce simp: rows)
  have "agents_exclusive (d_runs d')"
    using linked by (auto simp: linked_def agents_exclusive_def rows)
  then have "linked d'"
    using one two linkedD(1,3) [OF linked] by (auto simp: linked_def rows)
  moreover have "live_runs d' \<le> live_runs d"
    by (simp add: live_runs_def rows count_filter_le)
  ultimately show ?thesis using sound keys' by (simp add: sound_def)
qed

text \<open>The primitives a deletion consists of.\<close>

lemma delete_success:
  "tx_DeleteRunsByTask i w = (Inr rs, w') \<Longrightarrow> w_db w' = (w_db w)\<lparr>d_runs := filter (\<lambda>r. r_task_id r \<noteq> i) (d_runs (w_db w))\<rparr>"
  "tx_DeleteRunsByProject i w = (Inr rs, w') \<Longrightarrow> w_db w' = (w_db w)\<lparr>d_runs := filter (\<lambda>r. r_project_id r \<noteq> i) (d_runs (w_db w))\<rparr>"
  "tx_DeleteMessagesByTask i w = (Inr u, w') \<Longrightarrow> w_db w' = (w_db w)\<lparr>d_messages := filter (\<lambda>m. m_task_id m \<noteq> i) (d_messages (w_db w))\<rparr>"
  "tx_DeleteMessagesByProject i w = (Inr u, w') \<Longrightarrow> w_db w' = (w_db w)\<lparr>d_messages := filter (\<lambda>m. m_project_id m \<noteq> i) (d_messages (w_db w))\<rparr>"
  "tx_DeleteTask i w = (Inr u, w') \<Longrightarrow> w_db w' = (w_db w)\<lparr>d_tasks := filter (\<lambda>t. t_id t \<noteq> i) (d_tasks (w_db w))\<rparr>"
  "tx_DeleteTasksByProject i w = (Inr u, w') \<Longrightarrow> w_db w' = (w_db w)\<lparr>d_tasks := filter (\<lambda>t. t_project_id t \<noteq> i) (d_tasks (w_db w))\<rparr>"
  "tx_DeleteProject i w = (Inr u, w') \<Longrightarrow> w_db w' = (w_db w)\<lparr>d_projects := filter (\<lambda>p. p_id p \<noteq> i) (d_projects (w_db w))\<rparr>"
  by (auto simp: tx_DeleteRunsByTask_def tx_DeleteRunsByProject_def delete_runs_def tx_DeleteMessagesByTask_def
      tx_DeleteMessagesByProject_def tx_DeleteTask_def tx_DeleteTasksByProject_def delete_tasks_def
      tx_DeleteProject_def write_db_success split: if_splits)

lemma delete_events_success:
  "tx_DeleteEventsByTask i w = (Inr u, w') \<Longrightarrow> \<exists>P. w_db w' = (w_db w)\<lparr>d_events := filter P (d_events (w_db w))\<rparr>"
  "tx_DeleteEventsByProject i w = (Inr u, w') \<Longrightarrow> \<exists>P. w_db w' = (w_db w)\<lparr>d_events := filter P (d_events (w_db w))\<rparr>"
  "tx_DeleteProjectBindings i w = (Inr u, w') \<Longrightarrow> \<exists>bs. w_db w' = (w_db w)\<lparr>d_bindings := bs\<rparr>"
  by (auto simp: tx_DeleteEventsByTask_def tx_DeleteEventsByProject_def tx_DeleteProjectBindings_def write_db_success)

lemma record_success:
  "emit p ty i k ak ai ri rq op pl now w = (Inr e, w') \<Longrightarrow> e_id e = d_event_seq (w_db w) + 1 \<and>
     w_db w' = (w_db w)\<lparr>d_events := d_events (w_db w) @ [e], d_event_seq := d_event_seq (w_db w) + 1\<rparr>"
  "record_dedupe d i j now w = (Inr u, w') \<Longrightarrow> \<exists>r. w_db w' = (w_db w)\<lparr>d_dedupes := d_dedupes (w_db w) @ [r]\<rparr>"
  by (auto simp: emit_def tx_AppendEvent_def Let_def record_dedupe_def tx_PutDedupe_def write_db_success
      split: if_splits)

lemma each_reject_success: "each xs (\<lambda>x. reject (b x) (e x)) w = (Inr u, w') \<Longrightarrow> w' = w"
  for w :: world and e :: "'x \<Rightarrow> failure"
  by (induction xs arbitrary: w) (auto simp: andthen_success)

lemma deleteTaskRows_success:
  assumes "deleteTaskRows task actor reason dedupe now w = (Inr x, w')"
  shows "drops (w_db w) (w_db w')"
proof -
  obtain runs w1 w2 w3 w4 w5 w6 e u where
      1: "tx_DeleteRunsByTask (t_id task) w = (Inr runs, w1)"
    and 2: "tx_DeleteMessagesByTask (t_id task) w1 = (Inr (), w2)"
    and 3: "tx_DeleteEventsByTask (t_id task) w2 = (Inr (), w3)"
    and 4: "emit (t_project_id task) TaskEntity (t_id task) ''task.deleted'' (ac_kind actor) (ac_id actor)
       (ac_run_id actor) (rq_request_id dedupe) []
       (eventPayload [(''reason'', JString (boundedDurableText reason MaximumOutcomeTextBytes)),
          (''run_count'', JInt (int (length runs)))]) now w3 = (Inr e, w4)"
    and 5: "tx_DeleteTask (t_id task) w4 = (Inr (), w5)"
    and 6: "record_dedupe dedupe (t_id task) [] now w5 = (Inr u, w6)"
    and w': "w' = w6"
    using assms unfolding deleteTaskRows_def andthen_success
    by (elim exE conjE) (frule each_reject_success, simp)
  have gone: "\<forall>t r. current_link t r \<longrightarrow> (t_id t = t_id task) = (r_task_id r = t_id task)"
    by (simp add: current_link_def)
  show ?thesis
    unfolding drops_def
    by (rule exI [of _ "\<lambda>t. t_id t = t_id task"], rule exI [of _ "\<lambda>r. r_task_id r = t_id task"])
       (use delete_events_success(1) [OF 3] record_success(1) [OF 4] record_success(2) [OF 6] gone in
         \<open>auto simp: w' delete_success(1) [OF 1] delete_success(3) [OF 2] delete_success(5) [OF 5]
           intro: exI [of _ "\<lambda>_. True"]\<close>)
qed

lemma deleteProjectRows_success:
  assumes "deleteProjectRows project reason dedupe now w = (Inr x, w')"
  shows "drops (w_db w) (w_db w')"
proof -
  obtain runs w1 w2 w3 w4 w5 w6 w7 e where
      1: "tx_DeleteMessagesByProject (p_id project) w = (Inr (), w1)"
    and 2: "tx_DeleteRunsByProject (p_id project) w1 = (Inr runs, w2)"
    and 3: "tx_DeleteTasksByProject (p_id project) w2 = (Inr (), w3)"
    and 4: "tx_DeleteEventsByProject (p_id project) w3 = (Inr (), w4)"
    and 5: "tx_DeleteProjectBindings (p_id project) w4 = (Inr (), w5)"
    and 6: "emit (p_id project) ProjectEntity (p_id project) ''project.deleted'' Boss [] []
       (rq_request_id dedupe) []
       (eventPayload [(''reason'', JString (boundedDurableText reason MaximumOutcomeTextBytes)),
          (''run_count'', JInt (int (length runs)))]) now w5 = (Inr e, w6)"
    and 7: "tx_DeleteProject (p_id project) w6 = (Inr (), w7)"
    and 8: "record_dedupe dedupe (p_id project) [] now w7 = (Inr x, w')"
    using assms unfolding deleteProjectRows_def andthen_success
    by (elim exE conjE) (frule each_reject_success, simp)
  have gone: "\<forall>t r. current_link t r \<longrightarrow> (t_project_id t = p_id project) = (r_project_id r = p_id project)"
    by (simp add: current_link_def)
  show ?thesis
    unfolding drops_def
    by (rule exI [of _ "\<lambda>t. t_project_id t = p_id project"], rule exI [of _ "\<lambda>r. r_project_id r = p_id project"])
       (use delete_events_success(2) [OF 4] delete_events_success(3) [OF 5] record_success(1) [OF 6]
         record_success(2) [OF 8] gone in
         \<open>auto simp: delete_success(4) [OF 1] delete_success(2) [OF 2] delete_success(6) [OF 3] delete_success(7) [OF 7]\<close>)
qed

lemma releaseIntegrationSource_links:
  "KD \<in> K \<Longrightarrow> links limit K (releaseIntegrationSource task actor rq now)"
  unfolding releaseIntegrationSource_def by (intro keeps_intro) auto

text \<open>A deletion first evolves the database (messages are acknowledged, a source is released) and then
  drops rows.\<close>

definition evolves_soundly :: "db \<Rightarrow> db \<Rightarrow> bool" where
  "evolves_soundly d d' = (evolves d d' \<and> (\<forall>limit. sound limit d \<longrightarrow> sound limit d'))"

lemma evolves_soundly_refl: "evolves_soundly d d"
  by (simp add: evolves_soundly_def evolves_refl)

lemma evolves_soundly_trans: "evolves_soundly d d' \<Longrightarrow> evolves_soundly d' d'' \<Longrightarrow> evolves_soundly d d''"
  unfolding evolves_soundly_def by (blast intro: evolves_trans)

lemma links_soundly:
  "(\<And>limit. links limit {KD} m) \<Longrightarrow> keys_distinct (w_db w) \<Longrightarrow> m w = (Inr x, w') \<Longrightarrow>
   evolves_soundly (w_db w) (w_db w')"
  using linksD [of _ "{KD}" m w x w'] by (simp add: evolves_soundly_def)

lemma DeleteTask_tx_drops:
  assumes run: "DeleteTask_tx sv token taskID reason ids dedupe w = (Inr x, w')" and keys: "keys_distinct (w_db w)"
  shows "w_db w' = w_db w \<or> (\<exists>d. evolves_soundly (w_db w) d \<and> drops d (w_db w'))"
proof (cases "w_db w' = w_db w")
  case False
  obtain task actor now rq d w0 w1 w2 where w0: "w_db w0 = w_db w"
      and ack: "acknowledgeForActor ids (t_project_id task) actor rq now w0 = (Inr (), w1)"
      and release: "whenever (t_kind task = TaskIntegration \<and> t_source_task_id task \<noteq> [])
        (releaseIntegrationSource task actor rq now) w1 = (Inr (), w2)"
      and rows: "deleteTaskRows task actor reason d now w2 = (Inr x, w')"
    using run False
    by (auto simp: DeleteTask_tx_def andthen_success Let_def tx_Task_def read_db_success
        taskActionAvailable_def split: option.splits
        dest!: pure_success [OF pure_service(3)] pure_success [OF pure_service(12)]
          pure_success [OF pure_service(13)] nowText_success)
  have e1: "evolves_soundly (w_db w) (w_db w1)"
    using links_soundly [OF acknowledgeForActor_links _ ack] keys w0 by simp
  moreover have "keys_distinct (w_db w1)" using e1 keys by (simp add: evolves_soundly_def evolves_def)
  then have "evolves_soundly (w_db w1) (w_db w2)"
    using release links_soundly [OF releaseIntegrationSource_links, of w1] evolves_soundly_refl
    by (auto split: if_splits)
  ultimately show ?thesis
    using deleteTaskRows_success [OF rows] evolves_soundly_trans by blast
qed simp

lemma DeleteProject_tx_drops:
  assumes run: "DeleteProject_tx sv projectID reason dedupe w = (Inr x, w')"
  shows "w_db w' = w_db w \<or> drops (w_db w) (w_db w')"
proof (cases "w_db w' = w_db w")
  case False
  obtain project now w1 where w1: "w_db w1 = w_db w"
      and rows: "deleteProjectRows project reason dedupe now w1 = (Inr x, w')"
    using run False
    by (auto simp: DeleteProject_tx_def andthen_success tx_Project_def tx_ProjectBlockers_def
        read_db_success split: option.splits dest!: pure_success [OF pure_service(3)] nowText_success)
  show ?thesis using deleteProjectRows_success [OF rows] w1 by simp
qed simp

section \<open>Reachable states\<close>

text \<open>The store starts with the seeded roles and participants only. A transaction is executed to its
  end; what happens outside of transactions does not change the database.\<close>

inductive reachable :: "service \<Rightarrow> world \<Rightarrow> bool" for sv :: service where
  fresh: "d_projects (w_db w) = [] \<Longrightarrow> d_agents (w_db w) = [] \<Longrightarrow> d_tasks (w_db w) = [] \<Longrightarrow>
    d_runs (w_db w) = [] \<Longrightarrow> d_messages (w_db w) = [] \<Longrightarrow> d_events (w_db w) = [] \<Longrightarrow>
    d_event_seq (w_db w) = 0 \<Longrightarrow> d_dedupes (w_db w) = [] \<Longrightarrow> reachable sv w"
| mutated: "reachable sv w \<Longrightarrow> mutation sv w m \<Longrightarrow> reachable sv (snd (transact m w))"
| deleted: "reachable sv w \<Longrightarrow> deletion_step sv m \<Longrightarrow> reachable sv (snd (transact m w))"
| outside: "reachable sv w \<Longrightarrow> w_db w' = w_db w \<Longrightarrow> reachable sv w'"

lemma transact_cases:
  obtains (committed) x w' where "m w = (Inr x, w')" "snd (transact m w) = w'"
    | (rolled_back) "w_db (snd (transact m w)) = w_db w"
proof (cases "transact m w")
  case (Pair r w')
  then show ?thesis
  proof (cases r)
    case (Inl e)
    then show ?thesis using rolled_back transact_failure [of m w e w'] Pair by simp
  next
    case (Inr x)
    then show ?thesis using committed [of x w'] transact_success [of m w x w'] Pair by simp
  qed
qed

lemma deletion_success:
  assumes "deletion_step sv m" and "m w = (Inr u, w')" and "keys_distinct (w_db w)"
  shows "w_db w' = w_db w \<or> (\<exists>d. evolves_soundly (w_db w) d \<and> drops d (w_db w'))"
  using assms(1)
proof cases
  case (TaskDeleted token taskID reason ids dedupe)
  then show ?thesis
    using assms(2,3) DeleteTask_tx_drops [of sv token taskID reason ids dedupe w] by (auto simp: effect_success)
next
  case (ProjectDeleted projectID reason dedupe)
  then show ?thesis
    using assms(2) DeleteProject_tx_drops [of sv projectID reason dedupe w] evolves_soundly_refl
    by (auto simp: effect_success)
qed

text \<open>The rule for invariants of the database: it holds of an empty database, an evolution of a sound
  database keeps it and so does dropping rows.\<close>

lemma reachable_invariant:
  assumes "reachable sv w" and limit: "0 \<le> sv_max_runs sv"
    and fresh: "\<And>d. d_projects d = [] \<Longrightarrow> d_agents d = [] \<Longrightarrow> d_tasks d = [] \<Longrightarrow> d_runs d = [] \<Longrightarrow>
      d_messages d = [] \<Longrightarrow> d_events d = [] \<Longrightarrow> d_event_seq d = 0 \<Longrightarrow> d_dedupes d = [] \<Longrightarrow> Q d"
    and evolve: "\<And>d d'. evolves d d' \<Longrightarrow> keys_distinct d \<Longrightarrow> Q d \<Longrightarrow> Q d'"
    and drop: "\<And>d d'. drops d d' \<Longrightarrow> Q d \<Longrightarrow> Q d'"
  shows "sound (sv_max_runs sv) (w_db w) \<and> Q (w_db w)"
  using assms(1)
proof induction
  case (fresh w)
  then show ?case
    using assms(2,3)
    by (simp add: sound_def keys_distinct_def linked_def live_runs_def count_def agents_exclusive_def)
next
  case (mutated w m)
  show ?case
  proof (cases m w rule: transact_cases)
    case (committed x w')
    then show ?thesis
      using mutation_success [OF mutated.hyps(2) _ committed(1)] mutated.IH committed(2)
        evolve [of "w_db w" "w_db w'"] by (simp add: sound_def)
  next
    case rolled_back
    then show ?thesis using mutated.IH by simp
  qed
next
  case (deleted w m)
  show ?case
  proof (cases m w rule: transact_cases)
    case (committed x w')
    have keys: "keys_distinct (w_db w)" using deleted.IH by (simp add: sound_def)
    show ?thesis
      using deletion_success [OF deleted.hyps(2) committed(1) keys] deleted.IH committed(2) keys evolve drop
      unfolding evolves_soundly_def by (auto intro: drops_sound)
  next
    case rolled_back
    then show ?thesis using deleted.IH by simp
  qed
next
  case (outside w w')
  then show ?case by simp
qed

lemma reachable_sound:
  "reachable sv w \<Longrightarrow> 0 \<le> sv_max_runs sv \<Longrightarrow> sound (sv_max_runs sv) (w_db w)"
  using reachable_invariant [of sv w "\<lambda>_. True"] by blast

end
