(* ===== verification/Api.thy ===== *)
theory Api
  imports System
begin

text \<open>
  The public operations as requests to the transition system. Every request, with any input and any
  behaviour of the interfaces it calls, whether it succeeds or fails, moves the service along
  transactions of \<open>System\<close>: what holds of every reachable state holds after any sequence of requests.
\<close>

named_theorems serves_intro "rules that reduce a request to its transactions"

section \<open>Requests that only read\<close>

definition still :: "'a op \<Rightarrow> bool" where
  "still m = (\<forall>w. w_db (snd (m w)) = w_db w)"

lemma stillD: "still m \<Longrightarrow> m w = (r, w') \<Longrightarrow> w_db w' = w_db w"
  unfolding still_def by (metis snd_conv)

lemma still_basic:
  "still (ret x)" "still (throw e)" "still (lift r)" "still (reject b e)" "still (check v)"
  "still (nowText sv)" "still (newID sv p)" "still (external g)" "still (attempt g)" "still (read_db h)"
  "still (retentionCutoff sv i)"
  by (simp_all add: still_def ret_def throw_def lift_def reject_def check_def nowText_def newID_def
      external_def attempt_def read_db_def retentionCutoff_def split: option.splits)

lemma still_andthen: "still m \<Longrightarrow> (\<And>x. still (f x)) \<Longrightarrow> still (andthen m f)"
  by (auto simp: still_def andthen_def split: sum.splits prod.splits) (metis snd_conv)+

lemma still_if: "(b \<Longrightarrow> still m) \<Longrightarrow> (\<not> b \<Longrightarrow> still n) \<Longrightarrow> still (if b then m else n)"
  by simp

lemma still_option: "still m \<Longrightarrow> (\<And>x. still (f x)) \<Longrightarrow> still (case v of None \<Rightarrow> m | Some x \<Rightarrow> f x)"
  by (cases v) auto

lemma still_prod: "(\<And>x y. still (f x y)) \<Longrightarrow> still (case v of (x, y) \<Rightarrow> f x y)"
  by (cases v) auto

lemma still_let: "(\<And>x. still (f x)) \<Longrightarrow> still (let x = v in f x)"
  by simp

lemma still_whenever: "still m \<Longrightarrow> still (whenever b m)"
  by (simp add: whenever_def still_basic)

lemma still_wrap: "still m \<Longrightarrow> still (wrap e m)"
  by (auto simp: still_def wrap_def split: sum.splits prod.splits) (metis snd_conv)+

lemma still_transact: "still m \<Longrightarrow> still (transact m)"
  by (auto simp: still_def transact_def atomically_def split: sum.splits prod.splits) (metis snd_conv)

lemma still_authorized: "still m \<Longrightarrow> still (authorized g m)"
  unfolding still_def
proof
  fix w assume m: "\<forall>w. w_db (snd (m w)) = w_db w"
  then have "still (andthen m (\<lambda>allowed. if allowed then lift r else ret False))" for r :: "failure + bool"
    by (intro still_andthen still_if still_basic) (simp add: still_def)
  then show "w_db (snd (authorized g m w)) = w_db w"
    by (simp add: authorized_def still_def split: deletion.splits)
qed

lemma still_collect: "(\<And>x. still (f x)) \<Longrightarrow> still (collect xs f)"
  by (induction xs) (auto intro: still_andthen still_basic)

lemma still_outcome_of: "still m \<Longrightarrow> still (outcome_of m)"
  by (auto simp: still_def outcome_of_def split: prod.splits) (metis snd_conv)

lemma still_each: "(\<And>x. still (f x)) \<Longrightarrow> still (each xs f)"
  by (induction xs) (auto intro: still_andthen still_basic)

lemmas still_control = still_basic still_andthen still_if still_option still_prod still_let
  still_whenever still_wrap still_transact still_authorized still_collect still_each

lemma still_reads:
  "still (tx_Project i)" "still (tx_Agent i)" "still (tx_Task i)" "still (tx_Run i)" "still (tx_Message i)"
  "still (tx_RunByTokenHash i)" "still (tx_MessagesForRecipient a i)" "still (tx_Dedupe i j k)"
  "still (tx_Participant i)" "still (tx_ParticipantRoles i)" "still (tx_Credentials i)" "still tx_Participants"
  by (simp_all add: tx_reads still_basic)

lemma still_service:
  "still (requiredID sv p)" "still (request_id sv v)" "still (replay d)" "still (requireText n v)"
  "still (optionalTextWithin v limit)" "still (canonicalMessageIDs vs)" "still (scopedRun sv t)"
  "still (authenticateRun sv t)" "still (requireOperatorCapability c p)" "still (dedupedProject d)"
  "still (gcDedupe_tx operation requestID inputHash)" "still (gcTask sv taskID)"
  "still (WorkspaceEligible taskID cutoff)" "still (TaskRefEligible taskID ref cutoff)"
  unfolding requiredID_def request_id_def replay_def requireText_def optionalTextWithin_def
    canonicalMessageIDs_def scopedRun_def authenticateRun_def requireOperatorCapability_def
    requireOperatorCapability_tx_def ParticipantCapabilities_def dedupedProject_def gcDedupe_tx_def
    gcTask_def WorkspaceEligible_def TaskRefEligible_def
  by (intro still_control still_reads; simp add: still_control still_reads split: option.splits dedupe_value.splits)+

section \<open>Requests\<close>

text \<open>One step of a request: a transaction, or anything that leaves the database alone.\<close>

inductive advance :: "service \<Rightarrow> world \<Rightarrow> world \<Rightarrow> bool" for sv :: service where
  idle: "w_db w' = w_db w \<Longrightarrow> advance sv w w'"
| transaction: "mutation sv w m \<Longrightarrow> advance sv w (snd (transact m w))"

definition serves :: "service \<Rightarrow> 'a op \<Rightarrow> bool" where
  "serves sv m = (\<forall>w. (advance sv)\<^sup>*\<^sup>* w (snd (m w)))"

lemma servesD: "serves sv m \<Longrightarrow> m w = (r, w') \<Longrightarrow> (advance sv)\<^sup>*\<^sup>* w w'"
  unfolding serves_def by (metis snd_conv)

lemma transact_effect: "snd (transact (effect m) w) = snd (transact m w)"
  by (auto simp: transact_def atomically_def effect_def andthen_def ret_def split: sum.splits prod.splits)

lemma serves_still: "still m \<Longrightarrow> serves sv m"
  unfolding still_def serves_def by (blast intro: idle)

lemma serves_transact: "(\<And>w. mutation sv w (effect m)) \<Longrightarrow> serves sv (transact m)"
  unfolding serves_def by (metis r_into_rtranclp transact_effect transaction)

lemma serves_andthen: "serves sv m \<Longrightarrow> (\<And>x. serves sv (f x)) \<Longrightarrow> serves sv (andthen m f)"
  unfolding serves_def
  by (auto simp: andthen_def split: sum.splits prod.splits) (metis rtranclp_trans snd_conv)+

lemma serves_call: "still m \<Longrightarrow> (\<And>x. serves sv (f x)) \<Longrightarrow> serves sv (andthen m f)"
  by (rule serves_andthen [OF serves_still])

lemma serves_transact_then:
  "(\<And>w. mutation sv w (effect k)) \<Longrightarrow> (\<And>x. serves sv (g x)) \<Longrightarrow> serves sv (andthen (transact k) g)"
  by (auto intro: serves_andthen serves_transact)

lemmas serves_mutations [serves_intro] = mutation.intros [THEN serves_transact]
  mutation.intros [THEN serves_transact_then]

lemma serves_if_then [serves_intro]:
  "serves sv m \<Longrightarrow> serves sv n \<Longrightarrow> (\<And>x. serves sv (f x)) \<Longrightarrow> serves sv (andthen (if b then m else n) f)"
  by (auto intro: serves_andthen)

lemma serves_reject [serves_intro]:
  "(\<not> b \<Longrightarrow> serves sv (f ())) \<Longrightarrow> serves sv (andthen (reject b e) f)"
  unfolding serves_def
  by (auto simp: reject_def andthen_def throw_def ret_def)

lemma serves_control [serves_intro]:
  "(b \<Longrightarrow> serves sv m) \<Longrightarrow> (\<not> b \<Longrightarrow> serves sv n) \<Longrightarrow> serves sv (if b then m else n)"
  "(\<And>y. v = y \<Longrightarrow> serves sv (f y)) \<Longrightarrow> serves sv (let y = v in f y)"
  "serves sv i \<Longrightarrow> serves sv (whenever b i)"
  by (simp_all add: whenever_def serves_still still_basic)

lemma serves_cases [serves_intro]:
  "serves sv m \<Longrightarrow> (\<And>y. serves sv (f y)) \<Longrightarrow> serves sv (case v of None \<Rightarrow> m | Some y \<Rightarrow> f y)"
  "(\<And>e. serves sv (k e)) \<Longrightarrow> (\<And>y. serves sv (g y)) \<Longrightarrow> serves sv (case u of Inl e \<Rightarrow> k e | Inr y \<Rightarrow> g y)"
  "(\<And>y z. serves sv (h y z)) \<Longrightarrow> serves sv (case q of (y, z) \<Rightarrow> h y z)"
  by (auto split: option.splits sum.splits prod.splits)

lemma serves_each: "(\<And>x. serves sv (f x)) \<Longrightarrow> serves sv (each xs f)"
  by (induction xs) (auto intro: serves_andthen serves_still still_basic)

lemma serves_collect: "(\<And>x. serves sv (f x)) \<Longrightarrow> serves sv (collect xs f)"
  by (induction xs) (auto intro: serves_andthen serves_still still_basic)

lemma serves_wrappers:
  "serves sv m \<Longrightarrow> serves sv (wrap e m)" "serves sv k \<Longrightarrow> serves sv (joined k)"
  "serves sv m \<Longrightarrow> serves sv (unless_code c m)" "serves sv m \<Longrightarrow> serves sv (outcome_of m)"
  unfolding serves_def
  by (auto simp: wrap_def joined_def unless_code_def outcome_of_def split: sum.splits prod.splits)
     (metis snd_conv)+

lemma serves_joined_each:
  "(\<And>x. serves sv (f x)) \<Longrightarrow> (\<And>ys. serves sv (g ys)) \<Longrightarrow> serves sv (andthen (collect xs (\<lambda>x. joined (f x))) g)"
  by (intro serves_andthen serves_collect serves_wrappers)

section \<open>The public operations\<close>

lemma still_validation:
  "still (boss_message_request sv p ag tk rt b r wk ids rq op)" "still (bossMessageFingerprint sv bm)"
  "still (normalizeWorkTask sv ag pt tt d s pr mx bs ids rq)" "still (validateConfigFingerprint fp)"
  "still (validateLaunch li)" "still (validateOutcomeRequest oi)" "still (resolveSubmitHead sv run task head)"
  "still (credentialInput sv ci op)" "still (validateRoleName name)" "still (validateInstructionsSource path txt)"
  "still (optionalConfigToken v)" "still (optionalBaseURL sv v)" "still (validatedEffort sv ad v)"
  "still (validateAgentConfig sv cfg)" "still (repair_action sv project)" "still (run_project_action sv project)"
  "still (TaskRefCandidates cutoff)" "still (WorkspaceCandidates cutoff)" "still PendingGitTasks"
  "still (ProjectsByStatus st)" "still (agent_home_authorization ident)" "still (discard_workspace_authorization sv ident)"
  "still (discard_ref_authorization sv tsk i j)" "still (collectTaskRef sv cutoff tsk)" "still (collectAgentHome sv homes agent)"
  "still (replayed_project project)" "still (workspaceRetentionCutoff sv)" "still (taskRefRetentionCutoff sv)"
  unfolding boss_message_request_def bossMessageFingerprint_def normalizeWorkTask_def validateConfigFingerprint_def
    validateLaunch_def validateOutcomeRequest_def validateOutcomeFields_def resolveSubmitHead_def credentialInput_def
    validateRoleName_def validateInstructionsSource_def optionalConfigToken_def optionalBaseURL_def validatedEffort_def
    validateAgentConfig_def repair_action_def run_project_action_def TaskRefCandidates_def WorkspaceCandidates_def
    PendingGitTasks_def ProjectsByStatus_def agent_home_authorization_def discard_workspace_authorization_def
    discard_ref_authorization_def collectTaskRef_def collectAgentHome_def replayed_project_def
    workspaceRetentionCutoff_def taskRefRetentionCutoff_def
  by (intro still_control still_reads still_service)+

lemma transact_pure: "pure_op m \<Longrightarrow> still (transact m)"
  by (auto simp: still_def pure_op_def transact_def atomically_def split: sum.splits prod.splits)

text \<open>The first of the two transactions of a request that calls Git in between only reads.\<close>

lemma still_snapshots:
  "still (transact (createWorkTask_snapshot_tx sv input))"
  "still (transact (RequestOutcome_snapshot_tx sv oi ids dedupe))"
  "still (transact (RequestAccept_snapshot_tx sv token taskID selected dedupe))"
  "still (transact (tx_Task i))" "still (transact (gcDedupe_tx operation requestID inputHash))"
  unfolding gcDedupe_tx_def createWorkTask_snapshot_tx_def creationActor_def actorCanReadTask_def creationSource_def
    validateSourceTask_def validateRetryTarget_def project_is_active_def agent_not_archived_def
    RequestOutcome_snapshot_tx_def replayOutcome_def RequestAccept_snapshot_tx_def acceptFacts_tx_def
  by (intro transact_pure pure_control pure_calls; simp add: pure_control pure_calls split: dedupe_value.splits)+

lemmas still_calls = still_basic(1-3,5-11) still_reads still_service still_validation still_snapshots
lemmas still_authorizations = still_authorized [OF still_service(13)] still_authorized [OF still_service(14)]
  still_authorized [OF still_validation(22)] still_authorized [OF still_validation(23)]
lemmas serves_calls [serves_intro] = still_authorizations [THEN serves_call]
  still_wrap [OF still_authorizations(4), THEN serves_call] still_outcome_of [OF still_authorizations(3), THEN serves_call] still_calls [THEN serves_call] still_wrap [OF still_basic(8), THEN serves_call]
lemmas serves_last [serves_intro] = still_basic(4) [THEN serves_still] still_calls [THEN serves_still]
  still_wrap [OF still_basic(8), THEN serves_still]

lemma serves_roles:
  "serves sv (CreateRole sv ri)" "serves sv (UpdateRole sv ri)" "serves sv (DeleteRole sv role rq)"
  "serves sv (BindParticipantRole sv br)" "serves sv (UnbindParticipantRole sv br)"
  "serves sv (AddCredential sv ci)" "serves sv (RotateCredential sv ci)" "serves sv (RevokeCredential sv p rq)"
  unfolding CreateRole_def UpdateRole_def DeleteRole_def BindParticipantRole_def UnbindParticipantRole_def
    AddCredential_def RotateCredential_def RevokeCredential_def
  by (intro serves_intro)+

lemma serves_messages:
  "serves sv (Chat sv ch)" "serves sv (SendBossMessage sv bi)" "serves sv (AcknowledgeBossMessage sv ident rq)"
  "serves sv (ReadBossMessage sv ident rq)" "serves sv (RetryMessage sv ident rq)" "serves sv (SendAgentMessage sv si)"
  "serves sv (RecordMessagesDelivered sv run ids rq op)" "serves sv (AcknowledgeAgentMessages sv token ids rq)"
proof -
  have boss: "serves sv (sendBossAgentMessage sv bm)" for bm
    unfolding sendBossAgentMessage_def by (intro serves_intro)
  show "serves sv (Chat sv ch)" "serves sv (SendBossMessage sv bi)"
    unfolding Chat_def SendBossMessage_def by (intro serves_intro serves_andthen boss)+
qed (unfold AcknowledgeBossMessage_def ReadBossMessage_def RetryMessage_def SendAgentMessage_def
    RecordMessagesDelivered_def AcknowledgeAgentMessages_def, (intro serves_intro)+)

lemma serves_tasks:
  "serves sv (CreateTask sv ct)" "serves sv (CreateChildTask sv ct)" "serves sv (WakeTask sv ta)"
  "serves sv (RetryTask sv ta)" "serves sv (CancelTask sv ta)" "serves sv (ReworkTask sv ta)"
  "serves sv (CompleteTask sv ident summary rq)" "serves sv (CloseConversation sv ident rq)"
proof -
  have create: "serves sv (createWorkTask sv input)" for input
    unfolding createWorkTask_def useSourceTaskRef_def
    by (intro serves_intro)
  show "serves sv (CreateTask sv ct)" "serves sv (CreateChildTask sv ct)"
    unfolding CreateTask_def CreateChildTask_def by (intro serves_intro create)+
qed (unfold WakeTask_def RetryTask_def CancelTask_def ReworkTask_def CompleteTask_def CloseConversation_def
    applyTaskMutation_def, (intro serves_intro)+)

lemma serves_runs:
  "serves sv (ClaimNext sv project)" "serves sv (BeginRunLaunch sv li)" "serves sv (RecordContainerCreated sv fi)"
  "serves sv (RecordRunStartIssued sv fi)" "serves sv (ObserveProcessAndActivateRun sv fi)"
  "serves sv (RecordRunSession sv fi session)" "serves sv (RecordRunHeartbeat sv fi at parses)"
  "serves sv (RecordRunCleanup sv fi op state err)" "serves sv (Progress sv token summary rq)"
  "serves sv (RequestRunStop sv run reason rq op)" "serves sv (RequestRuntimeStop sv run reason rq op)"
  "serves sv (RequestOutcome sv oi)" "serves sv (RecordRuntimeRunTerminal sv ti)"
  unfolding ClaimNext_def BeginRunLaunch_def RecordContainerCreated_def RecordRunStartIssued_def advanceRunPhase_def
    ObserveProcessAndActivateRun_def RecordRunSession_def RecordRunHeartbeat_def RecordRunCleanup_def Progress_def
    RequestRunStop_def RequestRuntimeStop_def requestRunStop_def RequestOutcome_def RecordRuntimeRunTerminal_def
  by (intro serves_intro mutation.intros; simp add: bounded_terminal_def)+

lemma serves_git:
  "serves sv (RequestAccept sv ai)" "serves sv (ReconcileGit sv)" "serves sv (CheckoutTask sv ident dest)"
proof -
  have "serves sv (reconcileCapture sv task)" "serves sv (reconcileAdvance sv task)" for task
    unfolding reconcileCapture_def reconcileAdvance_def by (intro serves_intro)+
  then have git: "serves sv (reconcileGitTask sv task)" for task
    by (simp add: reconcileGitTask_def serves_still still_basic split: task_action.split)
  show "serves sv (RequestAccept sv ai)" "serves sv (CheckoutTask sv ident dest)"
    unfolding RequestAccept_def CheckoutTask_def by (intro serves_intro)+
  show "serves sv (ReconcileGit sv)"
    unfolding ReconcileGit_def by (intro serves_intro serves_joined_each git)
qed

text \<open>A repair writes the project it has read: no other transaction of the request comes in between.\<close>

lemma serves_finish: "serves sv (finish_unless_cancelled sv project rq r)"
  unfolding finish_unless_cancelled_def finishProjectAction_def by (intro serves_intro)

definition serves_if :: "service \<Rightarrow> (db \<Rightarrow> bool) \<Rightarrow> 'a op \<Rightarrow> bool" where
  "serves_if sv P m = (\<forall>w. P (w_db w) \<longrightarrow> (advance sv)\<^sup>*\<^sup>* w (snd (m w)))"

lemma serves_if_read:
  "(\<And>project. serves_if sv (\<lambda>d. project_of d ident = Some project) (f project)) \<Longrightarrow>
   serves sv (andthen (tx_Project ident) f)"
  unfolding serves_def serves_if_def
  by (auto simp: andthen_def tx_Project_def read_db_def found_def split: option.splits)

lemma serves_if_call: "still m \<Longrightarrow> (\<And>x. serves_if sv P (f x)) \<Longrightarrow> serves_if sv P (andthen m f)"
  unfolding serves_if_def
proof (intro allI impI)
  fix w :: world assume m: "still m" and f: "\<And>x. \<forall>w. P (w_db w) \<longrightarrow> (advance sv)\<^sup>*\<^sup>* w (snd (f x w))" and P: "P (w_db w)"
  show "(advance sv)\<^sup>*\<^sup>* w (snd (andthen m f w))"
  proof (cases "m w")
    case (Pair r w')
    have w': "w_db w' = w_db w" by (rule stillD [OF m Pair])
    then have "(advance sv)\<^sup>*\<^sup>* w w'" by (blast intro: idle)
    moreover have "(advance sv)\<^sup>*\<^sup>* w' (snd (f x w'))" for x using f P w' by simp
    ultimately show ?thesis using Pair by (cases r) (auto simp: andthen_def intro: rtranclp_trans)
  qed
qed

lemma serves_if_reject: "(\<not> b \<Longrightarrow> serves_if sv P (f ())) \<Longrightarrow> serves_if sv P (andthen (reject b e) f)"
  unfolding serves_if_def by (auto simp: reject_def andthen_def throw_def ret_def)

lemma serves_if_let: "(\<And>y. v = y \<Longrightarrow> serves_if sv P (f y)) \<Longrightarrow> serves_if sv P (let y = v in f y)"
  by simp

lemma serves_if_transact:
  assumes "\<And>w. P (w_db w) \<Longrightarrow> mutation sv w (effect m)" and "\<And>x. serves sv (f x)"
  shows "serves_if sv P (andthen (transact m) f)"
  unfolding serves_if_def
proof (intro allI impI)
  fix w :: world assume P: "P (w_db w)"
  show "(advance sv)\<^sup>*\<^sup>* w (snd (andthen (transact m) f w))"
  proof (cases "transact m w")
    case (Pair r w')
    have "advance sv w w'"
      using transaction [OF assms(1) [OF P]] Pair by (metis snd_conv transact_effect)
    moreover have "(advance sv)\<^sup>*\<^sup>* w' (snd (f x w'))" for x using assms(2) by (simp add: serves_def)
    ultimately show ?thesis
      using Pair by (cases r) (auto simp: andthen_def intro: converse_rtranclp_into_rtranclp)
  qed
qed

lemma serves_if_repair_action:
  assumes "serves_if sv P (f VerifyProject)" and "serves_if sv P (f InitializeProject)"
  shows "serves_if sv P (andthen (repair_action sv project) f)"
  unfolding repair_action_def
  using assms by (auto simp: andthen_assoc intro!: serves_if_call still_basic)

lemma serves_repair:
  assumes "\<And>project x. serves sv (f project x)"
  shows "serves sv
    (andthen (tx_Project ident) (\<lambda>project.
     andthen (reject (p_status project \<noteq> ProjectError) (e project)) (\<lambda>_.
     andthen (requiredID sv prefix) (\<lambda>operationID.
     andthen (repair_action sv project) (\<lambda>action.
     andthen (nowText sv) (\<lambda>now.
     let project' = repairing project action operationID now in
     andthen (transact (RepairProject_tx project' (p_version project) dedupe now)) (f project')))))))"
  by (intro serves_if_read serves_if_reject serves_if_repair_action serves_if_call still_service still_basic)
     (auto simp: Let_def intro!: serves_if_transact assms mutation.intros project_history.seen_row)

lemma serves_projects:
  "serves sv (AddProject sv ap)" "serves sv (RepairProject sv ident rq)" "serves sv (ReconcileProjects sv)"
  "serves sv (ArchiveProject sv ident rq)"
proof -
  show "serves sv (AddProject sv ap)"
    unfolding AddProject_def
    by (intro serves_intro serves_finish) (simp add: new_project_def project_initial_def)
  show "serves sv (RepairProject sv ident rq)"
    unfolding RepairProject_def
    by (intro serves_intro serves_finish serves_repair)
  have "serves sv (reconcileCreating sv p)" for p
    unfolding reconcileCreating_def by (intro serves_intro serves_wrappers serves_finish)
  moreover have "serves sv (reconcileActive sv p)" for p
    unfolding reconcileActive_def finishActiveVerification_def by (intro serves_intro)
  ultimately show "serves sv (ReconcileProjects sv)"
    unfolding ReconcileProjects_def by (intro serves_intro serves_each serves_andthen [OF serves_each])
  show "serves sv (ArchiveProject sv ident rq)"
    unfolding ArchiveProject_def by (intro serves_intro)
qed

lemma serves_agents:
  "serves sv (AddAgent sv ident cfg rq)" "serves sv (UpdateAgent sv ident version cfg rq)"
  "serves sv (SetAgentStatus sv ident st rq)" "serves sv (ArchiveAgent sv ident rq)"
  unfolding AddAgent_def UpdateAgent_def SetAgentStatus_def ArchiveAgent_def
  by (intro serves_intro)+

lemma serves_retention:
  "serves sv (GCRun sv confirm rq)" "serves sv (GCDiscardWorkspace sv ident fingerprint rq)"
  "serves sv (GCDiscardTaskRef sv ident run sha rq)" "serves sv (ReconcileGitGC sv cutoff)"
  "serves sv (ReconcileWorkspaceGC sv cutoff)"
proof -
  have collect: "serves sv (collectWorkspace sv cutoff rq task)" for cutoff rq task
    unfolding collectWorkspace_def by (intro serves_intro)
  have sweeps: "serves sv (reconcileWorkspaceGC sv cutoff rq)" "serves sv (ReconcileGitGC sv cutoff)" for cutoff rq
    unfolding reconcileWorkspaceGC_def ReconcileGitGC_def
    by (intro serves_intro serves_joined_each collect)+
  have homes: "serves sv (reconcileAgentHomeGC sv)"
    unfolding reconcileAgentHomeGC_def by (intro serves_intro serves_each)
  show "serves sv (ReconcileGitGC sv cutoff)" by (rule sweeps)
  show "serves sv (ReconcileWorkspaceGC sv cutoff)" unfolding ReconcileWorkspaceGC_def by (rule sweeps)
  have errors: "serves sv m \<Longrightarrow> serves sv (without_errors m)" for m
    unfolding without_errors_def by (rule serves_andthen) (auto intro: serves_still still_basic split: list.split)
  show "serves sv (GCRun sv confirm rq)"
    unfolding GCRun_def
    by (intro serves_intro serves_andthen [OF errors] serves_andthen [OF homes] sweeps)
  show "serves sv (GCDiscardWorkspace sv ident fingerprint rq)" "serves sv (GCDiscardTaskRef sv ident run sha rq)"
    unfolding GCDiscardWorkspace_def GCDiscardTaskRef_def
    by (intro serves_intro)+
qed

section \<open>Histories of requests\<close>

text \<open>Every exported operation of the service that changes rows, with any input.\<close>

inductive request :: "service \<Rightarrow> unit op \<Rightarrow> bool" for sv :: service where
  "request sv (effect (CreateRole sv ri))"
| "request sv (effect (UpdateRole sv ri))"
| "request sv (effect (DeleteRole sv role rq))"
| "request sv (effect (BindParticipantRole sv br))"
| "request sv (effect (UnbindParticipantRole sv br))"
| "request sv (effect (AddCredential sv ci))"
| "request sv (effect (RotateCredential sv ci))"
| "request sv (effect (RevokeCredential sv participant rq))"
| "request sv (effect (Chat sv ch))"
| "request sv (effect (SendBossMessage sv bi))"
| "request sv (effect (AcknowledgeBossMessage sv ident rq))"
| "request sv (effect (ReadBossMessage sv ident rq))"
| "request sv (effect (RetryMessage sv ident rq))"
| "request sv (effect (SendAgentMessage sv si))"
| "request sv (effect (RecordMessagesDelivered sv run ids rq op))"
| "request sv (effect (AcknowledgeAgentMessages sv token ids rq))"
| "request sv (effect (CreateTask sv ct))"
| "request sv (effect (CreateChildTask sv ct))"
| "request sv (effect (WakeTask sv ta))"
| "request sv (effect (RetryTask sv ta))"
| "request sv (effect (CancelTask sv ta))"
| "request sv (effect (ReworkTask sv ta))"
| "request sv (effect (CompleteTask sv ident summary rq))"
| "request sv (effect (CloseConversation sv ident rq))"
| "request sv (effect (ClaimNext sv ident))"
| "request sv (effect (BeginRunLaunch sv li))"
| "request sv (effect (RecordContainerCreated sv fi))"
| "request sv (effect (RecordRunStartIssued sv fi))"
| "request sv (effect (ObserveProcessAndActivateRun sv fi))"
| "request sv (effect (RecordRunSession sv fi session))"
| "request sv (effect (RecordRunHeartbeat sv fi at parses))"
| "request sv (effect (RecordRunCleanup sv fi op state err))"
| "request sv (effect (Progress sv token summary rq))"
| "request sv (effect (RequestRunStop sv run reason rq op))"
| "request sv (effect (RequestRuntimeStop sv run reason rq op))"
| "request sv (effect (RequestOutcome sv oi))"
| "request sv (effect (RecordRuntimeRunTerminal sv ti))"
| "request sv (effect (RequestAccept sv ai))"
| "request sv (effect (ReconcileGit sv))"
| "request sv (effect (AddProject sv ap))"
| "request sv (effect (RepairProject sv ident rq))"
| "request sv (effect (ReconcileProjects sv))"
| "request sv (effect (ArchiveProject sv ident rq))"
| "request sv (effect (AddAgent sv ident cfg rq))"
| "request sv (effect (UpdateAgent sv ident version cfg rq))"
| "request sv (effect (SetAgentStatus sv ident status rq))"
| "request sv (effect (ArchiveAgent sv ident rq))"
| "request sv (effect (GCRun sv confirm rq))"
| "request sv (effect (GCDiscardWorkspace sv ident fingerprint rq))"
| "request sv (effect (GCDiscardTaskRef sv ident run sha rq))"
| "request sv (effect (ReconcileGitGC sv cutoff))"
| "request sv (effect (ReconcileWorkspaceGC sv cutoff))"

inductive deletion_request :: "service \<Rightarrow> unit op \<Rightarrow> bool" for sv :: service where
  "deletion_request sv (effect (DeleteTask sv ta))"
| "deletion_request sv (effect (DeleteProject sv ident reason rq))"

lemma serves_effect: "serves sv m \<Longrightarrow> serves sv (effect m)"
  unfolding effect_def by (rule serves_andthen) (simp_all add: serves_still still_basic)

lemma request_serves: "request sv m \<Longrightarrow> serves sv m"
  by (induction rule: request.induct)
     (intro serves_effect serves_roles serves_messages serves_tasks serves_runs serves_git serves_projects
       serves_agents serves_retention)+

text \<open>A deletion is one transaction after its arguments are checked.\<close>

definition deletes :: "service \<Rightarrow> 'a op \<Rightarrow> bool" where
  "deletes sv m = (\<forall>w. w_db (snd (m w)) = w_db w \<or>
     (\<exists>w1 d. w_db w1 = w_db w \<and> deletion_step sv d \<and> snd (m w) = snd (transact d w1)))"

lemma deletes_call: "still m \<Longrightarrow> (\<And>x. deletes sv (f x)) \<Longrightarrow> deletes sv (andthen m f)"
  unfolding deletes_def
proof (intro allI)
  fix w :: world
  assume m: "still m" and f: "\<And>x. \<forall>w. w_db (snd (f x w)) = w_db w \<or>
     (\<exists>w1 d. w_db w1 = w_db w \<and> deletion_step sv d \<and> snd (f x w) = snd (transact d w1))"
  show "w_db (snd (andthen m f w)) = w_db w \<or>
     (\<exists>w1 d. w_db w1 = w_db w \<and> deletion_step sv d \<and> snd (andthen m f w) = snd (transact d w1))"
  proof (cases "m w")
    case (Pair r w')
    have w': "w_db w' = w_db w" by (rule stillD [OF m Pair])
    show ?thesis
    proof (cases r)
      case (Inl e)
      then show ?thesis using Pair w' by (simp add: andthen_def)
    next
      case (Inr x)
      then show ?thesis using Pair w' f [of x, THEN spec, of w'] by (simp add: andthen_def)
    qed
  qed
qed

lemma deletes_transact: "deletion_step sv (effect m) \<Longrightarrow> deletes sv (transact m)"
  unfolding deletes_def by (metis transact_effect)

lemma deletes_let: "(\<And>x. deletes sv (f x)) \<Longrightarrow> deletes sv (let x = v in f x)"
  by simp

lemma effect_world: "snd (effect m w) = snd (m w)"
  by (auto simp: effect_def andthen_def ret_def split: sum.splits prod.splits)

lemma deletion_request_deletes: "deletion_request sv m \<Longrightarrow> deletes sv m"
proof (induction rule: deletion_request.induct)
  case (1 ta)
  have "deletes sv (DeleteTask sv ta)"
    unfolding DeleteTask_def by (intro deletes_call deletes_transact still_service deletion_step.intros)
  then show ?case by (simp add: deletes_def effect_world)
next
  case (2 ident reason rq)
  have "deletes sv (DeleteProject sv ident reason rq)"
    unfolding DeleteProject_def by (intro deletes_call deletes_transact deletes_let still_service deletion_step.intros)
  then show ?case by (simp add: deletes_def effect_world)
qed

lemma advance_reachable: "(advance sv)\<^sup>*\<^sup>* w w' \<Longrightarrow> reachable sv w \<Longrightarrow> reachable sv w'"
  by (induction rule: rtranclp_induct) (auto elim!: advance.cases intro: reachable.mutated reachable.outside)

lemma advance_evolves: "(advance sv)\<^sup>*\<^sup>* w w' \<Longrightarrow> keys_distinct (w_db w) \<Longrightarrow> evolves (w_db w) (w_db w')"
proof (induction rule: rtranclp_induct)
  case (step u v)
  have "evolves (w_db u) (w_db v)"
    using step.hyps(2)
  proof cases
    case (transaction m)
    have keys: "keys_distinct (w_db u)"
      using step by (simp add: evolves_def)
    show ?thesis
      using mutation_success [OF transaction(2) keys]
      by (cases m u rule: transact_cases) (auto simp: transaction(1) evolves_refl)
  qed (simp add: evolves_refl)
  then show ?case using step by (blast intro: evolves_trans)
qed (simp add: evolves_refl)

text \<open>The worlds a history of requests leads to, from a fresh store.\<close>

inductive served :: "service \<Rightarrow> world \<Rightarrow> bool" for sv :: service where
  start: "d_projects (w_db w) = [] \<Longrightarrow> d_agents (w_db w) = [] \<Longrightarrow> d_tasks (w_db w) = [] \<Longrightarrow>
    d_runs (w_db w) = [] \<Longrightarrow> d_messages (w_db w) = [] \<Longrightarrow> d_events (w_db w) = [] \<Longrightarrow>
    d_event_seq (w_db w) = 0 \<Longrightarrow> d_dedupes (w_db w) = [] \<Longrightarrow> served sv w"
| requested: "served sv w \<Longrightarrow> request sv m \<Longrightarrow> served sv (snd (m w))"
| deleted: "served sv w \<Longrightarrow> deletion_request sv m \<Longrightarrow> served sv (snd (m w))"

lemma served_reachable: "served sv w \<Longrightarrow> reachable sv w"
proof (induction rule: served.induct)
  case (start w)
  then show ?case by (rule reachable.fresh)
next
  case (requested w m)
  then show ?case using request_serves [OF requested(2)] advance_reachable unfolding serves_def by blast
next
  case (deleted w m)
  then consider "w_db (snd (m w)) = w_db w"
    | w1 d where "w_db w1 = w_db w" "deletion_step sv d" "snd (m w) = snd (transact d w1)"
    using deletion_request_deletes [OF deleted(2)] unfolding deletes_def by blast
  then show ?case
    using deleted.IH by cases (auto intro: reachable.outside reachable.deleted)
qed

end
