(* ===== verification/Guarantees.thy ===== *)
theory Guarantees
  imports Api
begin

text \<open>
  What clients of the service may rely on, as predicates on databases: what every database that was
  reached satisfies, and what two databases in this order of time have to do with each other. Each
  predicate is derived from the invariant and the histories of \<open>System\<close>.
\<close>

section \<open>Invariants of the rows\<close>

context history
begin

lemma rows_evolve_all:
  assumes "rows_evolve xs ys" and keys: "distinct (map key ys)" and all: "\<forall>x \<in> set xs. P x"
    and start: "\<And>x. initial x \<Longrightarrow> P x" and kept: "\<And>a b. step a b \<Longrightarrow> P a \<Longrightarrow> P b"
  shows "\<forall>y \<in> set ys. P y"
proof
  fix y assume "y \<in> set ys"
  then have y: "row key (key y) ys = Some y" using keys by (rule row_in_set [rotated])
  show "P y"
  proof (cases "row key (key y) xs")
    case None
    then obtain x where "initial x" "step\<^sup>*\<^sup>* x y" using assms(1) y unfolding rows_evolve_def by blast
    then show ?thesis using history_invariant [of x y P] start kept by blast
  next
    case (Some x)
    then have "step\<^sup>*\<^sup>* x y" using assms(1) y unfolding rows_evolve_def by fastforce
    moreover have "P x" using Some all by (auto dest: row_SomeD)
    ultimately show ?thesis using history_invariant [of x y P] kept by blast
  qed
qed

lemma rows_evolve_later: "rows_evolve xs ys \<Longrightarrow> row key k xs = Some x \<Longrightarrow> \<exists>y. row key k ys = Some y \<and> step\<^sup>*\<^sup>* x y"
  unfolding rows_evolve_def by blast

text \<open>A relation that is reflexive, transitive and holds of every step from a row that satisfies \<open>P\<close>.\<close>

lemma steps_relation:
  assumes "step\<^sup>*\<^sup>* x y" and "P x" and "\<And>a b. step a b \<Longrightarrow> P a \<Longrightarrow> P b \<and> R a b"
    and "\<And>a. R a a" and "\<And>a b c. R a b \<Longrightarrow> R b c \<Longrightarrow> R a c"
  shows "R x y"
proof -
  have "P y \<and> R x y"
    using assms(1,2)
  proof (induction rule: rtranclp_induct)
    case (step y z)
    then show ?case using assms(3) assms(5) by blast
  qed (simp add: assms(4))
  then show ?thesis by simp
qed

end

text \<open>Every row satisfies the invariant of its table: a conversation has no submission and no Git action,
  retries stay within their limit, a run that asked for its outcome or has ended has no valid token, no
  message is delivered more often than allowed, and a project is creating exactly while a Git action of
  it is pending.\<close>

definition rows_ok :: "db \<Rightarrow> bool" where
  "rows_ok d =
     ((\<forall>t \<in> set (d_tasks d). task_ok t) \<and> (\<forall>r \<in> set (d_runs d). run_ok r) \<and>
      (\<forall>m \<in> set (d_messages d). 0 \<le> m_max_deliveries m \<and> message_ok m) \<and>
      (\<forall>p \<in> set (d_projects d). project_ok p))"

definition log_ok :: "db \<Rightarrow> bool" where
  "log_ok d = (sorted_wrt (<) (map e_id (d_events d)) \<and> (\<forall>e \<in> set (d_events d). e_id e \<le> d_event_seq d))"

lemma initial_ok:
  "task_initial t \<Longrightarrow> task_ok t" "run_initial r \<Longrightarrow> run_ok r"
  "message_initial m \<Longrightarrow> 0 \<le> m_max_deliveries m \<and> message_ok m" "project_initial p \<Longrightarrow> project_ok p"
  by (auto simp: initial_defs task_ok_def run_ok_def message_ok_def project_ok_def)

lemma step_ok:
  "task_step t t' \<Longrightarrow> task_ok t \<Longrightarrow> task_ok t'" "run_step r r' \<Longrightarrow> run_ok r \<Longrightarrow> run_ok r'"
  "message_step m m' \<Longrightarrow> 0 \<le> m_max_deliveries m \<and> message_ok m \<Longrightarrow> 0 \<le> m_max_deliveries m' \<and> message_ok m'"
  "project_step p p' \<Longrightarrow> project_ok p \<Longrightarrow> project_ok p'"
  by (auto simp: task_step_def run_step_def message_step_def message_fixed_def project_step_def)

text \<open>A task with a captured head carries its grade of evidence, so that the grading of \<open>scanTask\<close> leaves it as it is.\<close>

lemma scanned_evidence: "rows_ok d \<Longrightarrow> task_of d i = Some t \<Longrightarrow> effectiveEvidenceType t = t_evidence_type t"
  by (auto simp: rows_ok_def task_ok_def effectiveEvidenceType_def dest!: row_SomeD)

lemma rows_ok_evolves:
  assumes "evolves d d'" and "keys_distinct d" and "rows_ok d"
  shows "rows_ok d'"
proof -
  have keys: "keys_distinct d'" using assms(1,2) by (simp add: evolves_def)
  have "\<forall>t \<in> set (d_tasks d'). task_ok t"
    by (rule task_history.rows_evolve_all [of "d_tasks d"])
       (use assms keys in \<open>auto simp: evolves_def keys_distinct_def rows_ok_def intro: initial_ok step_ok\<close>)
  moreover have "\<forall>r \<in> set (d_runs d'). run_ok r"
    by (rule run_history.rows_evolve_all [of "d_runs d"])
       (use assms keys in \<open>auto simp: evolves_def keys_distinct_def rows_ok_def intro: initial_ok step_ok\<close>)
  moreover have "\<forall>m \<in> set (d_messages d'). 0 \<le> m_max_deliveries m \<and> message_ok m"
    by (rule message_history.rows_evolve_all [of "d_messages d"])
       (use assms keys in \<open>simp_all add: evolves_def keys_distinct_def rows_ok_def initial_ok step_ok\<close>)
  moreover have "\<forall>p \<in> set (d_projects d'). project_ok p"
    by (rule project_history.rows_evolve_all [of "d_projects d"])
       (use assms keys in \<open>auto simp: evolves_def keys_distinct_def rows_ok_def intro: initial_ok step_ok\<close>)
  ultimately show ?thesis by (simp add: rows_ok_def)
qed

lemma rows_ok_drops: "drops d d' \<Longrightarrow> rows_ok d \<Longrightarrow> rows_ok d'"
  unfolding drops_def rows_ok_def by (elim exE conjE) simp

lemma log_ok_evolves:
  assumes "evolves d d'" and "log_ok d"
  shows "log_ok d'"
proof -
  obtain es where es: "d_events d' = d_events d @ es" "d_event_seq d' = d_event_seq d + int (length es)"
      "\<forall>i < length es. e_id (es ! i) = d_event_seq d + 1 + int i"
    using assms(1) unfolding evolves_def log_extends_def by blast
  have "sorted_wrt (<) (map e_id es)"
    using es(3) by (auto simp: sorted_wrt_iff_nth_less)
  moreover have "d_event_seq d < e_id e \<and> e_id e \<le> d_event_seq d'" if "e \<in> set es" for e
    using that es(2,3) by (fastforce simp: in_set_conv_nth)
  ultimately show ?thesis
    using assms(2) es(1,2) by (fastforce simp: log_ok_def sorted_wrt_append)
qed

lemma log_ok_drops: "drops d d' \<Longrightarrow> log_ok d \<Longrightarrow> log_ok d'"
  unfolding drops_def log_ok_def
  by (elim exE conjE)
     (auto simp: sorted_wrt_append sorted_wrt_map intro: sorted_wrt_filter)

lemma reachable_ok:
  assumes "reachable sv w" and "0 \<le> sv_max_runs sv"
  shows "sound (sv_max_runs sv) (w_db w) \<and> rows_ok (w_db w) \<and> log_ok (w_db w)"
proof (rule reachable_invariant [OF assms])
  show "rows_ok d \<and> log_ok d" if "d_tasks d = []" "d_runs d = []" "d_messages d = []" "d_projects d = []"
    "d_events d = []" for d
    using that by (simp add: rows_ok_def log_ok_def)
  show "rows_ok d' \<and> log_ok d'" if "evolves d d'" "keys_distinct d" "rows_ok d \<and> log_ok d" for d d'
    using that rows_ok_evolves log_ok_evolves by blast
  show "rows_ok d' \<and> log_ok d'" if "drops d d'" "rows_ok d \<and> log_ok d" for d d'
    using that rows_ok_drops log_ok_drops by blast
qed

section \<open>What a reached database satisfies\<close>

text \<open>At most one run of a task is live, it is the task's current run, and no agent has two.\<close>

definition single_live_run :: "db \<Rightarrow> bool" where
  "single_live_run d =
     ((\<forall>r \<in> set (d_runs d). \<forall>u \<in> set (d_runs d). IsRunLive (r_state r) \<longrightarrow> IsRunLive (r_state u) \<longrightarrow>
         r_task_id r = r_task_id u \<or> r_agent_id r = r_agent_id u \<longrightarrow> r = u) \<and>
      (\<forall>r \<in> set (d_runs d). IsRunLive (r_state r) \<longrightarrow>
         (\<exists>t. task_of d (r_task_id r) = Some t \<and> t_current_run_id t = r_id r)))"

text \<open>The status of a task and the state of its current run agree.\<close>

definition task_run_agreement :: "db \<Rightarrow> bool" where
  "task_run_agreement d =
     (\<forall>t \<in> set (d_tasks d).
        (t_current_run_id t \<noteq> [] \<longrightarrow>
           (\<exists>r. run_of d (t_current_run_id t) = Some r \<and> current_link t r)) \<and>
        (t_status t \<in> {TaskRunning, TaskFinishing} \<longrightarrow> t_current_run_id t \<noteq> []) \<and>
        (t_status t \<in> {TaskWaiting, TaskSubmitted, TaskCompleted, TaskFailed} \<longrightarrow> t_current_run_id t = []))"

lemma sound_single_live_run:
  assumes "sound limit d"
  shows "single_live_run d"
proof -
  have keys: "keys_distinct d" and linked: "linked d" using assms by (simp_all add: sound_def)
  have task: "\<exists>t. task_of d (r_task_id r) = Some t \<and> t_current_run_id t = r_id r"
    if "r \<in> set (d_runs d)" "IsRunLive (r_state r)" for r
    using linkedD(4) [OF linked that] keys row_in_set [of t_id "d_tasks d"]
    by (fastforce simp: keys_distinct_def)
  have same: "r = u" if "r \<in> set (d_runs d)" "u \<in> set (d_runs d)" "r_id u = r_id r" for r u
    using that keys row_unique [of r_id "d_runs d" "r_id r" r u] row_in_set [of r_id "d_runs d" r]
    by (simp add: keys_distinct_def)
  have exclusive: "r_id u = r_id r" if "r \<in> set (d_runs d)" "u \<in> set (d_runs d)" "IsRunLive (r_state r)"
      "IsRunLive (r_state u)" "r_agent_id r = r_agent_id u" for r u
  proof -
    have "agents_exclusive (d_runs d)" using linked by (simp add: linked_def)
    then show ?thesis
      unfolding agents_exclusive_def using that(1-4) that(5) [symmetric] by blast
  qed
  have "r = u" if "r \<in> set (d_runs d)" "u \<in> set (d_runs d)" "IsRunLive (r_state r)" "IsRunLive (r_state u)"
      "r_task_id r = r_task_id u \<or> r_agent_id r = r_agent_id u" for r u
  proof (rule same [OF that(1,2)])
    show "r_id u = r_id r"
    proof (cases "r_agent_id r = r_agent_id u")
      case True
      then show ?thesis using exclusive [OF that(1,2,3,4)] by simp
    next
      case False
      then have "r_task_id r = r_task_id u" using that(5) by simp
      then show ?thesis using task [OF that(1,3)] task [OF that(2,4)] by auto
    qed
  qed
  then show ?thesis using task unfolding single_live_run_def by blast
qed

lemma sound_task_run_agreement:
  assumes "sound limit d"
  shows "task_run_agreement d"
proof -
  have keys: "keys_distinct d" and linked: "linked d" using assms by (simp_all add: sound_def)
  have "\<exists>r. run_of d (t_current_run_id t) = Some r \<and> current_link t r"
    if "t \<in> set (d_tasks d)" "t_current_run_id t \<noteq> []" for t
    using linkedD(2) [OF linked that] keys row_in_set [of r_id "d_runs d"]
    by (fastforce simp: keys_distinct_def current_link_def)
  moreover have "link_local t" if "t \<in> set (d_tasks d)" for t using linkedD(1) [OF linked that] .
  ultimately show ?thesis unfolding task_run_agreement_def link_local_def by fastforce
qed

section \<open>What later databases keep\<close>

text \<open>Closed tasks, ended runs, settled messages, revoked tokens.\<close>

definition closed_tasks_kept :: "db \<Rightarrow> db \<Rightarrow> bool" where
  "closed_tasks_kept d d' =
     (\<forall>i t. task_of d i = Some t \<and> IsTaskClosed (t_status t) \<longrightarrow>
        (\<exists>t'. task_of d' i = Some t' \<and> task_frozen t t'))"

definition ended_runs_kept :: "db \<Rightarrow> db \<Rightarrow> bool" where
  "ended_runs_kept d d' =
     (\<forall>i r. run_of d i = Some r \<and> IsRunTerminal (r_state r) \<longrightarrow>
        (\<exists>r'. run_of d' i = Some r' \<and> run_frozen r r'))"

definition settled_messages_kept :: "db \<Rightarrow> db \<Rightarrow> bool" where
  "settled_messages_kept d d' =
     (\<forall>i m. message_of d i = Some m \<and> m_state m \<in> {MessageAcknowledged, MessageCancelled} \<longrightarrow>
        message_of d' i = Some m)"

text \<open>What a run has asked for, where it was launched and that its token is revoked is never taken back.\<close>

definition run_commitments_kept :: "db \<Rightarrow> db \<Rightarrow> bool" where
  "run_commitments_kept d d' =
     (\<forall>i r. run_of d i = Some r \<longrightarrow>
        (\<exists>r'. run_of d' i = Some r' \<and> run_fixed r r' \<and> run_sticky r r' \<and>
           launchPhaseOrder (r_launch_phase r) \<le> launchPhaseOrder (r_launch_phase r') \<and>
           (r_requested_outcome r \<noteq> NoOutcome \<longrightarrow> r_requested_outcome r' = r_requested_outcome r \<and>
              r_requested_summary r' = r_requested_summary r \<and> r_expected_head r' = r_expected_head r)))"

text \<open>The status of a task only moves along the table of its kind, except that a broken Git advance fails
  a submitted task and that a human completes a waiting task without agent.\<close>

inductive status_edge :: "task_kind \<Rightarrow> bool \<Rightarrow> task_status \<Rightarrow> task_status \<Rightarrow> bool" for kind :: task_kind and human :: bool where
  "ValidateTaskTransition kind old new = None \<Longrightarrow> status_edge kind human old new"
| "status_edge kind human TaskSubmitted TaskFailed"
| "human \<Longrightarrow> status_edge kind human TaskWaiting TaskCompleted"

definition status_move :: "task_kind \<Rightarrow> bool \<Rightarrow> task_status \<Rightarrow> task_status \<Rightarrow> bool" where
  "status_move kind human old new = (new = old \<or> status_edge kind human old new)"

text \<open>Every write of a task raises its version by one. The path has one move for every write, so that a write that
  skips a status is not on it.\<close>

definition status_path :: "task \<Rightarrow> task \<Rightarrow> bool" where
  "status_path t t' =
     (t_version t \<le> t_version t' \<and>
      (status_move (t_kind t) (t_assignee_agent_id t = []) ^^ nat (t_version t' - t_version t)) (t_status t) (t_status t'))"

definition tasks_progress :: "db \<Rightarrow> db \<Rightarrow> bool" where
  "tasks_progress d d' =
     (\<forall>i t. task_of d i = Some t \<longrightarrow>
        (\<exists>t'. task_of d' i = Some t' \<and> task_fixed t t' \<and> status_path t t' \<and>
           t_generation t \<le> t_generation t' \<and> t_retry_count t \<le> t_retry_count t'))"

lemma task_frozen_refl: "task_frozen t t"
  unfolding task_frozen_def
  by (rule exI [of _ "t_current_run_id t"], rule exI [of _ "t_source_ref_released_at t"],
      rule exI [of _ "t_version t"], rule exI [of _ "t_updated_at t"]) simp

lemma task_frozen_trans:
  assumes "task_frozen t u" and "task_frozen u v"
  shows "task_frozen t v"
proof -
  obtain c r ver at where u: "u = t\<lparr>t_current_run_id := c, t_source_ref_released_at := r, t_version := ver, t_updated_at := at\<rparr>"
    using assms(1) unfolding task_frozen_def by (elim exE)
  obtain c' r' ver' at' where v: "v = u\<lparr>t_current_run_id := c', t_source_ref_released_at := r', t_version := ver', t_updated_at := at'\<rparr>"
    using assms(2) unfolding task_frozen_def by (elim exE)
  show ?thesis
    unfolding task_frozen_def v u
    by (rule exI [of _ c'], rule exI [of _ r'], rule exI [of _ ver'], rule exI [of _ at']) simp
qed

lemma run_frozen_refl: "run_frozen r r"
  unfolding run_frozen_def
  by (rule exI [of _ "r_cleanup_state r"], rule exI [of _ "r_last_error r"],
      rule exI [of _ "r_isolation_spec_version r"], rule exI [of _ "r_version r"]) simp

lemma run_frozen_trans:
  assumes "run_frozen r u" and "run_frozen u v"
  shows "run_frozen r v"
proof -
  obtain c e i ver where u: "u = r\<lparr>r_cleanup_state := c, r_last_error := e, r_isolation_spec_version := i, r_version := ver\<rparr>"
    using assms(1) unfolding run_frozen_def by (elim exE)
  obtain c' e' i' ver' where v: "v = u\<lparr>r_cleanup_state := c', r_last_error := e', r_isolation_spec_version := i', r_version := ver'\<rparr>"
    using assms(2) unfolding run_frozen_def by (elim exE)
  show ?thesis
    unfolding run_frozen_def v u
    by (rule exI [of _ c'], rule exI [of _ e'], rule exI [of _ i'], rule exI [of _ ver']) simp
qed

lemma frozen_fields:
  "task_frozen t t' \<Longrightarrow> t_status t' = t_status t" "run_frozen r r' \<Longrightarrow> r_state r' = r_state r"
  unfolding task_frozen_def run_frozen_def by (elim exE; simp)+

lemma closed_steps: "task_step\<^sup>*\<^sup>* t t' \<Longrightarrow> IsTaskClosed (t_status t) \<Longrightarrow> task_frozen t t'"
  by (erule task_history.steps_relation [where P = "\<lambda>t. IsTaskClosed (t_status t)"])
     (auto simp: task_step_def frozen_fields intro: task_frozen_refl task_frozen_trans)

lemma ended_steps: "run_step\<^sup>*\<^sup>* r r' \<Longrightarrow> IsRunTerminal (r_state r) \<Longrightarrow> run_frozen r r'"
  by (erule run_history.steps_relation [where P = "\<lambda>r. IsRunTerminal (r_state r)"])
     (auto simp: run_step_def frozen_fields intro: run_frozen_refl run_frozen_trans)

lemma settled_steps: "message_step\<^sup>*\<^sup>* m m' \<Longrightarrow> m_state m \<in> {MessageAcknowledged, MessageCancelled} \<Longrightarrow> m' = m"
  by (erule converse_rtranclpE) (auto simp: message_step_def)

lemma commitment_steps:
  assumes "run_step\<^sup>*\<^sup>* r r'" and "run_ok r"
  shows "run_fixed r r' \<and> run_sticky r r' \<and>
    launchPhaseOrder (r_launch_phase r) \<le> launchPhaseOrder (r_launch_phase r') \<and>
    (r_requested_outcome r \<noteq> NoOutcome \<longrightarrow> r_requested_outcome r' = r_requested_outcome r \<and>
       r_requested_summary r' = r_requested_summary r \<and> r_expected_head r' = r_expected_head r)"
  using assms
  by (rule run_history.steps_relation [where P = run_ok])
     (simp_all add: run_step_def run_fixed_def run_sticky_def)

lemma task_move_edge:
  "task_move t t' \<Longrightarrow> t_status t' = t_status t \<or>
     status_edge (t_kind t) (t_assignee_agent_id t = []) (t_status t) (t_status t')"
  unfolding task_move_def by (elim disjE conjE) (simp_all add: status_edge.intros)

lemma status_step: "task_step t t' \<Longrightarrow> task_ok t \<Longrightarrow> task_ok t' \<and> task_fixed t t' \<and> status_path t t'"
  using task_move_edge [of t t'] unfolding task_step_def status_path_def status_move_def by auto

lemma status_path_refl: "status_path t t"
  by (simp add: status_path_def)

lemma status_path_trans:
  assumes "status_path t u" and "status_path u v" and "task_fixed t u"
  shows "status_path t v"
proof -
  have "nat (t_version v - t_version t) = nat (t_version u - t_version t) + nat (t_version v - t_version u)"
    using assms(1,2) unfolding status_path_def by linarith
  then show ?thesis
    using assms by (auto simp: status_path_def task_fixed_def relpowp_add intro: relcomppI)
qed

lemma progress_steps:
  assumes "task_step\<^sup>*\<^sup>* t t'" and "task_ok t"
  shows "task_fixed t t' \<and> status_path t t' \<and> t_generation t \<le> t_generation t' \<and> t_retry_count t \<le> t_retry_count t'"
  using assms
proof (rule task_history.steps_relation [where P = task_ok])
  fix a b assume step: "task_step a b" "task_ok a"
  then show "task_ok b \<and> task_fixed a b \<and> status_path a b \<and> t_generation a \<le> t_generation b \<and> t_retry_count a \<le> t_retry_count b"
    using status_step [OF step] by (auto simp: task_step_def)
next
  fix a b c
  assume "task_fixed a b \<and> status_path a b \<and> t_generation a \<le> t_generation b \<and> t_retry_count a \<le> t_retry_count b"
    and "task_fixed b c \<and> status_path b c \<and> t_generation b \<le> t_generation c \<and> t_retry_count b \<le> t_retry_count c"
  then show "task_fixed a c \<and> status_path a c \<and> t_generation a \<le> t_generation c \<and> t_retry_count a \<le> t_retry_count c"
    using status_path_trans [of a b c] by (auto simp: task_fixed_def)
qed (simp_all add: task_fixed_def status_path_refl)

lemma evolves_kept:
  assumes "evolves d d'"
  shows "closed_tasks_kept d d'" "ended_runs_kept d d'" "settled_messages_kept d d'"
proof -
  show "closed_tasks_kept d d'"
    using assms task_history.rows_evolve_later [of "d_tasks d" "d_tasks d'"] closed_steps
    unfolding evolves_def closed_tasks_kept_def by blast
  show "ended_runs_kept d d'"
    using assms run_history.rows_evolve_later [of "d_runs d" "d_runs d'"] ended_steps
    unfolding evolves_def ended_runs_kept_def by blast
  show "settled_messages_kept d d'"
    using assms message_history.rows_evolve_later [of "d_messages d" "d_messages d'"] settled_steps
    unfolding evolves_def settled_messages_kept_def by blast
qed

lemma evolves_progress:
  assumes "evolves d d'" and "rows_ok d"
  shows "tasks_progress d d'" "run_commitments_kept d d'"
proof -
  have task: "task_ok t" if "task_of d i = Some t" for i t
    using that assms(2) by (auto simp: rows_ok_def dest: row_SomeD)
  have run: "run_ok r" if "run_of d i = Some r" for i r
    using that assms(2) by (auto simp: rows_ok_def dest: row_SomeD)
  show "tasks_progress d d'"
    using assms(1) task_history.rows_evolve_later [of "d_tasks d" "d_tasks d'"] progress_steps task
    unfolding evolves_def tasks_progress_def by blast
  show "run_commitments_kept d d'"
    using assms(1) run_history.rows_evolve_later [of "d_runs d" "d_runs d'"] commitment_steps run
    unfolding evolves_def run_commitments_kept_def by blast
qed

section \<open>Sequences of requests\<close>

text \<open>One request after another, none of them a deletion.\<close>

definition requests_lead :: "service \<Rightarrow> world \<Rightarrow> world \<Rightarrow> bool" where
  "requests_lead sv = (\<lambda>w w'. \<exists>m. request sv m \<and> w' = snd (m w))\<^sup>*\<^sup>*"

lemma requests_advance: "requests_lead sv w w' \<Longrightarrow> (advance sv)\<^sup>*\<^sup>* w w'"
  unfolding requests_lead_def
proof (induction rule: rtranclp_induct)
  case (step y z)
  then obtain m where "request sv m" "z = snd (m y)" by blast
  then have "(advance sv)\<^sup>*\<^sup>* y z" using request_serves unfolding serves_def by blast
  with step show ?case by (metis rtranclp_trans)
qed simp

lemma served_ok:
  assumes "served sv w" and "0 \<le> sv_max_runs sv"
  shows "sound (sv_max_runs sv) (w_db w)" "rows_ok (w_db w)" "log_ok (w_db w)" "keys_distinct (w_db w)"
  using reachable_ok [OF served_reachable [OF assms(1)] assms(2)] by (simp_all add: sound_def)

lemma served_evolves:
  assumes "served sv w" and "0 \<le> sv_max_runs sv" and "requests_lead sv w w'"
  shows "evolves (w_db w) (w_db w')"
  using advance_evolves [OF requests_advance [OF assms(3)]] served_ok(4) [OF assms(1,2)] by blast

end
