(* ===== verification/Requests.thy ===== *)
theory Requests
  imports Guarantees
begin

text \<open>
  What a client may rely on about a single request: a request that fails leaves the database as it was,
  a request that is repeated is recognised and answered from its record, and the token of a run that
  has asked for its outcome, was told to stop or has ended is refused.
\<close>

section \<open>Failed requests\<close>

definition all_or_nothing :: "'a op \<Rightarrow> bool" where
  "all_or_nothing m = (\<forall>w e w'. m w = (Inl e, w') \<longrightarrow> w_db w' = w_db w)"

lemma aon_transact: "all_or_nothing (transact m)"
  using transact_failure unfolding all_or_nothing_def by blast

lemma aon_still: "still m \<Longrightarrow> all_or_nothing m"
  unfolding still_def all_or_nothing_def by (metis snd_conv)

lemma aon_call: "still m \<Longrightarrow> (\<And>x. all_or_nothing (f x)) \<Longrightarrow> all_or_nothing (andthen m f)"
  unfolding still_def all_or_nothing_def andthen_def
  by (auto split: sum.splits prod.splits) (metis snd_conv)+

lemma all_or_nothingD: "all_or_nothing m \<Longrightarrow> (\<And>x u. m w \<noteq> (Inr x, u)) \<Longrightarrow> \<exists>e u. m w = (Inl e, u) \<and> w_db u = w_db w"
  unfolding all_or_nothing_def by (metis surj_pair sum.exhaust)

lemma aon_reject: "(\<not> b \<Longrightarrow> all_or_nothing (f ())) \<Longrightarrow> all_or_nothing (andthen (reject b e) f)"
  by (cases b) (auto simp: reject_def all_or_nothing_def throw_def ret_def andthen_def)

lemma aon_control:
  "(b \<Longrightarrow> all_or_nothing m) \<Longrightarrow> (\<not> b \<Longrightarrow> all_or_nothing n) \<Longrightarrow> all_or_nothing (if b then m else n)"
  "(\<And>y. v = y \<Longrightarrow> all_or_nothing (f y)) \<Longrightarrow> all_or_nothing (let y = v in f y)"
  "all_or_nothing k \<Longrightarrow> (\<And>y. all_or_nothing (h y)) \<Longrightarrow> all_or_nothing (case o' of None \<Rightarrow> k | Some y \<Rightarrow> h y)"
  "(\<And>e. all_or_nothing (i e)) \<Longrightarrow> (\<And>y. all_or_nothing (g y)) \<Longrightarrow> all_or_nothing (case u of Inl e \<Rightarrow> i e | Inr y \<Rightarrow> g y)"
  "(\<And>y z. all_or_nothing (j y z)) \<Longrightarrow> all_or_nothing (case q of (y, z) \<Rightarrow> j y z)"
  by (auto split: option.splits sum.splits prod.splits)

lemma aon_if_then:
  "still m \<Longrightarrow> still n \<Longrightarrow> (\<And>x. all_or_nothing (f x)) \<Longrightarrow> all_or_nothing (andthen (if b then m else n) f)"
  by (auto intro: aon_call)

lemma aon_then_ret: "all_or_nothing m \<Longrightarrow> all_or_nothing (andthen m (\<lambda>(x, y). ret y))"
  unfolding all_or_nothing_def by (auto simp: andthen_def ret_def split: sum.splits prod.splits)

lemmas aon_intro = aon_then_ret aon_reject aon_control aon_if_then still_authorizations [THEN aon_call] still_calls [THEN aon_call]
  still_wrap [OF still_basic(8), THEN aon_call] aon_transact still_calls [THEN aon_still] still_basic(4) [THEN aon_still]

section \<open>Revoked tokens\<close>

text \<open>A run whose token was revoked, that asked for its outcome or that has ended.\<close>

definition fenced :: "run \<Rightarrow> bool" where
  "fenced r = (r_token_revoked_at r \<noteq> NoStamp \<or> r_requested_outcome r \<noteq> NoOutcome \<or> IsRunTerminal (r_state r))"

lemma fenced_revoked: "run_ok r \<Longrightarrow> fenced r \<Longrightarrow> r_token_revoked_at r \<noteq> NoStamp"
  unfolding fenced_def run_ok_def by blast

lemma sticky_revoked: "run_sticky r r' \<Longrightarrow> r_token_revoked_at r \<noteq> NoStamp \<Longrightarrow> r_token_revoked_at r' = r_token_revoked_at r"
  unfolding run_sticky_def by blast

lemma fenced_denied:
  assumes "served sv w" and "0 \<le> sv_max_runs sv" and "requests_lead sv w w'"
    and run: "run_of (w_db w) i = Some r" and "fenced r" and hash: "hashToken sv token = r_token_hash r"
    and same: "w_db w'' = w_db w'"
  shows "authenticateRun sv token w'' \<noteq> (Inr v, u)"
proof
  assume auth: "authenticateRun sv token w'' = (Inr v, u)"
  note facts = authenticateRun_success [OF auth, unfolded same]
  have evolves: "evolves (w_db w) (w_db w')" using served_evolves [OF assms(1-3)] .
  obtain r' where r': "run_of (w_db w') i = Some r'" "run_fixed r r'" "run_sticky r r'"
    using evolves_progress(2) [OF evolves served_ok(2) [OF assms(1,2)]] run
    unfolding run_commitments_kept_def by blast
  have "run_ok r" using run served_ok(2) [OF assms(1,2)] by (auto simp: rows_ok_def dest: row_SomeD)
  then have revoked: "r_token_revoked_at r' \<noteq> NoStamp"
    using fenced_revoked [OF _ \<open>fenced r\<close>] sticky_revoked [OF r'(3)] by simp
  have "distinct (map r_token_hash (d_runs (w_db w')))"
    using evolves served_ok(4) [OF assms(1,2)] by (simp add: evolves_def keys_distinct_def)
  moreover have "r' \<in> set (d_runs (w_db w'))" using r'(1) by (auto dest: row_SomeD)
  moreover have "r_token_hash (fst v) = r_token_hash r'"
    using facts hash r'(2) by (simp add: run_fixed_def)
  ultimately have "fst v = r'"
    using facts by (auto simp: distinct_map inj_on_def)
  then show False using facts revoked by (simp add: authentic_def)
qed

lemma fenced_denied_operations:
  assumes "\<And>w'' v u. w_db w'' = w_db w' \<Longrightarrow> authenticateRun sv token w'' \<noteq> (Inr v, u)"
  shows "(\<exists>e u. authenticateRun sv token w' = (Inl e, u) \<and> w_db u = w_db w') \<and>
    (\<exists>e u. Progress sv token summary rq w' = (Inl e, u) \<and> w_db u = w_db w')"
proof
  show "\<exists>e u. authenticateRun sv token w' = (Inl e, u) \<and> w_db u = w_db w'"
    by (rule all_or_nothingD [OF aon_still [OF still_service(8)]]) (rule assms [OF refl])
  show "\<exists>e u. Progress sv token summary rq w' = (Inl e, u) \<and> w_db u = w_db w'"
  proof (rule all_or_nothingD)
    show "all_or_nothing (Progress sv token summary rq)"
      unfolding Progress_def by (intro aon_call aon_transact still_service)
    fix x u show "Progress sv token summary rq w' \<noteq> (Inr x, u)"
    proof
      assume "Progress sv token summary rq w' = (Inr x, u)"
      then obtain s q w1 w2 v u' where "requireText ''summary'' summary w' = (Inr s, w1)"
          "request_id sv rq w1 = (Inr q, w2)" "authenticateRun sv token w2 = (Inr v, u')"
        by (auto simp: Progress_def Progress_tx_def andthen_success transact_success)
      moreover have "w_db w2 = w_db w'"
        using pure_service(4) [of "''summary''" summary] pure_service(2) [of sv rq] calculation(1,2)
        unfolding pure_op_def by metis
      ultimately show False using assms by blast
    qed
  qed
qed


section \<open>Repeated requests\<close>

text \<open>The request was carried out before: its record names a task that exists.\<close>

definition recorded :: "db \<Rightarrow> requestDedupe \<Rightarrow> string \<Rightarrow> bool" where
  "recorded d rq ident =
     (ident \<noteq> [] \<and> rq_input_hash rq \<noteq> [] \<and> task_of d ident \<noteq> None \<and>
      (\<exists>x related. dedupe_of d (rq_scope rq) (rq_operation rq) (rq_request_id rq) = Some x \<and>
         d_value x = RequestResult ident related (rq_input_hash rq)))"

lemma find_appended: "find P xs = Some x \<Longrightarrow> find P (xs @ ys) = Some x"
  by (induction xs) auto

lemma find_last: "find P xs = None \<Longrightarrow> P y \<Longrightarrow> find P (xs @ [y]) = Some y"
  by (induction xs) (auto split: if_splits)

lemma recorded_later:
  assumes "recorded d rq ident" and "evolves d d'"
  shows "recorded d' rq ident"
proof -
  obtain rs where "d_dedupes d' = d_dedupes d @ rs" using assms(2) unfolding evolves_def by blast
  moreover have "task_of d' ident \<noteq> None"
    using assms task_history.rows_evolve_later [of "d_tasks d" "d_tasks d'" ident]
    unfolding recorded_def evolves_def by blast
  ultimately show ?thesis
    using assms(1) unfolding recorded_def dedupe_of_def by (auto simp: find_appended)
qed

lemma replay_success:
  "replay d w = (Inr (Some r), w') \<longleftrightarrow> w' = w \<and>
   (\<exists>x. dedupe_of (w_db w) (rq_scope d) (rq_operation d) (rq_request_id d) = Some x \<and>
      decodeDedupe (d_value x) (rq_input_hash d) = Inr r)"
  "replay d w = (Inr None, w') \<longleftrightarrow> w' = w \<and>
   dedupe_of (w_db w) (rq_scope d) (rq_operation d) (rq_request_id d) = None"
  by (auto simp: replay_def andthen_success tx_Dedupe_def read_db_success split: option.splits)

lemma replay_run:
  "replay d w = (case dedupe_of (w_db w) (rq_scope d) (rq_operation d) (rq_request_id d) of
     None \<Rightarrow> (Inr None, w)
   | Some x \<Rightarrow> (case decodeDedupe (d_value x) (rq_input_hash d) of Inl e \<Rightarrow> (Inl e, w) | Inr r \<Rightarrow> (Inr (Some r), w)))"
  by (simp add: replay_def andthen_def tx_Dedupe_def read_db_def lift_def ret_def split: option.splits sum.splits)

lemma decodeDedupe_Inr:
  "decodeDedupe v h = Inr r \<longleftrightarrow>
   (\<exists>related. v = RequestResult (dd_id r) related h \<and> dd_related_id r = related \<and> dd_id r \<noteq> [] \<and> h \<noteq> [])"
  by (cases v) (auto intro: dedupeResult.equality)

text \<open>The four actions answer with the task they were asked to change.\<close>

definition names_task :: "taskMutation \<Rightarrow> bool" where
  "names_task mutate = (\<forall>task actor rq now w t w'. mutate task actor rq now w = (Inr t, w') \<longrightarrow> t_id t = t_id task)"

lemma wp_true: "wp m (\<lambda>_ _. True) = (\<lambda>_. True)"
  by (simp add: wp_def fun_eq_iff)

lemma names_task_def': "names_task mutate = (\<forall>task actor rq now w. wp (mutate task actor rq now) (\<lambda>t _. t_id t = t_id task) w)"
  by (auto simp: names_task_def wp_def)

lemma mutations_name_task:
  "names_task wakeMutation" "names_task retryMutation" "names_task (cancelMutation sv reason)"
  "names_task (reworkMutation reason)"
  by (simp_all add: names_task_def' wakeMutation_def retryMutation_def cancelMutation_def reworkMutation_def wp_simps
      wp_true Let_def requeued_def clearTaskAction_def)

text \<open>The checks of the arguments do not look at the store: they fail always or never.\<close>

definition action_dedupe :: "service \<Rightarrow> TaskActionInput \<Rightarrow> string \<Rightarrow> requestDedupe" where
  "action_dedupe sv i operation = \<lparr>rq_scope = [], rq_operation = operation,
     rq_request_id = trim_space (ta_request_id i),
     rq_input_hash = inputFingerprint sv
       [(''TaskID'', JString (trim_space (ta_task_id i))), (''Reason'', JString (trim_space (ta_reason i))),
        (''AckIDs'', joined_ids (sort (remdups (map trim_space (ta_ack_message_ids i)))))]\<rparr>"

lemma requests_served: "served sv w \<Longrightarrow> requests_lead sv w w' \<Longrightarrow> served sv w'"
  unfolding requests_lead_def
  by (rotate_tac, induction rule: rtranclp_induct) (auto intro: served.requested)

lemma applyTaskMutation_checked:
  assumes "applyTaskMutation sv i operation mutate w = (Inr t, w')" and "trim_space (ta_request_id i) \<noteq> []"
  shows "trim_space (ta_task_id i) \<noteq> [] \<and> applyTaskMutation sv i operation mutate =
    transact (applyTaskMutation_tx sv (ta_token i) (trim_space (ta_task_id i))
      (sort (remdups (map trim_space (ta_ack_message_ids i)))) (action_dedupe sv i operation) (mutate (ta_reason i)))"
  using assms
  by (auto simp: applyTaskMutation_def requireText_def optionalTextWithin_def canonicalMessageIDs_def request_id_def
      action_dedupe_def Let_def split: if_splits)

lemma inputFingerprint_nonempty: "\<forall>s. sv_sha256 sv s \<noteq> [] \<Longrightarrow> inputFingerprint sv parts \<noteq> []"
  by (cases "sv_sha256 sv (encode_json (JObject parts))") (auto simp: inputFingerprint_def)

text \<open>What the first execution leaves, and what the next one finds.\<close>

abbreviation boss_record :: "requestDedupe \<Rightarrow> requestDedupe" where
  "boss_record rq \<equiv> rq\<lparr>rq_scope := ''boss''\<rparr>"

lemma action_recorded:
  assumes run: "applyTaskMutation_tx sv token taskID ids rq mutate w = (Inr t, w')"
    and boss: "trim_space token = []" and names: "names_task mutate" and "taskID \<noteq> []" and "rq_input_hash rq \<noteq> []"
    and later: "evolves (w_db w) (w_db w')"
  shows "recorded (w_db w') (boss_record rq) (t_id t)"
proof (cases "dedupe_of (w_db w) ''boss'' (rq_operation rq) (rq_request_id rq)")
  case None
  obtain task u v actor now where task: "task_of (w_db w) taskID = Some task"
    and m: "mutate task actor (rq_request_id rq) now u = (Inr t, v)"
    and rec: "record_dedupe (boss_record rq) (t_id t) [] now v = (Inr (), w')"
    using run boss None
    by (auto simp: applyTaskMutation_tx_def taskActorForDedupe_def boss_actor_def andthen_success Let_def replay_success
        tx_Task_def read_db_success split: option.splits)
  have "t_id t = taskID"
    using names m row_SomeD [OF task] unfolding names_task_def by blast
  moreover have "task_of (w_db w') taskID \<noteq> None"
    using later task task_history.rows_evolve_later [of "d_tasks (w_db w)" "d_tasks (w_db w')" taskID]
    unfolding evolves_def by blast
  moreover have "\<exists>x related. dedupe_of (w_db w') ''boss'' (rq_operation rq) (rq_request_id rq) = Some x \<and>
      d_value x = RequestResult (t_id t) related (rq_input_hash rq)"
    using rec by (auto simp: record_dedupe_def tx_PutDedupe_def write_db_success dedupe_of_def find_last split: if_splits)
  ultimately show ?thesis using assms(4,5) by (simp add: recorded_def)
next
  case (Some x)
  have "(case decodeDedupe (d_value x) (rq_input_hash rq) of Inl e \<Rightarrow> (Inl e, w) | Inr r \<Rightarrow> tx_Task (dd_id r) w) = (Inr t, w')"
    using run boss Some
    by (simp add: applyTaskMutation_tx_def taskActorForDedupe_def boss_actor_def Let_def replay_run andthen_def ret_def
        split: sum.splits)
  then obtain r where "decodeDedupe (d_value x) (rq_input_hash rq) = Inr r" and t: "tx_Task (dd_id r) w = (Inr t, w')"
    by (auto split: sum.splits)
  moreover have "t_id t = dd_id r" using t by (auto simp: tx_Task_def read_db_success dest: row_SomeD)
  ultimately show ?thesis
    using Some by (auto simp: decodeDedupe_Inr tx_Task_def read_db_success recorded_def)
qed

lemma action_replayed:
  assumes "recorded (w_db w) (boss_record rq) ident" and "trim_space token = []"
  shows "\<exists>t. applyTaskMutation_tx sv token taskID ids rq mutate w = (Inr t, w) \<and> t_id t = ident"
proof -
  obtain x related t where "dedupe_of (w_db w) ''boss'' (rq_operation rq) (rq_request_id rq) = Some x"
      "d_value x = RequestResult ident related (rq_input_hash rq)" and t: "task_of (w_db w) ident = Some t"
    using assms(1) by (auto simp: recorded_def)
  then have "applyTaskMutation_tx sv token taskID ids rq mutate w = (Inr t, w)"
    using assms
    by (simp add: applyTaskMutation_tx_def taskActorForDedupe_def boss_actor_def Let_def replay_run andthen_def ret_def
        tx_Task_def read_db_def recorded_def found_def)
  then show ?thesis using row_SomeD [OF t] by blast
qed

lemma action_shape:
  assumes "action \<in> {WakeTask sv, RetryTask sv, CancelTask sv, ReworkTask sv}"
  shows "\<exists>operation mutate. action i = applyTaskMutation sv i operation mutate \<and> (\<forall>reason. names_task (mutate reason))"
proof -
  have shapes: "WakeTask sv i = applyTaskMutation sv i ''task.wake'' (\<lambda>_. wakeMutation)"
    "RetryTask sv i = applyTaskMutation sv i ''task.retry'' (\<lambda>_. retryMutation)"
    "CancelTask sv i = applyTaskMutation sv i ''task.cancel'' (cancelMutation sv)"
    "ReworkTask sv i = applyTaskMutation sv i ''task.rework'' reworkMutation"
    by (simp_all add: WakeTask_def RetryTask_def CancelTask_def ReworkTask_def)
  show ?thesis
    using assms
  proof (elim insertE emptyE)
    assume "action = WakeTask sv"
    then show ?thesis using shapes(1) mutations_name_task(1) by (intro exI [of _ "''task.wake''"] exI [of _ "\<lambda>_. wakeMutation"]) simp
  next
    assume "action = RetryTask sv"
    then show ?thesis using shapes(2) mutations_name_task(2) by (intro exI [of _ "''task.retry''"] exI [of _ "\<lambda>_. retryMutation"]) simp
  next
    assume "action = CancelTask sv"
    then show ?thesis using shapes(3) mutations_name_task(3) by blast
  next
    assume "action = ReworkTask sv"
    then show ?thesis using shapes(4) mutations_name_task(4) by blast
  qed
qed

lemma action_repeats:
  assumes "served sv w" and "0 \<le> sv_max_runs sv" and "\<forall>s. sv_sha256 sv s \<noteq> []"
    and "action \<in> {WakeTask sv, RetryTask sv, CancelTask sv, ReworkTask sv}"
    and "trim_space (ta_token i) = []" and "trim_space (ta_request_id i) \<noteq> []"
    and run: "action i w = (Inr t, w1)" and "requests_lead sv w1 w2"
  shows "\<exists>t'. action i w2 = (Inr t', w2) \<and> t_id t' = t_id t"
proof -
  obtain operation mutate where action: "action i = applyTaskMutation sv i operation mutate"
    and names: "\<And>reason. names_task (mutate reason)"
    using action_shape [OF assms(4)] by blast
  let ?rq = "action_dedupe sv i operation"
  let ?tx = "applyTaskMutation_tx sv (ta_token i) (trim_space (ta_task_id i))
    (sort (remdups (map trim_space (ta_ack_message_ids i)))) ?rq (mutate (ta_reason i))"
  have id: "trim_space (ta_task_id i) \<noteq> []" and tx: "action i = transact ?tx"
    using applyTaskMutation_checked [OF run [unfolded action] assms(6)] by (simp_all add: action)
  have hash: "rq_input_hash ?rq \<noteq> []"
    using inputFingerprint_nonempty [OF assms(3)] by (simp add: action_dedupe_def)
  have first: "?tx w = (Inr t, w1)" using run by (simp add: tx transact_success)
  have request: "request sv (effect (action i))"
    using assms(4) by (elim insertE emptyE) (simp_all only: request.intros)
  moreover have "snd (effect (action i) w) = w1" using run by (simp add: effect_world)
  ultimately have lead: "requests_lead sv w w1"
    unfolding requests_lead_def by blast
  have "recorded (w_db w1) (boss_record ?rq) (t_id t)"
    by (rule action_recorded [OF first assms(5) names id hash served_evolves [OF assms(1,2) lead]])
  moreover have "evolves (w_db w1) (w_db w2)"
    using assms(8) lead served_evolves [OF _ assms(2), of w1 w2] requests_served [OF assms(1)] by blast
  ultimately have "recorded (w_db w2) (boss_record ?rq) (t_id t)" by (rule recorded_later)
  from action_replayed [OF this assms(5)] show ?thesis
    unfolding tx by (simp add: transact_success)
qed

section \<open>What a deletion takes\<close>

text \<open>Exactly the rows of one task go, and none of its runs was live.\<close>

definition task_removed :: "db \<Rightarrow> string \<Rightarrow> db \<Rightarrow> bool" where
  "task_removed d ident d' =
     (d_tasks d' = filter (\<lambda>t. t_id t \<noteq> ident) (d_tasks d) \<and>
      d_runs d' = filter (\<lambda>r. r_task_id r \<noteq> ident) (d_runs d) \<and>
      d_messages d' = filter (\<lambda>m. m_task_id m \<noteq> ident) (d_messages d) \<and>
      d_projects d' = d_projects d \<and> d_agents d' = d_agents d \<and> d_roles d' = d_roles d \<and>
      d_participants d' = d_participants d \<and> d_bindings d' = d_bindings d \<and> d_credentials d' = d_credentials d \<and>
      (\<forall>r \<in> set (d_runs d). r_task_id r = ident \<longrightarrow> \<not> IsRunLive (r_state r)))"

lemma each_reject_holds:
  "each xs (\<lambda>x. reject (b x) (e x)) w = (Inr u, w') \<Longrightarrow> x \<in> set xs \<Longrightarrow> \<not> b x" for w :: world and e :: "'x \<Rightarrow> failure"
  by (induction xs) (auto simp: andthen_success)

lemma deleteTaskRows_removes:
  assumes "deleteTaskRows task actor reason dedupe now w = (Inr x, w')"
  shows "task_removed (w_db w) (t_id task) (w_db w') \<and> (\<exists>plan. x = Some plan \<and> dp_task_id plan = t_id task)"
proof -
  obtain runs w1 w2 w3 w4 w5 e where
      1: "tx_DeleteRunsByTask (t_id task) w = (Inr runs, w1)"
    and idle: "each runs (\<lambda>run. reject (IsRunLive (r_state run)) (run_conflict ACTION_IN_PROGRESS run)) w1 = (Inr (), w1)"
    and 2: "tx_DeleteMessagesByTask (t_id task) w1 = (Inr (), w2)"
    and 3: "tx_DeleteEventsByTask (t_id task) w2 = (Inr (), w3)"
    and 4: "emit (t_project_id task) TaskEntity (t_id task) ''task.deleted'' (ac_kind actor) (ac_id actor)
       (ac_run_id actor) (rq_request_id dedupe) []
       (eventPayload [(''reason'', JString (boundedDurableText reason MaximumOutcomeTextBytes)),
          (''run_count'', JInt (int (length runs)))]) now w3 = (Inr e, w4)"
    and 5: "tx_DeleteTask (t_id task) w4 = (Inr (), w5)"
    and 6: "record_dedupe dedupe (t_id task) [] now w5 = (Inr (), w')"
    and x: "\<exists>plan. x = Some plan \<and> dp_task_id plan = t_id task"
    using assms unfolding deleteTaskRows_def andthen_success
    by (elim exE conjE) (frule each_reject_success, simp)
  have "runs = filter (\<lambda>r. r_task_id r = t_id task) (d_runs (w_db w))"
    using 1 by (simp add: tx_DeleteRunsByTask_def delete_runs_def)
  then have "\<not> IsRunLive (r_state r)" if "r \<in> set (d_runs (w_db w))" "r_task_id r = t_id task" for r
    using each_reject_holds [OF idle, of r] that by simp
  then show ?thesis
    using x delete_events_success(1) [OF 3] record_success(1) [OF 4] record_success(2) [OF 6]
    by (auto simp: task_removed_def delete_success(1) [OF 1] delete_success(3) [OF 2] delete_success(5) [OF 5])
qed

lemma DeleteTask_tx_removes:
  assumes run: "DeleteTask_tx sv token taskID reason ids dedupe w = (Inr (Some plan), w')"
    and keys: "keys_distinct (w_db w)"
  shows "\<exists>t d. task_of (w_db w) (dp_task_id plan) = Some t \<and> IsTaskClosed (t_status t) \<and> t_current_run_id t = [] \<and>
    evolves_soundly (w_db w) d \<and> task_removed d (dp_task_id plan) (w_db w')"
proof -
  obtain task actor now rq d w0 w1 w2 where w0: "w_db w0 = w_db w"
      and task: "task_of (w_db w) taskID = Some task" "IsTaskClosed (t_status task)" "t_current_run_id task = []"
      and ack: "acknowledgeForActor ids (t_project_id task) actor rq now w0 = (Inr (), w1)"
      and release: "whenever (t_kind task = TaskIntegration \<and> t_source_task_id task \<noteq> [])
        (releaseIntegrationSource task actor rq now) w1 = (Inr (), w2)"
      and rows: "deleteTaskRows task actor reason d now w2 = (Inr (Some plan), w')"
    using run
    by (auto simp: DeleteTask_tx_def andthen_success Let_def tx_Task_def read_db_success
        taskActionAvailable_def split: option.splits
        dest!: pure_success [OF pure_service(3)] pure_success [OF pure_service(12)]
          pure_success [OF pure_service(13)] nowText_success)
  have e1: "evolves_soundly (w_db w) (w_db w1)"
    using links_soundly [OF acknowledgeForActor_links _ ack] keys w0 by simp
  moreover have "keys_distinct (w_db w1)" using e1 keys by (simp add: evolves_soundly_def evolves_def)
  then have "evolves_soundly (w_db w1) (w_db w2)"
    using release links_soundly [OF releaseIntegrationSource_links, of w1] evolves_soundly_refl
    by (auto split: if_splits)
  moreover have "dp_task_id plan = taskID" "task_removed (w_db w2) taskID (w_db w')"
    using deleteTaskRows_removes [OF rows] row_SomeD [OF task(1)] by auto
  ultimately show ?thesis using task evolves_soundly_trans by blast
qed

lemma DeleteTask_removes:
  assumes run: "DeleteTask sv i w = (Inr (Some plan), w')" and keys: "keys_distinct (w_db w)"
  shows "\<exists>t d. task_of (w_db w) (dp_task_id plan) = Some t \<and> IsTaskClosed (t_status t) \<and> t_current_run_id t = [] \<and>
    evolves_soundly (w_db w) d \<and> task_removed d (dp_task_id plan) (w_db w')"
proof -
  obtain taskID reason ids dedupe u where "w_db u = w_db w"
    and tx: "DeleteTask_tx sv (ta_token i) taskID reason ids dedupe u = (Inr (Some plan), w')"
    using run
    by (auto simp: DeleteTask_def andthen_success transact_success
        dest!: pure_success [OF pure_service(4)] pure_success [OF pure_service(5)] pure_success [OF pure_service(6)]
          pure_success [OF pure_service(2)])
  then show ?thesis using DeleteTask_tx_removes [OF tx] keys by simp
qed

end
