(* ===== verification/Execution.thy ===== *)
theory Execution
  imports Gc
begin

text \<open>
  Evaluation of an operation on a concrete world by the simplifier: each definition of an operation is
  applied to a world, and congruence rules keep the simplifier out of what has not been reached yet.
\<close>

lemma run_cong: "andthen m f = andthen m f"
  by (rule refl)

lemma run_cong_whenever: "b = b' \<Longrightarrow> whenever b n = whenever b' n"
  by simp

lemma run_cong_wrap: "wrap e m = wrap e m"
  by (rule refl)

lemma run_cong_transact: "transact m = transact m"
  by (rule refl)

lemmas run_congs = run_cong run_cong_whenever run_cong_wrap run_cong_transact let_weak_cong

lemma andthen_run: "andthen m f w = (case m w of (r, s) \<Rightarrow> (case r of Inl e \<Rightarrow> (Inl e, s) | Inr x \<Rightarrow> f x s))"
  by (simp add: andthen_def split: prod.split sum.split)

lemma basic_runs:
  "reject b e w = (if b then (Inl e, w) else (Inr (), w))" "ret x w = (Inr x, w)" "throw e w = (Inl e, w)"
  "lift r w = (r, w)" "whenever b n w = (if b then n w else (Inr (), w))" "read_db h w = (h (w_db w), w)"
  by (simp_all add: reject_def throw_def ret_def lift_def whenever_def read_db_def)

lemma write_run: "write_db g w = (case g (w_db w) of Inl e \<Rightarrow> (Inl e, w) | Inr d \<Rightarrow> (Inr (), w\<lparr>w_db := d\<rparr>))"
  by (simp add: write_db_def)

lemma transact_run:
  "transact m w = (case m w of (r, s) \<Rightarrow> (case r of Inl e \<Rightarrow> (Inl e, s\<lparr>w_db := w_db w\<rparr>) | Inr x \<Rightarrow> (Inr x, s)))"
  by (simp add: transact_def atomically_def split: prod.split sum.split)

lemma wrap_run: "wrap e m w = (case m w of (r, s) \<Rightarrow> (case r of Inl _ \<Rightarrow> (Inl e, s) | Inr x \<Rightarrow> (Inr x, s)))"
  by (simp add: wrap_def split: prod.split sum.split)

lemmas operation_runs =
  andthen_run basic_runs write_run transact_run wrap_run tx_Dedupe_def [THEN fun_cong]
  tx_PutDedupe_def [THEN fun_cong] tx_Project_def [THEN fun_cong] tx_ProjectByName_def [THEN
  fun_cong] tx_InsertProject_def [THEN fun_cong] tx_UpdateProject_def [THEN fun_cong]
  tx_ProjectsByIntegrationAgent_def [THEN fun_cong] tx_ProjectBlockers_def [THEN fun_cong]
  tx_Agent_def [THEN fun_cong] tx_InsertAgent_def [THEN fun_cong] tx_UpdateAgent_def [THEN fun_cong]
  tx_AgentBlockers_def [THEN fun_cong] tx_Task_def [THEN fun_cong] tx_RunnableTasks_def [THEN
  fun_cong] tx_Conversation_def [THEN fun_cong] tx_InsertTask_def [THEN fun_cong] tx_UpdateTask_def
  [THEN fun_cong] tx_Run_def [THEN fun_cong] tx_RunByTokenHash_def [THEN fun_cong] tx_InsertRun_def
  [THEN fun_cong] tx_UpdateRun_def [THEN fun_cong] tx_LiveRunCount_def [THEN fun_cong]
  tx_AgentRuntimeOccupancy_def [THEN fun_cong] tx_Message_def [THEN fun_cong] tx_MessagesForTask_def
  [THEN fun_cong] tx_MessagesForRun_def [THEN fun_cong] tx_MessagesForRecipient_def [THEN fun_cong]
  tx_PendingWakeAt_def [THEN fun_cong] tx_InsertMessage_def [THEN fun_cong] tx_UpdateMessage_def
  [THEN fun_cong] tx_AppendEvent_def [THEN fun_cong] tx_Role_def [THEN fun_cong] tx_Roles_def [THEN
  fun_cong] tx_InsertRole_def [THEN fun_cong] tx_UpdateRole_def [THEN fun_cong] tx_DeleteRole_def
  [THEN fun_cong] tx_RoleBindingCount_def [THEN fun_cong] tx_Participant_def [THEN fun_cong]
  tx_Participants_def [THEN fun_cong] tx_InsertParticipant_def [THEN fun_cong]
  tx_UpdateParticipant_def [THEN fun_cong] tx_ParticipantRoles_def [THEN fun_cong]
  tx_InsertParticipantRole_def [THEN fun_cong] tx_DeleteParticipantRole_def [THEN fun_cong]
  tx_Credential_def [THEN fun_cong] tx_Credentials_def [THEN fun_cong] tx_InsertCredential_def [THEN
  fun_cong] tx_UpdateCredential_def [THEN fun_cong] tx_SetParticipantCredential_def [THEN fun_cong]
  delete_runs_def [THEN fun_cong] tx_DeleteRunsByTask_def [THEN fun_cong] tx_DeleteRunsByProject_def
  [THEN fun_cong] tx_DeleteMessagesByTask_def [THEN fun_cong] tx_DeleteMessagesByProject_def [THEN
  fun_cong] tx_DeleteEventsByTask_def [THEN fun_cong] tx_DeleteEventsByProject_def [THEN fun_cong]
  tx_DeleteTask_def [THEN fun_cong] tx_DeleteTasksByProject_def [THEN fun_cong]
  tx_DeleteProjectBindings_def [THEN fun_cong] tx_DeleteProject_def [THEN fun_cong] nowText_def
  [THEN fun_cong] newID_def [THEN fun_cong] requiredID_def [THEN fun_cong] request_id_def [THEN
  fun_cong] external_def [THEN fun_cong] attempt_def [THEN fun_cong] authorized_def [THEN fun_cong]
  check_def [THEN fun_cong] replay_def [THEN fun_cong] record_dedupe_def [THEN fun_cong] emit_def
  [THEN fun_cong] requireText_def [THEN fun_cong] optionalTextWithin_def [THEN fun_cong]
  canonicalMessageIDs_def [THEN fun_cong] scopedRun_def [THEN fun_cong] loadMessages_def [THEN
  fun_cong] acknowledgeAgentMessage_def [THEN fun_cong] acknowledgeAgentMessages_def [THEN fun_cong]
  taskActionAvailable_def [THEN fun_cong] authenticateRun_def [THEN fun_cong] AuthorizeRunScope_def
  [THEN fun_cong] taskActorForDedupe_def [THEN fun_cong] authorizeTaskActor_def [THEN fun_cong]
  acknowledgeBossAction_def [THEN fun_cong] acknowledgeForActor_def [THEN fun_cong]
  insertMessage_def [THEN fun_cong] if_found_def [THEN fun_cong] rerouteMessage_def [THEN fun_cong]
  cancelUndeliverable_def [THEN fun_cong] disposeMessage_def [THEN fun_cong]
  disposeUnresolvedMessages_def [THEN fun_cong] wakeParent_def [THEN fun_cong]
  notifyParentOfChild_def [THEN fun_cong] wakeDeliveryTask_def [THEN fun_cong]
  explicitDeliveryTask_def [THEN fun_cong] conversationDeliveryTask_def [THEN fun_cong]
  agentDeliveryTask_def [THEN fun_cong] boss_message_request_def [THEN fun_cong]
  bossMessageFingerprint_def [THEN fun_cong] replayBossAgentMessage_def [THEN fun_cong]
  recordBossAgentMessage_def [THEN fun_cong] bossMessageScope_def [THEN fun_cong]
  project_is_active_def [THEN fun_cong] agent_not_archived_def [THEN fun_cong]
  sendBossAgentMessage_tx_def [THEN fun_cong] sendBossAgentMessage_def [THEN fun_cong] Chat_def
  [THEN fun_cong] SendBossMessage_def [THEN fun_cong] AcknowledgeBossMessage_tx_def [THEN fun_cong]
  AcknowledgeBossMessage_def [THEN fun_cong] ReadBossMessage_tx_def [THEN fun_cong]
  ReadBossMessage_def [THEN fun_cong] RetryMessage_tx_def [THEN fun_cong] RetryMessage_def [THEN
  fun_cong] runCanReadMessage_def [THEN fun_cong] agentMessageScope_def [THEN fun_cong]
  agentMessageTarget_def [THEN fun_cong] SendAgentMessage_tx_def [THEN fun_cong]
  SendAgentMessage_def [THEN fun_cong] deliverMessage_def [THEN fun_cong]
  RecordMessagesDelivered_tx_def [THEN fun_cong] RecordMessagesDelivered_def [THEN fun_cong]
  TaskForRun_def [THEN fun_cong] inbox_of_def [THEN fun_cong] Inbox_def [THEN fun_cong]
  InboxMessage_def [THEN fun_cong] AcknowledgeAgentMessages_tx_def [THEN fun_cong]
  AcknowledgeAgentMessages_def [THEN fun_cong] requireOperatorCapability_tx_def [THEN fun_cong]
  requireOperatorCapability_def [THEN fun_cong] validateRoleName_def [THEN fun_cong]
  CreateRole_tx_def [THEN fun_cong] CreateRole_def [THEN fun_cong] UpdateRole_tx_def [THEN fun_cong]
  UpdateRole_def [THEN fun_cong] DeleteRole_tx_def [THEN fun_cong] DeleteRole_def [THEN fun_cong]
  BindParticipantRole_tx_def [THEN fun_cong] BindParticipantRole_def [THEN fun_cong]
  participantManageHolders_def [THEN fun_cong] participantRetainsGlobalCapability_def [THEN
  fun_cong] UnbindParticipantRole_tx_def [THEN fun_cong] UnbindParticipantRole_def [THEN fun_cong]
  credentialInput_def [THEN fun_cong] issueCredential_def [THEN fun_cong] AddCredential_tx_def [THEN
  fun_cong] AddCredential_def [THEN fun_cong] RotateCredential_tx_def [THEN fun_cong]
  RotateCredential_def [THEN fun_cong] RevokeCredential_tx_def [THEN fun_cong] RevokeCredential_def
  [THEN fun_cong] AuthenticateOperator_def [THEN fun_cong] validateSourceTask_def [THEN fun_cong]
  validateRetryTarget_def [THEN fun_cong] normalizeWorkTask_def [THEN fun_cong] creationActor_def
  [THEN fun_cong] creationSource_def [THEN fun_cong] createWorkTask_snapshot_tx_def [THEN fun_cong]
  creationAssignee_def [THEN fun_cong] insertWorkTask_def [THEN fun_cong]
  createWorkTask_mutate_tx_def [THEN fun_cong] useSourceTaskRef_def [THEN fun_cong]
  createWorkTask_def [THEN fun_cong] CreateTask_def [THEN fun_cong] CreateChildTask_def [THEN
  fun_cong] applyTaskMutation_tx_def [THEN fun_cong] applyTaskMutation_def [THEN fun_cong]
  reenableExhausted_def [THEN fun_cong] wakeMutation_def [THEN fun_cong] WakeTask_def [THEN
  fun_cong] retryMutation_def [THEN fun_cong] RetryTask_def [THEN fun_cong] releaseSource_def [THEN
  fun_cong] stopCancelledRun_def [THEN fun_cong] cancelMutation_def [THEN fun_cong] CancelTask_def
  [THEN fun_cong] reworkMutation_def [THEN fun_cong] ReworkTask_def [THEN fun_cong]
  CompleteTask_tx_def [THEN fun_cong] CompleteTask_def [THEN fun_cong] cancelOnClose_def [THEN
  fun_cong] CloseConversation_tx_def [THEN fun_cong] CloseConversation_def [THEN fun_cong]
  releaseIntegrationSource_def [THEN fun_cong] deleteTaskRows_def [THEN fun_cong] DeleteTask_tx_def
  [THEN fun_cong] DeleteTask_def [THEN fun_cong] claimTask_def [THEN fun_cong] ClaimNext_tx_def
  [THEN fun_cong] ClaimNext_def [THEN fun_cong] RuntimeConfigFingerprint_def [THEN fun_cong]
  ReadAgentInstructions_def [THEN fun_cong] launchMessages_def [THEN fun_cong]
  RuntimeLaunchContext_def [THEN fun_cong] validateConfigFingerprint_def [THEN fun_cong]
  validateLaunch_def [THEN fun_cong] resumeFallbackSource_def [THEN fun_cong] BeginRunLaunch_tx_def
  [THEN fun_cong] BeginRunLaunch_def [THEN fun_cong] runtimeFactFence_def [THEN fun_cong]
  advanceRunPhase_tx_def [THEN fun_cong] advanceRunPhase_def [THEN fun_cong] setContainer_def [THEN
  fun_cong] RecordContainerCreated_def [THEN fun_cong] RecordRunStartIssued_def [THEN fun_cong]
  ObserveProcess_tx_def [THEN fun_cong] ObserveProcessAndActivateRun_def [THEN fun_cong]
  RecordRunSession_tx_def [THEN fun_cong] RecordRunSession_def [THEN fun_cong]
  RecordRunHeartbeat_tx_def [THEN fun_cong] RecordRunHeartbeat_def [THEN fun_cong]
  RecordRunCleanup_tx_def [THEN fun_cong] RecordRunCleanup_def [THEN fun_cong] CurrentTask_def [THEN
  fun_cong] Progress_tx_def [THEN fun_cong] Progress_def [THEN fun_cong] requestRunStop_tx_def [THEN
  fun_cong] requestRunStop_def [THEN fun_cong] RequestRunStop_def [THEN fun_cong]
  RequestRuntimeStop_def [THEN fun_cong] projectRuntimeFailure_def [THEN fun_cong]
  validateOutcomeFields_def [THEN fun_cong] validateOutcomeRequest_def [THEN fun_cong]
  replayOutcome_def [THEN fun_cong] RequestOutcome_snapshot_tx_def [THEN fun_cong]
  resolveSubmitHead_def [THEN fun_cong] applyOutcome_def [THEN fun_cong] RequestOutcome_def [THEN
  fun_cong] runtimeTerminalFence_def [THEN fun_cong] redeliverMessage_def [THEN fun_cong]
  redeliverRunMessages_def [THEN fun_cong] afterFailure_def [THEN fun_cong] projectTerminalTask_def
  [THEN fun_cong] projectTerminal_def [THEN fun_cong] RecordRunTerminal_tx_def [THEN fun_cong]
  RecordRuntimeRunTerminal_def [THEN fun_cong] acceptFacts_tx_def [THEN fun_cong]
  RequestAccept_snapshot_tx_def [THEN fun_cong] RequestAccept_apply_tx_def [THEN fun_cong]
  RequestAccept_def [THEN fun_cong] finalizeCapture_tx_def [THEN fun_cong] breakProject_def [THEN
  fun_cong] projectCaptureFailure_tx_def [THEN fun_cong] reconcileCapture_def [THEN fun_cong]
  updateCanonical_def [THEN fun_cong] completeSource_def [THEN fun_cong]
  finalizeSuccessfulAdvance_tx_def [THEN fun_cong] insertGitTaskMessage_def [THEN fun_cong]
  requeueIntegration_def [THEN fun_cong] createIntegration_def [THEN fun_cong]
  finalizeStaleAdvance_tx_def [THEN fun_cong] projectAdvanceInvariantFailure_tx_def [THEN fun_cong]
  reconcileAdvance_def [THEN fun_cong] PendingGitTasks_def [THEN fun_cong] joined_def [THEN
  fun_cong] reconcileGitTask_def [THEN fun_cong] ReconcileGit_def [THEN fun_cong] CheckoutTask_def
  [THEN fun_cong] finishProjectAction_tx_def [THEN fun_cong] finishProjectAction_def [THEN fun_cong]
  finish_unless_cancelled_def [THEN fun_cong] run_project_action_def [THEN fun_cong]
  dedupedProject_def [THEN fun_cong] replayed_project_def [THEN fun_cong]
  bindOperatorGlobalRoles_def [THEN fun_cong] AddProject_tx_def [THEN fun_cong] AddProject_def [THEN
  fun_cong] RepairProject_tx_def [THEN fun_cong] repair_action_def [THEN fun_cong] RepairProject_def
  [THEN fun_cong] finishActiveVerification_tx_def [THEN fun_cong] finishActiveVerification_def [THEN
  fun_cong] ProjectsByStatus_def [THEN fun_cong] unless_code_def [THEN fun_cong]
  reconcileCreating_def [THEN fun_cong] reconcileActive_def [THEN fun_cong] ReconcileProjects_def
  [THEN fun_cong] ArchiveProject_tx_def [THEN fun_cong] ArchiveProject_def [THEN fun_cong]
  deleteProjectRows_def [THEN fun_cong] DeleteProject_tx_def [THEN fun_cong] DeleteProject_def [THEN
  fun_cong] validateInstructionsSource_def [THEN fun_cong] optionalConfigToken_def [THEN fun_cong]
  optionalBaseURL_def [THEN fun_cong] validatedEffort_def [THEN fun_cong] validateAgentConfig_def
  [THEN fun_cong] mirrorAgentParticipantStatus_def [THEN fun_cong] agent_event_def [THEN fun_cong]
  AddAgent_tx_def [THEN fun_cong] AddAgent_def [THEN fun_cong] UpdateAgent_tx_def [THEN fun_cong]
  UpdateAgent_def [THEN fun_cong] SetAgentStatus_tx_def [THEN fun_cong] SetAgentStatus_def [THEN
  fun_cong] dropIntegrationAgent_def [THEN fun_cong] ArchiveAgent_tx_def [THEN fun_cong]
  ArchiveAgent_def [THEN fun_cong] TaskRefEligible_def [THEN fun_cong] TaskRefCandidates_def [THEN
  fun_cong] WorkspaceCandidates_def [THEN fun_cong] WorkspaceEligible_def [THEN fun_cong]
  LiveRuns_def [THEN fun_cong] RunsNeedingCleanup_def [THEN fun_cong] LatestTerminalRun_def [THEN
  fun_cong] TaskHasStartedRun_def [THEN fun_cong] retentionCutoff_def [THEN fun_cong]
  workspaceRetentionCutoff_def [THEN fun_cong] taskRefRetentionCutoff_def [THEN fun_cong]
  releaseSourceReference_tx_def [THEN fun_cong] collectTaskRef_def [THEN fun_cong]
  ReconcileGitGC_def [THEN fun_cong] collectWorkspace_def [THEN fun_cong] reconcileWorkspaceGC_def
  [THEN fun_cong] agent_home_authorization_def [THEN fun_cong] collectAgentHome_def [THEN fun_cong]
  reconcileAgentHomeGC_def [THEN fun_cong] gcDedupe_tx_def [THEN fun_cong] putGCDedupe_tx_def [THEN
  fun_cong] without_errors_def [THEN fun_cong] GCRun_def [THEN fun_cong] gcTask_def [THEN fun_cong]
  discard_workspace_authorization_def [THEN fun_cong] outcome_of_def [THEN fun_cong]
  GCDiscardWorkspace_def [THEN fun_cong] discard_ref_authorization_def [THEN fun_cong]
  GCDiscardTaskRef_def [THEN fun_cong] previewWorkspace_def [THEN fun_cong] previewTaskRef_def [THEN
  fun_cong] previewTask_def [THEN fun_cong] previewAgentHome_def [THEN fun_cong] GCPreview_op_def
  [THEN fun_cong]

lemmas function_runs =
  in_range_def space_runes_def trim_left_def trim_right_def trim_space_def int_text_def
  json_ascii_def replacement_def json_string_def eventPayload_def hex_value_def canonical_path_def
  token_char_def lower_char_def to_lower_def boundedStatusText_def truncation_suffix_def
  boundedDurableText_def RunIsolationSpecV1_def RunIsolationSpecCurrent_def IsTaskClosed_def
  IsTaskOpen_def IsRunLive_def IsRunTerminal_def NewError_def WrapError_def Conflict_def
  validateTransition_def ValidateProjectTransition_def ValidateAgentTransition_def
  ValidateRunTransition_def ValidateMessageTransition_def ValidateTaskTransition_def
  runtimeRetryDecision_def ValidateTaskOperation_def empty_db_def found_def cas_row_def
  insert_row_def on_success_def dedupe_of_def project_checks_def project_columns_def cas_project_def
  count_def unresolved_agent_message_def agent_checks_def agent_columns_def cas_agent_def
  open_conversation_def open_integration_def task_checks_def task_columns_def cas_task_def
  run_checks_def normalizedIsolationSpecVersion_def run_columns_def cas_run_def message_checks_def
  message_columns_def by_creation_def pending_wake_def cas_message_def MaximumEventPayloadBytes_def
  role_checks_def cas_role_def casResult_def cas_query_def participant_checks_def joined_binding_def roles_of_participant_def
  same_binding_def delete_tasks_def hashToken_def inputFingerprint_def joined_ids_def mk_event_def
  MaximumMessageBodyBytes_def MaximumTaskDescriptionBytes_def MaximumProgressSummaryBytes_def
  MaximumOutcomeTextBytes_def MaximumTerminalTextBytes_def text_maximum_def sortRunnable_def
  maximumBundledMessageIDs_def settled_by_ack_def taskAcceptsDelivery_def clearTaskAction_def
  stale_scope_def boss_actor_def runCanReadTask_def message_from_def delivery_eligible_def
  rerouted_delivery_at_def requeued_def child_result_body_def child_result_message_def
  conversationWakeMergeWindow_def second_def new_task_def conversation_literal_def boss_dedupe_def
  validTarget_def capabilityRegistry_def agentDefaultCapabilities_def knownCapability_def
  ParseCapabilities_def HasCapability_def CapabilityNames_def GlobalProjectID_def
  DefaultHumanParticipantID_def DefaultOwnerRoleID_def DefaultAgentRoleID_def
  operatorParticipant_def ParticipantCapabilities_def management_event_def last_active_def
  no_dedupe_def actorCanReadTask_def work_task_literal_def task_conflict_def run_conflict_def
  integrationSourceFence_def released_source_def mayJudge_def run_literal_def registered_def
  agent_fingerprint_input_def MaximumInstructionsBytes_def instructions_error_def
  start_selection_def SelectLaunchMode_def launchable_message_def sha256_size_def
  canonicalFingerprint_def normalized_launch_def sameLaunchIntent_def launched_run_def
  validCleanupTransition_def actor_text_def retry_shift_def run_state_upper_def
  runtimeFailureReason_def failure_decision_def outcome_dedupe_def task_source_def outcome_run_def
  outcome_task_def sameTerminalFact_def exhausted_def redelivered_message_def waited_task_def
  failed_by_outcome_def terminal_run_def released_by_terminal_def bounded_terminal_def
  accepted_task_def capture_intent_def sameCaptureFence_def captured_task_def self_accepted_def
  capture_failure_reason_def capture_failed_task_def broken_project_def sameAdvanceFence_def
  advanced_project_def integrated_task_def git_task_message_def requeued_integration_def
  integration_task_def linked_source_def advance_failed_task_def advance_intent_def
  projectIntent_def projectGitFailureText_def project_conflict_def finished_project_def
  no_git_fact_def git_fact_def git_error_def new_project_def repairing_def archived_project_def
  canonical_id_def normalizeAdapterDescriptor_def adapter_named_def bare_adapter_def
  build_registry_def NewService_def ListAdapters_def config_json_def
  agentChangedFieldNames_def agentFromConfig_def participantFromAgent_def applyAgentConfig_def
  applyParticipantConfig_def agent_conflict_def agent_with_status_def started_writer_def
  closed_before_def ref_blocker_def task_ref_eligible_def by_closing_def workspace_eligible_def
  expected_head_def delete_workspace_intent_def gitWorkspaceIntent_def delete_ref_intent_def
  source_released_def agentHomeReasons_def sorted_agents_def validateDiscardTask_def
  task_ref_name_def reasons_for_def gcWorkspaceReasons_def gcTaskRefReasons_def

lemma hex_digits:
  "hex_digit 0 = CHR ''0''"
  "hex_digit (Suc 0) = CHR ''1''"
  "hex_digit 2 = CHR ''2''"
  "hex_digit 3 = CHR ''3''"
  "hex_digit 4 = CHR ''4''"
  "hex_digit 5 = CHR ''5''"
  "hex_digit 6 = CHR ''6''"
  "hex_digit 7 = CHR ''7''"
  "hex_digit 8 = CHR ''8''"
  "hex_digit 9 = CHR ''9''"
  "hex_digit 10 = CHR ''a''"
  "hex_digit 11 = CHR ''b''"
  "hex_digit 12 = CHR ''c''"
  "hex_digit 13 = CHR ''d''"
  "hex_digit 14 = CHR ''e''"
  "hex_digit 15 = CHR ''f''"
  by code_simp+

lemma digit_chars:
  "digit_char 0 = CHR ''0''"
  "digit_char (Suc 0) = CHR ''1''"
  "digit_char 2 = CHR ''2''"
  "digit_char 3 = CHR ''3''"
  "digit_char 4 = CHR ''4''"
  "digit_char 5 = CHR ''5''"
  "digit_char 6 = CHR ''6''"
  "digit_char 7 = CHR ''7''"
  "digit_char 8 = CHR ''8''"
  "digit_char 9 = CHR ''9''"
  by code_simp+

lemmas runs = operation_runs function_runs hex_digits digit_chars strip.simps nat_text.simps utf8_valid.simps Let_def

end
