(* ===== verification/Scenario.thy ===== *)
theory Scenario
  imports Guarantees Execution
begin

text \<open>
  A concrete service and a history of requests on it, evaluated in the logic. It shows that the
  operations are executable as they are written, and it gives the inputs at which the theorems on
  reachable states are applied.
\<close>

definition demo_git :: git where
  "demo_git = \<lparr>g_preflight = \<lambda>_ source ref. Inr \<lparr>gf_source = source, gf_source_ref = ref, gf_initial_sha = ''s0'',
       gf_canonical_ref = ''c'', gf_canonical_sha = []\<rparr>,
     g_control_path = \<lambda>i. ''/c/'' @ i,
     g_initialize = \<lambda>_ i. Inr \<lparr>gf_source = gi_source i, gf_source_ref = gi_source_ref i,
       gf_initial_sha = gi_initial_sha i, gf_canonical_ref = gi_canonical_ref i, gf_canonical_sha = ''s0''\<rparr>,
     g_verify = \<lambda>_ i. Inr \<lparr>gf_source = gi_source i, gf_source_ref = gi_source_ref i,
       gf_initial_sha = gi_initial_sha i, gf_canonical_ref = gi_canonical_ref i, gf_canonical_sha = ''s0''\<rparr>,
     g_exists = \<lambda>_ _. True, g_resolve = \<lambda>_ _ _. Inr ''s0'',
     g_capture = \<lambda>_ i. Inr \<lparr>cf_head_sha = gc_expected_head i, cf_task_ref = ''r''\<rparr>,
     g_expand_head = \<lambda>_ i. Inr (gx_expected_head i), g_cleanup_capture = \<lambda>_ _. Inr (),
     g_advance = \<lambda>_ i. Inr \<lparr>af_outcome = GitAdvanceUpdated, af_actual_sha = ga_target_sha i\<rparr>,
     g_resolve_task_ref = \<lambda>_ i. Inr (gt_expected_sha i), g_use_task_ref = \<lambda>_ i. Inr (gt_expected_sha i),
     g_checkout = \<lambda>_ i. Inr \<lparr>ck_destination = gk_destination i, ck_head_sha = ''s1''\<rparr>,
     g_workspace_state = \<lambda>_ _. Inl StoreError, g_task_ref_state = \<lambda>_ _. Inl StoreError,
     g_delete_workspace = \<lambda>_ _. Asks (Inr True), g_discard_workspace = \<lambda>_ _. Asks (Inr True),
     g_delete_task_ref = \<lambda>_ _. Asks (Inr True)\<rparr>"

definition demo :: service where
  "demo = \<lparr>sv_now = int, sv_new_id = \<lambda>prefix n. Some (prefix @ replicate n CHR ''i''),
     sv_sha256 = \<lambda>s. take 32 (map byte s @ replicate 32 0), sv_base_url = Some,
     sv_instructions_file = \<lambda>_ _. Inr ''do'', sv_max_runs = 1,
     sv_adapters = [\<lparr>ad_id = ''a'', ad_name = ''a'', ad_execution_model = ''m'', ad_supports_resume = True,
       ad_supports_inject = False, ad_allowed_efforts = []\<rparr>],
     sv_git = demo_git, sv_task_git = True, sv_workspace_retention = 0, sv_task_ref_retention = 0,
     sv_agent_homes = None\<rparr>"

definition demo_start :: world where
  "demo_start = \<lparr>w_db = empty_db\<lparr>
     d_roles := [\<lparr>ro_id = DefaultOwnerRoleID, ro_name = ''owner'', ro_description = [],
       ro_capabilities = capabilityRegistry, ro_version = 1, ro_created_at = At 0, ro_updated_at = At 0\<rparr>],
     d_participants := [\<lparr>pa_id = operatorParticipant, pa_kind = Human, pa_display_name = ''o'',
       pa_status = AgentActive, pa_credential_id = [], pa_adapter_id = [], pa_image = [],
       pa_instructions_file = [], pa_instructions_text = [], pa_model = [], pa_subagent_model = [],
       pa_base_url = [], pa_effort = [], pa_version = 1, pa_created_at = At 0, pa_updated_at = At 0\<rparr>],
     d_bindings := [\<lparr>b_participant_id = operatorParticipant, b_project_id = GlobalProjectID,
       b_role_id = DefaultOwnerRoleID, b_role_name = ''owner'', b_capabilities = capabilityRegistry,
       b_version = 1, b_created_at = At 0, b_updated_at = At 0\<rparr>]\<rparr>,
     w_ids = 0, w_clock = 0, w_calls = 0\<rparr>"

definition demo_agent :: "agent op" where
  "demo_agent = AddAgent demo ''x'' \<lparr>cfg_display_name = ''x'', cfg_adapter_id = ''a'', cfg_image = ''i'',
     cfg_instructions_file = [], cfg_instructions_text = ''t'', cfg_model = [], cfg_subagent_model = [],
     cfg_base_url = [], cfg_effort = []\<rparr> ''1''"

definition demo_project :: "project op" where
  "demo_project = AddProject demo \<lparr>ap_name = ''p'', ap_source = ''s'', ap_source_ref = ''r'',
     ap_integration_agent_id = [], ap_request_id = ''2''\<rparr>"

definition demo_task :: "task op" where
  "demo_task = CreateTask demo \<lparr>ct_token = [], ct_project_id = ''prj'', ct_kind = [], ct_assignee_agent_id = ''x'',
     ct_assignee_participant_id = [], ct_title = ''t'', ct_description = [], ct_priority = 0,
     ct_max_retries = 1, ct_budget_seconds = 0, ct_source_task_id = [], ct_retry_of_task_id = [],
     ct_ack_message_ids = [], ct_request_id = ''3''\<rparr>"

definition demo_claim :: "Claim option op" where
  "demo_claim = ClaimNext demo []"

definition demo_cancel_input :: TaskActionInput where
  "demo_cancel_input = \<lparr>ta_token = [], ta_task_id = ''tskii'', ta_reason = ''r'', ta_ack_message_ids = [],
     ta_request_id = ''5''\<rparr>"

definition demo_delete_input :: TaskActionInput where
  "demo_delete_input = demo_cancel_input\<lparr>ta_request_id := ''6''\<rparr>"

definition demo_stop :: "run op" where
  "demo_stop = RequestRunStop demo ''runiii'' ''r'' ''4'' []"

text \<open>The requests in this order, from the fresh store: a task is planned, claimed, and its run stopped.\<close>

definition demo_planned :: world where
  "demo_planned = snd (effect demo_task (snd (effect demo_project (snd (effect demo_agent demo_start)))))"

definition demo_claimed :: world where
  "demo_claimed = snd (effect demo_claim demo_planned)"

definition demo_cancelled :: world where
  "demo_cancelled = snd (effect (CancelTask demo demo_cancel_input) demo_planned)"

definition demo_stopped :: world where
  "demo_stopped = snd (effect demo_stop demo_claimed)"

lemma demo_request [intro, simp]:
  "request demo (effect demo_agent)" "request demo (effect demo_project)"
  "request demo (effect demo_task)" "request demo (effect demo_claim)" "request demo (effect demo_stop)"
  "request demo (effect (CancelTask demo demo_cancel_input))"
  unfolding demo_agent_def demo_project_def demo_task_def demo_claim_def demo_stop_def by (rule request.intros)+

lemma demo_started [intro, simp]: "served demo demo_start"
  by (rule served.start) (simp_all add: demo_start_def empty_db_def)

lemma demo_served [intro, simp]: "served demo demo_planned" "served demo demo_claimed" "served demo demo_stopped"
  "served demo demo_cancelled"
  unfolding demo_stopped_def demo_claimed_def demo_cancelled_def demo_planned_def
  by (intro served.requested demo_started demo_request)+

lemma demo_leads [intro, simp]: "requests_lead demo demo_planned demo_stopped" "requests_lead demo demo_claimed demo_stopped"
proof -
  have "requests_lead demo demo_planned demo_claimed" and last: "requests_lead demo demo_claimed demo_stopped"
    unfolding requests_lead_def demo_claimed_def demo_stopped_def using demo_request by blast+
  then show "requests_lead demo demo_planned demo_stopped" "requests_lead demo demo_claimed demo_stopped"
    unfolding requests_lead_def by (blast intro: rtranclp_trans)+
qed

section \<open>Evaluation of the history\<close>

lemma demo_fields [simp]:
  "sv_now demo = int" "sv_new_id demo = (\<lambda>prefix n. Some (prefix @ replicate n CHR ''i''))"
  "sv_sha256 demo = (\<lambda>s. take 32 (map byte s @ replicate 32 0))" "sv_base_url demo = Some"
  "sv_instructions_file demo = (\<lambda>_ _. Inr ''do'')" "sv_max_runs demo = 1" "sv_git demo = demo_git"
  "sv_task_git demo" "sv_workspace_retention demo = 0" "sv_task_ref_retention demo = 0" "sv_agent_homes demo = None"
  "sv_adapters demo = [\<lparr>ad_id = ''a'', ad_name = ''a'', ad_execution_model = ''m'', ad_supports_resume = True,
       ad_supports_inject = False, ad_allowed_efforts = []\<rparr>]"
  by (simp_all add: demo_def)

lemma demo_sha256 [simp]: "sv_sha256 demo s \<noteq> []"
  by (cases s) simp_all

lemma demo_fingerprint [simp]: "inputFingerprint demo x \<noteq> []"
  by (cases "encode_json (JObject x)") (simp_all add: inputFingerprint_def)

lemma no_message_ids: "canonicalMessageIDs [] = ret []"
  by (simp add: canonicalMessageIDs_def)

lemmas demo_defs = demo_agent_def demo_project_def demo_task_def demo_claim_def demo_stop_def demo_cancel_input_def
  demo_delete_input_def demo_cancelled_def demo_start_def demo_planned_def demo_claimed_def demo_stopped_def demo_git_def empty_db_def put_row_def
  no_message_ids effect_world

lemma demo_texts [simp]:
  "trim_space (ta_token demo_cancel_input) = []" "trim_space (ta_request_id demo_cancel_input) \<noteq> []"
  by (simp_all add: runs demo_cancel_input_def cong: run_congs)

lemma demo_cancels: "\<exists>t. fst (CancelTask demo demo_cancel_input demo_planned) = Inr t"
  by (simp add: runs demo_defs cong: run_congs del: canonicalMessageIDs_def [THEN fun_cong] inputFingerprint_def)

lemma demo_deletes: "\<exists>plan. fst (DeleteTask demo demo_delete_input demo_cancelled) = Inr (Some plan)"
  by (simp add: runs demo_defs cong: run_congs del: canonicalMessageIDs_def [THEN fun_cong] inputFingerprint_def)

lemma demo_stopped_run:
  "\<exists>r. run_of (w_db demo_stopped) ''runiii'' = Some r \<and> r_token_revoked_at r \<noteq> NoStamp \<and>
     hashToken demo ''tokeniiii'' = r_token_hash r"
  by (simp add: runs demo_defs cong: run_congs del: canonicalMessageIDs_def [THEN fun_cong] inputFingerprint_def)

section \<open>A history that settles\<close>

text \<open>A message to the task, a run that ends before its container exists, and the task is cancelled, with its
  message. Then the task is planned anew.\<close>

definition demo_message :: "message op" where
  "demo_message = SendBossMessage demo \<lparr>bi_project_id = ''prj'', bi_agent_id = ''x'', bi_task_id = ''tskii'',
     bi_related_task_id = [], bi_body = ''b'', bi_wake = False, bi_reply_to = [], bi_ack_message_ids = [],
     bi_request_id = ''8''\<rparr>"

definition demo_terminal :: RunTerminalInput where
  "demo_terminal = \<lparr>rt_run_id = ''runiiii'', rt_generation = 1, rt_launch_nonce = [], rt_launch_operation_id = ''opiiiiii'',
     rt_container_id = [], rt_state = RunFailed, rt_exit_code = None, rt_terminal_reason = ''x'',
     rt_last_error = [], rt_runtime_error_code = [], rt_native_session_id = [], rt_request_id = ''9'',
     rt_operation_id = []\<rparr>"

definition demo_again :: "task op" where
  "demo_again = CreateTask demo \<lparr>ct_token = [], ct_project_id = ''prj'', ct_kind = [], ct_assignee_agent_id = ''x'',
     ct_assignee_participant_id = [], ct_title = ''t'', ct_description = [], ct_priority = 0,
     ct_max_retries = 1, ct_budget_seconds = 0, ct_source_task_id = [], ct_retry_of_task_id = ''tskii'',
     ct_ack_message_ids = [], ct_request_id = ''10''\<rparr>"

definition demo_settled :: world where
  "demo_settled = snd (effect (CancelTask demo demo_cancel_input) (snd (effect (RecordRuntimeRunTerminal demo demo_terminal)
     (snd (effect demo_claim (snd (effect demo_message demo_planned)))))))"

definition demo_replanned :: world where
  "demo_replanned = snd (effect demo_again demo_settled)"

lemma demo_settles [intro, simp]: "served demo demo_settled" "requests_lead demo demo_settled demo_replanned"
  "requests_lead demo demo_planned demo_settled"
proof -
  show "served demo demo_settled"
    unfolding demo_settled_def demo_message_def demo_claim_def by (intro served.requested demo_served request.intros)
  have sent: "request demo (effect demo_message)" "request demo (effect (RecordRuntimeRunTerminal demo demo_terminal))"
    unfolding demo_message_def by (rule request.intros)+
  have "requests_lead demo w w' \<Longrightarrow> request demo m \<Longrightarrow> requests_lead demo w (snd (m w'))" for w w' m
    unfolding requests_lead_def by (rule rtranclp.rtrancl_into_rtrancl) blast+
  moreover have "requests_lead demo demo_planned demo_planned" by (simp add: requests_lead_def)
  ultimately show "requests_lead demo demo_planned demo_settled"
    unfolding demo_settled_def using sent demo_request by simp
  have "request demo (effect demo_again)" unfolding demo_again_def by (rule request.intros)
  then show "requests_lead demo demo_settled demo_replanned"
    unfolding requests_lead_def demo_replanned_def by blast
qed

lemmas settled_defs = demo_defs demo_message_def demo_terminal_def demo_again_def demo_settled_def demo_replanned_def




text \<open>The states of all rows, evaluated at once.\<close>

definition row_states :: "db \<Rightarrow> (string \<times> task_status) list \<times> (string \<times> run_state) list \<times> (string \<times> message_state) list" where
  "row_states d = (map (\<lambda>t. (t_id t, t_status t)) (d_tasks d), map (\<lambda>r. (r_id r, r_state r)) (d_runs d),
     map (\<lambda>m. (m_id m, m_state m)) (d_messages d))"

lemma demo_settled_states:
  "row_states (w_db demo_settled) = ([(''tskii'', TaskCancelled)], [(''runiiii'', RunFailed)], [(''msgiii'', MessageCancelled)])"
  by (simp add: runs settled_defs row_states_def cong: run_congs del: canonicalMessageIDs_def [THEN fun_cong] inputFingerprint_def hashToken_def)
lemma demo_settled_rows:
  "\<exists>t. task_of (w_db demo_settled) ''tskii'' = Some t \<and> t_status t = TaskCancelled"
  "\<exists>r. run_of (w_db demo_settled) ''runiiii'' = Some r \<and> r_state r = RunFailed"
  "\<exists>m. message_of (w_db demo_settled) ''msgiii'' = Some m \<and> m_state m = MessageCancelled"
  using demo_settled_states by (auto simp: row_states_def map_eq_Cons_conv row_def)

section \<open>A world with a busy agent\<close>

text \<open>One active run of one task, with a message delivered to it.\<close>

definition busy_project :: project where
  "busy_project = \<lparr>p_id = ''P'', p_name = ''p'', p_source = ''s'', p_source_ref = ''r'', p_initial_sha = ''a'',
     p_control_repo_path = ''/c'', p_canonical_ref = ''c'', p_canonical_sha = ''a'', p_integration_agent_id = [],
     p_status = ProjectActive, p_pending_action = NoProjectAction, p_pending_action_id = [],
     p_pending_started_at = NoStamp, p_last_error = [], p_version = 1, p_created_at = At 0, p_updated_at = At 0\<rparr>"

definition busy_agent :: agent where
  "busy_agent = \<lparr>a_id = ''A'', a_display_name = ''a'', a_adapter_id = ''a'', a_image = ''i'',
     a_instructions_file = [], a_instructions_text = ''t'', a_model = [], a_subagent_model = [], a_base_url = [],
     a_effort = [], a_status = AgentActive, a_version = 1, a_created_at = At 0, a_updated_at = At 0\<rparr>"

definition busy_task :: task where
  "busy_task = (new_task ''T'' ''P'' TaskWork TaskRunning Boss [] (At 0))
     \<lparr>t_assignee_agent_id := ''A'', t_current_run_id := ''R'', t_generation := 1, t_max_retries := 1\<rparr>"

definition busy_run :: run where
  "busy_run = (run_literal demo ''R'' ''k'' ''O'' busy_task busy_agent (At 0))
     \<lparr>r_state := RunActive, r_launch_phase := LaunchProcessObserved, r_launch_nonce := ''N'',
      r_container_id := ''C'', r_cleanup_operation_id := ''U'', r_cleanup_state := CleanupPending\<rparr>"

definition busy_message :: message where
  "busy_message = \<lparr>m_id = ''M'', m_project_id = ''P'', m_task_id = ''T'', m_related_task_id = [],
     m_sender_kind = Boss, m_sender_id = [], m_recipient_kind = AgentActor, m_recipient_id = ''A'',
     m_recipient_participant_id = ''A'', m_reply_to_message_id = [], m_system_code = [], m_body = ''b'',
     m_wake = True, m_state = MessageDelivered, m_delivered_run_id = ''R'', m_delivery_count = 1,
     m_max_deliveries = 3, m_next_delivery_at = NoStamp, m_last_delivery_error = [], m_idempotency_key = ''i'',
     m_version = 2, m_created_at = At 0, m_delivered_at = At 0, m_acknowledged_at = NoStamp\<rparr>"

definition busy :: world where
  "busy = \<lparr>w_db = empty_db\<lparr>d_projects := [busy_project], d_agents := [busy_agent], d_tasks := [busy_task],
     d_runs := [busy_run], d_messages := [busy_message]\<rparr>, w_ids = 0, w_clock = 0, w_calls = 0\<rparr>"

definition busy_terminal :: RunTerminalInput where
  "busy_terminal = \<lparr>rt_run_id = ''R'', rt_generation = 1, rt_launch_nonce = ''N'', rt_launch_operation_id = ''O'',
     rt_container_id = ''C'', rt_state = RunExited, rt_exit_code = Some 1, rt_terminal_reason = ''x'',
     rt_last_error = [], rt_runtime_error_code = [], rt_native_session_id = [], rt_request_id = ''q'',
     rt_operation_id = ''o''\<rparr>"

lemmas busy_defs = busy_def busy_terminal_def busy_run_def busy_task_def busy_agent_def busy_message_def
  busy_project_def empty_db_def put_row_def

end
