(* ===== verification/Values.thy ===== *)
theory Values
  imports Requests Scenario
begin

text \<open>
  Properties of the functions that compute values: bounded texts, digests of requests, lists of
  message identifiers, the order in which tasks are claimed, the retry schedule, capability lists
  and the choice between a fresh and a resumed session. Each is stated against a specification
  that does not mention how the code computes it.
\<close>

section \<open>Texts and digests\<close>

lemma utf8_size_append: "utf8_size s \<noteq> 0 \<Longrightarrow> utf8_size (s @ t) = utf8_size s"
proof (cases s)
  case (Cons a rest)
  assume size: "utf8_size s \<noteq> 0"
  consider "byte a < 128" | "\<not> byte a < 128" "in_range 194 223 a"
    | "\<not> byte a < 128" "\<not> in_range 194 223 a" "in_range 224 239 a"
    | "\<not> byte a < 128" "\<not> in_range 194 223 a" "\<not> in_range 224 239 a" by blast
  then show ?thesis
  proof cases
    case 2
    then show ?thesis using size Cons by (cases rest) auto
  next
    case 3
    then show ?thesis using size Cons by (cases rest; cases "tl rest") auto
  next
    case 4
    then show ?thesis using size Cons by (cases rest; cases "tl rest"; cases "tl (tl rest)") (auto split: if_splits)
  qed (simp add: Cons)
qed simp

lemma utf8_valid_append: "utf8_valid s \<Longrightarrow> utf8_valid t \<Longrightarrow> utf8_valid (s @ t)"
proof (induction s rule: utf8_valid.induct)
  case (1 s)
  show ?case
  proof (cases "s = []")
    case False
    then have size: "utf8_size s \<noteq> 0" and rest: "utf8_valid (drop (utf8_size s) s)"
      using 1(2) by (subst (asm) utf8_valid.simps, simp split: if_splits)+
    then have "utf8_valid (drop (utf8_size s) s @ t)" using 1 False by blast
    then show ?thesis
      using size False utf8_size_append [OF size, of t] utf8_size_le [of s]
      by (subst utf8_valid.simps) simp
  qed (use 1 in simp)
qed

lemma truncation_suffix_valid: "utf8_valid truncation_suffix"
  by code_simp

text \<open>C19. A durable text never exceeds its limit, is well-formed UTF-8 whenever it was cut or the text was,
  and is the trimmed text itself when that fits.\<close>

theorem boundedDurableText_bounded:
  assumes "length truncation_suffix \<le> limit"
  shows "length (boundedDurableText value limit) \<le> limit \<and>
    (utf8_valid (trim_space value) \<or> limit < length (trim_space value) \<longrightarrow> utf8_valid (boundedDurableText value limit)) \<and>
    (length (trim_space value) \<le> limit \<longrightarrow> boundedDurableText value limit = trim_space value)"
proof -
  have "length (chop_valid (take (limit - length truncation_suffix) (trim_space value))) \<le> limit - length truncation_suffix"
    by (rule le_trans [OF length_chop_valid]) simp
  then show ?thesis
    using assms chop_valid_valid truncation_suffix_valid
    by (auto simp: boundedDurableText_def Let_def utf8_valid_append)
qed

theorem boundedDurableText_bounded_witness:
  "length (boundedDurableText ''abcdefghijklmnopqr'' 16) \<le> 16"
  using boundedDurableText_bounded [of 16 "''abcdefghijklmnopqr''"] by (simp add: truncation_suffix_def)

section \<open>The order of claims\<close>

text \<open>A task that can be claimed: it is queued without a run, due, has an agent, and its project and its agent are
  active; the agent is free and the limit of live runs leaves room.\<close>

definition claimable :: "service \<Rightarrow> db \<Rightarrow> stamp \<Rightarrow> string \<Rightarrow> task \<Rightarrow> bool" where
  "claimable sv d now projectID t =
     (t \<in> set (d_tasks d) \<and> (projectID = [] \<or> t_project_id t = projectID) \<and> t_status t = TaskQueued \<and>
      t_current_run_id t = [] \<and> t_assignee_agent_id t \<noteq> [] \<and> t_next_run_at t \<le> now \<and>
      (\<exists>p. project_of d (t_project_id t) = Some p \<and> p_status p = ProjectActive) \<and>
      (\<exists>a. agent_of d (t_assignee_agent_id t) = Some a \<and> a_status a = AgentActive \<and>
         (\<forall>r \<in> set (d_runs d). r_agent_id r = trim_space (a_id a) \<longrightarrow>
            \<not> IsRunLive (r_state r) \<and> r_cleanup_state r \<noteq> CleanupPending \<and> r_cleanup_state r \<noteq> CleanupBlocked)) \<and>
      int (live_runs d) < sv_max_runs sv)"

text \<open>Higher priority first, the older one among equal priorities, the smaller identifier among equally old ones.\<close>

definition claimed_before :: "task \<Rightarrow> task \<Rightarrow> bool" where
  "claimed_before t u =
     (t_priority u < t_priority t \<or>
      t_priority u = t_priority t \<and> (t_created_at t < t_created_at u \<or>
        t_created_at t = t_created_at u \<and> t_id t \<le> t_id u))"

lemma sortRunnable_order: "set (sortRunnable tasks) = set tasks \<and> sorted_wrt claimed_before (sortRunnable tasks)"
proof
  show "set (sortRunnable tasks) = set tasks" by (simp add: sortRunnable_def)
  have "sorted (map (\<lambda>t. (- t_priority t, t_created_at t, t_id t)) (sortRunnable tasks))"
    by (simp add: sortRunnable_def)
  then show "sorted_wrt claimed_before (sortRunnable tasks)"
    unfolding sorted_map by (rule sorted_wrt_mono_rel [rotated]) (auto simp: less_eq_prod_def claimed_before_def)
qed

lemma no_occupancy: "(count P xs = 0) = (\<forall>x \<in> set xs. \<not> P x)"
  by (auto simp: count_def filter_empty_conv)

lemmas read_success = tx_Project_def tx_Task_def tx_Agent_def tx_AgentRuntimeOccupancy_def tx_LiveRunCount_def
  read_db_success found_def

text \<open>What \<open>claimFirst\<close> does with a list of tasks that are stored as they are.\<close>

lemma claimFirst_result:
  assumes "claimFirst sv now ts w = (Inr claimed, w')"
    and "\<forall>t \<in> set ts. task_of (w_db w) (t_id t) = Some t \<and> (projectID = [] \<or> t_project_id t = projectID)"
  shows "case claimed of
      None \<Rightarrow> w' = w \<and> (\<forall>t \<in> set ts. \<not> claimable sv (w_db w) now projectID t)
    | Some c \<Rightarrow> \<exists>skipped t rest agent. ts = skipped @ t # rest \<and> claimTask sv t agent w = (Inr c, w') \<and>
        claimable sv (w_db w) now projectID t \<and> (\<forall>u \<in> set skipped. \<not> claimable sv (w_db w) now projectID u)"
  using assms
proof (induction ts)
  case Nil
  then show ?case by (simp add: ret_def)
next
  case (Cons t ts)
  have stored: "task_of (w_db w) (t_id t) = Some t" "projectID = [] \<or> t_project_id t = projectID"
    using Cons.prems(2) by simp_all
  then have member: "t \<in> set (d_tasks (w_db w))" by (auto dest: row_SomeD)
  have skip: ?case if "claimFirst sv now ts w = (Inr claimed, w')" "\<not> claimable sv (w_db w) now projectID t"
  proof -
    from Cons.IH [OF that(1)] Cons.prems(2) have IH: "case claimed of
      None \<Rightarrow> w' = w \<and> (\<forall>t \<in> set ts. \<not> claimable sv (w_db w) now projectID t)
    | Some c \<Rightarrow> \<exists>skipped t rest agent. ts = skipped @ t # rest \<and> claimTask sv t agent w = (Inr c, w') \<and>
        claimable sv (w_db w) now projectID t \<and> (\<forall>u \<in> set skipped. \<not> claimable sv (w_db w) now projectID u)" by simp
    show ?thesis
    proof (cases claimed)
      case (Some c)
      then obtain skipped u rest agent where "ts = skipped @ u # rest" "claimTask sv u agent w = (Inr c, w')"
        "claimable sv (w_db w) now projectID u" "\<forall>v \<in> set skipped. \<not> claimable sv (w_db w) now projectID v"
        using IH by auto
      then have "t # ts = (t # skipped) @ u # rest \<and> claimTask sv u agent w = (Inr c, w') \<and>
        claimable sv (w_db w) now projectID u \<and> (\<forall>v \<in> set (t # skipped). \<not> claimable sv (w_db w) now projectID v)"
        using that(2) by simp
      then show ?thesis unfolding Some option.case by blast
    qed (use IH that in simp)
  qed
  show ?case
  proof (cases "claimable sv (w_db w) now projectID t")
    case False
    moreover have "claimFirst sv now ts w = (Inr claimed, w')"
      using Cons.prems(1) False stored member
      by (auto simp: andthen_success read_success claimable_def live_runs_def no_occupancy reject_def throw_def ret_def
          not_less split: if_splits option.splits)
    ultimately show ?thesis by (rule skip [rotated])
  next
    case True
    then obtain c agent where "claimed = Some c" "claimTask sv t agent w = (Inr c, w')"
      using Cons.prems(1) stored
      by (auto simp: andthen_success read_success claimable_def live_runs_def no_occupancy reject_def throw_def ret_def
          split: if_splits option.splits)
    then have "t # ts = [] @ t # ts \<and> claimTask sv t agent w = (Inr c, w') \<and> claimed = Some c" by simp
    with True show ?thesis by fastforce
  qed
qed

lemma claimTask_claims:
  assumes "claimTask sv t agent w = (Inr c, w')"
  shows "t_id (cl_task c) = t_id t \<and> r_task_id (cl_run c) = t_id t \<and> cl_run c \<in> set (d_runs (w_db w')) \<and> IsRunLive (r_state (cl_run c))"
proof -
  obtain runID token operationID t' now w1 w2 where
      "tx_InsertRun (run_literal sv runID token operationID t' agent now) w1 = (Inr (), w2)"
      and c: "t_id t' = t_id t" "t_id (cl_task c) = t_id t" "cl_run c = run_literal sv runID token operationID t' agent now"
      and "d_runs (w_db w') = d_runs (w_db w2)"
    using assms
    by (auto simp: claimTask_def andthen_success Let_def ret_def tx_UpdateTask_def write_db_success cas_task_Inr
        dest!: requiredID_success nowText_success emit_success)
  then have "cl_run c \<in> set (d_runs (w_db w'))"
    using tx_InsertRun_success [of "cl_run c" w1 "()" w2] by (simp add: run_literal_def RunIsolationSpecCurrent_def)
  then show ?thesis using c by (simp add: run_literal_def IsRunLive_def)
qed

text \<open>C17. A claim takes the first task, in the order of claims, of those that can be claimed, and makes a live run of it; it takes
  none exactly when no task can be claimed, and then the database stays as it is.\<close>

theorem claim_takes_first:
  assumes "served sv w" and "0 \<le> sv_max_runs sv" and "ClaimNext sv projectID w = (Inr claimed, w')"
  shows "case claimed of
      None \<Rightarrow> w_db w' = w_db w \<and> (\<forall>u. \<not> claimable sv (w_db w) (At (sv_now sv (w_clock w))) (trim_space projectID) u)
    | Some c \<Rightarrow> \<exists>t. claimable sv (w_db w) (At (sv_now sv (w_clock w))) (trim_space projectID) t \<and>
        t_id (cl_task c) = t_id t \<and> r_task_id (cl_run c) = t_id t \<and> cl_run c \<in> set (d_runs (w_db w')) \<and>
        IsRunLive (r_state (cl_run c)) \<and>
        (\<forall>u. claimable sv (w_db w) (At (sv_now sv (w_clock w))) (trim_space projectID) u \<longrightarrow> u = t \<or> claimed_before t u)"
proof -
  define now where "now = At (sv_now sv (w_clock w))"
  define w1 where "w1 = w\<lparr>w_clock := Suc (w_clock w)\<rparr>"
  define ts where "ts = sortRunnable (filter (\<lambda>t. t_status t = TaskQueued \<and> t_current_run_id t = [] \<and>
        (trim_space projectID = [] \<or> t_project_id t = trim_space projectID)) (d_tasks (w_db w)))"
  have keys: "keys_distinct (w_db w)" using served_ok(4) [OF assms(1,2)] .
  have db: "w_db w1 = w_db w" by (simp add: w1_def)
  have run: "claimFirst sv now ts w1 = (Inr claimed, w')"
    using assms(3) by (simp add: ClaimNext_def ClaimNext_tx_def nowText_def andthen_success transact_success tx_RunnableTasks_def
        read_db_success now_def w1_def ts_def)
  have set: "t \<in> set ts" if "claimable sv (w_db w) now (trim_space projectID) t" for t
    using that sortRunnable_order by (auto simp: ts_def claimable_def)
  have "\<forall>t \<in> set ts. task_of (w_db w1) (t_id t) = Some t \<and> (trim_space projectID = [] \<or> t_project_id t = trim_space projectID)"
    using keys sortRunnable_order by (auto simp: ts_def db keys_distinct_def intro: row_in_set)
  note result = claimFirst_result [OF run this, unfolded db]
  show ?thesis
  proof (cases claimed)
    case None
    then show ?thesis using result set db by (auto simp: now_def)
  next
    case (Some c)
    then obtain skipped t rest agent where split: "ts = skipped @ t # rest" and claim: "claimTask sv t agent w1 = (Inr c, w')"
      and t: "claimable sv (w_db w) now (trim_space projectID) t"
      and skipped: "\<forall>u \<in> set skipped. \<not> claimable sv (w_db w) now (trim_space projectID) u"
      using result by auto
    have "u = t \<or> claimed_before t u" if "claimable sv (w_db w) now (trim_space projectID) u" for u
    proof -
      have "u \<in> set skipped \<or> u = t \<or> u \<in> set rest" using set [OF that] split by auto
      moreover have "sorted_wrt claimed_before ts" using sortRunnable_order by (simp add: ts_def)
      ultimately show ?thesis using skipped that split by (auto simp: sorted_wrt_append)
    qed
    with t claimTask_claims [OF claim] show ?thesis unfolding Some option.case now_def [symmetric] by blast
  qed
qed

lemma demo_claims: "\<exists>c. fst (ClaimNext demo [] demo_planned) = Inr (Some c)"
  by (simp add: runs demo_defs cong: run_congs del: canonicalMessageIDs_def [THEN fun_cong] inputFingerprint_def)

theorem claim_takes_first_witness:
  "\<exists>c w' t. ClaimNext demo [] demo_planned = (Inr (Some c), w') \<and>
     claimable demo (w_db demo_planned) (At (sv_now demo (w_clock demo_planned))) (trim_space []) t \<and>
     t_id (cl_task c) = t_id t \<and> cl_run c \<in> set (d_runs (w_db w'))"
proof -
  obtain c w' where claim: "ClaimNext demo [] demo_planned = (Inr (Some c), w')"
    using demo_claims by (metis prod.collapse)
  then show ?thesis using claim_takes_first [of demo demo_planned "[]" "Some c" w'] by auto
qed



section \<open>Bundles of message identifiers\<close>

text \<open>C20. \<open>canonicalMessageIDs\<close> accepts a bundle if and only if it has at most the maximum number of identifiers and none is
  blank, and it returns the strictly ascending list of exactly the trimmed identifiers.\<close>

theorem canonicalMessageIDs_iff:
  "canonicalMessageIDs vs w = (Inr ids, w') \<longleftrightarrow>
   w' = w \<and> length vs \<le> maximumBundledMessageIDs \<and> [] \<notin> trim_space ` set vs \<and>
   sorted_wrt (<) ids \<and> set ids = trim_space ` set vs"
proof -
  have "ids = sort (remdups (map trim_space vs)) \<longleftrightarrow> sorted_wrt (<) ids \<and> set ids = trim_space ` set vs"
    by (auto simp: strict_sorted_iff intro: sorted_distinct_set_unique)
  moreover have "[] \<in> trim_space ` set vs \<longleftrightarrow> (\<exists>v \<in> set vs. trim_space v = [])" by force
  ultimately show ?thesis
    by (auto simp: canonicalMessageIDs_def throw_def ret_def)
qed

section \<open>The retry schedule\<close>

text \<open>C18. Whatever the number of earlier retries, the next attempt is due at least one and at most 32 seconds later.\<close>

theorem runtimeRetryAt_bounds:
  "\<exists>j. runtimeRetryAt (At i) n = At j \<and> i + second \<le> j \<and> j \<le> i + 32 * second"
proof -
  have "retry_shift n \<le> 5" by (simp add: retry_shift_def Let_def) linarith
  then have "(2::int) ^ retry_shift n \<le> 2 ^ 5" by (intro power_increasing) auto
  then show ?thesis by (simp add: second_def)
qed

section \<open>Capability lists\<close>

lemma parse_capabilities_cases:
  "distinct parsed \<Longrightarrow>
   (case parse_capabilities names parsed of
      Inl _ \<Rightarrow> \<not> trim_space ` set names - {[]} \<subseteq> set capabilityRegistry
    | Inr cs \<Rightarrow> trim_space ` set names - {[]} \<subseteq> set capabilityRegistry \<and> distinct cs \<and>
        set cs = set parsed \<union> (trim_space ` set names - {[]}))"
proof (induction names parsed rule: parse_capabilities.induct)
  case (2 name names parsed)
  consider "trim_space name = []" | "trim_space name \<noteq> []" "trim_space name \<notin> set capabilityRegistry"
    | "trim_space name \<noteq> []" "trim_space name \<in> set capabilityRegistry" "trim_space name \<in> set parsed"
    | "trim_space name \<noteq> []" "trim_space name \<in> set capabilityRegistry" "trim_space name \<notin> set parsed" by blast
  then show ?case
    using 2 by cases (auto simp: knownCapability_def Let_def split: sum.splits)
qed auto

text \<open>C21. \<open>ParseCapabilities\<close> accepts a list of names if and only if every name that is not blank is a known capability,
  and it returns the strictly ascending list of exactly those names.\<close>

theorem ParseCapabilities_iff:
  "ParseCapabilities names = Inr cs \<longleftrightarrow>
   sorted_wrt (<) cs \<and> set cs = trim_space ` set names - {[]} \<and> set cs \<subseteq> set capabilityRegistry"
proof (cases "parse_capabilities names []")
  case (Inl e)
  then show ?thesis
    using parse_capabilities_cases [of "[]" names] by (auto simp: ParseCapabilities_def on_success_def)
next
  case (Inr ds)
  then have ds: "distinct ds" "set ds = trim_space ` set names - {[]}" "set ds \<subseteq> set capabilityRegistry"
    using parse_capabilities_cases [of "[]" names] by auto
  have "cs = sort ds" if "sorted_wrt (<) cs" "set cs = set ds"
    using that ds(1) by (intro sorted_distinct_set_unique) (auto simp: strict_sorted_iff)
  moreover have "sorted_wrt (<) (sort ds)" using ds(1) by (simp add: strict_sorted_iff)
  ultimately show ?thesis
    using Inr ds by (auto simp: ParseCapabilities_def on_success_def)
qed

section \<open>Launch mode\<close>

text \<open>C22. A run resumes an earlier session if and only if the adapter can resume, judges the two launches compatible, the
  earlier run exists and both launches have the same adapter, agent, task and workspace, the configuration
  fingerprint is known and unchanged, and the earlier session is named and was not reported lost.\<close>

theorem SelectLaunchMode_resumes_iff:
  "lm_mode (SelectLaunchMode supports compatible previous was now fingerprint) = ResumeMode \<longleftrightarrow>
   supports \<and> (\<exists>c. compatible = Some c \<and> c was now) \<and> r_id previous \<noteq> [] \<and>
   ls_adapter_id was = ls_adapter_id now \<and> ls_agent_id was = ls_agent_id now \<and>
   ls_task_id was = ls_task_id now \<and> ls_workspace_id was = ls_workspace_id now \<and>
   fingerprint \<noteq> [] \<and> r_config_fingerprint previous = fingerprint \<and>
   r_runtime_error_code previous \<noteq> ''RESUME_UNAVAILABLE'' \<and> r_native_session_id previous \<noteq> []"
  by (auto simp: SelectLaunchMode_def start_selection_def split: option.splits)

end
