(* ===== verification/Access.thy ===== *)
theory Access
  imports Requests Scenario
begin

text \<open>
  Who may do what: the authentication of a run by its token, the capabilities that the role
  bindings give a participant, the gate in front of the operations of the operator, the rule that
  somebody can always manage participants, and the version check that detects a lost update.
\<close>

section \<open>Tokens\<close>

text \<open>C13. A token authenticates a run if and only if it is not blank, the run is the first one stored with the hash of the
  token, its task exists, and the run is authentic: it is active, its token is not revoked, and its task is running, in the
  run's generation, with it as the current run, assigned to its agent. Authentication changes nothing.\<close>

theorem authenticateRun_iff:
  "authenticateRun sv token w = (Inr (r, t), w') \<longleftrightarrow>
   w' = w \<and> trim_space token \<noteq> [] \<and> find (\<lambda>r. r_token_hash r = hashToken sv token) (d_runs (w_db w)) = Some r \<and>
   task_of (w_db w) (r_task_id r) = Some t \<and> authentic r t"
  by (auto simp: authenticateRun_def scopedRun_def andthen_success tx_RunByTokenHash_def tx_Task_def read_db_success
      authentic_def stale_scope_def IsRunTerminal_def dest: row_SomeD)

section \<open>Optimistic concurrency\<close>

text \<open>C16. Of two writers that read the same version of a task, the one that writes second gets a version conflict,
  whatever the first one wrote.\<close>

theorem lost_update_conflicts:
  assumes "cas_task t v s d = Inr d'" and "t_version t \<noteq> v" and "t_id t' = t_id t"
  shows "\<exists>e. cas_task t' v s' d' = Inl e \<and> IsCode e VERSION_CONFLICT"
  using task_table.no_lost_update [OF assms] .

theorem lost_update_conflicts_witness:
  "\<exists>d e. cas_task (busy_task\<lparr>t_version := 2\<rparr>) 1 TaskRunning (w_db busy) = Inr d \<and>
     cas_task (busy_task\<lparr>t_version := 2, t_status := TaskFailed\<rparr>) 1 TaskRunning d = Inl e \<and> IsCode e VERSION_CONFLICT"
proof -
  have "\<exists>d. cas_task (busy_task\<lparr>t_version := 2\<rparr>) 1 TaskRunning (w_db busy) = Inr d"
    by (simp add: cas_task_Inr busy_defs new_task_def task_checks_def task_columns_def)
  then obtain d where d: "cas_task (busy_task\<lparr>t_version := 2\<rparr>) 1 TaskRunning (w_db busy) = Inr d" ..
  moreover have "t_version (busy_task\<lparr>t_version := 2\<rparr>) \<noteq> 1" by simp
  ultimately show ?thesis
    using lost_update_conflicts [OF d, of "busy_task\<lparr>t_version := 2, t_status := TaskFailed\<rparr>" TaskRunning]
    by auto
qed

text \<open>The other tables report a lost update through \<open>casResult\<close> as a conflict; for roles it has no query, so that a lost update
  of a role comes out as an internal error.\<close>

lemma cas_reports:
  "task_of d (t_id t) = None \<or> (\<exists>old. task_of d (t_id t) = Some old \<and> (t_version old \<noteq> v \<or> t_status old \<noteq> s)) \<Longrightarrow>
     cas_task t v s d = Inl (casResult d ''task'' (t_id t))"
  "run_of d (r_id r) = None \<or> (\<exists>old. run_of d (r_id r) = Some old \<and> (r_version old \<noteq> v \<or> r_state old \<noteq> s')) \<Longrightarrow>
     cas_run r v s' d = Inl (casResult d ''run'' (r_id r))"
  by (auto simp: cas_task_def cas_run_def cas_row_def casResult_def cas_query_def on_success_def split: option.splits)

lemma role_conflict_is_internal:
  "role_of d (ro_id r) = None \<or> (\<exists>old. role_of d (ro_id r) = Some old \<and> ro_version old \<noteq> v) \<Longrightarrow>
     cas_role r v d = Inl (NewError INTERNAL False)"
  by (auto simp: cas_role_def casResult_def cas_query_def split: option.splits)

section \<open>Capabilities\<close>

lemma collect_new_facts: "set (collect_new seen cs) = set seen \<union> set cs \<and> (distinct seen \<longrightarrow> distinct (collect_new seen cs))"
  by (induction seen cs rule: collect_new.induct) auto

lemma participant_capabilities_facts:
  "set (participant_capabilities seen bs p) = set seen \<union>
     (\<Union>b \<in> {b \<in> set bs. b_project_id b = p \<or> b_project_id b = GlobalProjectID}. set (b_capabilities b)) \<and>
   (distinct seen \<longrightarrow> distinct (participant_capabilities seen bs p))"
proof (induction seen bs p rule: participant_capabilities.induct)
  case (2 seen b bs p)
  then show ?case using collect_new_facts [of seen "b_capabilities b"] by auto
qed simp

text \<open>The capabilities a participant has in a project, as a relation on the rows.\<close>

definition grants :: "db \<Rightarrow> string \<Rightarrow> string \<Rightarrow> capability \<Rightarrow> bool" where
  "grants d participant project c =
     (\<exists>b \<in> set (d_bindings d). b_participant_id b = participant \<and>
        (b_project_id b = project \<or> b_project_id b = GlobalProjectID) \<and>
        (\<exists>r. role_of d (b_role_id b) = Some r \<and> c \<in> set (ro_capabilities r)))"

lemma roles_of_participant_grants:
  "HasCapability (ParticipantCapabilities (roles_of_participant d participant) project) c \<longleftrightarrow>
   grants d participant project c"
  by (auto simp: HasCapability_def ParticipantCapabilities_def participant_capabilities_facts roles_of_participant_def
      grants_def joined_binding_def split: option.splits)

lemma operator_gate_run:
  "requireOperatorCapability c project w =
     (if participant_of (w_db w) operatorParticipant \<noteq> None \<and> grants (w_db w) operatorParticipant project c
      then Inr () else Inl (NewError SCOPE_DENIED False), w)"
  by (auto simp: requireOperatorCapability_def requireOperatorCapability_tx_def transact_def atomically_def andthen_def
      wrap_def tx_Participant_def tx_ParticipantRoles_def read_db_def found_def reject_def throw_def ret_def
      roles_of_participant_grants split: option.splits)

text \<open>C14. The gate of the operator's operations lets a request through if and only if the operator exists and a role bound to it
  in the project, or everywhere, has the capability; otherwise the request is denied, and either way nothing changes.\<close>

theorem operator_gate:
  "requireOperatorCapability c project w =
     (if participant_of (w_db w) operatorParticipant \<noteq> None \<and> grants (w_db w) operatorParticipant project c
      then Inr () else Inl (NewError SCOPE_DENIED False), w)"
  by (rule operator_gate_run)

section \<open>The last manager\<close>

lemma andthen_E:
  assumes "andthen m f w = (Inr y, w')" obtains x u where "m w = (Inr x, u)" "f x u = (Inr y, w')"
  using assms by (auto simp: andthen_success)

lemma andthen_step: "m w = (Inr x, w') \<Longrightarrow> f x w' = z \<Longrightarrow> andthen m f w = z"
  by (simp add: andthen_def)

lemma participantManageHolders_run:
  "participantManageHolders w = (Inr (map pa_id (filter
     (\<lambda>p. grants (w_db w) (pa_id p) GlobalProjectID ''participant.manage'')
     (sort_key pa_display_name (d_participants (w_db w))))), w)"
proof -
  let ?m = "\<lambda>p. andthen (tx_ParticipantRoles (pa_id p)) (\<lambda>bindings.
      ret (pa_id p, HasCapability (ParticipantCapabilities bindings GlobalProjectID) ''participant.manage''))"
  have "collect ps ?m w =
    (Inr (map (\<lambda>p. (pa_id p, grants (w_db w) (pa_id p) GlobalProjectID ''participant.manage'')) ps), w)" for ps
    by (induction ps)
       (simp_all add: ret_def andthen_def tx_ParticipantRoles_def read_db_def roles_of_participant_grants)
  note collected = this
  show ?thesis
    unfolding participantManageHolders_def
    by (rule andthen_step, simp add: tx_Participants_def read_db_def, rule andthen_step, rule collected)
      (simp add: ret_def filter_map o_def)
qed

text \<open>Does the participant still hold a global capability once its bindings to a role are left out?\<close>

definition retains :: "db \<Rightarrow> string \<Rightarrow> string \<Rightarrow> capability \<Rightarrow> bool" where
  "retains d participant role c =
     (\<exists>b \<in> set (d_bindings d). b_participant_id b = participant \<and> b_project_id b = GlobalProjectID \<and>
        b_role_id b \<noteq> role \<and> (\<exists>r. role_of d (b_role_id b) = Some r \<and> c \<in> set (ro_capabilities r)))"

lemma participantRetainsGlobalCapability_run:
  "participantRetainsGlobalCapability i role c w = (Inr (retains (w_db w) i role c), w)"
  by (auto simp: participantRetainsGlobalCapability_def andthen_def tx_ParticipantRoles_def read_db_def ret_def
      HasCapability_def roles_of_participant_def joined_binding_def retains_def split: option.splits)

lemma unbinding_facts:
  assumes "UnbindParticipantRole_tx sv i w = (Inr (), w')"
  defines "project \<equiv> trim_space (br_project_id i)"
  shows "\<exists>role. role_of (w_db w) (br_role_id i) = Some role \<and>
    d_participants (w_db w') = d_participants (w_db w) \<and> d_roles (w_db w') = d_roles (w_db w) \<and>
    d_bindings (w_db w') = filter (\<lambda>b. \<not> (b_participant_id b = br_participant_id i \<and> b_project_id b = project \<and>
      b_role_id b = br_role_id i)) (d_bindings (w_db w)) \<and>
    (project = GlobalProjectID \<longrightarrow> ''participant.manage'' \<in> set (ro_capabilities role) \<longrightarrow>
      map pa_id (filter (\<lambda>p. grants (w_db w) (pa_id p) GlobalProjectID ''participant.manage'')
        (sort_key pa_display_name (d_participants (w_db w)))) = [br_participant_id i] \<longrightarrow>
      retains (w_db w) (br_participant_id i) (br_role_id i) ''participant.manage'')"
  using assms(1) [unfolded UnbindParticipantRole_tx_def Let_def, folded project_def]
  by (elim andthen_E)
     (auto simp: tx_Participant_def tx_Role_def read_db_success tx_DeleteParticipantRole_def write_db_success
      tx_AppendEvent_def nowText_def HasCapability_def whenever_def participantManageHolders_run Let_def
      participantRetainsGlobalCapability_run andthen_def split: if_splits)

text \<open>Somebody can still manage participants: a participant whose capabilities include it everywhere.\<close>

definition managed :: "db \<Rightarrow> bool" where
  "managed d = (\<exists>p \<in> set (d_participants d). grants d (pa_id p) GlobalProjectID ''participant.manage'')"

lemma sole_member: "p \<in> set ps \<Longrightarrow> \<forall>q \<in> set ps. f q = x \<Longrightarrow> distinct (map f ps) \<Longrightarrow> map f ps = [x]"
  by (cases ps; cases "tl ps") auto

lemma distinct_map_sort_key: "distinct (map f (sort_key k xs)) \<longleftrightarrow> distinct (map f xs)"
  by (simp add: distinct_map)

lemma unbinding_keeps_manager_tx:
  assumes "UnbindParticipantRole_tx sv i w = (Inr (), w')" and "distinct (map pa_id (d_participants (w_db w)))"
    and "managed (w_db w)"
  shows "managed (w_db w')"
proof -
  let ?project = "trim_space (br_project_id i)"
  let ?grants = "\<lambda>d p. grants d (pa_id p) GlobalProjectID ''participant.manage''"
  from unbinding_facts [OF assms(1)] obtain role where role: "role_of (w_db w) (br_role_id i) = Some role"
    and same: "d_participants (w_db w') = d_participants (w_db w)" "d_roles (w_db w') = d_roles (w_db w)"
    and bindings: "d_bindings (w_db w') = filter (\<lambda>b. \<not> (b_participant_id b = br_participant_id i \<and>
      b_project_id b = ?project \<and> b_role_id b = br_role_id i)) (d_bindings (w_db w))"
    and last: "?project = GlobalProjectID \<Longrightarrow> ''participant.manage'' \<in> set (ro_capabilities role) \<Longrightarrow>
      map pa_id (filter (?grants (w_db w)) (sort_key pa_display_name (d_participants (w_db w)))) =
        [br_participant_id i] \<Longrightarrow> retains (w_db w) (br_participant_id i) (br_role_id i) ''participant.manage''"
    by auto
  have keeps: "?grants (w_db w') p"
    if granted: "?grants (w_db w) p" and free: "pa_id p \<noteq> br_participant_id i \<or> ?project \<noteq> GlobalProjectID \<or>
      ''participant.manage'' \<notin> set (ro_capabilities role) \<or>
      retains (w_db w) (br_participant_id i) (br_role_id i) ''participant.manage''" for p
  proof (cases "pa_id p = br_participant_id i \<and>
      retains (w_db w) (br_participant_id i) (br_role_id i) ''participant.manage''")
    case True
    then show ?thesis by (auto simp: grants_def retains_def same bindings)
  next
    case False
    with free have other: "pa_id p \<noteq> br_participant_id i \<or> ?project \<noteq> GlobalProjectID \<or>
      ''participant.manage'' \<notin> set (ro_capabilities role)" by auto
    obtain b r where b: "b \<in> set (d_bindings (w_db w))" "b_participant_id b = pa_id p" "b_project_id b = GlobalProjectID"
      and r: "role_of (w_db w) (b_role_id b) = Some r" "''participant.manage'' \<in> set (ro_capabilities r)"
      using granted by (auto simp: grants_def)
    have "b \<in> set (d_bindings (w_db w'))" using b r role other by (auto simp: bindings)
    then show ?thesis using b r by (auto simp: grants_def same)
  qed
  let ?holders = "filter (?grants (w_db w)) (sort_key pa_display_name (d_participants (w_db w)))"
  obtain p where p: "p \<in> set ?holders" using assms(3) by (auto simp: managed_def)
  show ?thesis
  proof (cases "\<exists>q \<in> set ?holders. pa_id q \<noteq> br_participant_id i")
    case True
    then obtain q where "q \<in> set (d_participants (w_db w))" "?grants (w_db w) q" "pa_id q \<noteq> br_participant_id i" by auto
    then show ?thesis using keeps [of q] unfolding managed_def same(1) by (intro bexI [of _ q]) simp_all
  next
    case False
    moreover have "distinct (map pa_id ?holders)"
      using assms(2) by (intro distinct_map_filter) (simp add: distinct_map_sort_key)
    ultimately have "map pa_id ?holders = [br_participant_id i]" by (intro sole_member [OF p]) auto
    moreover have "p \<in> set (d_participants (w_db w))" "?grants (w_db w) p" "pa_id p = br_participant_id i"
      using p False by auto
    ultimately show ?thesis using keeps [of p] last unfolding managed_def same(1) by (intro bexI [of _ p]) argo+
  qed
qed

text \<open>The operator of the demonstration, bound to the owner role in one project besides everywhere.\<close>

definition demo_unbind :: BindRoleInput where
  "demo_unbind = \<lparr>br_participant_id = operatorParticipant, br_project_id = ''prj'', br_role_id = DefaultOwnerRoleID,
     br_request_id = ''7''\<rparr>"

definition demo_bound :: world where
  "demo_bound = demo_start\<lparr>w_db := (w_db demo_start)\<lparr>d_bindings := d_bindings (w_db demo_start) @
     map (b_project_id_update (\<lambda>_. ''prj'')) (d_bindings (w_db demo_start))\<rparr>\<rparr>"

text \<open>C15. Taking a role from a participant, when it succeeds, leaves somebody who can manage participants everywhere, if there was
  somebody before.\<close>

theorem unbinding_keeps_manager:
  assumes "UnbindParticipantRole sv i w = (Inr (), w')" and "distinct (map pa_id (d_participants (w_db w)))"
    and "managed (w_db w)"
  shows "managed (w_db w')"
proof -
  have "UnbindParticipantRole_tx sv i w = (Inr (), w')"
    using assms(1) by (auto simp: UnbindParticipantRole_def andthen_success operator_gate_run transact_success
        split: if_splits)
  then show ?thesis using unbinding_keeps_manager_tx assms(2,3) by blast
qed

theorem unbinding_keeps_manager_witness:
  "\<exists>w'. UnbindParticipantRole demo demo_unbind demo_bound = (Inr (), w') \<and> managed (w_db w')"
proof -
  have "fst (UnbindParticipantRole demo demo_unbind demo_bound) = Inr ()"
    by (simp add: UnbindParticipantRole_def UnbindParticipantRole_tx_def demo_unbind_def demo_bound_def demo_start_def runs demo_defs cong: run_congs)
  then obtain w' where "UnbindParticipantRole demo demo_unbind demo_bound = (Inr (), w')" by (metis prod.collapse)
  moreover have "managed (w_db demo_bound)" and "distinct (map pa_id (d_participants (w_db demo_bound)))"
    by (simp_all add: managed_def grants_def demo_bound_def demo_start_def row_def capabilityRegistry_def)
  ultimately show ?thesis using unbinding_keeps_manager by blast
qed

end
