(* ===== verification/Views.thy ===== *)
theory Views
  imports Gc
begin

text \<open>
  What readers see (internal/store/read.go, read_events.go, pagination.go; the read side of
  internal/core/service.go and pagination.go): bounded summaries of the rows, the view of one task,
  the fixed-size status, and the pages of the histories with their cursors. A read is a function of
  one database, because the code reads inside one SQLite transaction. How a cursor is written as text
  (base64 of JSON) and how long the JSON of an item is are parameters.
\<close>

section \<open>Summaries\<close>

text \<open>\<open>boundedUTF8\<close> cuts like \<open>boundedStatusText\<close>; \<open>substr\<close> in SQL counts characters.\<close>

definition boundedUTF8 :: "string \<Rightarrow> nat \<Rightarrow> string \<times> bool" where
  "boundedUTF8 value limit =
     (if length value \<le> limit then (value, False) else (chop_valid (take limit value), True))"

function take_runes :: "nat \<Rightarrow> string \<Rightarrow> string" where
  "take_runes n s =
     (if n = 0 \<or> s = [] then []
      else let k = (if utf8_size s = 0 then 1 else utf8_size s) in take k s @ take_runes (n - 1) (drop k s))"
  by auto
termination
  by (relation "measure fst") auto

declare take_runes.simps [simp del]

definition effectiveEvidenceType :: "task \<Rightarrow> evidence" where
  "effectiveEvidenceType task =
     (if t_evidence_type task \<noteq> NoEvidence then t_evidence_type task
      else if (t_kind task = TaskWork \<or> t_kind task = TaskIntegration) \<and> t_assignee_agent_id task \<noteq> [] \<and>
              t_head_sha task \<noteq> [] \<and> t_head_run_id task \<noteq> [] \<and> t_task_ref task \<noteq> []
      then EvidenceCaptured else NoEvidence)"

record TaskSummary =
  ts_id :: string
  ts_project_id :: string
  ts_kind :: task_kind
  ts_parent_task_id :: string
  ts_assignee_agent_id :: string
  ts_title :: string
  ts_title_truncated :: bool
  ts_priority :: int
  ts_status :: task_status
  ts_current_run_id :: string
  ts_generation :: int
  ts_next_run_at :: stamp
  ts_retry_count :: int
  ts_max_retries :: int
  ts_budget_seconds :: int
  ts_wait_reason :: string
  ts_result_summary :: string
  ts_failure_reason :: string
  ts_text_truncated :: bool
  ts_base_sha :: string
  ts_head_sha :: string
  ts_evidence_type :: evidence
  ts_task_ref :: string
  ts_accepted_by_kind :: actor_kind
  ts_accepted_by_id :: string
  ts_accepted_integration_agent_id :: string
  ts_final_canonical_sha :: string
  ts_integration_task_id :: string
  ts_source_task_id :: string
  ts_source_run_id :: string
  ts_source_task_ref :: string
  ts_source_head_sha :: string
  ts_source_ref_released_at :: stamp
  ts_pending_action :: task_action
  ts_pending_action_id :: string
  ts_version :: int
  ts_created_at :: stamp
  ts_updated_at :: stamp
  ts_submitted_at :: stamp
  ts_completed_at :: stamp
  ts_closed_at :: stamp

definition taskSummary :: "task \<Rightarrow> TaskSummary" where
  "taskSummary task =
     (let (title, truncated) = boundedUTF8 (t_title task) 256;
          (waitReason, waitTruncated) = boundedUTF8 (t_wait_reason task) 512;
          (resultSummary, resultTruncated) = boundedUTF8 (t_result_summary task) 512;
          (failureReason, failureTruncated) = boundedUTF8 (t_failure_reason task) 512 in
      \<lparr>ts_id = t_id task, ts_project_id = t_project_id task, ts_kind = t_kind task,
       ts_parent_task_id = t_parent_task_id task, ts_assignee_agent_id = t_assignee_agent_id task,
       ts_title = title, ts_title_truncated = truncated, ts_priority = t_priority task,
       ts_status = t_status task, ts_current_run_id = t_current_run_id task,
       ts_generation = t_generation task, ts_next_run_at = t_next_run_at task,
       ts_retry_count = t_retry_count task, ts_max_retries = t_max_retries task,
       ts_budget_seconds = t_budget_seconds task, ts_wait_reason = waitReason,
       ts_result_summary = resultSummary, ts_failure_reason = failureReason,
       ts_text_truncated = (waitTruncated \<or> resultTruncated \<or> failureTruncated),
       ts_base_sha = t_base_sha task, ts_head_sha = t_head_sha task,
       ts_evidence_type = effectiveEvidenceType task, ts_task_ref = t_task_ref task,
       ts_accepted_by_kind = t_accepted_by_kind task, ts_accepted_by_id = t_accepted_by_id task,
       ts_accepted_integration_agent_id = t_accepted_integration_agent_id task,
       ts_final_canonical_sha = t_final_canonical_sha task, ts_integration_task_id = t_integration_task_id task,
       ts_source_task_id = t_source_task_id task, ts_source_run_id = t_source_run_id task,
       ts_source_task_ref = t_source_task_ref task, ts_source_head_sha = t_source_head_sha task,
       ts_source_ref_released_at = t_source_ref_released_at task,
       ts_pending_action = t_pending_action task, ts_pending_action_id = t_pending_action_id task,
       ts_version = t_version task, ts_created_at = t_created_at task, ts_updated_at = t_updated_at task,
       ts_submitted_at = t_submitted_at task, ts_completed_at = t_completed_at task,
       ts_closed_at = t_closed_at task\<rparr>)"

record RunSummary =
  us_id :: string
  us_project_id :: string
  us_task_id :: string
  us_agent_id :: string
  us_generation :: int
  us_state :: run_state
  us_container_id_present :: bool
  us_native_session_present :: bool
  us_heartbeat_at :: stamp
  us_deadline_at :: stamp
  us_last_observed_at :: stamp
  us_launch_phase :: launch_phase
  us_cleanup_state :: cleanup_state
  us_terminal_reason :: string
  us_last_error :: string
  us_runtime_error_code :: string
  us_text_truncated :: bool
  us_version :: int
  us_created_at :: stamp
  us_started_at :: stamp
  us_ended_at :: stamp

definition runSummary :: "run \<Rightarrow> RunSummary" where
  "runSummary run =
     (let (terminalReason, terminalTruncated) = boundedUTF8 (r_terminal_reason run) 512;
          (lastError, errorTruncated) = boundedUTF8 (r_last_error run) 512;
          (runtimeErrorCode, codeTruncated) = boundedUTF8 (r_runtime_error_code run) 256 in
      \<lparr>us_id = r_id run, us_project_id = r_project_id run, us_task_id = r_task_id run,
       us_agent_id = r_agent_id run, us_generation = r_generation run, us_state = r_state run,
       us_container_id_present = (r_container_id run \<noteq> []),
       us_native_session_present = (r_native_session_id run \<noteq> []), us_heartbeat_at = r_heartbeat_at run,
       us_deadline_at = r_deadline_at run, us_last_observed_at = r_last_observed_at run,
       us_launch_phase = r_launch_phase run, us_cleanup_state = r_cleanup_state run,
       us_terminal_reason = terminalReason, us_last_error = lastError,
       us_runtime_error_code = runtimeErrorCode,
       us_text_truncated = (terminalTruncated \<or> errorTruncated \<or> codeTruncated), us_version = r_version run,
       us_created_at = r_created_at run, us_started_at = r_started_at run, us_ended_at = r_ended_at run\<rparr>)"

record ProjectSummary =
  ps_id :: string
  ps_name :: string
  ps_canonical_ref :: string
  ps_canonical_sha :: string
  ps_integration_agent_id :: string
  ps_status :: project_status
  ps_pending_action :: project_action
  ps_last_error :: string
  ps_version :: int
  ps_created_at :: stamp
  ps_updated_at :: stamp

definition projectSummary :: "project \<Rightarrow> ProjectSummary" where
  "projectSummary p = \<lparr>ps_id = p_id p, ps_name = take_runes 256 (p_name p),
     ps_canonical_ref = take_runes 256 (p_canonical_ref p), ps_canonical_sha = p_canonical_sha p,
     ps_integration_agent_id = p_integration_agent_id p, ps_status = p_status p,
     ps_pending_action = p_pending_action p, ps_last_error = take_runes 256 (p_last_error p),
     ps_version = p_version p, ps_created_at = p_created_at p, ps_updated_at = p_updated_at p\<rparr>"

record AgentSummary =
  as_id :: string
  as_display_name :: string
  as_adapter_id :: string
  as_image :: string
  as_status :: agent_status
  as_version :: int
  as_created_at :: stamp
  as_updated_at :: stamp

definition agentSummary :: "agent \<Rightarrow> AgentSummary" where
  "agentSummary a = \<lparr>as_id = a_id a, as_display_name = take_runes 256 (a_display_name a),
     as_adapter_id = take_runes 256 (a_adapter_id a), as_image = take_runes 256 (a_image a),
     as_status = a_status a, as_version = a_version a, as_created_at = a_created_at a,
     as_updated_at = a_updated_at a\<rparr>"

section \<open>Views of tasks\<close>

record TaskView =
  tv_task :: TaskSummary
  tv_current_run :: "RunSummary option"
  tv_latest_progress :: "event option"
  tv_pending_message_count :: nat
  tv_delivered_message_count :: nat
  tv_actual_canonical_sha :: string
  tv_actual_canonical_error :: string
  tv_stale :: bool

definition latest_progress :: "db \<Rightarrow> string \<Rightarrow> event option" where
  "latest_progress d taskID =
     find (\<lambda>e. e_entity_type e = TaskEntity \<and> e_entity_id e = taskID \<and> e_kind e = ''task.progress'')
       (rev (sort_key e_id (d_events d)))"

definition statusTaskView :: "db \<Rightarrow> run list \<Rightarrow> task \<Rightarrow> TaskView" where
  "statusTaskView d runs task = \<lparr>tv_task = taskSummary task,
     tv_current_run = map_option runSummary (find (\<lambda>r. r_id r = t_current_run_id task) runs),
     tv_latest_progress = latest_progress d (t_id task),
     tv_pending_message_count = count (\<lambda>m. m_task_id m = t_id task \<and> m_state m = MessagePending) (d_messages d),
     tv_delivered_message_count = count (\<lambda>m. m_task_id m = t_id task \<and> m_state m = MessageDelivered) (d_messages d),
     tv_actual_canonical_sha = [], tv_actual_canonical_error = [], tv_stale = False\<rparr>"

record TaskDetail =
  td_task :: task
  td_current_run :: "run option"
  td_latest_progress :: "event option"
  td_pending_message_count :: nat
  td_delivered_message_count :: nat
  td_actual_canonical_sha :: string
  td_actual_canonical_error :: string
  td_stale :: bool

definition TaskProjection :: "string \<Rightarrow> (project \<times> TaskDetail) op" where
  "TaskProjection ident = read_db (\<lambda>d.
     case task_of d (trim_space ident) of
       None \<Rightarrow> Inl (NewError NOT_FOUND False)
     | Some task \<Rightarrow>
       (case project_of d (t_project_id task) of
          None \<Rightarrow> Inl (NewError NOT_FOUND False)
        | Some project \<Rightarrow>
          if t_current_run_id task \<noteq> [] \<and> run_of d (t_current_run_id task) = None then Inl (NewError NOT_FOUND False)
          else
            let run = (if t_current_run_id task = [] then None else run_of d (t_current_run_id task));
                view = statusTaskView d (case run of None \<Rightarrow> [] | Some r \<Rightarrow> [r]) task in
            Inr (project, \<lparr>td_task = task\<lparr>t_evidence_type := effectiveEvidenceType task\<rparr>, td_current_run = run,
              td_latest_progress = tv_latest_progress view,
              td_pending_message_count = tv_pending_message_count view,
              td_delivered_message_count = tv_delivered_message_count view,
              td_actual_canonical_sha = [], td_actual_canonical_error = [], td_stale = False\<rparr>)))"

definition stale_base :: "string \<Rightarrow> string \<Rightarrow> bool" where
  "stale_base base actual = (base \<noteq> [] \<and> actual \<noteq> [] \<and> base \<noteq> actual)"

text \<open>\<open>Service.Task\<close>.\<close>

definition ServiceTask :: "service \<Rightarrow> string \<Rightarrow> TaskDetail op" where
  "ServiceTask sv ident =
    andthen (TaskProjection (trim_space ident)) (\<lambda>(project, detail).
    andthen (attempt (\<lambda>n. g_resolve (sv_git sv) n (p_control_repo_path project) (p_canonical_ref project))) (\<lambda>actual.
    let detail = (case actual of
        Inl e \<Rightarrow> detail\<lparr>td_actual_canonical_error := fst (boundedStatusText (cause_text e) 1024)\<rparr>
      | Inr sha \<Rightarrow> detail\<lparr>td_actual_canonical_sha := fst (boundedStatusText sha 256)\<rparr>) in
    ret (detail\<lparr>td_stale := stale_base (t_base_sha (td_task detail)) (td_actual_canonical_sha detail)\<rparr>)))"

record ProjectDetail =
  pd_project :: project
  pd_actual_canonical_sha :: string
  pd_actual_canonical_error :: string

text \<open>\<open>Service.Project\<close>, \<open>Service.Agent\<close> and \<open>Service.Run\<close>.\<close>

definition ServiceProject :: "service \<Rightarrow> string \<Rightarrow> ProjectDetail op" where
  "ServiceProject sv ident =
    andthen (read_db (\<lambda>d. found (project_of d (trim_space ident)))) (\<lambda>project.
    andthen (attempt (\<lambda>n. g_resolve (sv_git sv) n (p_control_repo_path project) (p_canonical_ref project))) (\<lambda>actual.
    ret (case actual of
        Inl e \<Rightarrow> \<lparr>pd_project = project, pd_actual_canonical_sha = [],
           pd_actual_canonical_error = fst (boundedStatusText (cause_text e) 1024)\<rparr>
      | Inr sha \<Rightarrow> \<lparr>pd_project = project, pd_actual_canonical_sha = fst (boundedStatusText sha 256),
           pd_actual_canonical_error = []\<rparr>)))"

definition ServiceAgent :: "string \<Rightarrow> agent op" where
  "ServiceAgent ident = read_db (\<lambda>d. found (agent_of d (trim_space ident)))"

definition ServiceRun :: "string \<Rightarrow> run op" where
  "ServiceRun ident = read_db (\<lambda>d. found (run_of d (trim_space ident)))"

section \<open>Snapshot\<close>

record Snapshot =
  sn_projects :: "project list"
  sn_agents :: "agent list"
  sn_tasks :: "task list"
  sn_runs :: "run list"
  sn_messages :: "message list"
  sn_events :: "event list"

definition readSnapshot :: "string \<Rightarrow> db \<Rightarrow> Snapshot" where
  "readSnapshot projectID d =
     (let mine = (\<lambda>p. projectID = [] \<or> p = projectID) in
      \<lparr>sn_projects = sort_key (\<lambda>p. (p_created_at p, p_id p)) (filter (\<lambda>p. mine (p_id p)) (d_projects d)),
       sn_agents = sort_key (\<lambda>a. (a_created_at a, a_id a)) (d_agents d),
       sn_tasks = sort_key (\<lambda>t. (t_created_at t, t_id t)) (filter (\<lambda>t. mine (t_project_id t)) (d_tasks d)),
       sn_runs = sort_key (\<lambda>r. (r_created_at r, r_id r)) (filter (\<lambda>r. mine (r_project_id r)) (d_runs d)),
       sn_messages = sort_key (\<lambda>m. (m_created_at m, m_id m)) (filter (\<lambda>m. mine (m_project_id m)) (d_messages d)),
       sn_events = sort_key e_id (filter (\<lambda>e. mine (e_project_id e)) (d_events d))\<rparr>)"

definition ServiceSnapshot :: "string \<Rightarrow> Snapshot op" where
  "ServiceSnapshot projectID = read_db (\<lambda>d. Inr (readSnapshot (trim_space projectID) d))"

section \<open>Status\<close>

definition StatusSnapshotLimit :: nat where "StatusSnapshotLimit = 8"

record StatusProjection =
  sj_projects :: "project list"
  sj_agents :: "agent list"
  sj_tasks :: "TaskView list"
  sj_pending_boss_messages :: nat
  sj_truncated :: bool

text \<open>\<open>ORDER BY updated_at DESC,id DESC\<close>.\<close>

definition newest_tasks :: "task list \<Rightarrow> task list" where
  "newest_tasks tasks = rev (sort_key (\<lambda>t. (t_updated_at t, t_id t)) tasks)"

definition newest_agents :: "agent list \<Rightarrow> agent list" where
  "newest_agents agents = rev (sort_key (\<lambda>a. (a_updated_at a, a_id a)) agents)"

definition status_projects :: "string \<Rightarrow> db \<Rightarrow> project list" where
  "status_projects projectID d =
     (let projects = sort_key (\<lambda>p. (p_created_at p, p_id p))
            (filter (\<lambda>p. projectID = [] \<or> p_id p = projectID) (d_projects d)) in
      if projectID = [] then take (StatusSnapshotLimit + 1) projects else projects)"

definition status_tasks :: "project list \<Rightarrow> db \<Rightarrow> task list" where
  "status_tasks projects d = take (StatusSnapshotLimit + 1)
     (newest_tasks (filter (\<lambda>t. IsTaskOpen (t_status t) \<and> t_project_id t \<in> p_id ` set projects) (d_tasks d)))"

definition StatusProjection_of :: "string \<Rightarrow> db \<Rightarrow> StatusProjection" where
  "StatusProjection_of projectID d =
     (let found_projects = status_projects projectID d;
          projects = take StatusSnapshotLimit found_projects;
          found_tasks = status_tasks projects d;
          tasks = take StatusSnapshotLimit found_tasks;
          current = filter (\<lambda>i. i \<noteq> []) (map t_current_run_id tasks);
          required_ids = filter (\<lambda>i. i \<noteq> []) (map t_assignee_agent_id tasks);
          runs = sort_key (\<lambda>r. (r_created_at r, r_id r)) (filter (\<lambda>r. r_id r \<in> set current) (d_runs d));
          required_agents = newest_agents (filter (\<lambda>a. a_id a \<in> set required_ids) (d_agents d));
          remaining = StatusSnapshotLimit - length required_agents;
          extra = take (remaining + 1) (newest_agents (filter (\<lambda>a. a_status a \<noteq> AgentArchived \<and>
             a_id a \<notin> set required_ids) (d_agents d))) in
      \<lparr>sj_projects = projects, sj_agents = required_agents @ take remaining extra,
       sj_tasks = map (statusTaskView d runs) tasks,
       sj_pending_boss_messages = count (\<lambda>m. m_recipient_kind m = Boss \<and> m_state m = MessagePending \<and>
          (projectID = [] \<or> m_project_id m = projectID)) (d_messages d),
       sj_truncated = (StatusSnapshotLimit < length found_projects \<or> StatusSnapshotLimit < length found_tasks \<or>
          remaining < length extra)\<rparr>)"

record RuntimeStatus =
  rs_workspace_quota_enabled :: bool
  rs_workspace_quota_reason :: string
  rs_tmpfs_limit_bytes :: int

text \<open>The part of the service that is not stored: readiness and the status of the runtime.\<close>

record readiness =
  rn_ready :: bool
  rn_reason :: string
  rn_runtime :: "RuntimeStatus option"

definition SetReady :: "bool \<Rightarrow> string \<Rightarrow> readiness \<Rightarrow> readiness" where
  "SetReady ready reason s = s\<lparr>rn_ready := ready, rn_reason := trim_space reason\<rparr>"

definition RequireReady :: "readiness \<Rightarrow> failure option" where
  "RequireReady s = (if rn_ready s then None else Some (NewError RUNTIME_UNAVAILABLE True))"

definition SetRuntimeStatus :: "RuntimeStatus \<Rightarrow> readiness \<Rightarrow> readiness" where
  "SetRuntimeStatus status s = s\<lparr>rn_runtime := Some status\<rparr>"

record GitState =
  gs_project_id :: string
  gs_canonical_ref :: string
  gs_actual_sha :: string
  gs_error :: string

record Status =
  st_daemon_ready :: bool
  st_reason :: string
  st_runtime :: "RuntimeStatus option"
  st_summary_truncated :: bool
  st_pending_boss_messages :: nat
  st_projects :: "project list"
  st_agents :: "agent list"
  st_actual_refs :: "GitState list"
  st_tasks :: "TaskView list"

definition bounded_project :: "project \<Rightarrow> project" where
  "bounded_project p = p\<lparr>p_name := fst (boundedStatusText (p_name p) 256),
     p_source := fst (boundedStatusText (p_source p) 2048),
     p_source_ref := fst (boundedStatusText (p_source_ref p) 1024),
     p_control_repo_path := fst (boundedStatusText (p_control_repo_path p) 2048),
     p_canonical_ref := fst (boundedStatusText (p_canonical_ref p) 1024),
     p_last_error := fst (boundedStatusText (p_last_error p) 1024)\<rparr>"

definition project_cut :: "project \<Rightarrow> bool" where
  "project_cut p = (256 < length (p_name p) \<or> 2048 < length (p_source p) \<or> 1024 < length (p_source_ref p) \<or>
     2048 < length (p_control_repo_path p) \<or> 1024 < length (p_canonical_ref p) \<or> 1024 < length (p_last_error p))"

definition bounded_agent :: "agent \<Rightarrow> agent" where
  "bounded_agent a = a\<lparr>a_display_name := fst (boundedStatusText (a_display_name a) 256),
     a_adapter_id := fst (boundedStatusText (a_adapter_id a) 256),
     a_image := fst (boundedStatusText (a_image a) 1024),
     a_instructions_file := fst (boundedStatusText (a_instructions_file a) 2048)\<rparr>"

definition agent_cut :: "agent \<Rightarrow> bool" where
  "agent_cut a = (256 < length (a_display_name a) \<or> 256 < length (a_adapter_id a) \<or>
     1024 < length (a_image a) \<or> 2048 < length (a_instructions_file a))"

definition view_cut :: "TaskView \<Rightarrow> bool" where
  "view_cut v = (ts_title_truncated (tv_task v) \<or> ts_text_truncated (tv_task v) \<or>
     (case tv_current_run v of None \<Rightarrow> False | Some r \<Rightarrow> us_text_truncated r))"

text \<open>The Git state of a project, and whether its error was cut.\<close>

definition git_state :: "project \<Rightarrow> failure + string \<Rightarrow> GitState \<times> bool" where
  "git_state project actual =
     (let (sha, err) = (case actual of Inl e \<Rightarrow> ([], cause_text e) | Inr sha \<Rightarrow> (sha, []));
          (error, cut) = boundedStatusText err 1024 in
      (\<lparr>gs_project_id = p_id project, gs_canonical_ref = p_canonical_ref project,
        gs_actual_sha = fst (boundedStatusText sha 256), gs_error = error\<rparr>, cut))"

text \<open>\<open>Service.Status\<close>.\<close>

definition ServiceStatus :: "service \<Rightarrow> readiness \<Rightarrow> string \<Rightarrow> Status op" where
  "ServiceStatus sv s projectID =
    andthen (read_db (\<lambda>d. Inr (StatusProjection_of (trim_space projectID) d))) (\<lambda>projection.
    andthen (collect (sj_projects projection) (\<lambda>project.
      andthen (attempt (\<lambda>n. g_resolve (sv_git sv) n (p_control_repo_path project) (p_canonical_ref project))) (\<lambda>actual.
      ret (git_state project actual)))) (\<lambda>states.
    let (reason, reason_cut) = boundedStatusText (rn_reason s) 1024;
        git_of = (\<lambda>i. find (\<lambda>g. gs_project_id g = i) (map fst states));
        views = map (\<lambda>v. case git_of (ts_project_id (tv_task v)) of
            None \<Rightarrow> v
          | Some g \<Rightarrow> v\<lparr>tv_actual_canonical_sha := gs_actual_sha g, tv_actual_canonical_error := gs_error g,
              tv_stale := stale_base (ts_base_sha (tv_task v)) (gs_actual_sha g)\<rparr>) (sj_tasks projection) in
    ret \<lparr>st_daemon_ready = rn_ready s, st_reason = reason, st_runtime = rn_runtime s,
      st_summary_truncated = (sj_truncated projection \<or> reason_cut \<or> (\<exists>g \<in> set states. snd g) \<or>
         (\<exists>p \<in> set (sj_projects projection). project_cut p) \<or> (\<exists>a \<in> set (sj_agents projection). agent_cut a) \<or>
         (\<exists>v \<in> set (sj_tasks projection). view_cut v)),
      st_pending_boss_messages = sj_pending_boss_messages projection,
      st_projects = map bounded_project (sj_projects projection),
      st_agents = map bounded_agent (sj_agents projection), st_actual_refs = map fst states,
      st_tasks = views\<rparr>))"

end
