(* ===== verification/Pages.thy ===== *)
theory Pages
  imports Views
begin

text \<open>
  The pages of the histories (internal/core/pagination.go, internal/store/pagination.go, the list
  queries of read.go and read_events.go). A query is ordered by creation time and identifier and asks
  for one row more than the limit; a page keeps the longest prefix within the limit and the byte
  budget, and its cursor names the last item it keeps.
\<close>

section \<open>Limits\<close>

definition DefaultPageLimit :: int where "DefaultPageLimit = 100"
definition MaximumPageLimit :: int where "MaximumPageLimit = 500"
definition MaximumCompactPageLimit :: int where "MaximumCompactPageLimit = 100"
definition MessagePageLimit :: int where "MessagePageLimit = 20"
definition EventPageLimit :: int where "EventPageLimit = 20"
definition MaximumEventPageLimit :: int where "MaximumEventPageLimit = 100"

definition invalid_limit :: failure where
  "invalid_limit = NewError INVALID_ARGUMENT False"

definition NormalizePageLimit :: "int \<Rightarrow> failure + int" where
  "NormalizePageLimit limit =
     (if limit < 0 then Inl invalid_limit
      else if limit = 0 then Inr DefaultPageLimit
      else if MaximumPageLimit < limit then Inl invalid_limit
      else Inr limit)"

definition NormalizeMessagePageLimit :: "int \<Rightarrow> failure + int" where
  "NormalizeMessagePageLimit limit =
     (if limit < 0 then Inl invalid_limit
      else if limit = 0 then Inr MessagePageLimit
      else if MessagePageLimit < limit then Inl invalid_limit
      else Inr limit)"

definition NormalizeCompactPageLimit :: "int \<Rightarrow> failure + int" where
  "NormalizeCompactPageLimit limit =
     (if limit < 0 then Inl invalid_limit
      else if limit = 0 then Inr DefaultPageLimit
      else if MaximumCompactPageLimit < limit then Inl invalid_limit
      else Inr limit)"

definition NormalizeEventPageLimit :: "int \<Rightarrow> failure + int" where
  "NormalizeEventPageLimit limit =
     (if limit < 0 then Inl invalid_limit
      else if limit = 0 then Inr EventPageLimit
      else if MaximumEventPageLimit < limit then Inl invalid_limit
      else Inr limit)"

section \<open>Cursors\<close>

text \<open>How the two cursors are written, how their text is read (nothing when it is not the base64 of
  exactly one JSON object with these members), and whether a text is a time in RFC 3339.\<close>

record codec =
  cx_encode :: "stamp \<Rightarrow> string \<Rightarrow> string"
  cx_decode :: "string \<Rightarrow> (stamp \<times> string) option"
  cx_is_time :: "stamp \<Rightarrow> bool"
  cx_encode_event :: "int \<Rightarrow> string"
  cx_decode_event :: "string \<Rightarrow> int option"

fun blank_stamp :: "stamp \<Rightarrow> bool" where
  "blank_stamp NoStamp = True"
| "blank_stamp (At i) = False"
| "blank_stamp (Given s) = (trim_space s = [])"

definition invalidCursor :: failure where
  "invalidCursor = NewError INVALID_ARGUMENT False"

definition decodeCursor :: "codec \<Rightarrow> string \<Rightarrow> failure + (stamp \<times> string) option" where
  "decodeCursor cx raw =
     (if raw = [] then Inr None
      else case cx_decode cx raw of
          None \<Rightarrow> Inl invalidCursor
        | Some (created, ident) \<Rightarrow>
            if trim_space ident = [] \<or> blank_stamp created then Inl invalidCursor
            else if \<not> cx_is_time cx created then Inl invalidCursor
            else Inr (Some (created, ident)))"

definition decodeEventCursor :: "codec \<Rightarrow> string \<Rightarrow> failure + int" where
  "decodeEventCursor cx raw =
     (if raw = [] then Inr 0
      else case cx_decode_event cx raw of
          None \<Rightarrow> Inl invalidCursor
        | Some before \<Rightarrow> if before \<le> 0 then Inl invalidCursor else Inr before)"

section \<open>Budget\<close>

record 'a page =
  pg_items :: "'a list"
  pg_next :: string

definition pageDataJSONBudget :: nat where "pageDataJSONBudget = 2 ^ 20"

text \<open>The loop over the candidates: what is kept so far and how many bytes it takes.\<close>

fun budget_items :: "('a \<Rightarrow> nat) \<Rightarrow> 'a list \<Rightarrow> nat \<Rightarrow> 'a list \<Rightarrow> failure + 'a list" where
  "budget_items json_size bounded used [] = Inr bounded"
| "budget_items json_size bounded used (item # items) =
     (if bounded \<noteq> [] \<and> pageDataJSONBudget < used + json_size item + 1 then Inr bounded
      else if bounded = [] \<and> pageDataJSONBudget < used + json_size item then Inl (NewError INTERNAL False)
      else budget_items json_size (bounded @ [item]) (used + json_size item + 1) items)"

definition budgetPage ::
  "codec \<Rightarrow> ('a \<Rightarrow> nat) \<Rightarrow> ('a \<Rightarrow> stamp \<times> string) \<Rightarrow> nat \<Rightarrow> 'a list \<Rightarrow> failure + 'a page" where
  "budgetPage cx json_size key limit items =
     (case budget_items json_size [] 64 (take limit items) of
        Inl e \<Rightarrow> Inl e
      | Inr bounded \<Rightarrow>
          Inr \<lparr>pg_items = bounded,
            pg_next = (if length items \<le> length bounded then []
              else let (created, ident) = key (last bounded) in cx_encode cx created ident)\<rparr>)"

definition budgetEventPage :: "codec \<Rightarrow> (event \<Rightarrow> nat) \<Rightarrow> nat \<Rightarrow> event list \<Rightarrow> failure + event page" where
  "budgetEventPage cx json_size limit items =
     (case budget_items json_size [] 64 (take limit items) of
        Inl e \<Rightarrow> Inl e
      | Inr bounded \<Rightarrow>
          Inr \<lparr>pg_items = rev bounded,
            pg_next = (if length items \<le> length bounded then [] else cx_encode_event cx (e_id (last bounded)))\<rparr>)"

section \<open>Queries\<close>

text \<open>\<open>addCursor\<close>: what comes after the cursor in the order of the query. A cursor without identifier
  restricts nothing.\<close>

definition after_cursor :: "('a \<Rightarrow> stamp \<times> string) \<Rightarrow> (stamp \<times> string) option \<Rightarrow> 'a \<Rightarrow> bool" where
  "after_cursor key cursor item =
     (case cursor of
        None \<Rightarrow> True
      | Some (created, ident) \<Rightarrow>
          ident = [] \<or> created < fst (key item) \<or> (fst (key item) = created \<and> ident < snd (key item)))"

text \<open>One page of a table: the rows that match the filter, as the summaries \<open>f\<close> of them.\<close>

definition history_page ::
  "codec \<Rightarrow> ('b \<Rightarrow> nat) \<Rightarrow> ('a \<Rightarrow> stamp \<times> string) \<Rightarrow> ('b \<Rightarrow> stamp \<times> string) \<Rightarrow> ('a \<Rightarrow> 'b) \<Rightarrow> failure + int \<Rightarrow> string \<Rightarrow>
   ('a \<Rightarrow> bool) \<Rightarrow> 'a list \<Rightarrow> failure + 'b page" where
  "history_page cx json_size row_key item_key f normalized raw matches rows =
     (case normalized of
        Inl e \<Rightarrow> Inl e
      | Inr limit \<Rightarrow>
        (case decodeCursor cx (trim_space raw) of
           Inl e \<Rightarrow> Inl e
         | Inr cursor \<Rightarrow>
             budgetPage cx json_size item_key (nat limit)
               (map f (take (nat limit + 1) (sort_key row_key
                  (filter (\<lambda>r. matches r \<and> after_cursor row_key cursor r) rows))))))"

definition column_is :: "string \<Rightarrow> string \<Rightarrow> bool" where
  "column_is wanted actual = (trim_space wanted = [] \<or> actual = trim_space wanted)"

definition ListProjects :: "codec \<Rightarrow> (ProjectSummary \<Rightarrow> nat) \<Rightarrow> string \<Rightarrow> int \<Rightarrow> ProjectSummary page op" where
  "ListProjects cx json_size cursor limit = read_db (\<lambda>d.
     history_page cx json_size (\<lambda>p. (p_created_at p, p_id p)) (\<lambda>s. (ps_created_at s, ps_id s)) projectSummary
       (NormalizeCompactPageLimit limit) cursor (\<lambda>p. True) (d_projects d))"

definition ListAgents :: "codec \<Rightarrow> (AgentSummary \<Rightarrow> nat) \<Rightarrow> string \<Rightarrow> int \<Rightarrow> AgentSummary page op" where
  "ListAgents cx json_size cursor limit = read_db (\<lambda>d.
     history_page cx json_size (\<lambda>a. (a_created_at a, a_id a)) (\<lambda>s. (as_created_at s, as_id s)) agentSummary
       (NormalizeCompactPageLimit limit) cursor (\<lambda>a. True) (d_agents d))"

definition ListTasks :: "codec \<Rightarrow> (TaskSummary \<Rightarrow> nat) \<Rightarrow> string \<Rightarrow> string \<Rightarrow> int \<Rightarrow> TaskSummary page op" where
  "ListTasks cx json_size projectID cursor limit = read_db (\<lambda>d.
     history_page cx json_size (\<lambda>t. (t_created_at t, t_id t)) (\<lambda>s. (ts_created_at s, ts_id s)) taskSummary
       (NormalizePageLimit limit) cursor (\<lambda>t. column_is projectID (t_project_id t)) (d_tasks d))"

record RunFilter =
  nf_project_id :: string
  nf_task_id :: string
  nf_agent_id :: string
  nf_cursor :: string
  nf_limit :: int

definition ListRuns :: "codec \<Rightarrow> (RunSummary \<Rightarrow> nat) \<Rightarrow> RunFilter \<Rightarrow> RunSummary page op" where
  "ListRuns cx json_size nf = read_db (\<lambda>d.
     history_page cx json_size (\<lambda>r. (r_created_at r, r_id r)) (\<lambda>s. (us_created_at s, us_id s)) runSummary
       (NormalizePageLimit (nf_limit nf)) (nf_cursor nf)
       (\<lambda>r. column_is (nf_project_id nf) (r_project_id r) \<and> column_is (nf_task_id nf) (r_task_id r) \<and>
            column_is (nf_agent_id nf) (r_agent_id r)) (d_runs d))"

record MessageFilter =
  mq_project_id :: string
  mq_task_id :: string
  mq_recipient_kind :: string
  mq_recipient_id :: string
  mq_cursor :: string
  mq_limit :: int

definition ListMessages :: "codec \<Rightarrow> (message \<Rightarrow> nat) \<Rightarrow> MessageFilter \<Rightarrow> message page op" where
  "ListMessages cx json_size mq = read_db (\<lambda>d.
     history_page cx json_size (\<lambda>m. (m_created_at m, m_id m)) (\<lambda>m. (m_created_at m, m_id m)) (\<lambda>m. m)
       (NormalizeMessagePageLimit (mq_limit mq)) (mq_cursor mq)
       (\<lambda>m. column_is (mq_project_id mq) (m_project_id m) \<and> column_is (mq_task_id mq) (m_task_id m) \<and>
            column_is (mq_recipient_kind mq) (actor_text (m_recipient_kind m)) \<and>
            column_is (mq_recipient_id mq) (m_recipient_id m)) (d_messages d))"

fun entity_type_text :: "entity_type \<Rightarrow> string" where
  "entity_type_text ProjectEntity = ''project''"
| "entity_type_text AgentEntity = ''agent''"
| "entity_type_text TaskEntity = ''task''"
| "entity_type_text RunEntity = ''run''"
| "entity_type_text MessageEntity = ''message''"
| "entity_type_text DaemonEntity = ''daemon''"
| "entity_type_text ParticipantEntity = ''participant''"
| "entity_type_text RoleEntity = ''role''"

record EventFilter =
  ev_project_id :: string
  ev_entity_type :: string
  ev_entity_id :: string
  ev_run_id :: string
  ev_kind :: string
  ev_cursor :: string
  ev_limit :: int

definition event_matches :: "EventFilter \<Rightarrow> event \<Rightarrow> bool" where
  "event_matches ev e =
     (column_is (ev_project_id ev) (e_project_id e) \<and>
      column_is (ev_entity_type ev) (entity_type_text (e_entity_type e)) \<and>
      column_is (ev_entity_id ev) (e_entity_id e) \<and> column_is (ev_run_id ev) (e_run_id e) \<and>
      column_is (ev_kind ev) (e_kind e))"

text \<open>The newest events first; a page is returned in the order of the log.\<close>

definition events_page :: "codec \<Rightarrow> (event \<Rightarrow> nat) \<Rightarrow> EventFilter \<Rightarrow> db \<Rightarrow> failure + event page" where
  "events_page cx json_size ev d =
     (case NormalizeEventPageLimit (ev_limit ev) of
        Inl e \<Rightarrow> Inl e
      | Inr limit \<Rightarrow>
        (case decodeEventCursor cx (trim_space (ev_cursor ev)) of
           Inl e \<Rightarrow> Inl e
         | Inr before \<Rightarrow>
             budgetEventPage cx json_size (nat limit)
               (take (nat limit + 1) (rev (sort_key e_id
                  (filter (\<lambda>e. event_matches ev e \<and> (0 < before \<longrightarrow> e_id e < before)) (d_events d)))))))"

definition EventsPage :: "codec \<Rightarrow> (event \<Rightarrow> nat) \<Rightarrow> EventFilter \<Rightarrow> event page op" where
  "EventsPage cx json_size ev = read_db (events_page cx json_size ev)"

definition ListEvents :: "codec \<Rightarrow> (event \<Rightarrow> nat) \<Rightarrow> EventFilter \<Rightarrow> event page op" where
  "ListEvents cx json_size ev =
    andthen (lift (NormalizeEventPageLimit (ev_limit ev))) (\<lambda>limit.
    EventsPage cx json_size (ev\<lparr>ev_limit := limit\<rparr>))"

text \<open>\<open>Store.Events\<close>: with a cursor the items of a page, otherwise the whole log or its end.\<close>

definition Events :: "codec \<Rightarrow> (event \<Rightarrow> nat) \<Rightarrow> EventFilter \<Rightarrow> event list op" where
  "Events cx json_size ev =
    (if trim_space (ev_cursor ev) \<noteq> [] then
       andthen (EventsPage cx json_size ev) (\<lambda>page. ret (pg_items page))
     else read_db (\<lambda>d.
       let events = sort_key e_id (filter (event_matches ev) (d_events d)) in
       Inr (if 0 < ev_limit ev then drop (length events - nat (ev_limit ev)) events else events)))"

section \<open>Roles and participants\<close>

definition ReadRole :: "string \<Rightarrow> role op" where
  "ReadRole ident = read_db (\<lambda>d. found (role_of d ident))"

definition ReadRoles :: "role list op" where
  "ReadRoles = read_db (\<lambda>d. Inr (sort_key ro_name (d_roles d)))"

definition ReadParticipant :: "string \<Rightarrow> participant op" where
  "ReadParticipant ident = read_db (\<lambda>d. found (participant_of d ident))"

definition ReadParticipants :: "participant list op" where
  "ReadParticipants = read_db (\<lambda>d. Inr (sort_key pa_display_name (d_participants d)))"

definition ReadParticipantRoles :: "string \<Rightarrow> binding list op" where
  "ReadParticipantRoles ident = read_db (\<lambda>d. Inr (roles_of_participant d ident))"

end
