(* ===== verification/Paging.thy ===== *)
theory Paging
  imports Pages Scenario
begin

text \<open>
  Reading a history page by page: a reader that follows the cursors until there is none sees every row
  that matches exactly once, in the order of the history, and no page exceeds its limit or the byte
  budget. The writing and reading of a cursor is only assumed to give the cursor back.
\<close>

section \<open>Reading a history page by page\<close>

lemma budget_items_prefix:
  assumes "\<forall>x \<in> set xs. 64 + json_size x \<le> pageDataJSONBudget" and "bounded = [] \<longrightarrow> used = 64"
  shows "\<exists>m. budget_items json_size bounded used xs = Inr (bounded @ take m xs) \<and> m \<le> length xs \<and>
    (bounded = [] \<longrightarrow> xs \<noteq> [] \<longrightarrow> 0 < m)"
  using assms
proof (induction json_size bounded used xs rule: budget_items.induct)
  case (2 json_size bounded used item items)
  show ?case
  proof (cases "bounded \<noteq> [] \<and> pageDataJSONBudget < used + json_size item + 1")
    case True
    then show ?thesis by (intro exI [of _ 0]) simp
  next
    case False
    moreover have "\<not> (bounded = [] \<and> pageDataJSONBudget < used + json_size item)" using 2(2,3) by auto
    ultimately obtain m where "budget_items json_size (bounded @ [item]) (used + json_size item + 1) items =
        Inr ((bounded @ [item]) @ take m items)" "m \<le> length items"
      using 2 by auto
    with False 2(2,3) show ?thesis by (intro exI [of _ "Suc m"]) auto
  qed
qed simp

text \<open>A reader follows the cursors until there is none, for at most \<open>n\<close> pages.\<close>

fun walk :: "(string \<Rightarrow> failure + 'b page) \<Rightarrow> nat \<Rightarrow> string \<Rightarrow> 'b list option" where
  "walk page 0 cursor = None"
| "walk page (Suc n) cursor =
     (case page cursor of
        Inl e \<Rightarrow> None
      | Inr p \<Rightarrow> if pg_next p = [] then Some (pg_items p)
          else map_option (append (pg_items p)) (walk page n (pg_next p)))"

text \<open>The cursor of a row survives being written and read.\<close>

definition cursor_survives :: "codec \<Rightarrow> stamp \<times> string \<Rightarrow> bool" where
  "cursor_survives cx k =
     (let raw = cx_encode cx (fst k) (snd k) in
      raw \<noteq> [] \<and> trim_space raw = raw \<and> cx_decode cx raw = Some k \<and> cx_is_time cx (fst k) \<and>
      \<not> blank_stamp (fst k) \<and> trim_space (snd k) \<noteq> [])"

lemma decodeCursor_survives: "cursor_survives cx (c, i) \<Longrightarrow> decodeCursor cx (trim_space (cx_encode cx c i)) = Inr (Some (c, i))"
  by (simp add: cursor_survives_def decodeCursor_def Let_def)

lemma sorted_filter_after:
  assumes "sorted_wrt (\<lambda>x y. key x < key y) (xs @ x # ys)" and "trim_space (snd (key x)) \<noteq> []"
  shows "filter (after_cursor key (Some (key x))) (xs @ x # ys) = ys"
proof -
  have "snd (key x) \<noteq> []" using assms(2) by (auto simp: trim_space_Nil)
  then have "after_cursor key (Some (key x)) y \<longleftrightarrow> key x < key y" for y
    by (cases "key x"; cases "key y") (auto simp: after_cursor_def less_prod_def')
  then show ?thesis using assms(1)
    by (auto simp: sorted_wrt_append filter_empty_conv intro!: filter_True)
qed

lemma history_page_step:
  assumes limit: "normalized = Inr limit" "0 < limit" and key: "\<And>r. item_key (f r) = row_key r"
    and fits: "\<forall>r \<in> set rows. 64 + json_size (f r) \<le> pageDataJSONBudget"
    and cursors: "\<forall>r \<in> set rows. cursor_survives cx (row_key r)"
    and distinct: "distinct (map row_key rows)"
    and S: "S = sort_key row_key (filter matches rows)" and k: "k \<le> length S"
    and raw: "raw = (if k = 0 then [] else let (c, i) = row_key (S ! (k - 1)) in cx_encode cx c i)"
  shows "\<exists>m. history_page cx json_size row_key item_key f normalized raw matches rows =
      Inr \<lparr>pg_items = map f (take m (drop k S)),
        pg_next = (if k + m = length S then [] else let (c, i) = row_key (S ! (k + m - 1)) in cx_encode cx c i)\<rparr> \<and>
    k + m \<le> length S \<and> (k < length S \<longrightarrow> 0 < m)"
proof -
  have strict: "sorted_wrt (\<lambda>x y. row_key x < row_key y) S"
  proof -
    have "distinct (map row_key S)" using distinct unfolding S by (simp add: distinct_map inj_on_def)
    then have "sorted_wrt (<) (map row_key S)" by (simp add: strict_sorted_iff S)
    then show ?thesis by (simp add: sorted_wrt_map)
  qed
  have in_rows: "set S \<subseteq> set rows" unfolding S by auto
  have "\<exists>cursor. decodeCursor cx (trim_space raw) = Inr cursor \<and>
    sort_key row_key (filter (\<lambda>r. matches r \<and> after_cursor row_key cursor r) rows) = drop k S"
  proof (cases "k = 0")
    case True
    then show ?thesis
      using raw by (auto simp: decodeCursor_def after_cursor_def S trim_space_Nil)
  next
    case False
    define x where "x = S ! (k - 1)"
    have split: "S = take (k - 1) S @ x # drop k S"
      using False k id_take_nth_drop [of "k - 1" S] by (simp add: x_def)
    have x: "x \<in> set S" using False k by (simp add: x_def)
    then have ok: "cursor_survives cx (row_key x)" using cursors in_rows by blast
    then have "decodeCursor cx (trim_space raw) = Inr (Some (row_key x))"
      using raw False decodeCursor_survives [of cx "fst (row_key x)" "snd (row_key x)"] by (simp add: x_def case_prod_beta)
    moreover have "filter (after_cursor row_key (Some (row_key x))) S = drop k S"
    proof -
      have "trim_space (snd (row_key x)) \<noteq> []" using ok by (simp add: cursor_survives_def Let_def)
      moreover have "sorted_wrt (\<lambda>x y. row_key x < row_key y) (take (k - 1) S @ x # drop k S)"
        using strict split by simp
      ultimately show ?thesis using sorted_filter_after split by metis
    qed
    ultimately show ?thesis
      by (simp add: filter_sort S conj_commute flip: filter_filter)
  qed
  then obtain cursor where cursor: "decodeCursor cx (trim_space raw) = Inr cursor"
    and rows: "sort_key row_key (filter (\<lambda>r. matches r \<and> after_cursor row_key cursor r) rows) = drop k S" by blast
  let ?items = "map f (take (nat limit + 1) (drop k S))"
  have fit: "\<forall>x \<in> set (take (nat limit) ?items). 64 + json_size x \<le> pageDataJSONBudget"
  proof -
    have "\<forall>r \<in> set S. 64 + json_size (f r) \<le> pageDataJSONBudget" using fits in_rows by blast
    then show ?thesis by (auto dest!: in_set_takeD in_set_dropD)
  qed
  obtain m where m: "budget_items json_size [] 64 (take (nat limit) ?items) = Inr (take m (take (nat limit) ?items))"
      "m \<le> length (take (nat limit) ?items)" "take (nat limit) ?items \<noteq> [] \<longrightarrow> 0 < m"
    using budget_items_prefix [OF fit, of "[]" 64] by auto
  have m_le: "m \<le> nat limit" "k + m \<le> length S" using m(2) k by auto
  have "take m (take (nat limit) ?items) = map f (take m (drop k S))" using m_le by (simp add: take_map min_def)
  moreover have "length ?items \<le> length (take m (take (nat limit) ?items)) \<longleftrightarrow> k + m = length S"
    using m_le limit(2) by auto
  moreover have "last (map f (take m (drop k S))) = f (S ! (k + m - 1))" if "0 < m"
  proof -
    have "take m (drop k S) \<noteq> []" "length (take m (drop k S)) = m" using that m_le by auto
    then show ?thesis using that m_le by (simp add: last_map last_conv_nth add_diff_assoc)
  qed
  moreover have "k < length S \<longrightarrow> 0 < m" using m(3) limit(2) by auto
  ultimately show ?thesis
    using limit(1) m cursor rows key m_le
    by (intro exI [of _ m]) (auto simp: history_page_def budgetPage_def Let_def)
qed

lemma walk_history:
  assumes limit: "normalized = Inr limit" "0 < limit" and key: "\<And>r. item_key (f r) = row_key r"
    and fits: "\<forall>r \<in> set rows. 64 + json_size (f r) \<le> pageDataJSONBudget"
    and cursors: "\<forall>r \<in> set rows. cursor_survives cx (row_key r)"
    and distinct: "distinct (map row_key rows)"
    and S: "S = sort_key row_key (filter matches rows)" and k: "k \<le> length S" and fuel: "length S - k < n"
    and raw: "raw = (if k = 0 then [] else let (c, i) = row_key (S ! (k - 1)) in cx_encode cx c i)"
  shows "walk (\<lambda>raw. history_page cx json_size row_key item_key f normalized raw matches rows) n raw = Some (map f (drop k S))"
  using k fuel raw
proof (induction n arbitrary: k raw)
  case (Suc n)
  obtain m where page: "history_page cx json_size row_key item_key f normalized raw matches rows =
      Inr \<lparr>pg_items = map f (take m (drop k S)),
        pg_next = (if k + m = length S then [] else let (c, i) = row_key (S ! (k + m - 1)) in cx_encode cx c i)\<rparr>"
    and m: "k + m \<le> length S" "k < length S \<longrightarrow> 0 < m"
    using history_page_step [where item_key = item_key and f = f and row_key = row_key, OF limit key fits cursors distinct S Suc.prems(1,3)] by blast
  show ?case
  proof (cases "k + m = length S")
    case True
    then show ?thesis using page by simp
  next
    case False
    then have more: "k + m < length S" "0 < m" using m by auto
    have "S ! (k + m - 1) \<in> set S" using more by (intro nth_mem) simp
    then have "cursor_survives cx (row_key (S ! (k + m - 1)))" using cursors S by auto
    then have next_cursor: "(let (c, i) = row_key (S ! (k + m - 1)) in cx_encode cx c i) \<noteq> []"
      by (auto simp: cursor_survives_def Let_def case_prod_beta)
    have "walk (\<lambda>raw. history_page cx json_size row_key item_key f normalized raw matches rows) n
        (let (c, i) = row_key (S ! (k + m - 1)) in cx_encode cx c i) = Some (map f (drop (k + m) S))"
      using more Suc.prems(2) by (intro Suc.IH) auto
    moreover have "map f (take m (drop k S)) @ map f (drop (k + m) S) = map f (drop k S)"
      by (metis add.commute append_take_drop_id drop_drop map_append)
    ultimately show ?thesis using page False next_cursor by simp
  qed
qed simp

text \<open>C23. Following the cursors of \<open>ListTasks\<close> from the start ends after at most one page for each task, and the pages
  together are the summaries of exactly the tasks of the project, each once, by creation and identifier. This
  holds for every limit the code accepts, for items that fit the byte budget and for cursors that
  survive being written and read.\<close>

theorem task_pages_complete:
  assumes "served sv w" and "0 \<le> sv_max_runs sv" and "0 \<le> limit" and "limit \<le> MaximumPageLimit"
    and "\<forall>t \<in> set (d_tasks (w_db w)). cursor_survives cx (t_created_at t, t_id t) \<and>
      64 + json_size (taskSummary t) \<le> pageDataJSONBudget"
  shows "walk (\<lambda>raw. fst (ListTasks cx json_size projectID raw limit w)) (Suc (length (d_tasks (w_db w)))) [] =
    Some (map taskSummary (sort_key (\<lambda>t. (t_created_at t, t_id t))
      (filter (\<lambda>t. column_is projectID (t_project_id t)) (d_tasks (w_db w)))))"
proof -
  let ?rows = "d_tasks (w_db w)"
  have "keys_distinct (w_db w)" using served_ok(1) [OF assms(1,2)] by (simp add: sound_def)
  then have "distinct (map t_id ?rows)" by (simp add: keys_distinct_def)
  then have keys: "distinct (map (\<lambda>t. (t_created_at t, t_id t)) ?rows)"
    by (auto simp: distinct_map inj_on_def)
  obtain n where n: "NormalizePageLimit limit = Inr n" "0 < n"
    using assms(3,4) by (cases "limit = 0") (auto simp: NormalizePageLimit_def DefaultPageLimit_def MaximumPageLimit_def)
  have "length (sort_key (\<lambda>t. (t_created_at t, t_id t)) (filter (\<lambda>t. column_is projectID (t_project_id t)) ?rows)) - 0
      < Suc (length ?rows)"
    by (simp add: le_imp_less_Suc)
  from walk_history [where item_key = "\<lambda>s. (ts_created_at s, ts_id s)" and f = taskSummary and row_key = "\<lambda>t. (t_created_at t, t_id t)"
      and rows = ?rows and k = 0, OF n _ _ _ keys refl _ this refl]
  show ?thesis
    using assms(5) by (simp add: ListTasks_def read_db_def taskSummary_def case_prod_beta Let_def)
qed

definition demo_codec :: codec where
  "demo_codec = \<lparr>cx_encode = \<lambda>_ i. i, cx_decode = \<lambda>s. Some (At 3, s), cx_is_time = \<lambda>_. True,
     cx_encode_event = \<lambda>_. ''c'', cx_decode_event = \<lambda>_. Some 1\<rparr>"

lemma demo_planned_keys: "map (\<lambda>t. (t_created_at t, t_id t)) (d_tasks (w_db demo_planned)) = [(At 3, ''tskii'')]"
  by (simp add: runs demo_defs cong: run_congs del: canonicalMessageIDs_def [THEN fun_cong] inputFingerprint_def)

theorem task_pages_complete_witness:
  "\<exists>ts. walk (\<lambda>raw. fst (ListTasks demo_codec (\<lambda>_. 9) [] raw 0 demo_planned)) 2 [] = Some ts \<and>
    map ts_id ts = [''tskii'']"
proof -
  obtain t where t: "d_tasks (w_db demo_planned) = [t]" "t_created_at t = At 3" "t_id t = ''tskii''"
    using demo_planned_keys by auto
  have "cursor_survives demo_codec (At 3, ''tskii'')"
    by (simp add: cursor_survives_def demo_codec_def function_runs strip.simps Let_def cong: run_congs)
  then have walked: "walk (\<lambda>raw. fst (ListTasks demo_codec (\<lambda>_. 9) [] raw 0 demo_planned)) (Suc (length (d_tasks (w_db demo_planned)))) [] =
      Some (map taskSummary (sort_key (\<lambda>t. (t_created_at t, t_id t))
        (filter (\<lambda>t. column_is [] (t_project_id t)) (d_tasks (w_db demo_planned)))))"
    by (intro task_pages_complete [of demo]) (auto simp: t MaximumPageLimit_def pageDataJSONBudget_def)
  have "ts_id (taskSummary t) = ''tskii''" by (simp add: taskSummary_def t case_prod_beta)
  then show ?thesis using walked t(1) by (intro exI [of _ "[taskSummary t]"]) (simp add: column_is_def numeral_2_eq_2 del: walk.simps)
qed

lemma budget_items_bounded:
  "budget_items json_size bounded used xs = Inr r \<Longrightarrow> used \<le> pageDataJSONBudget + 1 \<Longrightarrow>
   \<exists>m. r = bounded @ take m xs \<and> m \<le> length xs \<and> used + (\<Sum>x \<leftarrow> take m xs. json_size x + 1) \<le> pageDataJSONBudget + 1"
proof (induction json_size bounded used xs rule: budget_items.induct)
  case (2 json_size bounded used item items)
  show ?case
  proof (cases "bounded \<noteq> [] \<and> pageDataJSONBudget < used + json_size item + 1")
    case True
    then show ?thesis using 2 by (intro exI [of _ 0]) simp
  next
    case False
    then have "budget_items json_size (bounded @ [item]) (used + json_size item + 1) items = Inr r"
      "used + json_size item + 1 \<le> pageDataJSONBudget + 1" using 2(2) by (auto split: if_splits)
    then obtain m where "r = (bounded @ [item]) @ take m items" "m \<le> length items"
      "used + json_size item + 1 + (\<Sum>x \<leftarrow> take m items. json_size x + 1) \<le> pageDataJSONBudget + 1"
      using 2 False by (auto split: if_splits)
    then show ?thesis by (intro exI [of _ "Suc m"]) simp
  qed
qed auto

text \<open>C24. A page has at most as many items as its limit, and the JSON of its items, separated by commas, stays within
  the byte budget; a page that names no next one holds every row that was left.\<close>

theorem page_bounds:
  assumes "budgetPage cx json_size key limit items = Inr p"
  shows "length (pg_items p) \<le> limit \<and> 64 + (\<Sum>x \<leftarrow> pg_items p. json_size x + 1) \<le> pageDataJSONBudget + 1 \<and>
    (\<exists>m. pg_items p = take m items \<and> (pg_next p = [] \<longrightarrow> (\<forall>c i. cx_encode cx c i \<noteq> []) \<longrightarrow> pg_items p = items))"
proof -
  obtain bounded where b: "budget_items json_size [] 64 (take limit items) = Inr bounded" "pg_items p = bounded"
    and next_cursor: "pg_next p = (if length items \<le> length bounded then []
      else let (created, ident) = key (last bounded) in cx_encode cx created ident)"
    using assms by (auto simp: budgetPage_def split: sum.splits)
  obtain m where m: "bounded = take m (take limit items)" "m \<le> length (take limit items)"
    "64 + (\<Sum>x \<leftarrow> bounded. json_size x + 1) \<le> pageDataJSONBudget + 1"
    using budget_items_bounded [OF b(1)] by (auto simp: pageDataJSONBudget_def)
  have "bounded = take (min m limit) items" using m(1) by simp
  moreover have "bounded = items" if "pg_next p = []" "\<forall>c i. cx_encode cx c i \<noteq> []"
    using that next_cursor m by (auto split: if_splits prod.splits simp: Let_def)
  ultimately show ?thesis using m b(2) by (auto intro!: exI [of _ "min m limit"])
qed

theorem page_bounds_witness:
  "\<exists>p. budgetPage demo_codec length (\<lambda>s. (At 0, s)) 1 [''a'', ''b''] = Inr p \<and> length (pg_items p) \<le> 1"
proof -
  have "budgetPage demo_codec length (\<lambda>s. (At 0, s)) 1 [''a'', ''b''] = Inr \<lparr>pg_items = [''a''], pg_next = ''a''\<rparr>"
    by (simp add: budgetPage_def demo_codec_def pageDataJSONBudget_def)
  then show ?thesis by (blast dest: page_bounds)
qed

end
