(* ===== verification/Adapters.thy ===== *)
theory Adapters
  imports Text
begin

text \<open>
  The CLI adapters (internal/adapter): the immutable registry of adapters, and for Claude and Codex
  their metadata, the commands that start and resume a session, and when two sessions are compatible.
  An error is its message, without the quotes around its arguments. A Go map of environment variables is an association list with one entry
  for each name. The parsing of protocol frames is in \<open>Events\<close>.
\<close>

section \<open>Interface\<close>

datatype ExecutionModel = ExecutionOneShot | ExecutionLive | ExecutionOther string

record Metadata =
  md_name :: string
  md_execution_model :: ExecutionModel
  md_supports_resume :: bool
  md_supports_inject :: bool
  md_allowed_efforts :: "string list"

record ProviderConfig =
  pv_model :: string
  pv_subagent_model :: string
  pv_base_url :: string
  pv_effort :: string

type_synonym environment = "(string \<times> string) list"

record CommandSpec =
  cs_executable :: string
  cs_args :: "string list"
  cs_env :: environment

record LaunchSpec =
  ls_bootstrap_path :: string
  ls_conversation :: bool
  ls_container_home :: string
  ls_container_work :: string
  ls_provider :: ProviderConfig

record SessionContext =
  sc_adapter_id :: string
  sc_agent_id :: string
  sc_task_id :: string
  sc_workspace_id :: string

text \<open>The interface \<open>CLI\<close>; a resume is given the launch and the native session.\<close>

record CLI =
  cli_name :: string
  cli_metadata :: Metadata
  cli_build_start :: "LaunchSpec \<Rightarrow> string + CommandSpec"
  cli_build_resume :: "LaunchSpec \<Rightarrow> string \<Rightarrow> string + CommandSpec"
  cli_build_inject :: "string list \<Rightarrow> string \<Rightarrow> string + string"
  cli_resume_compatible :: "SessionContext \<Rightarrow> SessionContext \<Rightarrow> bool"

text \<open>No adapter takes input while it runs.\<close>

definition inject_unsupported :: "string list \<Rightarrow> string \<Rightarrow> string + string" where
  "inject_unsupported messageIDs body = Inl ''adapter: runtime input injection is not supported''"

text \<open>\<open>env[name] = value\<close>.\<close>

fun put_env :: "string \<Rightarrow> string \<Rightarrow> environment \<Rightarrow> environment" where
  "put_env k v [] = [(k, v)]"
| "put_env k v ((k', v') # env) = (if k' = k then (k, v) # env else (k', v') # put_env k v env)"

definition put_nonempty :: "string \<Rightarrow> string \<Rightarrow> environment \<Rightarrow> environment" where
  "put_nonempty k v env = (if trim_space v = [] then env else put_env k (trim_space v) env)"

section \<open>Launches\<close>

definition ContainerBootstrapPath :: string where
  "ContainerBootstrapPath = ''/run/coordplane/bootstrap''"

definition validateLaunchSpec :: "LaunchSpec \<Rightarrow> string option" where
  "validateLaunchSpec spec =
     (if ls_bootstrap_path spec \<noteq> ContainerBootstrapPath
      then Some ''adapter: bootstrap path must be the fixed run-control file''
      else if ls_container_home spec \<noteq> ''/home/agent''
      then Some ''adapter: container home must be /home/agent''
      else if ls_conversation spec then
        (if ls_container_work spec \<noteq> ''/home/agent''
         then Some ''adapter: conversation work directory must be /home/agent'' else None)
      else if ls_container_work spec \<noteq> ''/workspace/project''
      then Some ''adapter: code work directory must be /workspace/project''
      else None)"

definition bootstrapReferencePrompt :: string where
  "bootstrapReferencePrompt =
     ''Read and follow the complete CoordPlane run bootstrap at '' @ ContainerBootstrapPath @ '' before acting.''"

text \<open>Both adapters judge compatibility in the same way, each for its own name.\<close>

definition resume_compatible :: "string \<Rightarrow> SessionContext \<Rightarrow> SessionContext \<Rightarrow> bool" where
  "resume_compatible name previous next_context =
     (sc_adapter_id previous = name \<and> sc_adapter_id next_context = name \<and>
      sc_agent_id previous \<noteq> [] \<and> sc_agent_id previous = sc_agent_id next_context \<and>
      sc_task_id previous \<noteq> [] \<and> sc_task_id previous = sc_task_id next_context \<and>
      sc_workspace_id previous = sc_workspace_id next_context)"

section \<open>Claude\<close>

definition claudeAdapterName :: string where
  "claudeAdapterName = ''claude''"

definition claude_metadata :: Metadata where
  "claude_metadata = \<lparr>md_name = claudeAdapterName, md_execution_model = ExecutionOneShot,
     md_supports_resume = True, md_supports_inject = False,
     md_allowed_efforts = [''low'', ''medium'', ''high'']\<rparr>"

definition claudeEnvironment :: "LaunchSpec \<Rightarrow> environment" where
  "claudeEnvironment spec =
     put_nonempty ''CLAUDE_CODE_EFFORT_LEVEL'' (pv_effort (ls_provider spec))
     (put_nonempty ''ANTHROPIC_BASE_URL'' (pv_base_url (ls_provider spec))
     (put_nonempty ''CLAUDE_CODE_SUBAGENT_MODEL'' (pv_subagent_model (ls_provider spec))
     (put_nonempty ''ANTHROPIC_MODEL'' (pv_model (ls_provider spec))
       [(''HOME'', ls_container_home spec)])))"

definition claude_start :: "LaunchSpec \<Rightarrow> string + CommandSpec" where
  "claude_start spec =
     (case validateLaunchSpec spec of
        Some e \<Rightarrow> Inl e
      | None \<Rightarrow> Inr \<lparr>cs_executable = ''claude'',
          cs_args = [''-p'', ''--bare'', ''--verbose'', ''--output-format'', ''stream-json'',
            ''--dangerously-skip-permissions'', ''--'', bootstrapReferencePrompt],
          cs_env = claudeEnvironment spec\<rparr>)"

definition claude_resume :: "LaunchSpec \<Rightarrow> string \<Rightarrow> string + CommandSpec" where
  "claude_resume spec session =
     (case validateLaunchSpec spec of
        Some e \<Rightarrow> Inl e
      | None \<Rightarrow>
        let sessionID = trim_space session in
        if sessionID = [] then Inl ''adapter: native session ID is required for resume''
        else Inr \<lparr>cs_executable = ''claude'',
          cs_args = [''-p'', ''--bare'', ''--verbose'', ''--output-format'', ''stream-json'',
            ''--dangerously-skip-permissions'', ''--resume'', sessionID, ''--'', bootstrapReferencePrompt],
          cs_env = claudeEnvironment spec\<rparr>)"

definition Claude :: CLI where
  "Claude = \<lparr>cli_name = claudeAdapterName, cli_metadata = claude_metadata, cli_build_start = claude_start,
     cli_build_resume = claude_resume, cli_build_inject = inject_unsupported,
     cli_resume_compatible = resume_compatible claudeAdapterName\<rparr>"

section \<open>Codex\<close>

definition codexAdapterName :: string where
  "codexAdapterName = ''codex''"

definition codexAllowedEfforts :: "string list" where
  "codexAllowedEfforts = [''low'', ''medium'', ''high'', ''xhigh'', ''max'', ''ultra'']"

definition codex_metadata :: Metadata where
  "codex_metadata = \<lparr>md_name = codexAdapterName, md_execution_model = ExecutionOneShot,
     md_supports_resume = True, md_supports_inject = False, md_allowed_efforts = codexAllowedEfforts\<rparr>"

definition codexEnvironment :: "string \<Rightarrow> environment" where
  "codexEnvironment containerHome = [(''HOME'', containerHome), (''CODEX_HOME'', ''/home/agent/.codex'')]"

definition codexProviderArgs :: "ProviderConfig \<Rightarrow> bool \<Rightarrow> string list" where
  "codexProviderArgs provider includeModel =
     (if includeModel \<and> trim_space (pv_model provider) \<noteq> [] then [''-m'', trim_space (pv_model provider)] else []) @
     (if trim_space (pv_subagent_model provider) \<noteq> []
      then [''-c'', ''default_subagent_model='' @ trim_space (pv_subagent_model provider)] else []) @
     (if trim_space (pv_effort provider) \<noteq> []
      then [''-c'', ''model_reasoning_effort='' @ trim_space (pv_effort provider)] else []) @
     (if trim_space (pv_base_url provider) \<noteq> []
      then [''-c'', ''model_providers.codex.name=codex'', ''-c'',
        ''model_providers.codex.base_url='' @ trim_space (pv_base_url provider)] else [])"

definition codex_start :: "LaunchSpec \<Rightarrow> string + CommandSpec" where
  "codex_start spec =
     (case validateLaunchSpec spec of
        Some e \<Rightarrow> Inl e
      | None \<Rightarrow> Inr \<lparr>cs_executable = ''codex'',
          cs_args = [''exec'', ''--json'', ''--skip-git-repo-check'', ''--dangerously-bypass-approvals-and-sandbox'',
            ''--ignore-user-config'', ''-C'', ls_container_work spec] @
            codexProviderArgs (ls_provider spec) True @ [''--'', bootstrapReferencePrompt],
          cs_env = codexEnvironment (ls_container_home spec)\<rparr>)"

definition codex_resume :: "LaunchSpec \<Rightarrow> string \<Rightarrow> string + CommandSpec" where
  "codex_resume spec session =
     (case validateLaunchSpec spec of
        Some e \<Rightarrow> Inl e
      | None \<Rightarrow>
        let sessionID = trim_space session in
        if sessionID = [] then Inl ''adapter: native session ID is required for Codex resume''
        else Inr \<lparr>cs_executable = ''codex'',
          cs_args = [''exec'', ''resume'', ''--json'', ''--skip-git-repo-check'',
            ''--dangerously-bypass-approvals-and-sandbox'', ''--ignore-user-config''] @
            codexProviderArgs (ls_provider spec) False @ [sessionID, ''--'', bootstrapReferencePrompt],
          cs_env = codexEnvironment (ls_container_home spec)\<rparr>)"

definition Codex :: CLI where
  "Codex = \<lparr>cli_name = codexAdapterName, cli_metadata = codex_metadata, cli_build_start = codex_start,
     cli_build_resume = codex_resume, cli_build_inject = inject_unsupported,
     cli_resume_compatible = resume_compatible codexAdapterName\<rparr>"

section \<open>Registry\<close>

record Registry =
  rg_entries :: "(string \<times> CLI) list"
  rg_names :: "string list"

definition productionAdapters :: "CLI option list" where
  "productionAdapters = [Some Claude, Some Codex]"

fun validate_efforts :: "string list \<Rightarrow> string list \<Rightarrow> string \<Rightarrow> string option" where
  "validate_efforts seen [] name = None"
| "validate_efforts seen (effort # efforts) name =
     (if trim_space effort \<noteq> effort \<or> effort = []
      then Some (''adapter: '' @ name @ '' has a non-canonical allowed effort '' @ effort)
      else if effort \<in> set seen then Some (''adapter: '' @ name @ '' has duplicate allowed effort '' @ effort)
      else validate_efforts (effort # seen) efforts name)"

definition validate_entry :: "Registry \<Rightarrow> CLI \<Rightarrow> string option" where
  "validate_entry registry entry =
     (let name = trim_space (cli_name entry); metadata = cli_metadata entry in
      if name = [] \<or> name \<noteq> cli_name entry then Some ''adapter: registry names must be non-empty and canonical''
      else if map_of (rg_entries registry) name \<noteq> None then Some (''adapter: duplicate registry name '' @ name)
      else if trim_space (md_name metadata) \<noteq> name
      then Some (''adapter: '' @ name @ '' metadata name must match its registry name'')
      else (case md_execution_model metadata of
          ExecutionOneShot \<Rightarrow> validate_efforts [] (md_allowed_efforts metadata) name
        | ExecutionLive \<Rightarrow>
            if \<not> md_supports_inject metadata then Some (''adapter: live adapter '' @ name @ '' must support injection'')
            else validate_efforts [] (md_allowed_efforts metadata) name
        | ExecutionOther model \<Rightarrow> Some (''adapter: '' @ name @ '' has invalid execution model '' @ model)))"

fun register_entries :: "Registry \<Rightarrow> CLI option list \<Rightarrow> string + Registry" where
  "register_entries registry [] = Inr registry"
| "register_entries registry (None # entries) = Inl ''adapter: nil registry entry''"
| "register_entries registry (Some entry # entries) =
     (case validate_entry registry entry of
        Some e \<Rightarrow> Inl e
      | None \<Rightarrow>
        let name = trim_space (cli_name entry) in
        register_entries \<lparr>rg_entries = (name, entry) # rg_entries registry, rg_names = rg_names registry @ [name]\<rparr> entries)"

definition newRegistry :: "CLI option list \<Rightarrow> string + Registry" where
  "newRegistry entries =
     (case register_entries \<lparr>rg_entries = [], rg_names = []\<rparr> entries of
        Inl e \<Rightarrow> Inl e
      | Inr registry \<Rightarrow> Inr (registry\<lparr>rg_names := sort (rg_names registry)\<rparr>))"

text \<open>\<open>Production\<close> panics when the list is invalid: then there is no value.\<close>

definition Production :: "Registry option" where
  "Production = (case newRegistry productionAdapters of Inl e \<Rightarrow> None | Inr registry \<Rightarrow> Some registry)"

definition Lookup :: "Registry \<Rightarrow> string \<Rightarrow> CLI option" where
  "Lookup registry name = map_of (rg_entries registry) (trim_space name)"

definition Names :: "Registry \<Rightarrow> string list" where
  "Names registry = rg_names registry"

end
