(* ===== verification/Containers.thy ===== *)
theory Containers
  imports Adapters "HOL-Library.Multiset"
begin

text \<open>
  Containers (internal/runtime): what the controller asks of a container, what it observes of one,
  and the validation that an existing container still has the isolation a run was launched with.
  A mismatch is the name of the field that differs; it always wraps \<open>ErrOwnership\<close>.
\<close>

section \<open>Paths\<close>

text \<open>\<open>filepath.Clean\<close> on Unix: the elements are processed from the left on a stack that holds what is
  kept, the last element first.\<close>

fun clean_elements :: "bool \<Rightarrow> string list \<Rightarrow> string list \<Rightarrow> string list" where
  "clean_elements rooted stack [] = rev stack"
| "clean_elements rooted stack (e # es) =
     (if e = [] \<or> e = ''.'' then clean_elements rooted stack es
      else if e = ''..'' then
        (case stack of
           [] \<Rightarrow> if rooted then clean_elements rooted [] es else clean_elements rooted [e] es
         | kept # rest \<Rightarrow> if kept = ''..'' then clean_elements rooted (e # stack) es else clean_elements rooted rest es)
      else clean_elements rooted (e # stack) es)"

definition rooted_path :: "string \<Rightarrow> bool" where
  "rooted_path p = (case p of [] \<Rightarrow> False | c # _ \<Rightarrow> c = CHR ''/'')"

definition clean_path :: "string \<Rightarrow> string" where
  "clean_path p =
     (let elements = join ''/'' (clean_elements (rooted_path p) [] (split_on (CHR ''/'') p)) in
      if rooted_path p then CHR ''/'' # elements else if elements = [] then ''.'' else elements)"

text \<open>\<open>filepath.Join\<close>: the elements that are not empty, joined and cleaned.\<close>

definition join_path :: "string list \<Rightarrow> string" where
  "join_path elements =
     (let kept = filter (\<lambda>e. e \<noteq> []) elements in if kept = [] then [] else clean_path (join ''/'' kept))"

section \<open>Contract\<close>

record RuntimeRef =
  rr_container_id :: string
  rr_container_name :: string
  rr_project_id :: string
  rr_task_id :: string
  rr_agent_id :: string
  rr_run_id :: string
  rr_generation :: int
  rr_launch_nonce :: string

record Mount =
  mt_source :: string
  mt_target :: string
  mt_read_only :: bool

record ResourceLimits =
  rl_pids :: int
  rl_memory_bytes :: int
  rl_nano_cpus :: int
  rl_tmpfs_bytes :: int

record ContainerSpec =
  sp_ref :: RuntimeRef
  sp_image :: string
  sp_command :: CommandSpec
  sp_sensitive_env_keys :: "string list"
  sp_working_dir :: string
  sp_user :: string
  sp_group_add :: "string list"
  sp_network :: string
  sp_mounts :: "Mount list"
  sp_read_only_root :: bool
  sp_limits :: ResourceLimits

datatype ContainerStatus = StatusCreated | StatusRunning | StatusExited | StatusOther string

record MountFact =
  mf_type :: string
  mf_source :: string
  mf_destination :: string
  mf_read_write :: bool
  mf_propagation :: string

record EnvironmentFact =
  ef_name :: string
  ef_value_digest :: string

record LiveState =
  lv_ref :: RuntimeRef
  lv_image :: string
  lv_entrypoint :: "string list"
  lv_command_args :: "string list"
  lv_environment :: "EnvironmentFact list"
  lv_working_dir :: string
  lv_user :: string
  lv_group_add :: "string list"
  lv_network :: string
  lv_status :: ContainerStatus
  lv_running :: bool
  lv_pid :: int
  lv_exit_code :: "int option"
  lv_auto_remove :: bool
  lv_restart_policy :: string
  lv_privileged :: bool
  lv_readonly_rootfs :: bool
  lv_cap_add :: "string list"
  lv_cap_drop :: "string list"
  lv_security_opt :: "string list"
  lv_published_ports :: int
  lv_pids_limit :: int
  lv_memory_bytes :: int
  lv_nano_cpus :: int
  lv_init :: bool
  lv_tmpfs :: "(string \<times> string) list"
  lv_mounts :: "MountFact list"

section \<open>Adoption\<close>

text \<open>An empty expected container identifier is allowed only for the recovery between the creation of the
  container and the record of its identifier.\<close>

definition ValidateOwnership :: "RuntimeRef \<Rightarrow> RuntimeRef \<Rightarrow> string option" where
  "ValidateOwnership expected actual =
     (if rr_container_name actual \<noteq> rr_container_name expected \<or> rr_project_id actual \<noteq> rr_project_id expected \<or>
         rr_task_id actual \<noteq> rr_task_id expected \<or> rr_agent_id actual \<noteq> rr_agent_id expected \<or>
         rr_run_id actual \<noteq> rr_run_id expected \<or> rr_generation actual \<noteq> rr_generation expected \<or>
         rr_launch_nonce actual \<noteq> rr_launch_nonce expected \<or>
         (rr_container_id expected \<noteq> [] \<and> rr_container_id actual \<noteq> rr_container_id expected)
      then Some ''runtime identity'' else None)"

definition environmentValueDigest :: "(string \<Rightarrow> nat list) \<Rightarrow> string \<Rightarrow> string" where
  "environmentValueDigest sha value = hex_encode (sha value)"

fun environment_index :: "(string \<times> string) list \<Rightarrow> EnvironmentFact list \<Rightarrow> (string \<times> string) list option" where
  "environment_index index [] = Some index"
| "environment_index index (entry # entries) =
     (if ef_name entry = [] \<or> ef_value_digest entry = [] \<or> map_of index (ef_name entry) \<noteq> None then None
      else environment_index ((ef_name entry, ef_value_digest entry) # index) entries)"

definition validateAdoptionEnvironment ::
  "(string \<Rightarrow> nat list) \<Rightarrow> ContainerSpec \<Rightarrow> EnvironmentFact list \<Rightarrow> string option" where
  "validateAdoptionEnvironment sha expected actual =
     (if \<not> distinct (sp_sensitive_env_keys expected) then Some ''environment''
      else case environment_index [] actual of
        None \<Rightarrow> Some ''environment''
      | Some index \<Rightarrow>
          if \<exists>(name, value) \<in> set (cs_env (sp_command expected)).
               map_of index name \<noteq> Some (environmentValueDigest sha value)
          then Some ''environment''
          else if \<exists>name \<in> set (sp_sensitive_env_keys expected).
               (map_of (cs_env (sp_command expected)) name \<noteq> None) \<noteq> (map_of index name \<noteq> None)
          then Some ''environment'' else None)"

fun tmpfs_options :: "string list \<Rightarrow> string list \<Rightarrow> string list option" where
  "tmpfs_options got [] = Some got"
| "tmpfs_options got (raw # options) =
     (let option = trim_space raw in
      if option = [] \<or> option \<in> set got then None else tmpfs_options (option # got) options)"

definition wanted_tmpfs :: "int \<Rightarrow> string list" where
  "wanted_tmpfs bytes = [''rw'', ''nosuid'', ''nodev'', ''size='' @ int_text bytes]"

definition validateAdoptionTmpfs :: "int \<Rightarrow> (string \<times> string) list \<Rightarrow> string option" where
  "validateAdoptionTmpfs bytes actual =
     (if bytes \<le> 0 \<or> length actual \<noteq> 1 then Some ''tmpfs''
      else case map_of actual ''/tmp'' of
        None \<Rightarrow> Some ''tmpfs''
      | Some options \<Rightarrow>
          (case tmpfs_options [] (split_on (CHR '','') options) of
             None \<Rightarrow> Some ''tmpfs''
           | Some got \<Rightarrow>
               if length got \<noteq> length (wanted_tmpfs bytes) \<or> (\<exists>option \<in> set (wanted_tmpfs bytes). option \<notin> set got)
               then Some ''tmpfs'' else None))"

text \<open>\<open>strconv.ParseUint(s, 10, 32)\<close>.\<close>

fun digits_value :: "nat \<Rightarrow> string \<Rightarrow> nat option" where
  "digits_value n [] = Some n"
| "digits_value n (c # cs) =
     (if in_range 48 57 c then digits_value (10 * n + (byte c - 48)) cs else None)"

definition parse_uint32 :: "string \<Rightarrow> nat option" where
  "parse_uint32 s =
     (if s = [] then None
      else case digits_value 0 s of None \<Rightarrow> None | Some n \<Rightarrow> if n < 2 ^ 32 then Some n else None)"

definition validateNonRootUser :: "string \<Rightarrow> string option" where
  "validateNonRootUser user =
     (case parse_uint32 (hd (split_on (CHR '':'') (trim_space user))) of
        None \<Rightarrow> Some ''nonroot user''
      | Some n \<Rightarrow> if n = 0 then Some ''nonroot user'' else None)"

fun index_mounts :: "(string \<times> Mount) list \<Rightarrow> Mount list \<Rightarrow> (string \<times> Mount) list option" where
  "index_mounts want [] = Some want"
| "index_mounts want (mount # mounts) =
     (let target = clean_path (mt_target mount) in
      if map_of want target \<noteq> None then None
      else index_mounts ((target, mount\<lparr>mt_source := clean_path (mt_source mount)\<rparr>) # want) mounts)"

fun match_mounts :: "(string \<times> Mount) list \<Rightarrow> MountFact list \<Rightarrow> bool" where
  "match_mounts want [] = (want = [])"
| "match_mounts want (mount # mounts) =
     (let target = clean_path (mf_destination mount) in
      case map_of want target of
        None \<Rightarrow> False
      | Some expected \<Rightarrow>
          if mf_type mount \<noteq> ''bind'' \<or> clean_path (mf_source mount) \<noteq> mt_source expected \<or>
             mf_read_write mount = mt_read_only expected \<or> mf_propagation mount \<noteq> ''rprivate'' then False
          else match_mounts (filter (\<lambda>p. fst p \<noteq> target) want) mounts)"

definition validateAdoptionMounts :: "Mount list \<Rightarrow> MountFact list \<Rightarrow> string option" where
  "validateAdoptionMounts expected actual =
     (if length actual \<noteq> length expected then Some ''mount set''
      else case index_mounts [] expected of
        None \<Rightarrow> Some ''mount set''
      | Some want \<Rightarrow> if match_mounts want actual then None else Some ''mount set'')"

definition equalStringsAsSet :: "string list \<Rightarrow> string list \<Rightarrow> bool" where
  "equalStringsAsSet left right = (sort left = sort right)"

text \<open>\<open>strings.EqualFold\<close> with a pattern of ASCII letters that have no other Unicode case.\<close>

definition containsFold :: "string list \<Rightarrow> string \<Rightarrow> bool" where
  "containsFold values want = (\<exists>value \<in> set values. to_lower value = to_lower want)"

definition containsSecurityOption :: "string list \<Rightarrow> string \<Rightarrow> bool" where
  "containsSecurityOption values want = (\<exists>value \<in> set values. value = want \<or> value = want @ '':true'')"

text \<open>The checks in their order; the first that fails decides.\<close>

fun first_mismatch :: "string option list \<Rightarrow> string option" where
  "first_mismatch [] = None"
| "first_mismatch (None # checks) = first_mismatch checks"
| "first_mismatch (Some field # checks) = Some field"

definition mismatch :: "bool \<Rightarrow> string \<Rightarrow> string option" where
  "mismatch b field = (if b then Some field else None)"

definition ValidateAdoption :: "(string \<Rightarrow> nat list) \<Rightarrow> ContainerSpec \<Rightarrow> LiveState \<Rightarrow> string option" where
  "ValidateAdoption sha expected actual =
     first_mismatch [
      ValidateOwnership (sp_ref expected) (lv_ref actual),
      mismatch (lv_image actual \<noteq> sp_image expected) ''image'',
      mismatch (lv_entrypoint actual \<noteq> [cs_executable (sp_command expected)] \<or>
         lv_command_args actual \<noteq> cs_args (sp_command expected)) ''command'',
      validateAdoptionEnvironment sha expected (lv_environment actual),
      mismatch (lv_working_dir actual \<noteq> sp_working_dir expected) ''working directory'',
      validateNonRootUser (lv_user actual),
      mismatch (lv_user actual \<noteq> sp_user expected) ''user'',
      mismatch (\<not> equalStringsAsSet (lv_group_add actual) (sp_group_add expected)) ''supplementary groups'',
      mismatch (lv_network actual \<noteq> sp_network expected) ''network'',
      mismatch (lv_auto_remove actual \<or> lv_restart_policy actual \<noteq> ''no'') ''lifecycle policy'',
      mismatch (lv_privileged actual \<or> length (lv_cap_add actual) \<noteq> 0 \<or> length (lv_cap_drop actual) \<noteq> 1 \<or>
         \<not> containsFold (lv_cap_drop actual) ''ALL'') ''Linux privileges'',
      mismatch (\<not> lv_readonly_rootfs actual \<or> \<not> sp_read_only_root expected) ''read-only root filesystem'',
      mismatch (length (lv_security_opt actual) \<noteq> 1 \<or>
         \<not> containsSecurityOption (lv_security_opt actual) ''no-new-privileges'') ''no-new-privileges'',
      mismatch (lv_published_ports actual \<noteq> 0) ''published ports'',
      mismatch (lv_pids_limit actual \<noteq> rl_pids (sp_limits expected) \<or>
         lv_memory_bytes actual \<noteq> rl_memory_bytes (sp_limits expected) \<or>
         lv_nano_cpus actual \<noteq> rl_nano_cpus (sp_limits expected)) ''resource limits'',
      mismatch (\<not> lv_init actual) ''init process'',
      validateAdoptionTmpfs (rl_tmpfs_bytes (sp_limits expected)) (lv_tmpfs actual),
      validateAdoptionMounts (sp_mounts expected) (lv_mounts actual)]"

end
