(* ===== verification/Redaction.thy ===== *)
theory Redaction
  imports Containers Model "HOL-Library.Product_Lexorder"
begin

text \<open>
  What a run may write to its log (internal/daemon/runtime_redaction.go and the log side of
  runtime_monitor.go, runtime_supervisor.go): the secrets file of a run, the list of values that are
  replaced in every text, the bounded log file, and the reason that is derived from its tail.
  Strings are byte strings. Reading a file is a parameter that returns its bytes, or nothing.
\<close>

section \<open>Standard library\<close>

text \<open>\<open>strings.ReplaceAll\<close> for a pattern that is not empty.\<close>

function replace_all :: "string \<Rightarrow> string \<Rightarrow> string \<Rightarrow> string" where
  "replace_all old new [] = []"
| "replace_all old new (c # cs) =
     (if old \<noteq> [] \<and> take (length old) (c # cs) = old then new @ replace_all old new (drop (length old) (c # cs))
      else c # replace_all old new cs)"
  by pat_completeness auto
termination
  by (relation "measure (\<lambda>(old, new, s). length s)") (auto simp: neq_Nil_conv)

declare replace_all.simps [simp del]

lemmas replace_all_simps = replace_all.simps

text \<open>\<open>strings.Fields\<close>: the pieces between runs of white space.\<close>

definition space_at :: "string \<Rightarrow> bool" where
  "space_at s = (find (\<lambda>p. p \<noteq> [] \<and> take (length p) s = p) space_runes \<noteq> None)"

fun field_end :: "string \<Rightarrow> string \<times> string" where
  "field_end [] = ([], [])"
| "field_end (c # cs) =
     (if space_at (c # cs) then ([], c # cs) else (let (field, rest) = field_end cs in (c # field, rest)))"

lemma length_field_end: "length (snd (field_end s)) \<le> length s"
  by (induction s) (auto simp: case_prod_beta)

lemma space_at_trim_left: "\<not> space_at (trim_left s)"
proof (induction s rule: length_induct)
  case (1 s)
  show ?case
  proof (cases "find (\<lambda>p. p \<noteq> [] \<and> take (length p) s = p) space_runes")
    case None
    then show ?thesis by (simp add: trim_left_def strip_None space_at_def)
  next
    case (Some p)
    then have "p \<noteq> [] \<and> take (length p) s = p" by (metis (mono_tags, lifting) find_Some_iff)
    then have "length (drop (length p) s) < length s" by (cases s) auto
    then show ?thesis using 1 Some by (simp add: trim_left_def strip_Some)
  qed
qed

function space_fields :: "string \<Rightarrow> string list" where
  "space_fields s =
     (let s' = trim_left s in
      if s' = [] then [] else fst (field_end s') # space_fields (snd (field_end s')))"
  by auto
termination
proof (relation "measure length")
  fix s x :: string
  assume x: "x = trim_left s" and "x \<noteq> []"
  then obtain c cs where cs: "x = c # cs" by (meson list.exhaust)
  then have "\<not> space_at (c # cs)" using space_at_trim_left x by metis
  then have "length (snd (field_end x)) < length x"
    using cs length_field_end [of cs] by (simp add: case_prod_beta)
  moreover have "length x \<le> length s" using x length_strip by (simp add: trim_left_def)
  ultimately show "(snd (field_end x), s) \<in> measure length" by simp
qed simp

declare space_fields.simps [simp del]

definition to_upper :: "string \<Rightarrow> string" where
  "to_upper s = map (\<lambda>c. if in_range 97 122 c then char_of (byte c - 32) else c) s"

section \<open>The secrets file\<close>

definition shellSingleQuoteEscape :: string where
  "shellSingleQuoteEscape = [CHR 0x27, CHR 0x5C, CHR 0x27, CHR 0x27]"

definition shell_space :: "char \<Rightarrow> bool" where
  "shell_space c = (c \<in> {CHR '' '', CHR 0x09, CHR 0x0D, CHR 0x0A})"

definition shell_blank :: "char \<Rightarrow> bool" where
  "shell_blank c = (c \<in> {CHR '' '', CHR 0x09})"

definition validRunSecretKey :: "string \<Rightarrow> bool" where
  "validRunSecretKey key =
     (case key of
        [] \<Rightarrow> False
      | c # cs \<Rightarrow> (in_range 65 90 c \<or> in_range 97 122 c \<or> c = CHR ''_'') \<and>
          (\<forall>d \<in> set cs. in_range 65 90 d \<or> in_range 97 122 d \<or> d = CHR ''_'' \<or> in_range 48 57 d))"

text \<open>The scan after the opening quote: the decoded value and the tail after the closing quote.\<close>

function scan_quoted :: "string \<Rightarrow> (string \<times> string) option" where
  "scan_quoted [] = None"
| "scan_quoted (c # cs) =
     (if take (length shellSingleQuoteEscape) (c # cs) = shellSingleQuoteEscape
      then map_option (apfst (Cons (CHR 0x27))) (scan_quoted (drop (length shellSingleQuoteEscape) (c # cs)))
      else if c = CHR 0x27 then Some ([], cs)
      else map_option (apfst (Cons c)) (scan_quoted cs))"
  by pat_completeness auto
termination
  by (relation "measure length") (auto simp: shellSingleQuoteEscape_def)

declare scan_quoted.simps [simp del]

definition scanShellSingleQuoted :: "string \<Rightarrow> (string \<times> string) option" where
  "scanShellSingleQuoted raw = (case raw of [] \<Rightarrow> None | c # cs \<Rightarrow> if c = CHR 0x27 then scan_quoted cs else None)"

text \<open>One entry of the file, after the white space and comments in front of it: the decoded value and what
  is left of the file.\<close>

definition parse_secret_entry :: "string \<Rightarrow> (string \<times> string) option" where
  "parse_secret_entry raw =
     (let key_end = (\<lambda>c. c = CHR ''='' \<or> shell_space c);
          key = takeWhile (\<lambda>c. \<not> key_end c) raw;
          after_key = dropWhile shell_blank (dropWhile (\<lambda>c. \<not> key_end c) raw) in
      case after_key of
        [] \<Rightarrow> None
      | c # cs \<Rightarrow>
        if c \<noteq> CHR ''='' then None
        else case scanShellSingleQuoted (dropWhile shell_blank cs) of
            None \<Rightarrow> None
          | Some (value, remainder) \<Rightarrow>
            let rest = dropWhile shell_blank remainder in
            if rest \<noteq> [] \<and> hd rest \<noteq> CHR 0x0A \<and> hd rest \<noteq> CHR ''#'' then None
            else if \<not> validRunSecretKey key then None else Some (value, rest))"

lemma scan_quoted_length: "scan_quoted s = Some (v, r) \<Longrightarrow> length r < length s"
  by (induction s arbitrary: v rule: scan_quoted.induct)
     (auto simp: scan_quoted.simps shellSingleQuoteEscape_def split: if_splits)

lemma length_dropWhile: "length (dropWhile P xs) \<le> length xs"
  by (induction xs) auto

lemma parse_secret_entry_length: "parse_secret_entry raw = Some (v, rest) \<Longrightarrow> length rest < length raw"
proof -
  assume "parse_secret_entry raw = Some (v, rest)"
  then obtain c cs q tail r where after: "dropWhile shell_blank
        (dropWhile (\<lambda>c. \<not> (c = CHR ''='' \<or> shell_space c)) raw) = c # cs"
    and scan: "dropWhile shell_blank cs = q # tail" "scan_quoted tail = Some (v, r)"
    and rest: "rest = dropWhile shell_blank r"
    by (auto simp: parse_secret_entry_def scanShellSingleQuoted_def Let_def split: list.splits option.splits if_splits)
  have "length rest \<le> length r" "length r < length tail" "length (q # tail) \<le> length cs" "length (c # cs) \<le> length raw"
    using rest scan_quoted_length [OF scan(2)] length_dropWhile [of shell_blank r]
      length_dropWhile [of shell_blank cs] length_dropWhile [of shell_blank "dropWhile _ raw"]
      length_dropWhile [of _ raw]
    by (auto simp flip: scan(1) after intro: le_trans)
  then show ?thesis by simp
qed

function parse_secrets :: "string \<Rightarrow> string list option" where
  "parse_secrets raw =
     (let raw' = dropWhile shell_space raw in
      if raw' = [] then Some []
      else if hd raw' = CHR ''#'' then parse_secrets (dropWhile (\<lambda>c. c \<noteq> CHR 0x0A) (tl raw'))
      else case parse_secret_entry raw' of
          None \<Rightarrow> None
        | Some (value, rest) \<Rightarrow> map_option (Cons value) (parse_secrets rest))"
  by auto
termination
proof (relation "measure length")
  fix raw x :: string
  assume x: "x = dropWhile shell_space raw" "x \<noteq> []"
  then have "length (dropWhile (\<lambda>c. c \<noteq> CHR 0x0A) (tl x)) \<le> length (tl x)" by (intro length_dropWhile)
  also have "\<dots> < length x" using x by (cases x) auto
  also have "\<dots> \<le> length raw" using x by (simp add: length_dropWhile)
  finally show "(dropWhile (\<lambda>c. c \<noteq> CHR 0x0A) (tl x), raw) \<in> measure length" by simp
next
  fix raw x rest v :: string and p
  assume "x = dropWhile shell_space raw" "parse_secret_entry x = Some p" "(v, rest) = p"
  then show "(rest, raw) \<in> measure length"
    using parse_secret_entry_length [of x v rest] length_dropWhile [of shell_space raw] by auto
qed simp

declare parse_secrets.simps [simp del]

definition parseRunSecretsFile :: "string \<Rightarrow> string list option" where
  "parseRunSecretsFile raw = parse_secrets raw"

definition secrets_header :: string where
  "secrets_header = ''# coordplane-managed run secrets'' @ [CHR 0x0A]"

definition secret_line :: "string \<Rightarrow> string \<Rightarrow> string" where
  "secret_line name value = name @ ''='' @ [CHR 0x27] @ replace_all [CHR 0x27] shellSingleQuoteEscape value @
     [CHR 0x27, CHR 0x0A]"

fun serialize_secrets :: "(string \<Rightarrow> string) \<Rightarrow> string list \<Rightarrow> string + string" where
  "serialize_secrets secrets [] = Inr []"
| "serialize_secrets secrets (name # names) =
     (if \<not> validRunSecretKey name then Inl (''run secret key '' @ name @ '' is not a valid environment name'')
      else if CHR 0x00 \<in> set (secrets name) then Inl (''run secret '' @ name @ '' contains a NUL byte'')
      else case serialize_secrets secrets names of
          Inl e \<Rightarrow> Inl e
        | Inr rest \<Rightarrow> Inr (secret_line name (secrets name) @ rest))"

text \<open>The argument is a Go map: its keys, without repetition, and its values.\<close>

definition serializeRunSecretsFile :: "(string \<times> string) list \<Rightarrow> string + string" where
  "serializeRunSecretsFile secrets =
     (case serialize_secrets (\<lambda>name. the (map_of secrets name)) (sort (map fst secrets)) of
        Inl e \<Rightarrow> Inl e
      | Inr body \<Rightarrow> Inr (secrets_header @ body))"

section \<open>Redaction\<close>

definition redactedHostPath :: string where
  "redactedHostPath = ''[REDACTED_HOST_PATH]''"

definition redactedSecret :: string where
  "redactedSecret = ''[REDACTED_SECRET]''"

definition redactionUnavailableMarker :: string where
  "redactionUnavailableMarker = ''[coordplane: redaction unavailable; content suppressed]''"

text \<open>The values with their replacements, in the order in which they are replaced.\<close>

record runtimeRedaction =
  rx_values :: "(string \<times> string) list"
  rx_fail_closed :: bool

definition longest_first :: "(string \<times> string) list \<Rightarrow> (string \<times> string) list" where
  "longest_first values = sort_key (\<lambda>(v, _). (- int (length v), v)) values"

definition secret_candidates :: "string \<Rightarrow> string list" where
  "secret_candidates secret = filter (\<lambda>c. c \<noteq> []) ([secret, trim_space secret] @ space_fields secret)"

definition put_path :: "string \<Rightarrow> environment \<Rightarrow> environment" where
  "put_path raw unique =
     (let path = trim_space raw in
      if path = [] \<or> \<not> rooted_path path then unique else put_env (clean_path path) redactedHostPath unique)"

definition put_secret :: "(string \<Rightarrow> nat list) \<Rightarrow> string \<Rightarrow> environment \<Rightarrow> environment" where
  "put_secret sha candidate unique =
     (let digest = hex_encode (sha candidate) in
      put_env (to_upper digest) redactedSecret
      (put_env digest redactedSecret (put_env candidate redactedSecret unique)))"

definition newRuntimeRedaction :: "(string \<Rightarrow> nat list) \<Rightarrow> string list \<Rightarrow> string list \<Rightarrow> runtimeRedaction" where
  "newRuntimeRedaction sha paths secrets =
     (let unique = fold put_path paths [];
          unique = fold (put_secret sha) (concat (map secret_candidates secrets)) unique in
      \<lparr>rx_values = longest_first unique, rx_fail_closed = False\<rparr>)"

definition replace_value :: "string \<times> string \<Rightarrow> string \<Rightarrow> string" where
  "replace_value item value = replace_all (fst item) (snd item) value"

text \<open>\<open>runtimeRedaction.Text\<close>.\<close>

definition redact_text :: "runtimeRedaction \<Rightarrow> string \<Rightarrow> string" where
  "redact_text r value =
     (if rx_fail_closed r then redactionUnavailableMarker else fold replace_value (rx_values r) value)"

definition withExactValues :: "runtimeRedaction \<Rightarrow> string list \<Rightarrow> runtimeRedaction" where
  "withExactValues r values =
     r\<lparr>rx_values := longest_first (rx_values r @
        map (\<lambda>v. (v, redactedSecret)) (filter (\<lambda>v. v \<noteq> []) (map trim_space values)))\<rparr>"

text \<open>The part of the controller's configuration that the runtime uses.\<close>

record controller_config =
  cc_data_dir :: string
  cc_operator_socket :: string
  cc_workspace_root :: string
  cc_agent_home_root :: string
  cc_log_root :: string
  cc_control_root :: string
  cc_coordlink :: string
  cc_docker_host :: string
  cc_docker_network :: string
  cc_provider_env_allowlist :: "string list"
  cc_shutdown_grace :: int
  cc_run_timeout :: int
  cc_stall_timeout :: int
  cc_max_parallel_runs :: int

type_synonym files = "string \<Rightarrow> string option"

definition runtimeRunSecrets :: "controller_config \<Rightarrow> files \<Rightarrow> run \<Rightarrow> string list option" where
  "runtimeRunSecrets c files run =
     (if cc_control_root c = [] \<or> trim_space (r_id run) = [] then Some []
      else case files (join_path [cc_control_root c, r_id run, ''secrets'']) of
          None \<Rightarrow> None
        | Some raw \<Rightarrow> parseRunSecretsFile raw)"

definition runtimeRunInstructions ::
  "(string \<Rightarrow> nat list) \<Rightarrow> controller_config \<Rightarrow> files \<Rightarrow> run \<Rightarrow> string list option" where
  "runtimeRunInstructions sha c files run =
     (if cc_control_root c = [] \<or> trim_space (r_id run) = [] then Some []
      else case files (join_path [cc_control_root c, r_id run, ''instructions'']) of
          None \<Rightarrow> None
        | Some raw \<Rightarrow>
            if r_instructions_hash run \<noteq> [] \<and> hex_encode (sha raw) \<noteq> r_instructions_hash run then None
            else let text = trim_space raw in if text = [] then Some [] else Some [text])"

definition unix_prefix :: string where
  "unix_prefix = ''unix://''"

text \<open>The paths of the host that a run may come to know.\<close>

definition runtime_paths :: "controller_config \<Rightarrow> run \<Rightarrow> string list \<Rightarrow> string list" where
  "runtime_paths c run extraPaths =
     (let dockerHost = trim_space (cc_docker_host c) in
      [cc_data_dir c, cc_operator_socket c, cc_workspace_root c, cc_agent_home_root c, cc_log_root c,
       cc_control_root c, cc_coordlink c, r_workspace_path run, r_home_path run, r_log_path run,
       ''/var/run/docker.sock''] @ extraPaths @
      (if take (length unix_prefix) dockerHost = unix_prefix then [drop (length unix_prefix) dockerHost] else []))"

definition runtimeRedaction ::
  "(string \<Rightarrow> nat list) \<Rightarrow> controller_config \<Rightarrow> files \<Rightarrow> run \<Rightarrow> string list \<Rightarrow> runtimeRedaction" where
  "runtimeRedaction sha c files run extraPaths =
     (let paths = runtime_paths c run extraPaths;
          secrets = runtimeRunSecrets c files run;
          token = (if r_id run \<noteq> [] \<and> cc_control_root c \<noteq> []
             then case files (join_path [cc_control_root c, r_id run, ''token'']) of
                 None \<Rightarrow> [] | Some raw \<Rightarrow> [trim_space raw]
             else []);
          redaction = newRuntimeRedaction sha paths ((case secrets of None \<Rightarrow> [] | Some ss \<Rightarrow> ss) @ token) in
      if secrets = None then redaction\<lparr>rx_fail_closed := True\<rparr>
      else case runtimeRunInstructions sha c files run of
          None \<Rightarrow> redaction\<lparr>rx_fail_closed := True\<rparr>
        | Some instructions \<Rightarrow> if instructions = [] then redaction else withExactValues redaction instructions)"

section \<open>Frames\<close>

text \<open>A decoded protocol frame; a number keeps its text.\<close>

datatype frame_value = FNull | FBool bool | FNumber string | FString string
  | FArray "frame_value list" | FObject "(string \<times> frame_value) list"

fun put_member :: "string \<Rightarrow> frame_value \<Rightarrow> (string \<times> frame_value) list \<Rightarrow> (string \<times> frame_value) list" where
  "put_member k v [] = [(k, v)]"
| "put_member k v ((k', v') # ms) = (if k' = k then (k, v) # ms else (k', v') # put_member k v ms)"

text \<open>The members of an object are visited in the order of their names; of two members whose redacted names
  are equal, the later one is kept.\<close>

fun sanitizeJSONValue :: "runtimeRedaction \<Rightarrow> frame_value \<Rightarrow> frame_value" where
  "sanitizeJSONValue r (FString s) = FString (redact_text r s)"
| "sanitizeJSONValue r (FArray vs) = FArray (map (sanitizeJSONValue r) vs)"
| "sanitizeJSONValue r (FObject ms) =
     FObject (fold (\<lambda>(k, v). put_member (redact_text r k) v)
       (sort_key fst (map (\<lambda>(k, v). (k, sanitizeJSONValue r v)) ms)) [])"
| "sanitizeJSONValue r v = v"

definition rejectedFrameMetadata :: "string \<Rightarrow> string" where
  "rejectedFrameMetadata frame = ''{\"bytes\":'' @ nat_text (length frame) @ '',\"sanitized\":false}''"

section \<open>The log file of a run\<close>

definition runtimeLogLimit :: int where "runtimeLogLimit = 8 * 2 ^ 20"
definition runtimeRejectedLogReserve :: int where "runtimeRejectedLogReserve = 8 * 2 ^ 10"

definition runtimeLogTruncatedMarker :: string where
  "runtimeLogTruncatedMarker = ''[coordplane: runtime log truncated]'' @ [CHR 0x0A]"

definition log_content_limit :: int where
  "log_content_limit = runtimeLogLimit - int (length runtimeLogTruncatedMarker) - runtimeRejectedLogReserve"

record run_log =
  lg_file :: string
  lg_written :: int
  lg_truncated :: bool
  lg_failed :: bool

text \<open>One write: the disk takes a prefix of the data; taking less than all of it is an error.\<close>

definition put_bytes :: "(string \<Rightarrow> string \<Rightarrow> nat) \<Rightarrow> string \<Rightarrow> run_log \<Rightarrow> nat \<times> run_log" where
  "put_bytes disk data lg =
     (let n = min (disk (lg_file lg) data) (length data) in
      (n, lg\<lparr>lg_file := lg_file lg @ take n data, lg_failed := n < length data\<rparr>))"

text \<open>\<open>writeLine\<close> in \<open>streamLogs\<close>.\<close>

definition write_log_line :: "(string \<Rightarrow> string \<Rightarrow> nat) \<Rightarrow> bool \<Rightarrow> string \<Rightarrow> run_log \<Rightarrow> run_log" where
  "write_log_line disk diagnostic line lg =
     (if lg_failed lg \<or> (\<not> diagnostic \<and> lg_truncated lg) then lg
      else if diagnostic then
        (if runtimeRejectedLogReserve < int (length line) + 1 then lg\<lparr>lg_failed := True\<rparr>
         else snd (put_bytes disk (line @ [CHR 0x0A]) lg))
      else
        let remaining = log_content_limit - lg_written lg;
            complete = (0 < remaining \<and> int (length line) + 1 \<le> remaining);
            lg1 = (if 0 < remaining then
               let line' = (if complete then line else take (nat (remaining - 1)) line);
                   (n, lg') = put_bytes disk (line' @ [CHR 0x0A]) lg in
               lg'\<lparr>lg_written := lg_written lg + int n\<rparr> else lg) in
        if \<not> lg_failed lg1 \<and> \<not> complete then
          let (n, lg2) = put_bytes disk runtimeLogTruncatedMarker lg1 in lg2\<lparr>lg_truncated := \<not> lg_failed lg2\<rparr>
        else lg1)"

section \<open>The reason of an exit\<close>

definition readLogTail :: "files \<Rightarrow> string \<Rightarrow> nat \<Rightarrow> string" where
  "readLogTail files path maxBytes =
     (case files path of None \<Rightarrow> [] | Some raw \<Rightarrow> drop (length raw - maxBytes) raw)"

definition compactLogTail :: "string \<Rightarrow> nat \<Rightarrow> string" where
  "compactLogTail text maxLines =
     join ''; '' (rev (take maxLines (filter (\<lambda>l. l \<noteq> []) (map trim_space (rev (split_on (CHR 0x0A) text))))))"

definition last_activity :: string where
  "last_activity = ''; last log activity: ''"

definition runtimeExitedReason :: "string \<Rightarrow> int option \<Rightarrow> string \<Rightarrow> runtimeRedaction \<Rightarrow> string" where
  "runtimeExitedReason reason exitCode logTail r =
     (let prefix = (case exitCode of None \<Rightarrow> reason
            | Some code \<Rightarrow> ''CLI process exited (exit '' @ int_text code @ '')'');
          tail = compactLogTail (redact_text r logTail) 20 in
      if tail = [] then prefix
      else prefix @ last_activity @ take (1800 - length prefix - length last_activity) tail)"

end
