(* ===== verification/Secrecy.thy ===== *)
theory Secrecy
  imports Redaction Scenario "HOL-Library.Sublist"
begin

text \<open>
  What the redaction of a run guarantees: the secrets file reads back as the values it was written
  with, no protected value survives in a redacted text or frame, and the log file keeps its bound.
\<close>

section \<open>The secrets file reads back\<close>

lemma replace_all_char:
  "replace_all [q] new s = concat (map (\<lambda>c. if c = q then new else [c]) s)"
proof (induction s)
  case (Cons c s)
  then show ?case by (simp add: replace_all_simps)
qed (simp add: replace_all_simps)

lemma scan_quoted_escaped:
  assumes "c \<noteq> CHR 0x5C"
  shows "scan_quoted (replace_all [CHR 0x27] shellSingleQuoteEscape v @ CHR 0x27 # c # rest) = Some (v, c # rest)"
proof (induction v)
  case Nil
  show ?case using assms by (simp add: replace_all_simps scan_quoted.simps shellSingleQuoteEscape_def)
next
  case (Cons d v)
  show ?case
  proof (cases "d = CHR 0x27")
    case True
    then show ?thesis using Cons
      by (simp add: replace_all_char scan_quoted.simps(2) [of "CHR 0x27" for cs] shellSingleQuoteEscape_def)
  next
    case False
    then show ?thesis using Cons
      by (simp add: replace_all_char scan_quoted.simps(2) [of d for cs] shellSingleQuoteEscape_def)
  qed
qed

lemma validRunSecretKey_chars:
  assumes "validRunSecretKey key" and "c \<in> set key"
  shows "c \<noteq> CHR ''='' \<and> \<not> shell_space c \<and> c \<noteq> CHR ''#''"
proof -
  have "in_range 65 90 c \<or> in_range 97 122 c \<or> c = CHR ''_'' \<or> in_range 48 57 c"
    using assms by (auto simp: validRunSecretKey_def split: list.splits)
  then show ?thesis by (auto simp: in_range_def shell_space_def)
qed

lemma parse_secret_line:
  assumes "validRunSecretKey name"
  shows "parse_secret_entry (secret_line name v @ rest) = Some (v, CHR 0x0A # rest)"
proof -
  let ?tail = "CHR ''='' # CHR 0x27 # replace_all [CHR 0x27] shellSingleQuoteEscape v @ CHR 0x27 # CHR 0x0A # rest"
  have line: "secret_line name v @ rest = name @ ?tail" by (simp add: secret_line_def)
  have stop: "\<forall>c \<in> set name. \<not> (c = CHR ''='' \<or> shell_space c)" using validRunSecretKey_chars [OF assms] by blast
  have key: "takeWhile (\<lambda>c. \<not> (c = CHR ''='' \<or> shell_space c)) (name @ ?tail) = name"
    and after: "dropWhile (\<lambda>c. \<not> (c = CHR ''='' \<or> shell_space c)) (name @ ?tail) = ?tail"
    using stop by (simp_all add: takeWhile_append2 dropWhile_append2)
  have scan: "scan_quoted (replace_all [CHR 0x27] shellSingleQuoteEscape v @ CHR 0x27 # CHR 0x0A # rest) =
      Some (v, CHR 0x0A # rest)"
    by (intro scan_quoted_escaped) simp
  show ?thesis unfolding line parse_secret_entry_def Let_def key after
    using assms scan by (simp add: shell_blank_def scanShellSingleQuoted_def)
qed

lemma parse_secrets_newline: "parse_secrets (CHR 0x0A # s) = parse_secrets s"
proof -
  have "dropWhile shell_space (CHR 0x0A # s) = dropWhile shell_space s" by (simp add: shell_space_def)
  then show ?thesis by (subst (1 2) parse_secrets.simps) (simp only: Let_def)
qed

lemma parse_serialized_secrets:
  "serialize_secrets secrets names = Inr body \<Longrightarrow> parse_secrets body = Some (map secrets names)"
proof (induction names arbitrary: body)
  case Nil
  then show ?case by (simp add: parse_secrets.simps)
next
  case (Cons name names)
  then obtain rest where valid: "validRunSecretKey name" and rest: "serialize_secrets secrets names = Inr rest"
    and body: "body = secret_line name (secrets name) @ rest"
    by (auto split: if_splits sum.splits)
  obtain c cs where name: "name = c # cs" using valid by (cases name) (auto simp: validRunSecretKey_def)
  then have "c \<noteq> CHR ''#''" "\<not> shell_space c" using validRunSecretKey_chars [OF valid] by auto
  moreover have "\<exists>l. body = c # l" using body name by (simp add: secret_line_def)
  ultimately have "dropWhile shell_space body = body" "body \<noteq> []" "hd body \<noteq> CHR ''#''" by auto
  moreover have "parse_secret_entry body = Some (secrets name, CHR 0x0A # rest)"
    using parse_secret_line [OF valid] body by simp
  ultimately have "parse_secrets body = map_option (Cons (secrets name)) (parse_secrets (CHR 0x0A # rest))"
    by (subst parse_secrets.simps) (simp add: Let_def)
  then show ?case using Cons.IH [OF rest] by (simp add: parse_secrets_newline)
qed

text \<open>C25. The secrets file that a launch writes reads back as exactly the values it was given, in the order of their
  names, whatever bytes they hold; the file is refused only when a name is not the name of a variable
  of the environment or a value holds a NUL byte.\<close>

theorem secrets_roundtrip:
  "(case serializeRunSecretsFile secrets of
      Inr raw \<Rightarrow> parseRunSecretsFile raw = Some (map (\<lambda>name. the (map_of secrets name)) (sort (map fst secrets)))
    | Inl e \<Rightarrow> \<exists>(name, v) \<in> set secrets. \<not> (validRunSecretKey name \<and> CHR 0x00 \<notin> set (the (map_of secrets name))))"
proof (cases "serialize_secrets (\<lambda>name. the (map_of secrets name)) (sort (map fst secrets))")
  case (Inl e)
  have "serialize_secrets f names = Inl e \<Longrightarrow> \<exists>name \<in> set names. \<not> validRunSecretKey name \<or> CHR 0x00 \<in> set (f name)"
    for f names by (induction names) (auto split: if_splits sum.splits)
  from this [OF Inl] show ?thesis using Inl by (force simp: serializeRunSecretsFile_def)
next
  case (Inr body)
  have header: "secrets_header @ body = CHR ''#'' # '' coordplane-managed run secrets'' @ CHR 0x0A # body"
    by (simp add: secrets_header_def)
  have "parse_secrets (secrets_header @ body) = parse_secrets (CHR 0x0A # body)"
    unfolding header by (subst parse_secrets.simps) (simp add: shell_space_def Let_def)
  then show ?thesis
    using Inr parse_serialized_secrets [OF Inr] by (simp add: serializeRunSecretsFile_def parseRunSecretsFile_def parse_secrets_newline)
qed

section \<open>Nothing protected survives\<close>

text \<open>A value that a replacement cannot bring back: it has no bracket and is no part of a marker.\<close>

definition marker_inner :: "string \<Rightarrow> string" where
  "marker_inner m = butlast (tl m)"

definition unmarked :: "string \<Rightarrow> bool" where
  "unmarked v = (v \<noteq> [] \<and> CHR ''['' \<notin> set v \<and> CHR '']'' \<notin> set v \<and>
     \<not> sublist v (marker_inner redactedSecret) \<and> \<not> sublist v (marker_inner redactedHostPath))"

lemma sublist_over_separator:
  assumes "sublist v (xs @ b # ys)" and "b \<notin> set v"
  shows "sublist v xs \<or> sublist v ys"
proof -
  obtain ps ss where split: "xs @ b # ys = ps @ v @ ss" using assms(1) by (auto simp: sublist_def)
  then consider "v = []" | us where "xs = ps @ us" "us @ b # ys = v @ ss" | us where "xs @ us = ps" "b # ys = us @ v @ ss" "us \<noteq> []"
    by (fastforce simp: append_eq_append_conv2)
  then show ?thesis
  proof cases
    case 2
    then obtain ws where "v = us @ ws \<and> b # ys = ws @ ss \<or> us = v @ ws" by (auto simp: append_eq_append_conv2)
    then show ?thesis
    proof
      assume "v = us @ ws \<and> b # ys = ws @ ss"
      then have "v = us" using assms(2) by (cases ws) auto
      then have "sublist v xs" using 2(1) unfolding sublist_def by (metis append.right_neutral)
      then show ?thesis ..
    next
      assume "us = v @ ws"
      then show ?thesis using 2 by (auto simp: sublist_def)
    qed
  next
    case 3
    then obtain us' where "us = b # us'" "ys = us' @ v @ ss" by (cases us) auto
    then show ?thesis by (auto simp: sublist_def)
  qed simp
qed

lemma prefix_before_replacement:
  "\<lbrakk>new \<noteq> []; hd new \<notin> set v; prefix v (replace_all old new s)\<rbrakk> \<Longrightarrow> prefix v s"
proof (induction old new s arbitrary: v rule: replace_all.induct)
  case (2 old new c cs)
  show ?case
  proof (cases v)
    case (Cons d v')
    show ?thesis
    proof (cases "old \<noteq> [] \<and> take (length old) (c # cs) = old")
      case True
      then have "prefix (d # v') (new @ replace_all old new (drop (length old) (c # cs)))"
        using 2(5) Cons by (simp add: replace_all_simps)
      then have "d = hd new" using 2(3) by (cases new) auto
      then show ?thesis using 2(4) Cons by simp
    next
      case False
      then have "d = c" "prefix v' (replace_all old new cs)" using 2(5) Cons by (auto simp: replace_all_simps)
      then show ?thesis using 2(2) [OF False] 2(3,4) Cons by simp
    qed
  qed simp
qed (simp add: replace_all_simps)

lemma replace_all_keeps_out:
  assumes marker: "new = CHR ''['' # inner @ [CHR '']'']" "\<not> sublist v inner"
    and free: "CHR ''['' \<notin> set v" "CHR '']'' \<notin> set v" "v \<noteq> []"
    and out: "v = old \<or> \<not> sublist v s"
  shows "\<not> sublist v (replace_all old new s)"
  using out
proof (induction s rule: length_induct)
  case (1 s)
  show ?case
  proof (cases s)
    case Nil
    then show ?thesis using free(3) by (simp add: replace_all_simps)
  next
    case (Cons c cs)
    show ?thesis
    proof (cases "old \<noteq> [] \<and> take (length old) (c # cs) = old")
      case True
      let ?rest = "replace_all old new (drop (length old) (c # cs))"
      have "v = old \<or> \<not> sublist v (drop (length old) (c # cs))"
        using 1(2) Cons sublist_order.order_trans [OF _ sublist_drop] by blast
      moreover have "length (drop (length old) (c # cs)) < length s" using True Cons by (cases old) auto
      ultimately have "\<not> sublist v ?rest" using 1(1) by blast
      moreover have "\<not> sublist v (CHR ''['' # inner)"
        using sublist_over_separator [of v "[]" "CHR ''[''" inner] marker(2) free by auto
      ultimately have "\<not> sublist v ((CHR ''['' # inner) @ CHR '']'' # ?rest)"
        using sublist_over_separator [of v "CHR ''['' # inner" "CHR '']''" ?rest] free(2) by blast
      then show ?thesis using True Cons marker(1) by (simp add: replace_all_simps)
    next
      case False
      have tail: "\<not> sublist v (replace_all old new cs)"
        using 1 Cons by (auto simp: sublist_Cons_right)
      have "\<not> prefix v (replace_all old new (c # cs))"
      proof
        assume "prefix v (replace_all old new (c # cs))"
        then have "prefix v (c # cs)" using prefix_before_replacement [of new v] marker(1) free(1) by simp
        then show False using 1(2) False Cons free(3) by (auto simp: prefix_def)
      qed
      moreover have "replace_all old new (c # cs) = c # replace_all old new cs" using False by (auto simp: replace_all_simps)
      ultimately show ?thesis using tail Cons by (simp add: sublist_Cons_right)
    qed
  qed
qed

definition markers_only :: "runtimeRedaction \<Rightarrow> bool" where
  "markers_only r = (\<forall>(v, m) \<in> set (rx_values r). m = redactedSecret \<or> m = redactedHostPath)"

lemma marker_parts:
  "redactedSecret = CHR ''['' # marker_inner redactedSecret @ [CHR '']'']"
  "redactedHostPath = CHR ''['' # marker_inner redactedHostPath @ [CHR '']'']"
  by (simp_all add: marker_inner_def redactedSecret_def redactedHostPath_def)

lemma replace_value_keeps_out:
  assumes "unmarked v" and "snd item = redactedSecret \<or> snd item = redactedHostPath" and "v = fst item \<or> \<not> sublist v s"
  shows "\<not> sublist v (replace_value item s)"
  using assms replace_all_keeps_out [OF marker_parts(1)] replace_all_keeps_out [OF marker_parts(2)]
  unfolding unmarked_def replace_value_def by metis

lemma fold_replace_keeps_out:
  assumes "unmarked v" and "\<forall>item \<in> set items. snd item = redactedSecret \<or> snd item = redactedHostPath"
    and "v \<in> fst ` set items \<or> \<not> sublist v s"
  shows "\<not> sublist v (fold replace_value items s)"
  using assms(2,3)
proof (induction items arbitrary: s)
  case (Cons item items)
  have "v \<in> fst ` set items \<or> \<not> sublist v (replace_value item s)"
    using replace_value_keeps_out [OF assms(1), of item s] Cons.prems by auto
  then show ?case using Cons by simp
qed simp

lemma redact_text_hides:
  assumes "markers_only r" and "unmarked v" and "v \<in> fst ` set (rx_values r)" and "\<not> rx_fail_closed r"
  shows "\<not> sublist v (redact_text r s)"
  proof -
  have "\<forall>item \<in> set (rx_values r). snd item = redactedSecret \<or> snd item = redactedHostPath"
    using assms(1) by (auto simp: markers_only_def)
  then show ?thesis using fold_replace_keeps_out [OF assms(2)] assms(3,4) by (simp add: redact_text_def)
qed

lemma put_env_fst: "fst ` set (put_env k v env) = insert k (fst ` set env)"
  by (induction k v env rule: put_env.induct) (simp_all add: insert_commute)

lemma put_env_snd: "snd ` set (put_env k v env) \<subseteq> insert v (snd ` set env)"
  by (induction k v env rule: put_env.induct) (simp_all, blast+)

lemma put_secret_fst:
  "fst ` set (put_secret sha c env) = {c, hex_encode (sha c), to_upper (hex_encode (sha c))} \<union> fst ` set env"
  by (auto simp: put_secret_def put_env_fst Let_def)

lemma fold_put_secret_fst:
  "fst ` set (fold (put_secret sha) cs env) =
     (\<Union>c \<in> set cs. {c, hex_encode (sha c), to_upper (hex_encode (sha c))}) \<union> fst ` set env"
  by (induction cs arbitrary: env) (auto simp: put_secret_fst)

lemma put_path_fst:
  "fst ` set (put_path p env) \<supseteq> fst ` set env"
  "trim_space p \<noteq> [] \<Longrightarrow> rooted_path (trim_space p) \<Longrightarrow> clean_path (trim_space p) \<in> fst ` set (put_path p env)"
  by (auto simp: put_path_def put_env_fst Let_def)

lemma fold_put_path_grows: "fst ` set env \<subseteq> fst ` set (fold put_path ps env)"
proof (induction ps arbitrary: env)
  case (Cons p ps)
  show ?case unfolding fold_simps by (rule subset_trans [OF put_path_fst(1) Cons.IH])
qed simp

lemma fold_put_path_fst:
  "p \<in> set ps \<Longrightarrow> trim_space p \<noteq> [] \<Longrightarrow> rooted_path (trim_space p) \<Longrightarrow>
     clean_path (trim_space p) \<in> fst ` set (fold put_path ps env)"
proof (induction ps arbitrary: env)
  case (Cons q ps)
  show ?case
  proof (cases "p = q")
    case True
    then show ?thesis
      using put_path_fst(2) [of p env] fold_put_path_grows [of "put_path p env" ps] Cons.prems by auto
  qed (use Cons in simp)
qed simp

lemma put_env_within: "snd ` set env \<subseteq> M \<Longrightarrow> v \<in> M \<Longrightarrow> snd ` set (put_env k v env) \<subseteq> M"
  by (rule order_trans [OF put_env_snd]) simp

lemma fold_put_secret_within:
  "snd ` set env \<subseteq> M \<Longrightarrow> redactedSecret \<in> M \<Longrightarrow> snd ` set (fold (put_secret sha) cs env) \<subseteq> M"
  by (induction cs arbitrary: env) (simp_all add: put_secret_def Let_def put_env_within)

lemma fold_put_path_within:
  "snd ` set env \<subseteq> M \<Longrightarrow> redactedHostPath \<in> M \<Longrightarrow> snd ` set (fold put_path ps env) \<subseteq> M"
  by (induction ps arbitrary: env) (simp_all add: put_path_def Let_def put_env_within)

lemma newRuntimeRedaction_values:
  "markers_only (newRuntimeRedaction sha paths secrets)"
  "secret \<in> set secrets \<Longrightarrow> c \<in> set (secret_candidates secret) \<Longrightarrow>
   {c, hex_encode (sha c), to_upper (hex_encode (sha c))} \<subseteq> fst ` set (rx_values (newRuntimeRedaction sha paths secrets))"
  "p \<in> set paths \<Longrightarrow> trim_space p \<noteq> [] \<Longrightarrow> rooted_path (trim_space p) \<Longrightarrow>
   clean_path (trim_space p) \<in> fst ` set (rx_values (newRuntimeRedaction sha paths secrets))"
proof -
  let ?cs = "concat (map secret_candidates secrets)" and ?env = "fold put_path paths []"
  have vals: "set (rx_values (newRuntimeRedaction sha paths secrets)) = set (fold (put_secret sha) ?cs ?env)"
    by (simp add: newRuntimeRedaction_def longest_first_def)
  have "snd ` set (fold (put_secret sha) ?cs ?env) \<subseteq> {redactedSecret, redactedHostPath}"
    by (intro fold_put_secret_within fold_put_path_within) simp_all
  then show "markers_only (newRuntimeRedaction sha paths secrets)" unfolding markers_only_def vals by fastforce
  show "{c, hex_encode (sha c), to_upper (hex_encode (sha c))} \<subseteq> fst ` set (rx_values (newRuntimeRedaction sha paths secrets))"
    if "secret \<in> set secrets" "c \<in> set (secret_candidates secret)"
    unfolding vals fold_put_secret_fst using that by auto
  show "clean_path (trim_space p) \<in> fst ` set (rx_values (newRuntimeRedaction sha paths secrets))"
    if "p \<in> set paths" "trim_space p \<noteq> []" "rooted_path (trim_space p)"
    unfolding vals fold_put_secret_fst using fold_put_path_fst [OF that] by blast
qed

lemma withExactValues_values:
  "markers_only r \<Longrightarrow> markers_only (withExactValues r vs)"
  "fst ` set (rx_values r) \<subseteq> fst ` set (rx_values (withExactValues r vs))"
  "rx_fail_closed (withExactValues r vs) = rx_fail_closed r"
  "v \<in> set vs \<Longrightarrow> trim_space v \<noteq> [] \<Longrightarrow> trim_space v \<in> fst ` set (rx_values (withExactValues r vs))"
  by (auto simp: withExactValues_def markers_only_def longest_first_def image_iff) force

text \<open>What a run protects: the secrets it was launched with and its token, in each of their forms, the
  text of its instructions and the paths of the host that it knows.\<close>

definition protected_values ::
  "(string \<Rightarrow> nat list) \<Rightarrow> controller_config \<Rightarrow> files \<Rightarrow> run \<Rightarrow> string list \<Rightarrow> string set"
where
  "protected_values sha c files run extraPaths =
     (\<Union>secret \<in> (case runtimeRunSecrets c files run of None \<Rightarrow> {} | Some ss \<Rightarrow> set ss) \<union>
         (case files (join_path [cc_control_root c, r_id run, ''token'']) of None \<Rightarrow> {} | Some raw \<Rightarrow> {trim_space raw}).
       \<Union>v \<in> set (secret_candidates secret). {v, hex_encode (sha v), to_upper (hex_encode (sha v))}) \<union>
     (case runtimeRunInstructions sha c files run of None \<Rightarrow> {} | Some texts \<Rightarrow> set (map trim_space texts)) \<union>
     {clean_path p | p. p \<in> trim_space ` set (runtime_paths c run extraPaths) \<and> p \<noteq> [] \<and> rooted_path p}"

lemma runtimeRedaction_values:
  assumes "r_id run \<noteq> []" and "cc_control_root c \<noteq> []" and "\<not> rx_fail_closed (runtimeRedaction sha c files run extraPaths)"
  shows "markers_only (runtimeRedaction sha c files run extraPaths)"
    and "protected_values sha c files run extraPaths - {[]} \<subseteq> fst ` set (rx_values (runtimeRedaction sha c files run extraPaths))"
proof -
  let ?paths = "runtime_paths c run extraPaths"
  obtain ss texts where ss: "runtimeRunSecrets c files run = Some ss" and texts: "runtimeRunInstructions sha c files run = Some texts"
    and r: "runtimeRedaction sha c files run extraPaths =
      (let redaction = newRuntimeRedaction sha ?paths (ss @ (case files (join_path [cc_control_root c, r_id run, ''token'']) of
           None \<Rightarrow> [] | Some raw \<Rightarrow> [trim_space raw])) in
       if texts = [] then redaction else withExactValues redaction texts)"
    using assms unfolding runtimeRedaction_def Let_def by (auto split: option.splits if_splits)
  show "markers_only (runtimeRedaction sha c files run extraPaths)"
    unfolding r Let_def using newRuntimeRedaction_values(1) withExactValues_values(1) by auto
  let ?redaction = "newRuntimeRedaction sha ?paths (ss @ (case files (join_path [cc_control_root c, r_id run, ''token'']) of
           None \<Rightarrow> [] | Some raw \<Rightarrow> [trim_space raw]))"
  have base: "fst ` set (rx_values ?redaction) \<subseteq> fst ` set (rx_values (runtimeRedaction sha c files run extraPaths))"
    unfolding r Let_def using withExactValues_values(2) by auto
  have "v \<in> fst ` set (rx_values (runtimeRedaction sha c files run extraPaths))"
    if v: "v \<in> protected_values sha c files run extraPaths" "v \<noteq> []" for v
  proof -
    consider (wording) "v \<in> set (map trim_space texts)"
      | (path) p where "p \<in> set ?paths" "trim_space p \<noteq> []" "rooted_path (trim_space p)" "v = clean_path (trim_space p)"
      | (secret) secret u where "secret \<in> set (ss @ (case files (join_path [cc_control_root c, r_id run, ''token'']) of
           None \<Rightarrow> [] | Some raw \<Rightarrow> [trim_space raw]))" "u \<in> set (secret_candidates secret)"
        "v \<in> {u, hex_encode (sha u), to_upper (hex_encode (sha u))}"
      using v(1) ss texts unfolding protected_values_def by (fastforce split: option.splits)
    then show ?thesis
    proof cases
      case wording
      then obtain u where u: "u \<in> set texts" "v = trim_space u" by auto
      then have "texts \<noteq> []" by auto
      then show ?thesis unfolding r Let_def using withExactValues_values(4) [OF u(1)] u v(2) by simp
    next
      case path
      then show ?thesis using newRuntimeRedaction_values(3) base by blast
    next
      case secret
      then show ?thesis using newRuntimeRedaction_values(2) base by blast
    qed
  qed
  then show "protected_values sha c files run extraPaths - {[]} \<subseteq> fst ` set (rx_values (runtimeRedaction sha c files run extraPaths))"
    by blast
qed

text \<open>Every text of a frame: its strings and the names of its members.\<close>

fun frame_texts :: "frame_value \<Rightarrow> string set" where
  "frame_texts (FString s) = {s}"
| "frame_texts (FArray vs) = (\<Union>v \<in> set vs. frame_texts v)"
| "frame_texts (FObject ms) = (\<Union>(k, v) \<in> set ms. insert k (frame_texts v))"
| "frame_texts v = {}"

lemma frame_texts_members:
  "frame_texts (FObject []) = {}"
  "frame_texts (FObject ((k, v) # ms)) = insert k (frame_texts v) \<union> frame_texts (FObject ms)"
  by auto

lemma frame_texts_put_member:
  "frame_texts (FObject (put_member k v ms)) \<subseteq> insert k (frame_texts v) \<union> frame_texts (FObject ms)"
  by (induction k v ms rule: put_member.induct) (unfold put_member.simps frame_texts_members, blast,
      simp del: frame_texts.simps add: frame_texts_members, blast)

lemma frame_texts_fold_put:
  "frame_texts (FObject (fold (\<lambda>(k, v). put_member (f k) v) ms acc)) \<subseteq>
     (\<Union>(k, v) \<in> set ms. insert (f k) (frame_texts v)) \<union> frame_texts (FObject acc)"
proof (induction ms arbitrary: acc)
  case (Cons m ms)
  obtain k v where m: "m = (k, v)" by (cases m)
  have "frame_texts (FObject (fold (\<lambda>(k, v). put_member (f k) v) (m # ms) acc)) \<subseteq>
      (\<Union>(k, v) \<in> set ms. insert (f k) (frame_texts v)) \<union> frame_texts (FObject (put_member (f k) v acc))"
    using Cons [of "put_member (f k) v acc"] m by (simp del: frame_texts.simps)
  also have "\<dots> \<subseteq> (\<Union>(k, v) \<in> set ms. insert (f k) (frame_texts v)) \<union> (insert (f k) (frame_texts v) \<union> frame_texts (FObject acc))"
    using frame_texts_put_member [of "f k" v acc] by (intro Un_mono subset_refl)
  also have "\<dots> \<subseteq> (\<Union>(k, v) \<in> set (m # ms). insert (f k) (frame_texts v)) \<union> frame_texts (FObject acc)"
    unfolding m by (simp del: frame_texts.simps) blast
  finally show ?case .
qed simp

lemma sanitized_texts: "frame_texts (sanitizeJSONValue r f) \<subseteq> range (redact_text r)"
proof (induction f)
  case (FArray vs)
  then show ?case by auto
next
  case (FObject ms)
  let ?ms = "sort_key fst (map (\<lambda>(k, v). (k, sanitizeJSONValue r v)) ms)"
  have "(\<Union>(k, v) \<in> set ?ms. insert (redact_text r k) (frame_texts v)) \<subseteq> range (redact_text r)"
    using FObject by fastforce
  then show ?case using frame_texts_fold_put [of "redact_text r" ?ms "[]"] by auto
qed auto

text \<open>C26. In a text that was redacted for a run, and in the strings and the names of members of a frame that was, no
  secret of the run occurs in any of its forms (the value, its words, their digests), nor its token, its instructions
  or a path of the host that it knows. This is for values without brackets that are no part of one of the two
  markers: a secret word such as A occurs in the marker itself. Numbers of a frame are not redacted and not
  meant here. When what must be hidden cannot be read, the whole text is replaced by a notice.\<close>

theorem protected_values_hidden:
  assumes "r_id run \<noteq> []" and "cc_control_root c \<noteq> []" and "v \<in> protected_values sha c files run extraPaths" and "unmarked v"
    and "r = runtimeRedaction sha c files run extraPaths" and "t \<in> insert (redact_text r s) (frame_texts (sanitizeJSONValue r f))"
  shows "t = redactionUnavailableMarker \<or> \<not> sublist v t"
proof -
  obtain u where t: "t = redact_text r u" using assms(6) sanitized_texts [of r f] by blast
  show ?thesis
  proof (cases "rx_fail_closed r")
    case False
    have "v \<noteq> []" using assms(4) by (simp add: unmarked_def)
    then show ?thesis
      using redact_text_hides [OF _ assms(4) _ False] runtimeRedaction_values [OF assms(1,2)] assms(3,5) False t by blast
  qed (simp add: redact_text_def t)
qed

definition demo_controller :: controller_config where
  "demo_controller = \<lparr>cc_data_dir = ''/d'', cc_operator_socket = ''/s'', cc_workspace_root = ''/w'', cc_agent_home_root = ''/h'',
     cc_log_root = ''/l'', cc_control_root = ''/c'', cc_coordlink = ''/b/coordlink'', cc_docker_host = [],
     cc_docker_network = ''n'', cc_provider_env_allowlist = [''K''], cc_shutdown_grace = 10, cc_run_timeout = 0,
     cc_stall_timeout = 0, cc_max_parallel_runs = 1\<rparr>"

definition demo_files :: files where
  "demo_files p = (if p = join_path [''/c'', ''R'', ''secrets''] then Some (secret_line ''K'' ''pw'')
     else if p = join_path [''/c'', ''R'', ''instructions''] then Some ''do'' else None)"

lemma demo_secret: "runtimeRunSecrets demo_controller demo_files busy_run = Some [''pw'']"
proof -
  have "serialize_secrets (\<lambda>_. ''pw'') [''K''] = Inr (secret_line ''K'' ''pw'')"
    by (simp add: validRunSecretKey_def in_range_def)
  then have parsed: "parse_secrets (secret_line ''K'' ''pw'') = Some [''pw'']"
    using parse_serialized_secrets by fastforce
  have "trim_space ''R'' \<noteq> []" by (simp add: function_runs strip.simps cong: run_congs)
  then show ?thesis
    by (simp add: runtimeRunSecrets_def demo_controller_def demo_files_def busy_run_def busy_task_def run_literal_def
        parseRunSecretsFile_def parsed)
qed

lemma demo_path: "''/w'' \<in> protected_values (\<lambda>_. []) demo_controller demo_files busy_run []"
proof -
  have "trim_space ''/w'' = ''/w''" by (rule trim_graphic) (simp add: graphic_def)
  moreover have "''/w'' \<in> set (runtime_paths demo_controller busy_run [])"
    by (simp add: runtime_paths_def Let_def demo_controller_def)
  ultimately have "''/w'' \<in> trim_space ` set (runtime_paths demo_controller busy_run [])" by (metis image_eqI)
  moreover have "clean_path ''/w'' = ''/w''" "rooted_path ''/w''" by (simp_all add: clean_path_def rooted_path_def)
  ultimately show ?thesis unfolding protected_values_def by (intro UnI2) force
qed

theorem protected_values_hidden_witness:
  "\<forall>s. \<not> sublist ''pw'' (redact_text (runtimeRedaction (\<lambda>_. []) demo_controller demo_files busy_run []) s) \<and>
     \<not> sublist ''/w'' (redact_text (runtimeRedaction (\<lambda>_. []) demo_controller demo_files busy_run []) s)"
proof -
  have "''pw'' \<in> protected_values (\<lambda>_. []) demo_controller demo_files busy_run []"
    by (simp add: protected_values_def demo_secret secret_candidates_def)
  moreover have "unmarked ''pw''" "unmarked ''/w''" "\<not> sublist ''pw'' redactionUnavailableMarker"
      "\<not> sublist ''/w'' redactionUnavailableMarker"
    by (simp_all add: unmarked_def marker_inner_def redactedSecret_def redactedHostPath_def
        redactionUnavailableMarker_def sublist_Cons_right)
  moreover have "r_id busy_run \<noteq> []" "cc_control_root demo_controller \<noteq> []"
    by (simp_all add: busy_run_def busy_task_def run_literal_def demo_controller_def)
  ultimately show ?thesis
    using demo_path protected_values_hidden [of busy_run demo_controller "''pw''", OF _ _ _ _ refl insertI1]
      protected_values_hidden [of busy_run demo_controller "''/w''", OF _ _ _ _ refl insertI1] by metis
qed

section \<open>The log file is bounded\<close>

definition empty_log :: run_log where
  "empty_log = \<lparr>lg_file = [], lg_written = 0, lg_truncated = False, lg_failed = False\<rparr>"

definition log_bounded :: "run_log \<Rightarrow> bool" where
  "log_bounded lg = (0 \<le> lg_written lg \<and> lg_written lg \<le> log_content_limit \<and>
     int (length (lg_file lg)) \<le> lg_written lg +
       (if lg_truncated lg \<or> lg_failed lg then int (length runtimeLogTruncatedMarker) else 0))"

lemma put_bytes_facts:
  "length (lg_file (snd (put_bytes disk data lg))) = length (lg_file lg) + fst (put_bytes disk data lg)"
  "fst (put_bytes disk data lg) \<le> length data"
  "lg_written (snd (put_bytes disk data lg)) = lg_written lg"
  "lg_truncated (snd (put_bytes disk data lg)) = lg_truncated lg"
  "lg_failed (snd (put_bytes disk data lg)) = (fst (put_bytes disk data lg) < length data)"
  "\<not> fst (put_bytes disk data lg) < length data \<Longrightarrow> lg_file (snd (put_bytes disk data lg)) = lg_file lg @ data"
  by (auto simp: put_bytes_def Let_def)

lemma log_bounded_put:
  assumes "log_bounded lg" and "\<not> lg_failed lg" and "\<not> lg_truncated lg" and "int (length data) \<le> log_content_limit - lg_written lg"
  shows "log_bounded ((snd (put_bytes disk data lg))\<lparr>lg_written := lg_written lg + int (fst (put_bytes disk data lg))\<rparr>)"
  using assms put_bytes_facts(1,2) [of disk data lg] by (auto simp: log_bounded_def put_bytes_facts(3-5))

lemma log_bounded_mark:
  assumes "log_bounded lg" and "\<not> lg_failed lg" and "\<not> lg_truncated lg"
  shows "log_bounded ((snd (put_bytes disk runtimeLogTruncatedMarker lg))
     \<lparr>lg_truncated := \<not> lg_failed (snd (put_bytes disk runtimeLogTruncatedMarker lg))\<rparr>)"
  using assms put_bytes_facts(1,2) [of disk runtimeLogTruncatedMarker lg] by (auto simp: log_bounded_def put_bytes_facts(3-5))

lemma write_log_line_cases:
  assumes "\<not> lg_failed lg" and "\<not> lg_truncated lg"
  obtains (whole) "int (length line) + 1 \<le> log_content_limit - lg_written lg" "write_log_line disk False line lg =
      (snd (put_bytes disk (line @ [CHR 0x0A]) lg))\<lparr>lg_written := lg_written lg + int (fst (put_bytes disk (line @ [CHR 0x0A]) lg))\<rparr>"
  | (cut) lg1 data where "lg1 = lg \<or> int (length data) \<le> log_content_limit - lg_written lg \<and>
        lg1 = (snd (put_bytes disk data lg))\<lparr>lg_written := lg_written lg + int (fst (put_bytes disk data lg))\<rparr>"
      "write_log_line disk False line lg =
        (if lg_failed lg1 then lg1 else (snd (put_bytes disk runtimeLogTruncatedMarker lg1))
           \<lparr>lg_truncated := \<not> lg_failed (snd (put_bytes disk runtimeLogTruncatedMarker lg1))\<rparr>)"
proof (cases "int (length line) + 1 \<le> log_content_limit - lg_written lg")
  case True
  then show ?thesis using assms by (intro whole) (simp_all add: write_log_line_def case_prod_beta Let_def)
next
  case False
  let ?data = "take (nat (log_content_limit - lg_written lg - 1)) line @ [CHR 0x0A]"
  let ?put = "(snd (put_bytes disk ?data lg))\<lparr>lg_written := lg_written lg + int (fst (put_bytes disk ?data lg))\<rparr>"
  show ?thesis
  proof (cases "0 < log_content_limit - lg_written lg")
    case True
    then have "int (length ?data) \<le> log_content_limit - lg_written lg" by simp
    moreover have "write_log_line disk False line lg =
        (if lg_failed ?put then ?put else (snd (put_bytes disk runtimeLogTruncatedMarker ?put))
           \<lparr>lg_truncated := \<not> lg_failed (snd (put_bytes disk runtimeLogTruncatedMarker ?put))\<rparr>)"
      using assms False True by (auto simp: write_log_line_def case_prod_beta Let_def)
    ultimately show ?thesis using cut by blast
  next
    case full: False
    have "write_log_line disk False line lg =
        (if lg_failed lg then lg else (snd (put_bytes disk runtimeLogTruncatedMarker lg))
           \<lparr>lg_truncated := \<not> lg_failed (snd (put_bytes disk runtimeLogTruncatedMarker lg))\<rparr>)"
      using assms full by (auto simp: write_log_line_def case_prod_beta Let_def)
    then show ?thesis using cut by blast
  qed
qed

lemma write_log_line_done: "lg_failed lg \<or> lg_truncated lg \<Longrightarrow> write_log_line disk False line lg = lg"
  by (auto simp: write_log_line_def)

lemma write_log_line_bounded:
  assumes "log_bounded lg"
  shows "log_bounded (write_log_line disk False line lg)"
proof (cases "lg_failed lg \<or> lg_truncated lg")
  case False
  then have open_log: "\<not> lg_failed lg" "\<not> lg_truncated lg" by auto
  show ?thesis
  proof (rule write_log_line_cases [OF open_log, of line disk], goal_cases whole cut)
    case whole
    then show ?thesis using log_bounded_put [OF assms open_log, of "line @ [CHR 0x0A]" disk] by simp
  next
    case (cut lg1 data)
    then have "log_bounded lg1" "\<not> lg_truncated lg1"
      using assms open_log log_bounded_put [OF assms open_log] by (auto simp: put_bytes_facts)
    then show ?thesis using cut(2) log_bounded_mark by simp
  qed
qed (use assms in \<open>simp add: write_log_line_done\<close>)

lemma write_log_line_whole:
  assumes "\<not> lg_failed (write_log_line disk False line lg)" and "\<not> lg_truncated (write_log_line disk False line lg)"
  shows "lg_file (write_log_line disk False line lg) = lg_file lg @ line @ [CHR 0x0A] \<and> \<not> lg_failed lg \<and> \<not> lg_truncated lg"
proof (cases "lg_failed lg \<or> lg_truncated lg")
  case True
  then show ?thesis using assms by (simp add: write_log_line_done)
next
  case False
  then have open_log: "\<not> lg_failed lg" "\<not> lg_truncated lg" by auto
  show ?thesis
  proof (rule write_log_line_cases [OF open_log, of line disk], goal_cases whole cut)
    case whole
    then show ?thesis using assms open_log by (simp add: put_bytes_facts)
  next
    case (cut lg1 data)
    then show ?thesis using assms by (auto simp: put_bytes_facts split: if_splits)
  qed
qed

text \<open>C27. Whatever a provider prints and however the disk behaves, the log file of a run, with the diagnostic of a
  rejected frame at its end, holds at most 8 MiB; when it was neither cut nor failed to be written it holds
  exactly the sanitized lines, each with its line end.\<close>

theorem run_log_bounded:
  "int (length (lg_file (write_log_line disk True diagnostic (fold (write_log_line disk False) ls empty_log)))) \<le> runtimeLogLimit \<and>
   (\<not> lg_failed (fold (write_log_line disk False) ls empty_log) \<and> \<not> lg_truncated (fold (write_log_line disk False) ls empty_log) \<longrightarrow>
      lg_file (fold (write_log_line disk False) ls empty_log) = concat (map (\<lambda>l. l @ [CHR 0x0A]) ls))"
proof -
  have "log_bounded lg' \<Longrightarrow> log_bounded (fold (write_log_line disk False) ls lg')" for lg'
    by (induction ls arbitrary: lg') (simp_all add: write_log_line_bounded)
  then have bounded: "log_bounded (fold (write_log_line disk False) ls empty_log)"
    by (simp add: log_bounded_def empty_log_def log_content_limit_def
      runtimeLogLimit_def runtimeRejectedLogReserve_def runtimeLogTruncatedMarker_def)
  have "log_bounded lg \<Longrightarrow> int (length (lg_file (write_log_line disk True diagnostic lg))) \<le> runtimeLogLimit" for lg
    using put_bytes_facts(1,2) [of disk "diagnostic @ [CHR 0x0A]" lg]
    by (auto simp: write_log_line_def log_bounded_def log_content_limit_def runtimeRejectedLogReserve_def split: if_splits)
  moreover have "lg_file (fold (write_log_line disk False) ls lg') = lg_file lg' @ concat (map (\<lambda>l. l @ [CHR 0x0A]) ls) \<and>
      \<not> lg_failed lg' \<and> \<not> lg_truncated lg'"
    if "\<not> lg_failed (fold (write_log_line disk False) ls lg')" "\<not> lg_truncated (fold (write_log_line disk False) ls lg')" for ls lg'
    using that
  proof (induction ls arbitrary: lg')
    case (Cons l ls)
    then show ?case using write_log_line_whole [of disk l lg'] by simp
  qed simp
  ultimately show ?thesis using bounded by (simp add: empty_log_def)
qed

theorem run_log_bounded_witness:
  "lg_file (fold (write_log_line (\<lambda>_ d. length d) False) [''a'', ''b''] empty_log) = [CHR ''a'', CHR 0x0A, CHR ''b'', CHR 0x0A]"
proof -
  have "\<not> lg_failed (fold (write_log_line (\<lambda>_ d. length d) False) [''a'', ''b''] empty_log) \<and>
      \<not> lg_truncated (fold (write_log_line (\<lambda>_ d. length d) False) [''a'', ''b''] empty_log)"
    by (simp add: write_log_line_def put_bytes_def empty_log_def log_content_limit_def runtimeLogLimit_def
        runtimeRejectedLogReserve_def runtimeLogTruncatedMarker_def)
  then show ?thesis using run_log_bounded [of "\<lambda>_ d. length d" "[]" "[''a'', ''b'']"] by simp
qed

end
