(* ===== verification/Daemon.thy ===== *)
theory Daemon
  imports Redaction Pages
begin

text \<open>
  The runtime controller of internal/daemon: its errors, the host it runs on, its state, and the
  operations the launch, the supervision and the reconciliation of runs share
  (runtime_controller.go, runtime_materialization.go, runtime_monitor.go).

  The Docker executor, the file system, the clock, the random source and the Git workspaces are the
  fields of the record \<open>host\<close>, each a function of how often the controller has used its host. Between
  two uses of the service, and before every command to a container, any other requests may be served
  (\<open>ho_others\<close>): the other goroutines and the clients. A goroutine that streams the log of a run is
  run where its result is received.
\<close>

section \<open>Errors\<close>

text \<open>An error is its text, the sentinels that \<open>errors.Is\<close> finds in it, and the service error that
  \<open>errors.As\<close> finds in it.\<close>

datatype sentinel = ContainerNotFound | RuntimeUnavailable | RuntimeOwnership | RuntimeExited | RuntimeUnsupported
  | LogDrainTimeout | SessionPersist | SecretsUnavailable | ContextCanceled | FileNotExist

fun sentinel_text :: "sentinel \<Rightarrow> string" where
  "sentinel_text ContainerNotFound = ''runtime: container not found''"
| "sentinel_text RuntimeUnavailable = ''runtime: Docker unavailable''"
| "sentinel_text RuntimeOwnership = ''runtime: container ownership mismatch''"
| "sentinel_text RuntimeExited = ''runtime: container already exited''"
| "sentinel_text RuntimeUnsupported = ''runtime: operation is unsupported''"
| "sentinel_text LogDrainTimeout = ''runtime log stream did not finish''"
| "sentinel_text SessionPersist = ''runtime session event was not persisted''"
| "sentinel_text SecretsUnavailable = ''runtime run secrets are unavailable''"
| "sentinel_text ContextCanceled = ''context canceled''"
| "sentinel_text FileNotExist = ''file does not exist''"

record derror =
  de_is :: "sentinel list"
  de_core :: "failure option"
  de_text :: string

definition errors_New :: "string \<Rightarrow> derror" where
  "errors_New text = \<lparr>de_is = [], de_core = None, de_text = text\<rparr>"

definition sentinel_error :: "sentinel \<Rightarrow> derror" where
  "sentinel_error s = \<lparr>de_is = [s], de_core = None, de_text = sentinel_text s\<rparr>"

text \<open>\<open>fmt.Errorf("prefix: %w", err)\<close> and \<open>fmt.Errorf("%w: text", sentinel)\<close>.\<close>

definition prefixed :: "string \<Rightarrow> derror \<Rightarrow> derror" where
  "prefixed prefix e = e\<lparr>de_text := prefix @ '': '' @ de_text e\<rparr>"

definition wraps :: "sentinel \<Rightarrow> string \<Rightarrow> derror" where
  "wraps s text = \<lparr>de_is = [s], de_core = None, de_text = sentinel_text s @ '': '' @ text\<rparr>"

definition errors_Is :: "derror \<Rightarrow> sentinel \<Rightarrow> bool" where
  "errors_Is e s = (s \<in> set (de_is e))"

definition errors_Join :: "derror option list \<Rightarrow> derror option" where
  "errors_Join errs =
     (let es = map the (filter (\<lambda>e. e \<noteq> None) errs) in
      if es = [] then None
      else Some \<lparr>de_is = concat (map de_is es), de_core = find (\<lambda>_. True) (map the (filter (\<lambda>c. c \<noteq> None) (map de_core es))),
        de_text = join [CHR 0x0A] (map de_text es)\<rparr>)"

section \<open>The host\<close>

record FileInfo =
  fi_file :: nat
  fi_symlink :: bool
  fi_directory :: bool
  fi_regular :: bool
  fi_permissions :: int
  fi_uid :: int
  fi_gid :: int
  fi_links :: int

text \<open>An open file: \<open>Stat\<close> of the descriptor, its size when it is asked for later, and its content.\<close>

record opened_file =
  of_info :: "derror + FileInfo"
  of_size :: "derror + int"
  of_content :: "derror + string"

datatype os_call = MkdirAll string int | ChmodPath string int | CreateTemp string | ChmodTemp string int
  | WriteTemp string string | SyncTemp string | CloseTemp string | Rename string string
  | RemovePath string | RemoveAll string

datatype EventKind = EventProtocol | EventSessionStarted | EventProviderError | EventResumeUnavailable

record Event =
  ev_kind :: EventKind
  ev_native_session_id :: string
  ev_message :: string
  ev_raw :: string

record WorkspaceSpec =
  wk_project_id :: string
  wk_task_id :: string
  wk_base_sha :: string
  wk_source :: "GitSource option"

record runControl =
  co_id :: nat
  co_path :: string

record runControlMarker =
  mk_version :: int
  mk_project_id :: string
  mk_task_id :: string
  mk_agent_id :: string
  mk_run_id :: string
  mk_generation :: int
  mk_launch_nonce :: string

record host =
  ho_ping :: "nat \<Rightarrow> derror option"
  ho_create :: "nat \<Rightarrow> ContainerSpec \<Rightarrow> derror + RuntimeRef"
  ho_attach :: "nat \<Rightarrow> RuntimeRef \<Rightarrow> derror + RuntimeRef"
  ho_start :: "nat \<Rightarrow> RuntimeRef \<Rightarrow> derror + RuntimeRef"
  ho_inspect :: "nat \<Rightarrow> RuntimeRef \<Rightarrow> derror + LiveState"
  ho_wait :: "nat \<Rightarrow> RuntimeRef \<Rightarrow> derror + int"
  ho_waited :: "nat \<Rightarrow> RuntimeRef \<Rightarrow> bool"
  ho_stop :: "nat \<Rightarrow> RuntimeRef \<Rightarrow> int \<Rightarrow> derror option"
  ho_remove :: "nat \<Rightarrow> RuntimeRef \<Rightarrow> derror option"
  ho_managed :: "nat \<Rightarrow> derror + LiveState list"
  ho_logs :: "nat \<Rightarrow> RuntimeRef \<Rightarrow> derror + string list \<times> derror option"
  ho_drained :: "nat \<Rightarrow> RuntimeRef \<Rightarrow> bool"
  ho_parse_event :: "CLI \<Rightarrow> string \<Rightarrow> derror + Event"
  ho_decode_frame :: "string \<Rightarrow> frame_value option"
  ho_encode_frame :: "frame_value \<Rightarrow> string"
  ho_log_create :: "nat \<Rightarrow> string \<Rightarrow> derror option"
  ho_disk :: "nat \<Rightarrow> string \<Rightarrow> string \<Rightarrow> nat"
  ho_log_error :: "nat \<Rightarrow> derror"
  ho_files :: "nat \<Rightarrow> files"
  ho_os :: "nat \<Rightarrow> os_call \<Rightarrow> derror option"
  ho_temporary :: "nat \<Rightarrow> string"
  ho_lstat :: "nat \<Rightarrow> string \<Rightarrow> derror + FileInfo"
  ho_stat :: "nat \<Rightarrow> string \<Rightarrow> derror + FileInfo"
  ho_eval_symlinks :: "nat \<Rightarrow> string \<Rightarrow> derror + string"
  ho_open :: "nat \<Rightarrow> string \<Rightarrow> derror + opened_file"
  ho_euid :: int
  ho_gid :: int
  ho_environment :: "nat \<Rightarrow> string \<Rightarrow> string option"
  ho_now :: "nat \<Rightarrow> int"
  ho_parse_time :: "string \<Rightarrow> int option"
  ho_random :: "nat \<Rightarrow> derror + nat list"
  ho_open_control :: "nat \<Rightarrow> run \<Rightarrow> derror option"
  ho_close_control :: "nat \<Rightarrow> runControl \<Rightarrow> derror option \<times> derror option"
  ho_decode_marker :: "string \<Rightarrow> runControlMarker option"
  ho_workspace_path :: "string \<Rightarrow> string \<Rightarrow> derror + string"
  ho_verify_workspace :: "nat \<Rightarrow> WorkspaceSpec \<Rightarrow> derror option"
  ho_materialize_workspace :: "nat \<Rightarrow> WorkspaceSpec \<Rightarrow> derror option"
  ho_refresh_canonical :: "nat \<Rightarrow> WorkspaceSpec \<Rightarrow> string \<Rightarrow> string \<Rightarrow> string \<Rightarrow> derror option"
  ho_joined :: "nat \<Rightarrow> bool"
  ho_polls :: "nat \<Rightarrow> nat \<times> bool"
  ho_error_text :: "failure \<Rightarrow> string"
  ho_others :: "nat \<Rightarrow> world \<Rightarrow> world"

section \<open>The controller\<close>

text \<open>The retention of the logs and the codec of the cursors belong to the sweep of old logs.\<close>

record controller =
  ct_config :: controller_config
  ct_service :: service
  ct_adapters :: Registry
  ct_host :: host
  ct_codec :: codec
  ct_run_size :: "RunSummary \<Rightarrow> nat"
  ct_log_retention :: int
  ct_workspace_retention :: int
  ct_task_ref_retention :: int

text \<open>The result of the goroutine that streams a log is received once; a monitor of the shutdown gets it
  before it is used.\<close>

datatype log_source = Streamed run | LogResult "derror option"

record runMonitor =
  mo_id :: nat
  mo_run_id :: string
  mo_ref :: RuntimeRef
  mo_entry :: CLI
  mo_control :: "runControl option"
  mo_redact :: runtimeRedaction
  mo_logs :: log_source
  mo_runtime_code :: string
  mo_last_error :: string
  mo_logs_done :: bool
  mo_log_err :: "derror option"

text \<open>A command to the host that changes something a run owns, recorded with the database at its time.\<close>

datatype command = CreateContainer ContainerSpec | StartContainer RuntimeRef | StopContainer RuntimeRef int
  | RemoveContainer RuntimeRef | RemoveControl string

text \<open>An operation, a monitor and a control server are told apart by a number, as the code tells them
  apart by their address. \<open>dm_supervised\<close> holds the monitors whose supervision was started.\<close>

record daemon =
  dm_world :: world
  dm_calls :: nat
  dm_trace :: "(command \<times> db) list"
  dm_operations :: "(string \<times> nat) list"
  dm_monitors :: "(string \<times> nat) list"
  dm_supervised :: "runMonitor list"
  dm_controls :: "(string \<times> runControl) list"
  dm_closed :: "(nat \<times> derror option) list"
  dm_logs :: "(string \<times> run_log) list"
  dm_degraded :: string
  dm_scheduler_degraded :: string
  dm_ready :: readiness
  dm_started :: bool
  dm_shutting_down :: bool
  dm_cancelled :: bool

type_synonym 'a dop = "(derror, daemon, 'a) comp"

section \<open>Uses of the service and the host\<close>

definition core_error :: "controller \<Rightarrow> failure \<Rightarrow> derror" where
  "core_error c e = \<lparr>de_is = (if is_cancelled e then [ContextCanceled] else []), de_core = Some e,
     de_text = ho_error_text (ct_host c) e\<rparr>"

definition is_code :: "derror \<Rightarrow> error_code \<Rightarrow> bool" where
  "is_code e code = (case de_core e of None \<Rightarrow> False | Some f \<Rightarrow> code_of f = Some code)"

definition interfered :: "controller \<Rightarrow> daemon \<Rightarrow> world" where
  "interfered c s = ho_others (ct_host c) (dm_calls s) (dm_world s)"

definition call :: "controller \<Rightarrow> 'a op \<Rightarrow> 'a dop" where
  "call c m = (\<lambda>s.
     case m (interfered c s) of
       (Inl e, w) \<Rightarrow> (Inl (core_error c e), s\<lparr>dm_world := w, dm_calls := Suc (dm_calls s)\<rparr>)
     | (Inr x, w) \<Rightarrow> (Inr x, s\<lparr>dm_world := w, dm_calls := Suc (dm_calls s)\<rparr>))"

definition consult :: "(nat \<Rightarrow> derror + 'a) \<Rightarrow> 'a dop" where
  "consult f = (\<lambda>s. (f (dm_calls s), s\<lparr>dm_calls := Suc (dm_calls s)\<rparr>))"

definition observe :: "(nat \<Rightarrow> 'a) \<Rightarrow> 'a dop" where
  "observe f = consult (\<lambda>n. Inr (f n))"

definition issue :: "controller \<Rightarrow> command \<Rightarrow> (nat \<Rightarrow> derror + 'a) \<Rightarrow> 'a dop" where
  "issue c cmd f = (\<lambda>s.
     let w = interfered c s in
     (f (dm_calls s), s\<lparr>dm_world := w, dm_calls := Suc (dm_calls s), dm_trace := dm_trace s @ [(cmd, w_db w)]\<rparr>))"

definition unless_error :: "derror option \<Rightarrow> derror + unit" where
  "unless_error e = (case e of None \<Rightarrow> Inr () | Some e \<Rightarrow> Inl e)"

text \<open>The outcome of a computation as a value, for code that looks at the error itself.\<close>

definition tried :: "'a dop \<Rightarrow> (derror + 'a) dop" where
  "tried m = (\<lambda>s. case m s of (r, s') \<Rightarrow> (Inr r, s'))"

definition ignored :: "'a dop \<Rightarrow> unit dop" where
  "ignored m = andthen (tried m) (\<lambda>_. ret ())"

text \<open>\<open>defer\<close>: what is done at the end whatever the outcome was; it does not fail itself.\<close>

definition deferred :: "unit dop \<Rightarrow> 'a dop \<Rightarrow> 'a dop" where
  "deferred final m = (\<lambda>s. case m s of (r, s') \<Rightarrow> (r, snd (final s')))"

definition named :: "string \<Rightarrow> 'a dop \<Rightarrow> 'a dop" where
  "named name m = (\<lambda>s. case m s of (Inl e, s') \<Rightarrow> (Inl (prefixed name e), s') | (Inr x, s') \<Rightarrow> (Inr x, s'))"

text \<open>\<open>||\<close> of conditions that look at the host.\<close>

definition orelse :: "bool dop \<Rightarrow> bool dop \<Rightarrow> bool dop" where
  "orelse m n = andthen m (\<lambda>b. if b then ret True else n)"

definition failure_of :: "derror + 'a \<Rightarrow> derror option" where
  "failure_of r = (case r of Inl e \<Rightarrow> Some e | Inr _ \<Rightarrow> None)"

definition os :: "controller \<Rightarrow> os_call \<Rightarrow> unit dop" where
  "os c operation = consult (\<lambda>n. unless_error (ho_os (ct_host c) n operation))"

section \<open>Readiness\<close>

text \<open>\<open>core.Run{}\<close>: the fields that have a vocabulary are never read where it is used.\<close>

definition no_run :: run where
  "no_run = \<lparr>r_id = [], r_project_id = [], r_task_id = [], r_agent_id = [], r_generation = 0,
     r_resumed_from_run_id = [], r_adapter_id = [], r_image = [], r_instructions_hash = [],
     r_config_fingerprint = [], r_state = RunStarting, r_workspace_path = [], r_container_id = [],
     r_native_session_id = [], r_log_path = [], r_token_hash = [], r_token_revoked_at = NoStamp,
     r_requested_outcome = NoOutcome, r_requested_summary = [], r_expected_head = [],
     r_requested_at = NoStamp, r_stop_requested_at = NoStamp, r_stop_reason = [], r_stop_operation_id = [],
     r_heartbeat_at = NoStamp, r_exit_code = None, r_terminal_reason = [], r_last_error = [],
     r_cleanup_state = CleanupNotNeeded, r_launch_nonce = [], r_launch_operation_id = [],
     r_launch_phase = LaunchIntent, r_home_path = [], r_container_name = [], r_deadline_at = NoStamp,
     r_last_observed_at = NoStamp, r_launch_mode = StartMode, r_resume_native_session_id = [],
     r_runtime_error_code = [], r_cleanup_operation_id = [], r_isolation_spec_version = 0,
     r_version = 0, r_created_at = NoStamp, r_started_at = NoStamp, r_ended_at = NoStamp\<rparr>"

definition redaction_of :: "controller \<Rightarrow> files \<Rightarrow> run \<Rightarrow> runtimeRedaction" where
  "redaction_of c files run = runtimeRedaction (sv_sha256 (ct_service c)) (ct_config c) files run []"

definition normalizedDegradedReason :: "controller \<Rightarrow> string \<Rightarrow> string" where
  "normalizedDegradedReason c reason =
     (let reason = trim_space (redact_text (redaction_of c (\<lambda>_. None) no_run) reason) in
      if reason = [] then ''Docker runtime unavailable'' else reason)"

definition currentDegradedReason :: "daemon \<Rightarrow> string" where
  "currentDegradedReason s = (if dm_degraded s \<noteq> [] then dm_degraded s else dm_scheduler_degraded s)"

definition publishDegradedState :: "daemon \<Rightarrow> daemon" where
  "publishDegradedState s =
     (let reason = currentDegradedReason s in
      s\<lparr>dm_ready :=
        (if dm_shutting_down s then SetReady False ''daemon shutting down'' (dm_ready s)
         else SetReady (reason = []) reason (dm_ready s))\<rparr>)"

definition setDegraded :: "controller \<Rightarrow> string \<Rightarrow> unit dop" where
  "setDegraded c reason = update (\<lambda>s. publishDegradedState (s\<lparr>dm_degraded := normalizedDegradedReason c reason\<rparr>))"

definition clearDegraded :: "unit dop" where
  "clearDegraded = update (\<lambda>s. publishDegradedState (s\<lparr>dm_degraded := []\<rparr>))"

definition setSchedulerDegraded :: "controller \<Rightarrow> string \<Rightarrow> unit dop" where
  "setSchedulerDegraded c reason =
     update (\<lambda>s. publishDegradedState (s\<lparr>dm_scheduler_degraded := normalizedDegradedReason c reason\<rparr>))"

definition clearSchedulerDegraded :: "unit dop" where
  "clearSchedulerDegraded =
     update (\<lambda>s. if dm_scheduler_degraded s = [] then s else publishDegradedState (s\<lparr>dm_scheduler_degraded := []\<rparr>))"

definition Healthy :: "daemon \<Rightarrow> bool \<times> string" where
  "Healthy s = (let reason = currentDegradedReason s in (reason = [], reason))"

definition schedulerHealthy :: "daemon \<Rightarrow> bool" where
  "schedulerHealthy s = (\<not> dm_shutting_down s \<and> dm_degraded s = [])"

definition DefaultShutdownGrace :: int where
  "DefaultShutdownGrace = 5 * 10 ^ 9"

definition shutdownGrace :: "controller \<Rightarrow> int" where
  "shutdownGrace c = (if 0 < cc_shutdown_grace (ct_config c) then cc_shutdown_grace (ct_config c) else DefaultShutdownGrace)"

text \<open>A redaction reads the control directory of the run when it is made.\<close>

definition redaction :: "controller \<Rightarrow> run \<Rightarrow> runtimeRedaction dop" where
  "redaction c run = observe (\<lambda>n. redaction_of c (ho_files (ct_host c) n) run)"

end
