(* ===== verification/Materialize.thy ===== *)
theory Materialize
  imports Daemon
begin

text \<open>
  What a run is given on the host (internal/daemon/runtime_materialization.go, runtime_control.go):
  the ownership of a run inside the process, the references and fenced inputs derived from its row,
  the bootstrap text, files and directories, and the control directory with its identity and token.
\<close>

section \<open>Ownership of a run inside the process\<close>

text \<open>At most one operation works on a run, and none while a monitor owns it.\<close>

definition acquireRunOperation :: "string \<Rightarrow> nat option dop" where
  "acquireRunOperation runID = (\<lambda>s.
     if runID = [] \<or> map_of (dm_monitors s) runID \<noteq> None \<or> map_of (dm_operations s) runID \<noteq> None then (Inr None, s)
     else (Inr (Some (dm_calls s)),
       s\<lparr>dm_calls := Suc (dm_calls s), dm_operations := (runID, dm_calls s) # dm_operations s\<rparr>))"

definition releaseRunOperation :: "string \<Rightarrow> nat \<Rightarrow> unit dop" where
  "releaseRunOperation runID operation =
     update (\<lambda>s. s\<lparr>dm_operations := filter (\<lambda>entry. entry \<noteq> (runID, operation)) (dm_operations s)\<rparr>)"

section \<open>References and inputs\<close>

definition runtimeRef :: "run \<Rightarrow> RuntimeRef" where
  "runtimeRef run = \<lparr>rr_container_id = r_container_id run, rr_container_name = r_container_name run,
     rr_project_id = r_project_id run, rr_task_id = r_task_id run, rr_agent_id = r_agent_id run,
     rr_run_id = r_id run, rr_generation = r_generation run, rr_launch_nonce = r_launch_nonce run\<rparr>"

definition no_ref :: RuntimeRef where
  "no_ref = \<lparr>rr_container_id = [], rr_container_name = [], rr_project_id = [], rr_task_id = [], rr_agent_id = [],
     rr_run_id = [], rr_generation = 0, rr_launch_nonce = []\<rparr>"

definition runtimeRequest :: "run \<Rightarrow> string \<Rightarrow> string" where
  "runtimeRequest run phase = ''runtime:'' @ r_id run @ '':'' @ r_launch_operation_id run @ '':'' @ phase"

definition runtimeFactInput :: "run \<Rightarrow> RuntimeRef \<Rightarrow> string \<Rightarrow> RunRuntimeFactInput" where
  "runtimeFactInput run ref phase = \<lparr>rf_run_id = r_id run, rf_generation = r_generation run,
     rf_launch_nonce = r_launch_nonce run, rf_launch_operation_id = r_launch_operation_id run,
     rf_container_id = rr_container_id ref, rf_request_id = runtimeRequest run phase\<rparr>"

definition runtimeTerminalInput :: "run \<Rightarrow> RunTerminalInput \<Rightarrow> RunTerminalInput" where
  "runtimeTerminalInput run i = i\<lparr>rt_run_id := r_id run, rt_generation := r_generation run,
     rt_launch_nonce := r_launch_nonce run, rt_launch_operation_id := r_launch_operation_id run,
     rt_container_id := r_container_id run\<rparr>"

text \<open>The fields a terminal input is written with; the others are zero or filled in above.\<close>

definition terminal_input :: "run_state \<Rightarrow> string \<Rightarrow> string \<Rightarrow> string \<Rightarrow> RunTerminalInput" where
  "terminal_input state reason requestID operationID = \<lparr>rt_run_id = [], rt_generation = 0, rt_launch_nonce = [],
     rt_launch_operation_id = [], rt_container_id = [], rt_state = state, rt_exit_code = None,
     rt_terminal_reason = reason, rt_last_error = [], rt_runtime_error_code = [], rt_native_session_id = [],
     rt_request_id = requestID, rt_operation_id = operationID\<rparr>"

definition randomRuntimeID :: "controller \<Rightarrow> string \<Rightarrow> string dop" where
  "randomRuntimeID c prefix =
    andthen (consult (ho_random (ct_host c))) (\<lambda>raw.
    ret (prefix @ ''-'' @ hex_encode raw))"

definition containerWorkingDirectory :: "task_kind \<Rightarrow> string" where
  "containerWorkingDirectory kind = (if kind = TaskConversation then ''/home/agent'' else ''/workspace/project'')"

definition gitWorkspaceSpec :: "task \<Rightarrow> derror + WorkspaceSpec" where
  "gitWorkspaceSpec task =
     (let spec = \<lparr>wk_project_id = t_project_id task, wk_task_id = t_id task, wk_base_sha = t_base_sha task,
            wk_source = None\<rparr> in
      if t_source_task_id task = [] \<and> t_source_run_id task = [] \<and> t_source_task_ref task = [] \<and>
         t_source_head_sha task = [] then Inr spec
      else if t_source_task_id task = [] \<or> t_source_run_id task = [] \<or> t_source_task_ref task = [] \<or>
         t_source_head_sha task = [] then Inl (errors_New ''source task workspace inputs are incomplete'')
      else Inr (spec\<lparr>wk_source := Some \<lparr>gs_task_id = t_source_task_id task, gs_run_id = t_source_run_id task,
            gs_task_ref = t_source_task_ref task, gs_head_sha = t_source_head_sha task\<rparr>\<rparr>))"

section \<open>The bootstrap text\<close>

definition runtimeBootstrapMessageBodyLimit :: int where
  "runtimeBootstrapMessageBodyLimit = 4 * 2 ^ 10"

definition runtimeBootstrapMessageTotalLimit :: int where
  "runtimeBootstrapMessageTotalLimit = 64 * 2 ^ 10"

definition boundedBootstrapMessageBody :: "string \<Rightarrow> int \<Rightarrow> string \<times> bool" where
  "boundedBootstrapMessageBody body remaining =
     (let limit = max 0 (min runtimeBootstrapMessageBodyLimit remaining) in
      if int (length body) \<le> limit then (body, False) else (chop_valid (take (nat limit) body), True))"

definition newline :: string where
  "newline = [CHR 0x0A]"

definition bootstrap_message :: "message \<Rightarrow> string \<Rightarrow> string" where
  "bootstrap_message message body =
     ''- ['' @ m_id message @ ''] delivery_task='' @ m_task_id message @ '' related_task='' @
     (if m_related_task_id message = [] then ''none'' else m_related_task_id message) @ '' from '' @
     actor_text (m_sender_kind message) @ ''/'' @ m_sender_id message @ '': '' @ body @ newline"

fun bootstrap_messages :: "message list \<Rightarrow> int \<Rightarrow> string" where
  "bootstrap_messages [] remaining = []"
| "bootstrap_messages (message # messages) remaining =
     (let (body, truncated) = boundedBootstrapMessageBody (m_body message) remaining;
          shown = (if \<not> truncated then body
             else if body = [] then ''[body omitted: aggregate limit]'' else body @ '' [body truncated]'') in
      bootstrap_message message shown @ bootstrap_messages messages (remaining - int (length body)))"

definition ConvenienceRef :: "GitSource \<Rightarrow> string" where
  "ConvenienceRef source = ''refs/heads/coordplane/source/'' @ gs_task_id source"

definition buildBootstrap :: "RunLaunchContext \<Rightarrow> run \<Rightarrow> string \<Rightarrow> WorkspaceSpec \<Rightarrow> string" where
  "buildBootstrap launch run instructions spec =
     (let task = lc_task launch in
      instructions @ newline @ newline @ ''CoordPlane Run context'' @ newline @
      ''Project: '' @ p_id (lc_project launch) @ newline @ ''Agent: '' @ a_id (lc_agent launch) @ newline @
      ''Task: '' @ t_id task @ newline @ ''Run: '' @ r_id run @ newline @
      ''Generation: '' @ int_text (r_generation run) @ newline @
      ''Kind: '' @ task_kind_text (t_kind task) @ newline @ ''Title: '' @ t_title task @ newline @
      ''Description: '' @ t_description task @ newline @ ''Parent task: '' @ t_parent_task_id task @ newline @
      (if t_kind task \<noteq> TaskConversation then
         ''Workspace: /workspace/project'' @ newline @ ''Base SHA: '' @ t_base_sha task @ newline @
         (if t_head_sha task \<noteq> [] then
            ''Captured head: '' @ t_head_sha task @ newline @ ''Task ref: '' @ t_task_ref task @ newline else []) @
         (case wk_source spec of
            None \<Rightarrow> []
          | Some source \<Rightarrow>
              ''Source task: '' @ t_source_task_id task @ newline @ ''Source head: '' @ t_source_head_sha task @ newline @
              ''Source convenience ref: '' @ ConvenienceRef source @ newline @
              ''The convenience ref may move; the source SHA above is authoritative.'' @ newline)
       else
         ''This is a conversation Run: the project workspace is NOT mounted (no /workspace/project) and no project code is available.'' @ newline @
         ''Do not attempt to read, modify, build, or commit project code here, and do not run git commands expecting the project repository.'' @ newline @
         ''To do code work, create or request a work/review Task (coordlink task create, or a message to the Boss).'' @ newline) @
      (if lc_messages launch \<noteq> [] then
         ''Pending messages:'' @ newline @ bootstrap_messages (lc_messages launch) runtimeBootstrapMessageTotalLimit
       else []) @
      (if t_kind task = TaskConversation then
         ''Reply to the pending messages above. Use coordlink task wait when you are done for now; CLI exit or text such as done does not complete the Task.'' @ newline
       else
         ''Use native Git commands in the private workspace. Use coordlink task wait, submit, or fail for an explicit outcome. CLI exit or text such as done does not complete the Task.'' @ newline))"

section \<open>Files and directories\<close>

text \<open>\<open>filepath.Dir\<close>: everything before the last separator, cleaned.\<close>

definition dir_path :: "string \<Rightarrow> string" where
  "dir_path p = clean_path (rev (dropWhile (\<lambda>ch. ch \<noteq> CHR ''/'') (rev p)))"

definition ensureRuntimeDirectory :: "controller \<Rightarrow> string \<Rightarrow> int \<Rightarrow> unit dop" where
  "ensureRuntimeDirectory c path mode =
    andthen (reject (\<not> rooted_path path \<or> clean_path path \<noteq> path)
       (errors_New ''runtime directory path must be canonical and absolute'')) (\<lambda>_.
    andthen (os c (MkdirAll path mode)) (\<lambda>_.
    andthen (os c (ChmodPath path mode)) (\<lambda>_.
    andthen (consult (\<lambda>n. ho_lstat (ct_host c) n path)) (\<lambda>info.
    andthen (reject (fi_symlink info \<or> \<not> fi_directory info)
       (errors_New ''runtime directory is not a direct directory'')) (\<lambda>_.
    reject (fi_uid info \<noteq> ho_euid (ct_host c))
       (errors_New ''runtime directory is not owned by the daemon user''))))))"

text \<open>A step that fails closes the temporary file, and the temporary file is removed at the end either way.\<close>

definition closing :: "controller \<Rightarrow> string \<Rightarrow> unit dop \<Rightarrow> unit dop" where
  "closing c temporary m =
    andthen (tried m) (\<lambda>r.
    case r of
        Inl e \<Rightarrow> andthen (ignored (os c (CloseTemp temporary))) (\<lambda>_. throw e)
      | Inr _ \<Rightarrow> ret ())"

definition writeRuntimeFile :: "controller \<Rightarrow> string \<Rightarrow> string \<Rightarrow> int \<Rightarrow> unit dop" where
  "writeRuntimeFile c path raw mode =
    andthen (observe (ho_temporary (ct_host c))) (\<lambda>temporary.
    andthen (os c (CreateTemp (dir_path path))) (\<lambda>_.
    deferred (ignored (os c (RemovePath temporary))) (
      andthen (closing c temporary (os c (ChmodTemp temporary mode))) (\<lambda>_.
      andthen (closing c temporary (os c (WriteTemp temporary raw))) (\<lambda>_.
      andthen (closing c temporary (os c (SyncTemp temporary))) (\<lambda>_.
      andthen (os c (CloseTemp temporary)) (\<lambda>_.
      andthen (os c (Rename temporary path)) (\<lambda>_.
      os c (ChmodPath path mode)))))))))"

definition executable_mode :: "int \<Rightarrow> bool" where
  "executable_mode mode = (odd mode \<or> odd (mode div 8) \<or> odd (mode div 64))"

definition canonicalExecutable :: "controller \<Rightarrow> string \<Rightarrow> string dop" where
  "canonicalExecutable c path =
    (let path = clean_path (trim_space path) in
    andthen (reject (\<not> rooted_path path) (errors_New ''coordlink executable path must be absolute'')) (\<lambda>_.
    andthen (named ''resolve coordlink executable'' (consult (\<lambda>n. ho_eval_symlinks (ct_host c) n path))) (\<lambda>resolved.
    andthen (tried (consult (\<lambda>n. ho_stat (ct_host c) n resolved))) (\<lambda>info.
    case info of
        Inl _ \<Rightarrow> throw (errors_New ''coordlink executable is missing or not executable'')
      | Inr info \<Rightarrow>
        andthen (reject (\<not> fi_regular info \<or> \<not> executable_mode (fi_permissions info))
          (errors_New ''coordlink executable is missing or not executable'')) (\<lambda>_.
        ret resolved)))))"

section \<open>The control directory\<close>

definition runControlMarkerVersion :: int where "runControlMarkerVersion = 1"
definition runControlMarkerName :: string where "runControlMarkerName = ''identity.json''"
definition runControlFileMode :: int where "runControlFileMode = 288"
definition runControlDirectoryMode :: int where "runControlDirectoryMode = 488"
definition maxRunControlFileBytes :: nat where "maxRunControlFileBytes = 64 * 1024"

definition controlOwnershipError :: "derror \<Rightarrow> derror" where
  "controlOwnershipError cause = wraps RuntimeOwnership (de_text cause)"

definition owned :: "'a dop \<Rightarrow> 'a dop" where
  "owned m = (\<lambda>s. case m s of (Inl e, s') \<Rightarrow> (Inl (controlOwnershipError e), s') | (Inr x, s') \<Rightarrow> (Inr x, s'))"

definition markerForRun :: "run \<Rightarrow> runControlMarker" where
  "markerForRun run = \<lparr>mk_version = runControlMarkerVersion, mk_project_id = r_project_id run,
     mk_task_id = r_task_id run, mk_agent_id = r_agent_id run, mk_run_id = r_id run,
     mk_generation = r_generation run, mk_launch_nonce = r_launch_nonce run\<rparr>"

definition encode_marker :: "runControlMarker \<Rightarrow> string" where
  "encode_marker marker = encode_json (JObject
     [(''version'', JInt (mk_version marker)), (''project_id'', JString (mk_project_id marker)),
      (''task_id'', JString (mk_task_id marker)), (''agent_id'', JString (mk_agent_id marker)),
      (''run_id'', JString (mk_run_id marker)), (''generation'', JInt (mk_generation marker)),
      (''launch_nonce'', JString (mk_launch_nonce marker))])"

definition writeRunControlMarker :: "controller \<Rightarrow> string \<Rightarrow> run \<Rightarrow> unit dop" where
  "writeRunControlMarker c controlPath run =
     writeRuntimeFile c (join_path [controlPath, runControlMarkerName]) (encode_marker (markerForRun run)) runControlFileMode"

text \<open>\<open>filepath.Rel\<close> for two clean paths: up from what the base does not share, then down.\<close>

fun drop_common :: "string list \<Rightarrow> string list \<Rightarrow> string list \<times> string list" where
  "drop_common (b # bs) (t # ts) = (if b = t then drop_common bs ts else (b # bs, t # ts))"
| "drop_common bs ts = (bs, ts)"

definition path_elements :: "string \<Rightarrow> string list" where
  "path_elements p = filter (\<lambda>e. e \<noteq> [] \<and> e \<noteq> ''.'') (split_on (CHR ''/'') p)"

definition rel_path :: "string \<Rightarrow> string \<Rightarrow> string option" where
  "rel_path base target =
     (if rooted_path base \<noteq> rooted_path target then None
      else let (bs, ts) = drop_common (path_elements (clean_path base)) (path_elements (clean_path target)) in
        if ''..'' \<in> set bs then None
        else if bs = [] \<and> ts = [] then Some ''.'' else Some (join ''/'' (replicate (length bs) ''..'' @ ts)))"

definition escapes :: "string \<Rightarrow> string \<Rightarrow> bool" where
  "escapes root path =
     (case rel_path root path of
        None \<Rightarrow> True
      | Some relative \<Rightarrow> relative = ''.'' \<or> relative = ''..'' \<or> rooted_path relative \<or> take 3 relative = ''../'')"

definition validateRunControlDirectory :: "controller \<Rightarrow> string \<Rightarrow> string \<Rightarrow> string \<Rightarrow> unit dop" where
  "validateRunControlDirectory c root path runID =
    (let root = clean_path root; path = clean_path path in
    andthen (reject (\<not> rooted_path root \<or> path \<noteq> join_path [root, runID])
       (errors_New ''run control directory is not deterministic'')) (\<lambda>_.
    andthen (reject (escapes root path) (errors_New ''run control directory escaped its root'')) (\<lambda>_.
    andthen (tried (consult (\<lambda>n. ho_lstat (ct_host c) n path))) (\<lambda>info.
    case info of
        Inl _ \<Rightarrow> throw (errors_New ''run control directory is missing'')
      | Inr info \<Rightarrow>
        andthen (reject (fi_symlink info \<or> \<not> fi_directory info \<or> fi_permissions info \<noteq> runControlDirectoryMode)
           (errors_New ''run control directory has invalid type or mode'')) (\<lambda>_.
        andthen (tried (consult (\<lambda>n. ho_eval_symlinks (ct_host c) n path))) (\<lambda>resolved.
        andthen (reject (resolved \<noteq> Inr path) (errors_New ''run control directory traverses a symlink'')) (\<lambda>_.
        reject (fi_uid info \<noteq> ho_euid (ct_host c) \<or> fi_gid info \<noteq> ho_gid (ct_host c))
           (errors_New ''run control directory has invalid ownership''))))))))"

definition openOwnedRunControlFileMode :: "controller \<Rightarrow> string \<Rightarrow> int \<Rightarrow> opened_file dop" where
  "openOwnedRunControlFileMode c path mode =
    andthen (tried (consult (\<lambda>n. ho_open (ct_host c) n path))) (\<lambda>file.
    case file of
        Inl _ \<Rightarrow> throw (errors_New ''run control file is missing or indirect'')
      | Inr file \<Rightarrow>
        (case of_info file of
           Inl _ \<Rightarrow> throw (errors_New ''inspect opened run control file'')
         | Inr opened \<Rightarrow>
           andthen (tried (consult (\<lambda>n. ho_lstat (ct_host c) n path))) (\<lambda>current.
           andthen (reject (case current of Inl _ \<Rightarrow> True | Inr info \<Rightarrow> fi_file info \<noteq> fi_file opened)
              (errors_New ''run control file changed during validation'')) (\<lambda>_.
           andthen (reject (fi_uid opened \<noteq> ho_euid (ct_host c) \<or> fi_gid opened \<noteq> ho_gid (ct_host c) \<or> fi_links opened \<noteq> 1)
              (errors_New ''run control file has invalid ownership'')) (\<lambda>_.
           andthen (reject (\<not> fi_regular opened \<or> fi_permissions opened \<noteq> mode)
              (errors_New ''run control file has invalid type or mode'')) (\<lambda>_.
           ret file))))))"

definition readOwnedRunControlFile :: "controller \<Rightarrow> string \<Rightarrow> string dop" where
  "readOwnedRunControlFile c path =
    andthen (openOwnedRunControlFileMode c path runControlFileMode) (\<lambda>file.
    case of_content file of
        Inl _ \<Rightarrow> throw (errors_New ''run control file is unreadable or too large'')
      | Inr raw \<Rightarrow>
        andthen (reject (maxRunControlFileBytes < length raw)
          (errors_New ''run control file is unreadable or too large'')) (\<lambda>_.
        ret raw))"

definition validateOwnedRunControlFileMode :: "controller \<Rightarrow> string \<Rightarrow> int \<Rightarrow> unit dop" where
  "validateOwnedRunControlFileMode c path mode =
    andthen (openOwnedRunControlFileMode c path mode) (\<lambda>file.
    reject (case of_size file of Inl _ \<Rightarrow> True | Inr n \<Rightarrow> n \<le> 0)
      (errors_New ''run control file is empty or unreadable''))"

definition validateRunControlIdentity :: "controller \<Rightarrow> string \<Rightarrow> run \<Rightarrow> unit dop" where
  "validateRunControlIdentity c controlRoot run =
    (let path = join_path [controlRoot, r_id run] in
    andthen (owned (validateRunControlDirectory c controlRoot path (r_id run))) (\<lambda>_.
    andthen (owned (readOwnedRunControlFile c (join_path [path, runControlMarkerName]))) (\<lambda>raw.
    reject (ho_decode_marker (ct_host c) raw \<noteq> Some (markerForRun run))
      (controlOwnershipError (errors_New ''run control identity does not match the durable Run'')))))"

definition decodeRunControlToken :: "string \<Rightarrow> derror + string" where
  "decodeRunControlToken raw =
     (let token = butlast raw in
      if length raw < 2 \<or> last raw \<noteq> CHR 0x0A then Inl (errors_New ''run control token has invalid framing'')
      else if token = [] \<or> trim_space token \<noteq> token \<or>
              (\<exists>ch \<in> set token. ch = CHR 0x0D \<or> ch = CHR 0x0A \<or> ch = CHR 0x09 \<or> ch = CHR '' '')
      then Inl (errors_New ''run control token has invalid framing'')
      else Inr token)"

definition run_scope :: "run \<Rightarrow> RunScope" where
  "run_scope run = \<lparr>rc_project_id = r_project_id run, rc_agent_id = r_agent_id run, rc_task_id = r_task_id run,
     rc_run_id = r_id run, rc_generation = r_generation run\<rparr>"

definition validateRunControl :: "controller \<Rightarrow> run \<Rightarrow> unit dop" where
  "validateRunControl c run =
    (let controlRoot = cc_control_root (ct_config c) in
    andthen (validateRunControlIdentity c controlRoot run) (\<lambda>_.
    andthen (owned (readOwnedRunControlFile c (join_path [join_path [controlRoot, r_id run], ''token'']))) (\<lambda>raw.
    andthen (owned (lift (decodeRunControlToken raw))) (\<lambda>token.
    andthen (tried (call c (AuthorizeRunScope (ct_service c) token (run_scope run)))) (\<lambda>authorized.
    reject (failure_of authorized \<noteq> None)
      (controlOwnershipError (errors_New ''run control token does not match the durable Run'')))))))"

text \<open>The removal of the control directory validates its identity before it deletes anything.\<close>

definition removeRunControl :: "controller \<Rightarrow> run \<Rightarrow> unit dop" where
  "removeRunControl c run =
    (let root = clean_path (cc_control_root (ct_config c)); path = join_path [root, r_id run] in
    andthen (reject (escapes root path) (errors_New ''run control cleanup path escaped its root'')) (\<lambda>_.
    andthen (tried (consult (\<lambda>n. ho_lstat (ct_host c) n path))) (\<lambda>info.
    case info of
        Inl e \<Rightarrow> if errors_Is e FileNotExist then ret () else throw e
      | Inr _ \<Rightarrow>
        andthen (validateRunControlIdentity c root run) (\<lambda>_.
        issue c (RemoveControl (r_id run)) (\<lambda>n. unless_error (ho_os (ct_host c) n (RemoveAll path)))))))"

end
