(* ===== verification/Monitor.thy ===== *)
theory Monitor
  imports Materialize
begin

text \<open>
  Monitors (internal/daemon/runtime_monitor.go): the redacted log of a run, what its frames record, and
  how the result of the log is collected once. A monitor is threaded as a value through the operation
  that owns it; the controller's table only says which monitor is registered for a run.
\<close>

section \<open>The table of monitors and controls\<close>

definition registerControl :: "string \<Rightarrow> runControl \<Rightarrow> unit dop" where
  "registerControl runID control =
     update (\<lambda>s. s\<lparr>dm_controls := (runID, control) # filter (\<lambda>(i, _). i \<noteq> runID) (dm_controls s)\<rparr>)"

definition registerMonitor :: "runMonitor \<Rightarrow> unit dop" where
  "registerMonitor m = (\<lambda>s.
     if map_of (dm_operations s) (mo_run_id m) = None then
       (Inl (errors_New ''runtime monitor registration requires Run operation ownership''), s)
     else if map_of (dm_monitors s) (mo_run_id m) \<noteq> None then
       (Inl (errors_New ''runtime monitor is already registered''), s)
     else (Inr (), s\<lparr>dm_monitors := (mo_run_id m, mo_id m) # dm_monitors s\<rparr>))"

definition unregisterMonitor :: "runMonitor \<Rightarrow> unit dop" where
  "unregisterMonitor m =
     update (\<lambda>s. s\<lparr>dm_monitors := filter (\<lambda>entry. entry \<noteq> (mo_run_id m, mo_id m)) (dm_monitors s)\<rparr>)"

definition registered_control :: "string \<Rightarrow> runControl option dop" where
  "registered_control runID = asks (\<lambda>s. map_of (dm_controls s) runID)"

text \<open>\<open>go supervise(monitor)\<close>.\<close>

definition spawn :: "runMonitor \<Rightarrow> unit dop" where
  "spawn m = update (\<lambda>s. s\<lparr>dm_supervised := dm_supervised s @ [m]\<rparr>)"

section \<open>What a monitor remembers\<close>

definition runtimeLogFailureReason :: string where "runtimeLogFailureReason = ''runtime log monitoring failed''"
definition runtimeLogFailureCode :: string where "runtimeLogFailureCode = ''LOG_STREAM_FAILED''"
definition runtimeSessionFailureCode :: string where "runtimeSessionFailureCode = ''SESSION_PERSIST_FAILED''"
definition runtimeSecretsFailureCode :: string where "runtimeSecretsFailureCode = ''SECRETS_UNAVAILABLE''"
definition runtimeRejectedErrorLimit :: nat where "runtimeRejectedErrorLimit = 256"

definition setRuntimeError :: "string \<Rightarrow> string \<Rightarrow> runMonitor \<Rightarrow> runMonitor" where
  "setRuntimeError code message m =
     (if mo_runtime_code m = [] \<or> code = ''RESUME_UNAVAILABLE''
      then m\<lparr>mo_runtime_code := code, mo_last_error := message\<rparr> else m)"

definition setLogFailure :: "derror \<Rightarrow> runMonitor \<Rightarrow> runMonitor" where
  "setLogFailure failure m = m\<lparr>
     mo_runtime_code := (if errors_Is failure SessionPersist then runtimeSessionFailureCode else runtimeLogFailureCode),
     mo_last_error := redact_text (mo_redact m) (de_text failure)\<rparr>"

definition errorFact :: "runMonitor \<Rightarrow> string \<times> string" where
  "errorFact m = (mo_runtime_code m, mo_last_error m)"

definition rememberLogResult :: "derror option \<Rightarrow> runMonitor \<Rightarrow> runMonitor" where
  "rememberLogResult err m = (if mo_logs_done m then m else m\<lparr>mo_logs_done := True, mo_log_err := err\<rparr>)"

section \<open>Streaming a log\<close>

definition sanitizeJSONFrame :: "controller \<Rightarrow> runtimeRedaction \<Rightarrow> string \<Rightarrow> string option" where
  "sanitizeJSONFrame c r frame =
     (case ho_decode_frame (ct_host c) frame of
        None \<Rightarrow> None
      | Some v \<Rightarrow> Some (ho_encode_frame (ct_host c) (sanitizeJSONValue r v)))"

definition sanitizedRuntimeLogLine :: "controller \<Rightarrow> runtimeRedaction \<Rightarrow> string \<Rightarrow> string" where
  "sanitizedRuntimeLogLine c r frame =
     (case sanitizeJSONFrame c r frame of None \<Rightarrow> rejectedFrameMetadata frame | Some sanitized \<Rightarrow> sanitized)"

definition rejectedFrameLogLine :: "runtimeRedaction \<Rightarrow> string \<Rightarrow> derror \<Rightarrow> string" where
  "rejectedFrameLogLine r frame parseErr =
     ''[coordplane: adapter frame rejected] '' @ encode_json (JObject
       [(''error'', JString (take runtimeRejectedErrorLimit (redact_text r (de_text parseErr)))),
        (''frame'', JString (rejectedFrameMetadata frame))])"

text \<open>What a recognized frame records: the native session durably, an error of the provider in the monitor.\<close>

definition frame_event :: "controller \<Rightarrow> run \<Rightarrow> RuntimeRef \<Rightarrow> Event \<Rightarrow> runMonitor \<Rightarrow> (derror option \<times> runMonitor) dop" where
  "frame_event c run ref event m =
     (case ev_kind event of
        EventSessionStarted \<Rightarrow>
          andthen (tried (call c (RecordRunSession (ct_service c) (runtimeFactInput run ref ''session'')
             (ev_native_session_id event)))) (\<lambda>r.
          case r of
            Inl e \<Rightarrow>
              (let failure = wraps SessionPersist (de_text e) in
              ret (Some failure, setRuntimeError runtimeSessionFailureCode (redact_text (mo_redact m) (de_text failure)) m))
          | Inr _ \<Rightarrow> ret (None, m))
      | EventResumeUnavailable \<Rightarrow>
          ret (None, setRuntimeError ''RESUME_UNAVAILABLE'' (redact_text (mo_redact m) (ev_message event)) m)
      | EventProviderError \<Rightarrow>
          ret (None, setRuntimeError ''PROVIDER_ERROR'' (redact_text (mo_redact m) (ev_message event)) m)
      | EventProtocol \<Rightarrow> ret (None, m))"

text \<open>One write to the log file, with the disk as it is at that moment.\<close>

definition write_line :: "controller \<Rightarrow> bool \<Rightarrow> string \<Rightarrow> run_log \<Rightarrow> run_log dop" where
  "write_line c diagnostic line lg = observe (\<lambda>n. write_log_line (ho_disk (ct_host c) n) diagnostic line lg)"

definition output_error :: "controller \<Rightarrow> run_log \<Rightarrow> derror option dop" where
  "output_error c lg = observe (\<lambda>n. if lg_failed lg then Some (ho_log_error (ct_host c) n) else None)"

text \<open>The scan of the frames; the value is the error that stopped it, the monitor and the log file.\<close>

fun scan_frames ::
  "controller \<Rightarrow> run \<Rightarrow> RuntimeRef \<Rightarrow> string list \<Rightarrow> runMonitor \<Rightarrow> run_log \<Rightarrow> (derror option \<times> runMonitor \<times> run_log) dop"
where
  "scan_frames c run ref [] m lg = ret (None, m, lg)"
| "scan_frames c run ref (line # lines) m lg =
     (case ho_parse_event (ct_host c) (mo_entry m) line of
        Inl parseErr \<Rightarrow>
          if take 1 (trim_space line) = ''{'' then
            andthen (write_line c True (rejectedFrameLogLine (mo_redact m) line parseErr) lg) (\<lambda>lg.
            andthen (output_error c lg) (\<lambda>outputErr.
            ret (errors_Join [Some (prefixed ''adapter protocol frame rejected'' parseErr), outputErr], m, lg)))
          else
            andthen (write_line c False (sanitizedRuntimeLogLine c (mo_redact m) line) lg) (\<lambda>lg.
            scan_frames c run ref lines m lg)
      | Inr event \<Rightarrow>
          if ev_raw event = [] then scan_frames c run ref lines m lg
          else
            andthen (frame_event c run ref event m) (\<lambda>(failure, m).
            if failure \<noteq> None then ret (failure, m, lg)
            else
              andthen (write_line c False (sanitizedRuntimeLogLine c (mo_redact m) (ev_raw event)) lg) (\<lambda>lg.
              scan_frames c run ref lines m lg)))"

definition store_log :: "string \<Rightarrow> run_log \<Rightarrow> unit dop" where
  "store_log path lg = update (\<lambda>s. s\<lparr>dm_logs := (path, lg) # filter (\<lambda>(p, _). p \<noteq> path) (dm_logs s)\<rparr>)"

text \<open>\<open>streamLogs\<close>: the log file is truncated when it is opened; a failure to open it is an output error that
  the frames do not see.\<close>

definition streamLogs :: "controller \<Rightarrow> run \<Rightarrow> runMonitor \<Rightarrow> (derror option \<times> runMonitor) dop" where
  "streamLogs c run m =
    andthen (tried (consult (\<lambda>n. ho_logs (ct_host c) n (mo_ref m)))) (\<lambda>stream.
    case stream of
        Inl e \<Rightarrow> ret (Some e, m)
      | Inr (lines, scanErr) \<Rightarrow>
        andthen (observe (\<lambda>n. ho_log_create (ct_host c) n (r_log_path run))) (\<lambda>openErr.
        let lg = \<lparr>lg_file = [], lg_written = 0, lg_truncated = False, lg_failed = (openErr \<noteq> None)\<rparr> in
        andthen (scan_frames c run (mo_ref m) lines m lg) (\<lambda>(stopped, m, lg).
        andthen (whenever (openErr = None) (store_log (r_log_path run) lg)) (\<lambda>_.
        if stopped \<noteq> None then ret (stopped, m)
        else
          andthen (output_error c lg) (\<lambda>outputErr.
          ret (errors_Join [outputErr, scanErr], m))))))"

section \<open>Monitors\<close>

text \<open>A run whose redaction cannot be trusted gets no monitor: nothing of its log is stored.\<close>

definition newMonitor :: "controller \<Rightarrow> run \<Rightarrow> RuntimeRef \<Rightarrow> CLI \<Rightarrow> runControl option \<Rightarrow> runMonitor dop" where
  "newMonitor c run ref entry control =
    andthen (redaction c run) (\<lambda>redact.
    andthen (reject (rx_fail_closed redact)
       (wraps SecretsUnavailable (''Run '' @ r_id run @ '' redaction is unavailable''))) (\<lambda>_.
    andthen (observe (\<lambda>n. n)) (\<lambda>ident.
    ret \<lparr>mo_id = ident, mo_run_id = r_id run, mo_ref = ref, mo_entry = entry, mo_control = control,
       mo_redact = redact, mo_logs = Streamed run, mo_runtime_code = [], mo_last_error = [],
       mo_logs_done = False, mo_log_err = None\<rparr>)))"

definition receive_log :: "controller \<Rightarrow> runMonitor \<Rightarrow> (derror option \<times> runMonitor) dop" where
  "receive_log c m =
     (case mo_logs m of
        Streamed run \<Rightarrow>
          andthen (streamLogs c run m) (\<lambda>(err, m).
          let m = rememberLogResult err m in ret (mo_log_err m, m))
      | LogResult err \<Rightarrow> (let m = rememberLogResult err m in ret (mo_log_err m, m)))"

text \<open>\<open>collectLogs\<close>: the stream may not end in time.\<close>

definition collectLogs :: "controller \<Rightarrow> runMonitor \<Rightarrow> (derror option \<times> runMonitor) dop" where
  "collectLogs c m =
     (if mo_logs_done m then ret (mo_log_err m, m)
      else
        andthen (observe (\<lambda>n. ho_drained (ct_host c) n (mo_ref m))) (\<lambda>drained.
        if drained then receive_log c m else ret (Some (sentinel_error LogDrainTimeout), m)))"

definition cancelAndCollectLogs :: "controller \<Rightarrow> runMonitor \<Rightarrow> unit dop" where
  "cancelAndCollectLogs c m = andthen (collectLogs c m) (\<lambda>_. ret ())"

text \<open>The receipt of the result of \<open>Wait\<close>: the exit code or the error.\<close>

definition receive_wait :: "controller \<Rightarrow> RuntimeRef \<Rightarrow> (derror + int) dop" where
  "receive_wait c ref = tried (consult (\<lambda>n. ho_wait (ct_host c) n ref))"

end
