(* ===== verification/Supervise.thy ===== *)
theory Supervise
  imports Monitor
begin

text \<open>
  Supervision (internal/daemon/runtime_supervisor.go): the cleanup of a run and its four steps, the
  terminal fact a process or a failed launch leaves, the stop of a run with a durable intent, and the
  loop that supervises a live container.
\<close>

section \<open>Time\<close>

definition parse_stamp :: "controller \<Rightarrow> stamp \<Rightarrow> int option" where
  "parse_stamp c s = (case s of NoStamp \<Rightarrow> None | At i \<Rightarrow> Some i | Given text \<Rightarrow> ho_parse_time (ct_host c) text)"

definition deadlineReached :: "controller \<Rightarrow> stamp \<Rightarrow> bool dop" where
  "deadlineReached c s =
     (if s = NoStamp then ret False
      else case parse_stamp c s of
          None \<Rightarrow> ret False
        | Some deadline \<Rightarrow> observe (\<lambda>n. deadline \<le> ho_now (ct_host c) n))"

definition second_ns :: int where "second_ns = 10 ^ 9"

definition run_budget :: "int \<Rightarrow> int \<Rightarrow> int" where
  "run_budget budgetSeconds runTimeout =
     (let budget = (if 0 < budgetSeconds then budgetSeconds * second_ns else 0) in
      if 0 < runTimeout \<and> (budget = 0 \<or> runTimeout < budget) then runTimeout else budget)"

definition runDeadlineAt :: "int \<Rightarrow> int \<Rightarrow> int \<Rightarrow> stamp" where
  "runDeadlineAt budgetSeconds runTimeout now =
     (let budget = run_budget budgetSeconds runTimeout in if budget \<le> 0 then NoStamp else At (now + budget))"

definition last_progress :: "run \<Rightarrow> stamp" where
  "last_progress run =
     (if r_heartbeat_at run \<noteq> NoStamp then r_heartbeat_at run
      else if r_last_observed_at run \<noteq> NoStamp then r_last_observed_at run else r_started_at run)"

definition runStalled :: "controller \<Rightarrow> run \<Rightarrow> bool dop" where
  "runStalled c run =
     (if cc_stall_timeout (ct_config c) \<le> 0 then ret False
      else case parse_stamp c (last_progress run) of
          None \<Rightarrow> ret False
        | Some observed \<Rightarrow> observe (\<lambda>n. cc_stall_timeout (ct_config c) < ho_now (ct_host c) n - observed))"

section \<open>Cleanup\<close>

definition close_once :: "controller \<Rightarrow> runControl \<Rightarrow> derror option dop" where
  "close_once c control = (\<lambda>s.
     case map_of (dm_closed s) (co_id control) of
       Some result \<Rightarrow> (Inr result, s)
     | None \<Rightarrow>
         (let (closeErr, serveErr) = ho_close_control (ct_host c) (dm_calls s) control;
              result = errors_Join [closeErr, serveErr] in
          (Inr result, s\<lparr>dm_calls := Suc (dm_calls s), dm_closed := (co_id control, result) # dm_closed s\<rparr>)))"

definition closeControlContext :: "controller \<Rightarrow> string \<Rightarrow> runControl option \<Rightarrow> unit dop" where
  "closeControlContext c runID control =
     (case control of
        None \<Rightarrow> ret ()
      | Some k \<Rightarrow>
          andthen (close_once c k) (\<lambda>result.
          andthen (update (\<lambda>s. s\<lparr>dm_controls := filter (\<lambda>entry. entry \<noteq> (runID, k)) (dm_controls s)\<rparr>)) (\<lambda>_.
          lift (unless_error result))))"

record runtimeCleanupState =
  cu_run :: run
  cu_ref :: RuntimeRef
  cu_control :: "runControl option"

definition no_container :: "RuntimeRef \<Rightarrow> bool" where
  "no_container ref = (rr_run_id ref = [] \<or> rr_launch_nonce ref = [])"

definition stopCleanupContainer :: "controller \<Rightarrow> runtimeCleanupState \<Rightarrow> unit dop" where
  "stopCleanupContainer c state =
     (if no_container (cu_ref state) then ret ()
      else
        andthen (tried (issue c (StopContainer (cu_ref state) 0)
          (\<lambda>n. unless_error (ho_stop (ct_host c) n (cu_ref state) 0)))) (\<lambda>r.
        case r of
          Inl e \<Rightarrow> if errors_Is e ContainerNotFound then ret () else throw e
        | Inr _ \<Rightarrow> ret ()))"

definition removeCleanupContainer :: "controller \<Rightarrow> runtimeCleanupState \<Rightarrow> unit dop" where
  "removeCleanupContainer c state =
     (if no_container (cu_ref state) then ret ()
      else issue c (RemoveContainer (cu_ref state)) (\<lambda>n. unless_error (ho_remove (ct_host c) n (cu_ref state))))"

definition closeCleanupControl :: "controller \<Rightarrow> runtimeCleanupState \<Rightarrow> unit dop" where
  "closeCleanupControl c state =
    andthen (if cu_control state = None then registered_control (r_id (cu_run state)) else ret (cu_control state)) (\<lambda>control.
    closeControlContext c (r_id (cu_run state)) control)"

definition removeCleanupControl :: "controller \<Rightarrow> runtimeCleanupState \<Rightarrow> unit dop" where
  "removeCleanupControl c state = removeRunControl c (cu_run state)"

definition runtimeCleanupSteps :: "(string \<times> (controller \<Rightarrow> runtimeCleanupState \<Rightarrow> unit dop)) list" where
  "runtimeCleanupSteps =
     [(''stopContainer'', stopCleanupContainer), (''removeContainer'', removeCleanupContainer),
      (''closeRunAPISocket'', closeCleanupControl), (''removeRunControl'', removeCleanupControl)]"

definition record_cleanup :: "controller \<Rightarrow> run \<Rightarrow> RuntimeRef \<Rightarrow> string \<Rightarrow> cleanup_state \<Rightarrow> string \<Rightarrow> run dop" where
  "record_cleanup c run ref phase state lastError =
     call c (RecordRunCleanup (ct_service c) (runtimeFactInput run ref phase) (r_cleanup_operation_id run) state lastError)"

definition degrade_if_unavailable :: "controller \<Rightarrow> derror \<Rightarrow> unit dop" where
  "degrade_if_unavailable c e = whenever (errors_Is e RuntimeUnavailable) (setDegraded c (de_text e))"

definition blockCleanup :: "controller \<Rightarrow> run \<Rightarrow> RuntimeRef \<Rightarrow> derror \<Rightarrow> unit dop" where
  "blockCleanup c run ref cause =
    andthen (degrade_if_unavailable c cause) (\<lambda>_.
    andthen (redaction c run) (\<lambda>redact.
    andthen (tried (record_cleanup c run ref ''cleanup-blocked'' CleanupBlocked (redact_text redact (de_text cause)))) (\<lambda>r.
    lift (unless_error (errors_Join [Some cause, failure_of r])))))"

definition cleanupRun :: "controller \<Rightarrow> run \<Rightarrow> RuntimeRef \<Rightarrow> runControl option \<Rightarrow> runMonitor option \<Rightarrow> unit dop" where
  "cleanupRun c run ref control monitor =
     (if r_cleanup_state run = CleanupRemoved \<or> r_cleanup_state run = CleanupNotNeeded then ret ()
      else
        andthen (case monitor of None \<Rightarrow> ret () | Some m \<Rightarrow> ignored (cancelAndCollectLogs c m)) (\<lambda>_.
        andthen (if r_cleanup_state run = CleanupBlocked
           then record_cleanup c run ref ''cleanup-retry'' CleanupPending [] else ret run) (\<lambda>run.
        let state = \<lparr>cu_run = run, cu_ref = ref, cu_control = control\<rparr> in
        andthen (tried (each runtimeCleanupSteps (\<lambda>(name, step). named name (step c state)))) (\<lambda>r.
        case r of
          Inl e \<Rightarrow> blockCleanup c run ref e
        | Inr _ \<Rightarrow>
            andthen (record_cleanup c run ref ''cleanup-removed'' CleanupRemoved []) (\<lambda>_.
            ret ())))))"

section \<open>Stop intents\<close>

definition reconcileDurableIntent :: "controller \<Rightarrow> run \<Rightarrow> (run \<times> task \<times> bool) dop" where
  "reconcileDurableIntent c run =
    andthen (call c (ServiceTask (ct_service c) (r_task_id run))) (\<lambda>projection.
    let task = td_task projection in
    andthen (orelse (ret (r_stop_requested_at run \<noteq> NoStamp \<or> r_requested_outcome run \<noteq> NoOutcome \<or>
         t_status task = TaskCancelled))
       (orelse (deadlineReached c (r_deadline_at run)) (runStalled c run))) (\<lambda>hasIntent.
    if \<not> hasIntent \<or> r_stop_requested_at run \<noteq> NoStamp then ret (run, task, hasIntent)
    else
      andthen (if t_status task = TaskCancelled then ret ''Task cancelled''
         else andthen (deadlineReached c (r_deadline_at run)) (\<lambda>reached.
           if reached then ret ''deadline exceeded''
           else andthen (runStalled c run) (\<lambda>stalled.
             ret (if stalled then ''stalled'' else ''task outcome recorded'')))) (\<lambda>reason.
      andthen (randomRuntimeID c ''reconcile-stop'') (\<lambda>operation.
      andthen (call c (RequestRuntimeStop (ct_service c) (r_id run) reason (runtimeRequest run ''reconcile-stop'') operation)) (\<lambda>updated.
      ret (updated, task, True))))))"

definition stopOwnedContainer :: "controller \<Rightarrow> RuntimeRef \<Rightarrow> unit dop" where
  "stopOwnedContainer c ref =
    andthen (tried (issue c (StopContainer ref (shutdownGrace c))
       (\<lambda>n. unless_error (ho_stop (ct_host c) n ref (shutdownGrace c))))) (\<lambda>r.
    case r of Inl e \<Rightarrow> degrade_if_unavailable c e | Inr _ \<Rightarrow> ret ())"

definition stopForDurableIntent :: "controller \<Rightarrow> runMonitor \<Rightarrow> unit dop" where
  "stopForDurableIntent c m =
    andthen (tried (call c (ServiceRun (mo_run_id m)))) (\<lambda>r.
    case r of
      Inl _ \<Rightarrow> ret ()
    | Inr run \<Rightarrow>
      (if IsRunTerminal (r_state run) then ret ()
       else
        andthen (tried (reconcileDurableIntent c run)) (\<lambda>intent.
        case intent of
          Inl _ \<Rightarrow> ret ()
        | Inr (_, _, hasIntent) \<Rightarrow> whenever hasIntent (stopOwnedContainer c (mo_ref m)))))"

definition stop_after_log_failure :: "controller \<Rightarrow> runMonitor \<Rightarrow> run \<Rightarrow> unit dop" where
  "stop_after_log_failure c m run =
    andthen (tried (reconcileDurableIntent c run)) (\<lambda>intent.
    case intent of
      Inl e \<Rightarrow> setDegraded c (redact_text (mo_redact m) (de_text e))
    | Inr (run, _, True) \<Rightarrow> stopOwnedContainer c (mo_ref m)
    | Inr (run, _, False) \<Rightarrow>
      andthen (tried (randomRuntimeID c ''log-failure'')) (\<lambda>operation.
      case operation of
        Inl e \<Rightarrow> setDegraded c (de_text e)
      | Inr operation \<Rightarrow>
        andthen (tried (call c (RequestRuntimeStop (ct_service c) (r_id run) runtimeLogFailureReason
           (runtimeRequest run ''log-failure'') operation))) (\<lambda>r.
        case r of
          Inl e \<Rightarrow> setDegraded c (redact_text (mo_redact m) (de_text e))
        | Inr _ \<Rightarrow> stopOwnedContainer c (mo_ref m))))"

text \<open>\<open>stopForLogFailure\<close>; the value is the monitor with the failure.\<close>

definition stopForLogFailure :: "controller \<Rightarrow> runMonitor \<Rightarrow> derror \<Rightarrow> runMonitor dop" where
  "stopForLogFailure c m failure =
    (let m = setLogFailure failure m in
    andthen (tried (call c (ServiceRun (mo_run_id m)))) (\<lambda>r.
    andthen (case r of
        Inl e \<Rightarrow> setDegraded c (redact_text (mo_redact m) (de_text e))
      | Inr run \<Rightarrow>
          if IsRunTerminal (r_state run) then ret ()
          else if r_stop_requested_at run = NoStamp then stop_after_log_failure c m run
          else stopOwnedContainer c (mo_ref m)) (\<lambda>_.
    ret m)))"

section \<open>The terminal fact of a process\<close>

definition log_tail :: "controller \<Rightarrow> string \<Rightarrow> nat \<Rightarrow> string dop" where
  "log_tail c path maxBytes = (\<lambda>s.
     (Inr (readLogTail (\<lambda>p. case map_of (dm_logs s) p of Some lg \<Rightarrow> Some (lg_file lg)
         | None \<Rightarrow> ho_files (ct_host c) (dm_calls s) p) path maxBytes),
      s\<lparr>dm_calls := Suc (dm_calls s)\<rparr>))"

text \<open>The state and the reason of a run whose process ended, before its intents are looked at.\<close>

definition observed_end :: "derror + int \<Rightarrow> derror option \<Rightarrow> run \<Rightarrow> run_state \<times> string" where
  "observed_end result logErr run =
     (if logErr \<noteq> None \<and> r_requested_outcome run = NoOutcome then (RunInterrupted, runtimeLogFailureReason)
      else case result of
          Inl _ \<Rightarrow> (RunInterrupted, ''runtime lost the container without a trusted exit fact'')
        | Inr _ \<Rightarrow> (RunExited, ''CLI process exited''))"

definition intended_end :: "run \<Rightarrow> bool \<Rightarrow> run_state \<times> string \<Rightarrow> run_state \<times> string" where
  "intended_end run cancelled observed =
     (if cancelled then (RunCancelled, ''Task cancelled'')
      else if r_stop_reason run = ''deadline exceeded'' \<or> r_stop_reason run = ''stalled'' then
        (RunTimedOut, if r_stop_reason run = ''stalled'' then ''Run stalled'' else ''Run deadline exceeded'')
      else if r_requested_outcome run = NoOutcome \<and> r_stop_requested_at run \<noteq> NoStamp then
        (RunInterrupted, r_stop_reason run)
      else observed)"

definition observed_error :: "runMonitor \<Rightarrow> derror + int \<Rightarrow> derror option \<Rightarrow> string" where
  "observed_error m result logErr =
     (case result of
        Inl e \<Rightarrow> redact_text (mo_redact m) (de_text e)
      | Inr _ \<Rightarrow>
          if mo_last_error m \<noteq> [] then mo_last_error m
          else case logErr of None \<Rightarrow> [] | Some e \<Rightarrow> redact_text (mo_redact m) (de_text e))"

definition exit_code_of :: "derror + int \<Rightarrow> int option" where
  "exit_code_of result = (case result of Inl _ \<Rightarrow> None | Inr code \<Rightarrow> Some code)"

definition end_operation :: "run \<Rightarrow> string" where
  "end_operation run = (if r_stop_operation_id run \<noteq> [] then r_stop_operation_id run else r_launch_operation_id run)"

definition finish_live_run :: "controller \<Rightarrow> run \<Rightarrow> runMonitor \<Rightarrow> derror + int \<Rightarrow> unit dop" where
  "finish_live_run c run m result =
    andthen (collectLogs c m) (\<lambda>(logErr, m).
    andthen (lift (unless_error (if (case logErr of None \<Rightarrow> False | Some e \<Rightarrow> errors_Is e LogDrainTimeout) then logErr else None))) (\<lambda>_.
    let m = (case logErr of None \<Rightarrow> m | Some e \<Rightarrow> setLogFailure e m) in
    andthen (tried (call c (ServiceTask (ct_service c) (r_task_id run)))) (\<lambda>task.
    let (state, reason) = intended_end run
        (case task of Inl _ \<Rightarrow> False | Inr detail \<Rightarrow> t_status (td_task detail) = TaskCancelled) (observed_end result logErr run) in
    andthen (if state = RunExited \<and> r_requested_outcome run = NoOutcome then
         andthen (log_tail c (r_log_path run) 1536) (\<lambda>tail.
         ret (runtimeExitedReason reason (exit_code_of result) tail (mo_redact m)))
       else ret reason) (\<lambda>reason.
    andthen (call c (RecordRuntimeRunTerminal (ct_service c) (runtimeTerminalInput run
       ((terminal_input state reason (runtimeRequest run ''terminal'') (end_operation run))
          \<lparr>rt_exit_code := exit_code_of result, rt_last_error := observed_error m result logErr,
            rt_runtime_error_code := mo_runtime_code m\<rparr>)))) (\<lambda>terminal.
    cleanupRun c (tr_run terminal) (mo_ref m) (mo_control m) (Some m))))))"

text \<open>\<open>finishObservedRunContext\<close>; \<open>previous\<close> stands in for the row when it cannot be read.\<close>

definition finishObservedRun :: "controller \<Rightarrow> run option \<Rightarrow> runMonitor \<Rightarrow> derror + int \<Rightarrow> unit dop" where
  "finishObservedRun c previous m result =
    andthen (tried (call c (ServiceRun (mo_run_id m)))) (\<lambda>r.
    andthen (case r of
        Inr run \<Rightarrow> ret run
      | Inl e \<Rightarrow> (case previous of None \<Rightarrow> throw e | Some run \<Rightarrow> ret run)) (\<lambda>run.
    if IsRunTerminal (r_state run) then cleanupRun c run (mo_ref m) (mo_control m) (Some m)
    else finish_live_run c run m result))"

section \<open>The terminal fact of a launch that failed\<close>

definition failUnpreparedRun :: "controller \<Rightarrow> run \<Rightarrow> string \<Rightarrow> string \<Rightarrow> unit dop" where
  "failUnpreparedRun c run code message =
    andthen (redaction c run) (\<lambda>redact.
    let message = redact_text redact message in
    andthen (call c (RecordRuntimeRunTerminal (ct_service c) (runtimeTerminalInput run
       ((terminal_input RunFailed message (runtimeRequest run ''prepare-failed'') (r_launch_operation_id run))
          \<lparr>rt_runtime_error_code := code\<rparr>)))) (\<lambda>terminal.
    throw (errors_New (''runtime: Run '' @ r_id (tr_run terminal) @ '' failed before launch: '' @ message))))"

definition cleanup_failed_launch :: "controller \<Rightarrow> RunTerminalResult \<Rightarrow> RuntimeRef \<Rightarrow> runControl option \<Rightarrow> unit dop" where
  "cleanup_failed_launch c terminal ref control =
     ignored (cleanupRun c (tr_run terminal) (if rr_run_id ref = [] then runtimeRef (tr_run terminal) else ref) control None)"

definition failPreparedRun ::
  "controller \<Rightarrow> run \<Rightarrow> RuntimeRef \<Rightarrow> runControl option \<Rightarrow> string \<Rightarrow> derror \<Rightarrow> unit dop" where
  "failPreparedRun c run ref control code cause =
    andthen (redaction c run) (\<lambda>redact.
    andthen (tried (call c (RecordRuntimeRunTerminal (ct_service c) (runtimeTerminalInput run
       ((terminal_input RunFailed ''Run launch failed'' (runtimeRequest run ''launch-failed'') (r_launch_operation_id run))
          \<lparr>rt_last_error := trim_space (redact_text redact (de_text cause)), rt_runtime_error_code := code\<rparr>))))) (\<lambda>r.
    case r of
      Inl e \<Rightarrow> lift (unless_error (errors_Join [Some cause, Some e]))
    | Inr terminal \<Rightarrow>
        andthen (cleanup_failed_launch c terminal ref control) (\<lambda>_.
        throw cause)))"

definition failSecretsUnavailable :: "controller \<Rightarrow> run \<Rightarrow> RuntimeRef \<Rightarrow> runControl option \<Rightarrow> unit dop" where
  "failSecretsUnavailable c run ref control =
    (let (state, reason) = (if r_state run = RunActive
        then (RunInterrupted, ''Run interrupted: run secrets are unavailable'') else (RunFailed, ''Run launch failed'')) in
    andthen (call c (RecordRuntimeRunTerminal (ct_service c) (runtimeTerminalInput run
       ((terminal_input state reason (runtimeRequest run ''secrets-unavailable'') (r_launch_operation_id run))
          \<lparr>rt_runtime_error_code := runtimeSecretsFailureCode\<rparr>)))) (\<lambda>terminal.
    andthen (cleanup_failed_launch c terminal ref control) (\<lambda>_.
    throw (sentinel_error SecretsUnavailable))))"

section \<open>The loop of a monitor\<close>

text \<open>What the \<open>select\<close> of the loop receives.\<close>

datatype supervise_event = WaitDelivered "derror + int" | LogsDelivered | OutcomeNotified | TickFired | ContextDone

record supervision =
  su_monitor :: runMonitor
  su_log_failure :: "derror option"

text \<open>The value of a step is the state of the loop and whether it goes on.\<close>

definition supervise_wait :: "controller \<Rightarrow> derror + int \<Rightarrow> supervision \<Rightarrow> (supervision \<times> bool) dop" where
  "supervise_wait c result su =
    andthen (asks dm_cancelled) (\<lambda>cancelled.
    case result of
      Inl e \<Rightarrow>
        (if errors_Is e ContextCanceled \<and> cancelled then ret (su, False)
         else if errors_Is e RuntimeUnavailable then andthen (setDegraded c (de_text e)) (\<lambda>_. ret (su, False))
         else andthen (ignored (finishObservedRun c None (su_monitor su) result)) (\<lambda>_. ret (su, False)))
    | Inr _ \<Rightarrow> andthen (ignored (finishObservedRun c None (su_monitor su) result)) (\<lambda>_. ret (su, False)))"

definition supervise_logs :: "controller \<Rightarrow> supervision \<Rightarrow> (supervision \<times> bool) dop" where
  "supervise_logs c su =
    andthen (receive_log c (su_monitor su)) (\<lambda>(logFailure, m).
    let su = \<lparr>su_monitor = m, su_log_failure = logFailure\<rparr> in
    andthen (asks dm_cancelled) (\<lambda>cancelled.
    case logFailure of
      None \<Rightarrow> ret (su, True)
    | Some e \<Rightarrow>
        if errors_Is e ContextCanceled \<and> cancelled then ret (su, False)
        else andthen (stopForLogFailure c m e) (\<lambda>m. ret (su\<lparr>su_monitor := m\<rparr>, True))))"

definition supervise_inspect :: "controller \<Rightarrow> run \<Rightarrow> supervision \<Rightarrow> (supervision \<times> bool) dop" where
  "supervise_inspect c run su =
    (let m = su_monitor su in
    andthen (tried (consult (\<lambda>n. ho_inspect (ct_host c) n (mo_ref m)))) (\<lambda>r.
    case r of
      Inr state \<Rightarrow>
        andthen (whenever (lv_running state) (ignored (call c
          (RecordRunHeartbeat (ct_service c) (runtimeFactInput run (mo_ref m) ''heartbeat'') [] True)))) (\<lambda>_.
        ret (su, True))
    | Inl e \<Rightarrow>
        if errors_Is e RuntimeUnavailable then andthen (setDegraded c (de_text e)) (\<lambda>_. ret (su, False))
        else if errors_Is e ContainerNotFound then
          andthen (ignored (finishObservedRun c (Some run) m (Inl (sentinel_error ContainerNotFound)))) (\<lambda>_. ret (su, False))
        else andthen (ignored (finishObservedRun c (Some run) m (Inl e))) (\<lambda>_. ret (su, False))))"

definition supervise_tick :: "controller \<Rightarrow> supervision \<Rightarrow> (supervision \<times> bool) dop" where
  "supervise_tick c su =
    (let m = su_monitor su in
    andthen (tried (call c (ServiceRun (mo_run_id m)))) (\<lambda>r.
    case r of
      Inl _ \<Rightarrow> ret (su, False)
    | Inr run \<Rightarrow>
        if IsRunTerminal (r_state run) then ret (su, False)
        else if r_requested_outcome run \<noteq> NoOutcome then andthen (stopForDurableIntent c m) (\<lambda>_. ret (su, True))
        else if su_log_failure su \<noteq> None \<and> r_stop_requested_at run = NoStamp then
          andthen (stopForLogFailure c m (the (su_log_failure su))) (\<lambda>m. ret (su\<lparr>su_monitor := m\<rparr>, True))
        else if r_stop_requested_at run \<noteq> NoStamp \<or> r_token_revoked_at run \<noteq> NoStamp then
          andthen (stopOwnedContainer c (mo_ref m)) (\<lambda>_. ret (su, True))
        else
          andthen (orelse (deadlineReached c (r_deadline_at run)) (runStalled c run)) (\<lambda>due.
          if due then andthen (stopForDurableIntent c m) (\<lambda>_. ret (su, True))
          else supervise_inspect c run su)))"

definition supervise_step :: "controller \<Rightarrow> supervise_event \<Rightarrow> supervision \<Rightarrow> (supervision \<times> bool) dop" where
  "supervise_step c event su =
     (case event of
        WaitDelivered result \<Rightarrow> supervise_wait c result su
      | LogsDelivered \<Rightarrow> supervise_logs c su
      | OutcomeNotified \<Rightarrow> andthen (stopForDurableIntent c (su_monitor su)) (\<lambda>_. ret (su, True))
      | TickFired \<Rightarrow> supervise_tick c su
      | ContextDone \<Rightarrow> andthen (stopForDurableIntent c (su_monitor su)) (\<lambda>_. ret (su, False)))"

text \<open>The loop over the events it receives; the value tells whether it returned. A loop that returned has
  collected its log and is no longer registered.\<close>

fun supervise_loop :: "controller \<Rightarrow> supervise_event list \<Rightarrow> supervision \<Rightarrow> (supervision \<times> bool) dop" where
  "supervise_loop c [] su = ret (su, False)"
| "supervise_loop c (event # events) su =
    andthen (supervise_step c event su) (\<lambda>(su, continues).
    if continues then supervise_loop c events su else ret (su, True))"

definition supervise :: "controller \<Rightarrow> supervise_event list \<Rightarrow> runMonitor \<Rightarrow> bool dop" where
  "supervise c events m =
    andthen (supervise_loop c events \<lparr>su_monitor = m, su_log_failure = None\<rparr>) (\<lambda>(su, returned).
    andthen (whenever returned (
      andthen (ignored (cancelAndCollectLogs c (su_monitor su))) (\<lambda>_.
      unregisterMonitor (su_monitor su)))) (\<lambda>_.
    ret returned))"

end
