(* ===== verification/Launch.thy ===== *)
theory Launch
  imports Supervise
begin

text \<open>
  The launch of a claimed run (internal/daemon/runtime_controller.go): the durable intent, the twelve
  preparation steps in their order, and what a failed step leaves. The hooks between the steps exist
  only in builds for contract tests and are left out.
\<close>

section \<open>The container of a run\<close>

definition runtimeContainerUID :: int where "runtimeContainerUID = 65532"
definition runtimeTmpfsLimit :: int where "runtimeTmpfsLimit = 64 * 2 ^ 20"
definition runtimeLaunchFile :: string where "runtimeLaunchFile = ''launch''"
definition runtimeSecretsFile :: string where "runtimeSecretsFile = ''secrets''"
definition runtimeInstructionsFile :: string where "runtimeInstructionsFile = ''instructions''"
definition runtimeLaunchExecutable :: string where "runtimeLaunchExecutable = ''/run/coordplane/launch''"

definition runtimeLaunchScript :: string where
  "runtimeLaunchScript = ''#!/bin/sh'' @ newline @ ''set -a'' @ newline @ ''. \"$COORDPLANE_SECRETS_FILE\"'' @ newline @
     ''set +a'' @ newline @ ''exec \"$@\"'' @ newline"

definition validateRuntimeContainerUID :: "int \<Rightarrow> derror option" where
  "validateRuntimeContainerUID daemonUID =
     (if daemonUID = runtimeContainerUID
      then Some (errors_New ''runtime container UID must differ from the daemon service UID'') else None)"

definition isolation_memory :: "int \<Rightarrow> derror + int" where
  "isolation_memory version =
     (if version = 0 \<or> version = RunIsolationSpecCurrent then Inr (512 * 2 ^ 20)
      else if version = RunIsolationSpecV1 then Inr (2 ^ 30)
      else Inl (errors_New (''unsupported Run isolation spec version '' @ int_text version)))"

definition container_mounts :: "run \<Rightarrow> task_kind \<Rightarrow> string \<Rightarrow> string \<Rightarrow> Mount list" where
  "container_mounts run kind coordlink controlPath =
     (if kind \<noteq> TaskConversation
      then [\<lparr>mt_source = r_workspace_path run, mt_target = ''/workspace/project'', mt_read_only = False\<rparr>] else []) @
     [\<lparr>mt_source = r_home_path run, mt_target = ''/home/agent'', mt_read_only = False\<rparr>,
      \<lparr>mt_source = coordlink, mt_target = ''/usr/local/bin/coordlink'', mt_read_only = True\<rparr>,
      \<lparr>mt_source = controlPath, mt_target = ''/run/coordplane'', mt_read_only = False\<rparr>]"

definition container_environment :: "environment \<Rightarrow> environment" where
  "container_environment env =
     put_env ''COORDPLANE_SECRETS_FILE'' ''/run/coordplane/secrets''
     (put_env ''COORDPLANE_RUN_TOKEN_FILE'' ''/run/coordplane/token''
     (put_env ''COORDPLANE_RUN_SOCKET'' ''/run/coordplane/api.sock'' env))"

definition container_of :: "controller \<Rightarrow> run \<Rightarrow> task_kind \<Rightarrow> CommandSpec \<Rightarrow> string \<Rightarrow> int \<Rightarrow> string \<Rightarrow> ContainerSpec" where
  "container_of c run kind command controlPath memory coordlink =
     (let gid = int_text (ho_gid (ct_host c)) in
      \<lparr>sp_ref = runtimeRef run, sp_image = r_image run,
       sp_command = \<lparr>cs_executable = runtimeLaunchExecutable, cs_args = cs_executable command # cs_args command,
          cs_env = container_environment (cs_env command)\<rparr>,
       sp_sensitive_env_keys = cc_provider_env_allowlist (ct_config c),
       sp_working_dir = containerWorkingDirectory kind, sp_user = int_text runtimeContainerUID @ '':'' @ gid,
       sp_group_add = [gid], sp_network = cc_docker_network (ct_config c),
       sp_mounts = container_mounts run kind coordlink controlPath, sp_read_only_root = True,
       sp_limits = \<lparr>rl_pids = 256, rl_memory_bytes = memory, rl_nano_cpus = 10 ^ 9,
          rl_tmpfs_bytes = runtimeTmpfsLimit\<rparr>\<rparr>)"

definition containerSpec :: "controller \<Rightarrow> run \<Rightarrow> task_kind \<Rightarrow> CommandSpec \<Rightarrow> string \<Rightarrow> ContainerSpec dop" where
  "containerSpec c run kind command controlPath =
    andthen (lift (isolation_memory (r_isolation_spec_version run))) (\<lambda>memory.
    andthen (canonicalExecutable c (cc_coordlink (ct_config c))) (\<lambda>coordlink.
    ret (container_of c run kind command controlPath memory coordlink)))"

section \<open>Preparation\<close>

record runtimePrepareState =
  ps_claim :: Claim
  ps_launch :: RunLaunchContext
  ps_entry :: CLI
  ps_workspace_spec :: WorkspaceSpec
  ps_run :: run
  ps_home_path :: string
  ps_log_path :: string
  ps_control_path :: string
  ps_bootstrap :: string
  ps_instructions :: string
  ps_ref :: RuntimeRef
  ps_control :: "runControl option"
  ps_quick_exit :: bool
  ps_complete :: bool
  ps_completion_err :: "derror option"

text \<open>A step leaves its error and the state, which may have changed before the error.\<close>

type_synonym prepare_step = "controller \<Rightarrow> runtimePrepareState \<Rightarrow> (derror option \<times> runtimePrepareState) dop"

definition stepped :: "unit dop \<Rightarrow> runtimePrepareState \<Rightarrow> (derror option \<times> runtimePrepareState) dop" where
  "stepped m state = andthen (tried m) (\<lambda>r. ret (failure_of r, state))"

definition prepareWorkspace :: "controller \<Rightarrow> run \<Rightarrow> WorkspaceSpec \<Rightarrow> unit dop" where
  "prepareWorkspace c run spec =
    andthen (lift (ho_workspace_path (ct_host c) (wk_project_id spec) (wk_task_id spec))) (\<lambda>path.
    andthen (tried (consult (\<lambda>n. ho_lstat (ct_host c) n path))) (\<lambda>info.
    case info of
      Inr _ \<Rightarrow> consult (\<lambda>n. unless_error (ho_verify_workspace (ct_host c) n spec))
    | Inl e \<Rightarrow>
        if \<not> errors_Is e FileNotExist then throw e
        else
          andthen (call c (TaskHasStartedRun (r_task_id run))) (\<lambda>started.
          andthen (reject started (errors_New ''workspace is missing after an earlier Run reached start_issued'')) (\<lambda>_.
          consult (\<lambda>n. unless_error (ho_materialize_workspace (ct_host c) n spec))))))"

definition prepareRuntimeWorkspace :: prepare_step where
  "prepareRuntimeWorkspace c state =
    (let task = lc_task (ps_launch state); project = lc_project (ps_launch state) in
    stepped (if t_kind task = TaskConversation then ret ()
      else
        andthen (prepareWorkspace c (ps_run state) (ps_workspace_spec state)) (\<lambda>_.
        whenever (t_kind task = TaskIntegration) (consult (\<lambda>n. unless_error (ho_refresh_canonical (ct_host c) n
          (ps_workspace_spec state) (p_control_repo_path project) (p_canonical_ref project) (p_canonical_sha project)))))) state)"

definition prepareRuntimeDirectories :: prepare_step where
  "prepareRuntimeDirectories c state = stepped (
    andthen (each [(ps_home_path state, 1528), (dir_path (ps_log_path state), 448), (ps_control_path state, 488)]
      (\<lambda>(path, mode). ensureRuntimeDirectory c path mode)) (\<lambda>_.
    andthen (canonicalExecutable c (cc_coordlink (ct_config c))) (\<lambda>_.
    ret ()))) state"

definition control_file :: "runtimePrepareState \<Rightarrow> string \<Rightarrow> string" where
  "control_file state name = join_path [ps_control_path state, name]"

definition writeRuntimeToken :: prepare_step where
  "writeRuntimeToken c state = stepped (
    andthen (writeRunControlMarker c (ps_control_path state) (ps_run state)) (\<lambda>_.
    writeRuntimeFile c (control_file state ''token'') (cl_token (ps_claim state) @ newline) 288)) state"

definition writeRuntimeBootstrap :: prepare_step where
  "writeRuntimeBootstrap c state =
     stepped (writeRuntimeFile c (control_file state ''bootstrap'') (ps_bootstrap state) 288) state"

definition writeRuntimeInstructions :: prepare_step where
  "writeRuntimeInstructions c state =
     stepped (writeRuntimeFile c (control_file state runtimeInstructionsFile) (ps_instructions state) 288) state"

definition environment_secrets :: "controller_config \<Rightarrow> (string \<Rightarrow> string option) \<Rightarrow> environment" where
  "environment_secrets config lookup =
     fold (\<lambda>name. case lookup name of None \<Rightarrow> id | Some v \<Rightarrow> put_env name v) (cc_provider_env_allowlist config) []"

definition writeRuntimeSecrets :: prepare_step where
  "writeRuntimeSecrets c state = stepped (
    andthen (observe (\<lambda>n. environment_secrets (ct_config c) (ho_environment (ct_host c) n))) (\<lambda>secrets.
    case serializeRunSecretsFile secrets of
      Inl e \<Rightarrow> throw (errors_New e)
    | Inr raw \<Rightarrow> writeRuntimeFile c (control_file state runtimeSecretsFile) raw 288)) state"

definition writeRuntimeLaunch :: prepare_step where
  "writeRuntimeLaunch c state =
     stepped (writeRuntimeFile c (control_file state runtimeLaunchFile) runtimeLaunchScript 360) state"

definition openRunControl :: "controller \<Rightarrow> run \<Rightarrow> string \<Rightarrow> runControl dop" where
  "openRunControl c run path = consult (\<lambda>n.
     case ho_open_control (ct_host c) n run of Some e \<Rightarrow> Inl e | None \<Rightarrow> Inr \<lparr>co_id = n, co_path = path\<rparr>)"

definition openRuntimeControl :: prepare_step where
  "openRuntimeControl c state =
    andthen (tried (openRunControl c (ps_run state) (ps_control_path state))) (\<lambda>r.
    case r of
      Inl e \<Rightarrow> ret (Some e, state)
    | Inr control \<Rightarrow>
        andthen (registerControl (r_id (ps_run state)) control) (\<lambda>_.
        ret (None, state\<lparr>ps_control := Some control\<rparr>)))"

definition launch_spec :: "task_kind \<Rightarrow> ProviderConfig \<Rightarrow> LaunchSpec" where
  "launch_spec kind provider = \<lparr>ls_bootstrap_path = ContainerBootstrapPath, ls_conversation = (kind = TaskConversation),
     ls_container_home = ''/home/agent'', ls_container_work = containerWorkingDirectory kind, ls_provider = provider\<rparr>"

definition agent_provider :: "agent \<Rightarrow> ProviderConfig" where
  "agent_provider agent = \<lparr>pv_model = a_model agent, pv_subagent_model = a_subagent_model agent,
     pv_base_url = a_base_url agent, pv_effort = a_effort agent\<rparr>"

definition in_words :: "string + 'a \<Rightarrow> derror + 'a" where
  "in_words r = (case r of Inl text \<Rightarrow> Inl (errors_New text) | Inr x \<Rightarrow> Inr x)"

definition launch_command :: "CLI \<Rightarrow> run \<Rightarrow> LaunchSpec \<Rightarrow> derror + CommandSpec" where
  "launch_command entry run spec = in_words
     (if r_launch_mode run = ResumeMode then cli_build_resume entry spec (r_resume_native_session_id run)
      else cli_build_start entry spec)"

text \<open>The run that \<open>RecordContainerCreated\<close> returns beside an error: nothing before the row was read, the row
  when a guard refused it, and otherwise the row as it was to be written.\<close>

definition created_run :: "string \<Rightarrow> run \<Rightarrow> run" where
  "created_run containerID run =
     run\<lparr>r_container_id := containerID, r_launch_phase := LaunchCreated, r_version := r_version run + 1\<rparr>"

definition run_of_failed_record :: "RunRuntimeFactInput \<Rightarrow> world \<Rightarrow> run" where
  "run_of_failed_record i w =
     (let containerID = trim_space (rf_container_id i) in
      if containerID = [] \<or> 256 < length (trim_space (rf_request_id i)) then no_run
      else case run_of (w_db w) (trim_space (rf_run_id i)) of
          None \<Rightarrow> no_run
        | Some run \<Rightarrow>
            if (case fst (runtimeFactFence run (i\<lparr>rf_container_id := containerID\<rparr>) w) of Inl _ \<Rightarrow> True | Inr _ \<Rightarrow> False) \<or>
               r_state run \<noteq> RunStarting \<or> r_launch_phase run \<noteq> LaunchIntent \<or>
               (r_container_id run \<noteq> [] \<and> r_container_id run \<noteq> containerID) then run
            else created_run containerID run)"

definition record_created :: "controller \<Rightarrow> runtimePrepareState \<Rightarrow> (derror option \<times> runtimePrepareState) dop" where
  "record_created c state =
    (let i = runtimeFactInput (ps_run state) (ps_ref state) ''created'' in
    andthen (tried (call c (RecordContainerCreated (ct_service c) i))) (\<lambda>r.
    case r of
      Inr run \<Rightarrow> ret (None, state\<lparr>ps_run := run\<rparr>)
    | Inl e \<Rightarrow>
        andthen (asks dm_world) (\<lambda>w.
        ret (Some e, state\<lparr>ps_run := run_of_failed_record i w\<rparr>))))"

definition createRuntimeContainer :: prepare_step where
  "createRuntimeContainer c state =
    (let kind = t_kind (lc_task (ps_launch state)) in
    andthen (tried (
      andthen (lift (launch_command (ps_entry state) (ps_run state)
         (launch_spec kind (agent_provider (lc_agent (ps_launch state)))))) (\<lambda>command.
      andthen (containerSpec c (ps_run state) kind command (ps_control_path state)) (\<lambda>spec.
      issue c (CreateContainer spec) (\<lambda>n. ho_create (ct_host c) n spec))))) (\<lambda>r.
    case r of
      Inl e \<Rightarrow> ret (Some e, state\<lparr>ps_ref := no_ref\<rparr>)
    | Inr ref \<Rightarrow> record_created c (state\<lparr>ps_ref := ref\<rparr>)))"

definition attachRuntimeStreams :: prepare_step where
  "attachRuntimeStreams c state = stepped (
    andthen (consult (\<lambda>n. ho_attach (ct_host c) n (ps_ref state))) (\<lambda>_.
    ret ())) state"

definition startRuntimeCLI :: prepare_step where
  "startRuntimeCLI c state =
    andthen (tried (call c (RecordRunStartIssued (ct_service c)
       (runtimeFactInput (ps_run state) (ps_ref state) ''start-issued'')))) (\<lambda>r.
    case r of
      Inl e \<Rightarrow> ret (Some e, state)
    | Inr started \<Rightarrow>
        (let state = state\<lparr>ps_run := started\<rparr> in
        andthen (tried (issue c (StartContainer (ps_ref state)) (\<lambda>n. ho_start (ct_host c) n (ps_ref state)))) (\<lambda>r.
        case r of
          Inr ref \<Rightarrow> ret (None, state\<lparr>ps_ref := ref\<rparr>)
        | Inl e \<Rightarrow>
            if errors_Is e RuntimeExited then ret (None, state\<lparr>ps_quick_exit := True\<rparr>)
            else ret (Some e, state))))"

definition finish_launch :: "controller \<Rightarrow> runMonitor \<Rightarrow> runtimePrepareState \<Rightarrow> (derror option \<times> runtimePrepareState) dop" where
  "finish_launch c m state =
    andthen (receive_wait c (ps_ref state)) (\<lambda>result.
    andthen (unregisterMonitor m) (\<lambda>_.
    andthen (tried (finishObservedRun c (Some (ps_run state)) m result)) (\<lambda>r.
    ret (None, state\<lparr>ps_complete := True, ps_completion_err := failure_of r\<rparr>))))"

definition abandon_monitor :: "controller \<Rightarrow> runMonitor \<Rightarrow> derror \<Rightarrow> runtimePrepareState \<Rightarrow>
  (derror option \<times> runtimePrepareState) dop" where
  "abandon_monitor c m e state =
    andthen (unregisterMonitor m) (\<lambda>_.
    andthen (ignored (cancelAndCollectLogs c m)) (\<lambda>_.
    ret (Some e, state)))"

definition deliver_launched :: "controller \<Rightarrow> run \<Rightarrow> message list \<Rightarrow> unit dop" where
  "deliver_launched c active messages =
     whenever (messages \<noteq> []) (ignored (call c (RecordMessagesDelivered (ct_service c) (r_id active) (map m_id messages)
       (runtimeRequest active ''input'') (r_launch_operation_id active))))"

definition activate :: "controller \<Rightarrow> runMonitor \<Rightarrow> runtimePrepareState \<Rightarrow> (derror option \<times> runtimePrepareState) dop" where
  "activate c m state =
    andthen (tried (call c (ObserveProcessAndActivateRun (ct_service c)
       (runtimeFactInput (ps_run state) (ps_ref state) ''active'')))) (\<lambda>r.
    case r of
      Inl e \<Rightarrow> abandon_monitor c m e state
    | Inr active \<Rightarrow>
        andthen (deliver_launched c active (lc_messages (ps_launch state))) (\<lambda>_.
        andthen (spawn m) (\<lambda>_.
        ret (None, state\<lparr>ps_complete := True\<rparr>))))"

definition verify_registered :: "controller \<Rightarrow> runMonitor \<Rightarrow> runtimePrepareState \<Rightarrow> (derror option \<times> runtimePrepareState) dop" where
  "verify_registered c m state =
     (if ps_quick_exit state then finish_launch c m state
      else
        andthen (tried (consult (\<lambda>n. ho_inspect (ct_host c) n (ps_ref state)))) (\<lambda>live.
        case live of
          Inl e \<Rightarrow> abandon_monitor c m e state
        | Inr live \<Rightarrow>
            andthen (observe (\<lambda>n. ho_waited (ct_host c) n (ps_ref state))) (\<lambda>waited.
            if \<not> lv_running live \<or> waited then finish_launch c m state
            else activate c m state)))"

definition verifyRuntimeLive :: prepare_step where
  "verifyRuntimeLive c state =
    andthen (tried (newMonitor c (ps_run state) (ps_ref state) (ps_entry state) (ps_control state))) (\<lambda>r.
    case r of
      Inl e \<Rightarrow> ret (Some e, state)
    | Inr m \<Rightarrow>
        andthen (tried (registerMonitor m)) (\<lambda>registered.
        case registered of
          Inl e \<Rightarrow> andthen (ignored (cancelAndCollectLogs c m)) (\<lambda>_. ret (Some e, state))
        | Inr _ \<Rightarrow> verify_registered c m state))"

definition runtimePrepareSteps :: "(string \<times> string \<times> prepare_step) list" where
  "runtimePrepareSteps =
     [(''prepareWorkspace'', ''WORKSPACE_PREPARE_FAILED'', prepareRuntimeWorkspace),
      (''prepareAgentHome'', ''RUNTIME_DIRECTORY_PREPARE_FAILED'', prepareRuntimeDirectories),
      (''writeRunToken'', ''TOKEN_PREPARE_FAILED'', writeRuntimeToken),
      (''writeBootstrap'', ''BOOTSTRAP_PREPARE_FAILED'', writeRuntimeBootstrap),
      (''writeInstructions'', ''INSTRUCTIONS_PREPARE_FAILED'', writeRuntimeInstructions),
      (''writeSecrets'', ''SECRETS_PREPARE_FAILED'', writeRuntimeSecrets),
      (''writeLaunch'', ''LAUNCH_PREPARE_FAILED'', writeRuntimeLaunch),
      (''openRunAPISocket'', ''RUN_SOCKET_PREPARE_FAILED'', openRuntimeControl),
      (''createContainer'', ''CONTAINER_CREATE_FAILED'', createRuntimeContainer),
      (''attachStreams'', ''CONTAINER_ATTACH_FAILED'', attachRuntimeStreams),
      (''startCLI'', ''CONTAINER_START_FAILED'', startRuntimeCLI),
      (''verifyLive'', ''PROCESS_OBSERVE_FAILED'', verifyRuntimeLive)]"

section \<open>The launch\<close>

definition launch_failed :: "controller \<Rightarrow> runtimePrepareState \<Rightarrow> string \<Rightarrow> derror \<Rightarrow> unit dop" where
  "launch_failed c state code cause =
     (if errors_Is cause RuntimeUnavailable then andthen (setDegraded c (de_text cause)) (\<lambda>_. throw cause)
      else failPreparedRun c (ps_run state) (ps_ref state) (ps_control state)
          (if errors_Is cause SecretsUnavailable then runtimeSecretsFailureCode else code) cause)"

fun run_prepare_steps :: "controller \<Rightarrow> (string \<times> string \<times> prepare_step) list \<Rightarrow> runtimePrepareState \<Rightarrow> unit dop" where
  "run_prepare_steps c [] state = throw (errors_New ''runtime prepare list finished without observing the CLI'')"
| "run_prepare_steps c ((name, code, step) # steps) state =
    andthen (step c state) (\<lambda>(err, state).
    case err of
      Some e \<Rightarrow> launch_failed c state code (prefixed name e)
    | None \<Rightarrow>
        if ps_complete state then lift (unless_error (ps_completion_err state))
        else run_prepare_steps c steps state)"

definition conversation_workspace :: "task_kind \<Rightarrow> string \<Rightarrow> string" where
  "conversation_workspace kind path = (if kind = TaskConversation then ''conversation'' else path)"

definition session_context :: "LaunchSessionContext \<Rightarrow> SessionContext" where
  "session_context context = \<lparr>sc_adapter_id = ls_adapter_id context, sc_agent_id = ls_agent_id context,
     sc_task_id = ls_task_id context, sc_workspace_id = ls_workspace_id context\<rparr>"

definition selectLaunchMode :: "controller \<Rightarrow> RunLaunchContext \<Rightarrow> CLI \<Rightarrow> string \<Rightarrow> string \<Rightarrow> LaunchModeSelection dop" where
  "selectLaunchMode c launch entry workspacePath currentFingerprint =
    (let task = lc_task launch; run = lc_run launch in
    andthen (tried (call c (LatestTerminalRun (t_id task) (a_id (lc_agent launch))))) (\<lambda>r.
    let previous = (case r of Inl _ \<Rightarrow> no_run | Inr previous \<Rightarrow> previous) in
    ret (SelectLaunchMode (md_supports_resume (cli_metadata entry))
       (Some (\<lambda>p q. cli_resume_compatible entry (session_context p) (session_context q))) previous
       \<lparr>ls_adapter_id = r_adapter_id previous, ls_agent_id = r_agent_id previous, ls_task_id = r_task_id previous,
         ls_workspace_id = conversation_workspace (t_kind task) (r_workspace_path previous)\<rparr>
       \<lparr>ls_adapter_id = r_adapter_id run, ls_agent_id = r_agent_id run, ls_task_id = r_task_id run,
         ls_workspace_id = conversation_workspace (t_kind task) workspacePath\<rparr> currentFingerprint)))"

definition launch_workspace :: "controller \<Rightarrow> RunLaunchContext \<Rightarrow> (WorkspaceSpec \<times> string) dop" where
  "launch_workspace c launch =
    (let task = lc_task launch in
     if t_kind task = TaskConversation
     then ret (\<lparr>wk_project_id = [], wk_task_id = [], wk_base_sha = [], wk_source = None\<rparr>, [])
     else
       andthen (tried (lift (gitWorkspaceSpec task))) (\<lambda>spec.
       case spec of
         Inl e \<Rightarrow> andthen (failUnpreparedRun c (lc_run launch) ''WORKSPACE_INPUT_INVALID'' (de_text e)) (\<lambda>_. throw e)
       | Inr spec \<Rightarrow>
           andthen (tried (lift (ho_workspace_path (ct_host c) (p_id (lc_project launch)) (t_id task)))) (\<lambda>path.
           case path of
             Inl e \<Rightarrow> andthen (failUnpreparedRun c (lc_run launch) ''WORKSPACE_PATH_INVALID'' (de_text e)) (\<lambda>_. throw e)
           | Inr path \<Rightarrow> ret (spec, path))))"

definition launch_input ::
  "controller \<Rightarrow> RunLaunchContext \<Rightarrow> string \<Rightarrow> LaunchModeSelection \<Rightarrow> stamp \<Rightarrow> string \<Rightarrow> string \<Rightarrow> RunLaunchInput" where
  "launch_input c launch workspacePath selection deadline nonce cleanupOperation =
     (let run = lc_run launch; config = ct_config c in
      \<lparr>ln_run_id = r_id run, ln_generation = r_generation run, ln_launch_nonce = nonce, ln_workspace_path = workspacePath,
       ln_home_path = join_path [cc_agent_home_root config, a_id (lc_agent launch)],
       ln_log_path = join_path [cc_log_root config, r_id run, ''run.log''],
       ln_instructions_hash = lc_instructions_hash launch, ln_config_fingerprint = lc_config_fingerprint launch,
       ln_launch_mode = lm_mode selection, ln_resumed_from_run_id = lm_resumed_from_run_id selection,
       ln_resume_native_session_id = lm_resume_native_session_id selection,
       ln_cleanup_operation_id = cleanupOperation, ln_isolation_spec_version = RunIsolationSpecCurrent,
       ln_deadline_at = deadline, ln_deadline_parses = True, ln_request_id = runtimeRequest run ''prepare''\<rparr>)"

definition prepare_state ::
  "controller \<Rightarrow> Claim \<Rightarrow> RunLaunchContext \<Rightarrow> CLI \<Rightarrow> WorkspaceSpec \<Rightarrow> run \<Rightarrow> runtimePrepareState" where
  "prepare_state c claim launch entry spec prepared =
     \<lparr>ps_claim = claim, ps_launch = launch, ps_entry = entry, ps_workspace_spec = spec, ps_run = prepared,
      ps_home_path = join_path [cc_agent_home_root (ct_config c), a_id (lc_agent launch)],
      ps_log_path = join_path [cc_log_root (ct_config c), r_id (lc_run launch), ''run.log''],
      ps_control_path = join_path [cc_control_root (ct_config c), r_id (lc_run launch)],
      ps_bootstrap = buildBootstrap launch prepared (lc_instructions launch) spec,
      ps_instructions = lc_instructions launch, ps_ref = no_ref, ps_control = None, ps_quick_exit = False,
      ps_complete = False, ps_completion_err = None\<rparr>"

definition launch_claimed :: "controller \<Rightarrow> Claim \<Rightarrow> unit dop" where
  "launch_claimed c claim =
    andthen (call c (RuntimeLaunchContext (ct_service c) (r_id (cl_run claim)))) (\<lambda>launch.
    case Lookup (ct_adapters c) (r_adapter_id (lc_run launch)) of
      None \<Rightarrow> failUnpreparedRun c (lc_run launch) ''ADAPTER_NOT_REGISTERED'' ''adapter is not registered''
    | Some entry \<Rightarrow>
        andthen (launch_workspace c launch) (\<lambda>(spec, workspacePath).
        andthen (selectLaunchMode c launch entry workspacePath (lc_config_fingerprint launch)) (\<lambda>selection.
        andthen (observe (\<lambda>n. runDeadlineAt (t_budget_seconds (lc_task launch)) (cc_run_timeout (ct_config c))
           (ho_now (ct_host c) n))) (\<lambda>deadline.
        andthen (randomRuntimeID c ''nonce'') (\<lambda>nonce.
        andthen (randomRuntimeID c ''cleanup'') (\<lambda>cleanupOperation.
        andthen (call c (BeginRunLaunch (ct_service c)
           (launch_input c launch workspacePath selection deadline nonce cleanupOperation))) (\<lambda>prepared.
        run_prepare_steps c runtimePrepareSteps (prepare_state c claim launch entry spec prepared))))))))"

definition launchOwned :: "controller \<Rightarrow> Claim \<Rightarrow> nat \<Rightarrow> unit dop" where
  "launchOwned c claim operation =
     deferred (releaseRunOperation (r_id (cl_run claim)) operation) (launch_claimed c claim)"

definition launch :: "controller \<Rightarrow> Claim \<Rightarrow> unit dop" where
  "launch c claim =
    andthen (acquireRunOperation (r_id (cl_run claim))) (\<lambda>operation.
    case operation of
      None \<Rightarrow> ret ()
    | Some operation \<Rightarrow> launchOwned c claim operation)"

end
