(* ===== verification/Reconcile.thy ===== *)
theory Reconcile
  imports Launch
begin

text \<open>
  The workers of the controller (internal/daemon/runtime_workers.go, runtime_adoption.go,
  runtime_retention.go): the scheduler, the reconciliation of every live run with its container, the
  adoption of a running one, orphans, retention, and the shutdown. One worker is a sequence of ticks; a
  tick is one operation here.
\<close>

section \<open>Adoption\<close>

definition validateAdoptionBootstrap :: "controller \<Rightarrow> run \<Rightarrow> unit dop" where
  "validateAdoptionBootstrap c run =
    (let controlRoot = cc_control_root (ct_config c) in
    andthen (validateRunControlIdentity c controlRoot run) (\<lambda>_.
    andthen (tried (validateOwnedRunControlFileMode c (join_path [join_path [controlRoot, r_id run], ''bootstrap''])
       runControlFileMode)) (\<lambda>r.
    reject (failure_of r \<noteq> None)
      (controlOwnershipError (errors_New ''run control bootstrap is missing or invalid'')))))"

definition no_provider :: ProviderConfig where
  "no_provider = \<lparr>pv_model = [], pv_subagent_model = [], pv_base_url = [], pv_effort = []\<rparr>"

definition adoption_command :: "CLI \<Rightarrow> run \<Rightarrow> task_kind \<Rightarrow> derror + CommandSpec" where
  "adoption_command entry run kind =
     (let spec = launch_spec kind no_provider in
      case r_launch_mode run of
        StartMode \<Rightarrow> in_words (cli_build_start entry spec)
      | ResumeMode \<Rightarrow> in_words (cli_build_resume entry spec (r_resume_native_session_id run))
      | OtherMode _ \<Rightarrow> Inl (errors_New ''runtime launch mode is invalid during container adoption''))"

definition isolation_error :: "string option \<Rightarrow> derror + unit" where
  "isolation_error differing =
     (case differing of
        None \<Rightarrow> Inr ()
      | Some field \<Rightarrow> Inl (wraps RuntimeOwnership (''container isolation '' @ field @ '' mismatch'')))"

definition validateAdoptedContainer :: "controller \<Rightarrow> run \<Rightarrow> LiveState \<Rightarrow> unit dop" where
  "validateAdoptedContainer c run state =
    andthen (call c (ServiceTask (ct_service c) (r_task_id run))) (\<lambda>detail.
    let kind = t_kind (td_task detail) in
    andthen (validateAdoptionBootstrap c run) (\<lambda>_.
    case Lookup (ct_adapters c) (r_adapter_id run) of
      None \<Rightarrow> throw (errors_New ''runtime adapter is unavailable during container adoption'')
    | Some entry \<Rightarrow>
        andthen (lift (adoption_command entry run kind)) (\<lambda>command.
        andthen (containerSpec c run kind command (join_path [cc_control_root (ct_config c), r_id run])) (\<lambda>spec.
        lift (isolation_error (ValidateAdoption (sv_sha256 (ct_service c)) spec state))))))"

definition validateRunControlLineage :: "controller \<Rightarrow> string \<Rightarrow> unit dop" where
  "validateRunControlLineage c controlPath =
     each [(runtimeLaunchFile, 360), (runtimeSecretsFile, runControlFileMode), (runtimeInstructionsFile, runControlFileMode)]
       (\<lambda>(name, mode).
        andthen (tried (validateOwnedRunControlFileMode c (join_path [controlPath, name]) mode)) (\<lambda>r.
        reject (failure_of r \<noteq> None)
          (controlOwnershipError (errors_New (''run control '' @ name @ '' is missing or invalid'')))))"

definition rebuildControl :: "controller \<Rightarrow> run \<Rightarrow> runControl dop" where
  "rebuildControl c run =
    andthen (registered_control (r_id run)) (\<lambda>existing.
    case existing of
      Some control \<Rightarrow> ret control
    | None \<Rightarrow>
        andthen (validateRunControl c run) (\<lambda>_.
        andthen (openRunControl c run (join_path [cc_control_root (ct_config c), r_id run])) (\<lambda>control.
        andthen (registerControl (r_id run) control) (\<lambda>_.
        ret control))))"

definition give_up_monitor :: "controller \<Rightarrow> runMonitor \<Rightarrow> derror \<Rightarrow> unit dop" where
  "give_up_monitor c m e =
    andthen (unregisterMonitor m) (\<lambda>_.
    andthen (ignored (cancelAndCollectLogs c m)) (\<lambda>_.
    throw e))"

definition activate_adopted :: "controller \<Rightarrow> run \<Rightarrow> RuntimeRef \<Rightarrow> runMonitor \<Rightarrow> unit dop" where
  "activate_adopted c run ref m =
     (if r_launch_phase run \<noteq> LaunchStartIssued then
        give_up_monitor c m (errors_New ''running container lacks start_issued durable phase'')
      else
        andthen (tried (call c (ObserveProcessAndActivateRun (ct_service c) (runtimeFactInput run ref ''reconcile-active'')))) (\<lambda>r.
        case r of Inl e \<Rightarrow> give_up_monitor c m e | Inr _ \<Rightarrow> ret ()))"

definition adoptRunning :: "controller \<Rightarrow> run \<Rightarrow> RuntimeRef \<Rightarrow> CLI \<Rightarrow> runControl option \<Rightarrow> unit dop" where
  "adoptRunning c run ref entry control =
    andthen (tried (newMonitor c run ref entry control)) (\<lambda>r.
    case r of
      Inl _ \<Rightarrow> failSecretsUnavailable c run ref control
    | Inr m \<Rightarrow>
        andthen (tried (registerMonitor m)) (\<lambda>registered.
        case registered of
          Inl e \<Rightarrow> andthen (ignored (cancelAndCollectLogs c m)) (\<lambda>_. throw e)
        | Inr _ \<Rightarrow>
            andthen (whenever (r_state run = RunStarting) (activate_adopted c run ref m)) (\<lambda>_.
            spawn m)))"

section \<open>Reconciliation of one run\<close>

definition reconcileIntentTerminal :: "run \<Rightarrow> task \<Rightarrow> run_state \<times> string" where
  "reconcileIntentTerminal run task =
     (if t_status task = TaskCancelled then (RunCancelled, ''Task cancelled'')
      else if r_stop_reason run = ''deadline exceeded'' \<or> r_stop_reason run = ''stalled''
      then (RunTimedOut, ''Run '' @ r_stop_reason run)
      else (RunInterrupted, if r_stop_reason run = [] then ''durable stop intent observed during reconciliation''
         else r_stop_reason run))"

definition finishMissingReconciledRun :: "controller \<Rightarrow> run \<Rightarrow> RuntimeRef \<Rightarrow> run_state \<times> string \<Rightarrow> unit dop" where
  "finishMissingReconciledRun c run ref ending =
    andthen (call c (RecordRuntimeRunTerminal (ct_service c) (runtimeTerminalInput run
       ((terminal_input (fst ending) (snd ending) (runtimeRequest run ''reconcile-not-found'') (end_operation run))
          \<lparr>rt_runtime_error_code := ''CONTAINER_NOT_FOUND''\<rparr>)))) (\<lambda>terminal.
    cleanupRun c (tr_run terminal) ref None None)"

definition reconcile_missing :: "controller \<Rightarrow> run \<Rightarrow> RuntimeRef \<Rightarrow> unit dop" where
  "reconcile_missing c run ref =
    andthen (reconcileDurableIntent c run) (\<lambda>(updated, task, hasIntent).
    if hasIntent then finishMissingReconciledRun c updated ref (reconcileIntentTerminal updated task)
    else finishMissingReconciledRun c run ref
      (if r_launch_phase run = LaunchStartIssued \<or> r_launch_phase run = LaunchProcessObserved \<or> r_state run = RunActive
       then (RunInterrupted, ''owned container is missing after start was issued'')
       else (RunFailed, ''container was not created'')))"

definition stop_reconciled :: "controller \<Rightarrow> RuntimeRef \<Rightarrow> unit dop" where
  "stop_reconciled c ref = issue c (StopContainer ref (shutdownGrace c))
     (\<lambda>n. unless_error (ho_stop (ct_host c) n ref (shutdownGrace c)))"

definition stop_created_run :: "controller \<Rightarrow> run \<Rightarrow> RuntimeRef \<Rightarrow> unit dop" where
  "stop_created_run c run ref =
    andthen (stop_reconciled c ref) (\<lambda>_.
    andthen (call c (ServiceTask (ct_service c) (r_task_id run))) (\<lambda>projection.
    let (state, reason) = reconcileIntentTerminal run (td_task projection) in
    andthen (call c (RecordRuntimeRunTerminal (ct_service c) (runtimeTerminalInput run
       (terminal_input state reason (runtimeRequest run ''reconcile-terminal'') (end_operation run))))) (\<lambda>terminal.
    cleanupRun c (tr_run terminal) ref None None)))"

definition await_stopped :: "controller \<Rightarrow> run \<Rightarrow> runMonitor \<Rightarrow> unit dop" where
  "await_stopped c run m =
    andthen (observe (\<lambda>n. ho_waited (ct_host c) n (mo_ref m))) (\<lambda>waited.
    if waited then andthen (receive_wait c (mo_ref m)) (\<lambda>result. finishObservedRun c (Some run) m result)
    else
      andthen (ignored (cancelAndCollectLogs c m)) (\<lambda>_.
      throw (errors_New ''timed out waiting for reconciled container to stop'')))"

definition stopReconciledRun :: "controller \<Rightarrow> run \<Rightarrow> RuntimeRef \<Rightarrow> LiveState \<Rightarrow> CLI \<Rightarrow> unit dop" where
  "stopReconciledRun c run ref state entry =
     (if lv_status state = StatusCreated then stop_created_run c run ref
      else
        andthen (tried (newMonitor c run ref entry None)) (\<lambda>r.
        case r of
          Inl _ \<Rightarrow> failSecretsUnavailable c run ref None
        | Inr m \<Rightarrow>
            andthen (tried (registerMonitor m)) (\<lambda>registered.
            case registered of
              Inl e \<Rightarrow> andthen (ignored (cancelAndCollectLogs c m)) (\<lambda>_. throw e)
            | Inr _ \<Rightarrow> deferred (unregisterMonitor m) (
                andthen (if lv_status state = StatusRunning then tried (stop_reconciled c ref) else ret (Inr ())) (\<lambda>stopped.
                case stopped of
                  Inl e \<Rightarrow> andthen (ignored (cancelAndCollectLogs c m)) (\<lambda>_. throw e)
                | Inr _ \<Rightarrow> await_stopped c run m)))))"

definition resume_created :: "controller \<Rightarrow> run \<Rightarrow> RuntimeRef \<Rightarrow> CLI \<Rightarrow> runControl \<Rightarrow> unit dop" where
  "resume_created c run ref entry control =
    andthen (if r_launch_phase run = LaunchCreated
       then call c (RecordRunStartIssued (ct_service c) (runtimeFactInput run ref ''reconcile-start'')) else ret run) (\<lambda>run.
    andthen (reject (r_launch_phase run \<noteq> LaunchStartIssued)
       (errors_New ''created container has an incompatible durable launch phase'')) (\<lambda>_.
    andthen (consult (\<lambda>n. ho_attach (ct_host c) n ref)) (\<lambda>_.
    andthen (issue c (StartContainer ref) (\<lambda>n. ho_start (ct_host c) n ref)) (\<lambda>_.
    adoptRunning c run ref entry (Some control)))))"

definition resume_run :: "controller \<Rightarrow> run \<Rightarrow> RuntimeRef \<Rightarrow> LiveState \<Rightarrow> CLI \<Rightarrow> runControl \<Rightarrow> unit dop" where
  "resume_run c run ref state entry control =
     (case lv_status state of
        StatusExited \<Rightarrow>
          andthen (tried (newMonitor c run ref entry (Some control))) (\<lambda>r.
          case r of
            Inl _ \<Rightarrow> failSecretsUnavailable c run ref (Some control)
          | Inr m \<Rightarrow> andthen (receive_wait c ref) (\<lambda>result. finishObservedRun c (Some run) m result))
      | StatusCreated \<Rightarrow> resume_created c run ref entry control
      | StatusRunning \<Rightarrow> adoptRunning c run ref entry (Some control)
      | StatusOther _ \<Rightarrow> throw (errors_New ''Docker returned an unsupported container state''))"

definition reconcile_present :: "controller \<Rightarrow> run \<Rightarrow> LiveState \<Rightarrow> unit dop" where
  "reconcile_present c run state =
    (let ref = lv_ref state in
    andthen (if r_container_id run = []
       then call c (RecordContainerCreated (ct_service c) (runtimeFactInput run ref ''reconcile-created'')) else ret run) (\<lambda>run.
    andthen (validateAdoptedContainer c run state) (\<lambda>_.
    andthen (tried (validateRunControlLineage c (join_path [cc_control_root (ct_config c), r_id run]))) (\<lambda>lineage.
    if failure_of lineage \<noteq> None then failSecretsUnavailable c run ref None
    else case Lookup (ct_adapters c) (r_adapter_id run) of
        None \<Rightarrow> throw (errors_New (''adapter '' @ json_string (r_adapter_id run) @ '' is not registered''))
      | Some entry \<Rightarrow>
          andthen (reconcileDurableIntent c run) (\<lambda>(updated, _, hasIntent).
          if hasIntent then stopReconciledRun c updated ref state entry
          else
            andthen (rebuildControl c run) (\<lambda>control.
            resume_run c run ref state entry control))))))"

definition reconcileRun :: "controller \<Rightarrow> run \<Rightarrow> unit dop" where
  "reconcileRun c run =
    andthen (tried (consult (\<lambda>n. ho_inspect (ct_host c) n (runtimeRef run)))) (\<lambda>r.
    case r of
      Inl e \<Rightarrow> if errors_Is e ContainerNotFound then reconcile_missing c run (runtimeRef run) else throw e
    | Inr state \<Rightarrow> reconcile_present c run state)"

text \<open>A run without a nonce was never prepared: there is no container, and no control directory to clean.\<close>

definition reconcile_unprepared :: "controller \<Rightarrow> run \<Rightarrow> unit dop" where
  "reconcile_unprepared c run =
    andthen (named (''reconcile unprepared Run '' @ r_id run) (call c (RecordRuntimeRunTerminal (ct_service c)
       ((terminal_input RunFailed ''starting Run has no launch nonce'' (runtimeRequest run ''reconcile-unprepared'')
          (r_launch_operation_id run))
        \<lparr>rt_run_id := r_id run, rt_generation := r_generation run, rt_launch_operation_id := r_launch_operation_id run,
          rt_runtime_error_code := ''LAUNCH_INTENT_INCOMPLETE''\<rparr>)))) (\<lambda>_.
    ret ())"

definition reconcileOwnedRun :: "controller \<Rightarrow> run \<Rightarrow> unit dop" where
  "reconcileOwnedRun c snapshot =
    andthen (call c (ServiceRun (r_id snapshot))) (\<lambda>run.
    if IsRunTerminal (r_state run) then ret ()
    else if r_launch_nonce run = [] then reconcile_unprepared c run
    else reconcileRun c run)"

section \<open>Cleanup and orphans\<close>

definition cleanup_terminal_run :: "controller \<Rightarrow> run \<Rightarrow> unit dop" where
  "cleanup_terminal_run c run =
    andthen (acquireRunOperation (r_id run)) (\<lambda>operation.
    case operation of
      None \<Rightarrow> ret ()
    | Some operation \<Rightarrow> deferred (releaseRunOperation (r_id run) operation)
        (ignored (cleanupRun c run (runtimeRef run) None None)))"

definition cleanupTerminalRuns :: "controller \<Rightarrow> unit dop" where
  "cleanupTerminalRuns c =
    andthen (tried (call c RunsNeedingCleanup)) (\<lambda>runs.
    case runs of
      Inl _ \<Rightarrow> ret ()
    | Inr runs \<Rightarrow> each runs (cleanup_terminal_run c))"

definition helper_prefixes :: "string list" where
  "helper_prefixes = [''coordplane-git-capture-'', ''coordplane-git-inspect-'']"

definition lower_hex :: "char \<Rightarrow> bool" where
  "lower_hex ch = (in_range 48 57 ch \<or> in_range 97 102 ch)"

fun helper_digest :: "string list \<Rightarrow> string \<Rightarrow> string option" where
  "helper_digest [] name = None"
| "helper_digest (prefix # prefixes) name =
     (let rest = drop (length prefix) name in
      if take (length prefix) name \<noteq> prefix \<or> length rest \<noteq> 24 then helper_digest prefixes name
      else if \<forall>ch \<in> set rest. lower_hex ch then Some rest else None)"

definition helperRefDigest :: "string \<Rightarrow> string option" where
  "helperRefDigest name = helper_digest helper_prefixes name"

definition isDaemonHelperRef :: "RuntimeRef \<Rightarrow> bool" where
  "isDaemonHelperRef ref =
     (case helperRefDigest (rr_container_name ref) of
        None \<Rightarrow> False
      | Some digest \<Rightarrow> rr_agent_id ref = ''git-helper'' \<and> rr_generation ref = 1 \<and> rr_launch_nonce ref = digest)"

fun detect_orphans :: "controller \<Rightarrow> LiveState list \<Rightarrow> (string \<times> string) list \<Rightarrow> unit dop" where
  "detect_orphans c [] liveAgents = ret ()"
| "detect_orphans c (state # states) liveAgents =
     (if isDaemonHelperRef (lv_ref state) then detect_orphans c states liveAgents
      else
        andthen (tried (call c (ServiceRun (rr_run_id (lv_ref state))))) (\<lambda>r.
        case r of
          Inl e \<Rightarrow>
            if is_code e NOT_FOUND then
              throw (errors_New (''managed orphan container '' @ rr_container_name (lv_ref state) @ '' requires manual quarantine''))
            else throw e
        | Inr run \<Rightarrow>
            andthen (lift (isolation_error (ValidateOwnership (runtimeRef run) (lv_ref state)))) (\<lambda>_.
            if lv_running state then
              (case map_of liveAgents (r_agent_id run) of
                 Some previous \<Rightarrow>
                   if previous \<noteq> [] \<and> previous \<noteq> r_id run then
                     throw (errors_New (''Agent '' @ r_agent_id run @ '' has multiple live owned containers''))
                   else detect_orphans c states ((r_agent_id run, r_id run) # liveAgents)
               | None \<Rightarrow> detect_orphans c states ((r_agent_id run, r_id run) # liveAgents))
            else detect_orphans c states liveAgents)))"

definition detectOrphans :: "controller \<Rightarrow> unit dop" where
  "detectOrphans c =
    andthen (consult (ho_managed (ct_host c))) (\<lambda>states.
    detect_orphans c states [])"

section \<open>The reconciliation of all runs\<close>

text \<open>An error that says the host is unavailable, or that a container is not ours, ends the sweep and leaves the
  controller degraded; any other error is also returned.\<close>

fun reconcile_runs :: "controller \<Rightarrow> run list \<Rightarrow> bool dop" where
  "reconcile_runs c [] = ret True"
| "reconcile_runs c (run # runs) =
    andthen (acquireRunOperation (r_id run)) (\<lambda>operation.
    case operation of
      None \<Rightarrow> reconcile_runs c runs
    | Some operation \<Rightarrow>
        andthen (tried (deferred (releaseRunOperation (r_id run) operation) (reconcileOwnedRun c run))) (\<lambda>r.
        case r of
          Inr _ \<Rightarrow> reconcile_runs c runs
        | Inl e \<Rightarrow>
            (let wrapped = prefixed (''reconcile Run '' @ r_id run) e in
            andthen (setDegraded c (de_text wrapped)) (\<lambda>_.
            if errors_Is e RuntimeUnavailable \<or> errors_Is e RuntimeOwnership then ret False else throw wrapped))))"

definition joined_failures :: "controller \<Rightarrow> failure list \<Rightarrow> derror option" where
  "joined_failures c es = errors_Join (map (\<lambda>e. Some (core_error c e)) es)"

definition reconcile_git :: "controller \<Rightarrow> unit dop" where
  "reconcile_git c = named ''reconcile Git intents'' (
    andthen (call c (ReconcileGit (ct_service c))) (\<lambda>es.
    lift (unless_error (joined_failures c es))))"

definition reconcile_sweep :: "controller \<Rightarrow> unit dop" where
  "reconcile_sweep c =
    andthen (call c LiveRuns) (\<lambda>runs.
    andthen (reconcile_runs c runs) (\<lambda>finished.
    if \<not> finished then ret ()
    else
      andthen (cleanupTerminalRuns c) (\<lambda>_.
      andthen (tried (detectOrphans c)) (\<lambda>r.
      case r of Inl e \<Rightarrow> setDegraded c (de_text e) | Inr _ \<Rightarrow> clearDegraded))))"

definition Reconcile :: "controller \<Rightarrow> unit dop" where
  "Reconcile c =
    andthen (reconcile_git c) (\<lambda>_.
    andthen (observe (ho_ping (ct_host c))) (\<lambda>unreachable.
    case unreachable of
      Some e \<Rightarrow> if errors_Is e RuntimeUnavailable then setDegraded c (de_text e) else throw e
    | None \<Rightarrow> reconcile_sweep c))"

definition reconcilerTick :: "controller \<Rightarrow> unit dop" where
  "reconcilerTick c =
    andthen (tried (Reconcile c)) (\<lambda>r.
    case r of Inl e \<Rightarrow> setDegraded c (de_text e) | Inr _ \<Rightarrow> ret ())"

section \<open>The scheduler\<close>

definition claimNext :: "controller \<Rightarrow> (Claim \<times> nat) option dop" where
  "claimNext c =
    andthen (asks dm_shutting_down) (\<lambda>shuttingDown.
    if shuttingDown then ret None
    else
      andthen (call c (ClaimNext (ct_service c) [])) (\<lambda>claim.
      case claim of
        None \<Rightarrow> ret None
      | Some claim \<Rightarrow>
          andthen (acquireRunOperation (r_id (cl_run claim))) (\<lambda>operation.
          case operation of
            None \<Rightarrow> throw (errors_New ''claimed Run already has a runtime owner'')
          | Some operation \<Rightarrow> ret (Some (claim, operation)))))"

definition schedulerTick :: "controller \<Rightarrow> unit dop" where
  "schedulerTick c =
    andthen (asks schedulerHealthy) (\<lambda>healthy.
    if \<not> healthy then ret ()
    else
      andthen (tried (claimNext c)) (\<lambda>r.
      case r of
        Inl e \<Rightarrow> setSchedulerDegraded c (de_text e)
      | Inr claimed \<Rightarrow>
          andthen clearSchedulerDegraded (\<lambda>_.
          case claimed of
            None \<Rightarrow> ret ()
          | Some (claim, operation) \<Rightarrow> ignored (launchOwned c claim operation))))"

text \<open>The monitors that are told of an outcome or a stop request: the identifiers of their runs.\<close>

definition live_monitors :: "daemon \<Rightarrow> runMonitor list" where
  "live_monitors s = filter (\<lambda>m. (mo_run_id m, mo_id m) \<in> set (dm_monitors s)) (dm_supervised s)"

definition supervisorTick :: "controller \<Rightarrow> string list dop" where
  "supervisorTick c =
    andthen (asks live_monitors) (\<lambda>ms.
    andthen (collect ms (\<lambda>m.
      andthen (tried (call c (ServiceRun (mo_run_id m)))) (\<lambda>r.
      case r of
        Inl _ \<Rightarrow> ret []
      | Inr run \<Rightarrow> ret (if mo_control m \<noteq> None \<and>
             (r_requested_outcome run \<noteq> NoOutcome \<or> r_stop_requested_at run \<noteq> NoStamp) then [mo_run_id m] else [])))) (\<lambda>notified.
    ret (concat notified)))"

section \<open>Retention of logs\<close>

definition log_expired :: "stamp \<Rightarrow> RunSummary \<Rightarrow> bool" where
  "log_expired before summary =
     (\<not> (IsRunLive (us_state summary) \<or> us_ended_at summary = NoStamp \<or> before < us_ended_at summary))"

definition remove_run_log :: "controller \<Rightarrow> RunSummary \<Rightarrow> unit dop" where
  "remove_run_log c summary =
    andthen (named ''load Run log retention fact'' (call c (ServiceRun (us_id summary)))) (\<lambda>run.
    if r_log_path run = [] then ret ()
    else
      (let want = join_path [cc_log_root (ct_config c), r_id run, ''run.log''] in
      andthen (reject (r_log_path run \<noteq> want)
        (errors_New (''Run '' @ r_id run @ '' log path violates retention ownership''))) (\<lambda>_.
      andthen (named (''remove retained Run log '' @ r_id run) (os c (RemoveAll (dir_path want)))) (\<lambda>_.
      update (\<lambda>s. s\<lparr>dm_logs := filter (\<lambda>(p, _). p \<noteq> want) (dm_logs s)\<rparr>)))))"

text \<open>The loop over the pages, at most as many as the fuel; the value tells whether the last page was reached.\<close>

fun cleanup_log_pages :: "controller \<Rightarrow> stamp \<Rightarrow> nat \<Rightarrow> string \<Rightarrow> bool dop" where
  "cleanup_log_pages c before 0 cursor = ret False"
| "cleanup_log_pages c before (Suc fuel) cursor =
    andthen (named ''list Run logs for retention'' (call c (ListRuns (ct_codec c) (ct_run_size c)
       \<lparr>nf_project_id = [], nf_task_id = [], nf_agent_id = [], nf_cursor = cursor, nf_limit = MaximumCompactPageLimit\<rparr>))) (\<lambda>p.
    andthen (each (filter (log_expired before) (pg_items p)) (remove_run_log c)) (\<lambda>_.
    if pg_next p = [] then ret True else cleanup_log_pages c before fuel (pg_next p)))"

definition cleanupRunLogs :: "controller \<Rightarrow> nat \<Rightarrow> stamp \<Rightarrow> bool dop" where
  "cleanupRunLogs c fuel before = cleanup_log_pages c before fuel []"

definition retention_cutoff :: "controller \<Rightarrow> int \<Rightarrow> stamp dop" where
  "retention_cutoff c retention = observe (\<lambda>n. At (ho_now (ct_host c) n - retention))"

definition swept :: "controller \<Rightarrow> (stamp \<Rightarrow> failure list op) \<Rightarrow> stamp \<Rightarrow> unit dop" where
  "swept c sweep before =
    andthen (call c (sweep before)) (\<lambda>es.
    lift (unless_error (joined_failures c es)))"

text \<open>The first sweep that fails degrades the controller and ends the tick.\<close>

definition gcTick :: "controller \<Rightarrow> nat \<Rightarrow> unit dop" where
  "gcTick c fuel =
    andthen (cleanupTerminalRuns c) (\<lambda>_.
    andthen (tried (
      andthen (retention_cutoff c (ct_log_retention c)) (\<lambda>before.
      andthen (cleanupRunLogs c fuel before) (\<lambda>_.
      andthen (retention_cutoff c (ct_workspace_retention c)) (\<lambda>before.
      andthen (swept c (ReconcileWorkspaceGC (ct_service c)) before) (\<lambda>_.
      andthen (retention_cutoff c (ct_task_ref_retention c)) (\<lambda>before.
      swept c (ReconcileGitGC (ct_service c)) before))))))) (\<lambda>r.
    case r of Inl e \<Rightarrow> setDegraded c (de_text e) | Inr _ \<Rightarrow> ret ()))"

end
