(* ===== verification/Adoption.thy ===== *)
theory Adoption
  imports Containers
begin

text \<open>
  What the validation of an adopted container means: it accepts exactly the containers that are, field by field
  and mount by mount, what the specification asks for.
\<close>

section \<open>Mounts\<close>

definition wanted_mount :: "Mount \<Rightarrow> string \<times> string \<times> bool" where
  "wanted_mount m = (clean_path (mt_target m), clean_path (mt_source m), \<not> mt_read_only m)"

definition observed_mount :: "MountFact \<Rightarrow> string \<times> string \<times> bool" where
  "observed_mount m = (clean_path (mf_destination m), clean_path (mf_source m), mf_read_write m)"

definition private_bind :: "MountFact \<Rightarrow> bool" where
  "private_bind m = (mf_type m = ''bind'' \<and> mf_propagation m = ''rprivate'')"

definition indexed_mount :: "string \<times> Mount \<Rightarrow> string \<times> string \<times> bool" where
  "indexed_mount p = (fst p, mt_source (snd p), \<not> mt_read_only (snd p))"

lemma index_mounts_some:
  "index_mounts want ms = (if distinct (map (\<lambda>m. clean_path (mt_target m)) ms) \<and>
       set (map (\<lambda>m. clean_path (mt_target m)) ms) \<inter> fst ` set want = {}
     then Some (rev (map (\<lambda>m. (clean_path (mt_target m), m\<lparr>mt_source := clean_path (mt_source m)\<rparr>)) ms) @ want) else None)"
proof (induction ms arbitrary: want)
  case (Cons m ms)
  show ?case
  proof (cases "clean_path (mt_target m) \<in> fst ` set want")
    case True
    then show ?thesis by (auto simp: Let_def map_of_eq_None_iff)
  next
    case False
    then show ?thesis using Cons by (auto simp: Let_def map_of_eq_None_iff)
  qed
qed simp

lemma mset_take_key:
  assumes "distinct (map fst want)" and "map_of want k = Some e"
  shows "mset want = add_mset (k, e) (mset (filter (\<lambda>p. fst p \<noteq> k) want))"
  using assms
proof (induction want)
  case (Cons p want)
  show ?case
  proof (cases "fst p = k")
    case True
    then have "k \<notin> fst ` set want" using Cons.prems(1) by simp
    then have "filter (\<lambda>p. fst p \<noteq> k) want = want" by (metis (mono_tags, lifting) filter_True image_eqI)
    then show ?thesis using True Cons.prems by (cases p) auto
  next
    case False
    then show ?thesis using Cons by (cases p) auto
  qed
qed simp

lemma match_mounts_iff:
  "distinct (map fst want) \<Longrightarrow> match_mounts want actual \<longleftrightarrow>
     mset (map indexed_mount want) = mset (map observed_mount actual) \<and> (\<forall>m \<in> set actual. private_bind m)"
proof (induction want actual rule: match_mounts.induct)
  case (2 want mount mounts)
  let ?k = "clean_path (mf_destination mount)" and ?rest = "filter (\<lambda>p. fst p \<noteq> clean_path (mf_destination mount)) want"
  have rest: "distinct (map fst ?rest)" using 2(2) by (simp add: distinct_map_filter)
  show ?case
  proof (cases "map_of want ?k")
    case None
    then have "?k \<notin> fst ` set want" by (simp add: map_of_eq_None_iff)
    then have "observed_mount mount \<notin># mset (map indexed_mount want)" by (auto simp: observed_mount_def indexed_mount_def)
    moreover have "observed_mount mount \<in># mset (map observed_mount (mount # mounts))" by simp
    ultimately have "mset (map indexed_mount want) \<noteq> mset (map observed_mount (mount # mounts))" by metis
    then show ?thesis using None by (simp add: Let_def)
  next
    case (Some e)
    have split: "mset (map indexed_mount want) = add_mset (indexed_mount (?k, e)) (mset (map indexed_mount ?rest))"
      using arg_cong [OF mset_take_key [OF 2(2) Some], of "image_mset indexed_mount"] by simp
    show ?thesis
    proof (cases "indexed_mount (?k, e) = observed_mount mount")
      case True
      then have step: "match_mounts want (mount # mounts) \<longleftrightarrow> private_bind mount \<and> match_mounts ?rest mounts"
        using Some by (auto simp: Let_def private_bind_def indexed_mount_def observed_mount_def)
      have "match_mounts ?rest mounts \<longleftrightarrow>
          mset (map indexed_mount ?rest) = mset (map observed_mount mounts) \<and> (\<forall>m \<in> set mounts. private_bind m)"
        if bind: "private_bind mount"
      proof -
        have "\<not> (mf_type mount \<noteq> ''bind'' \<or> clean_path (mf_source mount) \<noteq> mt_source e \<or>
            mf_read_write mount = mt_read_only e \<or> mf_propagation mount \<noteq> ''rprivate'')"
          using bind True by (auto simp: private_bind_def indexed_mount_def observed_mount_def)
        from 2(1) [OF refl Some this rest] show ?thesis .
      qed
      then show ?thesis using step split True by auto
    next
      case False
      have "p = (?k, e)" if "p \<in> set want" "indexed_mount p = observed_mount mount" for p
      proof -
        have "fst p = ?k" using that(2) by (simp add: indexed_mount_def observed_mount_def)
        then have "(?k, snd p) \<in> set want" using that(1) by (metis prod.collapse)
        then show ?thesis
          using eq_key_imp_eq_value [OF 2(2) _ map_of_SomeD [OF Some]] \<open>fst p = ?k\<close> by (metis prod.collapse)
      qed
      then have "observed_mount mount \<notin># mset (map indexed_mount want)" using False by force
      moreover have "observed_mount mount \<in># mset (map observed_mount (mount # mounts))" by simp
      ultimately have "mset (map indexed_mount want) \<noteq> mset (map observed_mount (mount # mounts))" by metis
      moreover have "\<not> match_mounts want (mount # mounts)"
        using False Some by (auto simp: Let_def indexed_mount_def observed_mount_def)
      ultimately show ?thesis by blast
    qed
  qed
qed auto

lemma validateAdoptionMounts_iff:
  "validateAdoptionMounts expected actual = None \<longleftrightarrow>
     distinct (map (\<lambda>m. clean_path (mt_target m)) expected) \<and>
     mset (map wanted_mount expected) = mset (map observed_mount actual) \<and> (\<forall>m \<in> set actual. private_bind m)"
proof (cases "distinct (map (\<lambda>m. clean_path (mt_target m)) expected)")
  case True
  let ?want = "rev (map (\<lambda>m. (clean_path (mt_target m), m\<lparr>mt_source := clean_path (mt_source m)\<rparr>)) expected)"
  have "map indexed_mount ?want = rev (map wanted_mount expected)"
    by (simp add: rev_map comp_def indexed_mount_def wanted_mount_def)
  moreover have "map fst ?want = rev (map (\<lambda>m. clean_path (mt_target m)) expected)" by (simp add: rev_map comp_def)
  ultimately have "match_mounts ?want actual \<longleftrightarrow>
      mset (map wanted_mount expected) = mset (map observed_mount actual) \<and> (\<forall>m \<in> set actual. private_bind m)"
    using True by (subst match_mounts_iff) simp_all
  moreover have "length actual = length expected" if "mset (map wanted_mount expected) = mset (map observed_mount actual)"
    using that by (metis length_map size_mset)
  ultimately show ?thesis using True by (auto simp: validateAdoptionMounts_def index_mounts_some)
qed (simp add: validateAdoptionMounts_def index_mounts_some)

section \<open>Environment, tmpfs, groups\<close>

lemma environment_index_some:
  "environment_index index facts = (if distinct (map ef_name facts) \<and> ef_name ` set facts \<inter> fst ` set index = {} \<and>
       (\<forall>f \<in> set facts. ef_name f \<noteq> [] \<and> ef_value_digest f \<noteq> [])
     then Some (rev (map (\<lambda>f. (ef_name f, ef_value_digest f)) facts) @ index) else None)"
proof (induction facts arbitrary: index)
  case (Cons f facts)
  then show ?case by (auto simp: map_of_eq_None_iff)
qed simp

definition environment_as_asked :: "(string \<Rightarrow> nat list) \<Rightarrow> ContainerSpec \<Rightarrow> EnvironmentFact list \<Rightarrow> bool" where
  "environment_as_asked sha expected actual =
     (distinct (sp_sensitive_env_keys expected) \<and> distinct (map ef_name actual) \<and>
      (\<forall>f \<in> set actual. ef_name f \<noteq> [] \<and> ef_value_digest f \<noteq> []) \<and>
      (\<forall>(name, value) \<in> set (cs_env (sp_command expected)).
         \<exists>f \<in> set actual. ef_name f = name \<and> ef_value_digest f = environmentValueDigest sha value) \<and>
      (\<forall>name \<in> set (sp_sensitive_env_keys expected).
         name \<in> fst ` set (cs_env (sp_command expected)) \<longleftrightarrow> name \<in> ef_name ` set actual))"

lemma validateAdoptionEnvironment_iff:
  "validateAdoptionEnvironment sha expected actual = None \<longleftrightarrow> environment_as_asked sha expected actual"
proof (cases "distinct (map ef_name actual) \<and> (\<forall>f \<in> set actual. ef_name f \<noteq> [] \<and> ef_value_digest f \<noteq> [])")
  case True
  let ?index = "rev (map (\<lambda>f. (ef_name f, ef_value_digest f)) actual)"
  have index: "environment_index [] actual = Some ?index" using True by (simp add: environment_index_some)
  have "map fst ?index = rev (map ef_name actual)" by (simp add: rev_map comp_def)
  then have "distinct (map fst ?index)" using True by (metis distinct_rev)
  then have found: "map_of ?index name = Some d \<longleftrightarrow> (\<exists>f \<in> set actual. ef_name f = name \<and> ef_value_digest f = d)" for name d
    by (auto simp: map_of_eq_Some_iff)
  have present: "map_of ?index name \<noteq> None \<longleftrightarrow> name \<in> ef_name ` set actual" for name
    by (force simp: map_of_eq_None_iff)
  show ?thesis
    unfolding validateAdoptionEnvironment_def environment_as_asked_def index option.case found present
    using True by (simp add: map_of_eq_None_iff case_prod_beta)
qed (auto simp: validateAdoptionEnvironment_def environment_as_asked_def environment_index_some)

lemma tmpfs_options_some:
  "tmpfs_options got options = (if distinct (map trim_space options) \<and> trim_space ` set options \<inter> set got = {} \<and>
       [] \<notin> trim_space ` set options
     then Some (rev (map trim_space options) @ got) else None)"
  by (induction options arbitrary: got) (auto simp: Let_def)

lemma wanted_tmpfs_distinct: "distinct (wanted_tmpfs n)"
  by (simp add: wanted_tmpfs_def)

definition tmpfs_as_asked :: "int \<Rightarrow> (string \<times> string) list \<Rightarrow> bool" where
  "tmpfs_as_asked bytes actual =
     (0 < bytes \<and> (\<exists>options. actual = [(''/tmp'', options)] \<and>
        mset (map trim_space (split_on (CHR '','') options)) = mset (wanted_tmpfs bytes)))"

lemma same_distinct_mset: "distinct xs \<Longrightarrow> distinct ys \<Longrightarrow> length xs = length ys \<Longrightarrow> set ys \<subseteq> set xs \<Longrightarrow> mset xs = mset ys"
  by (metis card_subset_eq distinct_card finite_set set_eq_iff_mset_eq_distinct)

lemma validateAdoptionTmpfs_iff: "validateAdoptionTmpfs bytes actual = None \<longleftrightarrow> tmpfs_as_asked bytes actual"
proof (cases "\<exists>options. actual = [(''/tmp'', options)]")
  case True
  then obtain options where actual: "actual = [(''/tmp'', options)]" by blast
  let ?got = "map trim_space (split_on (CHR '','') options)"
  have nonblank: "[] \<notin> set (wanted_tmpfs bytes)" by (simp add: wanted_tmpfs_def)
  have "distinct got \<and> [] \<notin> set got \<and> length got = length (wanted_tmpfs bytes) \<and> set (wanted_tmpfs bytes) \<subseteq> set got"
    if "mset got = mset (wanted_tmpfs bytes)" for got
    using that wanted_tmpfs_distinct nonblank mset_eq_imp_distinct_iff [OF that] mset_eq_length [OF that] mset_eq_setD [OF that]
    by simp
  then have same: "mset ?got = mset (wanted_tmpfs bytes) \<longleftrightarrow>
      distinct ?got \<and> [] \<notin> set ?got \<and> length ?got = length (wanted_tmpfs bytes) \<and> set (wanted_tmpfs bytes) \<subseteq> set ?got"
    using same_distinct_mset [of ?got "wanted_tmpfs bytes"] wanted_tmpfs_distinct by blast
  have "validateAdoptionTmpfs bytes actual = None \<longleftrightarrow> 0 < bytes \<and>
      distinct ?got \<and> [] \<notin> set ?got \<and> length ?got = length (wanted_tmpfs bytes) \<and> set (wanted_tmpfs bytes) \<subseteq> set ?got"
    by (auto simp: actual validateAdoptionTmpfs_def tmpfs_options_some subset_eq split: if_splits simp del: length_map)
  then show ?thesis using same by (simp add: actual tmpfs_as_asked_def)
next
  case False
  then have "map_of actual ''/tmp'' = None" if "length actual = 1" using that by (cases actual) auto
  then show ?thesis using False by (auto simp: validateAdoptionTmpfs_def tmpfs_as_asked_def)
qed

lemma first_mismatch_None: "first_mismatch checks = None \<longleftrightarrow> (\<forall>c \<in> set checks. c = None)"
  by (induction checks rule: first_mismatch.induct) auto

lemma mismatch_None [simp]: "mismatch b field = None \<longleftrightarrow> \<not> b"
  by (simp add: mismatch_def)

text \<open>A container that is what a specification asks for, with the isolation every run has.\<close>

definition same_identity :: "RuntimeRef \<Rightarrow> RuntimeRef \<Rightarrow> bool" where
  "same_identity expected actual =
     (actual\<lparr>rr_container_id := []\<rparr> = expected\<lparr>rr_container_id := []\<rparr> \<and>
      (rr_container_id expected = [] \<or> rr_container_id actual = rr_container_id expected))"

definition isolated :: "LiveState \<Rightarrow> bool" where
  "isolated actual =
     (\<not> lv_privileged actual \<and> lv_cap_add actual = [] \<and> (\<exists>c. lv_cap_drop actual = [c] \<and> to_lower c = to_lower ''ALL'') \<and>
      lv_readonly_rootfs actual \<and> lv_published_ports actual = 0 \<and> lv_init actual \<and>
      lv_security_opt actual \<in> {[''no-new-privileges''], [''no-new-privileges:true'']} \<and>
      \<not> lv_auto_remove actual \<and> lv_restart_policy actual = ''no'' \<and>
      (\<exists>n > 0. parse_uint32 (hd (split_on (CHR '':'') (trim_space (lv_user actual)))) = Some n))"

definition as_asked :: "(string \<Rightarrow> nat list) \<Rightarrow> ContainerSpec \<Rightarrow> LiveState \<Rightarrow> bool" where
  "as_asked sha expected actual =
     (lv_image actual = sp_image expected \<and> lv_entrypoint actual = [cs_executable (sp_command expected)] \<and>
      lv_command_args actual = cs_args (sp_command expected) \<and> environment_as_asked sha expected (lv_environment actual) \<and>
      lv_working_dir actual = sp_working_dir expected \<and> lv_user actual = sp_user expected \<and>
      mset (lv_group_add actual) = mset (sp_group_add expected) \<and> lv_network actual = sp_network expected \<and>
      lv_pids_limit actual = rl_pids (sp_limits expected) \<and> lv_memory_bytes actual = rl_memory_bytes (sp_limits expected) \<and>
      lv_nano_cpus actual = rl_nano_cpus (sp_limits expected) \<and>
      tmpfs_as_asked (rl_tmpfs_bytes (sp_limits expected)) (lv_tmpfs actual) \<and>
      distinct (map (\<lambda>m. clean_path (mt_target m)) (sp_mounts expected)) \<and>
      mset (map wanted_mount (sp_mounts expected)) = mset (map observed_mount (lv_mounts actual)) \<and>
      (\<forall>m \<in> set (lv_mounts actual). private_bind m))"

lemma ValidateOwnership_iff: "ValidateOwnership expected actual = None \<longleftrightarrow> same_identity expected actual"
  by (cases expected; cases actual) (auto simp: ValidateOwnership_def same_identity_def)

lemma validateNonRootUser_iff:
  "validateNonRootUser user = None \<longleftrightarrow> (\<exists>n > 0. parse_uint32 (hd (split_on (CHR '':'') (trim_space user))) = Some n)"
  by (auto simp: validateNonRootUser_def split: option.splits)

lemma equalStringsAsSet_iff: "equalStringsAsSet xs ys \<longleftrightarrow> mset xs = mset ys"
  unfolding equalStringsAsSet_def by (metis mset_sort properties_for_sort sorted_sort)

lemma accepts_iff:
  "ValidateAdoption sha expected actual = None \<longleftrightarrow>
     same_identity (sp_ref expected) (lv_ref actual) \<and> isolated actual \<and> sp_read_only_root expected \<and> as_asked sha expected actual"
proof -
  have security: "\<not> (length opts \<noteq> 1 \<or> \<not> containsSecurityOption opts ''no-new-privileges'') \<longleftrightarrow>
      opts \<in> {[''no-new-privileges''], [''no-new-privileges:true'']}" for opts
    by (cases opts) (auto simp: containsSecurityOption_def)
  have capabilities: "\<not> (length (caps :: string list) \<noteq> 1 \<or> \<not> containsFold caps ''ALL'') \<longleftrightarrow> (\<exists>c. caps = [c] \<and> to_lower c = to_lower ''ALL'')" for caps
    by (cases caps) (auto simp: containsFold_def)
  show ?thesis
    unfolding ValidateAdoption_def first_mismatch_None list.set ball_simps insert_iff
    using security [of "lv_security_opt actual"] capabilities [of "lv_cap_drop actual"]
    by (simp add: ValidateOwnership_iff validateAdoptionEnvironment_iff validateNonRootUser_iff validateAdoptionTmpfs_iff
        validateAdoptionMounts_iff equalStringsAsSet_iff isolated_def as_asked_def) blast
qed

text \<open>C28. \<open>ValidateAdoption\<close> accepts exactly the containers that carry the identity of the run, are isolated (not
  privileged, every capability dropped, no new privileges, a read-only root, no published port, a user that is
  not root, never restarted or removed by itself) and have the image, command, environment, limits and, as multisets,
  the groups and private bind mounts that were asked for.\<close>

theorem ValidateAdoption_iff:
  "ValidateAdoption sha expected actual = None \<longleftrightarrow>
     same_identity (sp_ref expected) (lv_ref actual) \<and> isolated actual \<and> sp_read_only_root expected \<and> as_asked sha expected actual"
  by (rule accepts_iff)

end
