(* ===== verification/Divergences.thy ===== *)
theory Divergences
  imports Requests Reconcile Scenario Adoption
begin

text \<open>
  Behaviour of the code that its comments, its tables or its callers do not expect: which deletions of an integration
  task are carried out, and which containers of a Codex agent a restarted daemon takes over.
\<close>

section \<open>The deletion of an integration task\<close>

text \<open>The acknowledgement of messages leaves the tasks alone.\<close>

interpretation tasks_kept: state_order "\<lambda>s t. d_tasks (w_db t) = d_tasks (w_db s)" "\<lambda>(_ :: unit) _. True"
  by unfold_locales simp_all

lemma tasks_kept_writes:
  "tasks_kept.keeps K (tx_UpdateMessage m v s)" "tasks_kept.keeps K (emit p e i k a b r q o' j now)" "tasks_kept.keeps K (read_db h)"
  by (auto simp: tasks_kept.keeps_def tx_UpdateMessage_def write_db_success cas_message_def on_success_def read_db_success
      emit_def tx_AppendEvent_def Let_def split: sum.splits if_splits)

lemma acknowledgeForActor_keeps_tasks: "tasks_kept.keeps {} (acknowledgeForActor ids p actor q now)"
  unfolding acknowledgeForActor_def acknowledgeBossAction_def acknowledgeAgentMessages_def acknowledgeAgentMessage_def tx_Message_def
  by (intro tasks_kept.keeps_if tasks_kept.keeps_andthen tasks_kept.keeps_each tasks_kept.keeps_collect tasks_kept.keeps_let
      tasks_kept.keeps_whenever tasks_kept.keeps_reject
      tasks_kept.keeps_ret tasks_kept_writes)

lemma DeleteTask_tx_source:
  assumes run: "DeleteTask_tx sv token taskID reason ids dedupe w = (Inr (Some plan), w')"
    and task: "task_of (w_db w) taskID = Some t" and kind: "t_kind t = TaskIntegration" "t_source_task_id t \<noteq> []"
    and source: "task_of (w_db w) (t_source_task_id t) = Some source"
  shows "integrationSourceFence source t = None"
proof -
  obtain actor now rq d w0 w1 w2 where w0: "w_db w0 = w_db w"
      and ack: "acknowledgeForActor ids (t_project_id t) actor rq now w0 = (Inr (), w1)"
      and release: "releaseIntegrationSource t actor rq now w1 = (Inr (), w2)"
    using run task kind
    by (auto simp: DeleteTask_tx_def andthen_success Let_def tx_Task_def read_db_success
        taskActionAvailable_def split: option.splits
        dest!: pure_success [OF pure_service(3)] pure_success [OF pure_service(12)]
          pure_success [OF pure_service(13)] nowText_success)
  have "d_tasks (w_db w1) = d_tasks (w_db w)"
    using tasks_kept.keeps_nothingD [OF acknowledgeForActor_keeps_tasks ack] w0 by simp
  then have "task_of (w_db w1) (t_source_task_id t) = Some source" using source by simp
  then show ?thesis
    using release by (auto simp: releaseIntegrationSource_def andthen_success if_found_def tx_Task_def read_db_def found_def
      releaseSource_def check_def split: option.splits)
qed

lemma requireText_success: "requireText name v w = (Inr x, t) \<Longrightarrow> x = trim_space v \<and> t = w" for w :: world
  by (auto simp: requireText_def Let_def ret_def throw_def split: if_splits)

text \<open>C29. An integration task is only deleted while its source task, if that still exists, is submitted and waits for this very
  task. Completing an integration completes its source and cancelling it releases its source, so in general a
  closed integration task cannot be deleted before its source.\<close>

theorem integration_deletion_needs_submitted_source:
  assumes "DeleteTask sv i w = (Inr (Some plan), w')" and "task_of (w_db w) (trim_space (ta_task_id i)) = Some t"
    and "t_kind t = TaskIntegration" and "t_source_task_id t \<noteq> []" and "task_of (w_db w) (t_source_task_id t) = Some source"
  shows "t_status source = TaskSubmitted \<and> t_integration_task_id source = t_id t \<and> t_version source = t_source_accept_version t"
proof -
  obtain reason ids dedupe u where u: "w_db u = w_db w"
    and tx: "DeleteTask_tx sv (ta_token i) (trim_space (ta_task_id i)) reason ids dedupe u = (Inr (Some plan), w')"
    using assms(1)
    by (auto simp: DeleteTask_def andthen_success transact_success
        dest!: requireText_success pure_success [OF pure_service(5)] pure_success [OF pure_service(6)] pure_success [OF pure_service(2)])
  show ?thesis
    using DeleteTask_tx_source [OF tx, of t source] assms(2-5) unfolding integrationSourceFence_def by (simp add: u split: if_splits)
qed

definition awaited_source :: task where
  "awaited_source = (new_task ''S'' ''P'' TaskWork TaskSubmitted Boss [] (At 0))
     \<lparr>t_integration_task_id := ''T'', t_accepted_integration_agent_id := ''A''\<rparr>"

definition closed_integration :: task where
  "closed_integration = (new_task ''T'' ''P'' TaskIntegration TaskCancelled Boss [] (At 0))
     \<lparr>t_assignee_agent_id := ''A'', t_source_task_id := ''S'', t_source_accept_version := 1\<rparr>"

definition integrating :: world where
  "integrating = \<lparr>w_db = empty_db\<lparr>d_tasks := [awaited_source, closed_integration]\<rparr>, w_ids = 0, w_clock = 0, w_calls = 0\<rparr>"

definition integration_deletion :: TaskActionInput where
  "integration_deletion = \<lparr>ta_token = [], ta_task_id = ''T'', ta_reason = ''r'', ta_ack_message_ids = [], ta_request_id = ''6''\<rparr>"

lemma integrating_deletes: "\<exists>plan. fst (DeleteTask demo integration_deletion integrating) = Inr (Some plan)"
  by (simp add: runs integration_deletion_def integrating_def awaited_source_def closed_integration_def empty_db_def no_message_ids put_row_def
    cong: run_congs del: canonicalMessageIDs_def [THEN fun_cong] inputFingerprint_def)

theorem integration_deletion_needs_submitted_source_witness:
  "t_status awaited_source = TaskSubmitted \<and> t_integration_task_id awaited_source = t_id closed_integration \<and>
   t_version awaited_source = t_source_accept_version closed_integration"
proof -
  obtain plan w' where "DeleteTask demo integration_deletion integrating = (Inr (Some plan), w')"
    using integrating_deletes by (metis prod.collapse)
  moreover have "trim_space (ta_task_id integration_deletion) = ''T''"
    by (simp add: function_runs strip.simps integration_deletion_def cong: run_congs)
  ultimately show ?thesis
    using integration_deletion_needs_submitted_source [of demo integration_deletion integrating plan w' closed_integration awaited_source]
    by (simp add: integrating_def row_def awaited_source_def closed_integration_def new_task_def)
qed

section \<open>The adoption of a Codex container\<close>

text \<open>The settings of the provider that the command of a Codex run carries.\<close>

definition codex_defaults :: "run \<Rightarrow> ProviderConfig \<Rightarrow> bool" where
  "codex_defaults run provider =
     (trim_space (pv_subagent_model provider) = [] \<and> trim_space (pv_effort provider) = [] \<and> trim_space (pv_base_url provider) = [] \<and>
      (r_launch_mode run = StartMode \<longrightarrow> trim_space (pv_model provider) = []))"

lemma codexProviderArgs_none:
  "codexProviderArgs provider start = [] \<longleftrightarrow> trim_space (pv_subagent_model provider) = [] \<and> trim_space (pv_effort provider) = [] \<and>
     trim_space (pv_base_url provider) = [] \<and> (start \<longrightarrow> trim_space (pv_model provider) = [])"
  by (auto simp: codexProviderArgs_def)

lemma trim_space_nil: "trim_space [] = []"
  by (simp add: function_runs strip.simps cong: run_congs)

text \<open>C30. A restarted daemon asks for the container of a Codex run with the command it was launched with exactly if the agent has
  no provider settings; otherwise \<open>ValidateAdoption\<close> refuses every container that runs the command of the launch.\<close>

theorem codex_adoption_refused:
  assumes "launch_command Codex run (launch_spec kind provider) = Inr launched" and "adoption_command Codex run kind = Inr wanted"
  shows "(wanted = launched \<longleftrightarrow> codex_defaults run provider) \<and>
    (sp_command expected = wanted \<and> lv_command_args state = cs_args launched \<and> \<not> codex_defaults run provider \<longrightarrow>
      ValidateAdoption sha expected state \<noteq> None)"
proof -
  have none: "codexProviderArgs no_provider start = []" for start
    unfolding codexProviderArgs_none by (simp add: no_provider_def trim_space_nil)
  have args: "cs_args wanted = cs_args launched \<longleftrightarrow> codex_defaults run provider" and rest: "wanted\<lparr>cs_args := []\<rparr> = launched\<lparr>cs_args := []\<rparr>"
    using assms none codexProviderArgs_none [of provider "r_launch_mode run = StartMode"]
    by (auto simp: launch_command_def adoption_command_def in_words_def Codex_def codex_start_def codex_resume_def launch_spec_def
        codex_defaults_def Let_def split: launch_mode.splits sum.splits option.splits if_splits)
  have "wanted = launched \<longleftrightarrow> cs_args wanted = cs_args launched" using rest by (cases wanted; cases launched) simp
  moreover have "lv_command_args state = cs_args (sp_command expected)" if "ValidateAdoption sha expected state = None"
    using that by (simp add: ValidateAdoption_def first_mismatch_None split: if_splits)
  ultimately show ?thesis using args by metis
qed

definition demo_provider :: ProviderConfig where
  "demo_provider = \<lparr>pv_model = [], pv_subagent_model = [], pv_base_url = [], pv_effort = ''high''\<rparr>"

theorem codex_adoption_refused_witness:
  "\<exists>launched wanted. launch_command Codex busy_run (launch_spec TaskWork demo_provider) = Inr launched \<and>
     adoption_command Codex busy_run TaskWork = Inr wanted \<and> wanted \<noteq> launched"
proof -
  have mode: "r_launch_mode busy_run = StartMode" by (simp add: busy_run_def run_literal_def)
  obtain launched wanted where "launch_command Codex busy_run (launch_spec TaskWork demo_provider) = Inr launched"
      "adoption_command Codex busy_run TaskWork = Inr wanted"
    using mode by (simp add: launch_command_def adoption_command_def in_words_def Codex_def codex_start_def launch_spec_def
        validateLaunchSpec_def containerWorkingDirectory_def)
  moreover have "trim_space ''high'' \<noteq> []" by (simp add: function_runs strip.simps cong: run_congs)
  then have "\<not> codex_defaults busy_run demo_provider" by (simp add: codex_defaults_def demo_provider_def)
  ultimately show ?thesis using codex_adoption_refused by blast
qed

end
