(* ===== verification/Shutdown.thy ===== *)
theory Shutdown
  imports Reconcile
begin

text \<open>
  The shutdown of the controller (internal/daemon/runtime_workers.go, from \<open>Shutdown\<close> on): admission
  stops, running work gets a grace period, a stop intent is made durable for what is left, the workers
  are joined, every run that is still live is stopped and ended, and the control servers are closed.
  The deadline of the shutdown is an instant. The runs that are left are converged one after the other;
  the code does it in up to \<open>max_parallel_runs\<close> goroutines.
\<close>

definition runtimeShutdownOverhead :: int where "runtimeShutdownOverhead = 25 * 10 ^ 9"
definition runtimeShutdownReason :: string where "runtimeShutdownReason = ''daemon_shutdown''"

definition stopRuntimeAdmission :: "unit dop" where
  "stopRuntimeAdmission = update (\<lambda>s. s\<lparr>dm_shutting_down := True\<rparr>)"

definition boundedRuntimeShutdownContext :: "controller \<Rightarrow> int option \<Rightarrow> int dop" where
  "boundedRuntimeShutdownContext c parent =
     (case parent of
        Some deadline \<Rightarrow> ret deadline
      | None \<Rightarrow> observe (\<lambda>n. ho_now (ct_host c) n + (shutdownGrace c + runtimeShutdownOverhead)))"

definition deadline_exceeded :: derror where
  "deadline_exceeded = errors_New ''context deadline exceeded''"

definition context_error :: "controller \<Rightarrow> int \<Rightarrow> unit dop" where
  "context_error c deadline =
     consult (\<lambda>n. if deadline \<le> ho_now (ct_host c) n then Inl deadline_exceeded else Inr ())"

definition natural_grace :: "int \<Rightarrow> int \<Rightarrow> int" where
  "natural_grace grace remaining =
     (let remaining = remaining - runtimeShutdownOverhead in
      if remaining \<le> 0 then 0 else if remaining < grace then remaining else grace)"

definition runtimeNaturalShutdownGrace :: "controller \<Rightarrow> int \<Rightarrow> int dop" where
  "runtimeNaturalShutdownGrace c deadline =
     observe (\<lambda>n. natural_grace (shutdownGrace c) (deadline - ho_now (ct_host c) n))"

text \<open>The poll of the live runs: so many ticks pass until the grace period or the deadline is over.\<close>

fun poll_live_runs :: "controller \<Rightarrow> bool \<Rightarrow> nat \<Rightarrow> unit dop" where
  "poll_live_runs c expired ticks =
    andthen (call c LiveRuns) (\<lambda>runs.
    if runs = [] then ret ()
    else case ticks of
        0 \<Rightarrow> if expired then throw deadline_exceeded else ret ()
      | Suc ticks \<Rightarrow> poll_live_runs c expired ticks)"

declare poll_live_runs.simps [simp del]

definition waitForNaturalShutdown :: "controller \<Rightarrow> int \<Rightarrow> unit dop" where
  "waitForNaturalShutdown c deadline =
    andthen (runtimeNaturalShutdownGrace c deadline) (\<lambda>grace.
    if grace \<le> 0 then context_error c deadline
    else
      andthen (observe (ho_polls (ct_host c))) (\<lambda>(ticks, expired).
      poll_live_runs c expired ticks))"

definition request_shutdown_stop :: "controller \<Rightarrow> run \<Rightarrow> run dop" where
  "request_shutdown_stop c run =
    andthen (randomRuntimeID c ''shutdown'') (\<lambda>operation.
    call c (RequestRuntimeStop (ct_service c) (r_id run) runtimeShutdownReason (runtimeRequest run ''shutdown'') operation))"

text \<open>A refused stop is no error when the run has ended or was asked to stop in the meantime.\<close>

definition persist_stop :: "controller \<Rightarrow> run \<Rightarrow> unit dop" where
  "persist_stop c run =
    andthen (randomRuntimeID c ''shutdown'') (\<lambda>operation.
    andthen (tried (call c (RequestRuntimeStop (ct_service c) (r_id run) runtimeShutdownReason
       (runtimeRequest run ''shutdown'') operation))) (\<lambda>r.
    case r of
      Inr _ \<Rightarrow> ret ()
    | Inl e \<Rightarrow>
        andthen (tried (call c (ServiceRun (r_id run)))) (\<lambda>latest.
        case latest of
          Inr latest \<Rightarrow>
            reject (\<not> (IsRunTerminal (r_state latest) \<or> r_stop_requested_at latest \<noteq> NoStamp))
              (prefixed (''persist shutdown stop for Run '' @ r_id run) e)
        | Inl _ \<Rightarrow> throw (prefixed (''persist shutdown stop for Run '' @ r_id run) e))))"

definition persist_shutdown_intent :: "controller \<Rightarrow> run \<Rightarrow> unit dop" where
  "persist_shutdown_intent c snapshot =
    andthen (named (''read shutdown Run '' @ r_id snapshot) (call c (ServiceRun (r_id snapshot)))) (\<lambda>run.
    if IsRunTerminal (r_state run) \<or> r_stop_requested_at run \<noteq> NoStamp then ret ()
    else
      andthen (if r_requested_outcome run = NoOutcome
         then named (''persist existing stop intent for Run '' @ r_id run) (
           andthen (reconcileDurableIntent c run) (\<lambda>(updated, _, hasIntent).
           ret (hasIntent \<or> r_stop_requested_at updated \<noteq> NoStamp)))
         else ret False) (\<lambda>persisted.
      if persisted then ret () else persist_stop c run))"

definition collect_errors :: "'x list \<Rightarrow> ('x \<Rightarrow> unit dop) \<Rightarrow> unit dop" where
  "collect_errors xs f =
    andthen (collect xs (\<lambda>x. tried (f x))) (\<lambda>rs.
    lift (unless_error (errors_Join (map failure_of rs))))"

definition persistShutdownIntents :: "controller \<Rightarrow> unit dop" where
  "persistShutdownIntents c =
    andthen (call c LiveRuns) (\<lambda>runs.
    collect_errors runs (persist_shutdown_intent c))"

definition cancelRuntimeWorkers :: "unit dop" where
  "cancelRuntimeWorkers = update (\<lambda>s. s\<lparr>dm_cancelled := True\<rparr>)"

definition waitForRuntimeWorkers :: "controller \<Rightarrow> unit dop" where
  "waitForRuntimeWorkers c = consult (\<lambda>n. if ho_joined (ct_host c) n then Inr () else Inl deadline_exceeded)"

definition shutdown_unprepared :: "controller \<Rightarrow> run \<Rightarrow> unit dop" where
  "shutdown_unprepared c run =
    andthen (call c (RecordRuntimeRunTerminal (ct_service c)
       ((terminal_input RunFailed ''daemon shutdown before runtime launch was prepared''
          (runtimeRequest run ''shutdown-terminal'') (end_operation run))
        \<lparr>rt_run_id := r_id run, rt_generation := r_generation run, rt_launch_operation_id := r_launch_operation_id run,
          rt_runtime_error_code := ''DAEMON_SHUTDOWN''\<rparr>))) (\<lambda>terminal.
    cleanupRun c (tr_run terminal) (runtimeRef (tr_run terminal)) None None)"

definition shutdown_grace_left :: "controller \<Rightarrow> int \<Rightarrow> int dop" where
  "shutdown_grace_left c deadline = observe (\<lambda>n.
     let remaining = deadline - ho_now (ct_host c) n in
     if remaining < shutdownGrace c then max 0 remaining else shutdownGrace c)"

definition shutdown_monitor :: "controller \<Rightarrow> run \<Rightarrow> CLI \<Rightarrow> runMonitor dop" where
  "shutdown_monitor c run entry =
    andthen (registered_control (r_id run)) (\<lambda>control.
    andthen (redaction c run) (\<lambda>redact.
    andthen (observe (\<lambda>n. n)) (\<lambda>ident.
    let m = \<lparr>mo_id = ident, mo_run_id = r_id run, mo_ref = runtimeRef run, mo_entry = entry, mo_control = control,
       mo_redact = redact, mo_logs = LogResult None, mo_runtime_code = [], mo_last_error = [],
       mo_logs_done = False, mo_log_err = None\<rparr> in
    if rx_fail_closed redact then ret m
    else
      andthen (streamLogs c run m) (\<lambda>(err, m).
      ret (m\<lparr>mo_logs := LogResult err\<rparr>)))))"

definition shutdown_container :: "controller \<Rightarrow> int \<Rightarrow> run \<Rightarrow> unit dop" where
  "shutdown_container c deadline run =
    (let ref = runtimeRef run in
    andthen (shutdown_grace_left c deadline) (\<lambda>grace.
    andthen (tried (issue c (StopContainer ref grace) (\<lambda>n. unless_error (ho_stop (ct_host c) n ref grace)))) (\<lambda>stopped.
    andthen (lift (case stopped of Inl e \<Rightarrow> if errors_Is e ContainerNotFound then Inr () else Inl e | Inr _ \<Rightarrow> Inr ())) (\<lambda>_.
    andthen (receive_wait c ref) (\<lambda>result.
    case Lookup (ct_adapters c) (r_adapter_id run) of
      None \<Rightarrow> throw (errors_New (''shutdown Run '' @ r_id run @ '' adapter '' @ json_string (r_adapter_id run) @ '' is not registered''))
    | Some entry \<Rightarrow>
        andthen (shutdown_monitor c run entry) (\<lambda>m.
        finishObservedRun c (Some run) m result))))))"

definition shutdownRun :: "controller \<Rightarrow> int \<Rightarrow> run \<Rightarrow> unit dop" where
  "shutdownRun c deadline run =
    andthen (if r_stop_requested_at run = NoStamp then request_shutdown_stop c run else ret run) (\<lambda>run.
    if r_launch_nonce run = [] then shutdown_unprepared c run else shutdown_container c deadline run)"

definition convergeShutdownRun :: "controller \<Rightarrow> int \<Rightarrow> run \<Rightarrow> unit dop" where
  "convergeShutdownRun c deadline snapshot =
    andthen (context_error c deadline) (\<lambda>_.
    andthen (acquireRunOperation (r_id snapshot)) (\<lambda>operation.
    case operation of
      None \<Rightarrow> throw (errors_New (''shutdown Run '' @ r_id snapshot @ '' still has a runtime owner''))
    | Some operation \<Rightarrow> deferred (releaseRunOperation (r_id snapshot) operation) (
        andthen (call c (ServiceRun (r_id snapshot))) (\<lambda>run.
        if IsRunTerminal (r_state run) then ret () else shutdownRun c deadline run))))"

definition convergeShutdownRuns :: "controller \<Rightarrow> int \<Rightarrow> unit dop" where
  "convergeShutdownRuns c deadline =
    andthen (call c LiveRuns) (\<lambda>runs.
    collect_errors runs (convergeShutdownRun c deadline))"

definition close_controls :: "controller \<Rightarrow> unit dop" where
  "close_controls c =
    andthen (asks dm_controls) (\<lambda>controls.
    collect_errors controls (\<lambda>(runID, control). closeControlContext c runID (Some control)))"

text \<open>Every phase is carried out, whatever the earlier ones returned.\<close>

definition Shutdown :: "controller \<Rightarrow> int option \<Rightarrow> unit dop" where
  "Shutdown c parent =
    andthen stopRuntimeAdmission (\<lambda>_.
    andthen (boundedRuntimeShutdownContext c parent) (\<lambda>deadline.
    andthen (tried (waitForNaturalShutdown c deadline)) (\<lambda>graceErr.
    andthen (tried (persistShutdownIntents c)) (\<lambda>intentErr.
    andthen cancelRuntimeWorkers (\<lambda>_.
    andthen (tried (waitForRuntimeWorkers c)) (\<lambda>workerErr.
    andthen (tried (convergeShutdownRuns c deadline)) (\<lambda>convergeErr.
    andthen (tried (close_controls c)) (\<lambda>controlErr.
    lift (unless_error (errors_Join (map failure_of [graceErr, intentErr, workerErr, convergeErr, controlErr])))))))))))"

definition Close :: "controller \<Rightarrow> unit dop" where
  "Close c =
    andthen (observe (\<lambda>n. ho_now (ct_host c) n + 30 * 10 ^ 9)) (\<lambda>deadline.
    Shutdown c (Some deadline))"

end
