(* ===== verification/Intents.thy ===== *)
theory Intents
  imports Shutdown Requests
begin

text \<open>
  The durable intents that the daemon writes before it touches a container: a database attests that a
  run was prepared under a nonce, that its start was issued, that it is to stop, or that it has ended.
  Intents persist along every sequence of requests. For each operation of the service that the daemon
  relies on, one lemma says which intents its success attests.
\<close>

section \<open>Identifiers are compared without surrounding space\<close>

lemma trim_left_prefix:
  assumes "trim_left s = u @ v" shows "trim_left u = u"
proof -
  have "find (\<lambda>p. p \<noteq> [] \<and> take (length p) u = p) space_runes = None"
    unfolding find_None_iff
  proof
    assume "\<exists>p. p \<in> set space_runes \<and> p \<noteq> [] \<and> take (length p) u = p"
    then obtain p where p: "p \<in> set space_runes" "p \<noteq> []" "take (length p) u = p" by blast
    then have "take (length p) (strip space_runes s) = p"
      using assms by (metis append_take_drop_id append_eq_conv_conj append_assoc trim_left_def)
    with strip_clean [OF p(1,2)] show False by blast
  qed
  then show ?thesis unfolding trim_left_def by (rule strip_None)
qed

lemma trim_space_idem [simp]: "trim_space (trim_space s) = trim_space s"
proof -
  obtain p where "rev (trim_left s) = p @ strip (map rev space_runes) (rev (trim_left s))"
    using strip_suffix by blast
  then have "trim_left s = trim_space s @ rev p"
    by (metis rev_append rev_rev_ident trim_right_def trim_space_def)
  then have "trim_left (trim_space s) = trim_space s" by (rule trim_left_prefix)
  then show ?thesis unfolding trim_space_def by (simp add: trim_right_idem)
qed

section \<open>Intents\<close>

datatype intent = Prepared string string | Issued string | Stopping string | Ended string
  | Named string string | Over string

fun row_attests :: "run \<Rightarrow> intent \<Rightarrow> bool" where
  "row_attests r (Prepared i nonce) = (trim_space (r_id r) = i \<and> r_launch_nonce r = nonce \<and> nonce \<noteq> [])"
| "row_attests r (Issued i) = (trim_space (r_id r) = i \<and> launchPhaseOrder LaunchStartIssued \<le> launchPhaseOrder (r_launch_phase r))"
| "row_attests r (Stopping i) = (trim_space (r_id r) = i \<and>
     (r_stop_requested_at r \<noteq> NoStamp \<or> r_token_revoked_at r \<noteq> NoStamp \<or> IsRunTerminal (r_state r)))"
| "row_attests r (Ended i) = (trim_space (r_id r) = i \<and> IsRunTerminal (r_state r))"
| "row_attests r _ = False"

definition intents :: "run \<Rightarrow> intent set" where
  "intents r = {k. row_attests r k}"

lemma in_intents [simp]: "k \<in> intents r \<longleftrightarrow> row_attests r k"
  by (simp add: intents_def)

text \<open>A request to stop that was answered before is answered again, with the run that the first answer named and
  without looking at its row. So a run is over when it has ended, or the run that such an answer named.\<close>

definition answered_stop :: "string \<Rightarrow> dedupe_row \<Rightarrow> bool" where
  "answered_stop i e = (d_scope e = ''daemon'' \<and> d_operation e = ''run.stop'' \<and>
     (\<exists>j rest. trim_space j = i \<and> d_key e = trim_space (''runtime:'' @ j @ '':'' @ rest)))"

definition answer_names :: "dedupe_row \<Rightarrow> string \<Rightarrow> bool" where
  "answer_names e j = (\<exists>i related hash. d_value e = RequestResult i related hash \<and> trim_space i = j)"

definition stands_for :: "db \<Rightarrow> string \<Rightarrow> string \<Rightarrow> bool" where
  "stands_for d i j = (i = j \<or> (\<exists>e \<in> set (d_dedupes d). answered_stop i e \<and> answer_names e j))"

fun attests :: "db \<Rightarrow> intent \<Rightarrow> bool" where
  "attests d (Stopping i) = ((\<exists>r \<in> set (d_runs d). row_attests r (Stopping i)) \<or> (\<exists>e \<in> set (d_dedupes d). \<exists>j. answered_stop j e \<and> (j = i \<or> answer_names e i)))"
| "attests d (Named i j) = stands_for d i j"
| "attests d (Over i) = (\<exists>j. stands_for d i j \<and> (\<exists>r \<in> set (d_runs d). row_attests r (Ended j)))"
| "attests d k = (\<exists>r \<in> set (d_runs d). row_attests r k)"

lemma attests_in: "r \<in> set (d_runs d) \<Longrightarrow> row_attests r k \<Longrightarrow> attests d k"
  by (cases k) auto

lemma attests_row: "run_of d i = Some r \<Longrightarrow> row_attests r k \<Longrightarrow> attests d k"
  by (blast dest: row_SomeD intro: attests_in)

text \<open>What the tables keep of a run keeps its intents.\<close>

lemma intents_kept:
  assumes "run_fixed r r'" and "run_sticky r r'"
    and "launchPhaseOrder (r_launch_phase r) \<le> launchPhaseOrder (r_launch_phase r')"
    and "IsRunTerminal (r_state r) \<Longrightarrow> IsRunTerminal (r_state r')" and "row_attests r k"
  shows "row_attests r' k"
  using assms by (cases k) (auto simp: run_fixed_def run_sticky_def)

lemma run_frozen_state: "run_frozen r r' \<Longrightarrow> r_state r' = r_state r"
  by (auto simp: run_frozen_def)

lemma attests_later:
  assumes "evolves d d'" and "rows_ok d" and keys: "keys_distinct d" and k: "attests d k"
  shows "attests d' k"
proof -
  have rows: "\<exists>r' \<in> set (d_runs d'). row_attests r' k" if r: "r \<in> set (d_runs d)" "row_attests r k" for r k
  proof -
    have row: "run_of d (r_id r) = Some r" using row_in_set r(1) keys by (auto simp: keys_distinct_def)
    obtain r' where r': "run_of d' (r_id r) = Some r'" "run_fixed r r'" "run_sticky r r'"
        "launchPhaseOrder (r_launch_phase r) \<le> launchPhaseOrder (r_launch_phase r')"
      using evolves_progress(2) [OF assms(1,2)] row unfolding run_commitments_kept_def by blast
    have "IsRunTerminal (r_state r')" if "IsRunTerminal (r_state r)"
      using evolves_kept(2) [OF assms(1)] row r'(1) that run_frozen_state
      unfolding ended_runs_kept_def by fastforce
    then show ?thesis using intents_kept [OF r'(2,3,4)] r(2) row_SomeD [OF r'(1)] by blast
  qed
  have "set (d_dedupes d) \<subseteq> set (d_dedupes d')"
    using assms(1) unfolding evolves_def by auto
  then have named: "stands_for d' i j" if "stands_for d i j" for i j using that by (auto simp: stands_for_def)
  show ?thesis
  proof (cases k)
    case (Stopping i)
    then show ?thesis using k rows [of _ "Stopping i"] \<open>set (d_dedupes d) \<subseteq> set (d_dedupes d')\<close>
      by (simp only: attests.simps) blast
  next
    case (Over i)
    then show ?thesis using k rows [of _ "Ended _"] named by (simp only: attests.simps(3)) blast
  next
    case (Named i j)
    then show ?thesis using k named by simp
  qed (use k rows in \<open>(simp only: attests.simps, blast)+\<close>)
qed

text \<open>A row is stored with the same intents.\<close>

lemma intents_columns [simp]: "row_attests (run_columns old r) k = row_attests r k"
  by (cases k) (simp_all add: run_columns_def)

lemma attests_put:
  assumes "run_of d (r_id r) = Some old" and "d_runs d' = put_row r_id (run_columns old r) (d_runs d)"
    and "row_attests r k"
  shows "attests d' k"
proof -
  have "run_columns old r \<in> set (d_runs d')"
    using row_SomeD [OF assms(1)] unfolding assms(2) put_row_def by (force simp: image_iff)
  then show ?thesis using assms(3) intents_columns attests_in by blast
qed

section \<open>What the operations of the service attest\<close>

definition attesting :: "'a op \<Rightarrow> ('a \<Rightarrow> bool) \<Rightarrow> ('a \<Rightarrow> intent set) \<Rightarrow> bool" where
  "attesting m P g = (\<forall>w x w'. m w = (Inr x, w') \<longrightarrow> P x \<and> (\<forall>k \<in> g x. attests (w_db w') k))"

lemma attestingI:
  "(\<And>w x w'. m w = (Inr x, w') \<Longrightarrow> P x \<and> (\<forall>k \<in> g x. attests (w_db w') k)) \<Longrightarrow> attesting m P g"
  unfolding attesting_def by blast

lemma ServiceRun_attests: "attesting (ServiceRun i) (\<lambda>r. r_id r = trim_space i) intents"
  by (rule attestingI) (auto simp: ServiceRun_def read_db_success dest: row_SomeD intro: attests_row)

lemma LiveRuns_attests: "attesting LiveRuns (\<lambda>_. True) (\<lambda>rs. \<Union> (intents ` set rs))"
  by (rule attestingI) (auto simp: LiveRuns_def read_db_success intro: attests_in)

lemma RunsNeedingCleanup_attests:
  "attesting RunsNeedingCleanup (\<lambda>rs. \<forall>r \<in> set rs. IsRunTerminal (r_state r)) (\<lambda>rs. \<Union> (intents ` set rs))"
  by (rule attestingI) (auto simp: RunsNeedingCleanup_def read_db_success IsRunTerminal_def intro: attests_in)

text \<open>The rules follow a transaction body over one database: reading leaves it alone, and after the update of a
  run only the other tables change.\<close>

definition leaves_runs :: "'a op \<Rightarrow> ('a \<Rightarrow> bool) \<Rightarrow> bool" where
  "leaves_runs m P = (\<forall>w x w'. m w = (Inr x, w') \<longrightarrow> P x \<and> d_runs (w_db w') = d_runs (w_db w))"

lemma leaves_pure: "pure_op m \<Longrightarrow> leaves_runs m (\<lambda>_. True)"
  by (auto simp: leaves_runs_def pure_op_def)

lemma leaves_ret: "P x \<Longrightarrow> leaves_runs (ret x) P"
  by (auto simp: leaves_runs_def)

lemma leaves_emit: "leaves_runs (emit p ty i k ak ai ri rq op pl now) (\<lambda>_. True)"
  by (auto simp: leaves_runs_def dest: emit_success)

lemma leaves_andthen: "leaves_runs m (\<lambda>_. True) \<Longrightarrow> (\<And>x. leaves_runs (f x) P) \<Longrightarrow> leaves_runs (andthen m f) P"
  unfolding leaves_runs_def andthen_success by metis

lemma leaves_whenever: "leaves_runs m (\<lambda>_. True) \<Longrightarrow> leaves_runs (whenever b m) (\<lambda>_. True)"
  by (auto simp: leaves_runs_def whenever_def)

lemma leaves_record: "leaves_runs (record_dedupe d i r now) (\<lambda>_. True)"
  by (auto simp: leaves_runs_def dest: record_dedupe_success)

lemma leaves_ret_then: "leaves_runs (f x) P \<Longrightarrow> leaves_runs (andthen (ret x) f) P"
  by simp

lemma leaves_nested: "leaves_runs (andthen l (\<lambda>x. andthen (k x) f)) P \<Longrightarrow> leaves_runs (andthen (andthen l k) f) P"
  by (simp add: andthen_assoc)

lemmas leaves_intro = leaves_ret_then leaves_nested leaves_ret leaves_emit leaves_record leaves_whenever leaves_andthen
  pure_basic(6) [THEN leaves_pure]

definition attesting_at :: "db \<Rightarrow> 'a op \<Rightarrow> ('a \<Rightarrow> bool) \<Rightarrow> ('a \<Rightarrow> intent set) \<Rightarrow> bool" where
  "attesting_at d m P g = (\<forall>w x w'. w_db w = d \<longrightarrow> m w = (Inr x, w') \<longrightarrow> P x \<and> (\<forall>k \<in> g x. attests (w_db w') k))"

lemma attesting_iff: "attesting m P g \<longleftrightarrow> (\<forall>d. attesting_at d m P g)"
  by (auto simp: attesting_def attesting_at_def)

lemma at_run: "(\<And>r. run_of d i = Some r \<Longrightarrow> r_id r = i \<Longrightarrow> attesting_at d (f r) P g) \<Longrightarrow> attesting_at d (andthen (tx_Run i) f) P g"
proof -
  assume f: "\<And>r. run_of d i = Some r \<Longrightarrow> r_id r = i \<Longrightarrow> attesting_at d (f r) P g"
  show ?thesis
    unfolding attesting_at_def
  proof (intro allI impI)
    fix w x w' assume "w_db w = d" "andthen (tx_Run i) f w = (Inr x, w')"
    then obtain r where "run_of d i = Some r" "f r w = (Inr x, w')"
      by (auto simp: andthen_success tx_Run_def read_db_success)
    then show "P x \<and> (\<forall>k \<in> g x. attests (w_db w') k)"
      using f [of r] row_SomeD \<open>w_db w = d\<close> unfolding attesting_at_def by metis
  qed
qed

lemma at_pure: "pure_op m \<Longrightarrow> (\<And>x. attesting_at d (f x) P g) \<Longrightarrow> attesting_at d (andthen m f) P g"
  unfolding attesting_at_def pure_op_def andthen_success by metis

lemma at_reject: "(\<not> b \<Longrightarrow> attesting_at d (f ()) P g) \<Longrightarrow> attesting_at d (andthen (reject b e) f) P g"
  by (auto simp: attesting_at_def andthen_success)

lemma at_if: "(b \<Longrightarrow> attesting_at d m P g) \<Longrightarrow> (\<not> b \<Longrightarrow> attesting_at d n P g) \<Longrightarrow> attesting_at d (if b then m else n) P g"
  by simp

lemma at_let: "attesting_at d (f v) P g \<Longrightarrow> attesting_at d (let x = v in f x) P g"
  by simp

lemma at_throw: "attesting_at d (throw e) P g"
  by (simp add: attesting_at_def)

lemma at_ret: "P x \<Longrightarrow> (\<And>k. k \<in> g x \<Longrightarrow> attests d k) \<Longrightarrow> attesting_at d (ret x) P g"
  by (auto simp: attesting_at_def)

lemma stored_run:
  assumes "tx_UpdateRun r' v st w = (Inr u, w1)" and "d_runs (w_db w2) = d_runs (w_db w1)" and "row_attests r' k"
  shows "attests (w_db w2) k"
proof -
  obtain old where old: "run_of (w_db w) (r_id r') = Some old"
    using assms(1) by (auto simp: tx_UpdateRun_def write_db_success cas_run_Inr)
  show ?thesis using tx_UpdateRun_success [OF assms(1) old] old assms(2,3) by (intro attests_put) auto
qed

lemma at_update:
  assumes "leaves_runs (f ()) (\<lambda>x. P x \<and> g x \<subseteq> intents r)"
  shows "attesting_at d (andthen (tx_UpdateRun r v st) f) P g"
  using assms unfolding attesting_at_def leaves_runs_def
  by (auto simp: andthen_success) (meson in_intents stored_run subsetD)

lemma at_still: "still m \<Longrightarrow> (\<And>x. attesting_at d (f x) P g) \<Longrightarrow> attesting_at d (andthen m f) P g"
  by (rule at_pure) (auto simp: pure_op_def dest: stillD)

lemma at_prod: "(\<And>x y. attesting_at d (f x y) P g) \<Longrightarrow> attesting_at d (case v of (x, y) \<Rightarrow> f x y) P g"
  by (cases v) simp

lemma attesting_at_mono:
  "attesting_at d m Q h \<Longrightarrow> (\<And>x. Q x \<Longrightarrow> P x) \<Longrightarrow> (\<And>x. g x \<subseteq> h x) \<Longrightarrow> attesting_at d m P g"
  unfolding attesting_at_def by blast

lemma at_transact: "attesting_at d m P g \<Longrightarrow> attesting_at d (transact m) P g"
  by (simp add: attesting_at_def transact_success)

text \<open>What a branch stores before the rest of the body goes on.\<close>

lemma at_nested:
  "attesting_at d (andthen l (\<lambda>x. andthen (k x) f)) P g \<Longrightarrow> attesting_at d (andthen (andthen l k) f) P g"
  "(b \<Longrightarrow> attesting_at d (andthen m f) P g) \<Longrightarrow> (\<not> b \<Longrightarrow> attesting_at d (andthen n f) P g) \<Longrightarrow>
   attesting_at d (andthen (if b then m else n) f) P g"
  "attesting_at d (andthen (h v) f) P g \<Longrightarrow> attesting_at d (andthen (let x = v in h x) f) P g"
  by (simp_all add: andthen_assoc)

lemma at_leaves:
  "leaves_runs m (\<lambda>x. P x \<and> g x \<subseteq> intents r) \<Longrightarrow> r \<in> set (d_runs d) \<Longrightarrow> attesting_at d m P g"
  unfolding attesting_at_def leaves_runs_def by (metis attests_in in_intents subsetD)

lemma at_now: "(\<And>t. attesting_at d (f (At t)) P g) \<Longrightarrow> attesting_at d (andthen (nowText sv) f) P g"
proof -
  assume f: "\<And>t. attesting_at d (f (At t)) P g"
  show ?thesis
    unfolding attesting_at_def
  proof (intro allI impI)
    fix w x w' assume "w_db w = d" "andthen (nowText sv) f w = (Inr x, w')"
    then have "f (At (sv_now sv (w_clock w))) (w\<lparr>w_clock := Suc (w_clock w)\<rparr>) = (Inr x, w')"
      "w_db (w\<lparr>w_clock := Suc (w_clock w)\<rparr>) = d" by (auto simp: andthen_success nowText_def)
    then show "P x \<and> (\<forall>k \<in> g x. attests (w_db w') k)" using f unfolding attesting_at_def by blast
  qed
qed

lemma at_text: "(trim_space v \<noteq> [] \<Longrightarrow> attesting_at d (f (trim_space v)) P g) \<Longrightarrow> attesting_at d (andthen (requireText n v) f) P g"
  by (auto simp: attesting_at_def andthen_success requireText_def Let_def split: if_splits)

lemma at_request: "trim_space v \<noteq> [] \<Longrightarrow> attesting_at d (f (trim_space v)) P g \<Longrightarrow> attesting_at d (andthen (request_id sv v) f) P g"
  by (auto simp: attesting_at_def andthen_success request_id_def Let_def)

lemma at_ret_leaves:
  "leaves_runs (f r) (\<lambda>x. P x \<and> g x \<subseteq> intents r) \<Longrightarrow> r \<in> set (d_runs d) \<Longrightarrow> attesting_at d (andthen (ret r) f) P g"
  by (simp add: at_leaves)

lemmas at_intro = at_nested at_prod at_run at_reject at_if at_let at_throw at_update at_transact

lemma intents_container [simp]: "row_attests (r\<lparr>r_container_id := x\<rparr>) k = row_attests r k"
  by (cases k) simp_all

lemma pure_fence: "pure_op (runtimeFactFence r i)"
  unfolding runtimeFactFence_def by (intro pure_control)

lemmas at_calls = pure_fence [THEN at_pure] pure_basic [THEN at_pure] pure_service [THEN at_pure] pure_reads [THEN at_pure]

lemma RecordRunStartIssued_attests:
  "attesting (RecordRunStartIssued sv i) (\<lambda>r. r_id r = trim_space (rf_run_id i) \<and>
     launchPhaseOrder LaunchStartIssued \<le> launchPhaseOrder (r_launch_phase r)) intents"
  unfolding RecordRunStartIssued_def advanceRunPhase_def advanceRunPhase_tx_def attesting_iff andthen_ret
  by (intro allI at_intro at_calls at_ret leaves_intro | simp add: attests_row)+

lemma RecordContainerCreated_attests:
  "attesting (RecordContainerCreated sv i) (\<lambda>r. r_id r = trim_space (rf_run_id i)) intents"
  unfolding RecordContainerCreated_def advanceRunPhase_def advanceRunPhase_tx_def setContainer_def Let_def
    attesting_iff andthen_ret andthen_assoc
  by (intro allI at_intro at_calls at_ret leaves_intro | simp add: attests_row)+

lemma RecordRunCleanup_attests:
  "attesting (RecordRunCleanup sv i op state lastError) (\<lambda>r. r_id r = trim_space (rf_run_id i)) intents"
  unfolding RecordRunCleanup_def RecordRunCleanup_tx_def attesting_iff
  by (intro allI at_intro at_calls at_ret leaves_intro | simp add: attests_row)+

lemma BeginRunLaunch_attests:
  "attesting (BeginRunLaunch sv i) (\<lambda>r. r_id r = trim_space (ln_run_id i) \<and> r_launch_nonce r \<noteq> []) intents"
  unfolding BeginRunLaunch_def BeginRunLaunch_tx_def validateLaunch_def Let_def attesting_iff andthen_assoc
  by (intro allI at_intro at_calls pure_launch(1-3) [THEN at_pure] still_validation(4) [THEN at_still] at_ret leaves_intro
      | simp add: attests_row normalized_launch_def launched_run_def)+

text \<open>A character that is no part of a space keeps the text from being trimmed away.\<close>

lemma strip_last:
  assumes "\<And>p. p \<in> set ps \<Longrightarrow> ch \<notin> set p" shows "\<exists>v. strip ps (u @ [ch]) = v @ [ch]"
  using assms
proof (induction ps "u @ [ch]" arbitrary: u rule: strip.induct)
  case (1 ps)
  show ?case
  proof (cases "find (\<lambda>p. p \<noteq> [] \<and> take (length p) (u @ [ch]) = p) ps")
    case None
    then show ?thesis by (simp add: strip_None)
  next
    case (Some p)
    then have p: "p \<in> set ps" "take (length p) (u @ [ch]) = p" by (auto simp: find_Some_iff)
    have "length p \<le> length u"
    proof (rule ccontr)
      assume "\<not> length p \<le> length u"
      then have "p = u @ [ch]" using p(2) by simp
      then show False using 1(2) [OF p(1)] by simp
    qed
    then have drop: "drop (length p) (u @ [ch]) = drop (length p) u @ [ch]" by simp
    show ?thesis using 1(1) [OF Some drop 1(2)] unfolding strip_Some [OF Some] drop by simp
  qed
qed

lemma trim_runtime: "trim_space (''runtime:'' @ s) \<noteq> []"
proof -
  have "trim_left (''runtime:'' @ s) = ''runtime:'' @ s"
    unfolding trim_left_def by (rule strip_None) (simp add: space_runes_def)
  moreover have "\<exists>v. strip (map rev space_runes) (rev (''untime:'' @ s) @ [CHR ''r'']) = v @ [CHR ''r'']"
    by (rule strip_last) (auto simp: space_runes_def)
  ultimately show ?thesis by (auto simp: trim_space_def trim_right_def)
qed

text \<open>The stop of a run: either its row says so now, or the same request was answered before.\<close>

definition stop_intents :: "string \<Rightarrow> run \<Rightarrow> intent set" where
  "stop_intents i r = {Stopping i, Stopping (trim_space (r_id r))} \<union> (intents r \<union> (if trim_space (r_id r) = i then {} else {Named i (trim_space (r_id r))}))"

lemma requestRunStop_tx_attests:
  assumes key: "rq_scope dedupe = ''daemon''" "rq_operation dedupe = ''run.stop''"
      "rq_request_id dedupe = trim_space (''runtime:'' @ j @ '':'' @ rest)"
  shows "attesting (requestRunStop_tx sv (trim_space j) reason op actor dedupe) (\<lambda>_. True) (stop_intents (trim_space j))"
proof -
  have replay: "attesting_at d (andthen (replay dedupe) f) (\<lambda>_. True) (stop_intents (trim_space j))"
    if some: "\<And>r. f (Some r) = tx_Run (dd_id r)" and none: "attesting_at d (f None) (\<lambda>_. True) (stop_intents (trim_space j))"
    for d f
    unfolding attesting_at_def
  proof (intro allI impI)
    fix w x w' assume w: "w_db w = d" and run: "andthen (replay dedupe) f w = (Inr x, w')"
    then obtain r where r: "replay dedupe w = (Inr r, w)" and f: "f r w = (Inr x, w')"
      using replay_success by (auto simp: andthen_success) (metis (full_types) not_Some_eq)
    show "True \<and> (\<forall>k \<in> stop_intents (trim_space j) x. attests (w_db w') k)"
    proof (cases r)
      case None
      then show ?thesis using none f w unfolding attesting_at_def by blast
    next
      case (Some result)
      then obtain e where e: "dedupe_of d ''daemon'' ''run.stop'' (rq_request_id dedupe) = Some e"
          "decodeDedupe (d_value e) (rq_input_hash dedupe) = Inr result"
        using r replay_success(1) key(1,2) w by auto
      have "e \<in> set (d_dedupes d)" "answered_stop (trim_space j) e"
        using e(1) key(3) unfolding dedupe_of_def answered_stop_def find_Some_iff by (auto simp: in_set_conv_nth)
      moreover have "answer_names e (trim_space (dd_id result))"
        using e(2) decodeDedupe_Inr unfolding answer_names_def by metis
      moreover have "r_id x = dd_id result" "w' = w" "x \<in> set (d_runs d)"
        using f Some some w by (auto simp: tx_Run_def read_db_success dest: row_SomeD)
      ultimately show ?thesis using w attests_in [of x d] by (auto simp: stop_intents_def stands_for_def)
    qed
  qed
  have fresh: "attesting_at d (andthen (tx_Run (trim_space j)) f) P g"
    if "\<And>r. r \<in> set (d_runs d) \<Longrightarrow> r_id r = trim_space j \<Longrightarrow> attesting_at d (f r) P g" for d f P g
    by (rule at_run) (use that row_SomeD in metis)
  show ?thesis
    unfolding requestRunStop_tx_def attesting_iff
    by (intro allI replay; simp only: option.case)
       (intro fresh at_now at_ret_leaves at_intro at_calls at_ret leaves_intro; auto simp: stop_intents_def)
qed

lemma RequestRuntimeStop_attests:
  "attesting (RequestRuntimeStop sv j reason (''runtime:'' @ j @ '':'' @ rest) op) (\<lambda>_. True) (stop_intents (trim_space j))"
  unfolding RequestRuntimeStop_def requestRunStop_def attesting_iff
  by (intro allI at_text at_let at_request trim_runtime at_transact
      requestRunStop_tx_attests [unfolded attesting_iff, THEN spec]) (simp_all add: actor_text_def)

text \<open>The end of a run. What follows the update of its row in the transaction leaves the runs alone.\<close>

lemma leaves_writes:
  "leaves_runs (tx_UpdateTask t v st) (\<lambda>_. True)" "leaves_runs (tx_InsertTask t) (\<lambda>_. True)"
  "leaves_runs (tx_UpdateMessage m v ms) (\<lambda>_. True)" "leaves_runs (tx_InsertMessage m) (\<lambda>_. True)"
  by (auto simp: leaves_runs_def tx_UpdateTask_def tx_InsertTask_def tx_UpdateMessage_def tx_InsertMessage_def
      write_db_success on_success_Inr cas_task_Inr cas_message_Inr split: if_splits)

lemma leaves_cases:
  "(b \<Longrightarrow> leaves_runs m P) \<Longrightarrow> (\<not> b \<Longrightarrow> leaves_runs n P) \<Longrightarrow> leaves_runs (if b then m else n) P"
  "leaves_runs (h v) P \<Longrightarrow> leaves_runs (let x = v in h x) P"
  "leaves_runs m P \<Longrightarrow> (\<And>x. leaves_runs (k x) P) \<Longrightarrow> leaves_runs (case u of None \<Rightarrow> m | Some x \<Rightarrow> k x) P"
  "leaves_runs (throw e) P"
  by (auto simp: leaves_runs_def split: option.splits)

lemma leaves_loops:
  "(\<And>x. leaves_runs (f x) (\<lambda>_. True)) \<Longrightarrow> leaves_runs (each xs f) (\<lambda>_. True)"
  "(\<And>x. leaves_runs (k x) (\<lambda>_. True)) \<Longrightarrow> leaves_runs (collect xs k) (\<lambda>_. True)"
  by (induction xs) (auto intro!: leaves_andthen leaves_ret)

lemmas leaves_calls = pure_basic [THEN leaves_pure] pure_reads [THEN leaves_pure] pure_service [THEN leaves_pure]
  reads_only_reads [THEN pure_if_found, THEN leaves_pure]
lemmas leaves_rules = TrueI leaves_intro leaves_writes leaves_cases leaves_loops leaves_calls

lemma disposal_runs: "leaves_runs (disposeUnresolvedMessages task ak ai ri rq now) (\<lambda>_. True)"
  unfolding disposeUnresolvedMessages_def disposeMessage_def rerouteMessage_def cancelUndeliverable_def
  by (intro leaves_rules)

lemma notify_runs: "leaves_runs (notifyParentOfChild sv child ak ai ri rq now) (\<lambda>_. True)"
  unfolding notifyParentOfChild_def wakeParent_def insertMessage_def
  by (intro leaves_rules)

lemma failure_runs: "leaves_runs (projectRuntimeFailure task run rq now) (\<lambda>_. True)"
  unfolding projectRuntimeFailure_def by (intro leaves_rules)

lemma after_failure_runs: "leaves_runs (afterFailure sv task run rq now) (\<lambda>_. True)"
  unfolding afterFailure_def by (intro leaves_rules disposal_runs notify_runs)

lemma projectTerminalTask_runs: "leaves_runs (projectTerminalTask sv task run rq op now) (\<lambda>_. True)"
  unfolding projectTerminalTask_def
  by (cases "r_requested_outcome run"; simp only: outcome.case; intro leaves_rules failure_runs after_failure_runs)

lemma projectTerminal_runs: "leaves_runs (projectTerminal sv task run rq op now) (\<lambda>_. True)"
  unfolding projectTerminal_def by (intro leaves_rules projectTerminalTask_runs)

lemma terminal_input_id: "rt_run_id (bounded_terminal i j) = j" "rt_state (bounded_terminal i j) = rt_state i"
  by (simp_all add: bounded_terminal_def)

lemma RecordRuntimeRunTerminal_attests:
  "attesting (RecordRuntimeRunTerminal sv i) (\<lambda>x. r_id (tr_run x) = trim_space (rt_run_id i) \<and> trim_space (rt_run_id i) \<noteq> [] \<and>
     IsRunTerminal (r_state (tr_run x))) (\<lambda>x. {Ended (trim_space (rt_run_id i))})"
proof -
  have redeliver: "leaves_runs (redeliverRunMessages run rq op now) (\<lambda>_. True)" for run rq op now
    by (auto simp: leaves_runs_def dest: redeliverRunMessages_success)
  have one: "attesting (RecordRunTerminal_tx sv (bounded_terminal i j) rq) (\<lambda>x. r_id (tr_run x) = j \<and>
     IsRunTerminal (r_state (tr_run x))) (\<lambda>x. {Ended (trim_space j)})" if "IsRunTerminal (rt_state i)" for j rq
    unfolding RecordRunTerminal_tx_def attesting_iff terminal_input_id
    using that
    by (intro allI at_now at_intro at_calls runtimeTerminalFence_pure [THEN at_pure] at_ret leaves_intro redeliver projectTerminal_runs)
       (auto simp: terminal_run_def terminal_input_id dest: row_SomeD)
  show ?thesis
    unfolding RecordRuntimeRunTerminal_def attesting_iff
    by (intro allI at_reject at_text at_calls at_transact
        one [unfolded attesting_iff, THEN spec, THEN attesting_at_mono]) auto
qed

end
