(* ===== verification/WriteAhead.thy ===== *)
theory WriteAhead
  imports Intents
begin

text \<open>
  The daemon writes ahead: before it creates, starts, stops or removes the container of a run, or removes
  its control directory, the database attests the intent. The locale follows a computation of the daemon
  through success and failure, because an error is often looked at and work goes on; \<open>does K m P g\<close> says
  that \<open>m\<close>, where \<open>K\<close> is known, only leads to states in the order, and that its value satisfies \<open>P\<close> and adds
  the knowledge \<open>g\<close>. One lemma per operation of the daemon follows, in the order of its theories.
\<close>

section \<open>Computations whose failures matter\<close>

named_theorems does_intro "rules that reduce what a computation of the daemon does to its parts"

locale effect_order = state_order le known
  for le :: "daemon \<Rightarrow> daemon \<Rightarrow> bool" and known :: "'k \<Rightarrow> daemon \<Rightarrow> bool" +
  fixes ok :: "daemon \<Rightarrow> bool"
  assumes ok_later: "ok s \<Longrightarrow> le s t \<Longrightarrow> ok t"
begin

definition does :: "'k set \<Rightarrow> 'a dop \<Rightarrow> ('a \<Rightarrow> bool) \<Rightarrow> ('a \<Rightarrow> 'k set) \<Rightarrow> bool" where
  "does K m P g =
     (\<forall>s. ok s \<longrightarrow> (\<forall>k \<in> K. known k s) \<longrightarrow> le s (snd (m s)) \<and>
        (\<forall>x. fst (m s) = Inr x \<longrightarrow> P x \<and> (\<forall>k \<in> g x. known k (snd (m s)))))"

abbreviation safe :: "'k set \<Rightarrow> 'a dop \<Rightarrow> bool" where
  "safe K m \<equiv> does K m (\<lambda>_. True) (\<lambda>_. {})"

lemma doesI:
  "(\<And>s r t. ok s \<Longrightarrow> \<forall>k \<in> K. known k s \<Longrightarrow> m s = (r, t) \<Longrightarrow>
      le s t \<and> (\<forall>x. r = Inr x \<longrightarrow> P x \<and> (\<forall>k \<in> g x. known k t))) \<Longrightarrow> does K m P g"
  unfolding does_def by (metis prod.collapse)

lemma doesD:
  "does K m P g \<Longrightarrow> ok s \<Longrightarrow> \<forall>k \<in> K. known k s \<Longrightarrow> m s = (r, t) \<Longrightarrow>
   le s t \<and> (\<forall>x. r = Inr x \<longrightarrow> P x \<and> (\<forall>k \<in> g x. known k t))"
  unfolding does_def by (metis fst_conv snd_conv)

lemma does_mono: "does K m Q h \<Longrightarrow> K \<subseteq> L \<Longrightarrow> (\<And>x. Q x \<Longrightarrow> P x) \<Longrightarrow> (\<And>x. g x \<subseteq> h x) \<Longrightarrow> does L m P g"
  unfolding does_def by (meson subsetD)

lemma does_ret: "P x \<Longrightarrow> g x \<subseteq> K \<Longrightarrow> does K (ret x) P g"
  by (auto simp: does_def ret_def refl)

lemma does_throw: "does K (throw e) P g"
  by (simp add: does_def throw_def refl)

lemma does_lift: "(\<And>x. r = Inr x \<Longrightarrow> P x \<and> g x \<subseteq> K) \<Longrightarrow> does K (lift r) P g"
  by (auto simp: does_def lift_def refl)

lemma safe_basic:
  "safe K (ret x)" "safe K (throw e)" "safe K (lift r)" "safe K (asks f)" "safe K (reject b e)"
  by (auto simp: does_def ret_def throw_def lift_def asks_def reject_def refl)

lemma does_then:
  assumes "does K m P g" and "\<And>x. P x \<Longrightarrow> does (g x \<union> K) (f x) Q h"
  shows "does K (andthen m f) Q h"
proof (rule doesI)
  fix s r t assume s: "ok s" "\<forall>k \<in> K. known k s" and run: "andthen m f s = (r, t)"
  obtain q u where m: "m s = (q, u)" by (cases "m s")
  note first = doesD [OF assms(1) s m]
  show "le s t \<and> (\<forall>x. r = Inr x \<longrightarrow> Q x \<and> (\<forall>k \<in> h x. known k t))"
  proof (cases q)
    case (Inl e)
    then show ?thesis using run m first by (auto simp: andthen_def)
  next
    case (Inr x)
    then have f: "f x u = (r, t)" using run m by (simp add: andthen_def)
    have "\<forall>k \<in> g x \<union> K. known k u" using first s(2) known_later Inr by blast
    from doesD [OF assms(2) ok_later [OF s(1)] this f] first Inr
    show ?thesis by (blast intro: trans)
  qed
qed

lemma does_tried:
  assumes "does K m P g"
  shows "does K (tried m) (\<lambda>r. \<forall>x. r = Inr x \<longrightarrow> P x) (\<lambda>r. case r of Inl _ \<Rightarrow> {} | Inr x \<Rightarrow> g x)"
proof (rule doesI)
  fix s r t assume s: "ok s" "\<forall>k \<in> K. known k s" and run: "tried m s = (r, t)"
  obtain q where "m s = (q, t)" "r = Inr q" using run by (auto simp: tried_def split: prod.splits)
  from doesD [OF assms s this(1)] this(2)
  show "le s t \<and> (\<forall>x. r = Inr x \<longrightarrow> (\<forall>y. x = Inr y \<longrightarrow> P y) \<and>
      (\<forall>k \<in> (case x of Inl _ \<Rightarrow> {} | Inr y \<Rightarrow> g y). known k t))"
    by (auto split: sum.splits)
qed

lemma does_then_tried:
  fixes m :: "'a dop"
  assumes "does K m P g" and "\<And>e. does K (f (Inl e)) Q h" and "\<And>x. P x \<Longrightarrow> does (g x \<union> K) (f (Inr x)) Q h"
  shows "does K (andthen (tried m) f) Q h"
proof (rule does_then [OF does_tried [OF assms(1)]])
  fix r :: "derror + 'a" assume "\<forall>x. r = Inr x \<longrightarrow> P x"
  then show "does ((case r of Inl _ \<Rightarrow> {} | Inr x \<Rightarrow> g x) \<union> K) (f r) Q h"
    using assms(2,3) by (cases r) simp_all
qed

lemma safe_then: "safe K m \<Longrightarrow> (\<And>x. does K (f x) Q h) \<Longrightarrow> does K (andthen m f) Q h"
  by (rule does_then [of K m "\<lambda>_. True" "\<lambda>_. {}"]) simp_all

lemma safe_then_tried: "safe K m \<Longrightarrow> (\<And>r. does K (f r) Q h) \<Longrightarrow> does K (andthen (tried m) f) Q h"
  by (rule does_then_tried [of K m "\<lambda>_. True" "\<lambda>_. {}"]) simp_all

lemma safe_tried: "safe K m \<Longrightarrow> safe K (tried m)"
  by (rule does_mono [OF does_tried]) auto

lemma safe_ignored: "safe K m \<Longrightarrow> safe K (ignored m)"
  unfolding ignored_def by (intro safe_then_tried safe_basic)

lemma does_named: "does K m P g \<Longrightarrow> does K (named name m) P g"
  unfolding does_def named_def by (auto split: sum.splits prod.splits)

lemma does_owned: "does K m P g \<Longrightarrow> does K (owned m) P g"
  unfolding does_def owned_def by (auto split: sum.splits prod.splits)

lemma does_deferred:
  assumes "does K m P g" and "safe {} final"
  shows "does K (deferred final m) P g"
proof (rule doesI)
  fix s r t assume s: "ok s" "\<forall>k \<in> K. known k s" and run: "deferred final m s = (r, t)"
  obtain u where m: "m s = (r, u)" and t: "t = snd (final u)"
    using run by (auto simp: deferred_def split: prod.splits)
  note first = doesD [OF assms(1) s m]
  have "le u t" using assms(2) ok_later [OF s(1)] first t unfolding does_def by blast
  then show "le s t \<and> (\<forall>x. r = Inr x \<longrightarrow> P x \<and> (\<forall>k \<in> g x. known k t))"
    using first known_later by (blast intro: trans)
qed

lemma does_if: "(b \<Longrightarrow> does K m P g) \<Longrightarrow> (\<not> b \<Longrightarrow> does K n P g) \<Longrightarrow> does K (if b then m else n) P g"
  by simp

lemma does_let: "(\<And>x. x = v \<Longrightarrow> does K (f x) P g) \<Longrightarrow> does K (let x = v in f x) P g"
  by simp

lemma does_option:
  "(v = None \<Longrightarrow> does K m P g) \<Longrightarrow> (\<And>x. v = Some x \<Longrightarrow> does K (f x) P g) \<Longrightarrow>
   does K (case v of None \<Rightarrow> m | Some x \<Rightarrow> f x) P g"
  by (cases v) simp_all

lemma does_sum:
  "(\<And>e. v = Inl e \<Longrightarrow> does K (h e) P g) \<Longrightarrow> (\<And>x. v = Inr x \<Longrightarrow> does K (f x) P g) \<Longrightarrow>
   does K (case v of Inl e \<Rightarrow> h e | Inr x \<Rightarrow> f x) P g"
  by (cases v) simp_all

lemma does_prod: "(\<And>x y. v = (x, y) \<Longrightarrow> does K (f x y) P g) \<Longrightarrow> does K (case v of (x, y) \<Rightarrow> f x y) P g"
  by (cases v) simp

lemma safe_whenever: "(b \<Longrightarrow> safe K m) \<Longrightarrow> safe K (whenever b m)"
  by (simp add: whenever_def safe_basic)

lemma safe_orelse: "safe K m \<Longrightarrow> safe K n \<Longrightarrow> safe K (orelse m n)"
  unfolding orelse_def by (intro safe_then does_if safe_basic)

lemma safe_each: "(\<And>x. x \<in> set xs \<Longrightarrow> safe K (f x)) \<Longrightarrow> safe K (each xs f)"
  by (induction xs) (auto intro: safe_basic safe_then)

lemma safe_collect: "(\<And>x. x \<in> set xs \<Longrightarrow> safe K (f x)) \<Longrightarrow> safe K (collect xs f)"
  by (induction xs) (auto intro: safe_basic safe_then)

end

section \<open>The order of the daemon's states\<close>

text \<open>What the host promises: a container that is created, started or inspected is the one of the same run (the
  executor validates the ownership of what it returns), and what others do to the service in the meantime are
  requests.\<close>

definition honest :: "controller \<Rightarrow> bool" where
  "honest c =
     ((\<forall>n spec ref. ho_create (ct_host c) n spec = Inr ref \<longrightarrow> rr_run_id ref = rr_run_id (sp_ref spec)) \<and>
      (\<forall>n ref ref'. ho_start (ct_host c) n ref = Inr ref' \<longrightarrow> rr_run_id ref' = rr_run_id ref) \<and>
      (\<forall>n ref state. ho_inspect (ct_host c) n ref = Inr state \<longrightarrow> rr_run_id (lv_ref state) = rr_run_id ref) \<and>
      (\<forall>n w. requests_lead (ct_service c) w (ho_others (ct_host c) n w)))"

definition own_monitor :: "runMonitor \<Rightarrow> bool" where
  "own_monitor m = (trim_space (mo_run_id m) = trim_space (rr_run_id (mo_ref m)))"

definition sane :: "controller \<Rightarrow> daemon \<Rightarrow> bool" where
  "sane c s = (honest c \<and> 0 \<le> sv_max_runs (ct_service c) \<and> reachable (ct_service c) (dm_world s) \<and>
     (\<forall>m \<in> set (dm_supervised s). own_monitor m))"

text \<open>The intent a command needs.\<close>

fun needed :: "command \<Rightarrow> intent" where
  "needed (CreateContainer spec) = Prepared (trim_space (rr_run_id (sp_ref spec))) (rr_launch_nonce (sp_ref spec))"
| "needed (StartContainer ref) = Issued (trim_space (rr_run_id ref))"
| "needed (StopContainer ref _) = Stopping (trim_space (rr_run_id ref))"
| "needed (RemoveContainer ref) = Over (trim_space (rr_run_id ref))"
| "needed (RemoveControl i) = Over (trim_space i)"

definition ahead :: "(command \<times> db) list \<Rightarrow> bool" where
  "ahead trace = (\<forall>(cmd, d) \<in> set trace. attests d (needed cmd))"

definition on :: "controller \<Rightarrow> daemon \<Rightarrow> daemon \<Rightarrow> bool" where
  "on c s t = (s = t \<or> sane c s \<and> sane c t \<and> evolves (w_db (dm_world s)) (w_db (dm_world t)) \<and>
     (\<exists>more. dm_trace t = dm_trace s @ more \<and> ahead more))"

definition holds :: "intent \<Rightarrow> daemon \<Rightarrow> bool" where
  "holds k s = attests (w_db (dm_world s)) k"

lemma ahead_simps [simp]: "ahead []" "ahead (xs @ ys) \<longleftrightarrow> ahead xs \<and> ahead ys"
  "ahead [(cmd, d)] \<longleftrightarrow> attests d (needed cmd)"
  by (auto simp: ahead_def)

lemma sane_facts:
  assumes "sane c s"
  shows "rows_ok (w_db (dm_world s))" "keys_distinct (w_db (dm_world s))"
  using reachable_ok [of "ct_service c" "dm_world s"] assms by (simp_all add: sane_def sound_def)

lemma holds_later: "on c s t \<Longrightarrow> holds k s \<Longrightarrow> holds k t"
  unfolding on_def holds_def using attests_later sane_facts by blast

interpretation ahead: effect_order "on c" holds "sane c" for c
proof (unfold_locales, goal_cases)
  case (2 s t u)
  then show ?case
    unfolding on_def by (elim disjE; (simp; fail)?) (auto intro: evolves_trans)
next
  case (3 k s t)
  then show ?case by (blast intro: holds_later)
qed (auto simp: on_def)

abbreviation does :: "controller \<Rightarrow> intent set \<Rightarrow> 'a dop \<Rightarrow> ('a \<Rightarrow> bool) \<Rightarrow> ('a \<Rightarrow> intent set) \<Rightarrow> bool" where
  "does c \<equiv> ahead.does c"

abbreviation safe :: "controller \<Rightarrow> intent set \<Rightarrow> 'a dop \<Rightarrow> bool" where
  "safe c K m \<equiv> does c K m (\<lambda>_. True) (\<lambda>_. {})"

section \<open>Uses of the host and the service\<close>

lemma on_world:
  assumes "sane c s" and "(advance (ct_service c))\<^sup>*\<^sup>* (dm_world s) w"
  shows "sane c (s\<lparr>dm_world := w\<rparr>)" "evolves (w_db (dm_world s)) (w_db w)"
proof -
  show "sane c (s\<lparr>dm_world := w\<rparr>)" using assms advance_reachable unfolding sane_def by auto
  show "evolves (w_db (dm_world s)) (w_db w)" by (rule advance_evolves [OF assms(2) sane_facts(2) [OF assms(1)]])
qed

lemma on_local:
  assumes "sane c s" and "dm_world t = dm_world s" and "dm_trace t = dm_trace s"
    and "\<forall>m \<in> set (dm_supervised t). own_monitor m"
  shows "on c s t"
  using assms unfolding on_def sane_def by (simp add: evolves_refl)

lemma does_update:
  "(\<And>s. dm_world (f s) = dm_world s \<and> dm_trace (f s) = dm_trace s \<and> dm_supervised (f s) = dm_supervised s) \<Longrightarrow>
   safe c K (update f)"
  by (rule ahead.doesI) (auto simp: update_def sane_def intro!: on_local)

lemma does_consult: "(\<And>n x. f n = Inr x \<Longrightarrow> P x) \<Longrightarrow> does c K (consult f) P (\<lambda>_. {})"
  by (rule ahead.doesI) (auto simp: consult_def sane_def intro!: on_local)

lemma safe_consult: "safe c K (consult f)"
  by (rule does_consult) simp

lemma safe_observe: "safe c K (observe f)"
  unfolding observe_def by (rule safe_consult)

lemma interfered_steps: "honest c \<Longrightarrow> (advance (ct_service c))\<^sup>*\<^sup>* (dm_world s) (interfered c s)"
  unfolding interfered_def honest_def using requests_advance by blast

lemma does_call:
  assumes serves: "serves (ct_service c) m" and gives: "attesting m P g"
  shows "does c K (call c m) P g"
proof (rule ahead.doesI)
  fix s r t assume s: "sane c s" "\<forall>k \<in> K. holds k s" and run: "call c m s = (r, t)"
  obtain q w where m: "m (interfered c s) = (q, w)" by (cases "m (interfered c s)")
  have t: "t = s\<lparr>dm_world := w, dm_calls := Suc (dm_calls s)\<rparr>" and r: "r = (case q of Inl e \<Rightarrow> Inl (core_error c e) | Inr x \<Rightarrow> Inr x)"
    using run m by (auto simp: call_def split: sum.splits)
  have "(advance (ct_service c))\<^sup>*\<^sup>* (dm_world s) w"
    using interfered_steps [of c s] servesD [OF serves m] s(1) unfolding sane_def by (meson rtranclp_trans)
  note steps = on_world [OF s(1) this]
  have "on c s t" using steps s(1) unfolding on_def t sane_def by simp
  moreover have "P x \<and> (\<forall>k \<in> g x. holds k t)" if "r = Inr x" for x
  proof -
    have "q = Inr x" using that r by (cases q) simp_all
    then show ?thesis using gives m unfolding attesting_def holds_def t by simp
  qed
  ultimately show "on c s t \<and> (\<forall>x. r = Inr x \<longrightarrow> P x \<and> (\<forall>k \<in> g x. holds k t))" by blast
qed

lemma safe_call: "serves (ct_service c) m \<Longrightarrow> safe c K (call c m)"
  by (rule does_call) (simp_all add: attesting_def)

lemma does_issue:
  assumes "needed cmd \<in> K" and "\<And>n x. honest c \<Longrightarrow> f n = Inr x \<Longrightarrow> P x"
  shows "does c K (issue c cmd f) P (\<lambda>_. {})"
proof (rule ahead.doesI)
  fix s r t assume s: "sane c s" "\<forall>k \<in> K. holds k s" and run: "issue c cmd f s = (r, t)"
  have honest: "honest c" using s(1) by (simp add: sane_def)
  note steps = on_world [OF s(1) interfered_steps [OF honest, of s]]
  have t: "t = s\<lparr>dm_world := interfered c s, dm_calls := Suc (dm_calls s),
      dm_trace := dm_trace s @ [(cmd, w_db (interfered c s))]\<rparr>" and r: "r = f (dm_calls s)"
    using run by (simp_all add: issue_def Let_def)
  have "on c s (s\<lparr>dm_world := interfered c s\<rparr>)" using steps s(1) by (simp add: on_def)
  then have "attests (w_db (interfered c s)) (needed cmd)"
    using holds_later s(2) assms(1) by (fastforce simp: holds_def)
  then have "on c s t" using steps s(1) unfolding on_def t sane_def by simp
  then show "on c s t \<and> (\<forall>x. r = Inr x \<longrightarrow> P x \<and> (\<forall>k \<in> {}. holds k t))"
    using assms(2) [OF honest, of "dm_calls s"] r by auto
qed

section \<open>Rules\<close>

lemma does_reject_then: "(\<not> b \<Longrightarrow> does c K (f ()) P g) \<Longrightarrow> does c K (andthen (reject b e) f) P g"
  by (cases b) (simp_all add: reject_def ahead.does_throw)

lemma does_nested:
  "does c K (andthen l (\<lambda>x. andthen (k x) f)) P g \<Longrightarrow> does c K (andthen (andthen l k) f) P g"
  "(b \<Longrightarrow> does c K (andthen m f) P g) \<Longrightarrow> (\<not> b \<Longrightarrow> does c K (andthen n f) P g) \<Longrightarrow>
   does c K (andthen (if b then m else n) f) P g"
  "does c K (andthen (h v) f) P g \<Longrightarrow> does c K (andthen (let x = v in h x) f) P g"
  "(u = None \<Longrightarrow> does c K (andthen m f) P g) \<Longrightarrow> (\<And>x. u = Some x \<Longrightarrow> does c K (andthen (k' x) f) P g) \<Longrightarrow>
   does c K (andthen (case u of None \<Rightarrow> m | Some x \<Rightarrow> k' x) f) P g"
  "(\<And>e. q = Inl e \<Longrightarrow> does c K (andthen (i e) f) P g) \<Longrightarrow> (\<And>x. q = Inr x \<Longrightarrow> does c K (andthen (j x) f) P g) \<Longrightarrow>
   does c K (andthen (case q of Inl e \<Rightarrow> i e | Inr x \<Rightarrow> j x) f) P g"
  "does c K (f x) P g \<Longrightarrow> does c K (andthen (ret x) f) P g"
  "does c K (andthen (throw e) f) P g"
  by (simp_all add: andthen_assoc ahead.does_throw split: option.split sum.split)

lemmas control_rules [does_intro] = TrueI empty_subsetI does_reject_then does_nested ahead.safe_basic
  ahead.does_ret ahead.does_throw ahead.does_if ahead.does_let ahead.does_option ahead.does_sum ahead.does_prod
  ahead.safe_whenever ahead.safe_orelse ahead.safe_each ahead.safe_collect ahead.safe_tried ahead.safe_ignored
  ahead.does_named ahead.does_owned ahead.does_deferred safe_consult safe_observe

end
