(* ===== verification/Workers.thy ===== *)
theory Workers
  imports WriteAhead
begin

text \<open>
  Every operation of the daemon writes ahead: one lemma per operation, in the order of the theories that
  model them, and the theorem on all the commands of a daemon's life.
\<close>

section \<open>Operations of the service\<close>

lemma does_bool: "(b \<Longrightarrow> does c K m P g) \<Longrightarrow> (\<not> b \<Longrightarrow> does c K n P g) \<Longrightarrow> does c K (case b of True \<Rightarrow> m | False \<Rightarrow> n) P g"
  by (cases b) simp_all

lemma serves_reads:
  "serves sv (ServiceRun i)" "serves sv (ServiceTask sv i)" "serves sv LiveRuns" "serves sv RunsNeedingCleanup"
  "serves sv (TaskHasStartedRun i)" "serves sv (LatestTerminalRun i j)" "serves sv (RuntimeLaunchContext sv' i)"
  "serves sv (AuthorizeRunScope sv' t scope)" "serves sv (ListRuns codec run_size f)"
proof -
  show "serves sv (ServiceTask sv i)"
    unfolding ServiceTask_def TaskProjection_def by (intro serves_still still_control)
  show "serves sv (ListRuns codec run_size f)"
    unfolding ListRuns_def by (intro serves_still still_control)
  show "serves sv (RuntimeLaunchContext sv' i)"
    unfolding RuntimeLaunchContext_def launchMessages_def
    by (intro serves_still transact_pure pure_control pure_calls pure_launch)
qed (unfold ServiceRun_def LiveRuns_def RunsNeedingCleanup_def TaskHasStartedRun_def LatestTerminalRun_def
    AuthorizeRunScope_def, (intro serves_still still_control still_service still_reads)+)

lemmas serves_all = serves_reads serves_runs serves_messages(7) serves_git serves_retention(4,5)
lemmas call_rules [does_intro] = serves_all [THEN safe_call]

text \<open>What is learned from a call goes into what follows it.\<close>

lemmas learned = does_call [OF serves_reads(1) ServiceRun_attests] does_call [OF serves_reads(3) LiveRuns_attests]
  does_call [OF serves_reads(4) RunsNeedingCleanup_attests] does_call [OF serves_runs(2) BeginRunLaunch_attests]
  does_call [OF serves_runs(3) RecordContainerCreated_attests] does_call [OF serves_runs(4) RecordRunStartIssued_attests]
  does_call [OF serves_runs(8) RecordRunCleanup_attests]

lemma does_stop:
  "does c K (call c (RequestRuntimeStop (ct_service c) (r_id run) reason (runtimeRequest run phase) op)) (\<lambda>_. True)
     (stop_intents (trim_space (r_id run)))"
  unfolding runtimeRequest_def
  using does_call [OF serves_runs(11) RequestRuntimeStop_attests [of "ct_service c" "r_id run" reason "r_launch_operation_id run @ '':'' @ phase" op]]
  by simp

lemma does_end:
  "does c K (call c (RecordRuntimeRunTerminal (ct_service c) i)) (\<lambda>x. r_id (tr_run x) = trim_space (rt_run_id i) \<and>
     trim_space (rt_run_id i) \<noteq> [] \<and> IsRunTerminal (r_state (tr_run x))) (\<lambda>x. {Ended (trim_space (rt_run_id i))})"
  by (rule does_call [OF serves_runs(13) RecordRuntimeRunTerminal_attests])

lemmas learning = learned does_stop does_end
lemmas learned_then = learning [THEN ahead.does_then] learning [THEN ahead.does_then_tried]
  learning [THEN ahead.does_named, THEN ahead.does_then]

section \<open>Readiness, files and monitors\<close>

lemma state_safe [does_intro]:
  "safe c K (setDegraded c reason)" "safe c K clearDegraded" "safe c K (setSchedulerDegraded c reason)"
  "safe c K clearSchedulerDegraded" "safe c K (releaseRunOperation i operation)" "safe c K (registerControl i control)"
  "safe c K (unregisterMonitor m)" "safe c K (store_log path lg)"
  unfolding setDegraded_def clearDegraded_def setSchedulerDegraded_def clearSchedulerDegraded_def
    releaseRunOperation_def registerControl_def unregisterMonitor_def store_log_def publishDegradedState_def Let_def
  by (rule does_update, simp)+

lemma acquire_safe [does_intro]: "safe c K (acquireRunOperation i)"
  by (rule ahead.doesI) (auto simp: acquireRunOperation_def sane_def ahead.refl split: if_splits intro!: on_local)

lemma register_safe [does_intro]: "safe c K (registerMonitor m)"
  by (rule ahead.doesI) (auto simp: registerMonitor_def sane_def ahead.refl split: if_splits intro!: on_local)

lemma spawn_safe: "own_monitor m \<Longrightarrow> safe c K (spawn m)"
  by (rule ahead.doesI) (auto simp: spawn_def update_def sane_def intro!: on_local)

lemma close_safe [does_intro]: "safe c K (close_once c control)"
  by (rule ahead.doesI)
     (auto simp: close_once_def Let_def sane_def ahead.refl split: option.splits prod.splits intro!: on_local)

lemma log_tail_safe [does_intro]: "safe c K (log_tail c path limit)"
  by (rule ahead.doesI) (auto simp: log_tail_def sane_def intro!: on_local)

lemma helpers_safe [does_intro]:
  "safe c K (os c operation)" "safe c K (redaction c run)" "safe c K (randomRuntimeID c name)"
  "safe c K (registered_control i)"
  unfolding os_def redaction_def randomRuntimeID_def registered_control_def
  by (intro does_intro ahead.safe_then)+

lemma closing_safe [does_intro]: "safe c K m \<Longrightarrow> safe c K (closing c temporary m)"
  unfolding closing_def by (intro does_intro | rule ahead.safe_then_tried ahead.safe_then | assumption)+

lemma files_safe [does_intro]:
  "safe c K (ensureRuntimeDirectory c path mode)" "safe c K (writeRuntimeFile c path raw mode)"
  "safe c K (canonicalExecutable c path)" "safe c K (validateRunControlDirectory c root path i)"
  unfolding ensureRuntimeDirectory_def writeRuntimeFile_def canonicalExecutable_def validateRunControlDirectory_def
  by (intro does_intro | rule ahead.safe_then_tried ahead.safe_then)+

lemma control_files_safe [does_intro]:
  "safe c K (writeRunControlMarker c path run)" "safe c K (openOwnedRunControlFileMode c path mode)"
  unfolding writeRunControlMarker_def openOwnedRunControlFileMode_def
  by (intro does_intro | rule ahead.safe_then_tried ahead.safe_then)+

lemma control_reads_safe [does_intro]:
  "safe c K (readOwnedRunControlFile c path)" "safe c K (validateOwnedRunControlFileMode c path mode)"
  unfolding readOwnedRunControlFile_def validateOwnedRunControlFileMode_def
  by (intro does_intro | rule ahead.safe_then_tried ahead.safe_then)+

lemma control_identity_safe [does_intro]: "safe c K (validateRunControlIdentity c root run)"
  unfolding validateRunControlIdentity_def
  by (intro does_intro | rule ahead.safe_then_tried ahead.safe_then)+

lemma control_safe [does_intro]: "safe c K (validateRunControl c run)"
  unfolding validateRunControl_def
  by (intro does_intro | rule ahead.safe_then_tried ahead.safe_then)+

lemma remove_control_safe: "Over (trim_space (r_id run)) \<in> K \<Longrightarrow> safe c K (removeRunControl c run)"
  unfolding removeRunControl_def
  by (intro does_issue does_intro | rule ahead.safe_then_tried ahead.safe_then)+ simp_all

lemma stream_safe [does_intro]:
  "safe c K (write_line c diagnostic line lg)" "safe c K (output_error c lg)" "safe c K (frame_event c run ref event m)"
  unfolding write_line_def output_error_def frame_event_def
  by (intro does_intro | rule ahead.safe_then_tried ahead.safe_then | cases "ev_kind event"; simp only: EventKind.case)+

lemma scan_safe [does_intro]: "safe c K (scan_frames c run ref lines m lg)"
  by (induction lines arbitrary: m lg)
     (simp only: scan_frames.simps; (intro does_intro | rule ahead.safe_then_tried ahead.safe_then | assumption)+)+

lemma logs_safe [does_intro]: "safe c K (streamLogs c run m)"
  unfolding streamLogs_def
  by (intro does_intro | rule ahead.safe_then_tried ahead.safe_then)+

lemma receive_log_safe [does_intro]: "safe c K (receive_log c m)"
  unfolding receive_log_def
  by (cases "mo_logs m"; simp only: log_source.case)
     (intro does_intro | rule ahead.safe_then_tried ahead.safe_then)+

lemma collect_safe [does_intro]:
  "safe c K (collectLogs c m)" "safe c K (cancelAndCollectLogs c m)" "safe c K (receive_wait c ref)"
  unfolding cancelAndCollectLogs_def collectLogs_def receive_wait_def
  by (intro does_intro | rule ahead.safe_then_tried ahead.safe_then)+

text \<open>A monitor that has read its log is still one of the same run; a new one belongs to the run and its
  container.\<close>

definition kin :: "runMonitor \<Rightarrow> runMonitor \<Rightarrow> bool" where
  "kin m m' = (mo_run_id m' = mo_run_id m \<and> mo_ref m' = mo_ref m)"

lemma kin_simps [simp]:
  "kin m m" "kin m (setRuntimeError code message m')= kin m m'" "kin m (setLogFailure e m') = kin m m'"
  "kin m (rememberLogResult err m') = kin m m'"
  by (simp_all add: kin_def setRuntimeError_def setLogFailure_def rememberLogResult_def)

lemma own_kin: "kin m m' \<Longrightarrow> own_monitor m' = own_monitor m"
  by (simp add: kin_def own_monitor_def)

lemma frame_event_kin: "does c K (frame_event c run ref event m) (\<lambda>x. kin m (snd x)) (\<lambda>_. {})"
  unfolding frame_event_def
  by (cases "ev_kind event"; simp only: EventKind.case)
     (intro does_intro | rule ahead.safe_then_tried ahead.safe_then | simp)+

lemma scan_kin: "kin m0 m \<Longrightarrow> does c K (scan_frames c run ref lines m lg) (\<lambda>x. kin m0 (fst (snd x))) (\<lambda>_. {})"
proof (induction lines arbitrary: K m lg)
  case (Cons line lines)
  show ?case
    unfolding scan_frames.simps
    by (intro frame_event_kin [THEN ahead.does_then] does_intro Cons.IH | rule ahead.safe_then_tried ahead.safe_then | (use Cons.prems in \<open>auto simp: kin_def; fail\<close>))+
qed (simp add: ahead.does_ret)

lemma streamLogs_kin: "does c K (streamLogs c run m) (\<lambda>x. kin m (snd x)) (\<lambda>_. {})"
  unfolding streamLogs_def
  by (intro scan_kin [OF kin_simps(1), THEN ahead.does_then] does_intro | rule ahead.safe_then_tried ahead.safe_then | simp)+

lemma receive_log_kin: "does c K (receive_log c m) (\<lambda>x. kin m (snd x)) (\<lambda>_. {})"
  unfolding receive_log_def
  by (cases "mo_logs m"; simp only: log_source.case)
     (intro streamLogs_kin [THEN ahead.does_then] does_intro | simp)+

lemma collectLogs_kin: "does c K (collectLogs c m) (\<lambda>x. kin m (snd x)) (\<lambda>_. {})"
  unfolding collectLogs_def
  by (intro receive_log_kin does_intro | rule ahead.safe_then_tried ahead.safe_then | simp)+

lemma newMonitor_does:
  "does c K (newMonitor c run ref entry control) (\<lambda>m. mo_run_id m = r_id run \<and> mo_ref m = ref) (\<lambda>_. {})"
  unfolding newMonitor_def
  by (intro does_intro | rule ahead.safe_then_tried ahead.safe_then | simp)+

lemmas monitor_then = newMonitor_does [THEN ahead.does_then] newMonitor_does [THEN ahead.does_then_tried]
  streamLogs_kin [THEN ahead.does_then] receive_log_kin [THEN ahead.does_then] collectLogs_kin [THEN ahead.does_then]

section \<open>Cleanup\<close>

text \<open>What ended is over, and what is over is to stop.\<close>

lemma does_cut:
  assumes "\<And>s. \<forall>k \<in> K. holds k s \<Longrightarrow> holds j s" and "does c (insert j K) m P g"
  shows "does c K m P g"
proof (rule ahead.doesI)
  fix s r t assume s: "sane c s" "\<forall>k \<in> K. holds k s" and m: "m s = (r, t)"
  have "\<forall>k \<in> insert j K. holds k s" using s(2) assms(1) by blast
  from ahead.doesD [OF assms(2) s(1) this m]
  show "on c s t \<and> (\<forall>x. r = Inr x \<longrightarrow> P x \<and> (\<forall>k \<in> g x. holds k t))" .
qed

lemma holds_over: "holds (Over i) s \<Longrightarrow> holds (Stopping i) s"
  by (auto simp: holds_def stands_for_def)

lemma holds_ended: "holds (Ended j) s \<Longrightarrow> i = j \<or> holds (Named i j) s \<Longrightarrow> holds (Over i) s"
  by (auto simp: holds_def stands_for_def)

lemma over_stopping: "Over i \<in> K \<Longrightarrow> does c (insert (Stopping i) K) m P g \<Longrightarrow> does c K m P g"
  by (rule does_cut [OF holds_over]) blast

lemma ended_over:
  "Ended j \<in> K \<Longrightarrow> i = j \<or> Named i j \<in> K \<Longrightarrow> does c (insert (Over i) K) m P g \<Longrightarrow> does c K m P g"
  by (rule does_cut [OF holds_ended [of j _ i]]) blast+

lemma close_control_safe [does_intro]: "safe c K (closeControlContext c i control)"
  unfolding closeControlContext_def
  by (intro does_intro does_update | rule ahead.safe_then_tried ahead.safe_then | (simp; fail))+

lemma record_cleanup_does:
  "does c K (record_cleanup c run ref phase state lastError) (\<lambda>r. r_id r = trim_space (r_id run)) intents"
  unfolding record_cleanup_def using learned(7) [of c K "runtimeFactInput run ref phase"] by (simp add: runtimeFactInput_def)

lemma record_cleanup_safe [does_intro]: "safe c K (record_cleanup c run ref phase state lastError)"
  unfolding record_cleanup_def by (intro does_intro)

lemma degrade_safe [does_intro]: "safe c K (degrade_if_unavailable c e)" "safe c K (blockCleanup c run ref e)"
  unfolding blockCleanup_def degrade_if_unavailable_def
  by (intro does_intro | rule ahead.safe_then_tried ahead.safe_then)+

lemma cleanup_steps_safe:
  assumes "Over (trim_space (r_id (cu_run state))) \<in> K" and "Over (trim_space (rr_run_id (cu_ref state))) \<in> K"
  shows "safe c K (each runtimeCleanupSteps (\<lambda>(name, step). named name (step c state)))"
proof -
  have "safe c K (stopCleanupContainer c state)"
    unfolding stopCleanupContainer_def
    by (rule over_stopping [OF assms(2)])
       (intro does_issue does_intro | rule ahead.safe_then_tried ahead.safe_then | simp)+
  moreover have "safe c K (removeCleanupContainer c state)"
    unfolding removeCleanupContainer_def using assms(2) by (intro does_issue does_intro) simp_all
  moreover have "safe c K (closeCleanupControl c state)"
    unfolding closeCleanupControl_def by (intro does_intro | rule ahead.safe_then)+
  moreover have "safe c K (removeCleanupControl c state)"
    unfolding removeCleanupControl_def by (rule remove_control_safe [OF assms(1)])
  ultimately show ?thesis
    unfolding runtimeCleanupSteps_def each.simps prod.case andthen_ret
    by (intro ahead.safe_then ahead.does_named ahead.safe_basic)
qed

lemma cleanup_over:
  assumes "Over (trim_space (r_id run)) \<in> K" and "Over (trim_space (rr_run_id ref)) \<in> K"
  shows "safe c K (cleanupRun c run ref control monitor)"
  unfolding cleanupRun_def
  by (intro record_cleanup_does [THEN ahead.does_then] cleanup_steps_safe does_intro
      | rule ahead.safe_then_tried ahead.safe_then | (use assms in \<open>simp; fail\<close>))+

lemma cleanupRun_safe:
  assumes "Ended (trim_space (r_id run)) \<in> K"
    and "trim_space (rr_run_id ref) = trim_space (r_id run) \<or> Named (trim_space (rr_run_id ref)) (trim_space (r_id run)) \<in> K"
  shows "safe c K (cleanupRun c run ref control monitor)"
  by (rule ended_over [OF assms(1), of "trim_space (rr_run_id ref)"], use assms(2) in simp,
      rule ended_over [of "trim_space (r_id run)" _ "trim_space (r_id run)"]) (use assms(1) in \<open>simp_all add: cleanup_over\<close>)

section \<open>Stop intents and the end of a run\<close>

lemma clock_safe [does_intro]: "safe c K (deadlineReached c st)" "safe c K (runStalled c run)"
  unfolding deadlineReached_def runStalled_def
  by (intro does_intro | rule ahead.safe_then_tried ahead.safe_then)+

text \<open>What is known of the run that an intent is reconciled for.\<close>

definition renamed :: "run \<Rightarrow> run \<Rightarrow> intent set" where
  "renamed run updated = (if trim_space (r_id updated) = trim_space (r_id run) then {}
     else {Named (trim_space (r_id run)) (trim_space (r_id updated))})"

lemma reconcileDurableIntent_does:
  assumes "intents run \<subseteq> K"
  shows "does c K (reconcileDurableIntent c run) (\<lambda>(updated, _, h). \<not> h \<longrightarrow> updated = run)
     (\<lambda>(updated, _, h). renamed run updated \<union> intents updated \<union> (if h then {Stopping (trim_space (r_id run))} else {}))"
  unfolding reconcileDurableIntent_def
  by (intro does_stop [THEN ahead.does_then] does_intro
      | rule ahead.safe_then_tried ahead.safe_then | (use assms in \<open>(auto simp: renamed_def stop_intents_def; fail)\<close>))+

lemmas reconcile_then = reconcileDurableIntent_does [THEN ahead.does_then]
  reconcileDurableIntent_does [THEN ahead.does_then_tried] reconcileDurableIntent_does [THEN ahead.does_named, THEN ahead.does_then]

lemma stopOwnedContainer_safe: "Stopping (trim_space (rr_run_id ref)) \<in> K \<Longrightarrow> safe c K (stopOwnedContainer c ref)"
  unfolding stopOwnedContainer_def
  by (intro does_issue does_intro | rule ahead.safe_then_tried ahead.safe_then | (simp; fail))+

lemma stopForDurableIntent_safe:
  assumes "own_monitor m" shows "safe c K (stopForDurableIntent c m)"
  unfolding stopForDurableIntent_def
  by (intro learned_then reconcile_then stopOwnedContainer_safe does_intro
      | rule ahead.safe_then_tried ahead.safe_then | (use assms in \<open>(auto simp: own_monitor_def; fail)\<close>))+

lemma stop_after_log_failure_safe:
  assumes "intents run \<subseteq> K" and "trim_space (rr_run_id (mo_ref m)) = trim_space (r_id run)"
  shows "safe c K (stop_after_log_failure c m run)"
  unfolding stop_after_log_failure_def
  by (intro reconcile_then does_stop [THEN ahead.does_then_tried] stopOwnedContainer_safe does_intro does_bool
      | rule ahead.safe_then_tried ahead.safe_then | (use assms in \<open>(auto simp: stop_intents_def; fail)\<close>))+

lemma stopForLogFailure_does:
  assumes "own_monitor m" shows "does c K (stopForLogFailure c m failure) (kin m) (\<lambda>_. {})"
  unfolding stopForLogFailure_def
  by (intro learned_then stopOwnedContainer_safe stop_after_log_failure_safe does_intro
      | rule ahead.safe_then_tried ahead.safe_then | (use assms in \<open>(auto simp: own_monitor_def setLogFailure_def kin_def; fail)\<close>))+

text \<open>A reference is the one of a run, or its identifier was answered with the run.\<close>

definition refers :: "intent set \<Rightarrow> RuntimeRef \<Rightarrow> string \<Rightarrow> bool" where
  "refers K ref i = (trim_space (rr_run_id ref) = trim_space i \<or> Named (trim_space (rr_run_id ref)) (trim_space i) \<in> K)"

lemma refers_same: "trim_space (rr_run_id ref) = trim_space i \<Longrightarrow> refers K ref i"
  by (simp add: refers_def)

lemma cleanup_failed_launch_safe:
  assumes "Ended (trim_space (r_id (tr_run terminal))) \<in> K" and "rr_run_id ref = [] \<or> refers K ref (r_id (tr_run terminal))"
  shows "safe c K (cleanup_failed_launch c terminal ref control)"
  unfolding cleanup_failed_launch_def
  by (intro cleanupRun_safe does_intro) (use assms in \<open>auto simp: runtimeRef_def refers_def\<close>)

lemma finish_live_run_safe:
  assumes "refers K (mo_ref m) (mo_run_id m)" and "trim_space (mo_run_id m) = trim_space (r_id run)"
  shows "safe c K (finish_live_run c run m result)"
  unfolding finish_live_run_def
  by (intro collectLogs_kin [THEN ahead.does_then] learned_then cleanupRun_safe does_intro
      | rule ahead.safe_then_tried ahead.safe_then
      | (use assms in \<open>(auto simp: refers_def setLogFailure_def kin_def runtimeTerminalInput_def split: option.splits; fail)\<close>))+

lemma finishObservedRun_safe:
  assumes "refers K (mo_ref m) (mo_run_id m)" and "\<And>run. previous = Some run \<Longrightarrow> intents run \<subseteq> K \<and> trim_space (mo_run_id m) = trim_space (r_id run)"
  shows "safe c K (finishObservedRun c previous m result)"
  unfolding finishObservedRun_def
  by (intro learned_then cleanupRun_safe finish_live_run_safe does_intro
      | rule ahead.safe_then_tried ahead.safe_then
      | (use assms in \<open>(auto simp: refers_def; fail)\<close>))+

lemma fail_safe [does_intro]: "safe c K (failUnpreparedRun c run code message)"
  unfolding failUnpreparedRun_def
  by (intro does_intro | rule ahead.safe_then_tried ahead.safe_then)+

lemma failPreparedRun_safe:
  assumes "rr_run_id ref = [] \<or> trim_space (rr_run_id ref) = trim_space (r_id run) \<or> trim_space (r_id run) = []"
  shows "safe c K (failPreparedRun c run ref control code cause)"
  unfolding failPreparedRun_def
  by (intro learned_then cleanup_failed_launch_safe does_intro
      | rule ahead.safe_then_tried ahead.safe_then
      | (use assms in \<open>(auto simp: refers_def runtimeTerminalInput_def; fail)\<close>))+

lemma failSecretsUnavailable_safe:
  assumes "refers K ref (r_id run)"
  shows "safe c K (failSecretsUnavailable c run ref control)"
  unfolding failSecretsUnavailable_def
  by (intro learned_then cleanup_failed_launch_safe does_intro
      | rule ahead.safe_then_tried ahead.safe_then
      | (use assms in \<open>(auto simp: refers_def runtimeTerminalInput_def; fail)\<close>))+

section \<open>Supervision\<close>

lemma own_refers: "own_monitor m \<Longrightarrow> refers K (mo_ref m) (mo_run_id m)"
  by (simp add: own_monitor_def refers_def)

abbreviation kin_step :: "supervision \<Rightarrow> supervision \<times> bool \<Rightarrow> bool" where
  "kin_step su \<equiv> \<lambda>x. kin (su_monitor su) (su_monitor (fst x))"

lemma supervise_wait_does:
  assumes "own_monitor (su_monitor su)" shows "does c K (supervise_wait c result su) (kin_step su) (\<lambda>_. {})"
  unfolding supervise_wait_def
  by (intro finishObservedRun_safe does_intro
      | rule ahead.safe_then_tried ahead.safe_then | (use assms in \<open>(simp add: own_refers; fail)\<close>))+

lemma supervise_logs_does:
  assumes "own_monitor (su_monitor su)" shows "does c K (supervise_logs c su) (kin_step su) (\<lambda>_. {})"
  unfolding supervise_logs_def
  by (intro receive_log_kin [THEN ahead.does_then] stopForLogFailure_does [THEN ahead.does_then] does_intro
      | rule ahead.safe_then_tried ahead.safe_then | (use assms in \<open>(auto simp: own_monitor_def kin_def; fail)\<close>))+

lemma supervise_inspect_does:
  assumes "own_monitor (su_monitor su)" and "intents run \<subseteq> K" and "trim_space (mo_run_id (su_monitor su)) = trim_space (r_id run)"
  shows "does c K (supervise_inspect c run su) (kin_step su) (\<lambda>_. {})"
  unfolding supervise_inspect_def
  by (intro finishObservedRun_safe does_intro
      | rule ahead.safe_then_tried ahead.safe_then | (use assms in \<open>(auto simp: own_refers; fail)\<close>))+

lemma supervise_tick_does:
  assumes "own_monitor (su_monitor su)" shows "does c K (supervise_tick c su) (kin_step su) (\<lambda>_. {})"
  unfolding supervise_tick_def
  by (intro learned_then stopForDurableIntent_safe [THEN ahead.safe_then] stopForLogFailure_does [THEN ahead.does_then]
        stopOwnedContainer_safe [THEN ahead.safe_then] supervise_inspect_does does_intro
      | rule ahead.safe_then_tried ahead.safe_then | (use assms in \<open>(auto simp: own_monitor_def; fail)\<close>))+

lemma supervise_step_does:
  assumes "own_monitor (su_monitor su)" shows "does c K (supervise_step c event su) (kin_step su) (\<lambda>_. {})"
  unfolding supervise_step_def
  by (cases event; simp only: supervise_event.case)
     (intro supervise_wait_does supervise_logs_does supervise_tick_does stopForDurableIntent_safe [THEN ahead.safe_then]
        does_intro assms | simp)+

lemma supervise_loop_does:
  "own_monitor (su_monitor su) \<Longrightarrow> does c K (supervise_loop c events su) (kin_step su) (\<lambda>_. {})"
proof (induction events arbitrary: K su)
  case (Cons event events)
  show ?case
    unfolding supervise_loop.simps
    by (intro supervise_step_does [THEN ahead.does_then] does_intro ahead.does_mono [OF Cons.IH]
        | (use Cons.prems in \<open>(auto simp: own_monitor_def kin_def; fail)\<close>))+
qed (simp add: ahead.does_ret)

lemma supervise_safe: "own_monitor m \<Longrightarrow> safe c K (supervise c events m)"
  unfolding supervise_def
  by (intro supervise_loop_does [THEN ahead.does_then] does_intro | rule ahead.safe_then | (simp; fail))+

section \<open>Launch\<close>

definition same_container :: "runtimePrepareState \<Rightarrow> runtimePrepareState \<Rightarrow> bool" where
  "same_container st st' = (ps_run st' = ps_run st \<and> ps_ref st' = ps_ref st)"

text \<open>The reference is the one of the run; when a step failed, it may also be empty, or the run unknown.\<close>

definition paired :: "runtimePrepareState \<Rightarrow> bool" where
  "paired st = (trim_space (rr_run_id (ps_ref st)) = trim_space (r_id (ps_run st)))"

definition abandoned :: "runtimePrepareState \<Rightarrow> bool" where
  "abandoned st = (rr_run_id (ps_ref st) = [] \<or> paired st \<or> trim_space (r_id (ps_run st)) = [])"

abbreviation keeps_container :: "runtimePrepareState \<Rightarrow> derror option \<times> runtimePrepareState \<Rightarrow> bool" where
  "keeps_container st \<equiv> \<lambda>x. same_container st (snd x)"

definition steady :: "prepare_step \<Rightarrow> bool" where
  "steady step = (\<forall>c K st. does c K (step c st) (keeps_container st) (\<lambda>_. {}))"

lemma stepped_does: "safe c K m \<Longrightarrow> does c K (stepped m st) (keeps_container st) (\<lambda>_. {})"
  unfolding stepped_def
  by (intro does_intro | rule ahead.safe_then_tried | assumption | (simp add: same_container_def; fail))+

lemma prepareWorkspace_safe [does_intro]: "safe c K (prepareWorkspace c run spec)"
  unfolding prepareWorkspace_def
  by (intro does_intro | rule ahead.safe_then_tried ahead.safe_then)+

lemma openRunControl_safe [does_intro]: "safe c K (openRunControl c run path)"
  unfolding openRunControl_def by (intro does_intro)

lemma steady_steps:
  "steady prepareRuntimeWorkspace" "steady prepareRuntimeDirectories" "steady writeRuntimeToken"
  "steady writeRuntimeBootstrap" "steady writeRuntimeInstructions" "steady writeRuntimeSecrets"
  "steady writeRuntimeLaunch" "steady openRuntimeControl" "steady attachRuntimeStreams"
proof -
  show "steady openRuntimeControl"
    unfolding steady_def openRuntimeControl_def
    by (intro allI does_intro | rule ahead.safe_then_tried ahead.safe_then | (simp add: same_container_def; fail))+
qed (unfold steady_def prepareRuntimeWorkspace_def prepareRuntimeDirectories_def writeRuntimeToken_def
    writeRuntimeBootstrap_def writeRuntimeInstructions_def writeRuntimeSecrets_def writeRuntimeLaunch_def
    attachRuntimeStreams_def Let_def,
  (intro allI stepped_does does_intro | rule ahead.safe_then_tried ahead.safe_then)+)

lemma containerSpec_does:
  "does c K (containerSpec c run kind command path) (\<lambda>spec. sp_ref spec = runtimeRef run) (\<lambda>_. {})"
  unfolding containerSpec_def
  by (intro does_intro | rule ahead.safe_then | (simp add: container_of_def Let_def; fail))+

lemma failed_record_id: "r_id (run_of_failed_record i w) \<in> {[], trim_space (rf_run_id i)}"
  by (auto simp: run_of_failed_record_def Let_def no_run_def created_run_def dest: row_SomeD split: option.splits)

lemma record_created_does:
  assumes "paired st"
  shows "does c K (record_created c st) (\<lambda>(e, st'). if e = None then paired st' else abandoned st')
    (\<lambda>(e, st'). if e = None then intents (ps_run st') else {})"
proof -
  have failed: "abandoned (st\<lparr>ps_run := run_of_failed_record (runtimeFactInput (ps_run st) (ps_ref st) phase) w\<rparr>)" for w phase
    using assms failed_record_id [of "runtimeFactInput (ps_run st) (ps_ref st) phase" w]
    by (auto simp: abandoned_def paired_def runtimeFactInput_def)
  show ?thesis
    unfolding record_created_def
    by (intro learned_then does_intro | rule ahead.safe_then_tried ahead.safe_then
        | (use assms failed in \<open>(auto simp: paired_def runtimeFactInput_def; fail)\<close>))+
qed

lemma created_ref:
  assumes "intents (ps_run st) \<subseteq> K" and "r_launch_nonce (ps_run st) \<noteq> []"
  shows "does c K (andthen (lift (launch_command entry (ps_run st) ls)) (\<lambda>command.
      andthen (containerSpec c (ps_run st) kind command path) (\<lambda>spec.
      issue c (CreateContainer spec) (\<lambda>n. ho_create (ct_host c) n spec)))) (\<lambda>ref. rr_run_id ref = r_id (ps_run st)) (\<lambda>_. {})"
  by (intro containerSpec_does [THEN ahead.does_then] does_issue | rule ahead.safe_then | intro does_intro
      | (use assms in \<open>(auto simp: runtimeRef_def honest_def; fail)\<close>))+

lemma createRuntimeContainer_does:
  assumes "intents (ps_run st) \<subseteq> K" and "r_launch_nonce (ps_run st) \<noteq> []"
  shows "does c K (createRuntimeContainer c st) (\<lambda>(e, st'). if e = None then paired st' else abandoned st')
    (\<lambda>(e, st'). if e = None then intents (ps_run st') else {})"
  unfolding createRuntimeContainer_def
  by (intro created_ref [OF assms, THEN ahead.does_then_tried] record_created_does does_intro
      | (auto simp: paired_def abandoned_def no_ref_def; fail))+

lemma startRuntimeCLI_does:
  assumes "paired st"
  shows "does c K (startRuntimeCLI c st) (\<lambda>(e, st'). paired st') (\<lambda>(e, st'). if e = None then intents (ps_run st') else {})"
proof -
  have start: "does c L (issue c (StartContainer ref) (\<lambda>n. ho_start (ct_host c) n ref)) (\<lambda>ref'. rr_run_id ref' = rr_run_id ref) (\<lambda>_. {})"
    if "Issued (trim_space (rr_run_id ref)) \<in> L" for L ref
    using that by (intro does_issue) (auto simp: honest_def)
  show ?thesis
    unfolding startRuntimeCLI_def
    by (intro learned_then start [THEN ahead.does_then_tried] does_intro
        | (use assms in \<open>(auto simp: paired_def runtimeFactInput_def; fail)\<close>))+
qed

lemma finish_launch_does:
  assumes "own_monitor m" and "intents (ps_run st) \<subseteq> K" and "trim_space (mo_run_id m) = trim_space (r_id (ps_run st))"
  shows "does c K (finish_launch c m st) (keeps_container st) (\<lambda>_. {})"
  unfolding finish_launch_def
  by (intro finishObservedRun_safe does_intro | rule ahead.safe_then_tried ahead.safe_then
      | (use assms in \<open>(auto simp: same_container_def own_refers; fail)\<close>))+

lemma abandon_does: "does c K (abandon_monitor c m e st) (keeps_container st) (\<lambda>_. {})"
  unfolding abandon_monitor_def
  by (intro does_intro | rule ahead.safe_then_tried ahead.safe_then | (simp add: same_container_def; fail))+

lemma activate_does:
  assumes "own_monitor m" shows "does c K (activate c m st) (keeps_container st) (\<lambda>_. {})"
  unfolding activate_def deliver_launched_def
  by (intro abandon_does spawn_safe [THEN ahead.safe_then] does_intro | rule ahead.safe_then_tried ahead.safe_then
      | (use assms in \<open>(simp add: same_container_def; fail)\<close>))+

lemma verifyRuntimeLive_does:
  assumes "paired st" and "intents (ps_run st) \<subseteq> K"
  shows "does c K (verifyRuntimeLive c st) (keeps_container st) (\<lambda>_. {})"
  unfolding verifyRuntimeLive_def verify_registered_def
  by (intro newMonitor_does [THEN ahead.does_then_tried] finish_launch_does abandon_does activate_does does_intro
      | rule ahead.safe_then_tried ahead.safe_then
      | (use assms in \<open>(auto simp: paired_def own_monitor_def same_container_def; fail)\<close>))+

lemma launch_failed_safe: "abandoned st \<Longrightarrow> safe c K (launch_failed c st code cause)"
  unfolding launch_failed_def
  by (intro failPreparedRun_safe does_intro | rule ahead.safe_then | (auto simp: abandoned_def paired_def; fail))+

lemma steady_step_safe:
  assumes "steady step" and "abandoned st"
    and rest: "\<And>L st'. same_container st st' \<Longrightarrow> K \<subseteq> L \<Longrightarrow> safe c L (run_prepare_steps c steps st')"
  shows "safe c K (run_prepare_steps c ((name, code, step) # steps) st)"
proof -
  have "does c K (step c st) (keeps_container st) (\<lambda>_. {})" using assms(1) by (simp add: steady_def)
  then show ?thesis
    unfolding run_prepare_steps.simps
    by (rule ahead.does_then)
       (intro does_intro launch_failed_safe rest | (use assms(2) in \<open>(auto simp: same_container_def abandoned_def paired_def; fail)\<close>))+
qed

lemma steady_prefix:
  "\<forall>(name, code, step) \<in> set xs. steady step \<Longrightarrow> abandoned st \<Longrightarrow>
   (\<And>L st'. same_container st st' \<Longrightarrow> K \<subseteq> L \<Longrightarrow> safe c L (run_prepare_steps c ys st')) \<Longrightarrow>
   safe c K (run_prepare_steps c (xs @ ys) st)"
proof (induction xs arbitrary: st K)
  case Nil
  then show ?case by (simp add: same_container_def)
next
  case (Cons x xs)
  obtain name code step where x: "x = (name, code, step)" by (cases x)
  show ?case
    unfolding x append_Cons
  proof (rule steady_step_safe)
    fix L st' assume kept: "same_container st st'" "K \<subseteq> L"
    show "safe c L (run_prepare_steps c (xs @ ys) st')"
      by (rule Cons.IH) (use Cons.prems kept in \<open>auto simp: same_container_def abandoned_def paired_def\<close>)
  qed (use Cons.prems x in auto)
qed

lemma last_steps_safe:
  assumes "paired st" and "intents (ps_run st) \<subseteq> K"
  shows "safe c K (run_prepare_steps c
    [(''startCLI'', ''CONTAINER_START_FAILED'', startRuntimeCLI), (''verifyLive'', ''PROCESS_OBSERVE_FAILED'', verifyRuntimeLive)] st)"
proof -
  have verify: "safe c L (run_prepare_steps c [(''verifyLive'', ''PROCESS_OBSERVE_FAILED'', verifyRuntimeLive)] st')"
    if "paired st'" "intents (ps_run st') \<subseteq> L" for L st'
    unfolding run_prepare_steps.simps
    by (rule verifyRuntimeLive_does [OF that, THEN ahead.does_then])
       (intro does_intro launch_failed_safe | (use that in \<open>(auto simp: same_container_def abandoned_def paired_def; fail)\<close>))+
  show ?thesis
    unfolding run_prepare_steps.simps(2) [of c "''startCLI''"]
    by (rule startRuntimeCLI_does [OF assms(1), THEN ahead.does_then])
       (intro does_intro launch_failed_safe verify | (use assms in \<open>(auto simp: abandoned_def; fail)\<close>))+
qed

lemma created_steps_safe:
  assumes "intents (ps_run st) \<subseteq> K" and "r_launch_nonce (ps_run st) \<noteq> []"
  shows "safe c K (run_prepare_steps c (drop 8 runtimePrepareSteps) st)"
proof -
  have attach: "safe c L (run_prepare_steps c
      ([(''attachStreams'', ''CONTAINER_ATTACH_FAILED'', attachRuntimeStreams)] @
       [(''startCLI'', ''CONTAINER_START_FAILED'', startRuntimeCLI), (''verifyLive'', ''PROCESS_OBSERVE_FAILED'', verifyRuntimeLive)]) st')"
    if "paired st'" "intents (ps_run st') \<subseteq> L" for L st'
    by (rule steady_prefix)
       (use that steady_steps in \<open>auto simp: same_container_def abandoned_def paired_def simp del: run_prepare_steps.simps
         intro!: last_steps_safe\<close>)
  have steps: "drop 8 runtimePrepareSteps = (''createContainer'', ''CONTAINER_CREATE_FAILED'', createRuntimeContainer) #
      [(''attachStreams'', ''CONTAINER_ATTACH_FAILED'', attachRuntimeStreams)] @
      [(''startCLI'', ''CONTAINER_START_FAILED'', startRuntimeCLI), (''verifyLive'', ''PROCESS_OBSERVE_FAILED'', verifyRuntimeLive)]"
    by (simp add: runtimePrepareSteps_def)
  show ?thesis
    unfolding steps run_prepare_steps.simps(2)
    by (rule createRuntimeContainer_does [OF assms, THEN ahead.does_then])
       (intro does_intro launch_failed_safe attach | (auto simp: abandoned_def; fail))+
qed

lemma prepare_safe:
  assumes "intents (ps_run st) \<subseteq> K" and "r_launch_nonce (ps_run st) \<noteq> []" and "abandoned st"
  shows "safe c K (run_prepare_steps c runtimePrepareSteps st)"
proof -
  have "safe c K (run_prepare_steps c (take 8 runtimePrepareSteps @ drop 8 runtimePrepareSteps) st)"
  proof (rule steady_prefix)
    show "\<forall>(name, code, step) \<in> set (take 8 runtimePrepareSteps). steady step"
      by (simp add: runtimePrepareSteps_def steady_steps)
  qed (use assms in \<open>auto simp: same_container_def intro!: created_steps_safe\<close>)
  then show ?thesis by (simp only: append_take_drop_id)
qed

lemma launch_safe [does_intro]: "safe c K (launch_claimed c claim)" "safe c K (launchOwned c claim operation)" "safe c K (launch c claim)"
proof -
  have workspace: "safe c L (launch_workspace c l)" "safe c L (selectLaunchMode c l entry path fingerprint)" for L l entry path fingerprint
    unfolding launch_workspace_def selectLaunchMode_def
    by (intro does_intro | rule ahead.safe_then_tried ahead.safe_then)+
  have claimed: "safe c L (launch_claimed c claim)" for L
    unfolding launch_claimed_def
    by (intro workspace [THEN ahead.safe_then] learned_then prepare_safe does_intro | rule ahead.safe_then_tried ahead.safe_then
        | (auto simp: prepare_state_def abandoned_def no_ref_def; fail))+
  show "safe c K (launch_claimed c claim)" by (rule claimed)
  show owned: "safe c K (launchOwned c claim operation)" for K operation
    unfolding launchOwned_def by (intro does_intro claimed)
  show "safe c K (launch c claim)"
    unfolding launch_def by (intro does_intro owned | rule ahead.safe_then)+
qed

section \<open>Reconciliation\<close>

lemma adoption_safe [does_intro]:
  "safe c K (validateAdoptionBootstrap c run)" "safe c K (validateAdoptedContainer c run state)"
  "safe c K (validateRunControlLineage c path)" "safe c K (rebuildControl c run)"
  "safe c K (give_up_monitor c m e)" "safe c K (activate_adopted c run ref m)"
proof -
  show bootstrap: "safe c K (validateAdoptionBootstrap c run)" for K
    unfolding validateAdoptionBootstrap_def by (intro does_intro | rule ahead.safe_then_tried ahead.safe_then)+
  have spec: "safe c L (containerSpec c run kind command path)" for L kind command path
    by (rule ahead.does_mono [OF containerSpec_does]) auto
  show "safe c K (validateAdoptedContainer c run state)"
    unfolding validateAdoptedContainer_def by (intro does_intro bootstrap spec | rule ahead.safe_then_tried ahead.safe_then)+
  show "safe c K (validateRunControlLineage c path)"
    unfolding validateRunControlLineage_def by (intro does_intro | rule ahead.safe_then_tried ahead.safe_then)+
  show "safe c K (rebuildControl c run)"
    unfolding rebuildControl_def by (intro does_intro | rule ahead.safe_then_tried ahead.safe_then)+
  show give_up: "safe c K (give_up_monitor c m e)" for K m e
    unfolding give_up_monitor_def by (intro does_intro | rule ahead.safe_then_tried ahead.safe_then)+
  show "safe c K (activate_adopted c run ref m)"
    unfolding activate_adopted_def by (intro does_intro give_up | rule ahead.safe_then_tried ahead.safe_then)+
qed

lemma adoptRunning_safe:
  assumes "trim_space (rr_run_id ref) = trim_space (r_id run)"
  shows "safe c K (adoptRunning c run ref entry control)"
  unfolding adoptRunning_def
  by (intro newMonitor_does [THEN ahead.does_then_tried] failSecretsUnavailable_safe spawn_safe does_intro
      | rule ahead.safe_then_tried ahead.safe_then | (use assms in \<open>(simp add: own_monitor_def refers_def; fail)\<close>))+

lemma finishMissing_safe:
  assumes "refers K ref (r_id run)" shows "safe c K (finishMissingReconciledRun c run ref ending)"
  unfolding finishMissingReconciledRun_def
  by (intro learned_then cleanupRun_safe | (use assms in \<open>(auto simp: refers_def runtimeTerminalInput_def; fail)\<close>))+

lemma reconcile_missing_safe:
  assumes "intents run \<subseteq> K" and "trim_space (rr_run_id ref) = trim_space (r_id run)"
  shows "safe c K (reconcile_missing c run ref)"
  unfolding reconcile_missing_def
  by (intro reconcile_then finishMissing_safe does_intro
      | (use assms in \<open>(auto simp: refers_def renamed_def; fail)\<close>))+

lemma stop_reconciled_safe: "Stopping (trim_space (rr_run_id ref)) \<in> K \<Longrightarrow> safe c K (stop_reconciled c ref)"
  unfolding stop_reconciled_def by (intro does_issue) simp_all

lemma await_stopped_safe:
  assumes "refers K (mo_ref m) (mo_run_id m)" and "intents run \<subseteq> K" and "trim_space (mo_run_id m) = trim_space (r_id run)"
  shows "safe c K (await_stopped c run m)"
  unfolding await_stopped_def
  by (intro finishObservedRun_safe does_intro | rule ahead.safe_then_tried ahead.safe_then
      | (use assms in \<open>(auto simp: refers_def; fail)\<close>))+

lemma stop_created_run_safe:
  assumes "Stopping (trim_space (rr_run_id ref)) \<in> K" and "refers K ref (r_id run)"
  shows "safe c K (stop_created_run c run ref)"
  unfolding stop_created_run_def
  by (intro learned_then stop_reconciled_safe [THEN ahead.safe_then] cleanupRun_safe does_intro | rule ahead.safe_then
      | (use assms in \<open>(auto simp: refers_def runtimeTerminalInput_def; fail)\<close>))+

lemma stopReconciledRun_safe:
  assumes "Stopping (trim_space (rr_run_id ref)) \<in> K" and "refers K ref (r_id run)" and "intents run \<subseteq> K"
  shows "safe c K (stopReconciledRun c run ref state entry)"
proof -
  have stop: "safe c K (if b then tried (stop_reconciled c ref) else ret (Inr ()))" for b
    using assms(1) by (intro does_intro stop_reconciled_safe)
  have monitored: "safe c K (andthen (tried (registerMonitor m)) (\<lambda>registered.
            case registered of
              Inl e \<Rightarrow> andthen (ignored (cancelAndCollectLogs c m)) (\<lambda>_. throw e)
            | Inr _ \<Rightarrow> deferred (unregisterMonitor m) (
                andthen (if lv_status state = StatusRunning then tried (stop_reconciled c ref) else ret (Inr ())) (\<lambda>stopped.
                case stopped of
                  Inl e \<Rightarrow> andthen (ignored (cancelAndCollectLogs c m)) (\<lambda>_. throw e)
                | Inr _ \<Rightarrow> await_stopped c run m))))" if "mo_run_id m = r_id run" "mo_ref m = ref" for m
    by (intro stop [THEN ahead.safe_then] await_stopped_safe does_intro | rule ahead.safe_then_tried ahead.safe_then
        | (simp add: that assms; fail))+
  have monitor: "safe c K (andthen (tried (newMonitor c run ref entry None)) f)"
    if "\<And>e. safe c K (f (Inl e))" "\<And>m. mo_run_id m = r_id run \<Longrightarrow> mo_ref m = ref \<Longrightarrow> safe c K (f (Inr m))" for f :: "derror + runMonitor \<Rightarrow> unit dop"
    by (rule newMonitor_does [THEN ahead.does_then_tried]) (use that in auto)
  show ?thesis
    unfolding stopReconciledRun_def
  proof (intro ahead.does_if stop_created_run_safe assms(1,2) monitor)
    show "safe c K (case Inl e of Inl _ \<Rightarrow> failSecretsUnavailable c run ref None | Inr m \<Rightarrow> f m)" for e :: derror and f :: "runMonitor \<Rightarrow> unit dop"
      using failSecretsUnavailable_safe [OF assms(2)] by simp
  qed (simp only: sum.case monitored)
qed

lemma resume_created_safe:
  assumes "intents run \<subseteq> K" and "trim_space (rr_run_id ref) = trim_space (r_id run)"
  shows "safe c K (resume_created c run ref entry control)"
  unfolding resume_created_def
  by (intro learned_then adoptRunning_safe does_issue [THEN ahead.does_then, of _ _ _ _ "\<lambda>_. True"] does_intro
      | rule ahead.safe_then
      | (use assms in \<open>(auto simp: runtimeFactInput_def; fail)\<close>))+

lemma resume_run_safe:
  assumes "intents run \<subseteq> K" and "trim_space (rr_run_id ref) = trim_space (r_id run)"
  shows "safe c K (resume_run c run ref state entry control)"
  unfolding resume_run_def
  by (cases "lv_status state"; simp only: ContainerStatus.case)
     (intro newMonitor_does [THEN ahead.does_then_tried] failSecretsUnavailable_safe finishObservedRun_safe
        resume_created_safe adoptRunning_safe does_intro
      | rule ahead.safe_then | (use assms in \<open>(auto simp: refers_def; fail)\<close>))+

lemma reconcile_present_safe:
  assumes "intents run \<subseteq> K" and "trim_space (rr_run_id (lv_ref state)) = trim_space (r_id run)"
  shows "safe c K (reconcile_present c run state)"
  unfolding reconcile_present_def
  by (intro learned_then reconcile_then failSecretsUnavailable_safe stopReconciledRun_safe resume_run_safe does_intro
      | rule ahead.safe_then_tried ahead.safe_then
      | (use assms in \<open>(auto simp: refers_def renamed_def runtimeFactInput_def; fail)\<close>))+

lemma inspect_does:
  "does c K (consult (\<lambda>n. ho_inspect (ct_host c) n ref)) (\<lambda>state. rr_run_id (lv_ref state) = rr_run_id ref) (\<lambda>_. {})"
  by (rule ahead.doesI) (auto simp: consult_def sane_def honest_def intro!: on_local)

lemma reconcileRun_safe:
  assumes "intents run \<subseteq> K" shows "safe c K (reconcileRun c run)"
  unfolding reconcileRun_def
  by (intro inspect_does [THEN ahead.does_then_tried] reconcile_missing_safe reconcile_present_safe does_intro
      | (use assms in \<open>(auto simp: runtimeRef_def; fail)\<close>))+

lemma reconcileOwnedRun_safe [does_intro]: "safe c K (reconcileOwnedRun c run)"
  unfolding reconcileOwnedRun_def reconcile_unprepared_def
  by (intro learned_then reconcileRun_safe does_intro | rule ahead.safe_then_tried ahead.safe_then | (auto; fail))+

section \<open>Cleanup, orphans and sweeps\<close>

lemma cleanup_terminal_run_safe:
  assumes "IsRunTerminal (r_state run)" and "intents run \<subseteq> K"
  shows "safe c K (cleanup_terminal_run c run)"
  unfolding cleanup_terminal_run_def
  by (intro cleanupRun_safe does_intro | rule ahead.safe_then_tried ahead.safe_then
      | (use assms in \<open>(auto simp: refers_def runtimeRef_def; fail)\<close>))+

lemma cleanupTerminalRuns_safe [does_intro]: "safe c K (cleanupTerminalRuns c)"
  unfolding cleanupTerminalRuns_def
  by (intro learned_then cleanup_terminal_run_safe does_intro | rule ahead.safe_then_tried ahead.safe_then | (auto; fail))+

lemma detect_safe [does_intro]: "safe c K (detect_orphans c states agents)" "safe c K (detectOrphans c)"
proof -
  show orphans: "safe c K (detect_orphans c states agents)" for states agents
    by (induction states arbitrary: agents) (unfold detect_orphans.simps, (intro does_intro | assumption | rule ahead.safe_then_tried ahead.safe_then)+)
  show "safe c K (detectOrphans c)"
    unfolding detectOrphans_def by (intro does_intro orphans | rule ahead.safe_then_tried ahead.safe_then)+
qed

lemma reconcile_runs_safe [does_intro]: "safe c K (reconcile_runs c runs)"
  by (induction runs) (unfold reconcile_runs.simps, (intro does_intro | assumption | rule ahead.safe_then_tried ahead.safe_then)+)

lemma reconcile_safe [does_intro]:
  "safe c K (reconcile_git c)" "safe c K (reconcile_sweep c)" "safe c K (Reconcile c)" "safe c K (reconcilerTick c)"
proof -
  show git: "safe c K (reconcile_git c)" for K
    unfolding reconcile_git_def by (intro does_intro | rule ahead.safe_then_tried ahead.safe_then)+
  show sweep: "safe c K (reconcile_sweep c)" for K
    unfolding reconcile_sweep_def by (intro does_intro | rule ahead.safe_then_tried ahead.safe_then)+
  show all: "safe c K (Reconcile c)" for K
    unfolding Reconcile_def by (intro does_intro git sweep | rule ahead.safe_then_tried ahead.safe_then)+
  show "safe c K (reconcilerTick c)"
    unfolding reconcilerTick_def by (intro does_intro all | rule ahead.safe_then_tried ahead.safe_then)+
qed

lemma schedulerTick_safe: "safe c K (schedulerTick c)"
proof -
  have claim: "safe c L (claimNext c)" for L
    unfolding claimNext_def by (intro does_intro | rule ahead.safe_then_tried ahead.safe_then)+
  show ?thesis
    unfolding schedulerTick_def by (intro does_intro claim | rule ahead.safe_then_tried ahead.safe_then)+
qed

lemma supervisorTick_safe: "safe c K (supervisorTick c)"
  unfolding supervisorTick_def by (intro does_intro | rule ahead.safe_then_tried ahead.safe_then)+

lemma cleanup_log_pages_safe: "safe c K (cleanup_log_pages c before fuel cursor)"
proof (induction fuel arbitrary: cursor)
  case (Suc fuel)
  have remove: "safe c L (remove_run_log c summary)" for L summary
    unfolding remove_run_log_def by (intro does_intro does_update | rule ahead.safe_then_tried ahead.safe_then | simp)+
  show ?case
    unfolding cleanup_log_pages.simps by (intro does_intro Suc remove | rule ahead.safe_then_tried ahead.safe_then)+
qed (simp add: ahead.does_ret)

lemma gcTick_safe: "safe c K (gcTick c fuel)"
proof -
  have sweeps: "safe c L (swept c (ReconcileWorkspaceGC (ct_service c)) before)" "safe c L (swept c (ReconcileGitGC (ct_service c)) before)"
    "safe c L (cleanupRunLogs c fuel before)" "safe c L (retention_cutoff c retention)" for L before retention
    unfolding swept_def cleanupRunLogs_def retention_cutoff_def
    by (intro does_intro cleanup_log_pages_safe | rule ahead.safe_then_tried ahead.safe_then)+
  show ?thesis
    unfolding gcTick_def by (intro does_intro sweeps | rule ahead.safe_then_tried ahead.safe_then)+
qed

section \<open>The shutdown\<close>

lemma collect_errors_safe: "(\<And>x. x \<in> set xs \<Longrightarrow> safe c K (f x)) \<Longrightarrow> safe c K (collect_errors xs f)"
  unfolding collect_errors_def by (rule ahead.safe_then) (intro does_intro; assumption)+

lemma poll_live_runs_safe: "safe c K (poll_live_runs c expired ticks)"
proof (induction ticks)
  case 0
  show ?case by (subst poll_live_runs.simps) (intro does_intro | rule ahead.safe_then | simp only: nat.case)+
next
  case (Suc ticks)
  show ?case by (subst poll_live_runs.simps) (intro does_intro Suc | rule ahead.safe_then | simp only: nat.case)+
qed

lemma waiting_safe [does_intro]:
  "safe c K (context_error c deadline)" "safe c K (waitForNaturalShutdown c deadline)" "safe c K (waitForRuntimeWorkers c)"
proof -
  show error: "safe c K (context_error c deadline)" for K
    unfolding context_error_def by (rule safe_consult)
  show "safe c K (waitForNaturalShutdown c deadline)"
    unfolding waitForNaturalShutdown_def runtimeNaturalShutdownGrace_def
    by (intro does_intro poll_live_runs_safe error | rule ahead.safe_then)+
  show "safe c K (waitForRuntimeWorkers c)"
    unfolding waitForRuntimeWorkers_def by (rule safe_consult)
qed

lemma randomRuntimeID_safe [does_intro]: "safe c K (randomRuntimeID c prefix)"
  unfolding randomRuntimeID_def by (intro does_intro | rule ahead.safe_then)+

lemma persist_safe [does_intro]: "safe c K (persist_shutdown_intent c run)" "safe c K (persistShutdownIntents c)"
proof -
  have stop: "safe c L (persist_stop c run)" for L run
    unfolding persist_stop_def by (intro does_intro | rule ahead.safe_then_tried ahead.safe_then)+
  have durable: "safe c L (reconcileDurableIntent c run)" if "intents run \<subseteq> L" for L run
    by (rule ahead.does_mono [OF reconcileDurableIntent_does [OF that]]) auto
  show intent: "safe c K (persist_shutdown_intent c run)" for K run
    unfolding persist_shutdown_intent_def
    by (intro learned_then durable [THEN ahead.safe_then] stop does_intro | rule ahead.safe_then_tried ahead.safe_then | (auto; fail))+
  show "safe c K (persistShutdownIntents c)"
    unfolding persistShutdownIntents_def by (intro does_intro collect_errors_safe intent | rule ahead.safe_then)+
qed

lemma shutdown_unprepared_safe: "safe c K (shutdown_unprepared c run)"
  unfolding shutdown_unprepared_def
  by (intro learned_then cleanupRun_safe does_intro | rule ahead.safe_then | (auto simp: runtimeRef_def; fail))+

lemma shutdown_monitor_does:
  "does c K (shutdown_monitor c run entry) (\<lambda>m. mo_run_id m = r_id run \<and> mo_ref m = runtimeRef run) (\<lambda>_. {})"
  unfolding shutdown_monitor_def
  by (intro streamLogs_kin [THEN ahead.does_then] does_intro | rule ahead.safe_then | (auto simp: kin_def; fail))+

lemma shutdown_container_safe:
  assumes "Stopping (trim_space (r_id run)) \<in> K" and "intents run \<subseteq> K"
  shows "safe c K (shutdown_container c deadline run)"
proof -
  have grace: "safe c L (shutdown_grace_left c deadline)" for L
    unfolding shutdown_grace_left_def by (rule safe_observe)
  have stop: "safe c L (issue c (StopContainer (runtimeRef run) grace) f)" if "K \<subseteq> L" for L grace f
    by (rule does_issue) (use assms that in \<open>auto simp: runtimeRef_def\<close>)
  show ?thesis
    unfolding shutdown_container_def Let_def
    by (intro shutdown_monitor_does [THEN ahead.does_then] grace [THEN ahead.safe_then] stop [THEN ahead.safe_then_tried]
        finishObservedRun_safe does_intro
      | rule ahead.safe_then_tried ahead.safe_then
      | (use assms in \<open>(auto simp: refers_def runtimeRef_def; fail)\<close>))+
qed

lemma shutdownRun_safe:
  assumes "intents run \<subseteq> K" shows "safe c K (shutdownRun c deadline run)"
  unfolding shutdownRun_def request_shutdown_stop_def
  by (intro learned_then shutdown_unprepared_safe shutdown_container_safe does_intro
      | rule ahead.safe_then_tried ahead.safe_then
      | (use assms in \<open>(auto simp: stop_intents_def; fail)\<close>))+

lemma converge_safe [does_intro]: "safe c K (convergeShutdownRun c deadline run)" "safe c K (convergeShutdownRuns c deadline)"
proof -
  show one: "safe c K (convergeShutdownRun c deadline run)" for K run
    unfolding convergeShutdownRun_def
    by (intro learned_then shutdownRun_safe does_intro | rule ahead.safe_then | (auto; fail))+
  show "safe c K (convergeShutdownRuns c deadline)"
    unfolding convergeShutdownRuns_def by (intro does_intro collect_errors_safe one | rule ahead.safe_then)+
qed

lemma Shutdown_safe: "safe c K (Shutdown c parent)" "safe c K (Close c)"
proof -
  have controls: "safe c L (close_controls c)" for L
    unfolding close_controls_def by (intro does_intro collect_errors_safe | rule ahead.safe_then)+
  show all: "safe c K (Shutdown c parent)" for K parent
    unfolding Shutdown_def stopRuntimeAdmission_def cancelRuntimeWorkers_def boundedRuntimeShutdownContext_def
    by (intro does_intro does_update controls | rule ahead.safe_then_tried ahead.safe_then | (simp; fail))+
  show "safe c K (Close c)"
    unfolding Close_def by (intro does_intro all | rule ahead.safe_then)+
qed

section \<open>The life of the daemon\<close>

text \<open>The workers of the daemon run, one operation after the other, in any order and any number of times; between two
  uses of the host or the service others may have sent requests. A monitor is supervised once its supervision was started.\<close>

inductive operates :: "controller \<Rightarrow> daemon \<Rightarrow> bool" for c where
  begins: "reachable (ct_service c) (dm_world s) \<Longrightarrow> dm_trace s = [] \<Longrightarrow> dm_supervised s = [] \<Longrightarrow> operates c s"
| schedules: "operates c s \<Longrightarrow> operates c (snd (schedulerTick c s))"
| watches: "operates c s \<Longrightarrow> operates c (snd (supervisorTick c s))"
| reconciles: "operates c s \<Longrightarrow> operates c (snd (reconcilerTick c s))"
| collects: "operates c s \<Longrightarrow> operates c (snd (gcTick c fuel s))"
| supervises: "operates c s \<Longrightarrow> m \<in> set (dm_supervised s) \<Longrightarrow> operates c (snd (supervise c events m s))"
| launches: "operates c s \<Longrightarrow> operates c (snd (launch c claim s))"
| shuts: "operates c s \<Longrightarrow> operates c (snd (Shutdown c deadline s))"
| closes: "operates c s \<Longrightarrow> operates c (snd (Close c s))"

lemma safe_step:
  assumes "safe c {} m" and "sane c s" and "ahead (dm_trace s)"
  shows "sane c (snd (m s)) \<and> ahead (dm_trace (snd (m s)))"
  using ahead.doesD [OF assms(1,2), of "fst (m s)" "snd (m s)"] assms(2,3) by (auto simp: on_def)

lemma operates_sane:
  assumes "operates c s" and "honest c" and "0 \<le> sv_max_runs (ct_service c)"
  shows "sane c s \<and> ahead (dm_trace s)"
  using assms(1)
proof (induction rule: operates.induct)
  case (begins s)
  then show ?case using assms(2,3) by (simp add: sane_def)
next
  case (supervises s m events)
  then have "own_monitor m" by (simp add: sane_def)
  then show ?case using safe_step [OF supervise_safe] supervises by blast
qed (use safe_step schedulerTick_safe supervisorTick_safe reconcile_safe(4) gcTick_safe launch_safe(3) Shutdown_safe in blast)+

end
