(* ===== verification/Operation.thy ===== *)
theory Operation
  imports Workers Scenario
begin

text \<open>
  The life of the daemon writes ahead: whatever its workers do, in whatever order, and whatever others request in
  between, no container is created, started, stopped or removed and no control directory is removed before the
  database attests the intent. The theorem is applied to the shutdown of a daemon with a launched run.
\<close>

definition demo_hash :: string where
  "demo_hash = hex_encode (sv_sha256 demo ''t'')"

definition demo_print :: string where
  "demo_print = ''7b22616461707465725f6964223a2261222c22696d616765223a2269222c226d''"

lemma demo_hash_text: "demo_hash = ''74'' @ replicate 62 CHR ''0''"
proof -
  have "hex_encode (replicate n 0) = replicate (2 * n) CHR ''0''" for n
    by (induction n) (simp_all add: hex_digits)
  moreover have "sv_sha256 demo ''t'' = 116 # replicate 31 0" by (simp add: runs)
  ultimately show ?thesis unfolding demo_hash_def by (simp add: hex_digits)
qed

lemma demo_hash_simps [simp]: "trim_space demo_hash = demo_hash" "demo_hash \<noteq> []"
  unfolding demo_hash_text by (simp_all add: runs numeral_eq_Suc cong: run_congs)

definition demo_launch :: RunLaunchInput where
  "demo_launch = \<lparr>ln_run_id = ''runiii'', ln_generation = 1, ln_launch_nonce = ''n'', ln_workspace_path = ''/w'',
     ln_home_path = ''/h'', ln_log_path = ''/l'', ln_instructions_hash = demo_hash,
     ln_config_fingerprint = demo_print,
     ln_launch_mode = StartMode, ln_resumed_from_run_id = [], ln_resume_native_session_id = [],
     ln_cleanup_operation_id = ''u'', ln_isolation_spec_version = 2, ln_deadline_at = NoStamp,
     ln_deadline_parses = False, ln_request_id = ''5''\<rparr>"

lemma demo_print_simps: "canonicalFingerprint demo_print = demo_print" "validateConfigFingerprint demo_print = ret ()"
  by (simp_all add: runs demo_print_def canonicalFingerprint_def validateConfigFingerprint_def sha256_size_def reject_def cong: run_congs)

lemma demo_prints:
  "inputFingerprint demo [(''adapter_id'', JString ''a''), (''image'', JString ''i''), (''model'', JString []),
     (''subagent_model'', JString []), (''base_url'', JString []), (''effort'', JString []),
     (''instructions_hash'', JString demo_hash)] = demo_print"
  by (simp add: runs demo_print_def cong: run_congs)

lemma demo_claimed_rows:
  "\<exists>h. map (\<lambda>r. (r_id r, r_project_id r, r_task_id r, r_agent_id r, r_generation r, r_state r, r_launch_nonce r, r_container_id r)) (d_runs (w_db demo_claimed)) = h"
  by simp

lemma demo_trims: "trim_space ''runiii'' = ''runiii''" "trim_space ''n'' = ''n''" "trim_space ''u'' = ''u''"
  "trim_space ''5'' = ''5''" "trim_space [] = []" "trim_space ''a'' = ''a''" "trim_space ''i'' = ''i''"
  by (simp_all add: function_runs strip.simps cong: run_congs)

lemma demo_paths: "canonical_path ''/w''" "canonical_path ''/h''" "canonical_path ''/l''"
  by (simp_all add: runs cong: run_congs)

lemma demo_normalized: "normalized_launch demo_launch = demo_launch"
  by (simp add: normalized_launch_def demo_launch_def demo_print_simps demo_trims)

lemma demo_valid: "validateLaunch demo_launch = ret ()" "request_id demo (ln_request_id demo_launch) = ret ''5''"
  by (simp_all add: validateLaunch_def request_id_def demo_launch_def demo_print_simps demo_trims demo_paths reject_def andthen_assoc
    RunIsolationSpecCurrent_def)

lemma begin_launch: "BeginRunLaunch demo demo_launch = transact (BeginRunLaunch_tx demo demo_launch ''5'')"
  by (simp add: BeginRunLaunch_def demo_normalized Let_def demo_valid)

lemma demo_instructions:
  "a_instructions_file ag = [] \<Longrightarrow> a_instructions_text ag = ''t'' \<Longrightarrow> ReadAgentInstructions demo ag = ret (''t'', demo_hash)"
  by (simp add: ReadAgentInstructions_def Let_def demo_trims reject_def demo_hash_def MaximumInstructionsBytes_def utf8_valid.simps del: demo_fields(3))

lemma demo_fingerprints:
  "a_adapter_id ag = ''a'' \<Longrightarrow> a_image ag = ''i'' \<Longrightarrow> a_model ag = [] \<Longrightarrow> a_subagent_model ag = [] \<Longrightarrow> a_base_url ag = [] \<Longrightarrow>
   a_effort ag = [] \<Longrightarrow> RuntimeConfigFingerprint demo (agent_fingerprint_input ag demo_hash) = ret demo_print"
  unfolding RuntimeConfigFingerprint_def agent_fingerprint_input_def
  by (simp add: demo_trims reject_def demo_prints del: inputFingerprint_def)

definition demo_row :: run where
  "demo_row = hd (d_runs (w_db demo_stopped))"

definition demo_agent_row :: agent where
  "demo_agent_row = hd (d_agents (w_db demo_stopped))"

definition demo_task_row :: task where
  "demo_task_row = hd (d_tasks (w_db demo_stopped))"

definition demo_run_fields :: "run list \<Rightarrow> bool" where
  "demo_run_fields rs =
    (map (\<lambda>r. (r_id r, r_task_id r, r_agent_id r, r_generation r, r_state r)) rs = [(''runiii'', ''tskii'', ''x'', 1, RunStarting)] \<and>
     map (\<lambda>r. (r_launch_phase r, r_container_id r, r_launch_nonce r, r_version r, r_requested_outcome r, r_stop_requested_at r)) rs =
       [(LaunchIntent, [], [], 2, NoOutcome, At 6)])"

definition demo_agent_fields :: "agent list \<Rightarrow> bool" where
  "demo_agent_fields rs =
    (map (\<lambda>a. (a_id a, a_instructions_file a, a_instructions_text a, a_adapter_id a, a_image a)) rs = [(''x'', [], ''t'', ''a'', ''i'')] \<and>
     map (\<lambda>a. (a_model a, a_subagent_model a, a_base_url a, a_effort a)) rs = [([], [], [], [])])"

definition demo_task_fields :: "task list \<Rightarrow> bool" where
  "demo_task_fields rs =
    (map (\<lambda>t. (t_id t, t_status t, t_current_run_id t, t_generation t, t_kind t)) rs = [(''tskii'', TaskQueued, ''runiii'', 1, TaskWork)])"

lemma demo_tables1: "demo_run_fields (d_runs (w_db demo_stopped))"
  by (simp add: runs demo_defs cong: run_congs del: canonicalMessageIDs_def [THEN fun_cong] inputFingerprint_def hashToken_def) (simp add: demo_run_fields_def)

lemma demo_tables2: "demo_agent_fields (d_agents (w_db demo_stopped))"
  by (simp add: runs demo_defs cong: run_congs del: canonicalMessageIDs_def [THEN fun_cong] inputFingerprint_def hashToken_def) (simp add: demo_agent_fields_def)

lemma demo_tables3: "demo_task_fields (d_tasks (w_db demo_stopped))"
  by (simp add: runs demo_defs cong: run_congs del: canonicalMessageIDs_def [THEN fun_cong] inputFingerprint_def hashToken_def) (simp add: demo_task_fields_def)

lemmas demo_tables = demo_tables1 [unfolded demo_run_fields_def] demo_tables2 [unfolded demo_agent_fields_def] demo_tables3 [unfolded demo_task_fields_def]

lemma demo_rows:
  "d_runs (w_db demo_stopped) = [demo_row]" "d_agents (w_db demo_stopped) = [demo_agent_row]" "d_tasks (w_db demo_stopped) = [demo_task_row]"
  using demo_tables by (auto simp: demo_row_def demo_agent_row_def demo_task_row_def)

lemma demo_row_fields:
  "r_id demo_row = ''runiii''" "r_task_id demo_row = ''tskii''" "r_agent_id demo_row = ''x''" "r_generation demo_row = 1" "r_state demo_row = RunStarting"
  "r_launch_phase demo_row = LaunchIntent" "r_container_id demo_row = []" "r_launch_nonce demo_row = []" "r_version demo_row = 2"
  "r_requested_outcome demo_row = NoOutcome" "r_stop_requested_at demo_row = At 6"
  "a_id demo_agent_row = ''x''" "a_instructions_file demo_agent_row = []" "a_instructions_text demo_agent_row = ''t''"
  "a_adapter_id demo_agent_row = ''a''" "a_image demo_agent_row = ''i''" "a_model demo_agent_row = []" "a_subagent_model demo_agent_row = []"
  "a_base_url demo_agent_row = []" "a_effort demo_agent_row = []"
  "t_id demo_task_row = ''tskii''" "t_status demo_task_row = TaskQueued" "t_current_run_id demo_task_row = ''runiii''" "t_generation demo_task_row = 1"
  "t_kind demo_task_row = TaskWork"
  using demo_tables by (simp_all add: demo_rows)

lemma demo_launch_fields:
  "ln_run_id demo_launch = ''runiii''" "ln_generation demo_launch = 1" "ln_workspace_path demo_launch = ''/w''"
  "ln_instructions_hash demo_launch = demo_hash" "ln_config_fingerprint demo_launch = demo_print" "ln_launch_mode demo_launch = StartMode"
  "ln_resumed_from_run_id demo_launch = []" "ln_isolation_spec_version demo_launch = 2"
  by (simp_all add: demo_launch_def)

definition demo_live :: run where
  "demo_live = run_columns demo_row (launched_run demo_row demo_launch)"

lemma demo_launched_row: "cas_run (launched_run demo_row demo_launch) 2 RunStarting (w_db demo_stopped) = Inr ((w_db demo_stopped)\<lparr>d_runs := [demo_live]\<rparr>)"
  by (simp add: cas_run_def cas_row_def demo_rows demo_live_def launched_run_def demo_row_fields demo_launch_fields run_checks_def on_success_def row_def
    put_row_def run_columns_def RunIsolationSpecCurrent_def RunIsolationSpecV1_def normalizedIsolationSpecVersion_def)

lemma demo_payload: "length (eventPayload [(''launch_mode'', JString (launch_mode_text StartMode)), (''phase'', JString (launch_phase_text LaunchIntent))]) \<le> 60"
  by (simp add: runs cong: run_congs)

lemma demo_begins: "d_runs (w_db (snd (BeginRunLaunch demo demo_launch demo_stopped))) = [demo_live]"
proof -
  have "\<exists>r w. BeginRunLaunch_tx demo demo_launch ''5'' demo_stopped = (Inr r, w) \<and> d_runs (w_db w) = [demo_live]"
    unfolding BeginRunLaunch_tx_def
    by (simp add: demo_rows demo_row_fields demo_launch_fields andthen_run basic_runs write_run tx_Run_def tx_Task_def tx_Agent_def
      row_def Let_def found_def demo_instructions demo_fingerprints resumeFallbackSource_def tx_UpdateRun_def nowText_def emit_def
      demo_launched_row tx_AppendEvent_def cong: run_congs)
      (use demo_payload in \<open>simp add: launched_run_def demo_launch_fields demo_row_fields mk_event_def MaximumEventPayloadBytes_def\<close>)
  then show ?thesis by (auto simp: begin_launch transact_run)
qed

definition demo_prepared :: world where
  "demo_prepared = snd (effect (BeginRunLaunch demo demo_launch) demo_stopped)"

definition demo_error :: derror where
  "demo_error = errors_New ''x''"

definition demo_host :: host where
  "demo_host = \<lparr>ho_ping = \<lambda>_. Some demo_error, ho_create = \<lambda>_ _. Inl demo_error, ho_attach = \<lambda>_ _. Inl demo_error, ho_start = \<lambda>_ _. Inl demo_error, ho_inspect = \<lambda>_ _. Inl demo_error,
     ho_wait = \<lambda>_ _. Inl demo_error, ho_waited = \<lambda>_ _. False, ho_stop = \<lambda>_ _ _. Some demo_error, ho_remove = \<lambda>_ _. Some demo_error, ho_managed = \<lambda>_. Inl demo_error,
     ho_logs = \<lambda>_ _. Inl demo_error, ho_drained = \<lambda>_ _. True, ho_parse_event = \<lambda>_ _. Inl demo_error, ho_decode_frame = \<lambda>_. None, ho_encode_frame = \<lambda>_. [],
     ho_log_create = \<lambda>_ _. Some demo_error, ho_disk = \<lambda>_ _ _. 0, ho_log_error = \<lambda>_. demo_error, ho_files = \<lambda>_ _. None, ho_os = \<lambda>_ _. Some demo_error,
     ho_temporary = \<lambda>_. [], ho_lstat = \<lambda>_ _. Inl demo_error, ho_stat = \<lambda>_ _. Inl demo_error, ho_eval_symlinks = \<lambda>_ _. Inl demo_error, ho_open = \<lambda>_ _. Inl demo_error,
     ho_euid = 0, ho_gid = 0, ho_environment = \<lambda>_ _. None, ho_now = int, ho_parse_time = \<lambda>_. None, ho_random = \<lambda>_. Inr [],
     ho_open_control = \<lambda>_ _. Some demo_error, ho_close_control = \<lambda>_ _. (None, None), ho_decode_marker = \<lambda>_. None, ho_workspace_path = \<lambda>_ _. Inl demo_error,
     ho_verify_workspace = \<lambda>_ _. Some demo_error, ho_materialize_workspace = \<lambda>_ _. Some demo_error, ho_refresh_canonical = \<lambda>_ _ _ _ _. Some demo_error,
     ho_joined = \<lambda>_. True, ho_polls = \<lambda>_. (0, False), ho_error_text = \<lambda>_. [], ho_others = \<lambda>_ w. w\<rparr>"

definition demo_daemon :: daemon where
  "demo_daemon = \<lparr>dm_world = demo_prepared, dm_calls = 0, dm_trace = [], dm_operations = [], dm_monitors = [], dm_supervised = [], dm_controls = [],
     dm_closed = [], dm_logs = [], dm_degraded = [], dm_scheduler_degraded = [],
     dm_ready = \<lparr>rn_ready = True, rn_reason = [], rn_runtime = None\<rparr>, dm_started = True, dm_shutting_down = False, dm_cancelled = False\<rparr>"

definition demo_control :: controller where
  "demo_control = \<lparr>ct_config = \<lparr>cc_data_dir = ''/d'', cc_operator_socket = ''/s'', cc_workspace_root = ''/w'', cc_agent_home_root = ''/h'',
       cc_log_root = ''/l'', cc_control_root = ''/c'', cc_coordlink = ''/b/coordlink'', cc_docker_host = [], cc_docker_network = ''n'',
       cc_provider_env_allowlist = [], cc_shutdown_grace = 10, cc_run_timeout = 0, cc_stall_timeout = 0, cc_max_parallel_runs = 1\<rparr>, ct_service = demo, ct_adapters = \<lparr>rg_entries = [], rg_names = []\<rparr>, ct_host = demo_host, ct_codec = \<lparr>cx_encode = \<lambda>_ i. i, cx_decode = \<lambda>_. None, cx_is_time = \<lambda>_. True, cx_encode_event = \<lambda>_. [], cx_decode_event = \<lambda>_. None\<rparr>,
     ct_run_size = \<lambda>_. 0, ct_log_retention = 0, ct_workspace_retention = 0, ct_task_ref_retention = 0\<rparr>"


lemma demo_prepared_runs: "d_runs (w_db demo_prepared) = [demo_live]"
  using demo_begins by (simp add: demo_prepared_def effect_world)

lemma demo_prepared_served: "served demo demo_prepared"
  unfolding demo_prepared_def by (intro served.requested demo_served request.intros)

lemma demo_honest: "honest demo_control"
  by (simp add: honest_def demo_control_def demo_host_def requests_lead_def)

lemma demo_live_fields:
  "r_id demo_live = ''runiii''" "r_state demo_live = RunStarting" "r_stop_requested_at demo_live = At 6" "r_launch_nonce demo_live = ''n''"
  by (simp_all add: demo_live_def run_columns_def launched_run_def demo_row_fields demo_launch_def)

lemma demo_reads:
  "LiveRuns demo_prepared = (Inr [demo_live], demo_prepared)" "ServiceRun ''runiii'' demo_prepared = (Inr demo_live, demo_prepared)"
  by (simp_all add: LiveRuns_def ServiceRun_def read_db_def demo_prepared_runs found_def row_def demo_trims demo_live_fields IsRunLive_def)

lemma daemon_runs:
  fixes s :: daemon
  shows "ret x s = (Inr x, s)" "throw e s = (Inl e, s)" "lift r s = (r, s)" "asks f s = (Inr (f s), s)" "update g s = (Inr (), g s)"
    "reject b e s = (if b then (Inl e, s) else (Inr (), s))"
    "tried m s = (case m s of (r, t) \<Rightarrow> (Inr r, t))"
    "observe h s = (Inr (h (dm_calls s)), s\<lparr>dm_calls := Suc (dm_calls s)\<rparr>)"
    "consult k s = (k (dm_calls s), s\<lparr>dm_calls := Suc (dm_calls s)\<rparr>)"
  by (simp_all add: ret_def throw_def lift_def asks_def update_def reject_def tried_def observe_def consult_def)

lemma demo_uses:
  "call demo_control m s = (case m (dm_world s) of (r, w) \<Rightarrow> (case r of Inl e \<Rightarrow> Inl (core_error demo_control e) | Inr x \<Rightarrow> Inr x,
     s\<lparr>dm_world := w, dm_calls := Suc (dm_calls s)\<rparr>))"
  "issue demo_control cmd f s = (f (dm_calls s), s\<lparr>dm_calls := Suc (dm_calls s), dm_trace := dm_trace s @ [(cmd, w_db (dm_world s))]\<rparr>)"
  "shutdownGrace demo_control = 10"
proof -
  have "interfered demo_control s = dm_world s" by (simp add: interfered_def demo_control_def demo_host_def)
  then show "call demo_control m s = (case m (dm_world s) of (r, w) \<Rightarrow> (case r of Inl e \<Rightarrow> Inl (core_error demo_control e) | Inr x \<Rightarrow> Inr x,
     s\<lparr>dm_world := w, dm_calls := Suc (dm_calls s)\<rparr>))"
    "issue demo_control cmd f s = (f (dm_calls s), s\<lparr>dm_calls := Suc (dm_calls s), dm_trace := dm_trace s @ [(cmd, w_db (dm_world s))]\<rparr>)"
    by (simp_all add: call_def issue_def Let_def split: prod.split sum.split)
qed (simp add: shutdownGrace_def demo_control_def)

lemma demo_hosts: "ho_now (ct_host demo_control) = int" "ho_joined (ct_host demo_control) n" "ho_stop (ct_host demo_control) n ref d = Some demo_error"
  by (simp_all add: demo_control_def demo_host_def)

lemma demo_shuts: "dm_trace (snd (Shutdown demo_control (Some 100) demo_daemon)) = [(StopContainer (runtimeRef demo_live) 10, w_db demo_prepared)]"
  unfolding Shutdown_def
  by (simp add: andthen_run daemon_runs stopRuntimeAdmission_def boundedRuntimeShutdownContext_def waitForNaturalShutdown_def
     runtimeNaturalShutdownGrace_def natural_grace_def runtimeShutdownOverhead_def context_error_def
     persistShutdownIntents_def demo_uses demo_reads demo_hosts demo_daemon_def collect_errors_def persist_shutdown_intent_def named_def demo_live_fields
     cancelRuntimeWorkers_def waitForRuntimeWorkers_def convergeShutdownRuns_def convergeShutdownRun_def acquireRunOperation_def deferred_def releaseRunOperation_def
     shutdownRun_def shutdown_container_def shutdown_grace_left_def Let_def IsRunTerminal_def errors_Join_def unless_error_def failure_of_def
     errors_Is_def demo_error_def errors_New_def close_controls_def
    cong: run_congs)

section \<open>Commands are written ahead\<close>

text \<open>C4. Whatever the workers of the daemon do, in any order and with any requests of others in between, every command
  it gives to the host was attested by the database at that moment: a container is created for a prepared launch with
  its nonce, started after the start was recorded as issued, stopped after a stop was requested, the token revoked or
  the run ended, and removed, like the control directory, only after the run ended. A host that fails, and errors of
  the service, change nothing of it.\<close>

theorem commands_written_ahead:
  assumes "operates c s" and "honest c" and "0 \<le> sv_max_runs (ct_service c)" and "(cmd, d) \<in> set (dm_trace s)"
  shows "attests d (needed cmd)"
  using operates_sane [OF assms(1-3)] assms(4) by (auto simp: ahead_def)

theorem commands_written_ahead_witness:
  "attests (w_db demo_prepared) (needed (StopContainer (runtimeRef demo_live) 10))"
proof -
  have started: "operates demo_control demo_daemon"
    by (rule operates.begins) (simp_all add: demo_daemon_def demo_control_def served_reachable demo_prepared_served)
  have limit: "0 \<le> sv_max_runs (ct_service demo_control)" by (simp add: demo_control_def)
  from operates.shuts [OF started, of "Some 100"]
  show ?thesis
    by (rule commands_written_ahead [OF _ demo_honest limit]) (simp add: demo_shuts)
qed

end
