(* ===== verification/Docker.thy ===== *)
theory Docker
  imports Reconcile "HOL-Library.Word" "HOL-Library.Signed_Division"
begin

text \<open>
  The Docker executor (internal/runtime/docker.go): the container a specification asks for as a request to the
  Docker Engine, what an inspection says about a container, and the operations of the executor as sequences of
  requests. The HTTP client, the decoding of JSON bodies and the file system are the fields of the record
  \<open>docker\<close>, the client a function of how many requests were sent. A Go map is an association list; its
  iteration order, which is arbitrary in Go, only chooses between error texts.
\<close>

section \<open>Standard library\<close>

text \<open>\<open>url.PathEscape\<close> and \<open>url.QueryEscape\<close>.\<close>

definition upper_hex :: "nat \<Rightarrow> char" where
  "upper_hex n = (if n < 10 then char_of (48 + n) else char_of (55 + n))"

definition escape_byte :: "char \<Rightarrow> string" where
  "escape_byte c = [CHR ''%'', upper_hex (of_char c div 16), upper_hex (of_char c mod 16)]"

definition unreserved :: "char \<Rightarrow> bool" where
  "unreserved c = (in_range 48 57 c \<or> in_range 65 90 c \<or> in_range 97 122 c \<or> c \<in> set ''-_.~'')"

definition PathEscape :: "string \<Rightarrow> string" where
  "PathEscape s = concat (map (\<lambda>c. if unreserved c \<or> c \<in> set ''$&+:=@'' then [c] else escape_byte c) s)"

definition QueryEscape :: "string \<Rightarrow> string" where
  "QueryEscape s = concat (map (\<lambda>c. if unreserved c then [c] else if c = CHR '' '' then ''+'' else escape_byte c) s)"

text \<open>\<open>url.Values.Encode\<close> for one value per key, sorted by key.\<close>

definition encode_query :: "(string \<times> string) list \<Rightarrow> string" where
  "encode_query values = join ''&'' (map (\<lambda>(k, v). QueryEscape k @ ''='' @ QueryEscape v) (sort_key fst values))"

text \<open>\<open>strconv.ParseInt(s, 10, 64)\<close>.\<close>

definition parse_int64 :: "string \<Rightarrow> int option" where
  "parse_int64 s =
     (let (negative, digits) = (if take 1 s = ''-'' then (True, drop 1 s) else (False, if take 1 s = ''+'' then drop 1 s else s)) in
      if digits = [] then None
      else case digits_value 0 digits of
        None \<Rightarrow> None
      | Some n \<Rightarrow> (let i = (if negative then - int n else int n) in if - (2 ^ 63) \<le> i \<and> i < 2 ^ 63 then Some i else None))"

text \<open>\<open>strings.TrimPrefix\<close> and \<open>strings.Cut\<close>.\<close>

definition trim_prefix :: "string \<Rightarrow> string \<Rightarrow> string" where
  "trim_prefix prefix s = (if take (length prefix) s = prefix then drop (length prefix) s else s)"

fun cut_at :: "char \<Rightarrow> string \<Rightarrow> (string \<times> string) option" where
  "cut_at sep [] = None"
| "cut_at sep (c # cs) =
     (if c = sep then Some ([], cs) else case cut_at sep cs of None \<Rightarrow> None | Some (l, r) \<Rightarrow> Some (c # l, r))"

definition lookup_map :: "(string \<times> string) list \<Rightarrow> string \<Rightarrow> string" where
  "lookup_map m k = (case map_of m k of None \<Rightarrow> [] | Some v \<Rightarrow> v)"

section \<open>What is asked of the engine\<close>

definition LabelManaged :: string where "LabelManaged = ''coordplane.managed''"
definition LabelContract :: string where "LabelContract = ''coordplane.runtime_contract''"
definition LabelProjectID :: string where "LabelProjectID = ''coordplane.project_id''"
definition LabelTaskID :: string where "LabelTaskID = ''coordplane.task_id''"
definition LabelAgentID :: string where "LabelAgentID = ''coordplane.agent_id''"
definition LabelRunID :: string where "LabelRunID = ''coordplane.run_id''"
definition LabelGeneration :: string where "LabelGeneration = ''coordplane.generation''"
definition LabelLaunchNonce :: string where "LabelLaunchNonce = ''coordplane.launch_nonce''"

record dockerMount =
  dm_type :: string
  dm_source :: string
  dm_target :: string
  dm_read_only :: bool
  dm_propagation :: string

record dockerHostConfig =
  hc_auto_remove :: bool
  hc_privileged :: bool
  hc_restart_policy :: string
  hc_network_mode :: string
  hc_mounts :: "dockerMount list"
  hc_cap_drop :: "string list"
  hc_security_opt :: "string list"
  hc_pids_limit :: int
  hc_memory :: int
  hc_nano_cpus :: int
  hc_readonly_rootfs :: bool
  hc_tmpfs :: "(string \<times> string) list"
  hc_group_add :: "string list"
  hc_init :: "bool option"
  hc_port_bindings :: "(string \<times> string list) list"

record dockerCreate =
  dc_image :: string
  dc_entrypoint :: "string list"
  dc_cmd :: "string list"
  dc_env :: "string list"
  dc_working_dir :: string
  dc_user :: string
  dc_labels :: "(string \<times> string) list"
  dc_attach_stdout :: bool
  dc_attach_stderr :: bool
  dc_open_stdin :: bool
  dc_tty :: bool
  dc_host_config :: dockerHostConfig

definition labelsFor :: "RuntimeRef \<Rightarrow> (string \<times> string) list" where
  "labelsFor ref =
     [(LabelManaged, ''true''), (LabelContract, ''v1''), (LabelProjectID, rr_project_id ref), (LabelTaskID, rr_task_id ref),
      (LabelAgentID, rr_agent_id ref), (LabelRunID, rr_run_id ref),
      (LabelGeneration, int_text (rr_generation ref)), (LabelLaunchNonce, rr_launch_nonce ref)]"

definition docker_mount :: "Mount \<Rightarrow> dockerMount" where
  "docker_mount m = \<lparr>dm_type = ''bind'', dm_source = mt_source m, dm_target = mt_target m, dm_read_only = mt_read_only m,
     dm_propagation = ''rprivate''\<rparr>"

definition dockerCreateRequest :: "ContainerSpec \<Rightarrow> dockerCreate" where
  "dockerCreateRequest spec =
     (let env = sort (map (\<lambda>(key, value). key @ ''='' @ value) (cs_env (sp_command spec))) in
     \<lparr>dc_image = sp_image spec, dc_entrypoint = [cs_executable (sp_command spec)], dc_cmd = cs_args (sp_command spec),
      dc_env = env, dc_working_dir = sp_working_dir spec, dc_user = sp_user spec, dc_labels = labelsFor (sp_ref spec),
      dc_attach_stdout = False, dc_attach_stderr = False, dc_open_stdin = False, dc_tty = False,
      dc_host_config =
        \<lparr>hc_auto_remove = False, hc_privileged = False, hc_restart_policy = ''no'', hc_network_mode = sp_network spec,
         hc_mounts = map docker_mount (sp_mounts spec), hc_cap_drop = [''ALL''], hc_security_opt = [''no-new-privileges''],
         hc_pids_limit = rl_pids (sp_limits spec), hc_memory = rl_memory_bytes (sp_limits spec),
         hc_nano_cpus = rl_nano_cpus (sp_limits spec), hc_readonly_rootfs = sp_read_only_root spec,
         hc_tmpfs = [(''/tmp'', ''rw,nosuid,nodev,size='' @ int_text (rl_tmpfs_bytes (sp_limits spec)))],
         hc_group_add = sp_group_add spec, hc_init = Some True, hc_port_bindings = []\<rparr>\<rparr>)"

section \<open>Validation of a specification\<close>

definition env_start :: "char \<Rightarrow> bool" where
  "env_start c = (in_range 65 90 c \<or> in_range 97 122 c \<or> c = CHR ''_'')"

definition validEnvName :: "string \<Rightarrow> bool" where
  "validEnvName value =
     (case value of [] \<Rightarrow> False | c # cs \<Rightarrow> env_start c \<and> (\<forall>d \<in> set cs. env_start d \<or> in_range 48 57 d))"

definition ref_values :: "RuntimeRef \<Rightarrow> (string \<times> string) list" where
  "ref_values ref =
     [(''container_name'', rr_container_name ref), (''project_id'', rr_project_id ref), (''task_id'', rr_task_id ref),
      (''agent_id'', rr_agent_id ref), (''run_id'', rr_run_id ref), (''launch_nonce'', rr_launch_nonce ref)]"

definition valid_ref_value :: "string \<Rightarrow> bool" where
  "valid_ref_value value = (trim_space value \<noteq> [] \<and> value = trim_space value \<and> CHR 0x00 \<notin> set value)"

definition validateRef :: "RuntimeRef \<Rightarrow> derror option" where
  "validateRef ref =
     (case find (\<lambda>(name, value). \<not> valid_ref_value value) (ref_values ref) of
        Some (name, _) \<Rightarrow> Some (errors_New (''runtime: '' @ name @ '' is required''))
      | None \<Rightarrow> if rr_generation ref < 1 then Some (errors_New ''runtime: generation must be positive'') else None)"

definition at_least :: "int \<Rightarrow> int \<Rightarrow> int" where
  "at_least fallback value = (if value \<le> 0 then fallback else value)"

definition default_limits :: "ResourceLimits \<Rightarrow> ResourceLimits" where
  "default_limits l = \<lparr>rl_pids = at_least 256 (rl_pids l), rl_memory_bytes = at_least (2 ^ 30) (rl_memory_bytes l),
     rl_nano_cpus = at_least 1000000000 (rl_nano_cpus l), rl_tmpfs_bytes = at_least (64 * 2 ^ 20) (rl_tmpfs_bytes l)\<rparr>"

text \<open>The mounts keep their order, each with its cleaned source; \<open>seen\<close> has the targets of the ones before.\<close>

fun validate_mounts :: "(string \<Rightarrow> derror + string) \<Rightarrow> nat \<Rightarrow> string list \<Rightarrow> Mount list \<Rightarrow> derror + Mount list" where
  "validate_mounts symlinks index seen [] = Inr []"
| "validate_mounts symlinks index seen (mount # mounts) =
     (if \<not> rooted_path (mt_source mount) \<or> \<not> rooted_path (mt_target mount)
      then Inl (errors_New (''runtime: mount '' @ nat_text index @ '' paths must be absolute''))
      else
        let source = clean_path (mt_source mount) in
        if symlinks source \<noteq> Inr source
        then Inl (errors_New (''runtime: mount '' @ nat_text index @ '' source is missing or traverses a symlink''))
        else if mt_target mount \<in> set seen
        then Inl (errors_New (''runtime: duplicate mount target '' @ mt_target mount))
        else case validate_mounts symlinks (Suc index) (mt_target mount # seen) mounts of
            Inl e \<Rightarrow> Inl e
          | Inr rest \<Rightarrow> Inr (mount\<lparr>mt_source := source\<rparr> # rest))"

fun validate_env :: "environment \<Rightarrow> derror option" where
  "validate_env [] = None"
| "validate_env ((key, value) # env) =
     (if \<not> validEnvName key \<or> CHR 0x00 \<in> set value
      then Some (errors_New (''runtime: invalid environment entry '' @ json_string key)) else validate_env env)"

fun validate_sensitive :: "string list \<Rightarrow> string list \<Rightarrow> derror option" where
  "validate_sensitive seen [] = None"
| "validate_sensitive seen (key # keys) =
     (if \<not> validEnvName key then Some (errors_New (''runtime: invalid sensitive environment name '' @ json_string key))
      else if key \<in> set seen then Some (errors_New (''runtime: duplicate sensitive environment name '' @ json_string key))
      else validate_sensitive (key # seen) keys)"

definition unless_found :: "derror option \<Rightarrow> 'a \<Rightarrow> derror + 'a" where
  "unless_found e x = (case e of None \<Rightarrow> Inr x | Some e \<Rightarrow> Inl e)"

definition validateContainerSpec :: "(string \<Rightarrow> derror + string) \<Rightarrow> ContainerSpec \<Rightarrow> derror + ContainerSpec" where
  "validateContainerSpec symlinks spec =
     (let uid = hd (split_on (CHR '':'') (sp_user spec)) in
      case validateRef (sp_ref spec) of
        Some e \<Rightarrow> Inl e
      | None \<Rightarrow>
        if trim_space (sp_image spec) = [] \<or> CHR 0x00 \<in> set (sp_image spec)
        then Inl (errors_New ''runtime: container image is required'')
        else if trim_space (cs_executable (sp_command spec)) = [] \<or> CHR 0x00 \<in> set (cs_executable (sp_command spec))
        then Inl (errors_New ''runtime: command executable is required'')
        else if \<not> rooted_path (sp_working_dir spec)
        then Inl (errors_New ''runtime: container working directory must be absolute'')
        else if uid = [] \<or> uid = ''0'' \<or> parse_uint32 uid = None
        then Inl (errors_New ''runtime: container user must be a nonroot numeric UID'')
        else if trim_space (sp_network spec) = [] then Inl (errors_New ''runtime: Docker network is required'')
        else case validate_mounts symlinks 0 [] (sp_mounts spec) of
            Inl e \<Rightarrow> Inl e
          | Inr mounts \<Rightarrow>
              (case validate_env (cs_env (sp_command spec)) of
                 Some e \<Rightarrow> Inl e
               | None \<Rightarrow> unless_found (validate_sensitive [] (sp_sensitive_env_keys spec))
                   (spec\<lparr>sp_limits := default_limits (sp_limits spec), sp_mounts := mounts\<rparr>)))"

section \<open>What an inspection says\<close>

record inspectConfig =
  ic_image :: string
  ic_entrypoint :: "string list"
  ic_cmd :: "string list"
  ic_env :: "string list"
  ic_working_dir :: string
  ic_user :: string
  ic_labels :: "(string \<times> string) list"

record inspectState =
  is_status :: string
  is_running :: bool
  is_pid :: int
  is_exit_code :: int

record inspectHostConfig =
  ih_auto_remove :: bool
  ih_privileged :: bool
  ih_readonly_rootfs :: bool
  ih_network_mode :: string
  ih_group_add :: "string list"
  ih_cap_add :: "string list"
  ih_cap_drop :: "string list"
  ih_security_opt :: "string list"
  ih_pids_limit :: int
  ih_memory :: int
  ih_nano_cpus :: int
  ih_init :: "bool option"
  ih_tmpfs :: "(string \<times> string) list"
  ih_port_bindings :: "(string \<times> string list) list"
  ih_restart_policy :: string

record dockerInspect =
  di_id :: string
  di_name :: string
  di_config :: inspectConfig
  di_state :: inspectState
  di_host_config :: inspectHostConfig
  di_ports :: "(string \<times> string list) list"
  di_mounts :: "MountFact list"

definition refFromLabels :: "string \<Rightarrow> string \<Rightarrow> (string \<times> string) list \<Rightarrow> derror + RuntimeRef" where
  "refFromLabels ident name labels =
     (case parse_int64 (lookup_map labels LabelGeneration) of
        None \<Rightarrow> Inl (sentinel_error RuntimeOwnership)
      | Some generation \<Rightarrow>
          if generation < 1 \<or> lookup_map labels LabelManaged \<noteq> ''true'' \<or> lookup_map labels LabelContract \<noteq> ''v1''
          then Inl (sentinel_error RuntimeOwnership)
          else
            let ref = \<lparr>rr_container_id = ident, rr_container_name = name, rr_project_id = lookup_map labels LabelProjectID,
              rr_task_id = lookup_map labels LabelTaskID, rr_agent_id = lookup_map labels LabelAgentID,
              rr_run_id = lookup_map labels LabelRunID, rr_generation = generation,
              rr_launch_nonce = lookup_map labels LabelLaunchNonce\<rparr> in
            if validateRef ref \<noteq> None then Inl (sentinel_error RuntimeOwnership) else Inr ref)"

fun environment_facts :: "(string \<Rightarrow> nat list) \<Rightarrow> string list \<Rightarrow> string list \<Rightarrow> EnvironmentFact list option" where
  "environment_facts sha seen [] = Some []"
| "environment_facts sha seen (entry # entries) =
     (case cut_at (CHR ''='') entry of
        None \<Rightarrow> None
      | Some (name, value) \<Rightarrow>
          if \<not> validEnvName name \<or> name \<in> set seen then None
          else case environment_facts sha (name # seen) entries of
              None \<Rightarrow> None
            | Some facts \<Rightarrow> Some (\<lparr>ef_name = name, ef_value_digest = environmentValueDigest sha value\<rparr> # facts))"

definition inspectEnvironment :: "(string \<Rightarrow> nat list) \<Rightarrow> string list \<Rightarrow> derror + EnvironmentFact list" where
  "inspectEnvironment sha entries =
     (case environment_facts sha [] entries of
        None \<Rightarrow> Inl (wraps RuntimeOwnership ''container isolation environment mismatch'')
      | Some facts \<Rightarrow> Inr (sort_key ef_name facts))"

definition status_of :: "string \<Rightarrow> bool \<Rightarrow> ContainerStatus" where
  "status_of status running =
     (if status = ''created'' then StatusCreated else if status = ''running'' then StatusRunning
      else if status = ''exited'' then StatusExited else if running then StatusRunning else StatusExited)"

definition published :: "(string \<times> string list) list \<Rightarrow> int" where
  "published bindings = sum_list (map (\<lambda>(_, bs). int (length bs)) bindings)"

definition same_reference :: "RuntimeRef \<Rightarrow> RuntimeRef \<Rightarrow> bool" where
  "same_reference actual expected =
     (rr_container_name actual = rr_container_name expected \<and> rr_project_id actual = rr_project_id expected \<and>
      rr_task_id actual = rr_task_id expected \<and> rr_agent_id actual = rr_agent_id expected \<and>
      rr_run_id actual = rr_run_id expected \<and> rr_generation actual = rr_generation expected \<and>
      rr_launch_nonce actual = rr_launch_nonce expected \<and>
      (rr_container_id expected = [] \<or> rr_container_id expected = rr_container_id actual))"

definition live_fact :: "dockerInspect \<Rightarrow> RuntimeRef \<Rightarrow> EnvironmentFact list \<Rightarrow> LiveState" where
  "live_fact payload actual environment =
     (let cfg = di_config payload; st = di_state payload; host = di_host_config payload;
          status = status_of (is_status st) (is_running st) in
     \<lparr>lv_ref = actual, lv_image = ic_image cfg, lv_entrypoint = ic_entrypoint cfg, lv_command_args = ic_cmd cfg,
      lv_environment = environment, lv_working_dir = ic_working_dir cfg, lv_user = ic_user cfg,
      lv_group_add = ih_group_add host, lv_network = ih_network_mode host, lv_status = status,
      lv_running = is_running st, lv_pid = is_pid st,
      lv_exit_code = (if \<not> is_running st \<and> status = StatusExited then Some (is_exit_code st) else None),
      lv_auto_remove = ih_auto_remove host, lv_restart_policy = ih_restart_policy host,
      lv_privileged = ih_privileged host, lv_readonly_rootfs = ih_readonly_rootfs host,
      lv_cap_add = ih_cap_add host, lv_cap_drop = ih_cap_drop host, lv_security_opt = ih_security_opt host,
      lv_published_ports = published (ih_port_bindings host) + published (di_ports payload),
      lv_pids_limit = ih_pids_limit host, lv_memory_bytes = ih_memory host, lv_nano_cpus = ih_nano_cpus host,
      lv_init = (ih_init host = Some True), lv_tmpfs = ih_tmpfs host, lv_mounts = di_mounts payload\<rparr>)"

definition inspectFact :: "(string \<Rightarrow> nat list) \<Rightarrow> dockerInspect \<Rightarrow> RuntimeRef \<Rightarrow> derror + LiveState" where
  "inspectFact sha payload expected =
     (case refFromLabels (di_id payload) (trim_prefix ''/'' (di_name payload)) (ic_labels (di_config payload)) of
        Inl e \<Rightarrow> Inl e
      | Inr actual \<Rightarrow>
          if \<not> same_reference actual expected then Inl (sentinel_error RuntimeOwnership)
          else (case inspectEnvironment sha (ic_env (di_config payload)) of
              Inl e \<Rightarrow> Inl e
            | Inr environment \<Rightarrow> Inr (live_fact payload actual environment)))"

section \<open>Requests\<close>

record DockerRequest =
  dq_method :: string
  dq_url :: string
  dq_body :: "dockerCreate option"

record DockerResponse =
  ds_code :: int
  ds_status :: string
  ds_body :: string

text \<open>A request fails because its context ended, or in the transport.\<close>

datatype transport_error = ContextEnded derror | TransportFailed string

record docker =
  dk_client :: bool
  dk_do :: "nat \<Rightarrow> DockerRequest \<Rightarrow> transport_error + DockerResponse"
  dk_decode_inspect :: "string \<Rightarrow> derror + dockerInspect"
  dk_decode_created :: "string \<Rightarrow> derror + string"
  dk_decode_waited :: "string \<Rightarrow> derror + int \<times> string option"
  dk_decode_rows :: "string \<Rightarrow> derror + (string \<times> string list \<times> (string \<times> string) list) list"
  dk_decode_message :: "string \<Rightarrow> string"
  dk_symlinks :: "string \<Rightarrow> derror + string"
  dk_sha :: "string \<Rightarrow> nat list"

type_synonym 'a eop = "(derror, nat, 'a) comp"

definition dockerAPIVersion :: string where "dockerAPIVersion = ''v1.44''"

definition docker_call :: "docker \<Rightarrow> string \<Rightarrow> string \<Rightarrow> dockerCreate option \<Rightarrow> DockerResponse eop" where
  "docker_call dk verb path input = (\<lambda>n.
     if \<not> dk_client dk then (Inl (sentinel_error RuntimeUnavailable), n)
     else (case dk_do dk n \<lparr>dq_method = verb, dq_url = ''http://docker'' @ path, dq_body = input\<rparr> of
         Inl (ContextEnded e) \<Rightarrow> Inl e
       | Inl (TransportFailed text) \<Rightarrow> Inl (wraps RuntimeUnavailable text)
       | Inr response \<Rightarrow> Inr response, Suc n))"

definition examined :: "'a eop \<Rightarrow> (derror + 'a) eop" where
  "examined m = (\<lambda>n. case m n of (r, n') \<Rightarrow> (Inr r, n'))"

definition bounded_message :: "string \<Rightarrow> string" where
  "bounded_message value =
     (let value = trim_space value in if 2048 < length value then take 2048 value @ ''...[truncated]'' else value)"

definition dockerResponseError :: "docker \<Rightarrow> DockerResponse \<Rightarrow> string \<Rightarrow> derror" where
  "dockerResponseError dk response action =
     (let raw = take 8192 (ds_body response);
          message = bounded_message (dk_decode_message dk raw);
          message = (if message = [] then bounded_message (trim_space raw) else message);
          message = (if message = [] then ds_status response else message) in
      errors_New (''runtime: '' @ action @ '': '' @ message))"

definition decodeResponse :: "(string \<Rightarrow> derror + 'a) \<Rightarrow> string \<Rightarrow> DockerResponse \<Rightarrow> 'a eop" where
  "decodeResponse decode what response =
     lift (case decode (take (4 * 2 ^ 20) (ds_body response)) of
         Inl e \<Rightarrow> Inl (prefixed (''runtime: decode Docker '' @ what) e) | Inr x \<Rightarrow> Inr x)"

definition containerPath :: "RuntimeRef \<Rightarrow> string \<Rightarrow> string" where
  "containerPath ref suffix =
     ''/'' @ dockerAPIVersion @ ''/containers/'' @
     PathEscape (if rr_container_id ref = [] then rr_container_name ref else rr_container_id ref) @ suffix"

section \<open>The executor\<close>

definition Ping :: "docker \<Rightarrow> unit eop" where
  "Ping dk =
    andthen (docker_call dk ''GET'' ''/_ping'' None) (\<lambda>response.
    reject (ds_code response \<noteq> 200) (dockerResponseError dk response ''ping Docker''))"

definition Inspect :: "docker \<Rightarrow> RuntimeRef \<Rightarrow> LiveState eop" where
  "Inspect dk ref =
    (let lookup = trim_space (rr_container_id ref); lookup = (if lookup = [] then trim_space (rr_container_name ref) else lookup) in
    andthen (reject (lookup = []) (errors_New ''runtime: container ID or name is required'')) (\<lambda>_.
    andthen (docker_call dk ''GET'' (''/'' @ dockerAPIVersion @ ''/containers/'' @ PathEscape lookup @ ''/json'') None) (\<lambda>response.
    if ds_code response = 404 then throw (sentinel_error ContainerNotFound)
    else if ds_code response \<noteq> 200 then throw (dockerResponseError dk response ''inspect container'')
    else
      andthen (decodeResponse (dk_decode_inspect dk) ''inspect response'' response) (\<lambda>payload.
      lift (inspectFact (dk_sha dk) payload ref)))))"

definition adopted :: "docker \<Rightarrow> ContainerSpec \<Rightarrow> LiveState \<Rightarrow> RuntimeRef eop" where
  "adopted dk spec state =
    andthen (lift (isolation_error (ValidateAdoption (dk_sha dk) spec state))) (\<lambda>_.
    ret (lv_ref state))"

definition created :: "docker \<Rightarrow> ContainerSpec \<Rightarrow> DockerResponse \<Rightarrow> RuntimeRef eop" where
  "created dk spec response =
    andthen (decodeResponse (dk_decode_created dk) ''create response'' response) (\<lambda>ident.
    andthen (reject (trim_space ident = []) (errors_New ''runtime: Docker create response omitted container ID'')) (\<lambda>_.
    andthen (Inspect dk ((sp_ref spec)\<lparr>rr_container_id := ident\<rparr>)) (\<lambda>state.
    adopted dk spec state)))"

text \<open>A conflict means that a container with the name appeared in the meantime: it is taken if it is the one asked for.\<close>

definition create_conflict :: "docker \<Rightarrow> ContainerSpec \<Rightarrow> DockerResponse \<Rightarrow> RuntimeRef eop" where
  "create_conflict dk spec response =
    andthen (examined (Inspect dk (sp_ref spec))) (\<lambda>r.
    case r of
      Inr state \<Rightarrow> adopted dk spec state
    | Inl e \<Rightarrow> if errors_Is e RuntimeOwnership then throw e else throw (dockerResponseError dk response ''create container''))"

definition create_container :: "docker \<Rightarrow> ContainerSpec \<Rightarrow> RuntimeRef eop" where
  "create_container dk spec =
    andthen (docker_call dk ''POST'' (''/'' @ dockerAPIVersion @ ''/containers/create?'' @
        encode_query [(''name'', rr_container_name (sp_ref spec))]) (Some (dockerCreateRequest spec))) (\<lambda>response.
    if ds_code response = 409 then create_conflict dk spec response
    else if ds_code response \<noteq> 201 then throw (dockerResponseError dk response ''create container'')
    else created dk spec response)"

definition Create :: "docker \<Rightarrow> ContainerSpec \<Rightarrow> RuntimeRef eop" where
  "Create dk spec =
    andthen (lift (validateContainerSpec (dk_symlinks dk) spec)) (\<lambda>spec.
    andthen (examined (Inspect dk (sp_ref spec))) (\<lambda>r.
    case r of
      Inr state \<Rightarrow> adopted dk spec state
    | Inl e \<Rightarrow> if \<not> errors_Is e ContainerNotFound then throw e else create_container dk spec))"

definition Attach :: "docker \<Rightarrow> RuntimeRef \<Rightarrow> RuntimeRef eop" where
  "Attach dk ref = andthen (Inspect dk ref) (\<lambda>state. ret (lv_ref state))"

definition Start :: "docker \<Rightarrow> RuntimeRef \<Rightarrow> RuntimeRef eop" where
  "Start dk ref =
    andthen (Inspect dk ref) (\<lambda>state.
    if lv_status state = StatusRunning then ret (lv_ref state)
    else if lv_status state = StatusExited then throw (sentinel_error RuntimeExited)
    else
      andthen (docker_call dk ''POST'' (containerPath (lv_ref state) ''/start'') None) (\<lambda>response.
      if ds_code response \<noteq> 204 \<and> ds_code response \<noteq> 304 then
        throw (if ds_code response = 404 then sentinel_error ContainerNotFound
          else dockerResponseError dk response ''start container'')
      else
        andthen (Inspect dk (lv_ref state)) (\<lambda>started.
        ret (lv_ref started))))"

record ExitFact =
  xf_ref :: RuntimeRef
  xf_exit_code :: int

definition wait_request :: "docker \<Rightarrow> LiveState \<Rightarrow> ExitFact eop" where
  "wait_request dk state =
    andthen (docker_call dk ''POST'' (containerPath (lv_ref state) ''/wait?condition=not-running'') None) (\<lambda>response.
    if ds_code response = 404 then throw (sentinel_error ContainerNotFound)
    else if ds_code response \<noteq> 200 then throw (dockerResponseError dk response ''wait for container'')
    else
      andthen (decodeResponse (dk_decode_waited dk) ''wait response'' response) (\<lambda>(code, problem).
      case problem of
        Some text \<Rightarrow>
          if trim_space text \<noteq> [] then throw (errors_New (''runtime: Docker wait failed: '' @ bounded_message text))
          else ret \<lparr>xf_ref = lv_ref state, xf_exit_code = code\<rparr>
      | None \<Rightarrow> ret \<lparr>xf_ref = lv_ref state, xf_exit_code = code\<rparr>))"

definition Wait :: "docker \<Rightarrow> RuntimeRef \<Rightarrow> ExitFact eop" where
  "Wait dk ref =
    andthen (Inspect dk ref) (\<lambda>state.
    case lv_exit_code state of
      Some code \<Rightarrow> if lv_status state = StatusExited then ret \<lparr>xf_ref = lv_ref state, xf_exit_code = code\<rparr> else wait_request dk state
    | None \<Rightarrow> wait_request dk state)"

text \<open>The value is the multiplexed body of the response, which the reader of the log takes apart.\<close>

definition Logs :: "docker \<Rightarrow> RuntimeRef \<Rightarrow> bool \<Rightarrow> string eop" where
  "Logs dk ref follow =
    andthen (Inspect dk ref) (\<lambda>state.
    andthen (docker_call dk ''GET'' (containerPath (lv_ref state) (''/logs?'' @
        encode_query [(''stdout'', ''1''), (''stderr'', ''1''), (''timestamps'', ''0''), (''since'', ''0''),
          (''follow'', if follow then ''true'' else ''false'')])) None) (\<lambda>response.
    if ds_code response = 404 then throw (sentinel_error ContainerNotFound)
    else if ds_code response \<noteq> 200 then throw (dockerResponseError dk response ''read container logs'')
    else ret (ds_body response)))"

definition stop_seconds :: "int \<Rightarrow> int" where
  "stop_seconds grace = (let seconds = (grace + 1000000000 - 1) sdiv 1000000000 in if seconds < 0 then 0 else seconds)"

text \<open>The value tells whether the container had already stopped; for \<open>Remove\<close>, whether it was already absent.\<close>

definition Stop :: "docker \<Rightarrow> RuntimeRef \<Rightarrow> int \<Rightarrow> bool eop" where
  "Stop dk ref grace =
    andthen (examined (Inspect dk ref)) (\<lambda>r.
    case r of
      Inl e \<Rightarrow> if errors_Is e ContainerNotFound then ret True else throw e
    | Inr state \<Rightarrow>
        if \<not> lv_running state then ret True
        else
          andthen (docker_call dk ''POST'' (containerPath (lv_ref state) (''/stop?t='' @ int_text (stop_seconds grace))) None) (\<lambda>response.
          if ds_code response = 404 \<or> ds_code response = 304 then ret True
          else if ds_code response \<noteq> 204 then throw (dockerResponseError dk response ''stop container'')
          else ret False))"

definition Remove :: "docker \<Rightarrow> RuntimeRef \<Rightarrow> bool eop" where
  "Remove dk ref =
    andthen (examined (Inspect dk ref)) (\<lambda>r.
    case r of
      Inl e \<Rightarrow> if errors_Is e ContainerNotFound then ret True else throw e
    | Inr state \<Rightarrow>
        andthen (docker_call dk ''DELETE'' (containerPath (lv_ref state) ''?v=1'') None) (\<lambda>response.
        if ds_code response = 404 then ret True
        else if ds_code response \<noteq> 204 then throw (dockerResponseError dk response ''remove container'')
        else ret False))"

definition firstName :: "string list \<Rightarrow> string" where
  "firstName names = (case names of [] \<Rightarrow> [] | name # _ \<Rightarrow> trim_prefix ''/'' name)"

definition managed_filters :: string where
  "managed_filters =
     encode_json (JObject [(''label'', JList [JString (LabelManaged @ ''=true''), JString (LabelContract @ ''=v1'')])])"

definition inspect_row :: "docker \<Rightarrow> string \<times> string list \<times> (string \<times> string) list \<Rightarrow> LiveState eop" where
  "inspect_row dk row' =
    (case row' of (ident, names, labels) \<Rightarrow>
    andthen (lift (refFromLabels ident (firstName names) labels)) (\<lambda>ref.
    Inspect dk ref))"

definition Managed :: "docker \<Rightarrow> LiveState list eop" where
  "Managed dk =
    andthen (docker_call dk ''GET'' (''/'' @ dockerAPIVersion @ ''/containers/json?'' @
        encode_query [(''all'', ''1''), (''filters'', managed_filters)]) None) (\<lambda>response.
    andthen (reject (ds_code response \<noteq> 200) (dockerResponseError dk response ''list managed containers'')) (\<lambda>_.
    andthen (decodeResponse (dk_decode_rows dk) ''container list'' response) (\<lambda>rows.
    andthen (collect rows (inspect_row dk)) (\<lambda>states.
    ret (sort_key (\<lambda>state. rr_run_id (lv_ref state)) states)))))"

text \<open>The socket of the engine; \<open>url.Parse\<close> is given as the scheme and the path it finds.\<close>

definition NewDockerExecutor :: "string \<Rightarrow> derror + string" where
  "NewDockerExecutor socketPath =
     (let socketPath = trim_space socketPath;
          socketPath = (if socketPath = [] then ''/var/run/docker.sock'' else socketPath) in
      if \<not> rooted_path socketPath then Inl (errors_New ''runtime: Docker socket path must be absolute'')
      else Inr (clean_path socketPath))"

definition NewDockerExecutorFromEnvironment :: "(string \<Rightarrow> (string \<times> string) option) \<Rightarrow> string \<Rightarrow> derror + string" where
  "NewDockerExecutorFromEnvironment url_parse docker_host =
     (let host = trim_space docker_host in
      if host = [] then NewDockerExecutor []
      else case url_parse host of
          None \<Rightarrow> Inl (errors_New ''runtime: only a local unix Docker host is supported'')
        | Some (scheme, path) \<Rightarrow>
            if scheme \<noteq> ''unix'' \<or> path = [] then Inl (errors_New ''runtime: only a local unix Docker host is supported'')
            else NewDockerExecutor path)"

section \<open>The multiplexed log\<close>

text \<open>A log is a sequence of frames, each with a header of eight bytes whose last four are the length of its payload. One
  \<open>Read\<close> gets a buffer of some size, and the buffered reader below gives at most as many bytes as it has.\<close>

record demuxReadCloser =
  dx_remaining :: "32 word"
  dx_reader :: string

datatype read_error = EndOfFile | UnexpectedEOF

definition big_endian :: "string \<Rightarrow> 32 word" where
  "big_endian bytes = foldl (\<lambda>n c. 256 * n + of_nat (of_char c)) 0 bytes"

definition read_payload :: "nat \<Rightarrow> nat \<Rightarrow> demuxReadCloser \<Rightarrow> (read_error + string) \<times> demuxReadCloser" where
  "read_payload room available r =
     (let want = (if dx_remaining r < of_nat room then unat (dx_remaining r) else room) in
      if want = 0 then (Inr [], r)
      else if dx_reader r = [] then (Inl EndOfFile, r)
      else
        let bytes = take (min want (max 1 available)) (dx_reader r) in
        (Inr bytes, r\<lparr>dx_remaining := dx_remaining r - of_nat (length bytes), dx_reader := drop (length bytes) (dx_reader r)\<rparr>))"

function demux_read :: "nat \<Rightarrow> nat \<Rightarrow> demuxReadCloser \<Rightarrow> (read_error + string) \<times> demuxReadCloser" where
  "demux_read room available r =
     (if dx_remaining r \<noteq> 0 then read_payload room available r
      else if length (dx_reader r) < 8
      then (Inl (if dx_reader r = [] then EndOfFile else UnexpectedEOF), r\<lparr>dx_reader := []\<rparr>)
      else
        let n = big_endian (take 4 (drop 4 (dx_reader r))); r' = r\<lparr>dx_remaining := n, dx_reader := drop 8 (dx_reader r)\<rparr> in
        if n = 0 then demux_read room available r' else read_payload room available r')"
  by pat_completeness auto
termination by (relation "measure (\<lambda>(_, _, r). length (dx_reader r))") auto

declare demux_read.simps [simp del]

text \<open>A sequence of reads: the bytes they give together, the state they leave, and whether the last one failed.\<close>

fun demux_reads :: "(nat \<times> nat) list \<Rightarrow> demuxReadCloser \<Rightarrow> string \<times> bool \<times> demuxReadCloser" where
  "demux_reads [] r = ([], False, r)"
| "demux_reads ((room, available) # reads) r =
     (case demux_read room available r of
        (Inl _, r') \<Rightarrow> ([], True, r')
      | (Inr bytes, r') \<Rightarrow> (case demux_reads reads r' of (rest, ended, r'') \<Rightarrow> (bytes @ rest, ended, r'')))"

end
