(* ===== verification/Config.thy ===== *)
theory Config
  imports Docker
begin

text \<open>
  The configuration of the daemon (internal/config/config.go): how a file becomes a configuration, its
  defaults, the canonical form of its paths and the validation. The YAML decoder, the parser of durations and the
  file system are arguments; a duration is a number of nanoseconds. \<open>Validate\<close> returns the normalized
  configuration, since its caller drops the one it was given when it fails.
\<close>

section \<open>Configuration\<close>

definition DefaultCaptureTimeout :: int where "DefaultCaptureTimeout = 2 * 60 * 10 ^ 9"
definition DefaultCaptureBundleSize :: int where "DefaultCaptureBundleSize = 64 * 2 ^ 20"
definition DefaultCaptureObjects :: int where "DefaultCaptureObjects = 250000"
definition DefaultHandoffSize :: int where "DefaultHandoffSize = 256 * 2 ^ 20"

definition ProviderEnvCatalog :: "string list" where
  "ProviderEnvCatalog =
     [''ANTHROPIC_AUTH_TOKEN'', ''ANTHROPIC_BASE_URL'', ''ANTHROPIC_MODEL'', ''ANTHROPIC_DEFAULT_OPUS_MODEL'',
      ''ANTHROPIC_DEFAULT_SONNET_MODEL'', ''ANTHROPIC_DEFAULT_HAIKU_MODEL'', ''CLAUDE_CODE_SUBAGENT_MODEL'',
      ''CLAUDE_CODE_EFFORT_LEVEL'', ''OPENAI_API_KEY'', ''OPENAI_BASE_URL'']"

record GitConfig =
  gg_capture_helper_image :: string
  gg_capture_timeout :: int
  gg_maximum_bundle_bytes :: int
  gg_maximum_objects :: int
  gg_maximum_handoff_bytes :: int

record RetentionConfig =
  gr_completed_workspace :: int
  gr_terminal_task_ref :: int
  gr_run_log :: int

record RuntimeConfig =
  gt_docker_network :: string
  gt_workspace_root :: string
  gt_agent_home_root :: string
  gt_log_root :: string
  gt_default_image :: string
  gt_provider_env_allowlist :: "string list"
  gt_run_timeout :: int
  gt_stall_timeout :: int
  gt_shutdown_grace :: int

record Config =
  cg_data_dir :: string
  cg_operator_socket :: string
  cg_web_addr :: string
  cg_max_parallel_runs :: int
  cg_retention :: RetentionConfig
  cg_runtime :: RuntimeConfig
  cg_git :: GitConfig

text \<open>The document: durations may be absent.\<close>

record fileGitConfig =
  fg_capture_helper_image :: string
  fg_capture_timeout :: "int option"
  fg_maximum_bundle_bytes :: int
  fg_maximum_objects :: int
  fg_maximum_handoff_bytes :: int

record fileRetentionConfig =
  fr_completed_workspace :: "int option"
  fr_terminal_task_ref :: "int option"
  fr_run_log :: "int option"

record fileRuntimeConfig =
  ft_docker_network :: string
  ft_workspace_root :: string
  ft_agent_home_root :: string
  ft_log_root :: string
  ft_default_image :: string
  ft_provider_env_allowlist :: "string list"
  ft_run_timeout :: "int option"
  ft_stall_timeout :: "int option"
  ft_shutdown_grace :: "int option"

record fileConfig =
  fc_data_dir :: string
  fc_operator_socket :: string
  fc_web_addr :: string
  fc_max_parallel_runs :: int
  fc_retention :: fileRetentionConfig
  fc_runtime :: fileRuntimeConfig
  fc_git :: fileGitConfig

text \<open>A duration in the document is a scalar: 0, or a text for \<open>time.ParseDuration\<close>.\<close>

definition UnmarshalYAML :: "(string \<Rightarrow> derror + int) \<Rightarrow> bool \<Rightarrow> string \<Rightarrow> derror + int" where
  "UnmarshalYAML parse_duration scalar value =
     (if \<not> scalar then Inl (errors_New ''duration must be a string or 0'')
      else if value = ''0'' then Inr 0
      else case parse_duration value of
          Inl e \<Rightarrow> Inl (prefixed (''parse duration '' @ json_string value) e)
        | Inr d \<Rightarrow> Inr d)"

section \<open>Paths\<close>

text \<open>The file system: \<open>Lstat\<close> gives an error or that the path exists, \<open>EvalSymlinks\<close> an error or a path.\<close>

record file_system =
  fs_lstat :: "string \<Rightarrow> derror option"
  fs_resolve :: "string \<Rightarrow> derror + string"

text \<open>A clean absolute path from its elements; its parent has all but the last one.\<close>

definition rooted_at :: "string list \<Rightarrow> string" where
  "rooted_at elements = CHR ''/'' # join ''/'' elements"

definition config_error :: "string \<Rightarrow> derror" where
  "config_error text = errors_New (''validate config: '' @ text)"

text \<open>From the path with the elements \<open>rev parents\<close> upwards to one that exists; \<open>suffix\<close> has the elements below it.\<close>

fun existing_ancestor :: "file_system \<Rightarrow> string \<Rightarrow> string list \<Rightarrow> string list \<Rightarrow> derror + string" where
  "existing_ancestor fs name parents suffix =
     (let current = rooted_at (rev parents) in
      case fs_lstat fs current of
        None \<Rightarrow>
          (case fs_resolve fs current of
             Inl e \<Rightarrow> Inl (prefixed (''validate config: resolve '' @ name) e)
           | Inr resolved \<Rightarrow> Inr (clean_path (foldl (\<lambda>path element. join_path [path, element]) resolved suffix)))
      | Some e \<Rightarrow>
          if \<not> errors_Is e FileNotExist then Inl (prefixed (''validate config: inspect '' @ name) e)
          else (case parents of
              [] \<Rightarrow> Inl (config_error (''resolve '' @ name @ '': no existing path ancestor''))
            | base # parents' \<Rightarrow> existing_ancestor fs name parents' (base # suffix)))"

definition canonicalPath :: "file_system \<Rightarrow> string \<Rightarrow> string \<Rightarrow> derror + string" where
  "canonicalPath fs name value =
     (let value = trim_space value in
      if value = [] then Inl (config_error (name @ '' is required''))
      else if \<not> rooted_path value then Inl (config_error (name @ '' must be an absolute path''))
      else existing_ancestor fs name (rev (path_elements (clean_path value))) [])"

definition requireDescendant :: "string \<Rightarrow> string \<Rightarrow> string \<Rightarrow> derror option" where
  "requireDescendant dataDir name target =
     (case rel_path dataDir target of
        None \<Rightarrow> Some (prefixed (''validate config: compare '' @ name @ '' with data_dir'')
          (errors_New (''Rel: can't make '' @ target @ '' relative to '' @ dataDir)))
      | Some relative \<Rightarrow>
          if relative = ''.'' \<or> relative = ''..'' \<or> rooted_path relative \<or> take 3 relative = ''../''
          then Some (config_error (name @ '' must be inside data_dir'')) else None)"

definition descendant_path :: "file_system \<Rightarrow> string \<Rightarrow> string \<Rightarrow> string \<Rightarrow> derror + string" where
  "descendant_path fs dataDir name value =
     (case canonicalPath fs name value of
        Inl e \<Rightarrow> Inl e
      | Inr path \<Rightarrow> unless_found (requireDescendant dataDir name path) path)"

section \<open>Validation\<close>

definition reservedRuntimeEnvironment :: "string \<Rightarrow> bool" where
  "reservedRuntimeEnvironment name = (name \<in> {''HOME'', ''COORDPLANE_RUN_SOCKET'', ''COORDPLANE_RUN_TOKEN_FILE''})"

definition configEnvName :: "string \<Rightarrow> bool" where
  "configEnvName name = (case name of [] \<Rightarrow> False | c # cs \<Rightarrow> env_start c \<and> (\<forall>d \<in> set cs. env_start d \<or> in_range 48 57 d))"

fun validate_allowlist :: "nat \<Rightarrow> string list \<Rightarrow> string list \<Rightarrow> derror + string list" where
  "validate_allowlist i seen [] = Inr []"
| "validate_allowlist i seen (entry # entries) =
     (let name = trim_space entry; position = ''runtime.provider_env_allowlist['' @ nat_text i @ '']'' in
      if \<not> configEnvName name then Inl (config_error (position @ '' is not a valid environment variable name''))
      else if reservedRuntimeEnvironment name
      then Inl (config_error (position @ '' cannot override reserved environment variable '' @ json_string name))
      else if name \<notin> set ProviderEnvCatalog
      then Inl (config_error (position @ '' is outside the provider environment catalog: '' @ json_string name))
      else if name \<in> set seen
      then Inl (config_error (''runtime.provider_env_allowlist contains duplicate '' @ json_string name))
      else case validate_allowlist (Suc i) (name # seen) entries of Inl e \<Rightarrow> Inl e | Inr names \<Rightarrow> Inr (name # names))"

text \<open>The first of the checks that applies.\<close>

fun first_error :: "(bool \<times> string) list \<Rightarrow> derror option" where
  "first_error [] = None"
| "first_error ((failed, text) # checks) = (if failed then Some (config_error text) else first_error checks)"

definition validate_paths :: "file_system \<Rightarrow> Config \<Rightarrow> derror + Config" where
  "validate_paths fs c =
     (case canonicalPath fs ''data_dir'' (cg_data_dir c) of
        Inl e \<Rightarrow> Inl e
      | Inr dataDir \<Rightarrow>
          if dataDir = ''/'' then Inl (config_error ''data_dir must not be a filesystem root'')
          else case descendant_path fs dataDir ''operator_socket'' (cg_operator_socket c) of
              Inl e \<Rightarrow> Inl e
            | Inr socket \<Rightarrow>
              (case descendant_path fs dataDir ''runtime.workspace_root'' (gt_workspace_root (cg_runtime c)) of
                 Inl e \<Rightarrow> Inl e
               | Inr workspaces \<Rightarrow>
                 (case descendant_path fs dataDir ''runtime.agent_home_root'' (gt_agent_home_root (cg_runtime c)) of
                    Inl e \<Rightarrow> Inl e
                  | Inr homes \<Rightarrow>
                    (case descendant_path fs dataDir ''runtime.log_root'' (gt_log_root (cg_runtime c)) of
                       Inl e \<Rightarrow> Inl e
                     | Inr logs \<Rightarrow> Inr (c\<lparr>cg_data_dir := dataDir, cg_operator_socket := socket,
                         cg_runtime := (cg_runtime c)\<lparr>gt_workspace_root := workspaces, gt_agent_home_root := homes,
                           gt_log_root := logs\<rparr>\<rparr>)))))"

definition validate_numbers :: "Config \<Rightarrow> derror option" where
  "validate_numbers c = first_error
     [(cg_max_parallel_runs c \<le> 0, ''max_parallel_runs must be positive''),
      (gr_completed_workspace (cg_retention c) < 0, ''retention.completed_workspace must be a positive duration or 0''),
      (gr_terminal_task_ref (cg_retention c) < 0, ''retention.terminal_task_ref must be a positive duration or 0''),
      (gr_run_log (cg_retention c) < 0, ''retention.run_log must be a positive duration or 0'')]"

definition trimmed_runtime :: "Config \<Rightarrow> Config" where
  "trimmed_runtime c = c\<lparr>cg_runtime := (cg_runtime c)\<lparr>gt_docker_network := trim_space (gt_docker_network (cg_runtime c)),
     gt_default_image := trim_space (gt_default_image (cg_runtime c))\<rparr>\<rparr>"

definition validate_runtime :: "RuntimeConfig \<Rightarrow> derror option" where
  "validate_runtime r = first_error
     [(gt_docker_network r = [], ''runtime.docker_network is required''),
      (gt_default_image r = [], ''runtime.default_image is required''),
      (gt_run_timeout r < 0, ''runtime.run_timeout must be a positive duration or 0''),
      (gt_stall_timeout r < 0, ''runtime.stall_timeout must be a positive duration or 0''),
      (gt_shutdown_grace r \<le> 0, ''runtime.shutdown_grace must be a positive duration'')]"

definition trimmed_git :: "Config \<Rightarrow> Config" where
  "trimmed_git c =
     (let image = trim_space (gg_capture_helper_image (cg_git c)) in
      c\<lparr>cg_git := (cg_git c)\<lparr>gg_capture_helper_image := (if image = [] then gt_default_image (cg_runtime c) else image)\<rparr>\<rparr>)"

definition validate_git :: "GitConfig \<Rightarrow> derror option" where
  "validate_git g = first_error
     [(gg_capture_timeout g \<le> 0, ''git.capture_timeout must be a positive duration''),
      (gg_maximum_bundle_bytes g \<le> 0, ''git.maximum_bundle_bytes must be positive''),
      (gg_maximum_objects g \<le> 0, ''git.maximum_objects must be positive''),
      (gg_maximum_handoff_bytes g < gg_maximum_bundle_bytes g,
       ''git.maximum_handoff_bytes must be at least maximum_bundle_bytes'')]"

definition Validate :: "file_system \<Rightarrow> Config \<Rightarrow> derror + Config" where
  "Validate fs c =
     (case validate_paths fs c of
        Inl e \<Rightarrow> Inl e
      | Inr c \<Rightarrow>
        (case validate_numbers c of
           Some e \<Rightarrow> Inl e
         | None \<Rightarrow>
           (let c = trimmed_runtime c in
            case validate_runtime (cg_runtime c) of
              Some e \<Rightarrow> Inl e
            | None \<Rightarrow>
              (let c = trimmed_git c in
               case validate_git (cg_git c) of
                 Some e \<Rightarrow> Inl e
               | None \<Rightarrow>
                 (case validate_allowlist 0 [] (gt_provider_env_allowlist (cg_runtime c)) of
                    Inl e \<Rightarrow> Inl e
                  | Inr names \<Rightarrow> Inr (c\<lparr>cg_runtime := (cg_runtime c)\<lparr>gt_provider_env_allowlist := names\<rparr>\<rparr>))))))"

section \<open>Loading\<close>

definition default_of :: "'a \<Rightarrow> 'a option \<Rightarrow> 'a" where
  "default_of fallback value = (case value of None \<Rightarrow> fallback | Some v \<Rightarrow> v)"

definition unless_zero :: "int \<Rightarrow> int \<Rightarrow> int" where
  "unless_zero fallback value = (if value = 0 then fallback else value)"

definition config_of :: "fileConfig \<Rightarrow> Config" where
  "config_of raw =
     (let retention = fc_retention raw; run = fc_runtime raw; git = fc_git raw in
     \<lparr>cg_data_dir = fc_data_dir raw, cg_operator_socket = fc_operator_socket raw, cg_web_addr = trim_space (fc_web_addr raw),
      cg_max_parallel_runs = fc_max_parallel_runs raw,
      cg_retention = \<lparr>gr_completed_workspace = default_of 0 (fr_completed_workspace retention),
        gr_terminal_task_ref = default_of 0 (fr_terminal_task_ref retention), gr_run_log = default_of 0 (fr_run_log retention)\<rparr>,
      cg_runtime = \<lparr>gt_docker_network = ft_docker_network run, gt_workspace_root = ft_workspace_root run,
        gt_agent_home_root = ft_agent_home_root run, gt_log_root = ft_log_root run, gt_default_image = ft_default_image run,
        gt_provider_env_allowlist = ft_provider_env_allowlist run, gt_run_timeout = default_of 0 (ft_run_timeout run),
        gt_stall_timeout = default_of 0 (ft_stall_timeout run),
        gt_shutdown_grace = default_of DefaultShutdownGrace (ft_shutdown_grace run)\<rparr>,
      cg_git = \<lparr>gg_capture_helper_image =
          (if trim_space (fg_capture_helper_image git) = [] then ft_default_image run else fg_capture_helper_image git),
        gg_capture_timeout = default_of DefaultCaptureTimeout (fg_capture_timeout git),
        gg_maximum_bundle_bytes = unless_zero DefaultCaptureBundleSize (fg_maximum_bundle_bytes git),
        gg_maximum_objects = unless_zero DefaultCaptureObjects (fg_maximum_objects git),
        gg_maximum_handoff_bytes = unless_zero DefaultHandoffSize (fg_maximum_handoff_bytes git)\<rparr>\<rparr>)"

text \<open>What the decoder gives: the end of the file, an error, or a value.\<close>

datatype 'a decoded = DecodedEOF | DecodedError derror | Decoded 'a

definition Load :: "file_system \<Rightarrow> derror option \<Rightarrow> fileConfig decoded \<Rightarrow> unit decoded \<Rightarrow> derror + Config" where
  "Load fs opened document extra =
     (case opened of
        Some e \<Rightarrow> Inl (prefixed ''open config'' e)
      | None \<Rightarrow>
        (case document of
           DecodedEOF \<Rightarrow> Inl (errors_New ''decode config: document is empty'')
         | DecodedError e \<Rightarrow> Inl (prefixed ''decode config'' e)
         | Decoded raw \<Rightarrow>
           (case extra of
              DecodedError e \<Rightarrow> Inl (prefixed ''decode config'' e)
            | Decoded _ \<Rightarrow> Inl (errors_New ''decode config: multiple YAML documents are not allowed'')
            | DecodedEOF \<Rightarrow>
                if fr_completed_workspace (fc_retention raw) = None \<or> fr_terminal_task_ref (fc_retention raw) = None \<or>
                   fr_run_log (fc_retention raw) = None
                then Inl (config_error ''all retention fields are required; use 0 for immediate eligibility'')
                else Validate fs (config_of raw))))"

end
