(* ===== verification/Engine.thy ===== *)
theory Engine
  imports Docker WriteAhead Adoption
begin

text \<open>
  What the Docker executor guarantees: it returns only containers of the run that was asked for, it creates none
  that it would not adopt, and the reader of its logs gives back the payloads of the frames. So the host contract
  of the daemon holds for it, whatever the engine answers.
\<close>

section \<open>Only the containers of a run\<close>

lemma inspectFact_reference:
  "inspectFact sha payload ref = Inr state \<Longrightarrow> same_reference (lv_ref state) ref"
  by (auto simp: inspectFact_def live_fact_def Let_def split: sum.splits if_splits)

lemma Inspect_reference: "Inspect dk ref n = (Inr state, n') \<Longrightarrow> same_reference (lv_ref state) ref"
  by (auto simp: Inspect_def Let_def andthen_success lift_def throw_def split: if_splits dest: inspectFact_reference)

lemma examined_success: "examined m n = (Inr r, n') \<longleftrightarrow> m n = (r, n')"
  by (auto simp: examined_def split: prod.splits)

definition accepts :: "docker \<Rightarrow> ContainerSpec \<Rightarrow> RuntimeRef \<Rightarrow> bool" where
  "accepts dk spec ref = (\<exists>state. lv_ref state = ref \<and> ValidateAdoption (dk_sha dk) spec state = None)"

text \<open>Whatever way \<open>Create\<close> takes, the container was inspected and accepted.\<close>

lemma adopted_accepts: "adopted dk spec state n = (Inr ref, n') \<Longrightarrow> accepts dk spec ref"
  by (auto simp: adopted_def andthen_success lift_def ret_def isolation_error_def accepts_def split: option.splits)

lemma created_accepts: "created dk spec response n = (Inr ref, n') \<Longrightarrow> accepts dk spec ref"
  by (auto simp: created_def andthen_success dest: adopted_accepts)

lemma create_conflict_accepts:
  assumes "create_conflict dk spec response n = (Inr ref, n')" shows "accepts dk spec ref"
proof -
  obtain r m where "(case r of Inr state \<Rightarrow> adopted dk spec state
      | Inl e \<Rightarrow> if errors_Is e RuntimeOwnership then throw e else throw (dockerResponseError dk response ''create container'')) m = (Inr ref, n')"
    using assms unfolding create_conflict_def andthen_success by blast
  then show ?thesis by (cases r) (auto simp: throw_def dest: adopted_accepts split: if_splits)
qed

lemma create_container_accepts:
  assumes "create_container dk spec n = (Inr ref, n')" shows "accepts dk spec ref"
proof -
  obtain response m where "(if ds_code response = 409 then create_conflict dk spec response
      else if ds_code response \<noteq> 201 then throw (dockerResponseError dk response ''create container'')
      else created dk spec response) m = (Inr ref, n')"
    using assms unfolding create_container_def andthen_success by blast
  then show ?thesis by (auto simp: throw_def dest: create_conflict_accepts created_accepts split: if_splits)
qed

lemma Create_accepts:
  assumes "Create dk spec n = (Inr ref, n')"
  shows "\<exists>spec'. validateContainerSpec (dk_symlinks dk) spec = Inr spec' \<and> accepts dk spec' ref"
proof -
  obtain spec' r m where spec: "validateContainerSpec (dk_symlinks dk) spec = Inr spec'"
    and "(case r of Inr state \<Rightarrow> adopted dk spec' state
      | Inl e \<Rightarrow> if \<not> errors_Is e ContainerNotFound then throw e else create_container dk spec') m = (Inr ref, n')"
    using assms unfolding Create_def andthen_success lift_def by blast
  then have "accepts dk spec' ref"
    by (cases r) (auto simp: throw_def dest: adopted_accepts create_container_accepts split: if_splits)
  with spec show ?thesis by blast
qed

lemma validateContainerSpec_ref: "validateContainerSpec symlinks spec = Inr spec' \<Longrightarrow> sp_ref spec' = sp_ref spec"
  by (auto simp: validateContainerSpec_def Let_def unless_found_def split: option.splits sum.splits if_splits)

lemma Create_identity: "Create dk spec n = (Inr ref, n') \<Longrightarrow> same_identity (sp_ref spec) ref"
  using Create_accepts [of dk spec n ref n'] validateContainerSpec_ref [of "dk_symlinks dk" spec]
  by (force simp: accepts_def ValidateAdoption_def first_mismatch_None ValidateOwnership_iff)

lemma Start_reference: "Start dk ref n = (Inr ref', n') \<Longrightarrow> rr_run_id ref' = rr_run_id ref"
  by (auto simp: Start_def andthen_success ret_def throw_def split: if_splits
      dest!: Inspect_reference simp: same_reference_def)

text \<open>The host of a daemon whose executor is the one for Docker; \<open>dk\<close> is the engine at each use of the host.\<close>

definition docker_host :: "(nat \<Rightarrow> docker) \<Rightarrow> host \<Rightarrow> host" where
  "docker_host dk h = h\<lparr>
     ho_ping := (\<lambda>n. failure_of (fst (Ping (dk n) 0))),
     ho_create := (\<lambda>n spec. fst (Create (dk n) spec 0)),
     ho_attach := (\<lambda>n ref. fst (Attach (dk n) ref 0)),
     ho_start := (\<lambda>n ref. fst (Start (dk n) ref 0)),
     ho_inspect := (\<lambda>n ref. fst (Inspect (dk n) ref 0)),
     ho_wait := (\<lambda>n ref. case fst (Wait (dk n) ref 0) of Inl e \<Rightarrow> Inl e | Inr exit \<Rightarrow> Inr (xf_exit_code exit)),
     ho_stop := (\<lambda>n ref grace. failure_of (fst (Stop (dk n) ref grace 0))),
     ho_remove := (\<lambda>n ref. failure_of (fst (Remove (dk n) ref 0))),
     ho_managed := (\<lambda>n. fst (Managed (dk n) 0))\<rparr>"

text \<open>C31. With the executor for Docker the contract that the daemon needs of its host holds, whatever the engine answers: what is
  left of it is that others only send requests to the service.\<close>

theorem docker_host_honest:
  "honest (c\<lparr>ct_host := docker_host dk h\<rparr>) \<longleftrightarrow> (\<forall>n w. requests_lead (ct_service c) w (ho_others h n w))"
proof -
  have create: "rr_run_id ref = rr_run_id (sp_ref spec)" if "fst (Create (dk n) spec 0) = Inr ref" for n spec ref
    using Create_identity [of "dk n" spec 0 ref "snd (Create (dk n) spec 0)"] that
    by (cases ref; cases "sp_ref spec") (auto simp: same_identity_def prod_eq_iff)
  have start: "rr_run_id ref' = rr_run_id ref" if "fst (Start (dk n) ref 0) = Inr ref'" for n ref ref'
    using Start_reference [of "dk n" ref 0 ref' "snd (Start (dk n) ref 0)"] that by (simp add: prod_eq_iff)
  have inspect: "rr_run_id (lv_ref state) = rr_run_id ref" if "fst (Inspect (dk n) ref 0) = Inr state" for n ref state
    using Inspect_reference [of "dk n" ref 0 state "snd (Inspect (dk n) ref 0)"] that by (simp add: prod_eq_iff same_reference_def)
  show ?thesis using create start inspect by (auto simp: honest_def docker_host_def)
qed

section \<open>The log of a container\<close>

text \<open>A frame as the engine writes it: the stream, three zero bytes, the length of the payload, the payload.\<close>

definition length_bytes :: "nat \<Rightarrow> string" where
  "length_bytes n = map char_of [n div 2 ^ 24, n div 2 ^ 16, n div 2 ^ 8, n]"

fun framed :: "(char \<times> string) list \<Rightarrow> string" where
  "framed [] = []"
| "framed ((stream, payload) # frames) =
     [stream, CHR 0x00, CHR 0x00, CHR 0x00] @ length_bytes (length payload) @ payload @ framed frames"

lemma big_endian_length: "n < 2 ^ 32 \<Longrightarrow> unat (big_endian (length_bytes n)) = n"
proof -
  assume n: "n < 2 ^ 32"
  have "big_endian (length_bytes n) =
      (of_nat (256 * (256 * (256 * (n div 2 ^ 24 mod 256) + n div 2 ^ 16 mod 256) + n div 2 ^ 8 mod 256) + n mod 256) :: 32 word)"
    by (simp add: big_endian_def length_bytes_def)
  moreover have "256 * (256 * (256 * (n div 2 ^ 24 mod 256) + n div 2 ^ 16 mod 256) + n div 2 ^ 8 mod 256) + n mod 256 = n"
  proof -
    have "n div 2 ^ 24 mod 256 = n div 2 ^ 24" using n by (simp add: less_mult_imp_div_less)
    moreover have "256 * (n div 2 ^ 24) + n div 2 ^ 16 mod 256 = n div 2 ^ 16"
      using mult_div_mod_eq [of 256 "n div 2 ^ 16"] by (simp add: div_mult2_eq [symmetric])
    moreover have "256 * (n div 2 ^ 16) + n div 2 ^ 8 mod 256 = n div 2 ^ 8"
      using mult_div_mod_eq [of 256 "n div 2 ^ 8"] by (simp add: div_mult2_eq [symmetric])
    ultimately show ?thesis by simp
  qed
  ultimately have "big_endian (length_bytes n) = of_nat n" by (simp only:)
  then show ?thesis using n by (simp add: unat_of_nat)
qed

definition pending :: "demuxReadCloser \<Rightarrow> (char \<times> string) list \<Rightarrow> string \<Rightarrow> bool" where
  "pending r frames x =
     (dx_reader r = x @ framed frames \<and> unat (dx_remaining r) = length x \<and> (\<forall>(_, payload) \<in> set frames. length payload < 2 ^ 32))"

lemma read_payload_pending:
  assumes "pending r frames x" and "x \<noteq> []" and "read_payload room available r = (res, r')" and "0 < room" "room < 2 ^ 32"
  shows "\<exists>bytes y. res = Inr bytes \<and> pending r' frames y \<and> x = bytes @ y"
proof -
  define want where "want = (if dx_remaining r < of_nat room then unat (dx_remaining r) else room)"
  define bytes where "bytes = take (min want (max 1 available)) (dx_reader r)"
  have room: "unat (of_nat room :: 32 word) = room" using assms(5) by (simp add: unat_of_nat)
  have left: "unat (dx_remaining r) = length x" and reader: "dx_reader r = x @ framed frames" using assms(1) by (auto simp: pending_def)
  have want: "0 < want" "want \<le> length x"
    using assms(2,4) left room unfolding want_def by (auto simp: word_less_nat_alt)
  then have bytes: "bytes = take (length bytes) x" and size: "length bytes \<le> length x"
    unfolding bytes_def reader by (auto simp: min_def)
  have "res = Inr bytes" and r': "r' = r\<lparr>dx_remaining := dx_remaining r - of_nat (length bytes), dx_reader := drop (length bytes) (dx_reader r)\<rparr>"
    using assms(2,3) want reader unfolding read_payload_def Let_def want_def [symmetric] bytes_def by auto
  moreover have "unat (dx_remaining r - of_nat (length bytes)) = length x - length bytes"
  proof -
    have "unat (dx_remaining r) < 2 ^ LENGTH(32)" by (rule unsigned_less)
    then have "length bytes < 2 ^ 32" using size left by simp
    then have "unat (of_nat (length bytes) :: 32 word) = length bytes" by (simp add: unat_of_nat)
    then show ?thesis using unat_sub [of "of_nat (length bytes)" "dx_remaining r"] left size by (simp add: word_le_nat_alt)
  qed
  then have "pending r' frames (drop (length bytes) x)"
    using assms(1) size unfolding pending_def r' by simp
  ultimately show ?thesis using bytes by (metis append_take_drop_id)
qed

lemma demux_read_pending:
  assumes "pending r frames x" and "demux_read room available r = (res, r')" and "0 < room" "room < 2 ^ 32"
  shows "(\<exists>bytes rest y. res = Inr bytes \<and> pending r' rest y \<and> x @ concat (map snd frames) = bytes @ y @ concat (map snd rest)) \<or>
    (res = Inl EndOfFile \<and> x @ concat (map snd frames) = [])"
  using assms(1,2)
proof (induction frames arbitrary: r x)
  case Nil
  show ?case
  proof (cases "x = []")
    case True
    then show ?thesis using Nil by (subst (asm) demux_read.simps) (simp add: pending_def unat_eq_0 split: if_splits)
  next
    case False
    then have "read_payload room available r = (res, r')"
      using Nil by (subst (asm) demux_read.simps) (auto simp: pending_def split: if_splits)
    from read_payload_pending [OF Nil(1) False this assms(3,4)] show ?thesis by fastforce
  qed
next
  case (Cons f frames)
  obtain stream payload where f: "f = (stream, payload)" by (cases f)
  show ?case
  proof (cases "x = []")
    case False
    then have "read_payload room available r = (res, r')"
      using Cons.prems by (subst (asm) demux_read.simps) (auto simp: pending_def split: if_splits)
    from read_payload_pending [OF Cons.prems(1) False this assms(3,4)] show ?thesis by fastforce
  next
    case True
    define r1 where "r1 = r\<lparr>dx_remaining := big_endian (length_bytes (length payload)), dx_reader := payload @ framed frames\<rparr>"
    have small: "length payload < 2 ^ 32" using Cons.prems(1) f by (simp add: pending_def)
    have next1: "pending r1 frames payload"
      using Cons.prems(1) big_endian_length [OF small] f by (simp add: pending_def r1_def)
    have run: "(if dx_remaining r1 = 0 then demux_read room available r1 else read_payload room available r1) = (res, r')"
      using Cons.prems True f unfolding pending_def
      by (subst (asm) demux_read.simps) (auto simp: r1_def length_bytes_def Let_def unat_eq_0 split: if_splits)
    show ?thesis
    proof (cases "payload = []")
      case True
      then have "dx_remaining r1 = 0" using next1 by (simp add: pending_def unat_eq_0)
      then show ?thesis using Cons.IH [OF next1] run True f \<open>x = []\<close> by simp
    next
      case False
      then have "dx_remaining r1 \<noteq> 0" using next1 by (auto simp: pending_def)
      then show ?thesis
        using read_payload_pending [OF next1 False _ assms(3,4)] run f \<open>x = []\<close> by fastforce
    qed
  qed
qed

text \<open>C32. However the log of a container is read (with buffers of any size and however many bytes arrive at a time), the bytes that were
  read are a prefix of the payloads of its frames, in order, and they are all of them when the end is reached.\<close>

theorem demux_reads_payloads:
  assumes "\<forall>(_, payload) \<in> set frames. length payload < 2 ^ 32" and "\<forall>(room, _) \<in> set reads. 0 < room \<and> room < 2 ^ 32"
    and "demux_reads reads \<lparr>dx_remaining = 0, dx_reader = framed frames\<rparr> = (bytes, finished, r)"
  shows "\<exists>rest. concat (map snd frames) = bytes @ rest \<and> (finished \<longrightarrow> rest = [])"
proof -
  have "\<exists>rest. x @ concat (map snd frames) = bytes @ rest \<and> (finished \<longrightarrow> rest = [])"
    if "pending r0 frames x" "\<forall>(room, _) \<in> set reads. 0 < room \<and> room < 2 ^ 32" "demux_reads reads r0 = (bytes, finished, r)" for r0 x frames
    using that
  proof (induction reads arbitrary: r0 x frames bytes)
    case (Cons entry reads)
    obtain room available where entry: "entry = (room, available)" by (cases entry)
    obtain res r1 where read: "demux_read room available r0 = (res, r1)" by (cases "demux_read room available r0")
    have room: "0 < room" "room < 2 ^ 32" using Cons.prems(2) entry by auto
    from demux_read_pending [OF Cons.prems(1) read room] show ?case
    proof (elim disjE exE conjE)
      fix first rest y
      assume first: "res = Inr first" and later: "pending r1 rest y"
        and split: "x @ concat (map snd frames) = first @ y @ concat (map snd rest)"
      obtain more where more: "demux_reads reads r1 = (more, finished, r)" and "bytes = first @ more"
        using Cons.prems(3) entry read first by (auto split: prod.splits)
      then show ?thesis using Cons.IH [OF later _ more] Cons.prems(2) split by auto
    qed (use Cons.prems(3) entry read in auto)
  qed auto
  moreover have "pending \<lparr>dx_remaining = 0, dx_reader = framed frames\<rparr> frames []" using assms(1) by (simp add: pending_def)
  ultimately show ?thesis using assms(2,3) by fastforce
qed

theorem demux_reads_payloads_witness:
  "\<exists>bytes r rest. demux_reads [(1, 4), (9, 9), (9, 9), (9, 9)]
      \<lparr>dx_remaining = 0, dx_reader = framed [(CHR 0x01, ''ab''), (CHR 0x02, []), (CHR 0x01, ''c'')]\<rparr> = (bytes, True, r) \<and>
    ''abc'' = bytes @ rest \<and> rest = []" (is "\<exists>bytes r rest. demux_reads ?reads ?r = _ \<and> _")
proof -
  let ?frames = "[(CHR 0x01, ''ab''), (CHR 0x02, []), (CHR 0x01, ''c'')]"
  have run: "demux_reads ?reads ?r = (''abc'', True, \<lparr>dx_remaining = 0, dx_reader = []\<rparr>)"
    by (simp add: demux_read.simps read_payload_def length_bytes_def big_endian_def Let_def)
  from demux_reads_payloads [OF _ _ this]
  obtain rest where "concat (map snd ?frames) = ''abc'' @ rest" "True \<longrightarrow> rest = []" by force
  with run show ?thesis by auto
qed

end
