(* ===== verification/Adopts.thy ===== *)
theory Adopts
  imports Engine
begin

text \<open>
  The executor adopts what it asked for: the container that an engine makes of a create request, as it shows in an
  inspection, passes the validation of the specification that the request was made from.
\<close>

section \<open>Numbers and environment entries\<close>

lemma digits_value_append:
  "digits_value n (xs @ ys) = (case digits_value n xs of None \<Rightarrow> None | Some m \<Rightarrow> digits_value m ys)"
  by (induction n xs rule: digits_value.induct) auto

lemma digit_char_byte: "d < 10 \<Longrightarrow> byte (digit_char d) = 48 + d"
  by (simp add: digit_char_def)

lemma digits_value_nat_text: "digits_value 0 (nat_text n) = Some n"
proof (induction n rule: nat_text.induct)
  case (1 n)
  show ?case
  proof (cases "n < 10")
    case True
    then show ?thesis by (subst nat_text.simps) (simp add: in_range_def digit_char_byte)
  next
    case False
    then show ?thesis using 1
      by (subst nat_text.simps) (simp add: digits_value_append in_range_def digit_char_byte)
  qed
qed

lemma nat_text_start: "\<exists>c cs. nat_text n = c # cs \<and> in_range 48 57 c"
proof (induction n rule: nat_text.induct)
  case (1 n)
  then show ?case
    by (cases "n < 10"; subst nat_text.simps) (auto simp: in_range_def digit_char_byte)
qed

lemma parse_int_text: "0 \<le> i \<Longrightarrow> i < 2 ^ 63 \<Longrightarrow> parse_int64 (int_text i) = Some i"
proof -
  assume i: "0 \<le> i" "i < 2 ^ 63"
  obtain c cs where start: "nat_text (nat i) = c # cs" "in_range 48 57 c" using nat_text_start by blast
  then have "c \<noteq> CHR ''-''" "c \<noteq> CHR ''+''" by (auto simp: in_range_def)
  then show ?thesis
    using i digits_value_nat_text [of "nat i"] start by (simp add: parse_int64_def int_text_def Let_def)
qed

definition env_entry :: "string \<times> string \<Rightarrow> string" where
  "env_entry = (\<lambda>(key, value). key @ ''='' @ value)"

lemma cut_at_entry: "validEnvName key \<Longrightarrow> cut_at (CHR ''='') (env_entry (key, v)) = Some (key, v)"
proof -
  have "CHR ''='' \<notin> set cs \<Longrightarrow> cut_at (CHR ''='') (cs @ ''='' @ v) = Some (cs, v)" for cs
    by (induction cs) auto
  moreover assume "validEnvName key"
  then have "CHR ''='' \<notin> set key" by (auto simp: validEnvName_def env_start_def in_range_def split: list.splits)
  ultimately show ?thesis by (simp add: env_entry_def)
qed

definition environment_fact :: "(string \<Rightarrow> nat list) \<Rightarrow> string \<times> string \<Rightarrow> EnvironmentFact" where
  "environment_fact sha = (\<lambda>(key, value). \<lparr>ef_name = key, ef_value_digest = environmentValueDigest sha value\<rparr>)"

lemma environment_fact_name: "ef_name \<circ> environment_fact sha = fst"
  by (auto simp: environment_fact_def)

lemma environment_facts_entries:
  "distinct (map fst env) \<Longrightarrow> fst ` set env \<inter> set seen = {} \<Longrightarrow> (\<forall>(key, _) \<in> set env. validEnvName key) \<Longrightarrow>
     environment_facts sha seen (map env_entry env) = Some (map (environment_fact sha) env)"
proof (induction env arbitrary: seen)
  case (Cons entry env)
  obtain key v where entry: "entry = (key, v)" by (cases entry)
  have "environment_facts sha (key # seen) (map env_entry env) = Some (map (environment_fact sha) env)"
    using Cons entry by (intro Cons.IH) auto
  then show ?case using Cons.prems entry by (simp add: cut_at_entry environment_fact_def)
qed simp

lemma map_sort_key: "map f (sort_key f xs) = sort (map f xs)"
  by (intro properties_for_sort [symmetric]) simp_all

section \<open>Texts of the request\<close>

lemma nat_text_digits: "c \<in> set (nat_text n) \<Longrightarrow> in_range 48 57 c"
proof (induction n rule: nat_text.induct)
  case (1 n)
  then show ?case
    by (cases "n < 10"; subst (asm) (2) nat_text.simps) (auto simp: in_range_def digit_char_byte)
qed

lemma split_on_single: "sep \<notin> set s \<Longrightarrow> split_on sep s = [s]"
  by (induction s) auto

lemma created_tmpfs:
  "0 < n \<Longrightarrow> tmpfs_as_asked n [(''/tmp'', ''rw,nosuid,nodev,size='' @ int_text n)]"
proof -
  assume n: "0 < n"
  then have digits: "int_text n = nat_text (nat n)" by (simp add: int_text_def)
  have "CHR '','' \<notin> set (nat_text (nat n))" using nat_text_digits by (fastforce simp: in_range_def)
  then have "split_on (CHR '','') (''rw,nosuid,nodev,size='' @ nat_text (nat n)) =
      [''rw'', ''nosuid'', ''nodev'', ''size='' @ nat_text (nat n)]"
    by (simp add: split_on_single)
  moreover have "trim_space (''size='' @ nat_text (nat n)) = ''size='' @ nat_text (nat n)"
    using nat_text_digits by (intro trim_graphic) (fastforce simp: graphic_def in_range_def)
  moreover have "trim_space ''rw'' = ''rw''" "trim_space ''nosuid'' = ''nosuid''" "trim_space ''nodev'' = ''nodev''"
    by (rule trim_graphic; simp add: graphic_def)+
  ultimately show ?thesis using n by (simp add: tmpfs_as_asked_def wanted_tmpfs_def digits)
qed

section \<open>The container an engine makes\<close>

definition made_mount :: "dockerMount \<Rightarrow> MountFact" where
  "made_mount m = \<lparr>mf_type = dm_type m, mf_source = dm_source m, mf_destination = dm_target m,
     mf_read_write = (\<not> dm_read_only m), mf_propagation = dm_propagation m\<rparr>"

text \<open>What an inspection shows of a container that was made of a request under a name: what was asked for, with labels,
  environment variables (\<open>extra\<close>) and the order of mounts as the image and the engine may add and change them.\<close>

definition made_of :: "dockerCreate \<Rightarrow> string \<Rightarrow> environment \<Rightarrow> dockerInspect \<Rightarrow> bool" where
  "made_of wanted name extra payload =
     (let cfg = di_config payload; host = di_host_config payload; asked = dc_host_config wanted in
      trim_prefix ''/'' (di_name payload) = name \<and>
      ic_image cfg = dc_image wanted \<and> ic_entrypoint cfg = dc_entrypoint wanted \<and> ic_cmd cfg = dc_cmd wanted \<and>
      ic_env cfg = dc_env wanted @ map env_entry extra \<and> ic_working_dir cfg = dc_working_dir wanted \<and>
      ic_user cfg = dc_user wanted \<and> (\<forall>(k, v) \<in> set (dc_labels wanted). lookup_map (ic_labels cfg) k = v) \<and>
      ih_auto_remove host = hc_auto_remove asked \<and> ih_privileged host = hc_privileged asked \<and>
      ih_readonly_rootfs host = hc_readonly_rootfs asked \<and> ih_network_mode host = hc_network_mode asked \<and>
      mset (ih_group_add host) = mset (hc_group_add asked) \<and> ih_cap_add host = [] \<and> ih_cap_drop host = hc_cap_drop asked \<and>
      ih_security_opt host = hc_security_opt asked \<and> ih_pids_limit host = hc_pids_limit asked \<and>
      ih_memory host = hc_memory asked \<and> ih_nano_cpus host = hc_nano_cpus asked \<and> ih_init host = hc_init asked \<and>
      ih_tmpfs host = hc_tmpfs asked \<and> ih_restart_policy host = hc_restart_policy asked \<and>
      published (ih_port_bindings host) = 0 \<and> published (di_ports payload) = 0 \<and>
      mset (di_mounts payload) = mset (map made_mount (hc_mounts asked)))"

lemma validated_env: "validate_env env = None \<Longrightarrow> \<forall>(key, _) \<in> set env. validEnvName key"
  by (induction env rule: validate_env.induct) (auto split: if_splits)

lemma validated_sensitive: "validate_sensitive seen keys = None \<Longrightarrow> distinct keys \<and> set keys \<inter> set seen = {}"
  by (induction seen keys rule: validate_sensitive.induct) (auto split: if_splits)

lemma made_reference:
  assumes "validateRef ref = None" and "rr_generation ref < 2 ^ 63"
    and "\<forall>(k, v) \<in> set (labelsFor ref). lookup_map labels k = v"
  shows "refFromLabels ident (rr_container_name ref) labels = Inr (ref\<lparr>rr_container_id := ident\<rparr>)"
proof -
  have "0 < rr_generation ref" using assms(1) by (auto simp: validateRef_def split: option.splits if_splits)
  moreover have "validateRef (ref\<lparr>rr_container_id := ident\<rparr>) = None"
  proof -
    have "ref_values (ref\<lparr>rr_container_id := ident\<rparr>) = ref_values ref" by (simp add: ref_values_def)
    then show ?thesis using assms(1) by (auto simp: validateRef_def split: option.splits if_splits)
  qed
  ultimately show ?thesis
    using assms(2,3) by (cases ref) (auto simp: labelsFor_def refFromLabels_def parse_int_text Let_def)
qed

definition joined_environment :: "ContainerSpec \<Rightarrow> environment \<Rightarrow> environment" where
  "joined_environment spec extra = sort_key env_entry (cs_env (sp_command spec)) @ extra"

lemma created_env: "dc_env (dockerCreateRequest spec) @ map env_entry extra = map env_entry (joined_environment spec extra)"
  by (simp add: dockerCreateRequest_def Let_def joined_environment_def map_sort_key env_entry_def)

lemma joined_environment_names:
  "distinct (map fst (cs_env (sp_command spec) @ extra)) \<Longrightarrow> distinct (map fst (joined_environment spec extra))"
proof -
  have "mset (map fst (joined_environment spec extra)) = mset (map fst (cs_env (sp_command spec) @ extra))"
    by (simp add: joined_environment_def)
  then show "distinct (map fst (cs_env (sp_command spec) @ extra)) \<Longrightarrow> ?thesis" by (metis mset_eq_imp_distinct_iff)
qed

lemma made_environment:
  assumes "distinct (map fst (cs_env (sp_command spec) @ extra))" and "\<forall>(key, _) \<in> set (cs_env (sp_command spec) @ extra). validEnvName key"
    and "ic_env cfg = dc_env (dockerCreateRequest spec) @ map env_entry extra"
  shows "inspectEnvironment sha (ic_env cfg) = Inr (sort_key ef_name (map (environment_fact sha) (joined_environment spec extra)))"
proof -
  have "environment_facts sha [] (map env_entry (joined_environment spec extra)) =
      Some (map (environment_fact sha) (joined_environment spec extra))"
    using joined_environment_names [OF assms(1)] assms(2)
    by (intro environment_facts_entries) (auto simp: joined_environment_def)
  then show ?thesis by (simp add: inspectEnvironment_def assms(3) created_env)
qed

lemma made_environment_asked:
  assumes names: "distinct (map fst (cs_env (sp_command spec) @ extra))" and valid: "\<forall>(key, _) \<in> set (cs_env (sp_command spec) @ extra). validEnvName key"
    and "\<forall>value. sha value \<noteq> []" and "distinct (sp_sensitive_env_keys spec)" and "fst ` set extra \<inter> set (sp_sensitive_env_keys spec) = {}"
  shows "environment_as_asked sha spec (sort_key ef_name (map (environment_fact sha) (joined_environment spec extra)))"
proof -
  let ?facts = "map (environment_fact sha) (joined_environment spec extra)"
  have "distinct (map ef_name ?facts)" using joined_environment_names [OF names] by (simp add: environment_fact_name)
  moreover have "mset (map ef_name (sort_key ef_name ?facts)) = mset (map ef_name ?facts)"
    by (metis mset_map mset_sort)
  ultimately have "distinct (map ef_name (sort_key ef_name ?facts))" using mset_eq_imp_distinct_iff by blast
  moreover have digest: "environmentValueDigest sha v \<noteq> []" for v
  proof -
    have "sha v \<noteq> []" using assms(3) by blast
    then show ?thesis by (cases "sha v") (simp_all add: environmentValueDigest_def)
  qed
  have "ef_name f \<noteq> [] \<and> ef_value_digest f \<noteq> []" if "f \<in> set (sort_key ef_name ?facts)" for f
    using that valid digest by (force simp: environment_fact_def joined_environment_def validEnvName_def split: list.splits)
  moreover have "\<exists>f \<in> set (sort_key ef_name ?facts). ef_name f = name \<and> ef_value_digest f = environmentValueDigest sha v"
    if "(name, v) \<in> set (cs_env (sp_command spec))" for name v
    using that by (force simp: environment_fact_def joined_environment_def)
  moreover have "ef_name ` set (sort_key ef_name ?facts) = fst ` set (cs_env (sp_command spec)) \<union> fst ` set extra"
    by (simp add: image_comp environment_fact_name joined_environment_def image_Un)
  ultimately show ?thesis
    using assms(4,5) unfolding environment_as_asked_def by blast
qed

lemma made_mounts:
  assumes "mset facts = mset (map made_mount (map docker_mount mounts))"
  shows "mset (map wanted_mount mounts) = mset (map observed_mount facts) \<and> (\<forall>m \<in> set facts. private_bind m)"
proof
  have each: "observed_mount (made_mount (docker_mount m)) = wanted_mount m" for m
    by (simp add: observed_mount_def made_mount_def docker_mount_def wanted_mount_def)
  have "mset (map observed_mount facts) = image_mset observed_mount (mset (map made_mount (map docker_mount mounts)))"
    using assms by simp
  then show "mset (map wanted_mount mounts) = mset (map observed_mount facts)"
    by (simp add: multiset.map_comp comp_def each)
  show "\<forall>m \<in> set facts. private_bind m"
    using mset_eq_setD [OF assms] by (auto simp: private_bind_def made_mount_def docker_mount_def)
qed

lemma made_state:
  assumes "made_of (dockerCreateRequest spec) name extra payload"
  shows "lv_image (live_fact payload ref env) = sp_image spec"
    and "lv_entrypoint (live_fact payload ref env) = [cs_executable (sp_command spec)]"
    and "lv_command_args (live_fact payload ref env) = cs_args (sp_command spec)"
    and "lv_environment (live_fact payload ref env) = env"
    and "lv_working_dir (live_fact payload ref env) = sp_working_dir spec"
    and "lv_user (live_fact payload ref env) = sp_user spec"
    and "mset (lv_group_add (live_fact payload ref env)) = mset (sp_group_add spec)"
    and "lv_network (live_fact payload ref env) = sp_network spec"
    and "lv_pids_limit (live_fact payload ref env) = rl_pids (sp_limits spec)"
    and "lv_memory_bytes (live_fact payload ref env) = rl_memory_bytes (sp_limits spec)"
    and "lv_nano_cpus (live_fact payload ref env) = rl_nano_cpus (sp_limits spec)"
    and "lv_tmpfs (live_fact payload ref env) = [(''/tmp'', ''rw,nosuid,nodev,size='' @ int_text (rl_tmpfs_bytes (sp_limits spec)))]"
    and "lv_mounts (live_fact payload ref env) = di_mounts payload"
    and "mset (di_mounts payload) = mset (map made_mount (map docker_mount (sp_mounts spec)))"
    and "lv_ref (live_fact payload ref env) = ref"
  using assms by (simp_all add: live_fact_def made_of_def dockerCreateRequest_def Let_def multiset.map_comp)

text \<open>C36. What \<open>Create\<close> asks the engine for is what it adopts: the inspection of a container that was made of its request passes the
  validation of the specification, whatever labels the image and the engine added and in whatever order the mounts
  are listed. Besides what \<open>validateContainerSpec\<close> checks this needs a user that is not root, a read-only root and mounts at
  different cleaned places; a generation that fits the parser of the label; and an image whose variables have valid
  names, none of them requested or sensitive: an image that sets one of those is refused.\<close>

theorem created_container_adopted:
  assumes "validateContainerSpec symlinks spec = Inr spec'"
    and "made_of (dockerCreateRequest spec') (rr_container_name (sp_ref spec)) extra payload"
    and "distinct (map fst (cs_env (sp_command spec) @ extra))" and "\<forall>(key, _) \<in> set extra. validEnvName key"
    and "fst ` set extra \<inter> set (sp_sensitive_env_keys spec) = {}" and "\<forall>value. sha value \<noteq> []"
    and "rr_container_id (sp_ref spec) \<in> {[], di_id payload}" and "rr_generation (sp_ref spec) < 2 ^ 63"
    and "validateNonRootUser (sp_user spec) = None" and "sp_read_only_root spec"
    and "distinct (map (\<lambda>m. clean_path (mt_target m)) (sp_mounts spec'))"
  shows "\<exists>state. inspectFact sha payload (sp_ref spec) = Inr state \<and> ValidateAdoption sha spec' state = None"
proof -
  obtain mounts where spec': "spec' = spec\<lparr>sp_limits := default_limits (sp_limits spec), sp_mounts := mounts\<rparr>"
    and ref: "validateRef (sp_ref spec) = None" and env: "validate_env (cs_env (sp_command spec)) = None"
    and sensitive: "validate_sensitive [] (sp_sensitive_env_keys spec) = None"
    using assms(1) by (auto simp: validateContainerSpec_def Let_def unless_found_def split: option.splits sum.splits if_splits)
  have names: "distinct (map fst (cs_env (sp_command spec') @ extra))" using assms(3) spec' by simp
  have valid: "\<forall>(key, _) \<in> set (cs_env (sp_command spec') @ extra). validEnvName key"
    using assms(4) validated_env [OF env] spec' by auto
  have reference: "refFromLabels (di_id payload) (rr_container_name (sp_ref spec)) (ic_labels (di_config payload)) =
      Inr ((sp_ref spec)\<lparr>rr_container_id := di_id payload\<rparr>)"
    using assms(2) spec' by (intro made_reference [OF ref assms(8)]) (simp add: made_of_def dockerCreateRequest_def Let_def)
  let ?facts = "sort_key ef_name (map (environment_fact sha) (joined_environment spec' extra))"
  let ?state = "live_fact payload ((sp_ref spec)\<lparr>rr_container_id := di_id payload\<rparr>) ?facts"
  have environment: "inspectEnvironment sha (ic_env (di_config payload)) = Inr ?facts"
    using assms(2) by (intro made_environment [OF names valid]) (simp add: made_of_def Let_def)
  have asked: "environment_as_asked sha spec' ?facts"
    using validated_sensitive [OF sensitive] assms(5) spec' by (intro made_environment_asked [OF names valid assms(6)]) auto
  have "inspectFact sha payload (sp_ref spec) = Inr ?state"
    using assms(2,7) reference environment by (auto simp: inspectFact_def made_of_def same_reference_def Let_def)
  moreover have "ValidateAdoption sha spec' ?state = None"
    unfolding accepts_iff
  proof (intro conjI)
    show "same_identity (sp_ref spec') (lv_ref ?state)"
      using assms(7) spec' unfolding made_state(15) [OF assms(2)] by (auto simp: same_identity_def)
    show "isolated ?state"
      using assms(2,9,10) spec' validateNonRootUser_iff
      by (auto simp: isolated_def live_fact_def made_of_def dockerCreateRequest_def Let_def)
    show "sp_read_only_root spec'" using assms(10) spec' by simp
    have "tmpfs_as_asked (rl_tmpfs_bytes (sp_limits spec')) (lv_tmpfs ?state)"
      unfolding made_state(12) [OF assms(2)] using spec' by (intro created_tmpfs) (simp add: default_limits_def at_least_def)
    then show "as_asked sha spec' ?state"
      using made_mounts [OF made_state(14) [OF assms(2)]] assms(11) asked unfolding as_asked_def
      by (simp only: made_state [OF assms(2)]) simp
  qed
  ultimately show ?thesis by blast
qed

section \<open>An example\<close>

definition sample_spec :: ContainerSpec where
  "sample_spec =
     \<lparr>sp_ref = \<lparr>rr_container_id = [], rr_container_name = ''n'', rr_project_id = ''p'', rr_task_id = ''t'', rr_agent_id = ''a'',
        rr_run_id = ''r'', rr_generation = 3, rr_launch_nonce = ''x''\<rparr>,
      sp_image = ''i'', sp_command = \<lparr>cs_executable = ''e'', cs_args = [''-p''], cs_env = [(''K'', ''v'')]\<rparr>,
      sp_sensitive_env_keys = [''K''], sp_working_dir = ''/w'', sp_user = ''7:7'', sp_group_add = [''5''], sp_network = ''b'',
      sp_mounts = [\<lparr>mt_source = ''/s'', mt_target = ''/w'', mt_read_only = True\<rparr>], sp_read_only_root = True,
      sp_limits = \<lparr>rl_pids = 0, rl_memory_bytes = 9, rl_nano_cpus = 8, rl_tmpfs_bytes = 64\<rparr>\<rparr>"

definition sample_accepted :: ContainerSpec where
  "sample_accepted = sample_spec\<lparr>sp_limits := \<lparr>rl_pids = 256, rl_memory_bytes = 9, rl_nano_cpus = 8, rl_tmpfs_bytes = 64\<rparr>\<rparr>"

text \<open>The container that an engine makes, with a label and a variable of the image.\<close>

definition sample_made :: dockerInspect where
  "sample_made =
     (let asked = dockerCreateRequest sample_accepted; host = dc_host_config asked in
     \<lparr>di_id = ''c1'', di_name = ''/n'',
      di_config = \<lparr>ic_image = dc_image asked, ic_entrypoint = dc_entrypoint asked, ic_cmd = dc_cmd asked,
        ic_env = dc_env asked @ [''PATH=/bin''], ic_working_dir = dc_working_dir asked, ic_user = dc_user asked,
        ic_labels = (''vendor'', ''v'') # dc_labels asked\<rparr>,
      di_state = \<lparr>is_status = ''created'', is_running = False, is_pid = 0, is_exit_code = 0\<rparr>,
      di_host_config = \<lparr>ih_auto_remove = hc_auto_remove host, ih_privileged = hc_privileged host,
        ih_readonly_rootfs = hc_readonly_rootfs host, ih_network_mode = hc_network_mode host, ih_group_add = hc_group_add host,
        ih_cap_add = [], ih_cap_drop = hc_cap_drop host, ih_security_opt = hc_security_opt host,
        ih_pids_limit = hc_pids_limit host, ih_memory = hc_memory host, ih_nano_cpus = hc_nano_cpus host,
        ih_init = hc_init host, ih_tmpfs = hc_tmpfs host, ih_port_bindings = [], ih_restart_policy = hc_restart_policy host\<rparr>,
      di_ports = [], di_mounts = map made_mount (hc_mounts host)\<rparr>)"

lemma sample_accepts: "validateContainerSpec Inr sample_spec = Inr sample_accepted"
proof -
  have trims: "trim_space ''n'' = ''n''" "trim_space ''p'' = ''p''" "trim_space ''t'' = ''t''" "trim_space ''a'' = ''a''"
    "trim_space ''r'' = ''r''" "trim_space ''x'' = ''x''" "trim_space ''i'' = ''i''" "trim_space ''e'' = ''e''" "trim_space ''b'' = ''b''"
    by (rule trim_graphic; simp add: graphic_def)+
  have clean: "clean_path ''/s'' = ''/s''" by (simp add: clean_path_def rooted_path_def)
  show ?thesis
    by (simp add: validateContainerSpec_def sample_spec_def sample_accepted_def validateRef_def ref_values_def valid_ref_value_def
        trims clean validEnvName_def env_start_def in_range_def default_limits_def at_least_def unless_found_def rooted_path_def
        parse_uint32_def Let_def)
qed

theorem created_container_adopted_witness:
  "\<exists>state. inspectFact (\<lambda>_. [1]) sample_made (sp_ref sample_spec) = Inr state \<and> ValidateAdoption (\<lambda>_. [1]) sample_accepted state = None"
proof (rule created_container_adopted [where extra = "[(''PATH'', ''/bin'')]", OF sample_accepts])
  show "made_of (dockerCreateRequest sample_accepted) (rr_container_name (sp_ref sample_spec)) [(''PATH'', ''/bin'')] sample_made"
    by (simp add: made_of_def sample_made_def sample_spec_def dockerCreateRequest_def sample_accepted_def trim_prefix_def
        env_entry_def published_def labelsFor_def lookup_map_def LabelManaged_def LabelContract_def LabelProjectID_def
        LabelTaskID_def LabelAgentID_def LabelRunID_def LabelGeneration_def LabelLaunchNonce_def Let_def)
  have "trim_space ''7:7'' = ''7:7''" by (rule trim_graphic) (simp add: graphic_def)
  then show "validateNonRootUser (sp_user sample_spec) = None"
    by (simp add: sample_spec_def validateNonRootUser_def parse_uint32_def in_range_def)
qed (simp_all add: sample_spec_def sample_accepted_def sample_made_def validEnvName_def env_start_def in_range_def Let_def)

end
