(* ===== verification/Settings.thy ===== *)
theory Settings
  imports Config Adopts
begin

text \<open>
  What a configuration that was loaded satisfies: the directories of the daemon lie strictly inside its data
  directory, every number is in its range, and the allowlist has names of the catalog, each once.
\<close>

definition strictly_inside :: "string \<Rightarrow> string \<Rightarrow> bool" where
  "strictly_inside dir path =
     (\<exists>rest. rest \<noteq> [] \<and> path_elements (clean_path path) = path_elements (clean_path dir) @ rest)"

definition well_formed_config :: "Config \<Rightarrow> bool" where
  "well_formed_config c =
     (let run = cg_runtime c; git = cg_git c; retention = cg_retention c in
      cg_data_dir c \<noteq> ''/'' \<and> strictly_inside (cg_data_dir c) (cg_operator_socket c) \<and>
      strictly_inside (cg_data_dir c) (gt_workspace_root run) \<and> strictly_inside (cg_data_dir c) (gt_agent_home_root run) \<and>
      strictly_inside (cg_data_dir c) (gt_log_root run) \<and>
      0 < cg_max_parallel_runs c \<and> 0 \<le> gr_completed_workspace retention \<and> 0 \<le> gr_terminal_task_ref retention \<and>
      0 \<le> gr_run_log retention \<and> gt_docker_network run \<noteq> [] \<and> gt_default_image run \<noteq> [] \<and> 0 \<le> gt_run_timeout run \<and>
      0 \<le> gt_stall_timeout run \<and> 0 < gt_shutdown_grace run \<and> gg_capture_helper_image git \<noteq> [] \<and>
      0 < gg_capture_timeout git \<and> 0 < gg_maximum_bundle_bytes git \<and> 0 < gg_maximum_objects git \<and>
      gg_maximum_bundle_bytes git \<le> gg_maximum_handoff_bytes git \<and> distinct (gt_provider_env_allowlist run) \<and>
      set (gt_provider_env_allowlist run) \<subseteq> set ProviderEnvCatalog)"

section \<open>Paths\<close>

lemma drop_common_split:
  "drop_common bs ts = (bs', ts') \<Longrightarrow> \<exists>same. bs = same @ bs' \<and> ts = same @ ts'"
proof (induction bs ts rule: drop_common.induct)
  case (1 b bs t ts)
  then show ?case by (auto split: if_splits)
qed auto

lemma join_dots: "take 3 (join ''/'' (''..'' # e # es)) = ''../''"
  by (cases "join ''/'' (e # es)") simp_all

lemma requireDescendant_inside: "requireDescendant dir name path = None \<Longrightarrow> strictly_inside dir path"
proof -
  assume ok: "requireDescendant dir name path = None"
  obtain bs ts where rest: "drop_common (path_elements (clean_path dir)) (path_elements (clean_path path)) = (bs, ts)" by fastforce
  obtain relative where rel: "rel_path dir path = Some relative" using ok by (auto simp: requireDescendant_def split: option.splits)
  then have relative: "relative = (if bs = [] \<and> ts = [] then ''.'' else join ''/'' (replicate (length bs) ''..'' @ ts))"
    using rest by (auto simp: rel_path_def Let_def split: if_splits)
  have inside: "relative \<noteq> ''.'' \<and> relative \<noteq> ''..'' \<and> take 3 relative \<noteq> ''../''"
    using ok rel by (auto simp: requireDescendant_def split: if_splits)
  have "bs = []"
  proof (rule ccontr)
    assume "bs \<noteq> []"
    then obtain b bs' where "bs = b # bs'" by (cases bs) auto
    then have "relative = ''..'' \<or> take 3 relative = ''../''"
      using relative join_dots by (cases "replicate (length bs') ''..'' @ ts") auto
    then show False using inside by blast
  qed
  moreover have "ts \<noteq> []" using inside relative \<open>bs = []\<close> by auto
  ultimately show ?thesis using drop_common_split [OF rest] by (auto simp: strictly_inside_def)
qed

lemma descendant_path_inside: "descendant_path fs dir name value = Inr path \<Longrightarrow> strictly_inside dir path"
  by (auto simp: descendant_path_def unless_found_def dest: requireDescendant_inside split: sum.splits option.splits)

section \<open>Validation\<close>

lemma first_error_None: "first_error checks = None \<longleftrightarrow> (\<forall>(failed, _) \<in> set checks. \<not> failed)"
  by (induction checks rule: first_error.induct) auto

lemma validate_allowlist_names:
  "validate_allowlist i seen entries = Inr names \<Longrightarrow>
     distinct names \<and> set names \<inter> set seen = {} \<and> set names \<subseteq> set ProviderEnvCatalog"
proof (induction entries arbitrary: i seen names)
  case (Cons entry entries)
  let ?name = "trim_space entry"
  have name: "?name \<in> set ProviderEnvCatalog" "?name \<notin> set seen" using Cons.prems by (simp_all add: Let_def split: if_splits)
  obtain rest where rest: "validate_allowlist (Suc i) (?name # seen) entries = Inr rest" "names = ?name # rest"
    using Cons.prems by (simp add: Let_def split: if_splits sum.splits)
  from Cons.IH [OF rest(1)] show ?case using name rest(2) by auto
qed simp

lemma validate_paths_inside:
  assumes "validate_paths fs c = Inr c'"
  shows "cg_data_dir c' \<noteq> ''/'' \<and> strictly_inside (cg_data_dir c') (cg_operator_socket c') \<and>
    strictly_inside (cg_data_dir c') (gt_workspace_root (cg_runtime c')) \<and>
    strictly_inside (cg_data_dir c') (gt_agent_home_root (cg_runtime c')) \<and>
    strictly_inside (cg_data_dir c') (gt_log_root (cg_runtime c'))"
  using assms by (auto simp: validate_paths_def dest!: descendant_path_inside split: sum.splits if_splits)

lemma Validate_well_formed: "Validate fs c = Inr c' \<Longrightarrow> well_formed_config c'"
  by (auto simp: Validate_def well_formed_config_def validate_numbers_def validate_runtime_def validate_git_def
      trimmed_runtime_def trimmed_git_def first_error_None Let_def
      dest!: validate_paths_inside validate_allowlist_names split: sum.splits option.splits if_splits)

text \<open>C37. A configuration that was loaded is well formed, whatever the document, the file system and their errors were.\<close>

theorem loaded_config_well_formed:
  assumes "Load fs opened document extra = Inr c"
  shows "well_formed_config c"
  using assms by (auto simp: Load_def dest: Validate_well_formed split: option.splits decoded.splits if_splits)

definition sample_document :: fileConfig where
  "sample_document =
     \<lparr>fc_data_dir = ''/d'', fc_operator_socket = ''/d/s'', fc_web_addr = [], fc_max_parallel_runs = 2,
      fc_retention = \<lparr>fr_completed_workspace = Some 0, fr_terminal_task_ref = Some 5, fr_run_log = Some 0\<rparr>,
      fc_runtime = \<lparr>ft_docker_network = ''n'', ft_workspace_root = ''/d/w'', ft_agent_home_root = ''/d/h'', ft_log_root = ''/d/l'',
        ft_default_image = ''i'', ft_provider_env_allowlist = [''OPENAI_API_KEY''], ft_run_timeout = None, ft_stall_timeout = None,
        ft_shutdown_grace = None\<rparr>,
      fc_git = \<lparr>fg_capture_helper_image = [], fg_capture_timeout = None, fg_maximum_bundle_bytes = 0, fg_maximum_objects = 0,
        fg_maximum_handoff_bytes = 0\<rparr>\<rparr>"

definition sample_disk :: file_system where
  "sample_disk = \<lparr>fs_lstat = (\<lambda>path. if path \<in> {''/'', ''/d''} then None else Some (sentinel_error FileNotExist)), fs_resolve = Inr\<rparr>"

theorem loaded_config_well_formed_witness:
  "\<exists>c. Load sample_disk None (Decoded sample_document) DecodedEOF = Inr c \<and> well_formed_config c \<and> cg_operator_socket c = ''/d/s''"
proof -
  have trims: "trim_space [] = []" "trim_space ''/d'' = ''/d''" "trim_space ''/d/s'' = ''/d/s''" "trim_space ''/d/w'' = ''/d/w''"
    "trim_space ''/d/h'' = ''/d/h''" "trim_space ''/d/l'' = ''/d/l''" "trim_space ''n'' = ''n''" "trim_space ''i'' = ''i''"
    "trim_space ''OPENAI_API_KEY'' = ''OPENAI_API_KEY''"
    by (rule trim_graphic; simp add: graphic_def)+
  have "\<exists>c. Load sample_disk None (Decoded sample_document) DecodedEOF = Inr c \<and> cg_operator_socket c = ''/d/s''"
    by (simp add: Load_def sample_document_def config_of_def default_of_def unless_zero_def Validate_def validate_paths_def
        canonicalPath_def trims rooted_path_def path_elements_def rooted_at_def sample_disk_def clean_path_def join_path_def
        descendant_path_def requireDescendant_def rel_path_def unless_found_def validate_numbers_def trimmed_runtime_def
        validate_runtime_def trimmed_git_def validate_git_def DefaultShutdownGrace_def DefaultCaptureTimeout_def
        DefaultCaptureBundleSize_def DefaultCaptureObjects_def DefaultHandoffSize_def configEnvName_def env_start_def
        in_range_def reservedRuntimeEnvironment_def ProviderEnvCatalog_def errors_Is_def sentinel_error_def Let_def)
  then show ?thesis using loaded_config_well_formed by blast
qed

end
