(* ===== verification/Events.thy ===== *)
theory Events
  imports Daemon "HOL-Library.Monad_Syntax"
begin

text \<open>
  The parsing of protocol frames by the adapters (\<open>ParseEvent\<close> in internal/adapter/claude.go and codex.go): which
  events they recognise, which parts of a frame become part of an event, and which frames they reject. Only what
  they project enters the log of a run. The scanner of JSON is the record \<open>json_library\<close>; how its results are
  stored in the fields of a Go struct (names are compared without case, null changes nothing, the last member
  wins) is written out here.
\<close>

section \<open>Decoding\<close>

text \<open>The outermost level of a JSON text: the members of an object and the elements of an array are raw messages.\<close>

datatype json_level = LNull | LBool bool | LNumber string | LString string
  | LArray "string list" | LObject "(string \<times> string) list"

text \<open>\<open>jl_level\<close> is the outermost level of a text that is one JSON value, \<open>jl_first\<close> the first value of a text (with
  the members of an object as a Go map) and what follows it, \<open>jl_compact\<close> how a raw message is written, and
  \<open>jl_capacity\<close> the capacity of a buffer that raw messages were stored in, one after the other.\<close>

record json_library =
  jl_level :: "string \<Rightarrow> json_level option"
  jl_first :: "string \<Rightarrow> (frame_value \<times> string) option"
  jl_compact :: "string \<Rightarrow> string"
  jl_capacity :: "string list \<Rightarrow> nat"

text \<open>A member belongs to the field whose name it equals up to Unicode case folding: besides the ASCII letters, the
  Kelvin sign folds to k and the long s to s.\<close>

function fold_key :: "string \<Rightarrow> string" where
  "fold_key [] = []"
| "fold_key (c # cs) =
     (if take 3 (c # cs) = [CHR 0xE2, CHR 0x84, CHR 0xAA] then CHR ''k'' # fold_key (drop 2 cs)
      else if take 2 (c # cs) = [CHR 0xC5, CHR 0xBF] then CHR ''s'' # fold_key (drop 1 cs)
      else lower_char c # fold_key cs)"
  by pat_completeness auto
termination by (relation "measure length") auto

definition named :: "string \<Rightarrow> (string \<times> string) list \<Rightarrow> string list" where
  "named name members = map snd (filter (\<lambda>(k, _). fold_key k = name) members)"

text \<open>\<open>json.Unmarshal\<close> into a struct, a string, a pointer to a boolean, a list of raw messages. The value before is kept
  when the text is null; a type error is None.\<close>

definition unmarshal_struct :: "json_library \<Rightarrow> string \<Rightarrow> (string \<times> string) list option" where
  "unmarshal_struct lib text =
     (case jl_level lib text of Some (LObject members) \<Rightarrow> Some members | Some LNull \<Rightarrow> Some [] | _ \<Rightarrow> None)"

definition unmarshal_string :: "json_library \<Rightarrow> string \<Rightarrow> string \<Rightarrow> string option" where
  "unmarshal_string lib before text =
     (case jl_level lib text of Some (LString s) \<Rightarrow> Some s | Some LNull \<Rightarrow> Some before | _ \<Rightarrow> None)"

definition unmarshal_bool :: "json_library \<Rightarrow> bool option \<Rightarrow> string \<Rightarrow> bool option option" where
  "unmarshal_bool lib before text =
     (case jl_level lib text of Some (LBool b) \<Rightarrow> Some (Some b) | Some LNull \<Rightarrow> Some None | _ \<Rightarrow> None)"

definition unmarshal_list :: "json_library \<Rightarrow> string list option \<Rightarrow> string \<Rightarrow> string list option option" where
  "unmarshal_list lib before text =
     (case jl_level lib text of Some (LArray items) \<Rightarrow> Some (Some items) | Some LNull \<Rightarrow> Some None | _ \<Rightarrow> None)"

text \<open>A field of a struct: every member with its name is stored, in order.\<close>

fun store_all :: "('a \<Rightarrow> string \<Rightarrow> 'a option) \<Rightarrow> 'a \<Rightarrow> string list \<Rightarrow> 'a option" where
  "store_all store v [] = Some v"
| "store_all store v (text # texts) = (case store v text of None \<Rightarrow> None | Some v \<Rightarrow> store_all store v texts)"

definition string_field :: "json_library \<Rightarrow> string \<Rightarrow> string \<Rightarrow> (string \<times> string) list \<Rightarrow> string option" where
  "string_field lib name before members = store_all (unmarshal_string lib) before (named name members)"

definition raw_field :: "string \<Rightarrow> string \<Rightarrow> (string \<times> string) list \<Rightarrow> string" where
  "raw_field name before members = last (before # named name members)"

section \<open>Encoding\<close>

text \<open>\<open>json.Marshal\<close> of a map, whose keys are written in order, with the texts of its members.\<close>

definition object_text :: "(string \<times> string) list \<Rightarrow> string" where
  "object_text members = ''{'' @ join '','' (map (\<lambda>(k, text). json_string k @ '':'' @ text) (sort_key fst members)) @ ''}''"

definition array_text :: "string list \<Rightarrow> string" where
  "array_text texts = ''['' @ join '','' texts @ '']''"

fun encode_frame :: "frame_value \<Rightarrow> string" where
  "encode_frame FNull = ''null''"
| "encode_frame (FBool b) = (if b then ''true'' else ''false'')"
| "encode_frame (FNumber text) = text"
| "encode_frame (FString s) = json_string s"
| "encode_frame (FArray vs) = array_text (map encode_frame vs)"
| "encode_frame (FObject members) = object_text (map (\<lambda>(k, v). (k, encode_frame v)) members)"

section \<open>Claude\<close>

record claudeEnvelope =
  ce_type :: string
  ce_subtype :: string
  ce_session_id :: string
  ce_is_error :: "bool option"
  ce_result :: string
  ce_message :: string
  ce_error :: string

definition claude_envelope :: "json_library \<Rightarrow> string \<Rightarrow> claudeEnvelope option" where
  "claude_envelope lib frame = do {
     members \<leftarrow> unmarshal_struct lib frame;
     kind \<leftarrow> string_field lib ''type'' [] members;
     subtype \<leftarrow> string_field lib ''subtype'' [] members;
     session \<leftarrow> string_field lib ''session_id'' [] members;
     is_error \<leftarrow> store_all (unmarshal_bool lib) None (named ''is_error'' members);
     result \<leftarrow> string_field lib ''result'' [] members;
     Some \<lparr>ce_type = kind, ce_subtype = subtype, ce_session_id = session, ce_is_error = is_error, ce_result = result,
       ce_message = raw_field ''message'' [] members, ce_error = raw_field ''error'' [] members\<rparr> }"

definition nonblank :: "string option \<Rightarrow> string option" where
  "nonblank text = (case text of Some s \<Rightarrow> if trim_space s = [] then None else Some s | None \<Rightarrow> None)"

definition or_else :: "'a option \<Rightarrow> 'a \<Rightarrow> 'a" where
  "or_else x y = (case x of None \<Rightarrow> y | Some v \<Rightarrow> v)"

definition claudeProtocolMessage :: "json_library \<Rightarrow> claudeEnvelope \<Rightarrow> string" where
  "claudeProtocolMessage lib payload =
     or_else (nonblank (unmarshal_string lib [] (ce_message payload)))
    (or_else (nonblank (Some (ce_result payload)))
    (or_else (nonblank (Option.bind (unmarshal_struct lib (ce_error payload)) (string_field lib ''message'' [])))
    (or_else (nonblank (unmarshal_string lib [] (ce_error payload)))
     ''Claude provider error'')))"

text \<open>A block of the content of an assistant message: rejected, dropped or kept with the text it is written as.\<close>

definition claude_thinking_block :: "json_library \<Rightarrow> string \<Rightarrow> unit option" where
  "claude_thinking_block lib raw = do {
     members \<leftarrow> unmarshal_struct lib raw;
     _ \<leftarrow> string_field lib ''thinking'' [] members;
     _ \<leftarrow> string_field lib ''signature'' [] members;
     Some () }"

definition claude_tool_use_block :: "json_library \<Rightarrow> string \<Rightarrow> (string \<times> string \<times> string) option" where
  "claude_tool_use_block lib raw = do {
     members \<leftarrow> unmarshal_struct lib raw;
     ident \<leftarrow> string_field lib ''id'' [] members;
     name \<leftarrow> string_field lib ''name'' [] members;
     Some (ident, name, raw_field ''input'' [] members) }"

definition claude_block_type :: "json_library \<Rightarrow> string \<Rightarrow> string option" where
  "claude_block_type lib raw = Option.bind (unmarshal_struct lib raw) (string_field lib ''type'' [])"

definition parseClaudeContentBlock :: "json_library \<Rightarrow> string \<Rightarrow> derror + string option" where
  "parseClaudeContentBlock lib raw =
     (case claude_block_type lib raw of
        None \<Rightarrow> Inl (errors_New ''adapter: invalid Claude assistant content block'')
      | Some kind \<Rightarrow>
          if kind = ''thinking'' then
            (if claude_thinking_block lib raw = None
             then Inl (errors_New ''adapter: invalid Claude assistant content block'') else Inr None)
          else if kind = ''text'' then
            (case Option.bind (unmarshal_struct lib raw) (string_field lib ''text'' []) of
               None \<Rightarrow> Inl (errors_New ''adapter: invalid Claude assistant content block'')
             | Some text \<Rightarrow>
                 if trim_space text = [] then Inr None
                 else Inr (Some (object_text [(''type'', json_string ''text''), (''text'', json_string text)])))
          else if kind = ''tool_use'' then
            (case claude_tool_use_block lib raw of
               None \<Rightarrow> Inl (errors_New ''adapter: invalid Claude tool_use block'')
             | Some (ident, name, input) \<Rightarrow>
                 if trim_space ident = [] \<or> trim_space name = [] \<or> unmarshal_struct lib input = None \<or> trim_space input = ''null''
                 then Inl (errors_New ''adapter: invalid Claude tool_use block'')
                 else Inr (Some (object_text [(''type'', json_string ''tool_use''), (''id'', json_string ident),
                   (''name'', json_string name), (''input'', jl_compact lib input)])))
          else Inl (errors_New ''adapter: unsupported Claude assistant content block''))"

fun claude_content :: "json_library \<Rightarrow> string list \<Rightarrow> derror + string list" where
  "claude_content lib [] = Inr []"
| "claude_content lib (raw # raws) =
     (case parseClaudeContentBlock lib raw of
        Inl e \<Rightarrow> Inl e
      | Inr block \<Rightarrow>
          (case claude_content lib raws of
             Inl e \<Rightarrow> Inl e
           | Inr content \<Rightarrow> Inr (case block of None \<Rightarrow> content | Some text \<Rightarrow> text # content)))"

definition claude_message :: "json_library \<Rightarrow> string \<Rightarrow> (string \<times> string \<times> string list option) option" where
  "claude_message lib raw = do {
     members \<leftarrow> unmarshal_struct lib raw;
     kind \<leftarrow> string_field lib ''type'' [] members;
     role \<leftarrow> string_field lib ''role'' [] members;
     content \<leftarrow> store_all (unmarshal_list lib) None (named ''content'' members);
     Some (kind, role, content) }"

definition assistant_text :: "string list \<Rightarrow> string" where
  "assistant_text content =
     object_text [(''type'', json_string ''assistant''),
       (''message'', object_text [(''type'', json_string ''message''), (''role'', json_string ''assistant''),
          (''content'', array_text content)])]"

definition parseClaudeAssistantEvent :: "json_library \<Rightarrow> Event \<Rightarrow> string \<Rightarrow> derror + Event" where
  "parseClaudeAssistantEvent lib event rawMessage =
     (let rawMessage = trim_space rawMessage in
      if take 1 rawMessage = [CHR 0x22] \<and> unmarshal_string lib [] rawMessage \<noteq> None then Inr event
      else case claude_message lib rawMessage of
          Some (kind, role, Some blocks) \<Rightarrow>
            if kind \<noteq> ''message'' \<or> role \<noteq> ''assistant''
            then Inl (errors_New ''adapter: unsupported Claude assistant message'')
            else (case claude_content lib blocks of
                Inl e \<Rightarrow> Inl e
              | Inr content \<Rightarrow> Inr (event\<lparr>ev_raw := (if content = [] then [] else assistant_text content)\<rparr>))
        | _ \<Rightarrow> Inl (errors_New ''adapter: unsupported Claude assistant message''))"

definition claude_ParseEvent :: "json_library \<Rightarrow> string \<Rightarrow> derror + Event" where
  "claude_ParseEvent lib frame =
     (let frame = trim_space frame in
      if frame = [] then Inl (errors_New ''adapter: empty Claude protocol frame'')
      else case claude_envelope lib frame of
          None \<Rightarrow> Inl (errors_New ''adapter: invalid Claude JSON event'')
        | Some payload \<Rightarrow>
            let event = \<lparr>ev_kind = EventProtocol, ev_native_session_id = [], ev_message = [], ev_raw = frame\<rparr>;
                failed = event\<lparr>ev_kind := EventProviderError, ev_message := claudeProtocolMessage lib payload\<rparr> in
            if ce_type payload = ''system'' then
              (if ce_subtype payload \<noteq> ''init'' then Inr event
               else if trim_space (ce_session_id payload) = []
               then Inl (errors_New ''adapter: Claude system init omitted session_id'')
               else Inr (event\<lparr>ev_kind := EventSessionStarted, ev_native_session_id := ce_session_id payload\<rparr>))
            else if ce_type payload = ''result'' then
              (if ce_subtype payload = ''success'' then
                 (case ce_is_error payload of
                    None \<Rightarrow> Inl (errors_New ''adapter: Claude success result omitted is_error'')
                  | Some is_error \<Rightarrow> if \<not> is_error then Inr event else Inr failed)
               else Inr failed)
            else if ce_type payload = ''error'' then Inr failed
            else if ce_type payload = ''assistant'' then parseClaudeAssistantEvent lib event (ce_message payload)
            else Inr event)"

section \<open>Codex\<close>

record codexEnvelope =
  xe_type :: string
  xe_thread_id :: string
  xe_message :: string
  xe_item :: string

definition codex_envelope :: "json_library \<Rightarrow> string \<Rightarrow> codexEnvelope option" where
  "codex_envelope lib frame = do {
     members \<leftarrow> unmarshal_struct lib frame;
     kind \<leftarrow> string_field lib ''type'' [] members;
     thread \<leftarrow> string_field lib ''thread_id'' [] members;
     text \<leftarrow> string_field lib ''message'' [] members;
     Some \<lparr>xe_type = kind, xe_thread_id = thread, xe_message = text, xe_item = raw_field ''item'' [] members\<rparr> }"

record codexItem =
  ci_id :: string
  ci_type :: string
  ci_role :: string
  ci_message :: string
  ci_content :: string
  ci_name :: string
  ci_tool_call_id :: string
  ci_arguments :: string
  ci_tool_call :: string
  ci_function_call :: string

definition no_item :: codexItem where
  "no_item = \<lparr>ci_id = [], ci_type = [], ci_role = [], ci_message = [], ci_content = [], ci_name = [],
     ci_tool_call_id = [], ci_arguments = [], ci_tool_call = [], ci_function_call = []\<rparr>"

text \<open>The members of an object over the fields that an item has.\<close>

definition codex_fields :: "json_library \<Rightarrow> codexItem \<Rightarrow> (string \<times> string) list \<Rightarrow> codexItem option" where
  "codex_fields lib item members = do {
     ident \<leftarrow> string_field lib ''id'' (ci_id item) members;
     kind \<leftarrow> string_field lib ''type'' (ci_type item) members;
     role \<leftarrow> string_field lib ''role'' (ci_role item) members;
     text \<leftarrow> string_field lib ''message'' (ci_message item) members;
     name \<leftarrow> string_field lib ''name'' (ci_name item) members;
     call_id \<leftarrow> string_field lib ''tool_call_id'' (ci_tool_call_id item) members;
     Some \<lparr>ci_id = ident, ci_type = kind, ci_role = role, ci_message = text,
       ci_content = raw_field ''content'' (ci_content item) members, ci_name = name, ci_tool_call_id = call_id,
       ci_arguments = raw_field ''arguments'' (ci_arguments item) members,
       ci_tool_call = raw_field ''tool_call'' (ci_tool_call item) members,
       ci_function_call = raw_field ''function_call'' (ci_function_call item) members\<rparr> }"

text \<open>A copy of an item shares the buffers of its raw messages. The members named function_call of the first object
  that is read over the copy are stored in the buffer that the second one is read from, as long as they fit.\<close>

fun overwritten :: "nat \<Rightarrow> string \<Rightarrow> string list \<Rightarrow> string" where
  "overwritten capacity buffer [] = buffer"
| "overwritten capacity buffer (text # texts) =
     (if length text \<le> capacity
      then overwritten capacity (take (length buffer) (text @ drop (length text) buffer)) texts else buffer)"

definition codex_call_over :: "json_library \<Rightarrow> codexItem \<Rightarrow> string \<Rightarrow> codexItem option" where
  "codex_call_over lib item raw = Option.bind (unmarshal_struct lib raw) (codex_fields lib item)"

text \<open>\<open>calls\<close> are the members named function_call that the item was read from.\<close>

definition codex_call :: "json_library \<Rightarrow> string list \<Rightarrow> codexItem \<Rightarrow> codexItem option" where
  "codex_call lib calls item =
     (let first = trim_space (ci_tool_call item) in
      if first = [] then
        (let second = trim_space (ci_function_call item) in
         if second = [] then Some item else codex_call_over lib item second)
      else do {
        members \<leftarrow> unmarshal_struct lib first;
        over \<leftarrow> codex_fields lib item members;
        let second = trim_space (overwritten (jl_capacity lib calls) (ci_function_call item) (named ''function_call'' members));
        if second = [] then Some over else codex_call_over lib over second })"

definition codexPrivateToolCallArgumentFields :: "string list" where
  "codexPrivateToolCallArgumentFields = [''signature'', ''encrypted_content'', ''usage'']"

fun codexSanitizeToolCallArguments :: "frame_value \<Rightarrow> frame_value" where
  "codexSanitizeToolCallArguments (FArray vs) = FArray (map codexSanitizeToolCallArguments vs)"
| "codexSanitizeToolCallArguments (FObject members) =
     FObject (filter (\<lambda>(k, _). k \<notin> set codexPrivateToolCallArgumentFields)
       (map (\<lambda>(k, v). (k, codexSanitizeToolCallArguments v)) members))"
| "codexSanitizeToolCallArguments v = v"

definition json_space :: "char \<Rightarrow> bool" where
  "json_space c = (c \<in> {CHR 0x20, CHR 0x09, CHR 0x0A, CHR 0x0D})"

definition codexVisibleToolCallArguments :: "json_library \<Rightarrow> string \<Rightarrow> derror + frame_value" where
  "codexVisibleToolCallArguments lib raw =
     (case jl_first lib raw of
        Some (FObject arguments, rest) \<Rightarrow>
          if \<not> list_all json_space rest then Inl (errors_New ''adapter: invalid Codex tool_call arguments'')
          else Inr (codexSanitizeToolCallArguments (FObject arguments))
      | _ \<Rightarrow> Inl (errors_New ''adapter: invalid Codex tool_call arguments''))"

definition codexVisibleToolCall :: "json_library \<Rightarrow> string list \<Rightarrow> codexItem \<Rightarrow> derror + frame_value option" where
  "codexVisibleToolCall lib calls item =
     (case codex_call lib calls item of
        None \<Rightarrow> Inl (errors_New ''adapter: invalid Codex tool_call payload'')
      | Some merged \<Rightarrow>
          let name = trim_space (ci_name merged); ident = trim_space (ci_tool_call_id merged);
              ident = (if ident = [] then trim_space (ci_id merged) else ident);
              projected = [(''type'', FString ''tool_call''), (''id'', FString ident), (''name'', FString name)];
              rawArguments = trim_space (ci_arguments merged) in
          if name = [] then Inr None
          else if rawArguments = [] \<or> rawArguments = ''null'' then Inr (Some (FObject projected))
          else (case codexVisibleToolCallArguments lib rawArguments of
              Inl e \<Rightarrow> Inl e
            | Inr arguments \<Rightarrow> Inr (Some (FObject (projected @ [(''arguments'', arguments)])))))"

definition codex_text_block :: "json_library \<Rightarrow> string \<Rightarrow> (string \<times> string) option" where
  "codex_text_block lib raw = do {
     members \<leftarrow> unmarshal_struct lib raw;
     kind \<leftarrow> string_field lib ''type'' [] members;
     text \<leftarrow> string_field lib ''text'' [] members;
     Some (kind, text) }"

fun codex_content :: "json_library \<Rightarrow> string list \<Rightarrow> derror + frame_value list" where
  "codex_content lib [] = Inr []"
| "codex_content lib (raw # raws) =
     (case codex_text_block lib raw of
        None \<Rightarrow> Inl (errors_New ''adapter: invalid Codex agent_message content block'')
      | Some (kind, text) \<Rightarrow>
          (case codex_content lib raws of
             Inl e \<Rightarrow> Inl e
           | Inr content \<Rightarrow> Inr (if kind = ''output_text'' \<and> trim_space text \<noteq> []
               then FObject [(''type'', FString ''output_text''), (''text'', FString text)] # content else content)))"

definition codex_content_of :: "json_library \<Rightarrow> string \<Rightarrow> derror + frame_value list" where
  "codex_content_of lib raw =
     (let rawContent = trim_space raw in
      if rawContent = [] \<or> rawContent = ''null'' then Inr []
      else case unmarshal_list lib None rawContent of
          None \<Rightarrow> Inl (errors_New ''adapter: invalid Codex agent_message content'')
        | Some blocks \<Rightarrow> codex_content lib (or_else blocks []))"

definition codexVisibleAgentMessage :: "json_library \<Rightarrow> codexItem \<Rightarrow> derror + frame_value option" where
  "codexVisibleAgentMessage lib item =
     (let role = trim_space (ci_role item) in
      if role = [] then Inl (errors_New ''adapter: Codex agent_message item omitted role'')
      else case codex_content_of lib (ci_content item) of
          Inl e \<Rightarrow> Inl e
        | Inr content \<Rightarrow> Inr (if content = [] then None
            else Some (FObject [(''type'', FString ''agent_message''), (''id'', FString (ci_id item)),
              (''role'', FString role), (''content'', FArray content)])))"

text \<open>\<open>strings.ToLower\<close> for a search of ASCII text: the two letters outside of ASCII with an ASCII lower case are
  the Kelvin sign and the capital I with a dot.\<close>

function lower_text :: "string \<Rightarrow> string" where
  "lower_text [] = []"
| "lower_text (c # cs) =
     (if take 3 (c # cs) = [CHR 0xE2, CHR 0x84, CHR 0xAA] then CHR ''k'' # lower_text (drop 2 cs)
      else if take 2 (c # cs) = [CHR 0xC4, CHR 0xB0] then CHR ''i'' # lower_text (drop 1 cs)
      else lower_char c # lower_text cs)"
  by pat_completeness auto
termination by (relation "measure length") auto

fun text_contains :: "string \<Rightarrow> string \<Rightarrow> bool" where
  "text_contains [] marker = (marker = [])"
| "text_contains (c # cs) marker = (take (length marker) (c # cs) = marker \<or> text_contains cs marker)"

definition codexResumeUnavailableMarkers :: "string list" where
  "codexResumeUnavailableMarkers = [''session not found'', ''thread not found'']"

definition codexErrorEvent :: "frame_value \<Rightarrow> string \<Rightarrow> derror + Event option" where
  "codexErrorEvent projection text =
     (let text = trim_space text in
      if text = [] then Inl (errors_New ''adapter: Codex error event omitted message'')
      else Inr (Some \<lparr>ev_kind = (if list_ex (text_contains (lower_text text)) codexResumeUnavailableMarkers
               then EventResumeUnavailable else EventProviderError),
             ev_native_session_id = [], ev_message = text, ev_raw = encode_frame projection\<rparr>))"

definition protocol_event :: "frame_value \<Rightarrow> Event" where
  "protocol_event projection =
     \<lparr>ev_kind = EventProtocol, ev_native_session_id = [], ev_message = [], ev_raw = encode_frame projection\<rparr>"

definition codex_call_types :: "string list" where
  "codex_call_types = [''tool_call'', ''function_call'', ''mcp_tool_call'', ''dynamic_tool_call'', ''custom_tool_call'',
     ''collab_agent_tool_call'']"

definition codex_visible :: "json_library \<Rightarrow> string list \<Rightarrow> codexItem \<Rightarrow> derror + frame_value option" where
  "codex_visible lib calls item =
     (if ci_type item = ''agent_message'' then codexVisibleAgentMessage lib item
      else if ci_type item \<in> set codex_call_types then codexVisibleToolCall lib calls item
      else Inr None)"

text \<open>None stands for the empty event, which is ignored.\<close>

definition codexItemEvent :: "json_library \<Rightarrow> string \<Rightarrow> string \<Rightarrow> derror + Event option" where
  "codexItemEvent lib kind rawItem =
     (if trim_space rawItem = [] then Inl (errors_New ''adapter: Codex item event omitted item'')
      else case Option.bind (unmarshal_struct lib rawItem)
            (\<lambda>members. map_option (Pair (named ''function_call'' members)) (codex_fields lib no_item members)) of
          None \<Rightarrow> Inl (errors_New ''adapter: invalid Codex item'')
        | Some (calls, item) \<Rightarrow>
            if trim_space (ci_type item) = [] then Inl (errors_New ''adapter: Codex item omitted type'')
            else if ci_type item = ''error''
            then codexErrorEvent (FObject [(''type'', FString kind), (''item'', FObject [(''id'', FString (ci_id item)),
                (''type'', FString (ci_type item)), (''message'', FString (ci_message item))])]) (ci_message item)
            else (case codex_visible lib calls item of
                Inl e \<Rightarrow> Inl e
              | Inr visible \<Rightarrow> Inr (map_option
                  (\<lambda>v. protocol_event (FObject [(''type'', FString kind), (''item'', v)])) visible)))"

definition codex_ParseEvent :: "json_library \<Rightarrow> string \<Rightarrow> derror + Event option" where
  "codex_ParseEvent lib frame =
     (let frame = trim_space frame in
      if frame = [] then Inl (errors_New ''adapter: empty Codex protocol frame'')
      else case codex_envelope lib frame of
          None \<Rightarrow> Inl (errors_New ''adapter: invalid Codex JSON event'')
        | Some envelope \<Rightarrow>
            let kind = xe_type envelope in
            if trim_space kind = [] then Inl (errors_New ''adapter: Codex event omitted type'')
            else if kind = ''thread.started'' then
              (let session = trim_space (xe_thread_id envelope) in
               if session = [] then Inl (errors_New ''adapter: Codex thread.started omitted thread_id'')
               else Inr (Some ((protocol_event (FObject [(''type'', FString kind), (''thread_id'', FString session)]))
                 \<lparr>ev_kind := EventSessionStarted, ev_native_session_id := session\<rparr>)))
            else if kind \<in> {''turn.started'', ''turn.completed'', ''thread.completed''}
            then Inr (Some (protocol_event (FObject [(''type'', FString kind)])))
            else if kind \<in> {''item.started'', ''item.completed''} then codexItemEvent lib kind (xe_item envelope)
            else if kind = ''error''
            then codexErrorEvent (FObject [(''type'', FString kind), (''message'', FString (xe_message envelope))]) (xe_message envelope)
            else Inr None)"

section \<open>Both adapters\<close>

text \<open>The adapter of a run parses its frames. The empty event has no text, which is why it is ignored.\<close>

definition empty_event :: Event where
  "empty_event = \<lparr>ev_kind = EventProtocol, ev_native_session_id = [], ev_message = [], ev_raw = []\<rparr>"

definition ParseEvent :: "json_library \<Rightarrow> CLI \<Rightarrow> string \<Rightarrow> derror + Event" where
  "ParseEvent lib entry frame =
     (if cli_name entry = claudeAdapterName then claude_ParseEvent lib frame
      else case codex_ParseEvent lib frame of Inl e \<Rightarrow> Inl e | Inr event \<Rightarrow> Inr (or_else event empty_event))"

end
