(* ===== verification/Frames.thy ===== *)
theory Frames
  imports Events Intents Histories Execution
begin

text \<open>
  What the parsing of protocol frames guarantees: reasoning of the provider and its private fields never become
  part of an event, and an event starts a session exactly when it names one.
\<close>

section \<open>A sample of frames\<close>

text \<open>The JSON library on the texts of a sample: a tool call of Codex with a signature in its arguments, and a message of
  Claude with a thinking block.\<close>

definition sample_levels :: "(string \<times> json_level) list" where
  "sample_levels =
     [(''{f}'', LObject [(''type'', ''t''), (''item'', ''{i}'')]), (''t'', LString ''item.completed''),
      (''{i}'', LObject [(''type'', ''k''), (''name'', ''n''), (''arguments'', ''{a}''), (''signature'', ''x'')]),
      (''k'', LString ''tool_call''), (''n'', LString ''shell''),
      (''{b}'', LObject [(''type'', ''y''), (''thinking'', ''n'')]), (''y'', LString ''thinking''),
      (''{c}'', LObject [(''type'', ''z''), (''text'', ''n'')]), (''z'', LString ''text''),
      (''{s}'', LObject [(''type'', ''h''), (''thread_id'', ''n'')]), (''h'', LString ''thread.started'')]"

definition sample :: json_library where
  "sample = \<lparr>jl_level = map_of sample_levels,
     jl_first = (\<lambda>text. if text = ''{a}'' then Some (FObject [(''command'', FString ''ls''), (''signature'', FString ''x'')], []) else None),
     jl_compact = (\<lambda>text. text), jl_capacity = (\<lambda>texts. 64)\<rparr>"

lemma sample_trims:
  "trim_space [] = []" "trim_space ''{f}'' = ''{f}''" "trim_space ''item.completed'' = ''item.completed''"
  "trim_space ''{i}'' = ''{i}''" "trim_space ''tool_call'' = ''tool_call''" "trim_space ''shell'' = ''shell''"
  "trim_space ''{a}'' = ''{a}''" "trim_space ''{s}'' = ''{s}''" "trim_space ''thread.started'' = ''thread.started''"
  by (simp_all add: function_runs strip.simps cong: run_congs)

lemma sample_keys:
  "fold_key ''type'' = ''type''" "fold_key ''item'' = ''item''" "fold_key ''name'' = ''name''"
  "fold_key ''arguments'' = ''arguments''" "fold_key ''signature'' = ''signature''" "fold_key ''thinking'' = ''thinking''"
  "fold_key ''text'' = ''text''" "fold_key ''thread_id'' = ''thread_id''"
  by (simp_all add: lower_char_def in_range_def)

lemma sample_reads:
  "jl_level sample text = map_of sample_levels text" "jl_capacity sample texts = 64"
  "jl_first sample text = (if text = ''{a}'' then Some (FObject [(''command'', FString ''ls''), (''signature'', FString ''x'')], []) else None)"
  by (simp_all add: sample_def)

lemmas parses = sample_trims sample_keys sample_reads sample_levels_def unmarshal_struct_def unmarshal_string_def
  string_field_def raw_field_def named_def

section \<open>What Codex projects\<close>

text \<open>No object at any depth has a private field.\<close>

fun private_free :: "frame_value \<Rightarrow> bool" where
  "private_free (FArray vs) = list_all private_free vs"
| "private_free (FObject members) =
     list_all (\<lambda>(k, v). k \<notin> set codexPrivateToolCallArgumentFields \<and> private_free v) members"
| "private_free v = True"

text \<open>The objects an event of Codex is written from.\<close>

fun text_value :: "frame_value \<Rightarrow> bool" where
  "text_value (FString _) = True"
| "text_value _ = False"

fun public_text_block :: "frame_value \<Rightarrow> bool" where
  "public_text_block (FObject [(k, FString kind), (k', FString _)]) = (k = ''type'' \<and> kind = ''output_text'' \<and> k' = ''text'')"
| "public_text_block _ = False"

definition public_item_member :: "string \<times> frame_value \<Rightarrow> bool" where
  "public_item_member = (\<lambda>(k, v).
     if k \<in> {''type'', ''id'', ''role'', ''name'', ''message''} then text_value v
     else if k = ''content'' then (\<exists>blocks. v = FArray blocks \<and> list_all public_text_block blocks)
     else k = ''arguments'' \<and> private_free v)"

definition public_member :: "string \<times> frame_value \<Rightarrow> bool" where
  "public_member = (\<lambda>(k, v).
     if k \<in> {''type'', ''thread_id'', ''message''} then text_value v
     else k = ''item'' \<and> (\<exists>members. v = FObject members \<and> list_all public_item_member members))"

definition public_projection :: "frame_value \<Rightarrow> bool" where
  "public_projection v = (\<exists>members. v = FObject members \<and> list_all public_member members)"

lemma sanitized_private_free: "private_free (codexSanitizeToolCallArguments v)"
  by (induction v rule: codexSanitizeToolCallArguments.induct) (auto simp: list_all_iff)

lemma filter_map_id: "filter P (map f xs) = xs \<longleftrightarrow> (\<forall>x \<in> set xs. P (f x) \<and> f x = x)"
proof (induction xs)
  case (Cons x xs)
  have "length (filter P (map f xs)) \<le> length xs" by (metis length_filter_le length_map)
  then have "filter P (map f xs) \<noteq> x # xs" by (metis Suc_n_not_le_n length_Cons)
  then show ?case using Cons by auto
qed simp

lemma sanitized_id: "codexSanitizeToolCallArguments v = v \<longleftrightarrow> private_free v"
proof (induction v rule: codexSanitizeToolCallArguments.induct)
  case (1 vs)
  have "map codexSanitizeToolCallArguments vs = vs \<longleftrightarrow> (\<forall>v \<in> set vs. codexSanitizeToolCallArguments v = v)"
    by (metis (mono_tags, lifting) list.map_ident map_eq_conv)
  then show ?case using 1 by (simp add: list_all_iff)
next
  case (2 members)
  then show ?case by (fastforce simp: list_all_iff filter_map_id)
qed auto

definition public_event :: "Event \<Rightarrow> bool" where
  "public_event event = (\<exists>v. ev_raw event = encode_frame v \<and> public_projection v)"

lemma public_arguments: "codexVisibleToolCallArguments lib raw = Inr v \<Longrightarrow> private_free v"
  using sanitized_private_free by (auto simp: codexVisibleToolCallArguments_def simp del: codexSanitizeToolCallArguments.simps
      split: option.splits prod.splits frame_value.splits if_splits)

lemma public_tool_call:
  "codexVisibleToolCall lib calls item = Inr (Some v) \<Longrightarrow> \<exists>members. v = FObject members \<and> list_all public_item_member members"
  by (auto simp: codexVisibleToolCall_def Let_def public_item_member_def dest: public_arguments split: option.splits sum.splits if_splits)

lemma public_content: "codex_content lib raws = Inr blocks \<Longrightarrow> list_all public_text_block blocks"
  by (induction lib raws arbitrary: blocks rule: codex_content.induct) (auto split: option.splits prod.splits sum.splits if_splits)

lemma public_content_of: "codex_content_of lib raw = Inr blocks \<Longrightarrow> list_all public_text_block blocks"
  by (auto simp: codex_content_of_def Let_def dest: public_content split: option.splits if_splits)

lemma public_agent_message:
  "codexVisibleAgentMessage lib item = Inr (Some v) \<Longrightarrow> \<exists>members. v = FObject members \<and> list_all public_item_member members"
  by (auto simp: codexVisibleAgentMessage_def Let_def public_item_member_def dest: public_content_of split: sum.splits if_splits)

lemma public_visible:
  "codex_visible lib calls item = Inr (Some v) \<Longrightarrow> \<exists>members. v = FObject members \<and> list_all public_item_member members"
  using public_tool_call public_agent_message by (fastforce simp: codex_visible_def split: if_splits)

lemma public_error: "codexErrorEvent v text = Inr (Some event) \<Longrightarrow> public_projection v \<Longrightarrow> public_event event"
  by (auto simp: codexErrorEvent_def Let_def public_event_def split: if_splits)

lemma public_protocol: "public_projection v \<Longrightarrow> public_event (protocol_event v)"
  by (auto simp: protocol_event_def public_event_def)

lemma public_item_event: "codexItemEvent lib kind raw = Inr (Some event) \<Longrightarrow> public_event event"
  by (auto simp: codexItemEvent_def public_projection_def public_member_def public_item_member_def
      intro!: public_protocol elim!: public_error dest!: public_visible split: if_splits option.splits sum.splits)

text \<open>C33. Whatever Codex writes, an event that is parsed from it is written as an object with the public members only: its
  type and thread, an error message, and of an item its type, identifier, role, name, message, texts of type
  output_text, and arguments without a private field at any depth.\<close>

theorem codex_events_public:
  assumes "codex_ParseEvent lib frame = Inr (Some event)"
  shows "public_event event"
proof -
  have session: "public_event (e\<lparr>ev_kind := k, ev_native_session_id := s\<rparr>) = public_event e" for e k s
    by (simp add: public_event_def)
  show ?thesis
    using assms
    by (auto simp: codex_ParseEvent_def Let_def session public_projection_def public_member_def
        intro!: public_protocol elim!: public_error dest!: public_item_event split: if_splits option.splits)
qed

theorem codex_events_public_witness: "\<exists>event. codex_ParseEvent sample ''{f}'' = Inr (Some event) \<and> public_event event"
proof -
  have "codex_ParseEvent sample ''{f}'' = Inr (Some (protocol_event (FObject [(''type'', FString ''item.completed''),
      (''item'', FObject [(''type'', FString ''tool_call''), (''id'', FString []), (''name'', FString ''shell''),
        (''arguments'', FObject [(''command'', FString ''ls'')])])])))"
    by (simp add: codex_ParseEvent_def codex_envelope_def codexItemEvent_def codex_fields_def no_item_def codex_visible_def
        codex_call_types_def codexVisibleToolCall_def codex_call_def codexVisibleToolCallArguments_def
        codexPrivateToolCallArgumentFields_def Let_def parses del: fold_key.simps)
  then show ?thesis using codex_events_public by blast
qed

section \<open>What Claude projects\<close>

definition thinking :: "json_library \<Rightarrow> string \<Rightarrow> bool" where
  "thinking lib raw = (claude_block_type lib raw = Some ''thinking'')"

lemma thinking_dropped: "thinking lib raw \<Longrightarrow> parseClaudeContentBlock lib raw = Inr block \<Longrightarrow> block = None"
  by (auto simp: thinking_def parseClaudeContentBlock_def split: if_splits)

lemma content_without_thinking:
  "claude_content lib blocks = Inr content \<Longrightarrow> claude_content lib (filter (\<lambda>raw. \<not> thinking lib raw) blocks) = Inr content"
  by (induction lib blocks arbitrary: content rule: claude_content.induct) (auto dest: thinking_dropped split: sum.splits)

text \<open>C34. The reasoning of Claude has no influence on what is logged: an assistant message is projected as if its thinking blocks were not
  there. Messages whose other blocks are the same are projected alike.\<close>

theorem claude_reasoning_hidden:
  assumes "claude_content lib blocks = Inr content" and "claude_content lib blocks' = Inr content'"
    and "filter (\<lambda>raw. \<not> thinking lib raw) blocks = filter (\<lambda>raw. \<not> thinking lib raw) blocks'"
  shows "content = content'"
  using content_without_thinking [OF assms(1)] content_without_thinking [OF assms(2)] assms(3) by simp

theorem claude_reasoning_hidden_witness:
  "\<exists>content. claude_content sample [''{b}'', ''{c}''] = Inr content \<and> claude_content sample [''{c}'', ''{b}'', ''{b}''] = Inr content"
proof -
  have "claude_content sample [''{b}'', ''{c}''] = Inr [object_text [(''type'', json_string ''text''), (''text'', json_string ''shell'')]]"
    and "claude_content sample [''{c}'', ''{b}'', ''{b}''] = Inr [object_text [(''type'', json_string ''text''), (''text'', json_string ''shell'')]]"
    and "filter (\<lambda>raw. \<not> thinking sample raw) [''{b}'', ''{c}''] = filter (\<lambda>raw. \<not> thinking sample raw) [''{c}'', ''{b}'', ''{b}'']"
    by (simp_all add: parseClaudeContentBlock_def claude_block_type_def claude_thinking_block_def thinking_def parses del: fold_key.simps)
  then show ?thesis using claude_reasoning_hidden by metis
qed

section \<open>Sessions\<close>

lemma claude_assistant_session:
  "parseClaudeAssistantEvent lib event raw = Inr event' \<Longrightarrow>
     ev_kind event' = ev_kind event \<and> ev_native_session_id event' = ev_native_session_id event"
  by (auto simp: parseClaudeAssistantEvent_def Let_def split: if_splits option.splits sum.splits)

lemma claude_session:
  "claude_ParseEvent lib frame = Inr event \<Longrightarrow> (ev_kind event = EventSessionStarted) = (trim_space (ev_native_session_id event) \<noteq> [])"
  by (auto simp: claude_ParseEvent_def Let_def dest!: claude_assistant_session split: if_splits option.splits sum.splits)

lemma codex_error_session:
  "codexErrorEvent v text = Inr (Some event) \<Longrightarrow> ev_kind event \<noteq> EventSessionStarted \<and> ev_native_session_id event = []"
  by (auto simp: codexErrorEvent_def Let_def split: if_splits)

lemma codex_item_session:
  "codexItemEvent lib kind raw = Inr (Some event) \<Longrightarrow> ev_kind event \<noteq> EventSessionStarted \<and> ev_native_session_id event = []"
  by (auto simp: codexItemEvent_def protocol_event_def dest: codex_error_session split: if_splits option.splits sum.splits)

lemma codex_session:
  "codex_ParseEvent lib frame = Inr (Some event) \<Longrightarrow>
     (ev_kind event = EventSessionStarted) = (trim_space (ev_native_session_id event) \<noteq> [])"
  by (auto simp: codex_ParseEvent_def Let_def protocol_event_def dest!: codex_item_session codex_error_session
      split: if_splits option.splits)

text \<open>C35. Of both adapters, exactly the events that start a session name one, and its name is not blank.\<close>

theorem sessions_are_named:
  assumes "ParseEvent lib entry frame = Inr event"
  shows "ev_kind event = EventSessionStarted \<longleftrightarrow> trim_space (ev_native_session_id event) \<noteq> []"
  using assms claude_session codex_session
  by (auto simp: ParseEvent_def empty_event_def or_else_def split: if_splits sum.splits option.splits)

theorem sessions_are_named_witness:
  "\<exists>event. ParseEvent sample Codex ''{s}'' = Inr event \<and>
     (ev_kind event = EventSessionStarted \<longleftrightarrow> trim_space (ev_native_session_id event) \<noteq> []) \<and> ev_native_session_id event = ''shell''"
proof -
  have "\<exists>event. ParseEvent sample Codex ''{s}'' = Inr event \<and> ev_native_session_id event = ''shell''"
    by (simp add: ParseEvent_def Codex_def codexAdapterName_def claudeAdapterName_def or_else_def codex_ParseEvent_def
        codex_envelope_def protocol_event_def Let_def parses del: fold_key.simps)
  then show ?thesis using sessions_are_named by blast
qed

end
