(* ===== verification/Gitcapture.thy ===== *)
theory Gitcapture
  imports Docker
begin

text \<open>
  The capture helper (internal/gitcapture/capture.go), which runs in a container of its own: it looks at a workspace
  through a trusted view, refuses one that is not clean or does not contain the task's base, and publishes a bundle with
  the facts about it. The file system and the git command are functions of everything that was asked of
  them before; a computation keeps that history. The error of an
  ask that stands for several system calls is that of the call that failed, with its text. Go visits a map of named values in any order; here the
  order is the one in the source.
\<close>

section \<open>Texts\<close>

definition PartialName :: string where "PartialName = ''capture.partial''"
definition ReadyName :: string where "ReadyName = ''capture.ready''"
definition InspectPartialName :: string where "InspectPartialName = ''inspect.partial''"
definition InspectReadyName :: string where "InspectReadyName = ''inspect.ready''"
definition BundleName :: string where "BundleName = ''result.bundle''"
definition FactsName :: string where "FactsName = ''facts.json''"

definition helper_error :: "string \<Rightarrow> derror" where
  "helper_error text = errors_New (''capture helper: '' @ text)"

text \<open>The two patterns.\<close>

definition object_id :: "string \<Rightarrow> bool" where
  "object_id s = (40 \<le> length s \<and> length s \<le> 64 \<and> (\<forall>c \<in> set s. in_range 48 57 c \<or> in_range 97 102 c))"

definition word_char :: "char \<Rightarrow> bool" where
  "word_char c = (in_range 48 57 c \<or> in_range 65 90 c \<or> in_range 97 122 c)"

definition ref_pattern :: "string \<Rightarrow> bool" where
  "ref_pattern s =
     (take 5 s = ''refs/'' \<and> (case drop 5 s of [] \<Rightarrow> False
        | c # cs \<Rightarrow> word_char c \<and> (\<forall>d \<in> set cs. word_char d \<or> d \<in> set ''._/-'')))"

definition has_suffix :: "string \<Rightarrow> string \<Rightarrow> bool" where
  "has_suffix suffix s = (take (length suffix) (rev s) = rev suffix)"

definition validRef :: "string \<Rightarrow> bool" where
  "validRef ref = (ref_pattern ref \<and> \<not> contains ref ''..'' \<and> \<not> contains ref ''//'' \<and> \<not> has_suffix ''.lock'' ref)"

text \<open>\<open>strings.CutPrefix\<close>.\<close>

definition cut_prefix :: "string \<Rightarrow> string \<Rightarrow> string option" where
  "cut_prefix prefix s = (if take (length prefix) s = prefix then Some (drop (length prefix) s) else None)"

section \<open>The helper's world\<close>

record Request =
  rq_workspace :: string
  rq_handoff :: string
  rq_expected_head :: string
  rq_base_sha :: string
  rq_source_sha :: string
  rq_maximum_bundle_bytes :: int
  rq_maximum_objects :: int

record Fact =
  ft_head_sha :: string
  ft_status_digest :: string
  ft_object_count :: int
  ft_bundle_bytes :: int
  ft_clean :: bool
  ft_unfinished :: bool

record InspectRequest =
  ir_workspace :: string
  ir_handoff :: string
  ir_maximum_objects :: int

text \<open>What is asked of the file system and of git. A file that was not there yet is created with its content and
  synchronized; a bundle is what git writes, cut off behind a limit.\<close>

datatype ask = Lstat string | ReadFile string | RemoveTree string | MakeDir string | SetMode string | MakeTemp string
  | WriteText string string | CreateText string string | RunGit "string list" "string list"
  | CountLines "string list" "string list" | StreamTo string "string list" "string list"
  | SyncDir string | MoveTo string string

record entry =
  en_symlink :: bool
  en_directory :: bool
  en_regular :: bool
  en_size :: int

text \<open>A git command that failed: its exit code, if it exited, and the error.\<close>

record git_failure =
  gf_exit :: "int option"
  gf_error :: derror
  gf_stderr :: string

text \<open>The lines a command wrote, up to the limit of the scanner.\<close>

record git_lines =
  gl_count :: nat
  gl_scan_error :: "derror option"
  gl_wait_error :: "derror option"
  gl_stderr :: string

record git_stream =
  gs_bytes :: nat
  gs_copy_error :: "derror option"
  gs_wait_error :: "derror option"
  gs_stderr :: string
  gs_sync_error :: "derror option"
  gs_close_error :: "derror option"

record helper_world =
  hw_lstat :: "ask list \<Rightarrow> string \<Rightarrow> derror + entry"
  hw_read :: "ask list \<Rightarrow> string \<Rightarrow> derror + string"
  hw_done :: "ask list \<Rightarrow> ask \<Rightarrow> derror option"
  hw_temp :: "ask list \<Rightarrow> string \<Rightarrow> derror + string"
  hw_git :: "ask list \<Rightarrow> string list \<Rightarrow> string list \<Rightarrow> git_failure + string"
  hw_lines :: "ask list \<Rightarrow> string list \<Rightarrow> string list \<Rightarrow> derror + git_lines"
  hw_opens :: "ask list \<Rightarrow> string \<Rightarrow> derror option"
  hw_stream :: "ask list \<Rightarrow> string list \<Rightarrow> string list \<Rightarrow> derror + git_stream"
  hw_path :: string
  hw_sha :: "string \<Rightarrow> nat list"
  hw_decode :: "string \<Rightarrow> derror + Fact"

type_synonym 'a helped = "(derror, ask list, 'a) comp"

definition asks :: "ask \<Rightarrow> (ask list \<Rightarrow> derror + 'a) \<Rightarrow> 'a helped" where
  "asks a answer = (\<lambda>h. (answer h, h @ [a]))"

definition performs :: "helper_world \<Rightarrow> ask \<Rightarrow> unit helped" where
  "performs w a = asks a (\<lambda>h. case hw_done w h a of None \<Rightarrow> Inr () | Some e \<Rightarrow> Inl e)"

definition attempted :: "'a helped \<Rightarrow> (derror + 'a) helped" where
  "attempted m = (\<lambda>h. case m h of (r, h') \<Rightarrow> (Inr r, h'))"

definition prefixing :: "string \<Rightarrow> 'a helped \<Rightarrow> 'a helped" where
  "prefixing text m = (\<lambda>h. case m h of (Inl e, h') \<Rightarrow> (Inl (prefixed (''capture helper: '' @ text) e), h') | ok \<Rightarrow> ok)"

text \<open>A deferred removal, whose error is dropped; the second one only happens after a failure.\<close>

definition removing :: "helper_world \<Rightarrow> string \<Rightarrow> 'a helped \<Rightarrow> 'a helped" where
  "removing w path m = (\<lambda>h. case m h of (r, h') \<Rightarrow> (r, snd (performs w (RemoveTree path) h')))"

definition removing_unless_published :: "helper_world \<Rightarrow> string \<Rightarrow> (bool \<times> 'a) helped \<Rightarrow> 'a helped" where
  "removing_unless_published w path m = (\<lambda>h. case m h of
      (Inl e, h') \<Rightarrow> (Inl e, snd (performs w (RemoveTree path) h'))
    | (Inr (moved, x), h') \<Rightarrow> (Inr x, if moved then h' else snd (performs w (RemoveTree path) h')))"

definition lstat :: "helper_world \<Rightarrow> string \<Rightarrow> entry helped" where
  "lstat w path = asks (Lstat path) (\<lambda>h. hw_lstat w h path)"

definition direct_directory :: "derror + entry \<Rightarrow> bool" where
  "direct_directory info = (case info of Inl _ \<Rightarrow> False | Inr i \<Rightarrow> \<not> en_symlink i \<and> en_directory i)"

definition readSmallRegular :: "helper_world \<Rightarrow> string \<Rightarrow> int \<Rightarrow> string helped" where
  "readSmallRegular w path limit =
    andthen (lstat w path) (\<lambda>info.
    andthen (reject (en_symlink info \<or> \<not> en_regular info \<or> limit < en_size info)
       (errors_New ''file is not a bounded direct regular file'')) (\<lambda>_.
    asks (ReadFile path) (\<lambda>h. hw_read w h path)))"

text \<open>The output that is kept of a command.\<close>

definition limited :: "string \<Rightarrow> string" where
  "limited text = take (2 ^ 20) text"

definition command_error :: "string list \<Rightarrow> git_failure \<Rightarrow> derror" where
  "command_error args f =
     (gf_error f)\<lparr>de_text := ''git '' @ join '' '' args @ '': '' @ de_text (gf_error f) @ '': '' @ limited (gf_stderr f)\<rparr>"

definition runGit :: "helper_world \<Rightarrow> string list \<Rightarrow> string list \<Rightarrow> (git_failure + string) helped" where
  "runGit w env args = asks (RunGit env args) (\<lambda>h. Inr (case hw_git w h env args of Inl f \<Rightarrow> Inl f | Inr out \<Rightarrow> Inr (limited out)))"

definition git_output :: "helper_world \<Rightarrow> string list \<Rightarrow> string list \<Rightarrow> string helped" where
  "git_output w env args =
    andthen (runGit w env args) (\<lambda>r. case r of Inl f \<Rightarrow> throw (command_error args f) | Inr out \<Rightarrow> ret out)"

section \<open>The facts\<close>

definition emptyStatusDigest :: "helper_world \<Rightarrow> string" where
  "emptyStatusDigest w = hex_encode (hw_sha w [])"

definition fact_text :: "Fact \<Rightarrow> string" where
  "fact_text f = encode_json (JObject
     [(''head_sha'', JString (ft_head_sha f)), (''status_digest'', JString (ft_status_digest f)),
      (''object_count'', JInt (ft_object_count f)), (''bundle_bytes'', JInt (ft_bundle_bytes f)),
      (''clean'', JBool (ft_clean f)), (''unfinished_operation'', JBool (ft_unfinished f))])"

definition writeFacts :: "helper_world \<Rightarrow> string \<Rightarrow> Fact \<Rightarrow> unit helped" where
  "writeFacts w path f = performs w (CreateText path (fact_text f))"

text \<open>The facts that a request accepts.\<close>

definition acceptable :: "helper_world \<Rightarrow> Request \<Rightarrow> Fact \<Rightarrow> bool" where
  "acceptable w request f =
     (ft_head_sha f = rq_expected_head request \<and> 0 < ft_object_count f \<and> ft_object_count f \<le> rq_maximum_objects request \<and>
      0 < ft_bundle_bytes f \<and> ft_bundle_bytes f \<le> rq_maximum_bundle_bytes request \<and> ft_clean f \<and> \<not> ft_unfinished f \<and>
      ft_status_digest f = emptyStatusDigest w)"

definition readyFact :: "helper_world \<Rightarrow> Request \<Rightarrow> Fact option helped" where
  "readyFact w request =
    (let ready = join_path [rq_handoff request, ReadyName] in
    andthen (attempted (lstat w ready)) (\<lambda>info.
    if (case info of Inl e \<Rightarrow> errors_Is e FileNotExist | Inr _ \<Rightarrow> False) then ret None
    else
      andthen (reject (\<not> direct_directory info) (helper_error ''ready handoff is not a direct directory'')) (\<lambda>_.
      andthen (prefixing ''read ready facts'' (readSmallRegular w (join_path [ready, FactsName]) (64 * 2 ^ 10))) (\<lambda>raw.
      andthen (prefixing ''decode ready facts'' (lift (hw_decode w raw))) (\<lambda>f.
      andthen (reject (\<not> acceptable w request f) (helper_error ''ready facts do not match request limits'')) (\<lambda>_.
      andthen (attempted (lstat w (join_path [ready, BundleName]))) (\<lambda>bundle.
      andthen (reject (case bundle of Inl _ \<Rightarrow> True | Inr i \<Rightarrow> en_symlink i \<or> \<not> en_regular i \<or> en_size i \<noteq> ft_bundle_bytes f)
         (helper_error ''ready bundle does not match facts'')) (\<lambda>_.
      ret (Some f)))))))))"

definition hex_text :: "string \<Rightarrow> bool" where
  "hex_text s = (even (length s) \<and> (\<forall>c \<in> set s. in_range 48 57 c \<or> in_range 97 102 c \<or> in_range 65 70 c))"

definition acceptable_inspection :: "InspectRequest \<Rightarrow> Fact \<Rightarrow> bool" where
  "acceptable_inspection request f =
     (object_id (ft_head_sha f) \<and> length (ft_status_digest f) = 64 \<and> 0 < ft_object_count f \<and>
      ft_object_count f \<le> ir_maximum_objects request \<and> ft_bundle_bytes f = 0)"

definition readyInspectFact :: "helper_world \<Rightarrow> InspectRequest \<Rightarrow> Fact option helped" where
  "readyInspectFact w request =
    (let ready = join_path [ir_handoff request, InspectReadyName] in
    andthen (attempted (lstat w ready)) (\<lambda>info.
    if (case info of Inl e \<Rightarrow> errors_Is e FileNotExist | Inr _ \<Rightarrow> False) then ret None
    else
      andthen (reject (\<not> direct_directory info) (helper_error ''inspect ready is not a direct directory'')) (\<lambda>_.
      andthen (prefixing ''read inspect facts'' (readSmallRegular w (join_path [ready, FactsName]) (64 * 2 ^ 10))) (\<lambda>raw.
      andthen (prefixing ''decode inspect facts'' (lift (hw_decode w raw))) (\<lambda>f.
      andthen (reject (\<not> acceptable_inspection request f)
         (helper_error ''inspect facts violate identity or object limit'')) (\<lambda>_.
      andthen (reject (\<not> hex_text (ft_status_digest f) \<or> ft_clean f \<noteq> (ft_status_digest f = emptyStatusDigest w))
         (helper_error ''inspect facts contain an invalid status digest'')) (\<lambda>_.
      ret (Some f))))))))"

section \<open>The workspace\<close>

definition directory_check :: "helper_world \<Rightarrow> string \<Rightarrow> string \<Rightarrow> unit helped" where
  "directory_check w name path =
    andthen (reject (path = [] \<or> \<not> rooted_path path \<or> clean_path path \<noteq> path)
       (helper_error (name @ '' must be canonical and absolute''))) (\<lambda>_.
    andthen (attempted (lstat w path)) (\<lambda>info.
    reject (\<not> direct_directory info) (helper_error (name @ '' must be a direct directory''))))"

definition validateRequest :: "helper_world \<Rightarrow> Request \<Rightarrow> unit helped" where
  "validateRequest w request =
    andthen (directory_check w ''workspace'' (rq_workspace request)) (\<lambda>_.
    andthen (directory_check w ''handoff'' (rq_handoff request)) (\<lambda>_.
    andthen (reject (\<not> object_id (rq_expected_head request)) (helper_error ''expected head must be an object ID'')) (\<lambda>_.
    andthen (reject (\<not> object_id (rq_base_sha request)) (helper_error ''base must be an object ID'')) (\<lambda>_.
    andthen (reject (rq_source_sha request \<noteq> [] \<and> \<not> object_id (rq_source_sha request))
       (helper_error ''source must be an object ID'')) (\<lambda>_.
    reject (rq_maximum_bundle_bytes request \<le> 0 \<or> rq_maximum_objects request \<le> 0)
       (helper_error ''positive bundle byte and object limits are required''))))))"

definition validateInspectRequest :: "helper_world \<Rightarrow> InspectRequest \<Rightarrow> unit helped" where
  "validateInspectRequest w request =
    andthen (directory_check w ''workspace'' (ir_workspace request)) (\<lambda>_.
    andthen (directory_check w ''handoff'' (ir_handoff request)) (\<lambda>_.
    reject (ir_maximum_objects request \<le> 0) (helper_error ''positive object limit is required'')))"

definition directGitDirectory :: "helper_world \<Rightarrow> string \<Rightarrow> string helped" where
  "directGitDirectory w workspace =
    (let gitDir = join_path [workspace, ''.git'']; objects = join_path [gitDir, ''objects''] in
    andthen (attempted (lstat w gitDir)) (\<lambda>info.
    andthen (reject (\<not> direct_directory info) (helper_error ''workspace Git directory must be direct'')) (\<lambda>_.
    andthen (attempted (lstat w objects)) (\<lambda>info.
    andthen (reject (\<not> direct_directory info) (helper_error ''workspace object directory must be direct'')) (\<lambda>_.
    andthen (attempted (lstat w (join_path [objects, ''info'', ''alternates'']))) (\<lambda>info.
    case info of
      Inr _ \<Rightarrow> throw (helper_error ''object alternates are forbidden'')
    | Inl e \<Rightarrow> if errors_Is e FileNotExist then ret gitDir else throw (helper_error ''inspect object alternates'')))))))"

definition packed_head :: "string \<Rightarrow> string \<Rightarrow> string option" where
  "packed_head ref packed =
     map_option hd (find (\<lambda>fields. length fields = 2 \<and> fields ! 1 = ref \<and> object_id (hd fields))
       (map space_fields (split_on (CHR 0x0A) packed)))"

definition resolve_ref :: "helper_world \<Rightarrow> string \<Rightarrow> string \<Rightarrow> string helped" where
  "resolve_ref w gitDir ref =
    andthen (attempted (readSmallRegular w (join_path [gitDir, ref]) 4096)) (\<lambda>loose.
    case loose of
      Inr raw \<Rightarrow> if object_id (trim_space raw) then ret (trim_space raw) else throw (helper_error ''loose HEAD reference is invalid'')
    | Inl e \<Rightarrow>
        if \<not> errors_Is e FileNotExist then throw (prefixed ''capture helper: read HEAD reference'' e)
        else
          andthen (prefixing ''resolve packed HEAD reference''
             (readSmallRegular w (join_path [gitDir, ''packed-refs'']) (8 * 2 ^ 20))) (\<lambda>packed.
          case packed_head ref packed of
            Some sha \<Rightarrow> ret sha
          | None \<Rightarrow> throw (helper_error ''HEAD reference is missing'')))"

definition resolveHead :: "helper_world \<Rightarrow> string \<Rightarrow> string helped" where
  "resolveHead w gitDir =
    andthen (prefixing ''read HEAD'' (readSmallRegular w (join_path [gitDir, ''HEAD'']) 4096)) (\<lambda>raw.
    let head = trim_space raw in
    if object_id head then ret head
    else case cut_prefix ''ref: '' head of
        None \<Rightarrow> throw (helper_error ''HEAD is not a valid commit reference'')
      | Some ref \<Rightarrow>
          if \<not> validRef ref then throw (helper_error ''HEAD is not a valid commit reference'') else resolve_ref w gitDir ref)"

definition fixedEnvironment :: "helper_world \<Rightarrow> string list" where
  "fixedEnvironment w =
     [''GIT_CONFIG_GLOBAL=/dev/null'', ''GIT_CONFIG_SYSTEM=/dev/null'', ''GIT_CONFIG_NOSYSTEM=1'', ''GIT_ATTR_NOSYSTEM=1'',
      ''GIT_NO_REPLACE_OBJECTS=1'', ''GIT_OPTIONAL_LOCKS=0'', ''GIT_TERMINAL_PROMPT=0'', ''LC_ALL=C''] @
     (if hw_path w = [] then [] else [''PATH='' @ hw_path w])"

definition trusted_config :: string where
  "trusted_config =
     ''[core]'' @ [CHR 0x0A, CHR 0x09] @ ''repositoryformatversion = 0'' @ [CHR 0x0A, CHR 0x09] @ ''bare = false'' @
     [CHR 0x0A, CHR 0x09] @ ''filemode = true'' @ [CHR 0x0A, CHR 0x09] @ ''fsmonitor = false'' @ [CHR 0x0A] @
     ''[protocol]'' @ [CHR 0x0A, CHR 0x09] @ ''allow = never'' @ [CHR 0x0A]"

text \<open>A repository of its own over the objects of the workspace: its configuration, hooks and attributes are not used.\<close>

definition prepareTrustedView ::
  "helper_world \<Rightarrow> string \<Rightarrow> string \<Rightarrow> string \<Rightarrow> string \<Rightarrow> (string \<times> string list) helped"
where
  "prepareTrustedView w root workspace sourceGitDir head =
    (let gitDir = join_path [root, ''.git''] in
    andthen (prefixing ''initialize trusted Git view'' (git_output w (fixedEnvironment w) [''init'', ''-q'', root])) (\<lambda>_.
    andthen (prefixing ''write trusted config'' (performs w (WriteText (join_path [gitDir, ''config'']) trusted_config))) (\<lambda>_.
    andthen (prefixing ''write trusted HEAD'' (performs w (WriteText (join_path [gitDir, ''HEAD'']) (head @ [CHR 0x0A])))) (\<lambda>_.
    andthen (prefixing ''read workspace index''
       (readSmallRegular w (join_path [sourceGitDir, ''index'']) (64 * 2 ^ 20))) (\<lambda>index.
    andthen (prefixing ''copy workspace index'' (performs w (WriteText (join_path [gitDir, ''index'']) index))) (\<lambda>_.
    ret (gitDir, fixedEnvironment w @
      [''GIT_OBJECT_DIRECTORY='' @ join_path [sourceGitDir, ''objects''], ''GIT_WORK_TREE='' @ workspace])))))))"

fun unfinished_among :: "helper_world \<Rightarrow> string \<Rightarrow> string list \<Rightarrow> bool helped" where
  "unfinished_among w gitDir [] = ret False"
| "unfinished_among w gitDir (name # names) =
    andthen (attempted (lstat w (join_path [gitDir, name]))) (\<lambda>info.
    case info of
      Inr _ \<Rightarrow> ret True
    | Inl e \<Rightarrow>
        if errors_Is e FileNotExist then unfinished_among w gitDir names
        else throw (helper_error ''inspect unfinished Git operation''))"

definition hasUnfinishedOperation :: "helper_world \<Rightarrow> string \<Rightarrow> bool helped" where
  "hasUnfinishedOperation w gitDir =
     unfinished_among w gitDir [''MERGE_HEAD'', ''CHERRY_PICK_HEAD'', ''REVERT_HEAD'', ''rebase-apply'', ''rebase-merge'']"

definition rejectUnfinishedOperation :: "helper_world \<Rightarrow> string \<Rightarrow> unit helped" where
  "rejectUnfinishedOperation w gitDir =
    andthen (hasUnfinishedOperation w gitDir) (\<lambda>unfinished.
    reject unfinished (helper_error ''workspace has an unfinished Git operation''))"

text \<open>Files without version control in the directories of build caches do not count.\<close>

definition captureIgnoredUntrackedDirs :: "string list" where
  "captureIgnoredUntrackedDirs = [''.gocache/'', ''.gotmp/'', ''.tmp/'', ''node_modules/'', ''__pycache__/'']"

definition ignored_status :: "string \<Rightarrow> bool" where
  "ignored_status line =
     (case cut_prefix ''?? '' line of
        None \<Rightarrow> False
      | Some path \<Rightarrow> list_ex (\<lambda>dir. take (length dir) path = dir) captureIgnoredUntrackedDirs)"

definition filterIgnoredStatus :: "string \<Rightarrow> string" where
  "filterIgnoredStatus status =
     join [CHR 0x0A] (filter (\<lambda>line. \<not> ignored_status line) (split_on (CHR 0x0A) status))"

definition isAncestor :: "helper_world \<Rightarrow> string list \<Rightarrow> string \<Rightarrow> string \<Rightarrow> string \<Rightarrow> bool helped" where
  "isAncestor w env gitDir ancestor head =
    (let args = [''--git-dir='' @ gitDir, ''merge-base'', ''--is-ancestor'', ancestor, head] in
    andthen (runGit w env args) (\<lambda>r.
    case r of
      Inr _ \<Rightarrow> ret True
    | Inl f \<Rightarrow> if gf_exit f = Some 1 then ret False else throw (command_error args f)))"

definition with_stderr :: "derror \<Rightarrow> string \<Rightarrow> derror" where
  "with_stderr e text = e\<lparr>de_text := de_text e @ '': '' @ limited text\<rparr>"

definition countObjects :: "helper_world \<Rightarrow> string list \<Rightarrow> string \<Rightarrow> int \<Rightarrow> int helped" where
  "countObjects w env gitDir maximum =
    (let args = [''--git-dir='' @ gitDir, ''rev-list'', ''--objects'', ''HEAD''] in
    andthen (asks (CountLines env args) (\<lambda>h. hw_lines w h env args)) (\<lambda>out.
    if maximum < int (gl_count out) then throw (helper_error ''object limit exceeded'')
    else case gl_scan_error out of
        Some e \<Rightarrow> throw (prefixed ''capture helper: count objects'' e)
      | None \<Rightarrow>
        (case gl_wait_error out of
           Some e \<Rightarrow> throw (with_stderr (prefixed ''capture helper: count objects'' e) (gl_stderr out))
         | None \<Rightarrow> ret (int (gl_count out)))))"

definition bundle_written :: "int \<Rightarrow> git_stream \<Rightarrow> derror + int" where
  "bundle_written maximum out =
     (case gs_copy_error out of
        Some e \<Rightarrow> Inl (prefixed ''capture helper: write bundle'' e)
      | None \<Rightarrow>
        if maximum < int (gs_bytes out) then Inl (helper_error ''bundle byte limit exceeded'')
        else case gs_wait_error out of
            Some e \<Rightarrow> Inl (with_stderr (prefixed ''capture helper: create bundle'' e) (gs_stderr out))
          | None \<Rightarrow>
            (case gs_sync_error out of
               Some e \<Rightarrow> Inl (prefixed ''capture helper: sync bundle'' e)
             | None \<Rightarrow>
               (case gs_close_error out of
                  Some e \<Rightarrow> Inl (prefixed ''capture helper: close bundle'' e)
                | None \<Rightarrow> Inr (int (gs_bytes out)))))"

definition writeBundle :: "helper_world \<Rightarrow> string list \<Rightarrow> string \<Rightarrow> string \<Rightarrow> int \<Rightarrow> int helped" where
  "writeBundle w env gitDir path maximum =
    (let args = [''--git-dir='' @ gitDir, ''bundle'', ''create'', ''-'', ''HEAD''] in
    andthen (prefixing ''create bundle'' (\<lambda>h. (case hw_opens w h path of None \<Rightarrow> Inr () | Some e \<Rightarrow> Inl e, h))) (\<lambda>_.
    andthen (asks (StreamTo path env args) (\<lambda>h. hw_stream w h env args)) (\<lambda>out.
    lift (bundle_written maximum out))))"

section \<open>Capture and inspection\<close>

definition partial_handoff :: "helper_world \<Rightarrow> string \<Rightarrow> string \<Rightarrow> unit helped" where
  "partial_handoff w kind partial =
    andthen (prefixing (''remove stale '' @ kind) (performs w (RemoveTree partial))) (\<lambda>_.
    andthen (prefixing (''create '' @ kind) (performs w (MakeDir partial))) (\<lambda>_.
    prefixing (''set '' @ kind @ '' access'') (performs w (SetMode partial))))"

definition status_args :: "string \<Rightarrow> string \<Rightarrow> string list" where
  "status_args gitDir workspace =
     [''--git-dir='' @ gitDir, ''--work-tree='' @ workspace, ''status'', ''--porcelain=v1'', ''--untracked-files=all'']"

definition require_ancestor :: "helper_world \<Rightarrow> string list \<Rightarrow> string \<Rightarrow> string \<Rightarrow> string \<times> string \<Rightarrow> unit helped" where
  "require_ancestor w env gitDir head named_commit =
     (case named_commit of (name, ancestor) \<Rightarrow>
      if ancestor = [] then ret ()
      else
        andthen (prefixing (''verify '' @ name @ '' ancestry'') (isAncestor w env gitDir ancestor head)) (\<lambda>included.
        reject (\<not> included) (helper_error (''workspace head does not contain immutable '' @ name))))"

text \<open>What a capture does with its trusted view; the value is the facts it measured.\<close>

definition capture_view :: "helper_world \<Rightarrow> Request \<Rightarrow> string \<Rightarrow> string \<Rightarrow> string \<Rightarrow> string \<Rightarrow> Fact helped" where
  "capture_view w request partial gitDir head root =
    andthen (prepareTrustedView w root (rq_workspace request) gitDir head) (\<lambda>(trusted, env).
    andthen (rejectUnfinishedOperation w gitDir) (\<lambda>_.
    andthen (prefixing ''inspect clean workspace'' (git_output w env (status_args trusted (rq_workspace request)))) (\<lambda>status.
    andthen (reject (trim_space (filterIgnoredStatus status) \<noteq> []) (helper_error ''workspace must be clean before capture'')) (\<lambda>_.
    andthen (require_ancestor w env trusted head (''base'', rq_base_sha request)) (\<lambda>_.
    andthen (require_ancestor w env trusted head (''source'', rq_source_sha request)) (\<lambda>_.
    andthen (countObjects w env trusted (rq_maximum_objects request)) (\<lambda>count.
    andthen (writeBundle w env trusted (join_path [partial, BundleName]) (rq_maximum_bundle_bytes request)) (\<lambda>bundleBytes.
    ret \<lparr>ft_head_sha = head, ft_status_digest = hex_encode (hw_sha w status), ft_object_count = count,
      ft_bundle_bytes = bundleBytes, ft_clean = True, ft_unfinished = False\<rparr>))))))))"

text \<open>The facts are written and synchronized before the handoff gets its final name. When the name is taken, what is
  there decides.\<close>

definition publish :: "helper_world \<Rightarrow> Fact option helped \<Rightarrow> string \<Rightarrow> string \<Rightarrow> string \<Rightarrow> string \<Rightarrow> Fact \<Rightarrow> (bool \<times> Fact) helped" where
  "publish w again what handoff partial ready f =
    andthen (writeFacts w (join_path [partial, FactsName]) f) (\<lambda>_.
    andthen (performs w (SyncDir partial)) (\<lambda>_.
    andthen (attempted (performs w (MoveTo partial ready))) (\<lambda>moved.
    case moved of
      Inl e \<Rightarrow>
        andthen again (\<lambda>found_fact.
        case found_fact of
          Some f' \<Rightarrow> ret (False, f')
        | None \<Rightarrow> throw (prefixed (''capture helper: publish '' @ what) e))
    | Inr _ \<Rightarrow>
        andthen (performs w (SyncDir handoff)) (\<lambda>_.
        ret (True, f)))))"

definition mismatched_head :: "string \<Rightarrow> string \<Rightarrow> derror" where
  "mismatched_head head expected =
     helper_error (''workspace HEAD '' @ head @ '' does not match expected head '' @ expected @
       '' (expected-head must be the post-commit workspace HEAD, i.e. `git rev-parse HEAD`, not the task base SHA)'')"

definition fresh_capture :: "helper_world \<Rightarrow> Request \<Rightarrow> Fact helped" where
  "fresh_capture w request =
    (let partial = join_path [rq_handoff request, PartialName]; ready = join_path [rq_handoff request, ReadyName] in
    andthen (partial_handoff w ''partial handoff'' partial) (\<lambda>_.
    removing_unless_published w partial (
      andthen (directGitDirectory w (rq_workspace request)) (\<lambda>gitDir.
      andthen (resolveHead w gitDir) (\<lambda>head.
      andthen (reject (head \<noteq> rq_expected_head request) (mismatched_head head (rq_expected_head request))) (\<lambda>_.
      andthen (prefixing ''create trusted Git view''
         (asks (MakeTemp ''coordplane-git-capture-'') (\<lambda>h. hw_temp w h ''coordplane-git-capture-''))) (\<lambda>root.
      removing w root (
        andthen (capture_view w request partial gitDir head root) (\<lambda>f.
        publish w (readyFact w request) ''ready handoff'' (rq_handoff request) partial ready f)))))))))"

definition Capture :: "helper_world \<Rightarrow> Request \<Rightarrow> Fact helped" where
  "Capture w request =
    andthen (validateRequest w request) (\<lambda>_.
    andthen (readyFact w request) (\<lambda>found_fact.
    case found_fact of
      Some f \<Rightarrow> ret f
    | None \<Rightarrow> fresh_capture w request))"

definition inspect_view :: "helper_world \<Rightarrow> InspectRequest \<Rightarrow> string \<Rightarrow> string \<Rightarrow> string \<Rightarrow> Fact helped" where
  "inspect_view w request gitDir head root =
    andthen (prepareTrustedView w root (ir_workspace request) gitDir head) (\<lambda>(trusted, env).
    andthen (hasUnfinishedOperation w gitDir) (\<lambda>unfinished.
    andthen (prefixing ''inspect workspace status'' (git_output w env (status_args trusted (ir_workspace request)))) (\<lambda>raw.
    let status = filterIgnoredStatus raw in
    andthen (countObjects w env trusted (ir_maximum_objects request)) (\<lambda>count.
    ret \<lparr>ft_head_sha = head, ft_status_digest = hex_encode (hw_sha w status), ft_object_count = count,
      ft_bundle_bytes = 0, ft_clean = (status = []), ft_unfinished = unfinished\<rparr>))))"

definition fresh_inspection :: "helper_world \<Rightarrow> InspectRequest \<Rightarrow> Fact helped" where
  "fresh_inspection w request =
    (let partial = join_path [ir_handoff request, InspectPartialName]; ready = join_path [ir_handoff request, InspectReadyName] in
    andthen (partial_handoff w ''inspect partial'' partial) (\<lambda>_.
    removing_unless_published w partial (
      andthen (directGitDirectory w (ir_workspace request)) (\<lambda>gitDir.
      andthen (resolveHead w gitDir) (\<lambda>head.
      andthen (prefixing ''create trusted inspect view''
         (asks (MakeTemp ''coordplane-git-inspect-'') (\<lambda>h. hw_temp w h ''coordplane-git-inspect-''))) (\<lambda>root.
      removing w root (
        andthen (inspect_view w request gitDir head root) (\<lambda>f.
        publish w (readyInspectFact w request) ''inspect ready'' (ir_handoff request) partial ready f))))))))"

definition InspectWorkspace :: "helper_world \<Rightarrow> InspectRequest \<Rightarrow> Fact helped" where
  "InspectWorkspace w request =
    andthen (validateInspectRequest w request) (\<lambda>_.
    andthen (readyInspectFact w request) (\<lambda>found_fact.
    case found_fact of
      Some f \<Rightarrow> ret f
    | None \<Rightarrow> fresh_inspection w request))"

end
