(* ===== verification/Capturing.thy ===== *)
theory Capturing
  imports Gitcapture Execution
begin

text \<open>
  What a capture guarantees, whatever the file system and git answer: the facts it returns are about the commit that
  was expected, git confirmed that it contains the base, the workspace was clean and the limits were kept; and the
  handoff only gets its final name after its contents were written and synchronized.
\<close>

section \<open>Successful steps\<close>

lemma asks_success: "asks a answer h = (Inr x, h') \<longleftrightarrow> answer h = Inr x \<and> h' = h @ [a]"
  by (auto simp: asks_def)

lemma performs_success: "performs w a h = (Inr u, h') \<longleftrightarrow> hw_done w h a = None \<and> h' = h @ [a]"
  by (auto simp: performs_def asks_success split: option.splits)

lemma prefixing_success: "prefixing text m h = (Inr x, h') \<longleftrightarrow> m h = (Inr x, h')"
  by (auto simp: prefixing_def split: prod.splits sum.splits)

lemma attempted_success: "attempted m h = (Inr r, h') \<longleftrightarrow> m h = (r, h')"
  by (auto simp: attempted_def split: prod.splits)

lemma removing_success: "removing w path m h = (Inr x, h') \<longleftrightarrow> (\<exists>h1. m h = (Inr x, h1) \<and> h' = snd (performs w (RemoveTree path) h1))"
  by (auto simp: removing_def split: prod.splits)

lemmas successes = andthen_success asks_success performs_success prefixing_success attempted_success removing_success

lemma reject_success: "reject b e h = (Inr u, h') \<longleftrightarrow> \<not> b \<and> h' = h"
  by (auto simp: reject_def throw_def ret_def)

lemma lift_success: "lift r h = (Inr x, h') \<longleftrightarrow> r = Inr x \<and> h' = h"
  by (auto simp: lift_def)

lemma ret_success: "ret x h = (Inr y, h') \<longleftrightarrow> y = x \<and> h' = h"
  by (auto simp: ret_def)

lemma throw_success: "throw e h \<noteq> (Inr y, h')"
  by (auto simp: throw_def)

section \<open>What is asked\<close>

text \<open>A step only adds to the history, and only what satisfies a predicate.\<close>

definition adds :: "(ask \<Rightarrow> bool) \<Rightarrow> 'a helped \<Rightarrow> bool" where
  "adds P m = (\<forall>h r h'. m h = (r, h') \<longrightarrow> (\<exists>new. h' = h @ new \<and> (\<forall>a \<in> set new. P a)))"

lemma addsI: "(\<And>h. \<exists>new. snd (m h) = h @ new \<and> (\<forall>a \<in> set new. P a)) \<Longrightarrow> adds P m"
  unfolding adds_def by (metis snd_conv)

lemma addsD: "adds P m \<Longrightarrow> \<exists>new. snd (m h) = h @ new \<and> (\<forall>a \<in> set new. P a)"
  unfolding adds_def by (metis prod.collapse)

lemma adds_run: "adds P m \<Longrightarrow> m h = (r, h') \<Longrightarrow> \<exists>new. h' = h @ new \<and> (\<forall>a \<in> set new. P a)"
  unfolding adds_def by blast

named_theorems adds_intro

lemma adds_basic [adds_intro]:
  "adds P (ret x)" "adds P (throw e)" "adds P (lift r)" "adds P (reject b e)"
  by (auto simp: adds_def ret_def throw_def lift_def reject_def)

lemma adds_asks [adds_intro]: "P a \<Longrightarrow> adds P (asks a answer)"
  by (auto simp: adds_def asks_def)

lemma adds_performs [adds_intro]: "P a \<Longrightarrow> adds P (performs w a)"
  by (auto simp: performs_def intro: adds_asks)

lemma adds_wrapped [adds_intro]: "adds P m \<Longrightarrow> adds P (attempted m)" "adds P m \<Longrightarrow> adds P (prefixing text m)"
  by (auto simp: adds_def attempted_def prefixing_def split: prod.splits sum.splits)

lemma adds_removing:
  "adds P m \<Longrightarrow> P (RemoveTree path) \<Longrightarrow> adds P (removing w path m)"
  "adds P m' \<Longrightarrow> P (RemoveTree path) \<Longrightarrow> adds P (removing_unless_published w path m')"
  by (auto simp: adds_def removing_def removing_unless_published_def performs_def asks_def split: prod.splits sum.splits if_splits)
     fastforce+

lemma adds_andthen [adds_intro]:
  assumes "adds P m" and "\<And>x. adds P (k x)"
  shows "adds P (andthen m k)"
proof (rule addsI)
  fix h
  obtain r h1 where m: "m h = (r, h1)" by (cases "m h")
  obtain new where new: "h1 = h @ new" "\<forall>a \<in> set new. P a" using addsD [OF assms(1), of h] m by auto
  show "\<exists>new. snd (andthen m k h) = h @ new \<and> (\<forall>a \<in> set new. P a)"
  proof (cases r)
    case (Inl e)
    then show ?thesis using m new by (auto simp: andthen_def)
  next
    case (Inr x)
    obtain more where "snd (k x h1) = h1 @ more" "\<forall>a \<in> set more. P a" using addsD [OF assms(2)] by blast
    then have "snd (andthen m k h) = h @ (new @ more) \<and> (\<forall>a \<in> set (new @ more). P a)"
      using m new Inr by (auto simp: andthen_def)
    then show ?thesis by blast
  qed
qed

lemma adds_cases [adds_intro]:
  "\<lbrakk>b \<Longrightarrow> adds P m; \<not> b \<Longrightarrow> adds P m'\<rbrakk> \<Longrightarrow> adds P (if b then m else m')"
  "\<lbrakk>\<And>e. adds P (f e); \<And>x. adds P (g x)\<rbrakk> \<Longrightarrow> adds P (case r of Inl e \<Rightarrow> f e | Inr x \<Rightarrow> g x)"
  "\<lbrakk>adds P n; \<And>x. adds P (g' x)\<rbrakk> \<Longrightarrow> adds P (case o' of None \<Rightarrow> n | Some x \<Rightarrow> g' x)"
  "\<lbrakk>\<And>x y. adds P (p x y)\<rbrakk> \<Longrightarrow> adds P (case q of (x, y) \<Rightarrow> p x y)"
  by (auto split: sum.splits option.splits prod.splits)

text \<open>The move of a handoff to its final name is one ask among the others.\<close>

definition moves :: "ask \<Rightarrow> bool" where
  "moves a = (\<exists>partial ready. a = MoveTo partial ready)"

abbreviation quiet :: "'a helped \<Rightarrow> bool" where
  "quiet m \<equiv> adds (\<lambda>a. \<not> moves a) m"

lemma not_moves [simp]:
  "\<not> moves (Lstat p)" "\<not> moves (ReadFile p)" "\<not> moves (RemoveTree p)" "\<not> moves (MakeDir p)" "\<not> moves (SetMode p)"
  "\<not> moves (MakeTemp p)" "\<not> moves (WriteText p t)" "\<not> moves (CreateText p t)" "\<not> moves (RunGit env args)"
  "\<not> moves (CountLines env args)" "\<not> moves (StreamTo p env args)" "\<not> moves (SyncDir p)"
  by (simp_all add: moves_def)

lemma quiet_reads [adds_intro]:
  "quiet (lstat w path)" "quiet (readSmallRegular w path limit)" "quiet (runGit w env args)" "quiet (git_output w env args)"
  unfolding lstat_def readSmallRegular_def runGit_def git_output_def by (intro adds_intro | simp add: lstat_def)+

lemma quiet_ready [adds_intro]: "quiet (readyFact w request)" "quiet (directory_check w name path)"
  unfolding readyFact_def directory_check_def Let_def by (intro adds_intro)+

lemma quiet_workspace [adds_intro]:
  "quiet (validateRequest w request)" "quiet (directGitDirectory w workspace)" "quiet (resolveHead w gitDir)"
  "quiet (prepareTrustedView w root workspace gitDir head)"
  unfolding validateRequest_def directGitDirectory_def resolveHead_def resolve_ref_def prepareTrustedView_def Let_def
  by (intro adds_intro not_moves)+

lemma quiet_unfinished [adds_intro]: "quiet (unfinished_among w gitDir names)"
  by (induction names) (auto intro!: adds_intro)

lemma quiet_measures [adds_intro]:
  "quiet (rejectUnfinishedOperation w gitDir)" "quiet (require_ancestor w env gitDir head named_commit)"
  "quiet (countObjects w env gitDir limit)"
  unfolding rejectUnfinishedOperation_def hasUnfinishedOperation_def require_ancestor_def isAncestor_def countObjects_def Let_def
  by (intro adds_intro not_moves)+

lemma quiet_bundle [adds_intro]: "quiet (writeBundle w env gitDir path limit)"
proof -
  have "quiet (\<lambda>h. (r h, h))" for r by (auto simp: adds_def)
  then show ?thesis unfolding writeBundle_def Let_def by (intro adds_intro not_moves)
qed

lemma quiet_view [adds_intro]: "quiet (capture_view w request partial gitDir head root)"
  unfolding capture_view_def by (intro adds_intro)

lemma quiet_partial [adds_intro]: "quiet (partial_handoff w kind partial)"
  unfolding partial_handoff_def by (intro adds_intro not_moves)

section \<open>Facts\<close>

lemma readyFact_acceptable: "readyFact w request h = (Inr (Some f), h') \<Longrightarrow> acceptable w request f"
  by (auto simp: readyFact_def Let_def successes reject_success lift_success ret_success split: if_splits)

lemma countObjects_le: "countObjects w env gitDir maximum h = (Inr n, h') \<Longrightarrow> 0 \<le> n \<and> n \<le> maximum"
  by (auto simp: countObjects_def Let_def andthen_success ret_success throw_success split: if_splits option.splits)

text \<open>Git was asked a command in the course of a history and gave an output.\<close>

definition git_answered :: "helper_world \<Rightarrow> ask list \<Rightarrow> string list \<Rightarrow> string list \<Rightarrow> string \<Rightarrow> bool" where
  "git_answered w past env args out =
     (\<exists>before after. past = before @ RunGit env args # after \<and> hw_git w before env args = Inr out)"

lemma git_answered_append: "git_answered w past env args out \<Longrightarrow> git_answered w (past @ new) env args out"
  unfolding git_answered_def by fastforce

lemma runGit_answered:
  "runGit w env args h = (Inr (Inr out), h') \<Longrightarrow> \<exists>raw. git_answered w h' env args raw \<and> out = limited raw"
  by (auto simp: runGit_def asks_success git_answered_def split: sum.splits)

text \<open>It said that one commit is an ancestor of another.\<close>

definition confirmed_ancestor :: "helper_world \<Rightarrow> ask list \<Rightarrow> string list \<Rightarrow> string \<Rightarrow> string \<Rightarrow> string \<Rightarrow> bool" where
  "confirmed_ancestor w past env gitDir ancestor head =
     (\<exists>out. git_answered w past env [''--git-dir='' @ gitDir, ''merge-base'', ''--is-ancestor'', ancestor, head] out)"

lemma isAncestor_success:
  "isAncestor w env gitDir a head h = (Inr True, h') \<Longrightarrow>
     \<exists>out. runGit w env [''--git-dir='' @ gitDir, ''merge-base'', ''--is-ancestor'', a, head] h = (Inr (Inr out), h')"
  by (simp add: isAncestor_def Let_def andthen_def throw_def ret_def split: prod.splits sum.splits if_splits)

lemma require_ancestor_confirmed:
  assumes "require_ancestor w env gitDir head (name, a) h = (Inr u, h')" and "a \<noteq> []"
  shows "confirmed_ancestor w h' env gitDir a head"
proof -
  have "isAncestor w env gitDir a head h = (Inr True, h')"
    using assms by (auto simp: require_ancestor_def successes reject_success)
  then show ?thesis using isAncestor_success runGit_answered unfolding confirmed_ancestor_def by blast
qed

lemma git_output_answered:
  "git_output w env args h = (Inr out, h') \<Longrightarrow> \<exists>raw. git_answered w h' env args raw \<and> out = limited raw"
  by (rule runGit_answered) (simp add: git_output_def andthen_def throw_def ret_def split: prod.splits sum.splits)

text \<open>What git is asked with: the fixed environment, the objects and the files of the workspace.\<close>

definition trusted_env :: "helper_world \<Rightarrow> string \<Rightarrow> string \<Rightarrow> string list" where
  "trusted_env w workspace gitDir = fixedEnvironment w @
     [''GIT_OBJECT_DIRECTORY='' @ join_path [gitDir, ''objects''], ''GIT_WORK_TREE='' @ workspace]"

lemma prepareTrustedView_result:
  "prepareTrustedView w root workspace gitDir head h = (Inr (trusted, env), h') \<Longrightarrow>
     trusted = join_path [root, ''.git''] \<and> env = trusted_env w workspace gitDir"
  by (auto simp: prepareTrustedView_def Let_def andthen_success ret_success trusted_env_def)

text \<open>What a capture established in the course of a history about the workspace with the Git directory \<open>gitDir\<close>, through the
  trusted view below \<open>root\<close>: git gave the status, which has no changes outside of build caches, and confirmed the
  ancestors; the objects were counted.\<close>

definition measured :: "helper_world \<Rightarrow> Request \<Rightarrow> string \<Rightarrow> string \<Rightarrow> string \<Rightarrow> ask list \<Rightarrow> Fact \<Rightarrow> bool" where
  "measured w request gitDir root head past f =
     (let trusted = join_path [root, ''.git'']; env = trusted_env w (rq_workspace request) gitDir in
      ft_head_sha f = head \<and> ft_clean f \<and> \<not> ft_unfinished f \<and>
      0 \<le> ft_object_count f \<and> ft_object_count f \<le> rq_maximum_objects request \<and>
      0 \<le> ft_bundle_bytes f \<and> ft_bundle_bytes f \<le> rq_maximum_bundle_bytes request \<and>
      (rq_base_sha request \<noteq> [] \<longrightarrow> confirmed_ancestor w past env trusted (rq_base_sha request) head) \<and>
      (rq_source_sha request \<noteq> [] \<longrightarrow> confirmed_ancestor w past env trusted (rq_source_sha request) head) \<and>
      (\<exists>raw. git_answered w past env (status_args trusted (rq_workspace request)) raw \<and>
         trim_space (filterIgnoredStatus (limited raw)) = [] \<and>
         ft_status_digest f = hex_encode (hw_sha w (limited raw))))"

lemma measured_append: "measured w request gitDir root head past f \<Longrightarrow> measured w request gitDir root head (past @ new) f"
  by (auto simp: measured_def Let_def confirmed_ancestor_def) (blast intro: git_answered_append)+

text \<open>A bundle was streamed: the last thing that was asked, with the number of bytes of the facts.\<close>

definition streamed :: "helper_world \<Rightarrow> Request \<Rightarrow> string \<Rightarrow> Fact \<Rightarrow> ask list \<Rightarrow> bool" where
  "streamed w request partial f past =
     (\<exists>before env args out. past = before @ [StreamTo (join_path [partial, BundleName]) env args] \<and>
        hw_stream w before env args = Inr out \<and> bundle_written (rq_maximum_bundle_bytes request) out = Inr (ft_bundle_bytes f))"

lemma bundle_written_le: "bundle_written maximum out = Inr n \<Longrightarrow> 0 \<le> n \<and> n \<le> maximum"
  by (auto simp: bundle_written_def split: option.splits if_splits)

lemma writeBundle_result:
  "writeBundle w env gitDir path maximum h = (Inr n, h') \<Longrightarrow>
     \<exists>args out. h' = h @ [StreamTo path env args] \<and> hw_stream w h env args = Inr out \<and> bundle_written maximum out = Inr n"
  by (auto simp: writeBundle_def Let_def andthen_success prefixing_success asks_success lift_success split: option.splits)

lemma capture_view_result:
  assumes "capture_view w request partial gitDir head root h = (Inr f, h')"
  shows "measured w request gitDir root head h' f" and "streamed w request partial f h'"
proof -
  let ?trusted = "join_path [root, ''.git'']" and ?env = "trusted_env w (rq_workspace request) gitDir"
  obtain h1 h2 h3 h4 h5 h6 u status count bytes where
      "git_output w ?env (status_args ?trusted (rq_workspace request)) h1 = (Inr status, h2)"
    and clean: "trim_space (filterIgnoredStatus status) = []"
    and base: "require_ancestor w ?env ?trusted head (''base'', rq_base_sha request) h2 = (Inr u, h3)"
    and source: "require_ancestor w ?env ?trusted head (''source'', rq_source_sha request) h3 = (Inr u, h4)"
    and count: "countObjects w ?env ?trusted (rq_maximum_objects request) h4 = (Inr count, h5)"
    and wrote: "writeBundle w ?env ?trusted (join_path [partial, BundleName]) (rq_maximum_bundle_bytes request) h5 = (Inr bytes, h')"
    and f: "f = \<lparr>ft_head_sha = head, ft_status_digest = hex_encode (hw_sha w status), ft_object_count = count,
      ft_bundle_bytes = bytes, ft_clean = True, ft_unfinished = False\<rparr>"
    using assms unfolding capture_view_def andthen_success prefixing_success
    by (auto simp: andthen_success prefixing_success reject_success ret_success dest!: prepareTrustedView_result)
  obtain raw where raw: "git_answered w h2 ?env (status_args ?trusted (rq_workspace request)) raw" "status = limited raw"
    using git_output_answered \<open>git_output w _ _ h1 = _\<close> by blast
  obtain n3 n4 n5 n6 where new: "h3 = h2 @ n3" "h4 = h3 @ n4" "h5 = h4 @ n5" "h' = h5 @ n6"
    using adds_run [OF quiet_measures(2) base] adds_run [OF quiet_measures(2) source] adds_run [OF quiet_measures(3) count]
      adds_run [OF quiet_bundle wrote] by blast
  have "git_answered w h' ?env (status_args ?trusted (rq_workspace request)) raw"
    unfolding new by (intro git_answered_append raw(1))
  moreover have "confirmed_ancestor w h' ?env ?trusted (rq_base_sha request) head" if "rq_base_sha request \<noteq> []"
    using require_ancestor_confirmed [OF base that] unfolding confirmed_ancestor_def new by (blast intro: git_answered_append)
  moreover have "confirmed_ancestor w h' ?env ?trusted (rq_source_sha request) head" if "rq_source_sha request \<noteq> []"
    using require_ancestor_confirmed [OF source that] unfolding confirmed_ancestor_def new by (blast intro: git_answered_append)
  moreover obtain args out where out: "h' = h5 @ [StreamTo (join_path [partial, BundleName]) ?env args]"
      "hw_stream w h5 ?env args = Inr out" "bundle_written (rq_maximum_bundle_bytes request) out = Inr bytes"
    using writeBundle_result [OF wrote] by blast
  ultimately show "measured w request gitDir root head h' f"
    using clean raw(2) countObjects_le [OF count] bundle_written_le [OF out(3)] unfolding measured_def Let_def f by auto
  show "streamed w request partial f h'" using out unfolding streamed_def f by auto
qed

text \<open>The facts were taken over from a handoff that was found ready.\<close>

definition handed_over :: "helper_world \<Rightarrow> Request \<Rightarrow> ask list \<Rightarrow> Fact \<Rightarrow> bool" where
  "handed_over w request past f =
     (acceptable w request f \<and> (\<exists>h1 h2 new. readyFact w request h1 = (Inr (Some f), h2) \<and> past = h2 @ new))"

lemma handed_over_append: "handed_over w request past f \<Longrightarrow> handed_over w request (past @ new) f"
  unfolding handed_over_def by fastforce

text \<open>The workspace's HEAD was read and led to the commit that is expected, the workspace was measured at this commit, and the
  handoff was moved to its final name.\<close>

definition captured :: "helper_world \<Rightarrow> Request \<Rightarrow> ask list \<Rightarrow> Fact \<Rightarrow> bool" where
  "captured w request past f =
     (let gitDir = join_path [rq_workspace request, ''.git''] in
      (\<exists>root. measured w request gitDir root (rq_expected_head request) past f) \<and>
      (\<exists>h1 h2 new. resolveHead w gitDir h1 = (Inr (rq_expected_head request), h2) \<and> past = h2 @ new) \<and>
      MoveTo (join_path [rq_handoff request, PartialName]) (join_path [rq_handoff request, ReadyName]) \<in> set past)"

lemma captured_append: "captured w request past f \<Longrightarrow> captured w request (past @ new) f"
  unfolding captured_def Let_def using measured_append by fastforce

lemma directGitDirectory_result: "directGitDirectory w workspace h = (Inr gitDir, h') \<Longrightarrow> gitDir = join_path [workspace, ''.git'']"
  by (simp add: directGitDirectory_def Let_def andthen_def ret_def throw_def split: prod.splits sum.splits if_splits)

lemma removing_unless_success:
  "removing_unless_published w path m h = (Inr x, h') \<Longrightarrow> \<exists>moved h1 new. m h = (Inr (moved, x), h1) \<and> h' = h1 @ new"
  by (auto simp: removing_unless_published_def performs_def asks_def split: prod.splits sum.splits if_splits)

lemma removing_result: "removing w path m h = (Inr x, h') \<Longrightarrow> \<exists>h1 new. m h = (Inr x, h1) \<and> h' = h1 @ new"
  by (auto simp: removing_def performs_def asks_def split: prod.splits)

text \<open>What follows the attempt to move the handoff, and the asks before it.\<close>

definition after_move ::
  "helper_world \<Rightarrow> Fact option helped \<Rightarrow> string \<Rightarrow> string \<Rightarrow> Fact \<Rightarrow> derror + unit \<Rightarrow> (bool \<times> Fact) helped"
where
  "after_move w again what handoff f moved =
     (case moved of
        Inl e \<Rightarrow> andthen again (\<lambda>found_fact. case found_fact of Some f' \<Rightarrow> ret (False, f')
          | None \<Rightarrow> throw (prefixed (''capture helper: publish '' @ what) e))
      | Inr _ \<Rightarrow> andthen (performs w (SyncDir handoff)) (\<lambda>_. ret (True, f)))"

lemma publish_cases:
  fixes w :: helper_world
  defines "facts \<equiv> \<lambda>partial f. CreateText (join_path [partial, FactsName]) (fact_text f)"
  assumes "publish w again what handoff partial ready f h = (r, h')"
  obtains (create) e where "r = Inl e" "h' = h @ [facts partial f]"
    | (sync) e where "r = Inl e" "h' = h @ [facts partial f, SyncDir partial]"
    | (move) moved where "hw_done w h (facts partial f) = None" "hw_done w (h @ [facts partial f]) (SyncDir partial) = None"
        "after_move w again what handoff f moved (h @ [facts partial f, SyncDir partial, MoveTo partial ready]) = (r, h')"
proof (cases "hw_done w h (facts partial f)")
  case (Some e)
  then show ?thesis
    using assms(2) create by (auto simp: facts_def publish_def writeFacts_def performs_def asks_def andthen_def)
next
  case None
  note created = None
  show ?thesis
  proof (cases "hw_done w (h @ [facts partial f]) (SyncDir partial)")
    case (Some e)
    then show ?thesis
      using assms(2) created sync by (auto simp: facts_def publish_def writeFacts_def performs_def asks_def andthen_def)
  next
    case None
    have "\<exists>moved. after_move w again what handoff f moved (h @ [facts partial f, SyncDir partial, MoveTo partial ready]) = (r, h')"
      using assms(2) created None
      by (auto simp: facts_def after_move_def publish_def writeFacts_def performs_def asks_def andthen_def attempted_def)
    then show ?thesis using move created None by blast
  qed
qed

lemma publish_result:
  assumes "publish w (readyFact w request) what handoff partial ready f h = (Inr (moved, f'), h')"
  shows "f' = f \<and> (\<exists>new. h' = h @ new \<and> MoveTo partial ready \<in> set new) \<or> handed_over w request h' f'"
  using assms
proof (cases rule: publish_cases)
  case (move m)
  show ?thesis
  proof (cases m)
    case (Inl e)
    then obtain h1 where "readyFact w request h1 = (Inr (Some f'), h')"
      using move(3) by (auto simp: after_move_def andthen_success ret_success throw_success split: option.splits)
    then show ?thesis using readyFact_acceptable unfolding handed_over_def by (metis append_Nil2)
  next
    case (Inr u)
    then show ?thesis using move(3) by (auto simp: after_move_def andthen_success performs_success ret_success)
  qed
qed simp_all

lemma fresh_capture_result:
  assumes "fresh_capture w request h = (Inr f, h')"
  shows "captured w request h' f \<or> handed_over w request h' f"
proof -
  let ?partial = "join_path [rq_handoff request, PartialName]" and ?gitDir = "join_path [rq_workspace request, ''.git'']"
  obtain moved root f0 h1 h2 h3 h4 h5 n1 n2 where
      resolved: "resolveHead w ?gitDir h1 = (Inr (rq_expected_head request), h2)" and h3: "h3 = h2 @ [MakeTemp ''coordplane-git-capture-'']"
    and view: "capture_view w request ?partial ?gitDir (rq_expected_head request) root h3 = (Inr f0, h4)"
    and pub: "publish w (readyFact w request) ''ready handoff'' (rq_handoff request) ?partial (join_path [rq_handoff request, ReadyName]) f0 h4 =
        (Inr (moved, f), h5)" and h': "h' = (h5 @ n1) @ n2"
    using assms unfolding fresh_capture_def Let_def andthen_success
    by (auto simp: andthen_success prefixing_success reject_success asks_success
        dest!: removing_unless_success removing_result directGitDirectory_result)
  obtain n3 where h4: "h4 = h3 @ n3" using adds_run [OF quiet_view view] by blast
  from publish_result [OF pub] show ?thesis
  proof
    assume "handed_over w request h5 f"
    then show ?thesis using handed_over_append unfolding h' by blast
  next
    assume "f = f0 \<and> (\<exists>new. h5 = h4 @ new \<and> MoveTo ?partial (join_path [rq_handoff request, ReadyName]) \<in> set new)"
    then obtain new where f: "f = f0" and h5: "h5 = h4 @ new" and "MoveTo ?partial (join_path [rq_handoff request, ReadyName]) \<in> set new"
      by blast
    moreover have "measured w request ?gitDir root (rq_expected_head request) h5 f0"
      unfolding h5 by (rule measured_append) (rule capture_view_result(1) [OF view])
    ultimately have "captured w request h5 f0"
      using resolved unfolding captured_def Let_def h5 h4 h3 by auto
    then show ?thesis unfolding f h' by (intro disjI1 captured_append)
  qed
qed

lemma Capture_result:
  assumes "Capture w request h = (Inr f, h')"
  shows "captured w request h' f \<or> handed_over w request h' f"
proof -
  obtain found h1 h2 where ready: "readyFact w request h1 = (Inr found, h2)"
    and rest: "(case found of Some f \<Rightarrow> ret f | None \<Rightarrow> fresh_capture w request) h2 = (Inr f, h')"
    using assms by (auto simp: Capture_def andthen_success)
  show ?thesis
  proof (cases found)
    case None
    then show ?thesis using rest fresh_capture_result by simp
  next
    case (Some f')
    then have "f = f'" "h' = h2" using rest by (simp_all add: ret_success)
    then show ?thesis using Some ready readyFact_acceptable unfolding handed_over_def by (metis append_Nil2)
  qed
qed

text \<open>C38. Whatever the file system and git answer, the facts of a successful capture are about the commit that was expected, keep the
  limits and say that the workspace is clean. Unless they were taken over from a handoff that was found ready, the capture
  read this commit from the HEAD of the workspace, and git, asked by this capture through the trusted view, showed no
  change outside of build caches and confirmed that the commit contains the base of the task and the source of
  an integration.\<close>

theorem capture_sound:
  assumes "Capture w request [] = (Inr f, h)"
  shows "ft_head_sha f = rq_expected_head request \<and> ft_clean f \<and> \<not> ft_unfinished f \<and>
    ft_object_count f \<le> rq_maximum_objects request \<and> ft_bundle_bytes f \<le> rq_maximum_bundle_bytes request \<and>
    (captured w request h f \<or> handed_over w request h f)"
  using Capture_result [OF assms] by (auto simp: captured_def handed_over_def measured_def acceptable_def Let_def)

section \<open>The order of the publication\<close>

text \<open>Before a handoff gets its final name, the workspace was measured, the bundle was streamed, the facts about both were written and the
  directory was synchronized; each of these succeeded, and they are the last that was asked.\<close>

definition prepared :: "helper_world \<Rightarrow> Request \<Rightarrow> ask list \<Rightarrow> bool" where
  "prepared w request before =
     (let partial = join_path [rq_handoff request, PartialName]; gitDir = join_path [rq_workspace request, ''.git''] in
      \<exists>earlier root f. measured w request gitDir root (rq_expected_head request) earlier f \<and> streamed w request partial f earlier \<and>
        before = earlier @ [CreateText (join_path [partial, FactsName]) (fact_text f), SyncDir partial] \<and>
        hw_done w earlier (CreateText (join_path [partial, FactsName]) (fact_text f)) = None \<and>
        hw_done w (earlier @ [CreateText (join_path [partial, FactsName]) (fact_text f)]) (SyncDir partial) = None)"

definition in_order :: "helper_world \<Rightarrow> Request \<Rightarrow> ask list \<Rightarrow> bool" where
  "in_order w request h = (\<forall>before a after. h = before @ a # after \<longrightarrow> moves a \<longrightarrow>
     a = MoveTo (join_path [rq_handoff request, PartialName]) (join_path [rq_handoff request, ReadyName]) \<and> prepared w request before)"

lemma in_order_append:
  assumes "in_order w request h" and "\<forall>a \<in> set new. \<not> moves a"
  shows "in_order w request (h @ new)"
  using assms unfolding in_order_def by (auto simp: append_eq_append_conv2 Cons_eq_append_conv append_eq_Cons_conv)

lemma in_order_move:
  "in_order w request h \<Longrightarrow> prepared w request h \<Longrightarrow>
     in_order w request (h @ [MoveTo (join_path [rq_handoff request, PartialName]) (join_path [rq_handoff request, ReadyName])])"
  unfolding in_order_def by (auto simp: append_eq_append_conv2 Cons_eq_append_conv append_eq_Cons_conv)

definition orderly :: "helper_world \<Rightarrow> Request \<Rightarrow> 'a helped \<Rightarrow> bool" where
  "orderly w request m = (\<forall>h r h'. m h = (r, h') \<longrightarrow> in_order w request h \<longrightarrow> in_order w request h')"

lemma orderly_quiet: "quiet m \<Longrightarrow> orderly w request m"
  unfolding orderly_def using adds_run in_order_append by metis

lemma orderly_andthen:
  "orderly w request m \<Longrightarrow> (\<And>x h h'. m h = (Inr x, h') \<Longrightarrow> orderly w request (k x)) \<Longrightarrow> orderly w request (andthen m k)"
  unfolding orderly_def andthen_def by (fastforce split: prod.splits sum.splits)

lemma orderly_removing: "orderly w request m \<Longrightarrow> orderly w request (removing w path m)"
  using in_order_append [of w request _ "[RemoveTree path]"]
  by (auto simp: orderly_def removing_def performs_def asks_def split: prod.splits)

lemma orderly_removing_unless: "orderly w request m \<Longrightarrow> orderly w request (removing_unless_published w path m)"
  using in_order_append [of w request _ "[RemoveTree path]"]
  by (auto simp: orderly_def removing_unless_published_def performs_def asks_def split: prod.splits sum.splits if_splits)

lemma publish_in_order:
  fixes request :: Request
  defines "partial \<equiv> join_path [rq_handoff request, PartialName]" and "ready \<equiv> join_path [rq_handoff request, ReadyName]"
  assumes "publish w again what handoff partial ready f h = (r, h')" and "in_order w request h" and "quiet again"
    and measured: "measured w request (join_path [rq_workspace request, ''.git'']) root (rq_expected_head request) h f"
    and streamed: "streamed w request partial f h"
  shows "in_order w request h'"
proof -
  let ?facts = "CreateText (join_path [partial, FactsName]) (fact_text f)"
  have facts: "in_order w request (h @ [?facts])" using assms(4) by (intro in_order_append) auto
  then have synced: "in_order w request (h @ [?facts, SyncDir partial])"
    using in_order_append [of w request "h @ [?facts]" "[SyncDir partial]"] by simp
  from assms(3) show ?thesis
  proof (cases rule: publish_cases)
    case (move m)
    have "prepared w request (h @ [?facts, SyncDir partial])"
      using measured streamed move(1,2) unfolding prepared_def Let_def partial_def by blast
    from in_order_move [OF synced this]
    have "in_order w request (h @ [?facts, SyncDir partial, MoveTo partial ready])" by (simp add: partial_def ready_def)
    moreover have "orderly w request (after_move w again what handoff f m)"
      unfolding after_move_def using assms(5) by (intro orderly_quiet adds_intro) simp_all
    ultimately show ?thesis using move(3) unfolding orderly_def by blast
  qed (use facts synced in simp_all)
qed

lemma fresh_capture_orderly: "orderly w request (fresh_capture w request)"
proof -
  let ?partial = "join_path [rq_handoff request, PartialName]" and ?gitDir = "join_path [rq_workspace request, ''.git'']"
  have main: "orderly w request (andthen (capture_view w request ?partial ?gitDir (rq_expected_head request) root) (\<lambda>f.
      publish w (readyFact w request) what handoff ?partial (join_path [rq_handoff request, ReadyName]) f))" for root what handoff
    unfolding orderly_def
  proof (intro allI impI)
    fix h r h'
    assume run: "andthen (capture_view w request ?partial ?gitDir (rq_expected_head request) root) (\<lambda>f.
      publish w (readyFact w request) what handoff ?partial (join_path [rq_handoff request, ReadyName]) f) h = (r, h')"
      and before: "in_order w request h"
    obtain seen h1 where view: "capture_view w request ?partial ?gitDir (rq_expected_head request) root h = (seen, h1)"
      by (cases "capture_view w request ?partial ?gitDir (rq_expected_head request) root h")
    have viewed: "in_order w request h1"
      using orderly_quiet [OF quiet_view] view before unfolding orderly_def by blast
    show "in_order w request h'"
    proof (cases seen)
      case (Inl e)
      then show ?thesis using run view viewed by (simp add: andthen_def)
    next
      case (Inr f)
      then have "publish w (readyFact w request) what handoff ?partial (join_path [rq_handoff request, ReadyName]) f h1 = (r, h')"
        using run view by (simp add: andthen_def)
      from publish_in_order [OF this viewed quiet_ready(1) capture_view_result [OF view [unfolded Inr]]] show ?thesis .
    qed
  qed
  have temp: "orderly w request (prefixing what (asks (MakeTemp name) answer))" for what name and answer :: "ask list \<Rightarrow> derror + string"
    by (intro orderly_quiet adds_intro not_moves)
  have checked: "orderly w request (andthen (reject (head \<noteq> rq_expected_head request) e) k)"
    if "\<And>u. head = rq_expected_head request \<Longrightarrow> orderly w request (k u)" for head e and k :: "unit \<Rightarrow> (bool \<times> Fact) helped"
    using that by (intro orderly_andthen orderly_quiet [OF adds_basic(4)]) (simp add: reject_success)
  show ?thesis
    unfolding fresh_capture_def Let_def
    by (rule orderly_andthen [OF orderly_quiet [OF quiet_partial]], rule orderly_removing_unless,
        rule orderly_andthen [OF orderly_quiet [OF quiet_workspace(2)]], drule directGitDirectory_result, hypsubst,
        rule orderly_andthen [OF orderly_quiet [OF quiet_workspace(3)]], rule checked, hypsubst,
        rule orderly_andthen [OF temp], rule orderly_removing, rule main)
qed

text \<open>C39. A handoff only gets its final name from its partial one, right after, in this order, its workspace was measured, its bundle was
  streamed, the facts about both were written and its directory was synchronized, each with success, whatever
  fails before or after.\<close>

theorem handoff_in_order: "in_order w request (snd (Capture w request []))"
proof -
  have "orderly w request (Capture w request)"
    unfolding Capture_def
    by (intro orderly_andthen orderly_quiet [OF quiet_workspace(1)] orderly_quiet [OF quiet_ready(1)])
       (auto split: option.splits intro: orderly_quiet adds_intro fresh_capture_orderly)
  moreover have "in_order w request []" by (simp add: in_order_def)
  ultimately show ?thesis unfolding orderly_def by (metis prod.collapse)
qed

text \<open>The handoff that a request finds ready: its directory, its facts and its bundle are readable and fit together.\<close>

definition finds_handoff :: "helper_world \<Rightarrow> Request \<Rightarrow> Fact \<Rightarrow> ask list \<Rightarrow> bool" where
  "finds_handoff w request f h =
     (\<exists>h1 info h2 raw h3 bundle h4. let ready = join_path [rq_handoff request, ReadyName] in
        validateRequest w request h = (Inr (), h1) \<and>
        lstat w ready h1 = (Inr info, h2) \<and> direct_directory (Inr info) \<and>
        readSmallRegular w (join_path [ready, FactsName]) (64 * 2 ^ 10) h2 = (Inr raw, h3) \<and> hw_decode w raw = Inr f \<and>
        lstat w (join_path [ready, BundleName]) h3 = (Inr bundle, h4) \<and>
        en_regular bundle \<and> \<not> en_symlink bundle \<and> en_size bundle = ft_bundle_bytes f)"

lemma finds_handoff_result:
  assumes "finds_handoff w request f h"
  shows "fst (Capture w request h) =
    (if acceptable w request f then Inr f else Inl (helper_error ''ready facts do not match request limits''))"
  using assms
  by (auto simp: finds_handoff_def Let_def Capture_def readyFact_def andthen_def attempted_def prefixing_def reject_def throw_def
      ret_def lift_def split: if_splits)

text \<open>C40. The facts of a fresh capture carry the digest of the whole status, with the files of build caches, while a handoff that is
  found ready is only accepted with the digest of an empty one. So the same request, repeated when its handoff is
  ready, gives the facts again exactly if the status was empty in this sense, and otherwise fails: after a capture
  with files in a build cache it fails.\<close>

theorem capture_repeats_iff:
  assumes "Capture w request [] = (Inr f, h)" and "\<not> handed_over w request h f"
    and "0 < ft_object_count f" and "0 < ft_bundle_bytes f" and "finds_handoff w request f h'"
  shows "\<exists>env trusted raw. git_answered w h env (status_args trusted (rq_workspace request)) raw \<and>
    trim_space (filterIgnoredStatus (limited raw)) = [] \<and>
    fst (Capture w request h') =
      (if hex_encode (hw_sha w (limited raw)) = hex_encode (hw_sha w []) then Inr f
       else Inl (helper_error ''ready facts do not match request limits''))"
proof -
  have "captured w request h f" using Capture_result [OF assms(1)] assms(2) by blast
  then show ?thesis
    using assms(3,4) finds_handoff_result [OF assms(5)]
    by (auto simp: captured_def measured_def acceptable_def emptyStatusDigest_def Let_def) blast+
qed

section \<open>A workspace with a build cache\<close>

definition sample_commit :: string where "sample_commit = replicate 40 (CHR ''a'')"

definition sample_request :: Request where
  "sample_request = \<lparr>rq_workspace = ''/w'', rq_handoff = ''/h'', rq_expected_head = sample_commit, rq_base_sha = sample_commit,
     rq_source_sha = [], rq_maximum_bundle_bytes = 9, rq_maximum_objects = 9\<rparr>"

definition sample_fact :: Fact where
  "sample_fact = \<lparr>ft_head_sha = sample_commit, ft_status_digest = ''09'', ft_object_count = 3, ft_bundle_bytes = 5,
     ft_clean = True, ft_unfinished = False\<rparr>"

text \<open>The handoff is there once something was moved.\<close>

definition sample_helper :: helper_world where
  "sample_helper =
     \<lparr>hw_lstat = (\<lambda>h path. if path \<in> {''/w'', ''/h'', ''/w/.git'', ''/w/.git/objects''} \<or>
            path = ''/h/capture.ready'' \<and> (\<exists>a \<in> set h. moves a)
          then Inr \<lparr>en_symlink = False, en_directory = True, en_regular = False, en_size = 0\<rparr>
        else if path \<in> {''/w/.git/HEAD'', ''/w/.git/index''}
          then Inr \<lparr>en_symlink = False, en_directory = False, en_regular = True, en_size = 40\<rparr>
        else if path \<in> {''/h/capture.ready/facts.json'', ''/h/capture.ready/result.bundle''}
          then Inr \<lparr>en_symlink = False, en_directory = False, en_regular = True, en_size = 5\<rparr>
        else Inl (sentinel_error FileNotExist)),
      hw_read = (\<lambda>h path. Inr (if path = ''/w/.git/HEAD'' then sample_commit else [])), hw_done = (\<lambda>h a. None),
      hw_temp = (\<lambda>h name. Inr ''/t''), hw_git = (\<lambda>h env args. Inr (if ''status'' \<in> set args then ''?? .tmp/x'' else [])),
      hw_lines = (\<lambda>h env args. Inr \<lparr>gl_count = 3, gl_scan_error = None, gl_wait_error = None, gl_stderr = []\<rparr>),
      hw_opens = (\<lambda>h path. None),
      hw_stream = (\<lambda>h env args. Inr \<lparr>gs_bytes = 5, gs_copy_error = None, gs_wait_error = None, gs_stderr = [],
        gs_sync_error = None, gs_close_error = None\<rparr>),
      hw_path = [], hw_sha = (\<lambda>s. [length s mod 256]), hw_decode = (\<lambda>raw. Inr sample_fact)\<rparr>"

lemma sample_joins:
  "join_path [''/h'', PartialName] = ''/h/capture.partial''" "join_path [''/h'', ReadyName] = ''/h/capture.ready''"
  "join_path [''/h/capture.ready'', FactsName] = ''/h/capture.ready/facts.json''"
  "join_path [''/h/capture.ready'', BundleName] = ''/h/capture.ready/result.bundle''"
  "join_path [''/w'', ''.git''] = ''/w/.git''" "join_path [''/w/.git'', ''objects''] = ''/w/.git/objects''"
  "join_path [''/w/.git/objects'', ''info'', ''alternates''] = ''/w/.git/objects/info/alternates''"
  "join_path [''/w/.git'', ''HEAD''] = ''/w/.git/HEAD''" "join_path [''/w/.git'', ''index''] = ''/w/.git/index''"
  "join_path [''/w/.git'', ''MERGE_HEAD''] = ''/w/.git/MERGE_HEAD''" "join_path [''/w/.git'', ''CHERRY_PICK_HEAD''] = ''/w/.git/CHERRY_PICK_HEAD''"
  "join_path [''/w/.git'', ''REVERT_HEAD''] = ''/w/.git/REVERT_HEAD''" "join_path [''/w/.git'', ''rebase-apply''] = ''/w/.git/rebase-apply''"
  "join_path [''/w/.git'', ''rebase-merge''] = ''/w/.git/rebase-merge''" "clean_path ''/w'' = ''/w''" "clean_path ''/h'' = ''/h''"
  by (simp_all add: join_path_def clean_path_def rooted_path_def PartialName_def ReadyName_def FactsName_def BundleName_def)

lemma sample_commit_id: "object_id sample_commit" "trim_space sample_commit = sample_commit" "sample_commit \<noteq> []"
proof -
  show "object_id sample_commit" by (simp add: object_id_def sample_commit_def in_range_def)
  show "trim_space sample_commit = sample_commit" by (rule trim_graphic) (simp add: sample_commit_def graphic_def)
  show "sample_commit \<noteq> []" by (simp add: sample_commit_def)
qed

lemma helped_runs:
  "asks a answer h = (answer h, h @ [a])" "attempted m h = (case m h of (r, h') \<Rightarrow> (Inr r, h'))"
  "prefixing text m h = (case m h of (r, h') \<Rightarrow>
     (case r of Inl e \<Rightarrow> Inl (prefixed (''capture helper: '' @ text) e) | Inr x \<Rightarrow> Inr x, h'))"
  "performs w a h = (case hw_done w h a of None \<Rightarrow> Inr () | Some e \<Rightarrow> Inl e, h @ [a])"
  "removing w path m h = (case m h of (r, h') \<Rightarrow> (r, snd (performs w (RemoveTree path) h')))"
  by (auto simp: asks_def attempted_def prefixing_def performs_def removing_def split: prod.splits sum.splits)

lemma simple_runs:
  "reject b e h = (if b then (Inl e, h) else (Inr (), h))" "ret x h = (Inr x, h)" "throw e h = (Inl e, h)" "lift r h = (r, h)"
  by (simp_all add: reject_def throw_def ret_def lift_def)

lemma sample_lstat:
  "lstat sample_helper path h = (if path \<in> {''/w'', ''/h'', ''/w/.git'', ''/w/.git/objects''} \<or>
            path = ''/h/capture.ready'' \<and> (\<exists>a \<in> set h. moves a)
          then Inr \<lparr>en_symlink = False, en_directory = True, en_regular = False, en_size = 0\<rparr>
        else if path \<in> {''/w/.git/HEAD'', ''/w/.git/index''}
          then Inr \<lparr>en_symlink = False, en_directory = False, en_regular = True, en_size = 40\<rparr>
        else if path \<in> {''/h/capture.ready/facts.json'', ''/h/capture.ready/result.bundle''}
          then Inr \<lparr>en_symlink = False, en_directory = False, en_regular = True, en_size = 5\<rparr>
        else Inl (sentinel_error FileNotExist), h @ [Lstat path])"
  by (simp add: lstat_def asks_def sample_helper_def)

lemma sample_world:
  "hw_done sample_helper h a = None" "hw_temp sample_helper h name = Inr ''/t''"
  "hw_read sample_helper h path = Inr (if path = ''/w/.git/HEAD'' then sample_commit else [])"
  "hw_git sample_helper h env args = Inr (if ''status'' \<in> set args then ''?? .tmp/x'' else [])"
  "hw_lines sample_helper h env args = Inr \<lparr>gl_count = 3, gl_scan_error = None, gl_wait_error = None, gl_stderr = []\<rparr>"
  "hw_opens sample_helper h path = None" "hw_path sample_helper = []" "hw_sha sample_helper text = [length text mod 256]"
  "hw_decode sample_helper raw = Inr sample_fact"
  "hw_stream sample_helper h env args = Inr \<lparr>gs_bytes = 5, gs_copy_error = None, gs_wait_error = None, gs_stderr = [],
     gs_sync_error = None, gs_close_error = None\<rparr>"
  by (simp_all add: sample_helper_def)

lemmas samples = andthen_run simple_runs helped_runs sample_lstat sample_world sample_joins sample_commit_id
  direct_directory_def errors_Is_def sentinel_error_def readSmallRegular_def git_output_def runGit_def

lemma sample_filtered: "limited ''?? .tmp/x'' = ''?? .tmp/x''" "filterIgnoredStatus ''?? .tmp/x'' = []" "trim_space [] = []"
proof -
  show "limited ''?? .tmp/x'' = ''?? .tmp/x''" by (simp add: limited_def)
  show "filterIgnoredStatus ''?? .tmp/x'' = []"
    by (simp add: filterIgnoredStatus_def ignored_status_def cut_prefix_def captureIgnoredUntrackedDirs_def)
  show "trim_space [] = []" by (rule trim_graphic) simp
qed

lemma results:
  "fst (andthen m k h) = (case fst (m h) of Inl e \<Rightarrow> Inl e | Inr x \<Rightarrow> fst (k x (snd (m h))))"
  "fst (prefixing text m h) = (case fst (m h) of Inl e \<Rightarrow> Inl (prefixed (''capture helper: '' @ text) e) | Inr x \<Rightarrow> Inr x)"
  "fst (attempted m h) = Inr (fst (m h))" "fst (removing w path m h) = fst (m h)"
  "fst (removing_unless_published w path m' h) = (case fst (m' h) of Inl e \<Rightarrow> Inl e | Inr (moved, x) \<Rightarrow> Inr x)"
  by (auto simp: andthen_def prefixing_def attempted_def removing_def removing_unless_published_def split: prod.splits sum.splits)

lemma sample_steps:
  "fst (prepareTrustedView sample_helper ''/t'' ''/w'' ''/w/.git'' sample_commit h) =
      Inr (join_path [''/t'', ''.git''], fixedEnvironment sample_helper @
        [''GIT_OBJECT_DIRECTORY=/w/.git/objects'', ''GIT_WORK_TREE=/w''])"
  "fst (rejectUnfinishedOperation sample_helper ''/w/.git'' h) = Inr ()"
  "fst (git_output sample_helper env (status_args gitDir ''/w'') h) = Inr ''?? .tmp/x''"
  "fst (require_ancestor sample_helper env gitDir head (name, a) h) = Inr ()"
  "fst (countObjects sample_helper env gitDir 9 h) = Inr 3"
  "fst (writeBundle sample_helper env gitDir path 9 h) = Inr 5"
proof -
  show "fst (prepareTrustedView sample_helper ''/t'' ''/w'' ''/w/.git'' sample_commit h) =
      Inr (join_path [''/t'', ''.git''], fixedEnvironment sample_helper @
        [''GIT_OBJECT_DIRECTORY=/w/.git/objects'', ''GIT_WORK_TREE=/w''])"
    by (simp add: prepareTrustedView_def Let_def samples cong: run_cong)
  show "fst (rejectUnfinishedOperation sample_helper ''/w/.git'' h) = Inr ()"
    by (simp add: rejectUnfinishedOperation_def hasUnfinishedOperation_def samples cong: run_cong)
  show "fst (git_output sample_helper env (status_args gitDir ''/w'') h) = Inr ''?? .tmp/x''"
    by (simp add: status_args_def samples sample_filtered cong: run_cong)
  show "fst (require_ancestor sample_helper env gitDir head (name, a) h) = Inr ()"
    by (simp add: require_ancestor_def isAncestor_def Let_def samples limited_def cong: run_cong)
  show "fst (countObjects sample_helper env gitDir 9 h) = Inr 3"
    by (simp add: countObjects_def Let_def samples cong: run_cong)
  show "fst (writeBundle sample_helper env gitDir path 9 h) = Inr 5"
    by (simp add: writeBundle_def bundle_written_def Let_def samples cong: run_cong)
qed

lemma sample_view:
  "fst (capture_view sample_helper sample_request partial ''/w/.git'' sample_commit ''/t'' h) = Inr sample_fact"
  by (simp add: capture_view_def results sample_steps sample_filtered simple_runs sample_request_def sample_fact_def sample_world
      hex_digits)

lemma sample_validates: "fst (validateRequest sample_helper sample_request h) = Inr ()"
  by (simp add: validateRequest_def directory_check_def sample_request_def rooted_path_def samples cong: run_cong)

lemma sample_captures: "fst (Capture sample_helper sample_request []) = Inr sample_fact"
proof -
  have "\<forall>a \<in> set (snd (validateRequest sample_helper sample_request [])). \<not> moves a"
    using addsD [OF quiet_workspace(1), of sample_helper sample_request "[]"] by fastforce
  then have "fst (readyFact sample_helper sample_request (snd (validateRequest sample_helper sample_request []))) = Inr None"
    by (auto simp: readyFact_def sample_request_def Let_def samples cong: run_cong)
  moreover have "fst (partial_handoff sample_helper kind partial h) = Inr ()" for kind partial h
    by (simp add: partial_handoff_def samples cong: run_cong)
  moreover have "fst (directGitDirectory sample_helper ''/w'' h) = Inr ''/w/.git''" for h
    by (simp add: directGitDirectory_def Let_def samples cong: run_cong)
  moreover have "fst (resolveHead sample_helper ''/w/.git'' h) = Inr sample_commit" for h
    by (simp add: resolveHead_def Let_def samples cong: run_cong)
  moreover have "fst (publish sample_helper again what handoff partial ready f h) = Inr (True, f)" for again what handoff partial ready f h
    by (simp add: publish_def writeFacts_def samples cong: run_cong)
  moreover have "rq_workspace sample_request = ''/w''" "rq_expected_head sample_request = sample_commit"
    by (simp_all add: sample_request_def)
  ultimately show ?thesis
    by (simp add: Capture_def fresh_capture_def Let_def results simple_runs sample_view sample_validates helped_runs(1) sample_world)
qed

lemma sample_finds:
  assumes "MoveTo partial ready \<in> set h"
  shows "finds_handoff sample_helper sample_request sample_fact h"
proof -
  obtain new where run: "validateRequest sample_helper sample_request h = (Inr (), h @ new)"
    using addsD [OF quiet_workspace(1), of sample_helper sample_request h] sample_validates [of h] by (metis prod.collapse)
  have "\<exists>a \<in> set (h @ new). moves a" using assms by (auto simp: moves_def)
  then show ?thesis
    unfolding finds_handoff_def run Let_def
    by (auto simp: sample_request_def samples sample_fact_def cong: run_cong)
qed

lemma sample_unacceptable: "\<not> acceptable sample_helper sample_request sample_fact"
  by (simp add: acceptable_def sample_fact_def emptyStatusDigest_def sample_world hex_digits)

theorem capture_sound_witness:
  "\<exists>h. Capture sample_helper sample_request [] = (Inr sample_fact, h) \<and> ft_head_sha sample_fact = rq_expected_head sample_request \<and>
     ft_clean sample_fact \<and> ft_bundle_bytes sample_fact \<le> rq_maximum_bundle_bytes sample_request \<and>
     captured sample_helper sample_request h sample_fact"
proof -
  obtain h where "Capture sample_helper sample_request [] = (Inr sample_fact, h)"
    using sample_captures by (metis prod.collapse)
  then show ?thesis
    using capture_sound [of sample_helper sample_request sample_fact h] sample_unacceptable by (auto simp: handed_over_def)
qed

theorem capture_repeats_iff_witness:
  "\<exists>h. Capture sample_helper sample_request [] = (Inr sample_fact, h) \<and>
     fst (Capture sample_helper sample_request h) = Inl (helper_error ''ready facts do not match request limits'')"
proof -
  obtain h where run: "Capture sample_helper sample_request [] = (Inr sample_fact, h)"
    using sample_captures by (metis prod.collapse)
  have fresh: "\<not> handed_over sample_helper sample_request h sample_fact"
    using sample_unacceptable by (simp add: handed_over_def)
  then have "captured sample_helper sample_request h sample_fact" using Capture_result [OF run] by blast
  then have found: "finds_handoff sample_helper sample_request sample_fact h"
    using sample_finds unfolding captured_def Let_def by blast
  have "limited ''?? .tmp/x'' = ''?? .tmp/x''" by (simp add: limited_def)
  then have "hex_encode (hw_sha sample_helper (limited raw)) \<noteq> hex_encode (hw_sha sample_helper [])"
    if "git_answered sample_helper h env (status_args trusted workspace) raw" for env trusted workspace raw
    using that by (auto simp: git_answered_def status_args_def sample_world hex_digits)
  then show ?thesis
    using capture_repeats_iff [OF run fresh _ _ found] run by (fastforce simp: sample_fact_def)
qed

end
