(* ===== verification/Spec2Isabelle.thy ===== *)
theory Spec2Isabelle
  imports Values Access Paging Secrecy Divergences Operation Settings Frames Capturing
begin

text \<open>
  Coordplane is a local control plane for command line coding agents, written in Go. A daemon keeps a ledger
  of projects, agents, tasks, runs and messages in SQLite, claims runnable tasks, starts one container per
  run, and lets the agent inside it report progress, send messages and request an outcome over a socket. A
  submitted result is captured in a Git repository and advanced into the canonical branch by reconcilers that
  consume durable intents. This library models the ledger and its service (src/internal/core,
  src/internal/store), the adapters (src/internal/adapter), the container contract and the Docker executor
  (src/internal/runtime), the runtime controller (src/internal/daemon), its configuration (src/internal/config) and the
  capture helper (src/internal/gitcapture), and proves what they guarantee.

  \<^bold>\<open>The parts and how they interact.\<close> A client or the daemon calls an operation of the service; the operation
  checks its input, may call Git, and runs transactions over the store. The daemon calls the service to claim
  a task, records each phase of a launch before it acts on the host, supervises the container, records how the
  run ended and cleans up; after a restart it compares the ledger with the containers that exist. Messages of
  clients and ticks of the daemon's workers interleave between transactions.

  \<^bold>\<open>The model.\<close> A Go function with a context and an error is a computation in \<open>Prelude\<close>: a function from a state
  to an error or a value, and the state it leaves. Sequencing stops at the first error, as an early return
  does. A transaction restores the tables when its body fails. Records keep the names and the fields of the Go
  structs; an enumeration is a datatype with the values the schema admits; a time the service wrote is an
  instant in nanoseconds. Go's \<open>int\<close> and \<open>int64\<close> counters are integers: they count rows, versions and retries
  and are far from their bounds; where a width matters (shifts of a retry delay, limits in bytes) the bound is
  in the definition and in a theorem.

  \<^item> \<open>Text\<close> has the functions of the standard library that are used on text and the bounded texts of
    core/service.go; \<open>Model\<close> the records of core/model.go, participant.go, role.go and the errors of errors.go;
    \<open>Fsm\<close> the transition tables of core/fsm.go.
  \<^item> \<open>Store\<close> has the tables with the keys, checks and unique indexes of store/schema.go and every operation of
    store/tx.go. \<open>Service\<close> has the shared operations: identifiers, dedupe, events, authentication
    (core/service.go, mutation.go, run_auth.go, coordination.go), with Git, clock, random source, hash and
    disk as the fields of the record \<open>service\<close> (core/ports.go).
  \<^item> \<open>Messages\<close>, \<open>Roles\<close>, \<open>Tasks\<close>, \<open>Runs\<close>, \<open>Terminal\<close>, \<open>GitFlow\<close>, \<open>Projects\<close>, \<open>Agents\<close>, \<open>Gc\<close> have the operations
    of the files of core with these subjects, each body of a transaction as a definition with the suffix
    \<open>_tx\<close>; \<open>Views\<close> and \<open>Pages\<close> the read projections and the pages of the lists (core/pagination.go,
    store/read.go, read_events.go, read_participants.go, pagination.go).
  \<^item> \<open>Adapters\<close> and \<open>Events\<close> have the adapter package: the registry, the commands of both adapters and the parsing of
    their event streams; \<open>Containers\<close> and \<open>Docker\<close> the runtime package: the contract of a container, the validation
    of an adopted one, and the executor over the client of the Docker Engine.
  \<^item> \<open>Redaction\<close>, \<open>Daemon\<close>, \<open>Materialize\<close>, \<open>Monitor\<close>, \<open>Supervise\<close>, \<open>Launch\<close>, \<open>Reconcile\<close>, \<open>Shutdown\<close> have the
    controller of src/internal/daemon: the secrets, logs and their redaction; its state and the host as a record of
    functions; ownership, files and the control directory of a run; monitors; supervision and cleanup; the
    launch in its twelve steps; adoption, orphans, the ticks of the workers and retention; the shutdown. \<open>Config\<close> has
    config/config.go: defaults, canonical paths and validation.
  \<^item> \<open>Gitcapture\<close> has gitcapture/capture.go: the program that runs in a container beside a workspace, checks it through a
    trusted view and publishes a bundle with its facts. It is a computation over the list of what it asked of the
    file system and of git, whose answers are functions of that list.

  \<^bold>\<open>Lemmas.\<close> \<open>Transitions\<close> says which changes of a row are steps, \<open>Calculus\<close> executes an operation symbolically for
  any order on databases (a locale), and \<open>Evolution\<close>, \<open>Linkage\<close> interpret it: tables only evolve along steps, and
  the invariant that ties tasks to runs is kept. \<open>Histories\<close> and \<open>Endings\<close> have one lemma per transaction,
  \<open>System\<close> the transition system of all transactions, \<open>Api\<close> the public operations as requests to it. \<open>Guarantees\<close>,
  \<open>Requests\<close> and \<open>Access\<close> derive what clients may rely on; \<open>Values\<close>, \<open>Paging\<close>, \<open>Secrecy\<close>, \<open>Adoption\<close> have the
  properties of single components, \<open>Frames\<close> those of the parsing of frames, \<open>Engine\<close> and \<open>Adopts\<close> those of the Docker
  executor, with it as the host of the daemon, \<open>Settings\<close> those of the configuration and \<open>Capturing\<close> those of the capture
  helper. \<open>Intents\<close> says what the success of an operation attests in the database,
  \<open>WriteAhead\<close> follows a computation of the daemon through success and failure (a locale interpreted on the
  daemon's state), \<open>Workers\<close> has one lemma per operation of the daemon, and \<open>Operation\<close> concludes for every
  sequence of ticks. \<open>Execution\<close> evaluates an operation on a closed world; \<open>Scenario\<close> has the closed
  worlds at which the theorems with hypotheses are applied. \<open>Divergences\<close> shows where the code departs from its own
  tables and callers.

  \<^bold>\<open>Bounds and fuel.\<close> The sweep of old logs follows the cursor of a list for at most the pages its fuel allows and
  says whether it saw the last one; the theorem on pages shows that as many pages as there are rows always
  suffice. The supervision of a run is a fold over the events of its timers and channels, the poll of
  the shutdown one over the ticks of its timer: each theorem holds for every such sequence.

  \<^bold>\<open>What is assumed of other code.\<close> Git, the disk, the clock, the random source, SHA-256, the encoding of JSON
  frames and cursors, and the Docker Engine are arguments of the definitions that use them. A
  theorem that needs something of them has it as a hypothesis: that a digest is not empty, that a cursor
  decodes to what was encoded, that what others do to the service in the meantime are requests.

  \<^bold>\<open>Not modelled.\<close> SQLite itself, its opening, migration and the validation of its schema
  (store/store.go, schema_validate.go); the executor of Git (src/internal/gitrepo), which runs git processes, and
  the container it starts for the capture helper (daemon/git_capture_helper.go, project_git.go); the HTTP transport and the web server, which decode a request and call one modelled operation; the command
  line programs; identifiers and build information; the assembly of the process and the deletion of agent
  homes. Of the daemon, the cancellation of a context in the middle of a call of the service, the hooks that exist only
  in builds for contract tests, and the parallelism of the last phase of a shutdown, whose runs
  converge one after the other here. The deletion of a task or a project is a request of the transition system,
  and the theorems that exclude it say so.
\<close>

section \<open>What holds after any history of requests\<close>

text \<open>C1. After any sequence of requests, the runs that are live are at most \<open>max_runs\<close>; every live run is
  the current run of its task, and no task and no agent has two live runs.\<close>

theorem served_single_live_run:
  assumes "served sv w" and "0 \<le> sv_max_runs sv"
  shows "int (live_runs (w_db w)) \<le> sv_max_runs sv \<and> single_live_run (w_db w)"
  using served_ok(1) [OF assms] sound_single_live_run by (auto simp: sound_def)

theorem served_single_live_run_witness:
  "int (live_runs (w_db demo_claimed)) \<le> 1 \<and> single_live_run (w_db demo_claimed)"
  using served_single_live_run [of demo demo_claimed] by simp

text \<open>C2. After any sequence of requests, the status of every task agrees with the state of its current
  run: a queued task with a run waits for a starting one, a running task has an active one, a finishing
  task has one whose outcome was requested, and a task in any other open status has none.\<close>

theorem served_task_run_agreement:
  assumes "served sv w" and "0 \<le> sv_max_runs sv"
  shows "task_run_agreement (w_db w)"
  using served_ok(1) [OF assms] by (rule sound_task_run_agreement)

theorem served_task_run_agreement_witness: "task_run_agreement (w_db demo_claimed)"
  using served_task_run_agreement [of demo demo_claimed] by simp

text \<open>C3. After any sequence of requests, every row satisfies the invariant of its table: a conversation is
  never submitted, retries stay within their limit, a run that has asked for its outcome or has ended has
  a revoked token, no message is delivered more often than allowed, a project is creating exactly
  while a Git action of it is pending, and a task with a captured head carries its grade of evidence.\<close>

theorem served_rows_ok:
  assumes "served sv w" and "0 \<le> sv_max_runs sv"
  shows "rows_ok (w_db w)"
  using served_ok(2) [OF assms] .

theorem served_rows_ok_witness: "rows_ok (w_db demo_claimed)"
  using served_rows_ok [of demo demo_claimed] by simp

text \<open>C5. Whatever requests follow, except deletions: a completed or cancelled task, a run that has ended and an
  acknowledged or cancelled message stay as they are, up to the bookkeeping of their cleanup.\<close>

theorem requests_keep_settled:
  assumes "served sv w" and "0 \<le> sv_max_runs sv" and "requests_lead sv w w'"
  shows "closed_tasks_kept (w_db w) (w_db w') \<and> ended_runs_kept (w_db w) (w_db w') \<and>
    settled_messages_kept (w_db w) (w_db w')"
  using evolves_kept [OF served_evolves [OF assms]] by simp

theorem requests_keep_settled_witness:
  "(\<exists>t. task_of (w_db demo_settled) ''tskii'' = Some t \<and> t_status t = TaskCancelled) \<and>
   (\<exists>r. run_of (w_db demo_settled) ''runiiii'' = Some r \<and> r_state r = RunFailed) \<and>
   (\<exists>m. message_of (w_db demo_settled) ''msgiii'' = Some m \<and> m_state m = MessageCancelled) \<and>
   closed_tasks_kept (w_db demo_settled) (w_db demo_replanned) \<and> ended_runs_kept (w_db demo_settled) (w_db demo_replanned) \<and>
   settled_messages_kept (w_db demo_settled) (w_db demo_replanned)"
  using requests_keep_settled [of demo demo_settled demo_replanned] demo_settled_rows by simp

text \<open>C6. Whatever requests follow, except deletions: every write of a task, counted by its version, leaves its status
  alone or moves it along one edge of \<open>ValidateTaskTransition\<close> for its kind, apart from the two moves the code makes past that
  table (a broken Git advance fails a submitted task, a human completes a waiting task without agent); so between
  two looks at a task the status has made at most as many moves as the version has grown. Version,
  generation and retry count never decrease, and what it was created with never changes.\<close>

theorem requests_refine_status_graph:
  assumes "served sv w" and "0 \<le> sv_max_runs sv" and "requests_lead sv w w'"
  shows "tasks_progress (w_db w) (w_db w')"
  using evolves_progress(1) [OF served_evolves [OF assms] served_ok(2) [OF assms(1,2)]] .

theorem requests_refine_status_graph_witness:
  "tasks_progress (w_db demo_planned) (w_db demo_settled) \<and>
   (\<exists>t. task_of (w_db demo_settled) ''tskii'' = Some t \<and> t_status t = TaskCancelled)"
  using requests_refine_status_graph [of demo demo_planned demo_settled] demo_settled_rows(1) by simp

text \<open>C7. Whatever requests follow, except deletions: the identity of a run, the intent it was launched with
  under its nonce, its container, the end of its token, its first request to stop and the outcome it asked
  for are never taken back, and its launch phase never goes back.\<close>

theorem requests_keep_commitments:
  assumes "served sv w" and "0 \<le> sv_max_runs sv" and "requests_lead sv w w'"
  shows "run_commitments_kept (w_db w) (w_db w')"
  using evolves_progress(2) [OF served_evolves [OF assms] served_ok(2) [OF assms(1,2)]] .

theorem requests_keep_commitments_witness: "run_commitments_kept (w_db demo_claimed) (w_db demo_stopped)"
  using requests_keep_commitments [of demo demo_claimed demo_stopped] demo_leads by simp

text \<open>C8. A run whose token was revoked, that has asked for its outcome or that has ended is shut out for
  good: after any further requests its token authenticates nothing and reports no progress, and the
  attempt leaves the database as it was.\<close>

theorem fenced_run_denied:
  assumes "served sv w" and "0 \<le> sv_max_runs sv" and "requests_lead sv w w'"
    and "run_of (w_db w) i = Some r" and "fenced r" and "hashToken sv token = r_token_hash r"
  shows "(\<exists>e u. authenticateRun sv token w' = (Inl e, u) \<and> w_db u = w_db w') \<and>
    (\<exists>e u. Progress sv token summary rq w' = (Inl e, u) \<and> w_db u = w_db w')"
  using fenced_denied_operations [OF fenced_denied [OF assms]] .

theorem fenced_run_denied_witness:
  "(\<exists>e u. authenticateRun demo ''tokeniiii'' demo_stopped = (Inl e, u) \<and> w_db u = w_db demo_stopped) \<and>
   (\<exists>e u. Progress demo ''tokeniiii'' ''s'' ''7'' demo_stopped = (Inl e, u) \<and> w_db u = w_db demo_stopped)"
  using demo_stopped_run
    fenced_run_denied [of demo demo_stopped demo_stopped "''runiii''" _ "''tokeniiii''" "''s''" "''7''"]
  by (auto simp: requests_lead_def fenced_def)

text \<open>C9. Whatever requests follow, except deletions: the event log is only extended, and its identifiers are the consecutive
  numbers of the sequence, in the order of the log.\<close>

theorem requests_extend_log:
  assumes "served sv w" and "0 \<le> sv_max_runs sv" and "requests_lead sv w w'"
  shows "log_ok (w_db w') \<and> log_extends (w_db w) (w_db w')"
  using served_evolves [OF assms] served_ok(3) [OF assms(1,2)] log_ok_evolves by (auto simp: evolves_def)

theorem requests_extend_log_witness:
  "log_ok (w_db demo_stopped) \<and> log_extends (w_db demo_planned) (w_db demo_stopped)"
  using requests_extend_log [of demo demo_planned demo_stopped] demo_leads by simp


text \<open>C11. A task action of the Boss that was carried out under a request identifier is carried out once: after any further
  requests, the same action with the same input succeeds again, names the same task and changes nothing,
  not even the clock. SHA-256 is only assumed to give a digest that is not empty.\<close>

theorem repeated_action_replays:
  assumes "served sv w" and "0 \<le> sv_max_runs sv" and "\<forall>s. sv_sha256 sv s \<noteq> []"
    and "action \<in> {WakeTask sv, RetryTask sv, CancelTask sv, ReworkTask sv}"
    and "trim_space (ta_token i) = []" and "trim_space (ta_request_id i) \<noteq> []"
    and "action i w = (Inr t, w1)" and "requests_lead sv w1 w2"
  shows "\<exists>t'. action i w2 = (Inr t', w2) \<and> t_id t' = t_id t"
  using action_repeats [OF assms] .

theorem repeated_action_replays_witness:
  "\<exists>t t'. fst (CancelTask demo demo_cancel_input demo_planned) = Inr t \<and>
     CancelTask demo demo_cancel_input demo_cancelled = (Inr t', demo_cancelled) \<and> t_id t' = t_id t"
proof -
  obtain t where t: "CancelTask demo demo_cancel_input demo_planned = (Inr t, demo_cancelled)"
    using demo_cancels unfolding demo_cancelled_def effect_world by (metis prod.collapse)
  have "\<exists>t'. CancelTask demo demo_cancel_input demo_cancelled = (Inr t', demo_cancelled) \<and> t_id t' = t_id t"
    by (rule repeated_action_replays [of demo demo_planned "CancelTask demo" demo_cancel_input, OF _ _ _ _ _ _ t])
       (simp_all add: requests_lead_def)
  with t show ?thesis by simp
qed

text \<open>C12. A deletion that is carried out takes a task that was closed and had no current run. After the
  bookkeeping of its messages and its source, exactly the rows of that task go, with its runs, none of
  which was live, and its messages; every other table is as before.\<close>

theorem deletion_takes_one_closed_task:
  assumes "served sv w" and "0 \<le> sv_max_runs sv" and "DeleteTask sv i w = (Inr (Some plan), w')"
  shows "\<exists>t d. task_of (w_db w) (dp_task_id plan) = Some t \<and> IsTaskClosed (t_status t) \<and> t_current_run_id t = [] \<and>
    evolves_soundly (w_db w) d \<and> task_removed d (dp_task_id plan) (w_db w')"
  using DeleteTask_removes [OF assms(3) served_ok(4) [OF assms(1,2)]] .

theorem deletion_takes_one_closed_task_witness:
  "\<exists>plan w' t d. DeleteTask demo demo_delete_input demo_cancelled = (Inr (Some plan), w') \<and>
    task_of (w_db demo_cancelled) (dp_task_id plan) = Some t \<and> IsTaskClosed (t_status t) \<and> t_current_run_id t = [] \<and>
    evolves_soundly (w_db demo_cancelled) d \<and> task_removed d (dp_task_id plan) (w_db w')"
proof -
  obtain plan w' where plan: "DeleteTask demo demo_delete_input demo_cancelled = (Inr (Some plan), w')"
    using demo_deletes by (metis prod.collapse)
  then show ?thesis
    using deletion_takes_one_closed_task [of demo demo_cancelled demo_delete_input plan w'] by auto
qed

end
